(* ===== verification/Prelude.thy ===== *)
theory Prelude
  imports Main "HOL-Library.Char_ord" "HOL-Library.List_Lexorder"
begin

text \<open>
  What every component of the model shares: results as sums, the early-return
  loop, Rust strings as their UTF-8 bytes, and tables as lists of rows.

  A Rust \<open>String\<close> is a vector of bytes that is valid UTF-8, and an Isabelle
  \<open>char\<close> is a byte, so \<open>length\<close> is \<open>str::len\<close> and a byte predicate is a
  predicate on \<open>char\<close>. The operations that look at code points (\<open>trim\<close>,
  \<open>chars().count()\<close>, \<open>char::is_control\<close>) are written over the encoded bytes.
\<close>

section \<open>Fact collections\<close>

named_theorems res_simps \<open>how a result of the error monad can be \<open>Inr\<close>\<close>
named_theorems str_simps \<open>string predicates of the model\<close>

section \<open>Results\<close>

text \<open>
  \<open>Result<T, String>\<close> is \<open>string + 'a\<close>. \<open>bail_if c e\<close> is the statement
  \<open>if c { return Err(e) }\<close>; a sequence of such statements is \<open>first_failure\<close>;
  \<open>?\<close> on a value is \<open>res_bind\<close>; a \<open>for\<close> loop whose body may return early is
  \<open>res_fold\<close>.
\<close>

type_synonym 'a res = "string + 'a"

definition bail_if :: "bool \<Rightarrow> 'e \<Rightarrow> 'e + unit" where
  "bail_if c e = (if c then Inl e else Inr ())"

fun first_failure :: "('e + unit) list \<Rightarrow> 'e + unit" where
  "first_failure [] = Inr ()"
| "first_failure (Inl e # _) = Inl e"
| "first_failure (Inr _ # cs) = first_failure cs"

fun res_bind :: "'e + 'a \<Rightarrow> ('a \<Rightarrow> 'e + 'b) \<Rightarrow> 'e + 'b" where
  "res_bind (Inl e) f = Inl e"
| "res_bind (Inr x) f = f x"

fun map_err :: "('e \<Rightarrow> 'f) \<Rightarrow> 'e + 'a \<Rightarrow> 'f + 'a" where
  "map_err f (Inl e) = Inl (f e)"
| "map_err f (Inr x) = Inr x"

definition ok_or :: "'e \<Rightarrow> 'a option \<Rightarrow> 'e + 'a" where
  "ok_or e x = (case x of None \<Rightarrow> Inl e | Some v \<Rightarrow> Inr v)"

fun res_fold :: "('s \<Rightarrow> 'a \<Rightarrow> 'e + 's) \<Rightarrow> 's \<Rightarrow> 'a list \<Rightarrow> 'e + 's" where
  "res_fold f s [] = Inr s"
| "res_fold f s (x # xs) = res_bind (f s x) (\<lambda>s'. res_fold f s' xs)"

definition is_ok :: "'e + 'a \<Rightarrow> bool" where
  "is_ok r = (case r of Inl _ \<Rightarrow> False | Inr _ \<Rightarrow> True)"

lemma bail_if_ok [simp, res_simps]: "bail_if c e = Inr u \<longleftrightarrow> \<not> c"
  by (simp add: bail_if_def)

lemma bail_if_err [simp]: "bail_if c e = Inl e' \<longleftrightarrow> c \<and> e' = e"
  by (auto simp: bail_if_def)

lemma bail_if_flip [simp]:
  "Inr u = bail_if c e \<longleftrightarrow> \<not> c"
  "Inl e' = bail_if c e \<longleftrightarrow> c \<and> e' = e"
  by (auto simp: bail_if_def)

text \<open>An early return: kept as a rule so that the branches are not rewritten first.\<close>

lemma early_return_ok [simp, res_simps]:
  "((if c then Inl e else r) = Inr x) \<longleftrightarrow> \<not> c \<and> r = Inr x"
  by simp

lemma first_failure_Cons:
  "first_failure (c # cs) = (case c of Inl e \<Rightarrow> Inl e | Inr _ \<Rightarrow> first_failure cs)"
  by (cases c) auto

lemma first_failure_ok [simp, res_simps]:
  "first_failure cs = Inr u \<longleftrightarrow> (\<forall>c \<in> set cs. c = Inr ())"
  by (induction cs rule: first_failure.induct) auto

lemma first_failure_err_mem: "first_failure cs = Inl e \<Longrightarrow> Inl e \<in> set cs"
  by (induction cs rule: first_failure.induct) auto

lemma res_bind_ok [simp, res_simps]:
  "res_bind r f = Inr y \<longleftrightarrow> (\<exists>x. r = Inr x \<and> f x = Inr y)"
  by (cases r) auto

lemma res_bind_err:
  "res_bind r f = Inl e \<longleftrightarrow> r = Inl e \<or> (\<exists>x. r = Inr x \<and> f x = Inl e)"
  by (cases r) auto

lemma res_bind_assoc:
  "res_bind (res_bind r f) g = res_bind r (\<lambda>x. res_bind (f x) g)"
  by (cases r) auto

lemma map_err_ok [simp, res_simps]: "map_err f r = Inr x \<longleftrightarrow> r = Inr x"
  by (cases r) auto

lemma ok_or_ok [simp, res_simps]: "ok_or e x = Inr v \<longleftrightarrow> x = Some v"
  by (auto simp: ok_or_def split: option.splits)

lemma is_ok_simps [simp]: "is_ok (Inr x)" "\<not> is_ok (Inl e)"
  by (simp_all add: is_ok_def)

lemma is_ok_iff: "is_ok r \<longleftrightarrow> (\<exists>x. r = Inr x)"
  by (cases r) auto

lemma unit_res_ok_iff: "(r :: 'e + unit) = Inr () \<longleftrightarrow> is_ok r"
  by (cases r) auto

lemma res_fold_append:
  "res_fold f s (xs @ ys) = res_bind (res_fold f s xs) (\<lambda>t. res_fold f t ys)"
  by (induction xs arbitrary: s) (auto simp: res_bind_assoc)

text \<open>A loop without state checks every element.\<close>

lemma res_fold_unit_ok:
  "res_fold (\<lambda>_. f) u xs = Inr v \<longleftrightarrow> (\<forall>x \<in> set xs. f x = Inr ())"
  by (induction xs arbitrary: u) auto

text \<open>
  The loop every validator uses: insert a key into a \<open>HashSet\<close>, return early when it
  is there already. It succeeds exactly on lists with distinct keys.
\<close>

lemma res_fold_distinct:
  assumes step: "\<And>seen x seen'.
    f seen x = Inr seen' \<longleftrightarrow> seen' = insert (key x) seen \<and> key x \<notin> seen \<and> P x"
  shows "res_fold f seen xs = Inr seen' \<longleftrightarrow>
    seen' = seen \<union> key ` set xs \<and> distinct (map key xs) \<and>
    key ` set xs \<inter> seen = {} \<and> (\<forall>x \<in> set xs. P x)"
proof (induction xs arbitrary: seen)
  case Nil
  then show ?case by auto
next
  case (Cons x xs)
  show ?case by (auto simp: step Cons.IH)
qed

section \<open>Bytes and ASCII classes\<close>

definition byte :: "char \<Rightarrow> nat" where
  "byte c = of_char c"

lemma byte_lt [simp]: "byte c < 256"
  by (simp add: byte_def)

lemma byte_inject [simp]: "byte c = byte d \<longleftrightarrow> c = d"
  by (simp add: byte_def)

definition is_ascii_lowercase :: "char \<Rightarrow> bool" where
  "is_ascii_lowercase c \<longleftrightarrow> 97 \<le> byte c \<and> byte c \<le> 122"

definition is_ascii_uppercase :: "char \<Rightarrow> bool" where
  "is_ascii_uppercase c \<longleftrightarrow> 65 \<le> byte c \<and> byte c \<le> 90"

definition is_ascii_digit :: "char \<Rightarrow> bool" where
  "is_ascii_digit c \<longleftrightarrow> 48 \<le> byte c \<and> byte c \<le> 57"

definition is_ascii_alphanumeric :: "char \<Rightarrow> bool" where
  "is_ascii_alphanumeric c \<longleftrightarrow>
     is_ascii_lowercase c \<or> is_ascii_uppercase c \<or> is_ascii_digit c"

definition is_ascii_hexdigit :: "char \<Rightarrow> bool" where
  "is_ascii_hexdigit c \<longleftrightarrow>
     is_ascii_digit c \<or> (97 \<le> byte c \<and> byte c \<le> 102) \<or> (65 \<le> byte c \<and> byte c \<le> 70)"

definition to_ascii_lower :: "string \<Rightarrow> string" where
  "to_ascii_lower s =
     map (\<lambda>c. if is_ascii_uppercase c then char_of (byte c + 32) else c) s"

lemma to_ascii_lower_length [simp]: "length (to_ascii_lower s) = length s"
  by (simp add: to_ascii_lower_def)

section \<open>Code points over UTF-8 bytes\<close>

text \<open>
  The code points with the Unicode property \<open>White_Space\<close>, by the length of their
  encoding: \<open>U+0009-U+000D\<close>, \<open>U+0020\<close>; \<open>U+0085\<close>, \<open>U+00A0\<close>; \<open>U+1680\<close>,
  \<open>U+2000-U+200A\<close>, \<open>U+2028\<close>, \<open>U+2029\<close>, \<open>U+202F\<close>, \<open>U+205F\<close>, \<open>U+3000\<close>.
\<close>

definition ws1 :: "char \<Rightarrow> bool" where
  "ws1 a \<longleftrightarrow> (9 \<le> byte a \<and> byte a \<le> 13) \<or> byte a = 32"

definition ws2 :: "char \<Rightarrow> char \<Rightarrow> bool" where
  "ws2 a b \<longleftrightarrow> byte a = 194 \<and> (byte b = 133 \<or> byte b = 160)"

definition ws3 :: "char \<Rightarrow> char \<Rightarrow> char \<Rightarrow> bool" where
  "ws3 a b c \<longleftrightarrow>
     (byte a = 225 \<and> byte b = 154 \<and> byte c = 128) \<or>
     (byte a = 226 \<and> byte b = 128 \<and>
        ((128 \<le> byte c \<and> byte c \<le> 138) \<or> byte c = 168 \<or> byte c = 169 \<or> byte c = 175)) \<or>
     (byte a = 226 \<and> byte b = 129 \<and> byte c = 159) \<or>
     (byte a = 227 \<and> byte b = 128 \<and> byte c = 128)"

fun trim_start :: "string \<Rightarrow> string" where
  "trim_start (a # b # c # s) =
     (if ws1 a then trim_start (b # c # s)
      else if ws2 a b then trim_start (c # s)
      else if ws3 a b c then trim_start s
      else a # b # c # s)"
| "trim_start [a, b] =
     (if ws1 a then trim_start [b] else if ws2 a b then [] else [a, b])"
| "trim_start [a] = (if ws1 a then [] else [a])"
| "trim_start [] = []"

text \<open>The same from the end: the argument is the reversed string.\<close>

fun trim_start_rev :: "string \<Rightarrow> string" where
  "trim_start_rev (c # b # a # s) =
     (if ws1 c then trim_start_rev (b # a # s)
      else if ws2 b c then trim_start_rev (a # s)
      else if ws3 a b c then trim_start_rev s
      else c # b # a # s)"
| "trim_start_rev [c, b] =
     (if ws1 c then trim_start_rev [b] else if ws2 b c then [] else [c, b])"
| "trim_start_rev [c] = (if ws1 c then [] else [c])"
| "trim_start_rev [] = []"

definition trim :: "string \<Rightarrow> string" where
  "trim s = rev (trim_start_rev (rev (trim_start s)))"

lemma trim_Nil [simp]: "trim [] = []"
  by (simp add: trim_def)

lemma trim_start_suffix: "\<exists>p. s = p @ trim_start s"
  by (induction s rule: trim_start.induct)
     (auto, (metis append_Cons)+)

lemma trim_start_rev_suffix: "\<exists>p. s = p @ trim_start_rev s"
  by (induction s rule: trim_start_rev.induct)
     (auto, (metis append_Cons)+)

lemma trim_sublist: "\<exists>p q. s = p @ trim s @ q"
proof -
  obtain p where p: "s = p @ trim_start s"
    using trim_start_suffix by blast
  obtain q where "rev (trim_start s) = q @ trim_start_rev (rev (trim_start s))"
    using trim_start_rev_suffix by blast
  then have "trim_start s = trim s @ rev q"
    by (metis rev_append rev_rev_ident trim_def)
  with p show ?thesis by metis
qed

lemma trim_length: "length (trim s) \<le> length s"
proof -
  obtain p q where "s = p @ trim s @ q" using trim_sublist by blast
  then have "length s = length p + length (trim s) + length q"
    by (metis add.assoc length_append)
  then show ?thesis by simp
qed

definition chars_count :: "string \<Rightarrow> nat" where
  "chars_count s = length (filter (\<lambda>c. \<not> (128 \<le> byte c \<and> byte c < 192)) s)"

lemma chars_count_le: "chars_count s \<le> length s"
  by (simp add: chars_count_def)

text \<open>\<open>s.chars().any(char::is_control)\<close>: \<open>U+0000-U+001F\<close> and \<open>U+007F-U+009F\<close>.\<close>

fun has_control :: "string \<Rightarrow> bool" where
  "has_control [] = False"
| "has_control (a # s) =
     (byte a < 32 \<or> byte a = 127 \<or>
      (byte a = 194 \<and> (case s of [] \<Rightarrow> False | b # _ \<Rightarrow> 128 \<le> byte b \<and> byte b \<le> 159)) \<or>
      has_control s)"

text \<open>\<open>s.lines().count()\<close>: a final line break does not open another line.\<close>

definition lines_count :: "string \<Rightarrow> nat" where
  "lines_count s =
     length (filter (\<lambda>c. byte c = 10) s) +
     (if s = [] \<or> byte (last s) = 10 then 0 else 1)"

section \<open>Prefixes, suffixes, splitting, decimal numerals\<close>

fun strip_prefix :: "string \<Rightarrow> string \<Rightarrow> string option" where
  "strip_prefix [] s = Some s"
| "strip_prefix (p # ps) [] = None"
| "strip_prefix (p # ps) (c # s) = (if p = c then strip_prefix ps s else None)"

definition strip_suffix :: "string \<Rightarrow> string \<Rightarrow> string option" where
  "strip_suffix p s = map_option rev (strip_prefix (rev p) (rev s))"

definition starts_with :: "string \<Rightarrow> string \<Rightarrow> bool" where
  "starts_with p s \<longleftrightarrow> strip_prefix p s \<noteq> None"

definition ends_with :: "string \<Rightarrow> string \<Rightarrow> bool" where
  "ends_with p s \<longleftrightarrow> strip_suffix p s \<noteq> None"

lemma strip_prefix_Some [simp, str_simps]: "strip_prefix p s = Some r \<longleftrightarrow> s = p @ r"
  by (induction p s rule: strip_prefix.induct) auto

lemma starts_with_iff [str_simps]: "starts_with p s \<longleftrightarrow> (\<exists>r. s = p @ r)"
  by (auto simp: starts_with_def)

lemma strip_suffix_Some [simp, str_simps]: "strip_suffix p s = Some r \<longleftrightarrow> s = r @ p"
  by (auto simp: strip_suffix_def) (metis rev_append rev_rev_ident)

lemma ends_with_iff [str_simps]: "ends_with p s \<longleftrightarrow> (\<exists>r. s = r @ p)"
  by (auto simp: ends_with_def)

fun contains_str :: "string \<Rightarrow> string \<Rightarrow> bool" where
  "contains_str p [] = (p = [])"
| "contains_str p (c # s) = (starts_with p (c # s) \<or> contains_str p s)"

fun split_on :: "char \<Rightarrow> string \<Rightarrow> string list" where
  "split_on d [] = [[]]"
| "split_on d (c # s) =
     (if c = d then [] # split_on d s
      else (case split_on d s of [] \<Rightarrow> [[c]] | p # ps \<Rightarrow> (c # p) # ps))"

lemma split_on_nonempty [simp]: "split_on d s \<noteq> []"
  by (induction s) (auto split: list.splits)

fun join_with :: "string \<Rightarrow> string list \<Rightarrow> string" where
  "join_with d [] = []"
| "join_with d [p] = p"
| "join_with d (p # q # ps) = p @ d @ join_with d (q # ps)"

lemma join_with_Cons: "ps \<noteq> [] \<Longrightarrow> join_with d (p # ps) = p @ d @ join_with d ps"
  by (cases ps) auto

lemma join_split: "join_with [d] (split_on d s) = s"
proof (induction s)
  case (Cons c s)
  then show ?case
    by (cases "split_on d s"; cases "tl (split_on d s)") (auto simp: join_with_Cons)
qed simp

text \<open>\<open>format!("{n}")\<close> for an unsigned integer.\<close>

fun dec :: "nat \<Rightarrow> string" where
  "dec n = (if n < 10 then [char_of (48 + n)] else dec (n div 10) @ [char_of (48 + n mod 10)])"

declare dec.simps [simp del]

lemma byte_digit: "n < 10 \<Longrightarrow> byte (char_of (48 + n)) = 48 + n"
  by (simp add: byte_def)

lemma dec_nonempty [simp]: "dec n \<noteq> []"
  by (subst dec.simps) simp

lemma dec_digits: "c \<in> set (dec n) \<Longrightarrow> is_ascii_digit c"
proof (induction n rule: dec.induct)
  case (1 n)
  then show ?case
    by (cases "n < 10") (auto simp: dec.simps [of n] is_ascii_digit_def byte_digit)
qed

fun undec :: "string \<Rightarrow> nat \<Rightarrow> nat" where
  "undec [] acc = acc"
| "undec (c # s) acc = undec s (10 * acc + (byte c - 48))"

lemma undec_append: "undec (s @ t) acc = undec t (undec s acc)"
  by (induction s arbitrary: acc) auto

lemma undec_dec [simp]: "undec (dec n) 0 = n"
proof (induction n rule: dec.induct)
  case (1 n)
  then show ?case
    by (cases "n < 10") (auto simp: dec.simps [of n] undec_append byte_digit)
qed

lemma dec_inject [simp]: "dec m = dec n \<longleftrightarrow> m = n"
  by (metis undec_dec)

lemma dec_length: "n < 10 ^ k \<Longrightarrow> 0 < k \<Longrightarrow> length (dec n) \<le> k"
proof (induction k arbitrary: n)
  case 0
  then show ?case by simp
next
  case (Suc k)
  show ?case
  proof (cases "n < 10")
    case True
    then show ?thesis by (simp add: dec.simps [of n])
  next
    case False
    with Suc.prems have "n div 10 < 10 ^ k" "0 < k"
      by (auto simp: less_mult_imp_div_less intro: gr0I)
    with Suc.IH False show ?thesis by (simp add: dec.simps [of n])
  qed
qed

section \<open>Tables\<close>

text \<open>
  A table is the list of its rows. \<open>find\<close> is \<open>SELECT ... WHERE\<close> on a key,
  \<open>update_where\<close> is \<open>UPDATE ... SET ... WHERE\<close>, \<open>count_where\<close> is
  \<open>SELECT COUNT(*)\<close>.
\<close>

definition update_where :: "('r \<Rightarrow> bool) \<Rightarrow> ('r \<Rightarrow> 'r) \<Rightarrow> 'r list \<Rightarrow> 'r list" where
  "update_where p f rows = map (\<lambda>r. if p r then f r else r) rows"

definition count_where :: "('r \<Rightarrow> bool) \<Rightarrow> 'r list \<Rightarrow> nat" where
  "count_where p rows = length (filter p rows)"

definition exists_where :: "('r \<Rightarrow> bool) \<Rightarrow> 'r list \<Rightarrow> bool" where
  "exists_where p rows = list_ex p rows"

definition max_where :: "('r \<Rightarrow> bool) \<Rightarrow> ('r \<Rightarrow> nat) \<Rightarrow> 'r list \<Rightarrow> nat" where
  "max_where p f rows = foldr (\<lambda>r m. if p r then max (f r) m else m) rows 0"

lemma exists_where_iff [simp]: "exists_where p rows \<longleftrightarrow> (\<exists>r \<in> set rows. p r)"
  by (simp add: exists_where_def list_ex_iff)

lemma count_where_0 [simp]: "count_where p rows = 0 \<longleftrightarrow> (\<forall>r \<in> set rows. \<not> p r)"
  by (auto simp: count_where_def filter_empty_conv)

lemma set_update_where:
  "set (update_where p f rows) = (\<lambda>r. if p r then f r else r) ` set rows"
  by (simp add: update_where_def)

lemma update_whereE:
  assumes "y \<in> set (update_where p f rows)"
  obtains (moved) z where "z \<in> set rows" "p z" "y = f z" | (kept) "y \<in> set rows" "\<not> p y"
  using assms unfolding set_update_where by (elim imageE) (metis (full_types))

lemma length_update_where [simp]: "length (update_where p f rows) = length rows"
  by (simp add: update_where_def)

lemma map_update_where:
  assumes "\<And>r. p r \<Longrightarrow> g (f r) = g r"
  shows "map g (update_where p f rows) = map g rows"
  using assms by (simp add: update_where_def)

lemma count_where_append [simp]:
  "count_where p (xs @ ys) = count_where p xs + count_where p ys"
  by (simp add: count_where_def)

lemma max_where_ge: "r \<in> set rows \<Longrightarrow> p r \<Longrightarrow> f r \<le> max_where p f rows"
  unfolding max_where_def by (induction rows) (auto simp: le_max_iff_disj)

lemma find_Some_mem: "find p xs = Some x \<Longrightarrow> x \<in> set xs \<and> p x"
  by (auto simp: find_Some_iff)

lemma find_update_where:
  assumes "\<And>r. p r \<Longrightarrow> q (f r) = q r"
  shows "find q (update_where p f rows) = map_option (\<lambda>r. if p r then f r else r) (find q rows)"
  using assms by (induction rows) (auto simp: update_where_def)

lemma find_append: "find p (xs @ ys) = (case find p xs of Some x \<Rightarrow> Some x | None \<Rightarrow> find p ys)"
  by (induction xs) auto

lemma find_key_distinct:
  "distinct (map key rows) \<Longrightarrow> r \<in> set rows \<Longrightarrow> find (\<lambda>x. key x = key r) rows = Some r"
  by (induction rows) force+

end
