(* ===== verification/Machines.thy ===== *)
theory Machines
  imports Prelude
begin

text \<open>
  The interfaces the components share: a guarded machine that keeps an invariant, a
  machine whose terminal states are frozen, a machine in which a token is spent at most
  once, and the update of a keyed table. Each is interpreted on the operations of the
  components that provide it.
\<close>

section \<open>Guarded machines\<close>

text \<open>
  An operation that may be refused leaves the state as it was. \<open>advance\<close> is one call of
  it by a client that goes on after a refusal, \<open>attempts\<close> a sequence of calls.
\<close>

definition advance :: "('c \<Rightarrow> 's \<Rightarrow> 'e + 's) \<Rightarrow> 'c \<Rightarrow> 's \<Rightarrow> 's" where
  "advance step c s = (case step c s of Inl _ \<Rightarrow> s | Inr s' \<Rightarrow> s')"

definition attempts :: "('c \<Rightarrow> 's \<Rightarrow> 'e + 's) \<Rightarrow> 'c list \<Rightarrow> 's \<Rightarrow> 's" where
  "attempts step cs s = fold (advance step) cs s"

lemma attempts_Nil [simp]: "attempts step [] s = s"
  by (simp add: attempts_def)

lemma attempts_Cons [simp]: "attempts step (c # cs) s = attempts step cs (advance step c s)"
  by (simp add: attempts_def)

lemma attempts_append: "attempts step (cs @ ds) s = attempts step ds (attempts step cs s)"
  by (simp add: attempts_def)

text \<open>An invariant between the calls made so far and the state.\<close>

lemma attempts_history:
  assumes "P [] s"
    and "\<And>cs c t t'. P cs t \<Longrightarrow> step c t = Inr t' \<Longrightarrow> P (cs @ [c]) t'"
    and "\<And>cs c t. P cs t \<Longrightarrow> P (cs @ [c]) t"
  shows "P cs (attempts step cs s)"
proof (induction cs rule: rev_induct)
  case Nil
  then show ?case using assms(1) by simp
next
  case (snoc c cs)
  then show ?case
    using assms(2,3) by (auto simp: attempts_append advance_def split: sum.splits)
qed

locale guarded_machine =
  fixes step :: "'c \<Rightarrow> 's \<Rightarrow> 'e + 's" and inv :: "'s \<Rightarrow> bool"
  assumes preserve: "inv s \<Longrightarrow> step c s = Inr s' \<Longrightarrow> inv s'"
begin

lemma advance_inv: "inv s \<Longrightarrow> inv (advance step c s)"
  using preserve by (auto simp: advance_def split: sum.splits)

lemma attempts_inv: "inv s \<Longrightarrow> inv (attempts step cs s)"
  by (induction cs arbitrary: s) (simp_all add: advance_inv)

end

text \<open>
  A machine with terminal states: what \<open>view\<close> shows of a terminal state is what it
  shows for ever.
\<close>

locale frozen_machine =
  fixes step :: "'c \<Rightarrow> 's \<Rightarrow> 'e + 's" and final :: "'s \<Rightarrow> bool" and view :: "'s \<Rightarrow> 'v"
  assumes frozen: "final s \<Longrightarrow> step c s = Inr s' \<Longrightarrow> final s' \<and> view s' = view s"
begin

lemma advance_frozen: "final s \<Longrightarrow> final (advance step c s) \<and> view (advance step c s) = view s"
  using frozen by (auto simp: advance_def split: sum.splits)

lemma attempts_frozen: "final s \<Longrightarrow> final (attempts step cs s) \<and> view (attempts step cs s) = view s"
proof (induction cs arbitrary: s)
  case (Cons c cs)
  from advance_frozen [OF Cons.prems] Cons.IH [of "advance step c s"] show ?case by simp
qed simp

end

section \<open>Tokens that are spent once\<close>

text \<open>The outputs of a sequence of calls, in order.\<close>

fun run_outputs :: "('c \<Rightarrow> 's \<Rightarrow> 'o \<times> 's) \<Rightarrow> 'c list \<Rightarrow> 's \<Rightarrow> 'o list" where
  "run_outputs step [] s = []"
| "run_outputs step (c # cs) s = fst (step c s) # run_outputs step cs (snd (step c s))"

fun run_state :: "('c \<Rightarrow> 's \<Rightarrow> 'o \<times> 's) \<Rightarrow> 'c list \<Rightarrow> 's \<Rightarrow> 's" where
  "run_state step [] s = s"
| "run_state step (c # cs) s = run_state step cs (snd (step c s))"

lemma run_state_append: "run_state step (cs @ ds) s = run_state step ds (run_state step cs s)"
  by (induction cs arbitrary: s) auto

locale one_shot =
  fixes step :: "'c \<Rightarrow> 's \<Rightarrow> 'o \<times> 's" and fires :: "'o \<Rightarrow> bool" and spent :: "'s \<Rightarrow> bool"
    and inv :: "'s \<Rightarrow> bool"
  assumes keeps: "inv s \<Longrightarrow> inv (snd (step c s))"
    and fires_fresh: "inv s \<Longrightarrow> fires (fst (step c s)) \<Longrightarrow> \<not> spent s \<and> spent (snd (step c s))"
    and spent_stays: "inv s \<Longrightarrow> spent s \<Longrightarrow> spent (snd (step c s))"
begin

lemma spent_never_fires: "inv s \<Longrightarrow> spent s \<Longrightarrow> count_where fires (run_outputs step cs s) = 0"
proof (induction cs arbitrary: s)
  case Nil
  then show ?case by simp
next
  case (Cons c cs)
  have "\<not> fires (fst (step c s))" using fires_fresh Cons.prems by blast
  moreover have "count_where fires (run_outputs step cs (snd (step c s))) = 0"
    using Cons keeps spent_stays by blast
  ultimately show ?case by simp
qed

lemma fires_at_most_once: "inv s \<Longrightarrow> count_where fires (run_outputs step cs s) \<le> 1"
proof (induction cs arbitrary: s)
  case Nil
  then show ?case by (simp add: count_where_def)
next
  case (Cons c cs)
  show ?case
  proof (cases "fires (fst (step c s))")
    case True
    then have "spent (snd (step c s))" using fires_fresh Cons.prems by blast
    then have "count_where fires (run_outputs step cs (snd (step c s))) = 0"
      using spent_never_fires keeps Cons.prems by blast
    with True show ?thesis by (simp add: count_where_def)
  next
    case False
    then show ?thesis
      using Cons.IH [OF keeps [OF Cons.prems]] by (simp add: count_where_def)
  qed
qed

end

section \<open>Keyed tables\<close>

text \<open>An \<open>UPDATE\<close> that does not assign the key of the table.\<close>

locale keyed_update =
  fixes key :: "'r \<Rightarrow> 'k" and p :: "'r \<Rightarrow> bool" and f :: "'r \<Rightarrow> 'r"
  assumes keeps_key: "p r \<Longrightarrow> key (f r) = key r"
begin

lemma keys_same: "map key (update_where p f rows) = map key rows"
  by (rule map_update_where) (rule keeps_key)

lemma keys_distinct: "distinct (map key (update_where p f rows)) = distinct (map key rows)"
  by (simp add: keys_same)

lemma lookup:
  "find (\<lambda>r. key r = k) (update_where p f rows) =
     map_option (\<lambda>r. if p r then f r else r) (find (\<lambda>r. key r = k) rows)"
  by (rule find_update_where) (simp add: keeps_key)

end

end
