(* ===== verification/Work_Plan.thy ===== *)
theory Work_Plan
  imports Prelude "HOL-Library.Multiset"
begin

text \<open>
  The typed plan of canonical Work (\<open>openlife-core/src/work_orchestration.rs\<close>): the
  data types, the identifier validators, the normalisation of model-authored labels, the
  fail-closed validation of a plan, and the completion projection over its steps.
  A \<open>HashSet\<close> argument that is only queried is a set; one that is iterated is the list
  of its elements in the iteration order, about which nothing is assumed.
\<close>

section \<open>Data\<close>

definition WORK_PLAN_SCHEMA_VERSION :: string where
  "WORK_PLAN_SCHEMA_VERSION = ''openlife.work-plan.v3''"

definition MAX_WORK_PLAN_STEPS :: nat where
  "MAX_WORK_PLAN_STEPS = 8"

definition MAX_WORK_COMPLETION_REQUIREMENTS :: nat where
  "MAX_WORK_COMPLETION_REQUIREMENTS = 8"

datatype WorkPlanStepKind =
  Analyze | PersonalIntelligence | ReadImportedDocument | ReadWorkspaceFile | WebSearch
| WebFetch | UseSelectedSkill | ReadMcp | DraftArtifact | Verify | DeliverResult

fun kind_as_str :: "WorkPlanStepKind \<Rightarrow> string" where
  "kind_as_str Analyze = ''analyze''"
| "kind_as_str PersonalIntelligence = ''personal_intelligence''"
| "kind_as_str ReadImportedDocument = ''read_imported_document''"
| "kind_as_str ReadWorkspaceFile = ''read_workspace_file''"
| "kind_as_str WebSearch = ''web_search''"
| "kind_as_str WebFetch = ''web_fetch''"
| "kind_as_str UseSelectedSkill = ''use_selected_skill''"
| "kind_as_str ReadMcp = ''read_mcp''"
| "kind_as_str DraftArtifact = ''draft_artifact''"
| "kind_as_str Verify = ''verify''"
| "kind_as_str DeliverResult = ''deliver_result''"

record WorkPlanStep =
  step_id :: string
  step_kind :: WorkPlanStepKind
  step_required :: bool
  depends_on :: "string list"
  target_id :: "string option"
  target_contract_digest :: "string option"

datatype WorkResultKind = Answer | Artifact

datatype WorkCompletionEvidenceKind = Result | Source

record WorkCompletionRequirement =
  requirement_id :: string
  description :: string
  evidence_kind :: WorkCompletionEvidenceKind
  allow_transparent_limitation :: bool

record WorkCompletionContract =
  result_kind :: WorkResultKind
  requires_verification :: bool
  requirements :: "WorkCompletionRequirement list"
  requires_review_before_write :: bool

record WorkSourceConstraints =
  required_web_domains :: "string list"

record StructuredWorkPlan =
  schema_version :: string
  steps :: "WorkPlanStep list"
  completion :: WorkCompletionContract
  source_constraints :: WorkSourceConstraints

section \<open>Identifier validators\<close>

definition validate_step_id :: "string \<Rightarrow> unit res" where
  "validate_step_id value =
     first_failure
       [bail_if (value = [] \<or> length value > 32) ''work_plan_step_id_invalid'',
        (case value of
           [] \<Rightarrow> Inl ''work_plan_step_id_invalid''
         | first # bytes \<Rightarrow>
             bail_if (\<not> is_ascii_lowercase first \<or>
                      \<not> list_all (\<lambda>b. is_ascii_lowercase b \<or> is_ascii_digit b \<or> b = CHR ''_'') bytes)
               ''work_plan_step_id_invalid'')]"

definition validate_target_id :: "string \<Rightarrow> unit res" where
  "validate_target_id value =
     bail_if
       (value = [] \<or> length value > 128 \<or>
        \<not> list_all (\<lambda>b. is_ascii_alphanumeric b \<or> b \<in> set ''.-_:/'') value)
       ''work_plan_target_id_invalid''"

definition validate_contract_digest :: "string \<Rightarrow> unit res" where
  "validate_contract_digest value =
     (case strip_prefix ''sha256:'' value of
        None \<Rightarrow> Inl ''work_plan_target_contract_digest_invalid''
      | Some hex \<Rightarrow>
          bail_if (length hex \<noteq> 64 \<or> \<not> list_all is_ascii_hexdigit hex)
            ''work_plan_target_contract_digest_invalid'')"

definition domain_label_ok :: "string \<Rightarrow> bool" where
  "domain_label_ok label \<longleftrightarrow>
     label \<noteq> [] \<and> length label \<le> 63 \<and>
     \<not> starts_with ''-'' label \<and> \<not> ends_with ''-'' label \<and>
     list_all (\<lambda>b. is_ascii_lowercase b \<or> is_ascii_digit b \<or> b = CHR ''-'') label"

definition validate_required_web_domain :: "string \<Rightarrow> bool" where
  "validate_required_web_domain domain =
     (if domain = [] \<or> length domain > 253 \<or> domain \<noteq> to_ascii_lower domain \<or>
         starts_with ''.'' domain \<or> ends_with ''.'' domain \<or> contains_str ''..'' domain
      then False
      else (let labels = split_on (CHR ''.'') domain in
            2 \<le> length labels \<and> list_all domain_label_ok labels))"

text \<open>What a step id is, and what a domain is, without the control flow.\<close>

definition step_id_ok :: "string \<Rightarrow> bool" where
  "step_id_ok s \<longleftrightarrow>
     s \<noteq> [] \<and> length s \<le> 32 \<and> is_ascii_lowercase (hd s) \<and>
     (\<forall>b \<in> set (tl s). is_ascii_lowercase b \<or> is_ascii_digit b \<or> b = CHR ''_'')"

lemma validate_step_id_ok [simp, res_simps]: "validate_step_id s = Inr () \<longleftrightarrow> step_id_ok s"
  by (cases s) (auto simp: validate_step_id_def step_id_ok_def list_all_iff)

lemma validate_step_id_err: "validate_step_id s = Inl e \<Longrightarrow> e = ''work_plan_step_id_invalid''"
  by (cases s) (auto simp: validate_step_id_def dest!: first_failure_err_mem)

lemma is_ok_validate_step_id [simp]: "is_ok (validate_step_id s) \<longleftrightarrow> step_id_ok s"
  using unit_res_ok_iff [of "validate_step_id s"] by simp

section \<open>Normalisation of model-authored labels\<close>

text \<open>
  \<open>normalize_model_step_ids_if_needed\<close>: the first loop builds \<open>replacements\<close> (an
  association list from the old label to \<open>step<index + 1>\<close>), the second rewrites the
  ids and every dependency that is a key of it.
\<close>

fun step_replacements ::
  "(string \<times> string) list \<Rightarrow> nat \<Rightarrow> WorkPlanStep list \<Rightarrow> (string \<times> string) list res"
where
  "step_replacements reps index [] = Inr reps"
| "step_replacements reps index (s # ss) =
     (if step_id s = [] \<or> length (step_id s) > 256 then Inl ''work_plan_step_id_invalid''
      else if map_of reps (step_id s) \<noteq> None then Inl ''work_plan_step_id_duplicate''
      else step_replacements (reps @ [(step_id s, ''step'' @ dec (index + 1))]) (index + 1) ss)"

definition replace_label :: "(string \<times> string) list \<Rightarrow> string \<Rightarrow> string" where
  "replace_label reps d = (case map_of reps d of None \<Rightarrow> d | Some r \<Rightarrow> r)"

definition relabel_step :: "(string \<times> string) list \<Rightarrow> WorkPlanStep \<Rightarrow> WorkPlanStep res" where
  "relabel_step reps s =
     res_bind (ok_or ''work_plan_step_id_invalid'' (map_of reps (step_id s))) (\<lambda>new_id.
     Inr (s\<lparr>step_id := new_id, depends_on := map (replace_label reps) (depends_on s)\<rparr>))"

fun relabel_steps :: "(string \<times> string) list \<Rightarrow> WorkPlanStep list \<Rightarrow> WorkPlanStep list res" where
  "relabel_steps reps [] = Inr []"
| "relabel_steps reps (s # ss) =
     res_bind (relabel_step reps s) (\<lambda>s'.
     res_bind (relabel_steps reps ss) (\<lambda>ss'. Inr (s' # ss')))"

definition normalize_model_step_ids_if_needed :: "StructuredWorkPlan \<Rightarrow> StructuredWorkPlan res" where
  "normalize_model_step_ids_if_needed p =
     (if list_all (\<lambda>s. is_ok (validate_step_id (step_id s))) (steps p) then Inr p
      else res_bind (step_replacements [] 0 (steps p)) (\<lambda>reps.
           res_bind (relabel_steps reps (steps p)) (\<lambda>ss. Inr (p\<lparr>steps := ss\<rparr>))))"

definition check_explicit_requirement_id ::
  "string set \<Rightarrow> WorkCompletionRequirement \<Rightarrow> string set res"
where
  "check_explicit_requirement_id explicit_ids r =
     (if requirement_id r \<noteq> [] \<and> requirement_id r \<in> explicit_ids
      then Inl ''work_plan_requirement_id_duplicate''
      else if requirement_id r \<noteq> [] then Inr (insert (requirement_id r) explicit_ids)
      else Inr explicit_ids)"

fun number_requirements :: "nat \<Rightarrow> WorkCompletionRequirement list \<Rightarrow> WorkCompletionRequirement list" where
  "number_requirements index [] = []"
| "number_requirements index (r # rs) =
     r\<lparr>requirement_id := ''requirement'' @ dec (index + 1)\<rparr> # number_requirements (index + 1) rs"

definition normalize_model_requirement_ids_if_needed ::
  "StructuredWorkPlan \<Rightarrow> StructuredWorkPlan res"
where
  "normalize_model_requirement_ids_if_needed p =
     res_bind (res_fold check_explicit_requirement_id {} (requirements (completion p))) (\<lambda>_.
     if list_all (\<lambda>r. is_ok (validate_step_id (requirement_id r))) (requirements (completion p))
     then Inr p
     else Inr (p\<lparr>completion := (completion p)
                   \<lparr>requirements := number_requirements 0 (requirements (completion p))\<rparr>\<rparr>))"

section \<open>Validation\<close>

text \<open>
  One iteration of the step loop of \<open>StructuredWorkPlan::validate\<close>. The loop state is
  \<open>(seen, deliver_count, verify_count)\<close>.
\<close>

type_synonym step_loop = "string set \<times> nat \<times> nat"

definition validate_step_target :: "string set \<Rightarrow> WorkPlanStep \<Rightarrow> unit res" where
  "validate_step_target allowed_mcp s =
     (if step_kind s = ReadMcp then
        res_bind (ok_or ''work_plan_mcp_target_missing'' (target_id s)) (\<lambda>tid.
        first_failure
          [validate_target_id tid,
           bail_if (tid \<notin> allowed_mcp) ''work_plan_mcp_target_not_allowed'',
           (case target_contract_digest s of
              None \<Rightarrow> Inr ()
            | Some digest \<Rightarrow> validate_contract_digest digest)])
      else bail_if (target_id s \<noteq> None \<or> target_contract_digest s \<noteq> None)
             ''work_plan_fixed_capability_target_forbidden'')"

definition check_dependency ::
  "string set \<Rightarrow> string \<Rightarrow> string set \<Rightarrow> string \<Rightarrow> string set res"
where
  "check_dependency seen own_id dependencies d =
     (if d \<in> dependencies then Inl ''work_plan_dependency_duplicate''
      else if d \<notin> seen \<or> d = own_id then Inl ''work_plan_dependency_order_invalid''
      else Inr (insert d dependencies))"

definition validate_step ::
  "WorkPlanStepKind set \<Rightarrow> string set \<Rightarrow> step_loop \<Rightarrow> WorkPlanStep \<Rightarrow> step_loop res"
where
  "validate_step allowed_kinds allowed_mcp st s =
     (case st of (seen, deliver_count, verify_count) \<Rightarrow>
      res_bind (validate_step_id (step_id s)) (\<lambda>_.
      if step_id s \<in> seen then Inl ''work_plan_step_id_duplicate''
      else let seen' = insert (step_id s) seen in
      res_bind (bail_if (step_kind s \<notin> allowed_kinds) ''work_plan_capability_not_allowed'') (\<lambda>_.
      res_bind (validate_step_target allowed_mcp s) (\<lambda>_.
      res_bind (bail_if (length (depends_on s) > MAX_WORK_PLAN_STEPS)
                  ''work_plan_dependency_count_invalid'') (\<lambda>_.
      res_bind (res_fold (check_dependency seen' (step_id s)) {} (depends_on s)) (\<lambda>_.
      res_bind (bail_if (step_kind s = DeliverResult \<and> \<not> step_required s)
                  ''work_plan_delivery_must_be_required'') (\<lambda>_.
      Inr (seen',
           deliver_count + (if step_kind s = DeliverResult then 1 else 0),
           verify_count + (if step_kind s = Verify \<and> step_required s then 1 else 0)))))))))"

definition is_source_kind :: "WorkPlanStepKind \<Rightarrow> bool" where
  "is_source_kind k \<longleftrightarrow>
     k \<in> {ReadImportedDocument, ReadWorkspaceFile, WebSearch, WebFetch, ReadMcp}"

definition validate_requirement ::
  "WorkPlanStep list \<Rightarrow> string set \<Rightarrow> WorkCompletionRequirement \<Rightarrow> string set res"
where
  "validate_requirement ss requirement_ids r =
     res_bind (map_err (\<lambda>_. ''work_plan_requirement_id_invalid'')
                 (validate_step_id (requirement_id r))) (\<lambda>_.
     if requirement_id r \<in> requirement_ids then Inl ''work_plan_requirement_id_duplicate''
     else
     res_bind (first_failure
       [bail_if (trim (description r) = [] \<or> chars_count (description r) > 320 \<or>
                 has_control (description r))
          ''work_plan_requirement_description_invalid'',
        bail_if (evidence_kind r = Source \<and>
                 \<not> list_ex (\<lambda>s. step_required s \<and> is_source_kind (step_kind s)) ss)
          ''work_plan_source_requirement_without_source_step'']) (\<lambda>_.
     Inr (insert (requirement_id r) requirement_ids)))"

definition check_web_domain :: "string set \<Rightarrow> string \<Rightarrow> string set res" where
  "check_web_domain domains d =
     (if \<not> validate_required_web_domain d \<or> d \<in> domains then Inl ''work_plan_web_domain_invalid''
      else Inr (insert d domains))"

definition validate_plan ::
  "WorkPlanStepKind set \<Rightarrow> string set \<Rightarrow> StructuredWorkPlan \<Rightarrow> unit res"
where
  "validate_plan allowed_kinds allowed_mcp p =
     (let c = completion p; domains = required_web_domains (source_constraints p) in
      res_bind (first_failure
        [bail_if (schema_version p \<noteq> WORK_PLAN_SCHEMA_VERSION) ''work_plan_schema_version_invalid'',
         bail_if (steps p = [] \<or> length (steps p) > MAX_WORK_PLAN_STEPS)
           ''work_plan_step_count_invalid'']) (\<lambda>_.
      res_bind (res_fold (validate_step allowed_kinds allowed_mcp) ({}, 0, 0) (steps p))
        (\<lambda>(seen, deliver_count, verify_count).
      res_bind (first_failure
        [bail_if (deliver_count \<noteq> 1 \<or> steps p = [] \<or> step_kind (last (steps p)) \<noteq> DeliverResult)
           ''work_plan_delivery_terminal_invalid'',
         bail_if (requires_verification c \<and> verify_count = 0)
           ''work_plan_verification_step_missing'',
         bail_if (length (requirements c) > MAX_WORK_COMPLETION_REQUIREMENTS)
           ''work_plan_requirement_count_invalid'',
         bail_if (requires_verification c \<and> requirements c = [])
           ''work_plan_verification_requirements_missing'',
         bail_if (\<not> requires_verification c \<and> requirements c \<noteq> [])
           ''work_plan_requirements_without_verification'']) (\<lambda>_.
      res_bind (res_fold (validate_requirement (steps p)) {} (requirements c)) (\<lambda>_.
      res_bind (first_failure
        [bail_if (result_kind c = Artifact \<and>
                  \<not> list_ex (\<lambda>s. step_required s \<and> step_kind s = DraftArtifact) (steps p))
           ''work_plan_artifact_step_missing'',
         bail_if (requires_review_before_write c \<and> result_kind c \<noteq> Artifact)
           ''work_plan_review_without_artifact'',
         bail_if (length domains > 8) ''work_plan_web_domain_count_invalid'']) (\<lambda>_.
      res_bind (res_fold check_web_domain {} domains) (\<lambda>_.
      first_failure
        [bail_if (domains \<noteq> [] \<and>
                  \<not> list_ex (\<lambda>s. step_kind s = WebSearch \<or> step_kind s = WebFetch) (steps p))
           ''work_plan_web_domain_without_web_step'',
         bail_if (list_ex (\<lambda>s. step_kind s = PersonalIntelligence) (steps p) \<and>
                  list_ex (\<lambda>s. step_kind s \<notin> {Analyze, PersonalIntelligence, DeliverResult}) (steps p))
           ''work_plan_personal_intelligence_must_be_standalone'']))))))) "

text \<open>
  \<open>validate_required_kinds\<close>: the floor the authenticated instruction sets. The argument
  enumerates the \<open>HashSet\<close>; the code sorts it by name first.
\<close>

definition missing_required_kind :: "WorkPlanStep list \<Rightarrow> WorkPlanStepKind \<Rightarrow> bool" where
  "missing_required_kind ss k \<longleftrightarrow> \<not> list_ex (\<lambda>s. step_required s \<and> step_kind s = k) ss"

definition validate_required_kinds :: "WorkPlanStepKind list \<Rightarrow> StructuredWorkPlan \<Rightarrow> unit res" where
  "validate_required_kinds required p =
     (let kinds = sort_key kind_as_str required in
      first_failure
        (map (\<lambda>k. bail_if (missing_required_kind (steps p) k)
                    (''work_plan_required_step_missing_'' @ kind_as_str k)) kinds @
         [bail_if (list_ex (\<lambda>k. is_source_kind k \<or> k = DraftArtifact) kinds \<and>
                   \<not> requires_verification (completion p))
            ''work_plan_required_verification_missing'',
          bail_if (DraftArtifact \<in> set kinds \<and> result_kind (completion p) \<noteq> Artifact)
            ''work_plan_required_result_kind_mismatch'']))"

text \<open>
  \<open>parse_and_validate\<close> after the text is decoded. \<open>decode\<close> stands for the derived
  \<open>Deserialize\<close> of \<open>serde_json\<close>; the shape diagnosis in front of it is in the theory
  of provider JSON.
\<close>

definition normalize_and_validate ::
  "WorkPlanStepKind set \<Rightarrow> string set \<Rightarrow> StructuredWorkPlan \<Rightarrow> StructuredWorkPlan res"
where
  "normalize_and_validate allowed_kinds allowed_mcp plan =
     res_bind (normalize_model_step_ids_if_needed plan) (\<lambda>plan1.
     res_bind (normalize_model_requirement_ids_if_needed plan1) (\<lambda>plan2.
     res_bind (validate_plan allowed_kinds allowed_mcp plan2) (\<lambda>_. Inr plan2)))"

section \<open>Scheduling and the completion projection\<close>

definition schedule :: "StructuredWorkPlan \<Rightarrow> WorkPlanStep list" where
  "schedule plan = steps plan"

definition required_steps_complete :: "StructuredWorkPlan \<Rightarrow> string set \<Rightarrow> bool" where
  "required_steps_complete plan completed \<longleftrightarrow>
     list_all (\<lambda>s. step_id s \<in> completed) (filter step_required (steps plan))"

section \<open>The contract of a validated plan\<close>

definition target_ok :: "string set \<Rightarrow> WorkPlanStep \<Rightarrow> bool" where
  "target_ok allowed_mcp s \<longleftrightarrow>
     (if step_kind s = ReadMcp
      then \<exists>tid. target_id s = Some tid \<and> validate_target_id tid = Inr () \<and> tid \<in> allowed_mcp \<and>
             (\<forall>g. target_contract_digest s = Some g \<longrightarrow> validate_contract_digest g = Inr ())
      else target_id s = None \<and> target_contract_digest s = None)"

definition step_ok :: "WorkPlanStepKind set \<Rightarrow> string set \<Rightarrow> WorkPlanStep \<Rightarrow> bool" where
  "step_ok allowed_kinds allowed_mcp s \<longleftrightarrow>
     step_id_ok (step_id s) \<and> step_kind s \<in> allowed_kinds \<and> target_ok allowed_mcp s \<and>
     length (depends_on s) \<le> MAX_WORK_PLAN_STEPS \<and> distinct (depends_on s) \<and>
     (step_kind s = DeliverResult \<longrightarrow> step_required s)"

text \<open>Every dependency names a step that stands before the one that carries it.\<close>

definition forward_deps :: "WorkPlanStep list \<Rightarrow> bool" where
  "forward_deps ss \<longleftrightarrow>
     (\<forall>i < length ss. set (depends_on (ss ! i)) \<subseteq> step_id ` set (take i ss))"

definition requirement_ok :: "WorkPlanStep list \<Rightarrow> WorkCompletionRequirement \<Rightarrow> bool" where
  "requirement_ok ss r \<longleftrightarrow>
     step_id_ok (requirement_id r) \<and> trim (description r) \<noteq> [] \<and>
     chars_count (description r) \<le> 320 \<and> \<not> has_control (description r) \<and>
     (evidence_kind r = Source \<longrightarrow> (\<exists>s \<in> set ss. step_required s \<and> is_source_kind (step_kind s)))"

definition completion_ok :: "WorkPlanStep list \<Rightarrow> WorkCompletionContract \<Rightarrow> bool" where
  "completion_ok ss c \<longleftrightarrow>
     (requires_verification c \<longrightarrow> (\<exists>s \<in> set ss. step_kind s = Verify \<and> step_required s)) \<and>
     (requires_verification c \<longleftrightarrow> requirements c \<noteq> []) \<and>
     length (requirements c) \<le> MAX_WORK_COMPLETION_REQUIREMENTS \<and>
     distinct (map requirement_id (requirements c)) \<and>
     (\<forall>r \<in> set (requirements c). requirement_ok ss r) \<and>
     (result_kind c = Artifact \<longrightarrow> (\<exists>s \<in> set ss. step_required s \<and> step_kind s = DraftArtifact)) \<and>
     (requires_review_before_write c \<longrightarrow> result_kind c = Artifact)"

definition domains_ok :: "WorkPlanStep list \<Rightarrow> string list \<Rightarrow> bool" where
  "domains_ok ss ds \<longleftrightarrow>
     length ds \<le> 8 \<and> distinct ds \<and> (\<forall>d \<in> set ds. validate_required_web_domain d) \<and>
     (ds \<noteq> [] \<longrightarrow> (\<exists>s \<in> set ss. step_kind s = WebSearch \<or> step_kind s = WebFetch))"

definition plan_ok :: "WorkPlanStepKind set \<Rightarrow> string set \<Rightarrow> StructuredWorkPlan \<Rightarrow> bool" where
  "plan_ok allowed_kinds allowed_mcp p \<longleftrightarrow>
     schema_version p = WORK_PLAN_SCHEMA_VERSION \<and>
     steps p \<noteq> [] \<and> length (steps p) \<le> MAX_WORK_PLAN_STEPS \<and>
     distinct (map step_id (steps p)) \<and>
     (\<forall>s \<in> set (steps p). step_ok allowed_kinds allowed_mcp s) \<and>
     forward_deps (steps p) \<and>
     (\<exists>front. steps p = front @ [last (steps p)] \<and> (\<forall>s \<in> set front. step_kind s \<noteq> DeliverResult)) \<and>
     step_kind (last (steps p)) = DeliverResult \<and>
     completion_ok (steps p) (completion p) \<and>
     domains_ok (steps p) (required_web_domains (source_constraints p)) \<and>
     ((\<exists>s \<in> set (steps p). step_kind s = PersonalIntelligence) \<longrightarrow>
        (\<forall>s \<in> set (steps p). step_kind s \<in> {Analyze, PersonalIntelligence, DeliverResult}))"

text \<open>The evidence a set of completed step ids gives for a completion contract.\<close>

definition contract_evidence :: "StructuredWorkPlan \<Rightarrow> string set \<Rightarrow> bool" where
  "contract_evidence p fin \<longleftrightarrow>
     (step_kind (last (steps p)) = DeliverResult \<and> step_id (last (steps p)) \<in> fin) \<and>
     (requires_verification (completion p) \<longrightarrow>
        (\<exists>s \<in> set (steps p). step_kind s = Verify \<and> step_id s \<in> fin)) \<and>
     (result_kind (completion p) = Artifact \<longrightarrow>
        (\<exists>s \<in> set (steps p). step_kind s = DraftArtifact \<and> step_id s \<in> fin)) \<and>
     (\<forall>r \<in> set (requirements (completion p)). evidence_kind r = Source \<longrightarrow>
        (\<exists>s \<in> set (steps p). is_source_kind (step_kind s) \<and> step_id s \<in> fin))"

section \<open>The step loop\<close>

lemma validate_step_target_ok [simp]:
  "validate_step_target allowed_mcp s = Inr () \<longleftrightarrow> target_ok allowed_mcp s"
proof (cases "step_kind s = ReadMcp")
  case True
  show ?thesis
    by (cases "target_id s"; cases "target_contract_digest s")
       (simp_all add: validate_step_target_def target_ok_def True)
next
  case False
  then show ?thesis by (simp add: validate_step_target_def target_ok_def)
qed

lemma check_dependency_ok:
  "check_dependency seen own deps d = Inr deps' \<longleftrightarrow>
     deps' = insert d deps \<and> d \<notin> deps \<and> d \<in> seen \<and> d \<noteq> own"
  unfolding check_dependency_def by (simp only: early_return_ok) blast

lemma dependency_loop_ok:
  "res_fold (check_dependency seen own) {} ds = Inr deps \<longleftrightarrow>
     deps = set ds \<and> distinct ds \<and> (\<forall>d \<in> set ds. d \<in> seen \<and> d \<noteq> own)"
  by (subst res_fold_distinct [where key = id and P = "\<lambda>d. d \<in> seen \<and> d \<noteq> own"])
     (simp_all add: check_dependency_ok)

lemma validate_step_ok:
  "validate_step K M (seen, d, v) s = Inr (seen', d', v') \<longleftrightarrow>
     step_ok K M s \<and> step_id s \<notin> seen \<and> set (depends_on s) \<subseteq> seen \<and>
     seen' = insert (step_id s) seen \<and>
     d' = d + (if step_kind s = DeliverResult then 1 else 0) \<and>
     v' = v + (if step_kind s = Verify \<and> step_required s then 1 else 0)"
  unfolding validate_step_def step_ok_def Let_def prod.case
  by (simp only: res_bind_ok early_return_ok bail_if_ok dependency_loop_ok validate_step_id_ok validate_step_target_ok) fastforce

fun deps_before :: "string set \<Rightarrow> WorkPlanStep list \<Rightarrow> bool" where
  "deps_before seen [] = True"
| "deps_before seen (s # ss) =
     (set (depends_on s) \<subseteq> seen \<and> deps_before (insert (step_id s) seen) ss)"

lemma deps_before_iff:
  "deps_before seen ss \<longleftrightarrow>
     (\<forall>i < length ss. set (depends_on (ss ! i)) \<subseteq> seen \<union> step_id ` set (take i ss))"
proof (induction ss arbitrary: seen)
  case Nil
  then show ?case by simp
next
  case (Cons s ss)
  have "(\<forall>i < length (s # ss).
           set (depends_on ((s # ss) ! i)) \<subseteq> seen \<union> step_id ` set (take i (s # ss))) \<longleftrightarrow>
        set (depends_on s) \<subseteq> seen \<and>
        (\<forall>i < length ss.
           set (depends_on (ss ! i)) \<subseteq> insert (step_id s) seen \<union> step_id ` set (take i ss))"
    by (simp add: All_less_Suc2)
  then show ?case using Cons.IH [of "insert (step_id s) seen"] by simp
qed


lemma step_loop_ok:
  "res_fold (validate_step K M) (seen, d, v) ss = Inr (seen', d', v') \<longleftrightarrow>
     (\<forall>s \<in> set ss. step_ok K M s) \<and> distinct (map step_id ss) \<and>
     step_id ` set ss \<inter> seen = {} \<and> deps_before seen ss \<and>
     seen' = seen \<union> step_id ` set ss \<and>
     d' = d + count_where (\<lambda>s. step_kind s = DeliverResult) ss \<and>
     v' = v + count_where (\<lambda>s. step_kind s = Verify \<and> step_required s) ss"
proof (induction ss arbitrary: seen d v)
  case Nil
  then show ?case by (auto simp: count_where_def)
next
  case (Cons s ss)
  have "res_fold (validate_step K M) (seen, d, v) (s # ss) = Inr (seen', d', v') \<longleftrightarrow>
    (\<exists>e c w. validate_step K M (seen, d, v) s = Inr (e, c, w) \<and>
       res_fold (validate_step K M) (e, c, w) ss = Inr (seen', d', v'))"
    by simp
  also have "\<dots> \<longleftrightarrow>
    step_ok K M s \<and> step_id s \<notin> seen \<and> set (depends_on s) \<subseteq> seen \<and>
    res_fold (validate_step K M)
      (insert (step_id s) seen,
       d + (if step_kind s = DeliverResult then 1 else 0),
       v + (if step_kind s = Verify \<and> step_required s then 1 else 0)) ss = Inr (seen', d', v')"
    by (simp only: validate_step_ok) blast
  finally show ?case
    by (simp only: Cons.IH) (auto simp: count_where_def)
qed

lemma validate_requirement_ok:
  "validate_requirement ss ids r = Inr ids' \<longleftrightarrow>
     ids' = insert (requirement_id r) ids \<and> requirement_id r \<notin> ids \<and> requirement_ok ss r"
  unfolding validate_requirement_def requirement_ok_def
  by (simp only: res_bind_ok map_err_ok early_return_ok first_failure_ok list.set ball_simps
        bail_if_ok validate_step_id_ok list_ex_iff) (auto simp: not_less)

lemma requirement_loop_ok:
  "res_fold (validate_requirement ss) {} rs = Inr ids \<longleftrightarrow>
     ids = requirement_id ` set rs \<and> distinct (map requirement_id rs) \<and>
     (\<forall>r \<in> set rs. requirement_ok ss r)"
  by (subst res_fold_distinct [where key = requirement_id and P = "requirement_ok ss"])
     (simp_all add: validate_requirement_ok)

lemma check_web_domain_ok:
  "check_web_domain ds d = Inr ds' \<longleftrightarrow>
     ds' = insert d ds \<and> d \<notin> ds \<and> validate_required_web_domain d"
  unfolding check_web_domain_def by (simp only: early_return_ok) blast

lemma domain_loop_ok:
  "res_fold check_web_domain {} ds = Inr seen \<longleftrightarrow>
     seen = set ds \<and> distinct ds \<and> (\<forall>d \<in> set ds. validate_required_web_domain d)"
  by (subst res_fold_distinct [where key = id and P = validate_required_web_domain])
     (simp_all add: check_web_domain_ok)

text \<open>The three loops as the head of a sequence.\<close>

lemma step_loop_bind:
  "res_bind (res_fold (validate_step K M) ({}, 0, 0) ss) f = Inr y \<longleftrightarrow>
     (\<forall>s \<in> set ss. step_ok K M s) \<and> distinct (map step_id ss) \<and> deps_before {} ss \<and>
     f (step_id ` set ss, count_where (\<lambda>s. step_kind s = DeliverResult) ss,
        count_where (\<lambda>s. step_kind s = Verify \<and> step_required s) ss) = Inr y"
  by (simp only: res_bind_ok split_paired_Ex step_loop_ok) auto

lemma requirement_loop_bind:
  "res_bind (res_fold (validate_requirement ss) {} rs) (\<lambda>_. k) = Inr y \<longleftrightarrow>
     distinct (map requirement_id rs) \<and> (\<forall>r \<in> set rs. requirement_ok ss r) \<and> k = Inr y"
  by (simp only: res_bind_ok requirement_loop_ok) blast

lemma domain_loop_bind:
  "res_bind (res_fold check_web_domain {} ds) (\<lambda>_. k) = Inr y \<longleftrightarrow>
     distinct ds \<and> (\<forall>d \<in> set ds. validate_required_web_domain d) \<and> k = Inr y"
  by (simp only: res_bind_ok domain_loop_ok) blast

lemma checks_bind:
  "res_bind (first_failure cs) (\<lambda>_. k) = Inr y \<longleftrightarrow> (\<forall>c \<in> set cs. c = Inr ()) \<and> k = Inr y"
  by (simp only: res_bind_ok first_failure_ok) blast

text \<open>Exactly one delivery step, and it is the last one.\<close>

lemma single_last_delivery:
  assumes "ss \<noteq> []"
  shows "count_where P ss = 1 \<and> P (last ss) \<longleftrightarrow>
    P (last ss) \<and> (\<exists>front. ss = front @ [last ss] \<and> (\<forall>s \<in> set front. \<not> P s))"
proof -
  obtain front where ss: "ss = front @ [last ss]"
    using assms by (metis append_butlast_last_id)
  have "count_where P ss = count_where P front + (if P (last ss) then 1 else 0)"
    by (subst ss) (simp add: count_where_def)
  moreover have "(\<exists>f. ss = f @ [last ss] \<and> (\<forall>s \<in> set f. \<not> P s)) \<longleftrightarrow> (\<forall>s \<in> set front. \<not> P s)"
    using ss by (metis butlast_snoc)
  ultimately show ?thesis by auto
qed

lemma validate_plan_iff_plan_ok: "validate_plan K M p = Inr () \<longleftrightarrow> plan_ok K M p"
proof -
  let ?D = "\<lambda>s. step_kind s = DeliverResult"
  have fwd: "deps_before {} (steps p) \<longleftrightarrow> forward_deps (steps p)"
    by (simp add: deps_before_iff forward_deps_def)
  have last: "count_where ?D (steps p) = 1 \<and> steps p \<noteq> [] \<and> ?D (last (steps p)) \<longleftrightarrow>
      steps p \<noteq> [] \<and> ?D (last (steps p)) \<and>
      (\<exists>front. steps p = front @ [last (steps p)] \<and> (\<forall>s \<in> set front. \<not> ?D s))"
    using single_last_delivery [of "steps p" ?D] by blast
  have "validate_plan K M p = Inr () \<longleftrightarrow>
    (schema_version p = WORK_PLAN_SCHEMA_VERSION \<and> steps p \<noteq> [] \<and>
     length (steps p) \<le> MAX_WORK_PLAN_STEPS) \<and>
    (\<forall>s \<in> set (steps p). step_ok K M s) \<and> distinct (map step_id (steps p)) \<and>
    forward_deps (steps p) \<and>
    (count_where ?D (steps p) = 1 \<and> steps p \<noteq> [] \<and> ?D (last (steps p))) \<and>
    completion_ok (steps p) (completion p) \<and>
    domains_ok (steps p) (required_web_domains (source_constraints p)) \<and>
    ((\<exists>s \<in> set (steps p). step_kind s = PersonalIntelligence) \<longrightarrow>
        (\<forall>s \<in> set (steps p). step_kind s \<in> {Analyze, PersonalIntelligence, DeliverResult}))"
    unfolding validate_plan_def Let_def completion_ok_def domains_ok_def
    by (simp only: step_loop_bind requirement_loop_bind domain_loop_bind checks_bind
          first_failure_ok list.set ball_simps bail_if_ok prod.case list_ex_iff not_less fwd
          count_where_0 de_Morgan_disj) blast
  then show ?thesis unfolding last plan_ok_def by blast
qed

section \<open>Properties\<close>

text \<open>
  C1. The fail-closed validation accepts exactly the plans that satisfy the declarative
  contract: bounded, distinct well-formed ids, allowed capability kinds and MCP targets,
  forward-only dependencies, one required delivery step at the end, verification
  evidence for every requirement, web domains only with a web step, and a personal
  intelligence plan that stands alone.
\<close>

theorem validate_plan_iff: "validate_plan K M p = Inr () \<longleftrightarrow> plan_ok K M p"
  by (rule validate_plan_iff_plan_ok)

text \<open>
  C2. The schedule of a validated plan runs every step after all of its dependencies:
  each dependency of the step at position \<open>i\<close> names exactly one step, and that step
  stands at a position before \<open>i\<close>.
\<close>

theorem schedule_respects_dependencies:
  assumes "validate_plan K M p = Inr ()"
    and "i < length (schedule p)" and "d \<in> set (depends_on (schedule p ! i))"
  shows "\<exists>j < i. step_id (schedule p ! j) = d \<and>
    (\<forall>k < length (schedule p). step_id (schedule p ! k) = d \<longrightarrow> k = j)"
proof -
  have ok: "plan_ok K M p" using assms(1) by (simp add: validate_plan_iff_plan_ok)
  with assms have "d \<in> step_id ` set (take i (steps p))"
    unfolding plan_ok_def forward_deps_def schedule_def by blast
  then obtain j where j: "j < i" "step_id (steps p ! j) = d"
    using assms(2) by (auto simp: schedule_def in_set_conv_nth)
  have "distinct (map step_id (steps p))" using ok by (simp add: plan_ok_def)
  then have "k = j" if "k < length (steps p)" "step_id (steps p ! k) = d" for k
    using that j assms(2) nth_eq_iff_index_eq [of "map step_id (steps p)" k j]
    by (simp add: schedule_def)
  with j show ?thesis by (auto simp: schedule_def)
qed

text \<open>
  C3. When all required steps of a validated plan are completed, the evidence its
  completion contract promises exists: the delivery step is completed; with
  verification a required verification step is; for an artifact a required drafting
  step is; and behind every source requirement a required source step is.
\<close>

theorem completion_covers_contract:
  assumes "validate_plan K M p = Inr ()" and "required_steps_complete p fin"
  shows "contract_evidence p fin"
proof -
  have ok: "plan_ok K M p" using assms(1) by (simp add: validate_plan_iff_plan_ok)
  have fin: "step_id s \<in> fin" if "s \<in> set (steps p)" "step_required s" for s
    using assms(2) that by (simp add: required_steps_complete_def list_all_iff)
  have "last (steps p) \<in> set (steps p)" using ok by (simp add: plan_ok_def)
  moreover from this have "step_required (last (steps p))"
    using ok by (simp add: plan_ok_def step_ok_def)
  ultimately have "step_kind (last (steps p)) = DeliverResult \<and> step_id (last (steps p)) \<in> fin"
    using ok fin by (simp add: plan_ok_def)
  moreover have "completion_ok (steps p) (completion p)" using ok by (simp add: plan_ok_def)
  ultimately show ?thesis
    using fin unfolding completion_ok_def requirement_ok_def contract_evidence_def by blast
qed

section \<open>What normalisation keeps\<close>

definition model_label :: "nat \<Rightarrow> string" where
  "model_label i = ''step'' @ dec (i + 1)"

lemma model_label_inject [simp]: "model_label i = model_label j \<longleftrightarrow> i = j"
  by (simp add: model_label_def)

lemma model_label_ok:
  assumes "i < 2 ^ 64" shows "step_id_ok (model_label i)"
proof -
  have "i + 1 < 10 ^ 20" using assms by simp
  then have "length (dec (i + 1)) \<le> 20" by (rule dec_length) simp
  then show ?thesis
    using dec_digits [of _ "i + 1"]
    by (auto simp: model_label_def step_id_ok_def is_ascii_lowercase_def byte_def)
qed

lemma step_replacements_ok:
  assumes "step_replacements reps index ss = Inr reps'" "distinct (map fst reps)"
  shows "reps' = reps @ zip (map step_id ss) (map model_label [index..<index + length ss]) \<and>
    distinct (map fst reps')"
  using assms
proof (induction ss arbitrary: reps index)
  case Nil
  then show ?case by simp
next
  case (Cons s ss)
  from Cons.prems(1) have new: "map_of reps (step_id s) = None"
    and rec: "step_replacements (reps @ [(step_id s, model_label index)]) (index + 1) ss = Inr reps'"
    by (auto simp: model_label_def split: if_splits)
  from new Cons.prems(2) have "distinct (map fst (reps @ [(step_id s, model_label index)]))"
    by (simp add: map_of_eq_None_iff)
  note ih = Cons.IH [OF rec this]
  have "[index..<index + length (s # ss)] = index # [index + 1..<index + 1 + length ss]"
    by (simp add: upt_conv_Cons del: upt_Suc)
  with ih show ?case by (metis append.assoc append_Cons append_Nil list.simps(9) zip_Cons_Cons)
qed

lemma relabel_steps_ok:
  "relabel_steps reps ss = Inr ss' \<longleftrightarrow>
     length ss' = length ss \<and> (\<forall>i < length ss. relabel_step reps (ss ! i) = Inr (ss' ! i))"
proof (induction ss arbitrary: ss')
  case Nil
  then show ?case by auto
next
  case (Cons s ss)
  show ?case
    by (cases ss') (auto simp: Cons.IH All_less_Suc2)
qed

lemma map_of_zip_index:
  assumes "distinct xs" "i < length xs" "length ys = length xs"
  shows "map_of (zip xs ys) (xs ! i) = Some (ys ! i)"
  using assms by (simp add: map_of_zip_nth)

text \<open>
  What relabelling does: position \<open>i\<close> gets \<open>step<i + 1>\<close>, a dependency that names a step
  follows it, everything else of the step stays.
\<close>

definition relabelled :: "WorkPlanStep list \<Rightarrow> WorkPlanStep list \<Rightarrow> bool" where
  "relabelled ss ss' \<longleftrightarrow>
     distinct (map step_id ss) \<and> length ss' = length ss \<and>
     (\<forall>i < length ss. \<exists>ds. ss' ! i = (ss ! i)\<lparr>step_id := model_label i, depends_on := ds\<rparr> \<and>
        ds = map (replace_label (zip (map step_id ss) (map model_label [0..<length ss])))
               (depends_on (ss ! i)))"

lemma normalize_step_ids_cases:
  assumes "normalize_model_step_ids_if_needed p = Inr q"
  shows "(\<forall>s \<in> set (steps p). step_id_ok (step_id s)) \<and> q = p \<or>
    \<not> (\<forall>s \<in> set (steps p). step_id_ok (step_id s)) \<and>
    (\<exists>ss. q = p\<lparr>steps := ss\<rparr> \<and> relabelled (steps p) ss)"
proof (cases "\<forall>s \<in> set (steps p). step_id_ok (step_id s)")
  case True
  with assms show ?thesis by (simp add: normalize_model_step_ids_if_needed_def list_all_iff)
next
  case False
  with assms obtain reps ss where reps: "step_replacements [] 0 (steps p) = Inr reps"
    and ss: "relabel_steps reps (steps p) = Inr ss" and q: "q = p\<lparr>steps := ss\<rparr>"
    by (auto simp: normalize_model_step_ids_if_needed_def list_all_iff)
  let ?n = "length (steps p)"
  have r: "reps = zip (map step_id (steps p)) (map model_label [0..<?n])"
    and d: "distinct (map step_id (steps p))"
    using step_replacements_ok [OF reps] by auto
  have "map_of reps (step_id (steps p ! i)) = Some (model_label i)" if "i < ?n" for i
    using map_of_zip_index [OF d, of i "map model_label [0..<?n]"] that by (simp add: r)
  then have "relabelled (steps p) ss"
    using ss d by (auto simp: relabelled_def relabel_steps_ok relabel_step_def r [symmetric])
  with False q show ?thesis by blast
qed

lemma relabelled_keeps:
  assumes "relabelled ss ss'" and "s' \<in> set ss'"
  shows "\<exists>s \<in> set ss. step_kind s' = step_kind s \<and> step_required s' = step_required s \<and>
    target_id s' = target_id s \<and> target_contract_digest s' = target_contract_digest s"
proof -
  obtain i where "i < length ss" "s' = ss' ! i"
    using assms by (auto simp: relabelled_def in_set_conv_nth)
  then show ?thesis
    using assms(1) nth_mem [of i ss] by (auto simp: relabelled_def intro!: bexI [of _ "ss ! i"])
qed

text \<open>No digest appears that was not in the plan before.\<close>

lemma normalize_keeps_digests:
  assumes "normalize_and_validate K M p = Inr q"
    and "\<forall>s \<in> set (steps p). target_contract_digest s = None"
  shows "\<forall>s \<in> set (steps q). target_contract_digest s = None"
proof -
  from assms(1) obtain p1 where p1: "normalize_model_step_ids_if_needed p = Inr p1"
    and "normalize_model_requirement_ids_if_needed p1 = Inr q"
    by (auto simp: normalize_and_validate_def)
  then have "steps q = steps p1"
    by (auto simp: normalize_model_requirement_ids_if_needed_def split: if_splits)
  moreover have "target_contract_digest s = None" if "s \<in> set (steps p1)" for s
    using normalize_step_ids_cases [OF p1] assms(2) that relabelled_keeps
    by (elim disjE conjE exE) (simp_all, metis)
  ultimately show ?thesis by simp
qed

lemma replace_label_index:
  assumes "distinct (map step_id ss)" "i < length ss"
  shows "replace_label (zip (map step_id ss) (map model_label [0..<length ss])) (step_id (ss ! i))
    = model_label i"
  using map_of_zip_index [OF assms(1), of i "map model_label [0..<length ss]"] assms(2)
  by (simp add: replace_label_def)

text \<open>Two plans with the same steps; dependencies that name a step; the edge relation.\<close>

definition same_steps :: "StructuredWorkPlan \<Rightarrow> StructuredWorkPlan \<Rightarrow> bool" where
  "same_steps p q \<longleftrightarrow>
     map (\<lambda>s. (step_kind s, step_required s, target_id s, target_contract_digest s)) (steps q) =
     map (\<lambda>s. (step_kind s, step_required s, target_id s, target_contract_digest s)) (steps p)"

definition closed_dependencies :: "StructuredWorkPlan \<Rightarrow> bool" where
  "closed_dependencies p \<longleftrightarrow>
     (\<forall>s \<in> set (steps p). set (depends_on s) \<subseteq> step_id ` set (steps p))"

definition edge :: "StructuredWorkPlan \<Rightarrow> nat \<Rightarrow> nat \<Rightarrow> bool" where
  "edge p i j \<longleftrightarrow> step_id (steps p ! j) \<in> set (depends_on (steps p ! i))"

text \<open>
  C4. Normalising model-authored step labels keeps the number and order of the steps,
  their kinds, required flags and targets; when it relabels, the new ids are distinct
  and valid; and if every dependency of the plan names one of its steps, the dependency
  graph (as a relation between positions) is the same before and after.
\<close>

theorem normalize_step_ids_preserves_graph:
  assumes norm: "normalize_model_step_ids_if_needed p = Inr q"
    and closed: "closed_dependencies p"
    and size: "length (steps p) < 2 ^ 64"
  shows "same_steps p q \<and> list_all (\<lambda>s. step_id_ok (step_id s)) (steps q) \<and>
    (\<forall>i < length (steps p). \<forall>j < length (steps p). edge q i j = edge p i j)"
  using normalize_step_ids_cases [OF norm]
proof (elim disjE conjE exE)
  assume "\<forall>s \<in> set (steps p). step_id_ok (step_id s)" "q = p"
  then show ?thesis by (simp add: same_steps_def list_all_iff)
next
  fix ss assume q: "q = p\<lparr>steps := ss\<rparr>" and re: "relabelled (steps p) ss"
  let ?ps = "steps p"
  let ?r = "replace_label (zip (map step_id ?ps) (map model_label [0..<length ?ps]))"
  have len: "length ss = length ?ps" and dist: "distinct (map step_id ?ps)"
    using re by (simp_all add: relabelled_def)
  have at: "ss ! i = (?ps ! i)\<lparr>step_id := model_label i, depends_on := map ?r (depends_on (?ps ! i))\<rparr>"
    if "i < length ?ps" for i using re that by (simp add: relabelled_def)
  have "same_steps p q"
    unfolding same_steps_def q by (rule nth_equalityI) (simp_all add: len at)
  moreover have "step_id_ok (step_id s)" if "s \<in> set ss" for s
    using that size by (auto simp: in_set_conv_nth len at intro!: model_label_ok)
  moreover have "edge q i j = edge p i j" if ij: "i < length ?ps" "j < length ?ps" for i j
  proof -
    have name: "\<exists>k < length ?ps. d = step_id (?ps ! k)" if "d \<in> set (depends_on (?ps ! i))" for d
    proof -
      have "d \<in> step_id ` set ?ps"
        using closed that ij(1) nth_mem unfolding closed_dependencies_def by blast
      then show ?thesis by (auto simp: in_set_conv_nth)
    qed
    have "?r d = model_label j \<longleftrightarrow> d = step_id (?ps ! j)" if "d \<in> set (depends_on (?ps ! i))" for d
      using name [OF that] ij(2) replace_label_index [OF dist] by auto
    then have "model_label j \<in> ?r ` set (depends_on (?ps ! i)) \<longleftrightarrow>
        step_id (?ps ! j) \<in> set (depends_on (?ps ! i))"
      unfolding image_iff by metis
    then show ?thesis
      unfolding edge_def q by (simp add: at ij)
  qed
  ultimately show ?thesis by (simp add: q list_all_iff)
qed

lemma explicit_loop_ok:
  "(\<forall>r \<in> set rs. requirement_id r \<noteq> []) \<Longrightarrow>
   res_fold check_explicit_requirement_id seen rs = Inr seen' \<longleftrightarrow>
     seen' = seen \<union> requirement_id ` set rs \<and> distinct (map requirement_id rs) \<and>
     requirement_id ` set rs \<inter> seen = {}"
proof (induction rs arbitrary: seen)
  case Nil
  then show ?case by auto
next
  case (Cons r rs)
  then have "requirement_id r \<noteq> []" by simp
  then have "check_explicit_requirement_id seen r = Inr s \<longleftrightarrow>
      s = insert (requirement_id r) seen \<and> requirement_id r \<notin> seen" for s
    unfolding check_explicit_requirement_id_def by auto
  then show ?case using Cons by auto
qed

text \<open>
  A label the model left undeclared is not rejected once another label makes the
  normalisation run: it can be captured by a generated label.
\<close>

definition answer_contract :: WorkCompletionContract where
  "answer_contract =
     \<lparr>result_kind = Answer, requires_verification = False, requirements = [],
      requires_review_before_write = False\<rparr>"

definition two_step_plan :: "string \<Rightarrow> string \<Rightarrow> string \<Rightarrow> StructuredWorkPlan" where
  "two_step_plan a b d =
     \<lparr>schema_version = WORK_PLAN_SCHEMA_VERSION,
      steps = [\<lparr>step_id = a, step_kind = Analyze, step_required = True, depends_on = [],
                target_id = None, target_contract_digest = None\<rparr>,
               \<lparr>step_id = b, step_kind = DeliverResult, step_required = True, depends_on = [d],
                target_id = None, target_contract_digest = None\<rparr>],
      completion = answer_contract,
      source_constraints = \<lparr>required_web_domains = []\<rparr>\<rparr>"

text \<open>
  The plan whose delivery step depends on the undeclared label \<open>step1\<close> is rejected
  when its ids are well formed, and accepted, with that dependency bound to the first
  step, when the first id is not: the dependency graph of the model is not preserved.
\<close>

theorem dangling_dependency_captured:
  "normalize_and_validate {Analyze, DeliverResult} {} (two_step_plan ''first'' ''deliver'' ''step1'')
     = Inl ''work_plan_dependency_order_invalid'' \<and>
   normalize_and_validate {Analyze, DeliverResult} {} (two_step_plan ''First'' ''deliver'' ''step1'')
     = Inr (two_step_plan ''step1'' ''step2'' ''step1'')"
  by code_simp

text \<open>
  C6. What decoding returns is a plan that satisfies the contract, and decoding it again
  changes nothing.
\<close>

theorem normalize_and_validate_stable:
  assumes "normalize_and_validate K M p = Inr q"
  shows "plan_ok K M q \<and> normalize_and_validate K M q = Inr q"
proof -
  from assms obtain p1 where
      p1: "normalize_model_step_ids_if_needed p = Inr p1"
    and p2: "normalize_model_requirement_ids_if_needed p1 = Inr q"
    and ok: "plan_ok K M q"
    by (auto simp: normalize_and_validate_def validate_plan_iff_plan_ok)
  have "normalize_model_step_ids_if_needed q = Inr q"
    using ok by (simp add: normalize_model_step_ids_if_needed_def list_all_iff plan_ok_def step_ok_def)
  moreover have "normalize_model_requirement_ids_if_needed q = Inr q"
  proof -
    let ?rs = "requirements (completion q)"
    have "distinct (map requirement_id ?rs)" and ids: "\<forall>r \<in> set ?rs. step_id_ok (requirement_id r)"
      using ok by (simp_all add: plan_ok_def completion_ok_def requirement_ok_def)
    then have "res_fold check_explicit_requirement_id {} ?rs = Inr (requirement_id ` set ?rs)"
      by (simp add: explicit_loop_ok step_id_ok_def)
    with ids show ?thesis
      by (simp add: normalize_model_requirement_ids_if_needed_def list_all_iff)
  qed
  ultimately show ?thesis
    using ok by (simp add: normalize_and_validate_def validate_plan_iff_plan_ok)
qed

lemma normalize_and_validate_stable_witness:
  "plan_ok {Analyze, DeliverResult} {} (two_step_plan ''step1'' ''step2'' ''step1'')"
  using normalize_and_validate_stable
    [of "{Analyze, DeliverResult}" "{}" "two_step_plan ''First'' ''deliver'' ''step1''"
        "two_step_plan ''step1'' ''step2'' ''step1''"]
  by (rule conjunct1) code_simp

lemma kind_as_str_inject: "kind_as_str k = kind_as_str k' \<longleftrightarrow> k = k'"
  by (cases k; cases k') simp_all

lemma required_kinds_order_free:
  assumes "mset ks' = mset ks"
  shows "sort_key kind_as_str ks' = sort_key kind_as_str ks"
proof (rule sort_key_inj_key_eq)
  show "mset ks' = mset (sort_key kind_as_str ks)" using assms by simp
  show "inj_on kind_as_str (set ks')" by (rule inj_onI) (simp add: kind_as_str_inject)
  show "sorted (map kind_as_str (sort_key kind_as_str ks))" by simp
qed

text \<open>
  The floor of the authenticated instruction: \<open>validate_required_kinds\<close> accepts a
  plan exactly when every required kind has a required step, sources and artifacts come
  with verification, and a drafted artifact is the declared result; its verdict, the
  error code included, does not depend on the order in which the set is enumerated.
\<close>

theorem validate_required_kinds_floor:
  "(validate_required_kinds ks p = Inr () \<longleftrightarrow>
      (\<forall>k \<in> set ks. \<exists>s \<in> set (steps p). step_required s \<and> step_kind s = k) \<and>
      ((\<exists>k \<in> set ks. is_source_kind k \<or> k = DraftArtifact) \<longrightarrow>
         requires_verification (completion p)) \<and>
      (DraftArtifact \<in> set ks \<longrightarrow> result_kind (completion p) = Artifact)) \<and>
   (mset ks' = mset ks \<longrightarrow> validate_required_kinds ks' p = validate_required_kinds ks p)"
proof (intro conjI impI)
  show "validate_required_kinds ks p = Inr () \<longleftrightarrow>
      (\<forall>k \<in> set ks. \<exists>s \<in> set (steps p). step_required s \<and> step_kind s = k) \<and>
      ((\<exists>k \<in> set ks. is_source_kind k \<or> k = DraftArtifact) \<longrightarrow>
         requires_verification (completion p)) \<and>
      (DraftArtifact \<in> set ks \<longrightarrow> result_kind (completion p) = Artifact)"
    unfolding validate_required_kinds_def Let_def first_failure_ok set_append Un_iff ball_Un
      set_map ball_simps list.set bail_if_ok missing_required_kind_def list_ex_iff
    by auto
next
  assume "mset ks' = mset ks"
  from required_kinds_order_free [OF this]
  show "validate_required_kinds ks' p = validate_required_kinds ks p"
    by (simp only: validate_required_kinds_def)
qed

section \<open>Witnesses\<close>

definition plain_step :: "string \<Rightarrow> WorkPlanStepKind \<Rightarrow> string list \<Rightarrow> WorkPlanStep" where
  "plain_step i k ds =
     \<lparr>step_id = i, step_kind = k, step_required = True, depends_on = ds,
      target_id = None, target_contract_digest = None\<rparr>"

definition report_plan :: StructuredWorkPlan where
  "report_plan =
     \<lparr>schema_version = WORK_PLAN_SCHEMA_VERSION,
      steps = [plain_step ''search'' WebSearch [], plain_step ''draft'' DraftArtifact [''search''],
               plain_step ''check'' Verify [''draft''],
               plain_step ''deliver'' DeliverResult [''draft'', ''check'']],
      completion =
        \<lparr>result_kind = Artifact, requires_verification = True,
         requirements =
           [\<lparr>requirement_id = ''r1'', description = ''cites two sources'', evidence_kind = Source,
             allow_transparent_limitation = False\<rparr>],
         requires_review_before_write = True\<rparr>,
      source_constraints = \<lparr>required_web_domains = [''example.org'']\<rparr>\<rparr>"

definition report_kinds :: "WorkPlanStepKind set" where
  "report_kinds = {WebSearch, DraftArtifact, Verify, DeliverResult}"

lemma report_plan_valid: "validate_plan report_kinds {} report_plan = Inr ()"
  by code_simp

lemma schedule_respects_dependencies_witness:
  "\<exists>j < 3. step_id (schedule report_plan ! j) = ''draft''"
proof -
  have "3 < length (schedule report_plan)" "''draft'' \<in> set (depends_on (schedule report_plan ! 3))"
    by code_simp+
  from schedule_respects_dependencies [OF report_plan_valid this] show ?thesis by blast
qed

lemma completion_covers_contract_witness:
  "contract_evidence report_plan {''search'', ''draft'', ''check'', ''deliver''}"
proof (rule completion_covers_contract [OF report_plan_valid])
  show "required_steps_complete report_plan {''search'', ''draft'', ''check'', ''deliver''}"
    by code_simp
qed

lemma normalize_step_ids_preserves_graph_witness:
  "same_steps (two_step_plan ''First'' ''Last'' ''First'') (two_step_plan ''step1'' ''step2'' ''step1'')"
proof -
  have "normalize_model_step_ids_if_needed (two_step_plan ''First'' ''Last'' ''First'') =
      Inr (two_step_plan ''step1'' ''step2'' ''step1'')" by code_simp
  moreover have "closed_dependencies (two_step_plan ''First'' ''Last'' ''First'')" by code_simp
  moreover have "length (steps (two_step_plan ''First'' ''Last'' ''First'')) < 2 ^ 64"
    by (simp add: two_step_plan_def)
  ultimately show ?thesis by (rule normalize_step_ids_preserves_graph [THEN conjunct1])
qed

lemma validate_required_kinds_floor_witness:
  "validate_required_kinds [DraftArtifact, WebSearch] report_plan = Inr () \<and>
   validate_required_kinds [WebSearch, DraftArtifact] report_plan = Inr ()"
proof -
  have "validate_required_kinds [DraftArtifact, WebSearch] report_plan = Inr ()" by code_simp
  moreover have "mset [WebSearch, DraftArtifact] = mset [DraftArtifact, WebSearch]" by simp
  ultimately show ?thesis
    using validate_required_kinds_floor
      [of "[DraftArtifact, WebSearch]" report_plan "[WebSearch, DraftArtifact]"] by simp
qed

end
