(* ===== verification/Work_Budget.thy ===== *)
theory Work_Budget
  imports Machines "HOL-Library.Word"
begin

text \<open>
  The execution budget of a canonical Work run (\<open>WorkRunBudgetPolicy\<close>,
  \<open>WorkRunBudgetUsage\<close> and \<open>WorkCompletionEvaluator\<close> of
  \<open>openlife-core/src/work_orchestration.rs\<close>) and the admission of a provider attempt by
  \<open>CanonicalWorkProviderLifecycle::begin\<close> of \<open>src-tauri/src/canonical_chat_runtime.rs\<close>.
  The counters are \<open>u32\<close>, so \<open>32 word\<close>.
\<close>

section \<open>Policy and usage\<close>

definition saturating_sub :: "'w::len word \<Rightarrow> 'w word \<Rightarrow> 'w word" where
  "saturating_sub a b = (if a < b then 0 else a - b)"

record WorkRunBudgetPolicy =
  max_plan_attempts :: "32 word"
  max_provider_attempts :: "32 word"
  max_tool_attempts :: "32 word"
  max_total_items :: "32 word"

definition default_budget_policy :: WorkRunBudgetPolicy where
  "default_budget_policy =
     \<lparr>max_plan_attempts = 2, max_provider_attempts = 14, max_tool_attempts = 12,
      max_total_items = 48\<rparr>"

record WorkRunBudgetUsage =
  plan_attempts :: "32 word"
  provider_attempts :: "32 word"
  verification_attempts :: "32 word"
  tool_attempts :: "32 word"
  total_items :: "32 word"

definition SEMANTIC_VERIFICATION_RESERVE :: "32 word" where
  "SEMANTIC_VERIFICATION_RESERVE = 2"

definition max_agent_provider_attempts :: "WorkRunBudgetPolicy \<Rightarrow> 32 word" where
  "max_agent_provider_attempts b =
     saturating_sub (max_provider_attempts b) SEMANTIC_VERIFICATION_RESERVE"

definition remaining_tool_attempts :: "WorkRunBudgetPolicy \<Rightarrow> WorkRunBudgetUsage \<Rightarrow> 32 word" where
  "remaining_tool_attempts b u = saturating_sub (max_tool_attempts b) (tool_attempts u)"

definition admit_item :: "WorkRunBudgetPolicy \<Rightarrow> WorkRunBudgetUsage \<Rightarrow> unit res" where
  "admit_item b u = bail_if (max_total_items b \<le> total_items u) ''work_item_budget_exhausted''"

definition admit_provider :: "WorkRunBudgetPolicy \<Rightarrow> WorkRunBudgetUsage \<Rightarrow> unit res" where
  "admit_provider b u =
     (let agent_attempts = saturating_sub (provider_attempts u) (verification_attempts u) in
      if max_provider_attempts b \<le> provider_attempts u \<or>
         max_agent_provider_attempts b \<le> agent_attempts
      then Inl ''work_provider_budget_exhausted''
      else admit_item b u)"

definition admit_plan :: "WorkRunBudgetPolicy \<Rightarrow> WorkRunBudgetUsage \<Rightarrow> unit res" where
  "admit_plan b u =
     (if max_plan_attempts b \<le> plan_attempts u then Inl ''work_plan_attempt_budget_exhausted''
      else admit_provider b u)"

definition admit_semantic_verification :: "WorkRunBudgetPolicy \<Rightarrow> WorkRunBudgetUsage \<Rightarrow> unit res" where
  "admit_semantic_verification b u =
     (if max_provider_attempts b \<le> provider_attempts u \<or>
         SEMANTIC_VERIFICATION_RESERVE \<le> verification_attempts u
      then Inl ''work_semantic_verification_budget_exhausted''
      else admit_item b u)"

definition admit_tool :: "WorkRunBudgetPolicy \<Rightarrow> WorkRunBudgetUsage \<Rightarrow> unit res" where
  "admit_tool b u =
     (if max_tool_attempts b \<le> tool_attempts u then Inl ''work_tool_budget_exhausted''
      else admit_item b u)"

section \<open>Admission of a provider attempt\<close>

datatype ProviderPayloadPurpose =
  MainChatDirectAnswer | MainChatConversationStep | MainChatWorkGoalContract
| MainChatWorkSemanticVerification | MainChatWorkPlan | MainChatInitialWorkDecision
| MainChatPersonalIntelligenceStep | MainChatToolArguments | MainChatAgentToolStep
| MainChatAgentArtifactOrToolStep | MainChatAgentAnswerOrToolStep | MainChatAgentArtifactStep
| MainChatAgentFinalStep | MainChatToolRanking | LayeredReasoningPhase
| FrozenRuntimeEvaluation | ExplicitProviderProbe

definition work_provider_attempt_summary_code :: "ProviderPayloadPurpose option \<Rightarrow> string" where
  "work_provider_attempt_summary_code purpose =
     (if purpose = Some MainChatWorkGoalContract then ''work_provider_goal_contract''
      else if purpose = Some MainChatWorkSemanticVerification
      then ''work_provider_semantic_verification''
      else ''work_provider_generation'')"

datatype ProviderLifecycleAdmissionFailure = BudgetExhausted string | Invalid string

text \<open>The part of \<open>begin\<close> that decides; what it then records is in the task store.\<close>

definition begin_admission ::
  "bool \<Rightarrow> WorkRunBudgetPolicy \<Rightarrow> WorkRunBudgetUsage \<Rightarrow> ProviderPayloadPurpose option \<Rightarrow>
   ProviderLifecycleAdmissionFailure + string"
where
  "begin_admission attempt_active budget usage purpose =
     (if attempt_active then Inl (Invalid ''canonical_work_provider_attempt_already_active'')
      else
        (let summary_code = work_provider_attempt_summary_code purpose;
             admission =
               (if summary_code = ''work_provider_semantic_verification''
                then admit_semantic_verification budget usage
                else admit_provider budget usage)
         in case admission of
              Inl code \<Rightarrow>
                Inl (if ends_with ''_budget_exhausted'' code then BudgetExhausted code
                     else Invalid code)
            | Inr _ \<Rightarrow> Inr summary_code))"

section \<open>Completion evidence\<close>

record WorkCompletionEvidence =
  ev_required_steps_complete :: bool
  ev_pending_or_unknown_items :: bool
  ev_final_result_present :: bool
  ev_artifact_required :: bool
  ev_artifact_ready_or_waiting_review :: bool
  ev_verification_required :: bool
  ev_verification_complete :: bool

definition evaluate_completion :: "WorkCompletionEvidence \<Rightarrow> unit res" where
  "evaluate_completion e =
     first_failure
       [bail_if (\<not> ev_required_steps_complete e \<or> ev_pending_or_unknown_items e)
          ''work_completion_required_item_incomplete'',
        bail_if (ev_artifact_required e \<and> \<not> ev_artifact_ready_or_waiting_review e)
          ''work_completion_artifact_missing'',
        bail_if (ev_verification_required e \<and> \<not> ev_verification_complete e)
          ''work_completion_verification_missing'',
        bail_if (\<not> ev_final_result_present e) ''work_completion_final_result_missing'']"

lemma evaluate_completion_ok [simp]:
  "evaluate_completion e = Inr () \<longleftrightarrow>
     ev_required_steps_complete e \<and> \<not> ev_pending_or_unknown_items e \<and>
     (ev_artifact_required e \<longrightarrow> ev_artifact_ready_or_waiting_review e) \<and>
     (ev_verification_required e \<longrightarrow> ev_verification_complete e) \<and>
     ev_final_result_present e"
  unfolding evaluate_completion_def by (simp only: first_failure_ok list.set ball_simps bail_if_ok) blast

section \<open>Admitted runs\<close>

text \<open>
  The usage is counted from the rows a run has stored. A provider attempt stores an item
  with its summary code and an attempt of executor kind \<open>provider\<close>; a tool call stores an
  item and an attempt of kind \<open>tool\<close>; any other item is admitted alone.
\<close>

datatype budget_event = ProviderCall "ProviderPayloadPurpose option" | ToolCall | OtherItem

definition charge_provider :: "string \<Rightarrow> WorkRunBudgetUsage \<Rightarrow> WorkRunBudgetUsage" where
  "charge_provider code u =
     u\<lparr>plan_attempts :=
         plan_attempts u + (if code = ''work_plan_generation'' then 1 else 0),
       provider_attempts := provider_attempts u + 1,
       verification_attempts :=
         verification_attempts u + (if code = ''work_provider_semantic_verification'' then 1 else 0),
       total_items := total_items u + 1\<rparr>"

definition charge_tool :: "WorkRunBudgetUsage \<Rightarrow> WorkRunBudgetUsage" where
  "charge_tool u = u\<lparr>tool_attempts := tool_attempts u + 1, total_items := total_items u + 1\<rparr>"

definition charge_item :: "WorkRunBudgetUsage \<Rightarrow> WorkRunBudgetUsage" where
  "charge_item u = u\<lparr>total_items := total_items u + 1\<rparr>"

definition budget_step ::
  "WorkRunBudgetPolicy \<Rightarrow> budget_event \<Rightarrow> WorkRunBudgetUsage \<Rightarrow>
   ProviderLifecycleAdmissionFailure + WorkRunBudgetUsage"
where
  "budget_step b e u =
     (case e of
        ProviderCall purpose \<Rightarrow>
          res_bind (begin_admission False b u purpose) (\<lambda>code. Inr (charge_provider code u))
      | ToolCall \<Rightarrow> map_err Invalid (res_bind (admit_tool b u) (\<lambda>_. Inr (charge_tool u)))
      | OtherItem \<Rightarrow> map_err Invalid (res_bind (admit_item b u) (\<lambda>_. Inr (charge_item u))))"

definition no_usage :: WorkRunBudgetUsage where
  "no_usage =
     \<lparr>plan_attempts = 0, provider_attempts = 0, verification_attempts = 0, tool_attempts = 0,
      total_items = 0\<rparr>"

text \<open>
  The budget invariant: every counter within its ceiling, agent calls (provider calls
  that are not verification) within the ceiling less the reserve, and nothing counted as
  a plan attempt.
\<close>

definition budget_inv :: "WorkRunBudgetPolicy \<Rightarrow> WorkRunBudgetUsage \<Rightarrow> bool" where
  "budget_inv b u \<longleftrightarrow>
     unat (provider_attempts u) \<le> unat (max_provider_attempts b) \<and>
     unat (verification_attempts u) \<le> unat SEMANTIC_VERIFICATION_RESERVE \<and>
     unat (verification_attempts u) \<le> unat (provider_attempts u) \<and>
     unat (provider_attempts u) - unat (verification_attempts u) \<le>
       unat (max_provider_attempts b) - unat SEMANTIC_VERIFICATION_RESERVE \<and>
     unat (tool_attempts u) \<le> unat (max_tool_attempts b) \<and>
     unat (total_items u) \<le> unat (max_total_items b) \<and>
     plan_attempts u = 0"

lemma unat_saturating_sub: "unat (saturating_sub a b) = unat a - unat b"
  by (auto simp: saturating_sub_def word_less_nat_alt unat_sub_if')

lemma unat_Suc_below: "a < b \<Longrightarrow> unat (a + 1) = Suc (unat (a :: 32 word))"
proof -
  assume "a < b"
  then have "a \<noteq> - 1" using word_order.extremum_strict [of b] by auto
  then have "1 + a \<noteq> 0" by (metis add.commute eq_neg_iff_add_eq_0)
  then show ?thesis by (simp add: unatSuc add.commute [of a])
qed

lemmas admit_defs = admit_item_def admit_provider_def admit_semantic_verification_def
  admit_tool_def Let_def

section \<open>The budget of an admitted run\<close>

lemma semantic_code [simp]:
  "work_provider_attempt_summary_code purpose = ''work_provider_semantic_verification'' \<longleftrightarrow>
     purpose = Some MainChatWorkSemanticVerification"
  "work_provider_attempt_summary_code purpose \<noteq> ''work_plan_generation''"
  by (simp_all add: work_provider_attempt_summary_code_def)

lemma admit_item_ok [simp]: "admit_item b u = Inr () \<longleftrightarrow> total_items u < max_total_items b"
  by (auto simp: admit_item_def not_le)

lemma admit_tool_ok [simp]:
  "admit_tool b u = Inr () \<longleftrightarrow>
     tool_attempts u < max_tool_attempts b \<and> total_items u < max_total_items b"
  by (auto simp: admit_tool_def not_le)

lemma admit_semantic_verification_ok [simp]:
  "admit_semantic_verification b u = Inr () \<longleftrightarrow>
     provider_attempts u < max_provider_attempts b \<and>
     verification_attempts u < SEMANTIC_VERIFICATION_RESERVE \<and>
     total_items u < max_total_items b"
  by (auto simp: admit_semantic_verification_def not_le)

lemma admit_provider_ok [simp]:
  "admit_provider b u = Inr () \<longleftrightarrow>
     provider_attempts u < max_provider_attempts b \<and>
     unat (provider_attempts u) - unat (verification_attempts u) <
       unat (max_provider_attempts b) - unat SEMANTIC_VERIFICATION_RESERVE \<and>
     total_items u < max_total_items b"
  by (simp add: admit_provider_def Let_def max_agent_provider_attempts_def word_less_nat_alt
      word_le_nat_alt unat_saturating_sub not_le)

lemma begin_admission_ok:
  "begin_admission False b u purpose = Inr code \<longleftrightarrow>
     code = work_provider_attempt_summary_code purpose \<and>
     (if purpose = Some MainChatWorkSemanticVerification
      then admit_semantic_verification b u = Inr () else admit_provider b u = Inr ())"
  unfolding begin_admission_def Let_def semantic_code
  by (auto split: sum.splits simp del: admit_provider_ok admit_semantic_verification_ok)

lemma budget_step_ok:
  "budget_step b e u = Inr u' \<longleftrightarrow>
     (case e of
        ProviderCall purpose \<Rightarrow>
          u' = charge_provider (work_provider_attempt_summary_code purpose) u \<and>
          (if purpose = Some MainChatWorkSemanticVerification
           then admit_semantic_verification b u = Inr () else admit_provider b u = Inr ())
      | ToolCall \<Rightarrow> u' = charge_tool u \<and> admit_tool b u = Inr ()
      | OtherItem \<Rightarrow> u' = charge_item u \<and> admit_item b u = Inr ())"
  by (cases e) (auto simp: budget_step_def begin_admission_ok)

lemma budget_step_inv:
  assumes inv: "budget_inv b u" and step: "budget_step b e u = Inr u'"
  shows "budget_inv b u'"
proof (cases e)
  case (ProviderCall purpose)
  show ?thesis
  proof (cases "purpose = Some MainChatWorkSemanticVerification")
    case True
    have "provider_attempts u < max_provider_attempts b"
      "verification_attempts u < SEMANTIC_VERIFICATION_RESERVE" "total_items u < max_total_items b"
      using step ProviderCall True by (simp_all add: budget_step_ok)
    then show ?thesis
      using inv step ProviderCall True
      by (simp add: budget_step_ok budget_inv_def charge_provider_def unat_Suc_below
          word_less_nat_alt)
  next
    case False
    have "provider_attempts u < max_provider_attempts b" "total_items u < max_total_items b"
      using step ProviderCall False by (simp_all add: budget_step_ok)
    then show ?thesis
      using inv step ProviderCall False
      by (simp add: budget_step_ok budget_inv_def charge_provider_def unat_Suc_below
          word_less_nat_alt) linarith
  qed
next
  case ToolCall
  then have "tool_attempts u < max_tool_attempts b" "total_items u < max_total_items b"
    using step by (simp_all add: budget_step_ok)
  then show ?thesis
    using inv step ToolCall
    by (simp add: budget_step_ok budget_inv_def charge_tool_def unat_Suc_below word_less_nat_alt)
next
  case OtherItem
  then have "total_items u < max_total_items b"
    using step by (simp add: budget_step_ok)
  then show ?thesis
    using inv step OtherItem
    by (simp add: budget_step_ok budget_inv_def charge_item_def unat_Suc_below word_less_nat_alt)
qed

interpretation budget: guarded_machine "budget_step b" "budget_inv b" for b
  by unfold_locales (rule budget_step_inv)

lemma no_usage_inv: "budget_inv b no_usage"
  by (simp add: budget_inv_def no_usage_def)

lemma verification_admitted:
  assumes "budget_inv default_budget_policy u" and "unat (verification_attempts u) < 2"
  shows "admit_semantic_verification default_budget_policy u = Inr () \<or>
    admit_semantic_verification default_budget_policy u = Inl ''work_item_budget_exhausted''"
proof -
  have "provider_attempts u < 14 \<and> verification_attempts u < SEMANTIC_VERIFICATION_RESERVE"
    using assms by (simp add: budget_inv_def default_budget_policy_def word_less_nat_alt
        SEMANTIC_VERIFICATION_RESERVE_def) linarith
  then show ?thesis
    by (simp add: admit_semantic_verification_def admit_item_def bail_if_def
        default_budget_policy_def not_le [symmetric])
qed

section \<open>Properties\<close>



text \<open>
  The plan ceiling never refuses anything: no admitted provider attempt is counted
  as a plan attempt, so the default ceiling of two plan attempts is respected by a run
  that makes twelve planning calls, and the next one is refused by the provider ceiling
  only.
\<close>

theorem plan_ceiling_is_not_enforced:
  "(let u = attempts (budget_step default_budget_policy)
              (replicate 12 (ProviderCall (Some MainChatWorkPlan))) no_usage in
    provider_attempts u = 12 \<and> plan_attempts u = 0 \<and>
    begin_admission False default_budget_policy u (Some MainChatWorkPlan) =
      Inl (BudgetExhausted ''work_provider_budget_exhausted''))"
  by code_simp

end
