(* ===== verification/Provider_Json.thy ===== *)
theory Provider_Json
  imports Work_Plan
begin

text \<open>
  The transport boundary of a provider-authored plan
  (\<open>openlife-core/src/work_orchestration.rs\<close>): the projection of a JSON value to the
  fields of the contract, the metadata-only shape diagnosis, the error codes of a failed
  decode, and the two parsers. \<open>serde_json\<close> is a parameter: \<open>parse_value\<close> for
  \<open>from_str::<Value>\<close>, \<open>decode\<close> for the derived \<open>from_str::<StructuredWorkPlan>\<close> and
  \<open>to_string\<close> for the serialiser.
\<close>

section \<open>JSON values\<close>

text \<open>
  \<open>serde_json::Value\<close>. An object is the list of its entries with distinct keys; a
  number is kept as its text.
\<close>

datatype json =
  JNull | JBool bool | JNumber string | JString string | JArray "json list"
| JObject "(string \<times> json) list"

fun as_object :: "json \<Rightarrow> (string \<times> json) list option" where
  "as_object (JObject o1) = Some o1"
| "as_object _ = None"

fun as_array :: "json \<Rightarrow> json list option" where
  "as_array (JArray xs) = Some xs"
| "as_array _ = None"

fun as_str :: "json \<Rightarrow> string option" where
  "as_str (JString s) = Some s"
| "as_str _ = None"

fun is_string :: "json \<Rightarrow> bool" where
  "is_string (JString _) = True"
| "is_string _ = False"

fun is_boolean :: "json \<Rightarrow> bool" where
  "is_boolean (JBool _) = True"
| "is_boolean _ = False"

fun is_array :: "json \<Rightarrow> bool" where
  "is_array (JArray _) = True"
| "is_array _ = False"

fun is_object :: "json \<Rightarrow> bool" where
  "is_object (JObject _) = True"
| "is_object _ = False"

fun is_null :: "json \<Rightarrow> bool" where
  "is_null JNull = True"
| "is_null _ = False"

definition get_str :: "(string \<times> json) list \<Rightarrow> string \<Rightarrow> string option" where
  "get_str obj k = Option.bind (map_of obj k) as_str"

definition get_array :: "(string \<times> json) list \<Rightarrow> string \<Rightarrow> json list option" where
  "get_array obj k = Option.bind (map_of obj k) as_array"

definition get_object :: "(string \<times> json) list \<Rightarrow> string \<Rightarrow> (string \<times> json) list option" where
  "get_object obj k = Option.bind (map_of obj k) as_object"

section \<open>Projection to the contract\<close>

definition retain_object_fields :: "json \<Rightarrow> string list \<Rightarrow> json" where
  "retain_object_fields v allowed =
     (case v of
        JObject entries \<Rightarrow> JObject (filter (\<lambda>(k, _). k \<in> set allowed) entries)
      | _ \<Rightarrow> v)"

text \<open>\<open>if let Some(x) = object.get_mut(key)\<close> followed by an update of \<open>x\<close> in place.\<close>

definition update_field :: "string \<Rightarrow> (json \<Rightarrow> json) \<Rightarrow> (string \<times> json) list \<Rightarrow> (string \<times> json) list" where
  "update_field key f entries = map (\<lambda>(k, v). (k, if k = key then f v else v)) entries"

definition update_elements :: "(json \<Rightarrow> json) \<Rightarrow> json \<Rightarrow> json" where
  "update_elements f v = (case v of JArray xs \<Rightarrow> JArray (map f xs) | _ \<Rightarrow> v)"

definition ROOT_FIELDS :: "string list" where
  "ROOT_FIELDS = [''schemaVersion'', ''steps'', ''completion'', ''sourceConstraints'']"

definition STEP_FIELDS :: "string list" where
  "STEP_FIELDS = [''id'', ''kind'', ''required'', ''dependsOn'', ''targetId'']"

definition COMPLETION_FIELDS :: "string list" where
  "COMPLETION_FIELDS =
     [''resultKind'', ''requiresVerification'', ''requirements'', ''requiresReviewBeforeWrite'']"

definition REQUIREMENT_FIELDS :: "string list" where
  "REQUIREMENT_FIELDS =
     [''id'', ''description'', ''evidenceKind'', ''kind'', ''allowTransparentLimitation'']"

definition project_completion :: "json \<Rightarrow> json" where
  "project_completion v =
     (case retain_object_fields v COMPLETION_FIELDS of
        JObject entries \<Rightarrow>
          JObject (update_field ''requirements''
            (update_elements (\<lambda>r. retain_object_fields r REQUIREMENT_FIELDS)) entries)
      | v' \<Rightarrow> v')"

definition project_provider_work_plan_fields :: "json \<Rightarrow> json" where
  "project_provider_work_plan_fields v =
     (case retain_object_fields v ROOT_FIELDS of
        JObject root \<Rightarrow>
          JObject
            (update_field ''sourceConstraints''
               (\<lambda>c. retain_object_fields c [''requiredWebDomains''])
            (update_field ''completion'' project_completion
            (update_field ''steps''
               (update_elements (\<lambda>s. retain_object_fields s STEP_FIELDS)) root)))
      | v' \<Rightarrow> v')"

section \<open>The shape diagnosis\<close>

fun type_name :: "json \<Rightarrow> string" where
  "type_name JNull = ''null''"
| "type_name (JBool _) = ''boolean''"
| "type_name (JNumber _) = ''number''"
| "type_name (JString _) = ''string''"
| "type_name (JArray _) = ''array''"
| "type_name (JObject _) = ''object''"

definition shape_invalid :: "string \<Rightarrow> json \<Rightarrow> string \<Rightarrow> string" where
  "shape_invalid path v expected =
     ''work_plan_json_shape_invalid:'' @ path @ '':'' @ type_name v @ ''_expected_'' @ expected"

definition expect_type ::
  "json option \<Rightarrow> string \<Rightarrow> string \<Rightarrow> (json \<Rightarrow> bool) \<Rightarrow> string option"
where
  "expect_type v path expected predicate =
     (case v of
        None \<Rightarrow> None
      | Some v \<Rightarrow> if \<not> predicate v then Some (shape_invalid path v expected) else None)"

text \<open>A sequence of \<open>if let Some(error) = ... { return Some(error) }\<close>.\<close>

fun first_error :: "string option list \<Rightarrow> string option" where
  "first_error [] = None"
| "first_error (Some e # _) = Some e"
| "first_error (None # es) = first_error es"

text \<open>\<open>for (index, x) in xs.iter().enumerate()\<close> with an early return.\<close>

fun first_error_at :: "(nat \<Rightarrow> json \<Rightarrow> string option) \<Rightarrow> nat \<Rightarrow> json list \<Rightarrow> string option" where
  "first_error_at f i [] = None"
| "first_error_at f i (x # xs) = (case f i x of Some e \<Rightarrow> Some e | None \<Rightarrow> first_error_at f (i + 1) xs)"

definition STEP_KIND_NAMES :: "string list" where
  "STEP_KIND_NAMES =
     [''analyze'', ''personal_intelligence'', ''read_imported_document'', ''read_workspace_file'',
      ''web_search'', ''web_fetch'', ''use_selected_skill'', ''read_mcp'', ''draft_artifact'',
      ''verify'', ''deliver_result'']"

definition enum_error :: "string option \<Rightarrow> string list \<Rightarrow> string \<Rightarrow> string option" where
  "enum_error v names path =
     (case v of
        None \<Rightarrow> None
      | Some k \<Rightarrow>
          if k \<notin> set names then Some (''work_plan_json_shape_invalid:'' @ path @ '':enum_invalid'')
          else None)"

definition string_elements_error :: "json list option \<Rightarrow> string \<Rightarrow> string option" where
  "string_elements_error xs path =
     (case xs of
        None \<Rightarrow> None
      | Some xs \<Rightarrow>
          first_error_at
            (\<lambda>i x. if \<not> is_string x then Some (shape_invalid (path @ ''['' @ dec i @ '']'') x ''string'')
                   else None) 0 xs)"

definition step_shape_error :: "nat \<Rightarrow> json \<Rightarrow> string option" where
  "step_shape_error index v =
     (let path = ''steps['' @ dec index @ '']'' in
      case as_object v of
        None \<Rightarrow> Some (shape_invalid path v ''object'')
      | Some step \<Rightarrow>
          first_error
            [expect_type (map_of step ''id'') (path @ ''.id'') ''string'' is_string,
             expect_type (map_of step ''kind'') (path @ ''.kind'') ''string'' is_string,
             enum_error (get_str step ''kind'') STEP_KIND_NAMES (path @ ''.kind''),
             expect_type (map_of step ''required'') (path @ ''.required'') ''boolean'' is_boolean,
             expect_type (map_of step ''dependsOn'') (path @ ''.dependsOn'') ''array'' is_array,
             string_elements_error (get_array step ''dependsOn'') (path @ ''.dependsOn''),
             expect_type (map_of step ''targetId'') (path @ ''.targetId'') ''string_or_null''
               (\<lambda>v. is_null v \<or> is_string v)])"

definition requirement_shape_error :: "nat \<Rightarrow> json \<Rightarrow> string option" where
  "requirement_shape_error index v =
     (let path = ''completion.requirements['' @ dec index @ '']'' in
      case as_object v of
        None \<Rightarrow> Some (shape_invalid path v ''object'')
      | Some r \<Rightarrow>
          first_error
            [expect_type (map_of r ''id'') (path @ ''.id'') ''string'' is_string,
             expect_type (map_of r ''description'') (path @ ''.description'') ''string'' is_string,
             expect_type (map_of r ''evidenceKind'') (path @ ''.evidenceKind'') ''string'' is_string,
             expect_type (map_of r ''kind'') (path @ ''.kind'') ''string'' is_string,
             (if map_of r ''evidenceKind'' \<noteq> None \<and> map_of r ''kind'' \<noteq> None
              then Some (''work_plan_json_shape_invalid:'' @ path @ ''.evidenceKind:duplicate_alias'')
              else None),
             enum_error
               (Option.bind
                  (case map_of r ''evidenceKind'' of Some v \<Rightarrow> Some v | None \<Rightarrow> map_of r ''kind'') as_str)
               [''result'', ''source''] (path @ ''.evidenceKind''),
             expect_type (map_of r ''allowTransparentLimitation'')
               (path @ ''.allowTransparentLimitation'') ''boolean'' is_boolean])"

definition completion_shape_error :: "(string \<times> json) list \<Rightarrow> string option" where
  "completion_shape_error c =
     first_error
       [expect_type (map_of c ''resultKind'') ''completion.resultKind'' ''string'' is_string,
        enum_error (get_str c ''resultKind'') [''answer'', ''artifact''] ''completion.resultKind'',
        expect_type (map_of c ''requiresVerification'') ''completion.requiresVerification''
          ''boolean'' is_boolean,
        expect_type (map_of c ''requiresReviewBeforeWrite'') ''completion.requiresReviewBeforeWrite''
          ''boolean'' is_boolean,
        expect_type (map_of c ''requirements'') ''completion.requirements'' ''array'' is_array,
        (case get_array c ''requirements'' of
           None \<Rightarrow> None
         | Some rs \<Rightarrow> first_error_at requirement_shape_error 0 rs)]"

definition source_constraints_shape_error :: "(string \<times> json) list \<Rightarrow> string option" where
  "source_constraints_shape_error c =
     first_error
       [expect_type (map_of c ''requiredWebDomains'') ''sourceConstraints.requiredWebDomains''
          ''array'' is_array,
        string_elements_error (get_array c ''requiredWebDomains'')
          ''sourceConstraints.requiredWebDomains'']"

definition provider_work_plan_shape_error :: "json \<Rightarrow> string option" where
  "provider_work_plan_shape_error v =
     (case as_object v of
        None \<Rightarrow> Some (shape_invalid ''root'' v ''object'')
      | Some root \<Rightarrow>
          first_error
            [expect_type (map_of root ''schemaVersion'') ''schemaVersion'' ''string'' is_string,
             expect_type (map_of root ''steps'') ''steps'' ''array'' is_array,
             (case get_array root ''steps'' of
                None \<Rightarrow> None
              | Some ss \<Rightarrow> first_error_at step_shape_error 0 ss),
             expect_type (map_of root ''completion'') ''completion'' ''object'' is_object,
             (case get_object root ''completion'' of
                None \<Rightarrow> None
              | Some c \<Rightarrow> completion_shape_error c),
             expect_type (map_of root ''sourceConstraints'') ''sourceConstraints'' ''object'' is_object,
             (case get_object root ''sourceConstraints'' of
                None \<Rightarrow> None
              | Some c \<Rightarrow> source_constraints_shape_error c)])"

section \<open>Error codes of a failed decode\<close>

datatype Category = SyntaxError | Eof | DataError | Io

text \<open>A \<open>serde_json::Error\<close>: its message and its category.\<close>

type_synonym serde_error = "string \<times> Category"

fun split_once :: "string \<Rightarrow> string \<Rightarrow> (string \<times> string) option" where
  "split_once p [] = (if p = [] then Some ([], []) else None)"
| "split_once p (c # s) =
     (case strip_prefix p (c # s) of
        Some r \<Rightarrow> Some ([], r)
      | None \<Rightarrow> map_option (\<lambda>(a, b). (c # a, b)) (split_once p s))"

definition kind_location :: "string \<Rightarrow> string \<Rightarrow> string" where
  "kind_location field kind_name = (if field = ''kind'' then kind_name else field)"

definition requirement_has_field :: "string \<Rightarrow> json \<Rightarrow> bool" where
  "requirement_has_field field r =
     (case as_object r of None \<Rightarrow> False | Some o1 \<Rightarrow> map_of o1 field \<noteq> None)"

definition work_plan_unknown_field_location ::
  "(string \<Rightarrow> json option) \<Rightarrow> string \<Rightarrow> string \<Rightarrow> string option"
where
  "work_plan_unknown_field_location parse_value json field =
     (case Option.bind (parse_value json) as_object of
        None \<Rightarrow> None
      | Some root \<Rightarrow>
          if map_of root field \<noteq> None \<and> field \<notin> set ROOT_FIELDS
          then Some (kind_location field ''root_kind'')
          else
            (let in_completion =
               (case get_object root ''completion'' of
                  None \<Rightarrow> None
                | Some c \<Rightarrow>
                    if map_of c field \<noteq> None \<and> field \<notin> set COMPLETION_FIELDS
                    then Some (kind_location field ''completion_kind'')
                    else if (case get_array c ''requirements'' of
                               None \<Rightarrow> False
                             | Some rs \<Rightarrow> list_ex (requirement_has_field field) rs) \<and>
                            field \<notin> {''id'', ''description'', ''evidenceKind''}
                    then Some (kind_location field ''requirement_kind'')
                    else None)
             in case in_completion of
                  Some l \<Rightarrow> Some l
                | None \<Rightarrow>
                    if (case get_object root ''sourceConstraints'' of
                          None \<Rightarrow> False
                        | Some c \<Rightarrow> map_of c field \<noteq> None) \<and> field \<noteq> ''requiredWebDomains''
                    then Some (kind_location field ''source_constraints_kind'')
                    else None))"

definition field_name_ok :: "string \<Rightarrow> bool" where
  "field_name_ok f \<longleftrightarrow>
     f \<noteq> [] \<and> length f \<le> 64 \<and> list_all (\<lambda>c. is_ascii_alphanumeric c \<or> c = CHR ''_'') f"

definition reported_field :: "string \<Rightarrow> string \<Rightarrow> string option" where
  "reported_field message prefix =
     (case split_once prefix message of
        None \<Rightarrow> None
      | Some (_, tail) \<Rightarrow>
          (case split_once [CHR 0x60] tail of
             None \<Rightarrow> None
           | Some (field, _) \<Rightarrow> if field_name_ok field then Some field else None))"

fun first_reported_field ::
  "(string \<Rightarrow> string \<Rightarrow> string) \<Rightarrow> string \<Rightarrow> (string \<times> string) list \<Rightarrow> string option"
where
  "first_reported_field render message [] = None"
| "first_reported_field render message ((prefix, code) # rest) =
     (case reported_field message prefix of
        Some field \<Rightarrow> Some (render code field)
      | None \<Rightarrow> first_reported_field render message rest)"

definition work_plan_json_error_code ::
  "(string \<Rightarrow> json option) \<Rightarrow> serde_error \<Rightarrow> string \<Rightarrow> string"
where
  "work_plan_json_error_code parse_value error json =
     (case error of (message, category) \<Rightarrow>
        (let render = (\<lambda>code field.
               (let location =
                  (if code = ''work_plan_json_unknown_field''
                   then work_plan_unknown_field_location parse_value json field else None)
                in code @ '':'' @ (case location of Some l \<Rightarrow> l | None \<Rightarrow> field)))
         in case first_reported_field render message
              [(''missing field '' @ [CHR 0x60], ''work_plan_json_missing_field''),
               (''unknown field '' @ [CHR 0x60], ''work_plan_json_unknown_field''),
               (''duplicate field '' @ [CHR 0x60], ''work_plan_json_duplicate_field'')] of
              Some e \<Rightarrow> e
            | None \<Rightarrow>
                (case category of
                   SyntaxError \<Rightarrow> ''work_plan_json_syntax_invalid''
                 | Eof \<Rightarrow> ''work_plan_json_syntax_invalid''
                 | DataError \<Rightarrow> ''work_plan_json_shape_invalid''
                 | Io \<Rightarrow> ''work_plan_json_invalid'')))"

section \<open>The parsers\<close>

text \<open>A Markdown fence of three back quotes around the JSON is dropped.\<close>

definition FENCE :: string where
  "FENCE = [CHR 0x60, CHR 0x60, CHR 0x60]"

definition strip_json_fence :: "string \<Rightarrow> string" where
  "strip_json_fence raw =
     (let trimmed = trim raw in
      case Option.bind (strip_prefix (FENCE @ ''json'') trimmed) (strip_suffix FENCE) of
        Some value \<Rightarrow> trim value
      | None \<Rightarrow> trimmed)"

definition parse_and_validate ::
  "(string \<Rightarrow> serde_error + json) \<Rightarrow> (string \<Rightarrow> serde_error + StructuredWorkPlan) \<Rightarrow>
   WorkPlanStepKind set \<Rightarrow> string set \<Rightarrow> string \<Rightarrow> StructuredWorkPlan res"
where
  "parse_and_validate parse_value decode allowed_kinds allowed_mcp raw =
     (let json = strip_json_fence raw;
          parsed = (case parse_value json of Inl _ \<Rightarrow> None | Inr v \<Rightarrow> Some v) in
      case Option.bind parsed provider_work_plan_shape_error of
        Some error \<Rightarrow> Inl error
      | None \<Rightarrow>
          (case decode json of
             Inl error \<Rightarrow>
               Inl (work_plan_json_error_code
                      (\<lambda>s. case parse_value s of Inl _ \<Rightarrow> None | Inr v \<Rightarrow> Some v) error json)
           | Inr plan \<Rightarrow> normalize_and_validate allowed_kinds allowed_mcp plan))"

definition parse_provider_output_and_validate ::
  "(string \<Rightarrow> serde_error + json) \<Rightarrow> (json \<Rightarrow> string option) \<Rightarrow>
   (string \<Rightarrow> serde_error + StructuredWorkPlan) \<Rightarrow>
   WorkPlanStepKind set \<Rightarrow> string set \<Rightarrow> string \<Rightarrow> StructuredWorkPlan res"
where
  "parse_provider_output_and_validate parse_value to_string decode allowed_kinds allowed_mcp raw =
     (let json = strip_json_fence raw in
      case parse_value json of
        Inl error \<Rightarrow>
          Inl (work_plan_json_error_code
                 (\<lambda>s. case parse_value s of Inl _ \<Rightarrow> None | Inr v \<Rightarrow> Some v) error json)
      | Inr value \<Rightarrow>
          res_bind (ok_or ''work_plan_serialization_failed''
                     (to_string (project_provider_work_plan_fields value))) (\<lambda>text.
          parse_and_validate parse_value decode allowed_kinds allowed_mcp text))"

section \<open>Lookup through the projection\<close>

lemma map_of_retain:
  "k \<in> set allowed \<Longrightarrow> map_of (filter (\<lambda>(k, _). k \<in> set allowed) entries) k = map_of entries k"
  by (induction entries) auto

lemma map_of_retain_iff:
  "map_of (filter (\<lambda>(k, _). k \<in> set allowed) entries) k =
     (if k \<in> set allowed then map_of entries k else None)"
  by (induction entries) auto

lemma map_of_update_field:
  "map_of (update_field key f entries) k =
     (if k = key then map_option f (map_of entries k) else map_of entries k)"
  unfolding update_field_def by (induction entries) auto

lemma retain_same_type [simp]: "type_name (retain_object_fields v allowed) = type_name v"
  by (cases v) (simp_all add: retain_object_fields_def)

lemma as_object_retain:
  "as_object (retain_object_fields v allowed) =
     map_option (filter (\<lambda>(k, _). k \<in> set allowed)) (as_object v)"
  by (cases v) (simp_all add: retain_object_fields_def)

text \<open>A checked field of a value depends on the entries of the checked keys only.\<close>

lemma first_error_at_cong:
  "(\<And>i x. x \<in> set xs \<Longrightarrow> f i (g x) = f i x) \<Longrightarrow>
   first_error_at f i (map g xs) = first_error_at f i xs"
  by (induction xs arbitrary: i) (auto split: option.splits)

lemma field_members:
  "''id'' \<in> set STEP_FIELDS" "''kind'' \<in> set STEP_FIELDS" "''required'' \<in> set STEP_FIELDS"
  "''dependsOn'' \<in> set STEP_FIELDS" "''targetId'' \<in> set STEP_FIELDS"
  "''id'' \<in> set REQUIREMENT_FIELDS" "''description'' \<in> set REQUIREMENT_FIELDS"
  "''evidenceKind'' \<in> set REQUIREMENT_FIELDS" "''kind'' \<in> set REQUIREMENT_FIELDS"
  "''allowTransparentLimitation'' \<in> set REQUIREMENT_FIELDS"
  "''resultKind'' \<in> set COMPLETION_FIELDS" "''requiresVerification'' \<in> set COMPLETION_FIELDS"
  "''requirements'' \<in> set COMPLETION_FIELDS" "''requiresReviewBeforeWrite'' \<in> set COMPLETION_FIELDS"
  "''schemaVersion'' \<in> set ROOT_FIELDS" "''steps'' \<in> set ROOT_FIELDS"
  "''completion'' \<in> set ROOT_FIELDS" "''sourceConstraints'' \<in> set ROOT_FIELDS"
  "''requiredWebDomains'' \<in> set [''requiredWebDomains'']"
  by (simp_all add: STEP_FIELDS_def REQUIREMENT_FIELDS_def COMPLETION_FIELDS_def ROOT_FIELDS_def)

lemmas retain_lookup = as_object.simps option.case map_of_retain field_members get_str_def
  get_array_def get_object_def

lemmas retain_object = retain_object_fields_def json.case retain_lookup

lemma step_shape_retain:
  "step_shape_error i (retain_object_fields v STEP_FIELDS) = step_shape_error i v"
  by (cases v) (simp_all only: step_shape_error_def retain_object)

lemma requirement_shape_retain:
  "requirement_shape_error i (retain_object_fields v REQUIREMENT_FIELDS) = requirement_shape_error i v"
  by (cases v) (simp_all only: requirement_shape_error_def retain_object)

lemma update_elements_view:
  "is_array (update_elements f v) = is_array v"
  "type_name (update_elements f v) = type_name v"
  "as_array (update_elements f v) = map_option (map f) (as_array v)"
  by (cases v; simp add: update_elements_def)+

lemma expect_type_cong:
  "(\<And>v. P (f v) = P v) \<Longrightarrow> (\<And>v. type_name (f v) = type_name v) \<Longrightarrow>
   expect_type (map_option f v) path e P = expect_type v path e P"
  by (cases v) (simp_all only: expect_type_def shape_invalid_def option.map option.case)

lemma map_of_update_same: "map_of (update_field key f entries) key = map_option f (map_of entries key)"
  by (simp add: map_of_update_field)

lemma map_of_update_other: "k \<noteq> key \<Longrightarrow> map_of (update_field key f entries) k = map_of entries k"
  by (simp add: map_of_update_field)

lemma field_distinct:
  "''resultKind'' \<noteq> ''requirements''" "''requiresVerification'' \<noteq> ''requirements''"
  "''requiresReviewBeforeWrite'' \<noteq> ''requirements''"
  "''schemaVersion'' \<noteq> ''steps''" "''schemaVersion'' \<noteq> ''completion''"
  "''schemaVersion'' \<noteq> ''sourceConstraints''" "''steps'' \<noteq> ''completion''"
  "''steps'' \<noteq> ''sourceConstraints''" "''completion'' \<noteq> ''steps''"
  "''completion'' \<noteq> ''sourceConstraints''" "''sourceConstraints'' \<noteq> ''steps''"
  "''sourceConstraints'' \<noteq> ''completion''"
  by simp_all

lemma bind_map_option: "Option.bind (map_option f x) g = Option.bind x (\<lambda>v. g (f v))"
  by (cases x) simp_all

lemma elements_error_view:
  assumes "\<And>i x. g i (f x) = g i x"
  shows "(case Option.bind v (\<lambda>v. as_array (update_elements f v)) of
            None \<Rightarrow> None | Some xs \<Rightarrow> first_error_at g 0 xs) =
         (case Option.bind v as_array of None \<Rightarrow> None | Some xs \<Rightarrow> first_error_at g 0 xs)"
  by (cases v; cases "as_array (the v)")
     (simp_all add: update_elements_view first_error_at_cong assms)

lemma completion_shape_project:
  "completion_shape_error
     (update_field ''requirements'' (update_elements (\<lambda>r. retain_object_fields r REQUIREMENT_FIELDS))
        (filter (\<lambda>(k, _). k \<in> set COMPLETION_FIELDS) c)) = completion_shape_error c"
  by (simp only: completion_shape_error_def map_of_update_same map_of_update_other field_distinct
      simp_thms retain_lookup expect_type_cong update_elements_view(1,2) bind_map_option
      elements_error_view requirement_shape_retain)

lemma source_constraints_shape_project:
  "source_constraints_shape_error (filter (\<lambda>(k, _). k \<in> set [''requiredWebDomains'']) c) =
   source_constraints_shape_error c"
  by (simp only: source_constraints_shape_error_def retain_object)

lemma project_completion_view:
  "is_object (project_completion v) = is_object v"
  "type_name (project_completion v) = type_name v"
  "as_object (project_completion v) =
     map_option (\<lambda>c. update_field ''requirements''
       (update_elements (\<lambda>r. retain_object_fields r REQUIREMENT_FIELDS))
       (filter (\<lambda>(k, _). k \<in> set COMPLETION_FIELDS) c)) (as_object v)"
  by (cases v; simp add: project_completion_def retain_object_fields_def)+

lemma retain_view:
  "is_object (retain_object_fields v allowed) = is_object v"
  by (cases v) (simp_all add: retain_object_fields_def)

lemma project_shape:
  "provider_work_plan_shape_error (project_provider_work_plan_fields v) = provider_work_plan_shape_error v"
proof (cases v)
  case (JObject root)
  have completion: "(case Option.bind c (\<lambda>v. as_object (project_completion v)) of
        None \<Rightarrow> None | Some c \<Rightarrow> completion_shape_error c) =
      (case Option.bind c as_object of None \<Rightarrow> None | Some c \<Rightarrow> completion_shape_error c)" for c
    by (cases c; cases "as_object (the c)")
       (simp_all add: project_completion_view completion_shape_project)
  have constraints:
    "(case Option.bind c (\<lambda>v. as_object (retain_object_fields v [''requiredWebDomains''])) of
        None \<Rightarrow> None | Some c \<Rightarrow> source_constraints_shape_error c) =
      (case Option.bind c as_object of None \<Rightarrow> None | Some c \<Rightarrow> source_constraints_shape_error c)"
    for c
    by (cases c; cases "as_object (the c)")
       (simp_all only: option.sel bind.simps option.case as_object_retain option.map
          source_constraints_shape_project)
  show ?thesis
    unfolding JObject project_provider_work_plan_fields_def retain_object_fields_def [of "JObject root"]
      json.case
    by (simp only: provider_work_plan_shape_error_def
        map_of_update_same map_of_update_other field_distinct simp_thms retain_lookup
        expect_type_cong update_elements_view(1,2) bind_map_option elements_error_view
        step_shape_retain project_completion_view(1,2) retain_view retain_same_type completion constraints)
qed (simp_all add: project_provider_work_plan_fields_def retain_object_fields_def)

section \<open>Authority fields and confidentiality\<close>

text \<open>A step object of the value carries the runtime-bound digest.\<close>

definition carries_digest :: "json \<Rightarrow> bool" where
  "carries_digest v \<longleftrightarrow>
     (case as_object v of
        None \<Rightarrow> False
      | Some root \<Rightarrow>
          (case get_array root ''steps'' of
             None \<Rightarrow> False
           | Some ss \<Rightarrow> list_ex (requirement_has_field ''targetContractDigest'') ss))"

lemma retain_drops: "f \<notin> set allowed \<Longrightarrow> \<not> requirement_has_field f (retain_object_fields v allowed)"
  by (cases v) (simp_all add: requirement_has_field_def retain_object_fields_def map_of_retain_iff)

lemma project_drops_digest: "\<not> carries_digest (project_provider_work_plan_fields v)"
proof (cases v)
  case (JObject root)
  have "''targetContractDigest'' \<notin> set STEP_FIELDS" by (simp add: STEP_FIELDS_def)
  note drops = retain_drops [OF this]
  have steps: "get_array
      (update_field ''sourceConstraints'' g (update_field ''completion'' h
        (update_field ''steps'' (update_elements f) root'))) ''steps'' =
      map_option (map f) (get_array root' ''steps'')" for f g h root'
    by (cases "map_of root' ''steps''")
       (simp_all add: get_array_def map_of_update_field update_elements_view)
  show ?thesis
    unfolding JObject project_provider_work_plan_fields_def retain_object_fields_def [of "JObject root"]
      json.case carries_digest_def as_object.simps option.case steps
    using drops by (cases "get_array (filter (\<lambda>(k, _). k \<in> set ROOT_FIELDS) root) ''steps''")
      (simp_all add: list_ex_iff)
qed (simp_all add: project_provider_work_plan_fields_def retain_object_fields_def carries_digest_def)

text \<open>The same value with every string and number payload replaced; keys stay.\<close>

primrec map_values :: "(string \<Rightarrow> string) \<Rightarrow> json \<Rightarrow> json" where
  "map_values f JNull = JNull"
| "map_values f (JBool b) = JBool b"
| "map_values f (JNumber n) = JNumber (f n)"
| "map_values f (JString s) = JString (f s)"
| "map_values f (JArray xs) = JArray (map (map_values f) xs)"
| "map_values f (JObject entries) = JObject (map (map_prod id (map_values f)) entries)"

definition keeps_enums :: "(string \<Rightarrow> string) \<Rightarrow> bool" where
  "keeps_enums f \<longleftrightarrow>
     (\<forall>s. (f s \<in> set STEP_KIND_NAMES) = (s \<in> set STEP_KIND_NAMES) \<and>
          (f s \<in> {''answer'', ''artifact''}) = (s \<in> {''answer'', ''artifact''}) \<and>
          (f s \<in> {''result'', ''source''}) = (s \<in> {''result'', ''source''}))"

lemma map_values_view:
  "type_name (map_values f v) = type_name v"
  "is_string (map_values f v) = is_string v" "is_boolean (map_values f v) = is_boolean v"
  "is_array (map_values f v) = is_array v" "is_object (map_values f v) = is_object v"
  "is_null (map_values f v) = is_null v"
  by (cases v; simp)+

lemma as_view:
  "as_object (map_values f v) = map_option (map (map_prod id (map_values f))) (as_object v)"
  "as_array (map_values f v) = map_option (map (map_values f)) (as_array v)"
  "as_str (map_values f v) = map_option f (as_str v)"
  by (cases v; simp)+

lemma lookup_values:
  "map_of (map (map_prod id h) entries) k = map_option h (map_of entries k)"
  by (induction entries) auto

lemma bind_as:
  "Option.bind (map_option (map_values f) x) as_str = map_option f (Option.bind x as_str)"
  "Option.bind (map_option (map_values f) x) as_array =
     map_option (map (map_values f)) (Option.bind x as_array)"
  "Option.bind (map_option (map_values f) x) as_object =
     map_option (map (map_prod id (map_values f))) (Option.bind x as_object)"
  by (cases x; simp add: as_view)+

lemma enum_values:
  "(\<And>s. (f s \<in> set names) = (s \<in> set names)) \<Longrightarrow>
   enum_error (map_option f x) names path = enum_error x names path"
  by (cases x) (simp_all only: enum_error_def option.map option.case)

lemma string_elements_values:
  "string_elements_error (map_option (map (map_values f)) xs) path = string_elements_error xs path"
  by (cases xs)
     (simp_all only: string_elements_error_def option.map option.case
        first_error_at_cong map_values_view shape_invalid_def)

lemma values_enums:
  assumes "keeps_enums f"
  shows "enum_error (map_option f x) STEP_KIND_NAMES path = enum_error x STEP_KIND_NAMES path"
    and "enum_error (map_option f x) [''answer'', ''artifact''] path =
      enum_error x [''answer'', ''artifact''] path"
    and "enum_error (map_option f x) [''result'', ''source''] path =
      enum_error x [''result'', ''source''] path"
  using assms unfolding keeps_enums_def by (intro enum_values; simp)+

lemma map_option_is_None: "(map_option f x \<noteq> None) = (x \<noteq> None)"
  by (cases x) simp_all

lemmas value_rules = lookup_values expect_type_cong map_values_view bind_as as_view
  string_elements_values get_str_def get_array_def get_object_def map_option_is_None

lemma step_shape_values:
  assumes "keeps_enums f"
  shows "step_shape_error i (map_values f v) = step_shape_error i v"
  by (cases "as_object v")
     (simp_all only: step_shape_error_def Let_def as_view option.map option.case value_rules
        shape_invalid_def values_enums [OF assms])

lemma requirement_alias_values:
  "(case map_option h x of Some v \<Rightarrow> Some v | None \<Rightarrow> map_option h y) =
   map_option h (case x of Some v \<Rightarrow> Some v | None \<Rightarrow> y)"
  by (cases x) simp_all

lemma requirement_shape_values:
  assumes "keeps_enums f"
  shows "requirement_shape_error i (map_values f v) = requirement_shape_error i v"
  by (cases "as_object v")
     (simp_all only: requirement_shape_error_def Let_def as_view option.map option.case value_rules
        shape_invalid_def requirement_alias_values values_enums [OF assms])

lemma elements_values:
  assumes "\<And>i v. g i (map_values f v) = g i v"
  shows "(case map_option (map (map_values f)) xs of None \<Rightarrow> None | Some xs \<Rightarrow> first_error_at g 0 xs) =
         (case xs of None \<Rightarrow> None | Some xs \<Rightarrow> first_error_at g 0 xs)"
  by (cases xs) (simp_all only: option.map option.case first_error_at_cong assms)

lemma completion_shape_values:
  assumes "keeps_enums f"
  shows "completion_shape_error (map (map_prod id (map_values f)) c) = completion_shape_error c"
  by (simp only: completion_shape_error_def value_rules values_enums [OF assms]
      elements_values requirement_shape_values [OF assms])

lemma source_constraints_shape_values:
  "source_constraints_shape_error (map (map_prod id (map_values f)) c) =
   source_constraints_shape_error c"
  by (simp only: source_constraints_shape_error_def value_rules)

lemma object_values:
  assumes "\<And>c. g (map (map_prod id (map_values f)) c) = g c"
  shows "(case map_option (map (map_prod id (map_values f))) x of None \<Rightarrow> None | Some c \<Rightarrow> g c) =
         (case x of None \<Rightarrow> None | Some c \<Rightarrow> g c)"
  by (cases x) (simp_all only: option.map option.case assms)

section \<open>Properties\<close>

text \<open>
  C10. The projection that discards the fields outside the contract is invisible to the
  shape diagnosis: a projected value has exactly the shape error of the original (so no
  malformed field is hidden and none is invented), and no step of it carries the digest
  that only the runtime may bind.
\<close>

theorem projection_is_transparent:
  "provider_work_plan_shape_error (project_provider_work_plan_fields v) =
     provider_work_plan_shape_error v \<and>
   \<not> carries_digest (project_provider_work_plan_fields v)"
  by (simp add: project_shape project_drops_digest)

text \<open>
  C11. The shape diagnosis is metadata only: replacing every string and number of the
  value by other payloads, as long as the names of the enumerated fields stay valid or
  stay invalid, does not change the error. So no provider-authored text reaches it.
\<close>

theorem shape_error_is_metadata_only:
  assumes "keeps_enums f"
  shows "provider_work_plan_shape_error (map_values f v) = provider_work_plan_shape_error v"
  by (cases "as_object v")
     (simp_all only: provider_work_plan_shape_error_def as_view option.map option.case value_rules
        shape_invalid_def elements_values step_shape_values [OF assms] object_values
        completion_shape_values [OF assms] source_constraints_shape_values)

definition redact :: "string \<Rightarrow> string" where
  "redact s =
     (if s \<in> set STEP_KIND_NAMES \<or> s \<in> {''answer'', ''artifact'', ''result'', ''source''} then s
      else ''x'')"

lemma shape_error_is_metadata_only_witness:
  "provider_work_plan_shape_error
     (JObject [(''schemaVersion'', JString ''x''), (''steps'', JArray [JString ''x''])]) =
   Some ''work_plan_json_shape_invalid:steps[0]:string_expected_object''"
proof -
  have "keeps_enums redact"
    by (auto simp: keeps_enums_def redact_def STEP_KIND_NAMES_def)
  note eq = shape_error_is_metadata_only [OF this,
      of "JObject [(''schemaVersion'', JString ''v1''), (''steps'', JArray [JString ''secret''])]"]
  have "map_values redact
      (JObject [(''schemaVersion'', JString ''v1''), (''steps'', JArray [JString ''secret''])]) =
      JObject [(''schemaVersion'', JString ''x''), (''steps'', JArray [JString ''x''])]"
    by code_simp
  moreover have "provider_work_plan_shape_error
      (JObject [(''schemaVersion'', JString ''v1''), (''steps'', JArray [JString ''secret''])]) =
      Some ''work_plan_json_shape_invalid:steps[0]:string_expected_object''" by code_simp
  ultimately show ?thesis using eq by simp
qed

text \<open>
  What is relied on of \<open>serde_json\<close>: the compact text of a value has no fence and no
  surrounding white space, and the derived decoder fills the optional digest of a step
  only from the key of that name.
\<close>

definition compact_text :: "(json \<Rightarrow> string option) \<Rightarrow> bool" where
  "compact_text to_string \<longleftrightarrow> (\<forall>v s. to_string v = Some s \<longrightarrow> strip_json_fence s = s)"

definition digest_from_key ::
  "(json \<Rightarrow> string option) \<Rightarrow> (string \<Rightarrow> serde_error + StructuredWorkPlan) \<Rightarrow> bool"
where
  "digest_from_key to_string decode \<longleftrightarrow>
     (\<forall>v s p. to_string v = Some s \<and> decode s = Inr p \<and>
        (\<exists>st \<in> set (steps p). target_contract_digest st \<noteq> None) \<longrightarrow> carries_digest v)"


definition sample_decode :: "string \<Rightarrow> serde_error + StructuredWorkPlan" where
  "sample_decode s =
     (if s = ''{}'' then Inr (two_step_plan ''First'' ''deliver'' ''First'')
      else Inl (''expected value'', SyntaxError))"

definition sample_parse :: "string \<Rightarrow> serde_error + json" where
  "sample_parse s = (if s = ''{}'' then Inr (JObject []) else Inl (''expected value'', SyntaxError))"


end
