(* ===== verification/Agent_Step.thy ===== *)
theory Agent_Step
  imports Provider_Json "HOL-Library.Word"
begin

text \<open>
  The next action a model proposes (\<open>AgentStep\<close> in \<open>openlife-core/src/work_orchestration.rs\<close>): the
  projection of a provider value to the fields of the contract, and the validation against what
  the runtime has issued. \<open>ser\<close> is \<open>serde_json::to_string\<close> of a value, \<open>None\<close> when it fails;
  \<open>decode\<close> is the derived \<open>from_str::<AgentStepEnvelope>\<close>.
\<close>

section \<open>Data\<close>

definition AGENT_STEP_SCHEMA_VERSION :: string where
  "AGENT_STEP_SCHEMA_VERSION = ''openlife.agent-step.v1''"

definition MAX_AGENT_STEP_ARGUMENT_BYTES :: nat where
  "MAX_AGENT_STEP_ARGUMENT_BYTES = 64 * 1024"

definition MAX_AGENT_STEP_TEXT_CHARS :: nat where
  "MAX_AGENT_STEP_TEXT_CHARS = 64 * 1024"

definition MAX_AGENT_STEP_ARTIFACTS :: nat where
  "MAX_AGENT_STEP_ARTIFACTS = 5"

definition MAX_AGENT_STEP_TOOL_CALLS :: nat where
  "MAX_AGENT_STEP_TOOL_CALLS = 4"

datatype AgentPersonalIntelligenceAction = Remember | Forget | SuggestLifeModel

datatype AgentMemoryKind = KindFact | KindPreference | KindProcedure | KindLifeEvent

datatype AgentMemoryScope = ScopePersonal | ScopeProject

datatype AgentLifeModelStatementSection =
  SectionIdentity | SectionValues | SectionStablePreferences | SectionPersonalBoundaries
| SectionDecisionPrinciples | SectionCollaborationPreferences

record AgentPersonalIntelligenceStep =
  pi_action :: AgentPersonalIntelligenceAction
  pi_source_span :: "string option"
  pi_query :: "string option"
  pi_memory_kind :: "AgentMemoryKind option"
  pi_scope :: "AgentMemoryScope option"
  pi_life_model_section :: "AgentLifeModelStatementSection option"
  pi_life_model_statement :: "string option"

record AgentToolCallStep =
  tc_capability_id :: string
  tc_arguments :: json

record AgentSourceBlock =
  sb_kind :: string
  sb_text :: string
  sb_heading_level :: "8 word option"
  sb_source_refs :: "string list"

record AgentArtifactDraft =
  ad_format :: string
  ad_suggested_name :: string
  ad_content :: json
  ad_source_blocks :: "AgentSourceBlock list"

record AgentArtifactDraftStep =
  as_artifacts :: "AgentArtifactDraft list"
  as_review_before_write :: bool

record AgentFinalAnswerStep =
  fa_content :: string
  fa_evidence_refs :: "string list"
  fa_artifact_refs :: "string list"
  fa_source_blocks :: "AgentSourceBlock list"

datatype AgentStep =
  StepToolCall AgentToolCallStep
| StepToolCalls "AgentToolCallStep list"
| StepDraftArtifact AgentArtifactDraftStep
| StepPersonalIntelligence AgentPersonalIntelligenceStep
| StepAskUser string
| StepFinalAnswer AgentFinalAnswerStep

record AgentStepEnvelope =
  ae_schema_version :: string
  ae_step :: AgentStep

record AgentStepValidationContext =
  allowed_capability_ids :: "string set"
  allowed_artifact_formats :: "string set"
  available_evidence_refs :: "string set"
  available_artifact_refs :: "string set"

section \<open>Validation\<close>

definition validate_agent_step_identifier :: "string \<Rightarrow> nat \<Rightarrow> unit + unit" where
  "validate_agent_step_identifier v max_len =
     bail_if (v = [] \<or> max_len < length v \<or>
       \<not> list_all (\<lambda>c. is_ascii_alphanumeric c \<or>
           c \<in> {CHR ''.'', CHR ''-'', CHR ''_'', CHR '':'', CHR ''/''}) v) ()"

definition validate_agent_step_text :: "string \<Rightarrow> string \<Rightarrow> string + unit" where
  "validate_agent_step_text v code_prefix =
     (let trimmed = trim v in
      if trimmed = [] then Inl (code_prefix @ ''_missing'')
      else bail_if (MAX_AGENT_STEP_TEXT_CHARS < chars_count trimmed) (code_prefix @ ''_too_large''))"

definition validate_suggested_artifact_name :: "string \<Rightarrow> string + unit" where
  "validate_suggested_artifact_name v =
     (let trimmed = trim v in
      bail_if (trimmed = [] \<or> 255 < length trimmed \<or> trimmed = ''.'' \<or> trimmed = ''..'' \<or>
        CHR ''/'' \<in> set trimmed \<or> CHR 0x5C \<in> set trimmed \<or> has_control trimmed)
        ''agent_step_artifact_name_invalid'')"

definition validate_agent_tool_call ::
  "(json \<Rightarrow> string option) \<Rightarrow> AgentStepValidationContext \<Rightarrow> AgentToolCallStep \<Rightarrow> string + unit"
where
  "validate_agent_tool_call ser ctx call =
     res_bind (map_err (\<lambda>_. ''agent_step_capability_id_invalid'')
       (validate_agent_step_identifier (tc_capability_id call) 128)) (\<lambda>_.
     if tc_capability_id call \<notin> allowed_capability_ids ctx
     then Inl ''agent_step_capability_not_allowed''
     else if \<not> is_object (tc_arguments call) then Inl ''agent_step_arguments_must_be_object''
     else res_bind (ok_or ''agent_step_arguments_invalid'' (ser (tc_arguments call))) (\<lambda>bytes.
       bail_if (MAX_AGENT_STEP_ARGUMENT_BYTES < length bytes) ''agent_step_arguments_too_large''))"

text \<open>A struct is serialised as the object of its fields.\<close>

definition tool_call_json :: "AgentToolCallStep \<Rightarrow> json" where
  "tool_call_json call =
     JObject [(''capabilityId'', JString (tc_capability_id call)), (''arguments'', tc_arguments call)]"

definition check_tool_call ::
  "(json \<Rightarrow> string option) \<Rightarrow> AgentStepValidationContext \<Rightarrow> string set \<Rightarrow> AgentToolCallStep \<Rightarrow>
   string + string set"
where
  "check_tool_call ser ctx seen call =
     res_bind (validate_agent_tool_call ser ctx call) (\<lambda>_.
     res_bind (ok_or ''agent_step_arguments_invalid'' (ser (tool_call_json call))) (\<lambda>identity.
     if identity \<in> seen then Inl ''agent_step_tool_call_duplicate'' else Inr (insert identity seen)))"

definition check_source_ref :: "string set \<Rightarrow> string \<Rightarrow> string + string set" where
  "check_source_ref seen source_ref =
     res_bind (map_err (\<lambda>_. ''agent_step_source_ref_invalid'')
       (validate_agent_step_identifier source_ref 128)) (\<lambda>_.
     if source_ref \<in> seen then Inl ''agent_step_source_ref_duplicate''
     else Inr (insert source_ref seen))"

definition check_block_kind :: "AgentSourceBlock \<Rightarrow> string + unit" where
  "check_block_kind block =
     (if sb_kind block = ''heading'' then
        bail_if (sb_source_refs block \<noteq> [] \<or> lines_count (sb_text block) \<noteq> 1 \<or>
          (case sb_heading_level block of None \<Rightarrow> False | Some level \<Rightarrow> \<not> (1 \<le> level \<and> level \<le> 6)))
          ''agent_step_source_heading_invalid''
      else if sb_kind block = ''claim'' \<and> sb_source_refs block = [] then
        Inl ''agent_step_source_claim_refs_missing''
      else if sb_kind block = ''claim'' \<and> sb_heading_level block \<noteq> None then
        Inl ''agent_step_source_claim_heading_level_forbidden''
      else bail_if (sb_kind block \<noteq> ''claim'') ''agent_step_source_block_kind_invalid'')"

definition check_block :: "AgentSourceBlock \<Rightarrow> string + unit" where
  "check_block block =
     res_bind (validate_agent_step_text (sb_text block) ''agent_step_source_block_text'') (\<lambda>_.
     if 8000 < chars_count (sb_text block) \<or> 8 < length (sb_source_refs block)
     then Inl ''agent_step_source_block_invalid''
     else res_bind (check_block_kind block) (\<lambda>_.
       res_bind (res_fold check_source_ref {} (sb_source_refs block)) (\<lambda>_. Inr ())))"

definition validate_agent_source_blocks :: "AgentSourceBlock list \<Rightarrow> string + unit" where
  "validate_agent_source_blocks blocks =
     (if blocks = [] \<or> 128 < length blocks then Inl ''agent_step_source_block_count_invalid''
      else res_fold (\<lambda>_. check_block) () blocks)"

definition validate_agent_artifact_content :: "(json \<Rightarrow> string option) \<Rightarrow> json \<Rightarrow> string + unit" where
  "validate_agent_artifact_content ser v =
     (if is_null v then Inl ''agent_step_artifact_content_missing''
      else res_bind (ok_or ''agent_step_artifact_content_invalid'' (ser v)) (\<lambda>bytes.
        if MAX_AGENT_STEP_ARGUMENT_BYTES < length bytes
        then Inl ''agent_step_artifact_content_too_large''
        else bail_if (case as_str v of None \<Rightarrow> False | Some content \<Rightarrow> trim content = [])
               ''agent_step_artifact_content_missing''))"

definition validate_agent_source_content ::
  "(json \<Rightarrow> string option) \<Rightarrow> json \<Rightarrow> AgentSourceBlock list \<Rightarrow> string + unit"
where
  "validate_agent_source_content ser content blocks =
     (if blocks = [] then validate_agent_artifact_content ser content
      else if \<not> is_null content then Inl ''agent_step_source_blocks_require_null_content''
      else validate_agent_source_blocks blocks)"

definition validate_agent_source_text :: "string \<Rightarrow> AgentSourceBlock list \<Rightarrow> string + unit" where
  "validate_agent_source_text content blocks =
     (if blocks = [] then validate_agent_step_text content ''agent_step_final_content''
      else if content \<noteq> [] then Inl ''agent_step_source_blocks_require_empty_content''
      else validate_agent_source_blocks blocks)"

definition check_artifact ::
  "(json \<Rightarrow> string option) \<Rightarrow> AgentStepValidationContext \<Rightarrow> string set \<Rightarrow> AgentArtifactDraft \<Rightarrow>
   string + string set"
where
  "check_artifact ser ctx names artifact =
     res_bind (map_err (\<lambda>_. ''agent_step_artifact_format_invalid'')
       (validate_agent_step_identifier (ad_format artifact) 32)) (\<lambda>_.
     if ad_format artifact \<notin> allowed_artifact_formats ctx
     then Inl ''agent_step_artifact_format_not_allowed''
     else res_bind (validate_suggested_artifact_name (ad_suggested_name artifact)) (\<lambda>_.
       if to_ascii_lower (ad_suggested_name artifact) \<in> names
       then Inl ''agent_step_artifact_name_duplicate''
       else res_bind
         (validate_agent_source_content ser (ad_content artifact) (ad_source_blocks artifact)) (\<lambda>_.
         Inr (insert (to_ascii_lower (ad_suggested_name artifact)) names))))"

definition check_step_ref :: "string set \<Rightarrow> string set \<Rightarrow> string \<Rightarrow> string + string set" where
  "check_step_ref available seen v =
     res_bind (map_err (\<lambda>_. ''agent_step_reference_invalid'') (validate_agent_step_identifier v 256)) (\<lambda>_.
     if v \<in> seen then Inl ''agent_step_reference_duplicate''
     else if v \<notin> available then Inl ''agent_step_reference_not_available''
     else Inr (insert v seen))"

definition validate_agent_step_refs :: "string list \<Rightarrow> string set \<Rightarrow> string + unit" where
  "validate_agent_step_refs vs available =
     (if 64 < length vs then Inl ''agent_step_reference_count_invalid''
      else res_bind (res_fold (check_step_ref available) {} vs) (\<lambda>_. Inr ()))"

definition given :: "string option \<Rightarrow> string option" where
  "given s = Option.bind s (\<lambda>v. if trim v = [] then None else Some (trim v))"

definition too_long :: "string option \<Rightarrow> bool" where
  "too_long s = (case s of None \<Rightarrow> False | Some v \<Rightarrow> 320 < chars_count v)"

definition validate_personal :: "AgentPersonalIntelligenceStep \<Rightarrow> string + unit" where
  "validate_personal step =
     (let source_span = given (pi_source_span step); query = given (pi_query step);
          statement = given (pi_life_model_statement step)
      in
      if too_long source_span \<or> too_long query \<or> too_long statement
      then Inl ''agent_personal_intelligence_text_too_large''
      else case pi_action step of
        Remember \<Rightarrow>
          bail_if (source_span = None \<or> query \<noteq> None \<or> pi_memory_kind step = None \<or>
            pi_scope step = None \<or> pi_life_model_section step \<noteq> None \<or> statement \<noteq> None)
            ''agent_personal_intelligence_remember_invalid''
      | Forget \<Rightarrow>
          bail_if (query = None \<or> source_span \<noteq> None \<or> pi_memory_kind step \<noteq> None \<or>
            pi_scope step \<noteq> None \<or> pi_life_model_section step \<noteq> None \<or> statement \<noteq> None)
            ''agent_personal_intelligence_forget_invalid''
      | SuggestLifeModel \<Rightarrow>
          bail_if (source_span = None \<or> query \<noteq> None \<or> pi_memory_kind step \<noteq> None \<or>
            pi_scope step \<noteq> None \<or> pi_life_model_section step = None \<or> statement = None)
            ''agent_personal_intelligence_lifemodel_invalid'')"

definition validate_agent_step ::
  "(json \<Rightarrow> string option) \<Rightarrow> AgentStepValidationContext \<Rightarrow> AgentStepEnvelope \<Rightarrow> string + unit"
where
  "validate_agent_step ser ctx e =
     (if ae_schema_version e \<noteq> AGENT_STEP_SCHEMA_VERSION
      then Inl ''agent_step_schema_version_invalid''
      else case ae_step e of
        StepToolCall call \<Rightarrow> validate_agent_tool_call ser ctx call
      | StepToolCalls calls \<Rightarrow>
          if calls = [] \<or> MAX_AGENT_STEP_TOOL_CALLS < length calls
          then Inl ''agent_step_tool_call_count_invalid''
          else res_bind (res_fold (check_tool_call ser ctx) {} calls) (\<lambda>_. Inr ())
      | StepDraftArtifact draft \<Rightarrow>
          if as_artifacts draft = [] \<or> MAX_AGENT_STEP_ARTIFACTS < length (as_artifacts draft)
          then Inl ''agent_step_artifact_count_invalid''
          else res_bind (res_fold (check_artifact ser ctx) {} (as_artifacts draft)) (\<lambda>_. Inr ())
      | StepPersonalIntelligence step \<Rightarrow> validate_personal step
      | StepAskUser question \<Rightarrow> validate_agent_step_text question ''agent_step_question''
      | StepFinalAnswer answer \<Rightarrow>
          res_bind (validate_agent_source_text (fa_content answer) (fa_source_blocks answer)) (\<lambda>_.
          res_bind (validate_agent_step_refs (fa_evidence_refs answer) (available_evidence_refs ctx)) (\<lambda>_.
          validate_agent_step_refs (fa_artifact_refs answer) (available_artifact_refs ctx))))"

section \<open>Projection and parsing\<close>

definition CALL_FIELDS :: "string list" where
  "CALL_FIELDS = [''capabilityId'', ''arguments'']"

definition BLOCK_FIELDS :: "string list" where
  "BLOCK_FIELDS = [''kind'', ''text'', ''headingLevel'', ''sourceRefs'']"

definition ARTIFACT_FIELDS :: "string list" where
  "ARTIFACT_FIELDS = [''format'', ''suggestedName'', ''content'', ''sourceBlocks'']"

definition PERSONAL_FIELDS :: "string list" where
  "PERSONAL_FIELDS = [''action'', ''sourceSpan'', ''query'', ''memoryKind'', ''scope'',
     ''lifeModelSection'', ''lifeModelStatement'']"

definition ANSWER_FIELDS :: "string list" where
  "ANSWER_FIELDS = [''content'', ''evidenceRefs'', ''artifactRefs'', ''sourceBlocks'']"

text \<open>\<open>value.get_mut(key)\<close>: an update in place when \<open>value\<close> is an object that has the key.\<close>

definition at_key :: "string \<Rightarrow> (json \<Rightarrow> json) \<Rightarrow> json \<Rightarrow> json" where
  "at_key key f v = (case v of JObject entries \<Rightarrow> JObject (update_field key f entries) | _ \<Rightarrow> v)"

definition project_blocks :: "json \<Rightarrow> json" where
  "project_blocks = at_key ''sourceBlocks'' (update_elements (\<lambda>b. retain_object_fields b BLOCK_FIELDS))"

definition project_artifact :: "json \<Rightarrow> json" where
  "project_artifact v = project_blocks (retain_object_fields v ARTIFACT_FIELDS)"

definition project_payload :: "string \<Rightarrow> json \<Rightarrow> json" where
  "project_payload kind v =
     (if kind = ''tool_call'' then retain_object_fields v CALL_FIELDS
      else if kind = ''tool_calls'' then
        at_key ''calls'' (update_elements (\<lambda>c. retain_object_fields c CALL_FIELDS))
          (retain_object_fields v [''calls''])
      else if kind = ''draft_artifact'' then
        at_key ''artifacts'' (update_elements project_artifact)
          (retain_object_fields v [''artifacts'', ''reviewBeforeWrite''])
      else if kind = ''personal_intelligence'' then retain_object_fields v PERSONAL_FIELDS
      else if kind = ''ask_user'' then retain_object_fields v [''question'']
      else if kind = ''final_answer'' then project_blocks (retain_object_fields v ANSWER_FIELDS)
      else v)"

definition project_step :: "json \<Rightarrow> json" where
  "project_step v =
     (let step = retain_object_fields v [''kind'', ''payload''] in
      case Option.bind (as_object step) (\<lambda>obj. get_str obj ''kind'') of
        None \<Rightarrow> step
      | Some kind \<Rightarrow> at_key ''payload'' (project_payload kind) step)"

definition project_provider_agent_step_fields :: "json \<Rightarrow> json" where
  "project_provider_agent_step_fields v =
     at_key ''step'' project_step (retain_object_fields v [''schemaVersion'', ''step''])"

definition step_parse_and_validate ::
  "(json \<Rightarrow> string option) \<Rightarrow> (string \<Rightarrow> AgentStepEnvelope option) \<Rightarrow> AgentStepValidationContext \<Rightarrow>
   string \<Rightarrow> string + AgentStepEnvelope"
where
  "step_parse_and_validate ser decode ctx raw =
     res_bind (ok_or ''agent_step_json_invalid'' (decode (strip_json_fence raw))) (\<lambda>e.
     res_bind (validate_agent_step ser ctx e) (\<lambda>_. Inr e))"

definition step_parse_provider_output_and_validate ::
  "(string \<Rightarrow> json option) \<Rightarrow> (json \<Rightarrow> string option) \<Rightarrow> (string \<Rightarrow> AgentStepEnvelope option) \<Rightarrow>
   AgentStepValidationContext \<Rightarrow> string \<Rightarrow> string + AgentStepEnvelope"
where
  "step_parse_provider_output_and_validate parse_value ser decode ctx raw =
     res_bind (ok_or ''agent_step_json_invalid'' (parse_value (strip_json_fence raw))) (\<lambda>v.
     res_bind (ok_or ''agent_step_serialization_failed''
       (ser (project_provider_agent_step_fields v))) (\<lambda>canonical.
     step_parse_and_validate ser decode ctx canonical))"

text \<open>The check of a provider in the settings: a fixed answer, in a context that grants nothing.\<close>

definition no_grants :: AgentStepValidationContext where
  "no_grants = \<lparr>allowed_capability_ids = {}, allowed_artifact_formats = {},
     available_evidence_refs = {}, available_artifact_refs = {}\<rparr>"

definition validate_work_compatibility_eval_response ::
  "(json \<Rightarrow> string option) \<Rightarrow> (string \<Rightarrow> AgentStepEnvelope option) \<Rightarrow> string \<Rightarrow> string + unit"
where
  "validate_work_compatibility_eval_response ser decode raw =
     res_bind (step_parse_and_validate ser decode no_grants raw) (\<lambda>e.
     case ae_step e of
       StepFinalAnswer answer \<Rightarrow>
         bail_if (\<not> (fa_content answer = ''ready'' \<and> fa_evidence_refs answer = [] \<and>
             fa_artifact_refs answer = [] \<and> fa_source_blocks answer = []))
           ''work_compatibility_eval_response_invalid''
     | _ \<Rightarrow> Inl ''work_compatibility_eval_response_invalid'')"

section \<open>The contract\<close>

text \<open>What an accepted step may say, without the order and the error codes of the checks.\<close>

definition identifier_of :: "nat \<Rightarrow> string \<Rightarrow> bool" where
  "identifier_of n v \<longleftrightarrow> v \<noteq> [] \<and> length v \<le> n \<and>
     (\<forall>c \<in> set v. is_ascii_alphanumeric c \<or> c \<in> {CHR ''.'', CHR ''-'', CHR ''_'', CHR '':'', CHR ''/''})"

definition text_ok :: "string \<Rightarrow> bool" where
  "text_ok v \<longleftrightarrow> trim v \<noteq> [] \<and> chars_count (trim v) \<le> 65536"

definition fits :: "(json \<Rightarrow> string option) \<Rightarrow> json \<Rightarrow> bool" where
  "fits ser v \<longleftrightarrow> (\<exists>bytes. ser v = Some bytes \<and> length bytes \<le> 65536)"

definition call_ok ::
  "(json \<Rightarrow> string option) \<Rightarrow> AgentStepValidationContext \<Rightarrow> AgentToolCallStep \<Rightarrow> bool"
where
  "call_ok ser ctx call \<longleftrightarrow> identifier_of 128 (tc_capability_id call) \<and>
     tc_capability_id call \<in> allowed_capability_ids ctx \<and> is_object (tc_arguments call) \<and>
     fits ser (tc_arguments call)"

definition block_ok :: "AgentSourceBlock \<Rightarrow> bool" where
  "block_ok block \<longleftrightarrow> text_ok (sb_text block) \<and> chars_count (sb_text block) \<le> 8000 \<and>
     length (sb_source_refs block) \<le> 8 \<and> distinct (sb_source_refs block) \<and>
     (\<forall>r \<in> set (sb_source_refs block). identifier_of 128 r) \<and>
     (sb_kind block = ''heading'' \<and> sb_source_refs block = [] \<and> lines_count (sb_text block) = 1 \<and>
        (sb_heading_level block = None \<or> sb_heading_level block \<in> Some ` {1..6}) \<or>
      sb_kind block = ''claim'' \<and> sb_source_refs block \<noteq> [] \<and> sb_heading_level block = None)"

definition blocks_ok :: "AgentSourceBlock list \<Rightarrow> bool" where
  "blocks_ok blocks \<longleftrightarrow> blocks \<noteq> [] \<and> length blocks \<le> 128 \<and> (\<forall>b \<in> set blocks. block_ok b)"

definition name_ok :: "string \<Rightarrow> bool" where
  "name_ok v \<longleftrightarrow> trim v \<notin> {[], ''.'', ''..''} \<and> length (trim v) \<le> 255 \<and>
     set (trim v) \<inter> {CHR ''/'', CHR 0x5C} = {} \<and> \<not> has_control (trim v)"

text \<open>Which fields an action has: span, query, memory kind, scope, section, statement.\<close>

definition personal_ok :: "AgentPersonalIntelligenceStep \<Rightarrow> bool" where
  "personal_ok step \<longleftrightarrow>
     (\<forall>s \<in> {pi_source_span step, pi_query step, pi_life_model_statement step}. \<not> too_long (given s)) \<and>
     (given (pi_source_span step) \<noteq> None, given (pi_query step) \<noteq> None, pi_memory_kind step \<noteq> None,
      pi_scope step \<noteq> None, pi_life_model_section step \<noteq> None,
      given (pi_life_model_statement step) \<noteq> None) =
     (case pi_action step of
        Remember \<Rightarrow> (True, False, True, True, False, False)
      | Forget \<Rightarrow> (False, True, False, False, False, False)
      | SuggestLifeModel \<Rightarrow> (True, False, False, False, True, True))"

definition artifact_ok ::
  "(json \<Rightarrow> string option) \<Rightarrow> AgentStepValidationContext \<Rightarrow> AgentArtifactDraft \<Rightarrow> bool"
where
  "artifact_ok ser ctx artifact \<longleftrightarrow> identifier_of 32 (ad_format artifact) \<and>
     ad_format artifact \<in> allowed_artifact_formats ctx \<and>
     name_ok (ad_suggested_name artifact) \<and>
     (if ad_source_blocks artifact = []
      then \<not> is_null (ad_content artifact) \<and> fits ser (ad_content artifact) \<and>
        (\<forall>content. as_str (ad_content artifact) = Some content \<longrightarrow> trim content \<noteq> [])
      else is_null (ad_content artifact) \<and> blocks_ok (ad_source_blocks artifact))"

definition refs_ok :: "string set \<Rightarrow> string list \<Rightarrow> bool" where
  "refs_ok available refs \<longleftrightarrow> length refs \<le> 64 \<and> distinct refs \<and> set refs \<subseteq> available \<and>
     (\<forall>r \<in> set refs. identifier_of 256 r)"

fun step_ok :: "(json \<Rightarrow> string option) \<Rightarrow> AgentStepValidationContext \<Rightarrow> AgentStep \<Rightarrow> bool" where
  "step_ok ser ctx (StepToolCall call) \<longleftrightarrow> call_ok ser ctx call"
| "step_ok ser ctx (StepToolCalls calls) \<longleftrightarrow> length calls \<in> {1..4} \<and>
     (\<forall>c \<in> set calls. call_ok ser ctx c \<and> ser (tool_call_json c) \<noteq> None) \<and>
     distinct (map (\<lambda>c. the (ser (tool_call_json c))) calls)"
| "step_ok ser ctx (StepDraftArtifact draft) \<longleftrightarrow> length (as_artifacts draft) \<in> {1..5} \<and>
     (\<forall>a \<in> set (as_artifacts draft). artifact_ok ser ctx a) \<and>
     distinct (map (\<lambda>a. to_ascii_lower (ad_suggested_name a)) (as_artifacts draft))"
| "step_ok ser ctx (StepPersonalIntelligence step) \<longleftrightarrow> personal_ok step"
| "step_ok ser ctx (StepAskUser question) \<longleftrightarrow> text_ok question"
| "step_ok ser ctx (StepFinalAnswer answer) \<longleftrightarrow>
     (if fa_source_blocks answer = [] then text_ok (fa_content answer)
      else fa_content answer = [] \<and> blocks_ok (fa_source_blocks answer)) \<and>
     refs_ok (available_evidence_refs ctx) (fa_evidence_refs answer) \<and>
     refs_ok (available_artifact_refs ctx) (fa_artifact_refs answer)"

lemma identifier_iff: "validate_agent_step_identifier v n = Inr () \<longleftrightarrow> identifier_of n v"
  by (auto simp: validate_agent_step_identifier_def identifier_of_def list_all_iff)

lemma text_iff: "validate_agent_step_text v code = Inr () \<longleftrightarrow> text_ok v"
  by (auto simp: validate_agent_step_text_def text_ok_def MAX_AGENT_STEP_TEXT_CHARS_def Let_def)

lemma call_iff: "validate_agent_tool_call ser ctx call = Inr () \<longleftrightarrow> call_ok ser ctx call"
  by (auto simp: validate_agent_tool_call_def call_ok_def identifier_iff fits_def
      MAX_AGENT_STEP_ARGUMENT_BYTES_def)

lemma source_refs_iff:
  "res_fold check_source_ref seen refs = Inr seen' \<longleftrightarrow>
     seen' = seen \<union> id ` set refs \<and> distinct (map id refs) \<and> id ` set refs \<inter> seen = {} \<and>
     (\<forall>r \<in> set refs. identifier_of 128 r)"
  by (rule res_fold_distinct) (auto simp: check_source_ref_def identifier_iff)

lemma block_iff: "check_block block = Inr () \<longleftrightarrow> block_ok block"
  by (auto simp: check_block_def check_block_kind_def block_ok_def text_iff source_refs_iff
      split: option.splits)

lemma blocks_iff: "validate_agent_source_blocks blocks = Inr () \<longleftrightarrow> blocks_ok blocks"
  by (auto simp: validate_agent_source_blocks_def blocks_ok_def res_fold_unit_ok block_iff)

lemma content_iff:
  "validate_agent_source_content ser content blocks = Inr () \<longleftrightarrow>
     (if blocks = []
      then \<not> is_null content \<and> fits ser content \<and> (\<forall>s. as_str content = Some s \<longrightarrow> trim s \<noteq> [])
      else is_null content \<and> blocks_ok blocks)"
  by (auto simp: validate_agent_source_content_def validate_agent_artifact_content_def blocks_iff
      fits_def MAX_AGENT_STEP_ARGUMENT_BYTES_def split: option.splits)

lemma name_iff: "validate_suggested_artifact_name v = Inr () \<longleftrightarrow> name_ok v"
  by (auto simp: validate_suggested_artifact_name_def name_ok_def Let_def)

lemma personal_iff: "validate_personal step = Inr () \<longleftrightarrow> personal_ok step"
  by (cases "pi_action step") (auto simp: validate_personal_def personal_ok_def Let_def)

lemma artifacts_iff:
  "res_fold (check_artifact ser ctx) names artifacts = Inr names' \<longleftrightarrow>
     names' = names \<union> (\<lambda>a. to_ascii_lower (ad_suggested_name a)) ` set artifacts \<and>
     distinct (map (\<lambda>a. to_ascii_lower (ad_suggested_name a)) artifacts) \<and>
     (\<lambda>a. to_ascii_lower (ad_suggested_name a)) ` set artifacts \<inter> names = {} \<and>
     (\<forall>a \<in> set artifacts. artifact_ok ser ctx a)"
  by (rule res_fold_distinct)
    (auto simp: check_artifact_def artifact_ok_def identifier_iff content_iff name_iff)

lemma calls_iff:
  "res_fold (check_tool_call ser ctx) seen calls = Inr seen' \<longleftrightarrow>
     seen' = seen \<union> (\<lambda>c. the (ser (tool_call_json c))) ` set calls \<and>
     distinct (map (\<lambda>c. the (ser (tool_call_json c))) calls) \<and>
     (\<lambda>c. the (ser (tool_call_json c))) ` set calls \<inter> seen = {} \<and>
     (\<forall>c \<in> set calls. call_ok ser ctx c \<and> ser (tool_call_json c) \<noteq> None)"
  by (rule res_fold_distinct) (auto simp: check_tool_call_def call_iff)

lemma step_refs_iff: "validate_agent_step_refs refs available = Inr () \<longleftrightarrow> refs_ok available refs"
proof -
  have "res_fold (check_step_ref available) seen refs = Inr seen' \<longleftrightarrow>
      seen' = seen \<union> id ` set refs \<and> distinct (map id refs) \<and> id ` set refs \<inter> seen = {} \<and>
      (\<forall>r \<in> set refs. identifier_of 256 r \<and> r \<in> available)" for seen seen'
    by (rule res_fold_distinct) (auto simp: check_step_ref_def identifier_iff)
  then show ?thesis by (auto simp: validate_agent_step_refs_def refs_ok_def)
qed

lemma validate_agent_step_iff:
  "validate_agent_step ser ctx e = Inr () \<longleftrightarrow>
     ae_schema_version e = ''openlife.agent-step.v1'' \<and> step_ok ser ctx (ae_step e)"
proof -
  have count: "length xs \<in> {1..n} \<longleftrightarrow> xs \<noteq> [] \<and> \<not> n < length xs" for xs :: "'b list" and n
    by (cases xs) auto
  show ?thesis
    by (cases "ae_step e")
      (auto simp: validate_agent_step_def AGENT_STEP_SCHEMA_VERSION_def call_iff calls_iff artifacts_iff count
        MAX_AGENT_STEP_TOOL_CALLS_def MAX_AGENT_STEP_ARTIFACTS_def text_iff step_refs_iff Suc_le_eq
        validate_agent_source_text_def blocks_iff personal_iff)
qed

section \<open>The fields that remain\<close>

definition keys_in :: "string list \<Rightarrow> json \<Rightarrow> bool" where
  "keys_in names v = (case v of JObject obj \<Rightarrow> fst ` set obj \<subseteq> set names | _ \<Rightarrow> True)"

definition at_all :: "string \<Rightarrow> (json \<Rightarrow> bool) \<Rightarrow> json \<Rightarrow> bool" where
  "at_all key P v = (case v of JObject obj \<Rightarrow> \<forall>(k, x) \<in> set obj. k = key \<longrightarrow> P x | _ \<Rightarrow> True)"

definition elements_all :: "(json \<Rightarrow> bool) \<Rightarrow> json \<Rightarrow> bool" where
  "elements_all P v = (case v of JArray xs \<Rightarrow> \<forall>x \<in> set xs. P x | _ \<Rightarrow> True)"

definition blocks_fields :: "json \<Rightarrow> bool" where
  "blocks_fields = at_all ''sourceBlocks'' (elements_all (keys_in BLOCK_FIELDS))"

definition payload_fields :: "string \<Rightarrow> json \<Rightarrow> bool" where
  "payload_fields kind v \<longleftrightarrow>
     (if kind = ''tool_call'' then keys_in CALL_FIELDS v
      else if kind = ''tool_calls'' then
        keys_in [''calls''] v \<and> at_all ''calls'' (elements_all (keys_in CALL_FIELDS)) v
      else if kind = ''draft_artifact'' then
        keys_in [''artifacts'', ''reviewBeforeWrite''] v \<and>
        at_all ''artifacts'' (elements_all (\<lambda>a. keys_in ARTIFACT_FIELDS a \<and> blocks_fields a)) v
      else if kind = ''personal_intelligence'' then keys_in PERSONAL_FIELDS v
      else if kind = ''ask_user'' then keys_in [''question''] v
      else if kind = ''final_answer'' then keys_in ANSWER_FIELDS v \<and> blocks_fields v
      else True)"

definition step_fields :: "json \<Rightarrow> bool" where
  "step_fields v \<longleftrightarrow> keys_in [''kind'', ''payload''] v \<and>
     (case Option.bind (as_object v) (\<lambda>obj. get_str obj ''kind'') of
        None \<Rightarrow> True | Some kind \<Rightarrow> at_all ''payload'' (payload_fields kind) v)"

definition contract_fields :: "json \<Rightarrow> bool" where
  "contract_fields v \<longleftrightarrow> keys_in [''schemaVersion'', ''step''] v \<and> at_all ''step'' step_fields v"

lemma keys_retain: "keys_in names (retain_object_fields v names)"
  by (cases v) (auto simp: keys_in_def retain_object_fields_def)

lemma retain_id: "keys_in names v \<Longrightarrow> retain_object_fields v names = v"
  by (cases v) (auto simp: keys_in_def retain_object_fields_def filter_id_conv)

lemma keys_at [simp]: "keys_in names (at_key key f v) = keys_in names v"
  by (cases v) (force simp: keys_in_def at_key_def update_field_def)+

lemma at_all_at: "(\<And>x. P (f x)) \<Longrightarrow> at_all key P (at_key key f v)"
  by (cases v) (auto simp: at_all_def at_key_def update_field_def)

lemma at_key_id: "at_all key P v \<Longrightarrow> (\<And>x. P x \<Longrightarrow> f x = x) \<Longrightarrow> at_key key f v = v"
  by (cases v) (auto simp: at_all_def at_key_def update_field_def intro!: map_idI)

lemma elements_updated: "(\<And>x. P (f x)) \<Longrightarrow> elements_all P (update_elements f v)"
  by (cases v) (auto simp: elements_all_def update_elements_def)

lemma elements_id: "elements_all P v \<Longrightarrow> (\<And>x. P x \<Longrightarrow> f x = x) \<Longrightarrow> update_elements f v = v"
  by (cases v) (auto simp: elements_all_def update_elements_def intro!: map_idI)

lemma blocks_projected: "blocks_fields (project_blocks v)"
  unfolding blocks_fields_def project_blocks_def by (intro at_all_at elements_updated keys_retain)

lemma project_blocks_id: "blocks_fields v \<Longrightarrow> project_blocks v = v"
  unfolding blocks_fields_def project_blocks_def
  by (erule at_key_id) (erule elements_id, erule retain_id)

lemma artifact_projected:
  "keys_in ARTIFACT_FIELDS (project_artifact v) \<and> blocks_fields (project_artifact v)"
  by (simp add: project_artifact_def blocks_projected) (simp add: project_blocks_def keys_retain)

lemma project_artifact_id:
  "keys_in ARTIFACT_FIELDS v \<and> blocks_fields v \<Longrightarrow> project_artifact v = v"
  by (simp add: project_artifact_def retain_id project_blocks_id)

lemma payload_projected: "payload_fields kind (project_payload kind v)"
proof -
  have "at_all ''calls'' (elements_all (keys_in CALL_FIELDS))
      (at_key ''calls'' (update_elements (\<lambda>c. retain_object_fields c CALL_FIELDS)) w)" for w
    by (intro at_all_at elements_updated keys_retain)
  moreover have "at_all ''artifacts'' (elements_all (\<lambda>a. keys_in ARTIFACT_FIELDS a \<and> blocks_fields a))
      (at_key ''artifacts'' (update_elements project_artifact) w)" for w
    by (intro at_all_at elements_updated artifact_projected)
  moreover have "keys_in names (project_blocks (retain_object_fields w names))" for names w
    by (simp add: project_blocks_def keys_retain)
  ultimately show ?thesis
    by (simp add: payload_fields_def project_payload_def keys_retain blocks_projected)
qed

lemma project_payload_id: "payload_fields kind v \<Longrightarrow> project_payload kind v = v"
proof -
  have "at_key ''calls'' (update_elements (\<lambda>c. retain_object_fields c CALL_FIELDS)) v = v"
    if "at_all ''calls'' (elements_all (keys_in CALL_FIELDS)) v"
    using that by (rule at_key_id) (erule elements_id, erule retain_id)
  moreover have "at_key ''artifacts'' (update_elements project_artifact) v = v"
    if "at_all ''artifacts'' (elements_all (\<lambda>a. keys_in ARTIFACT_FIELDS a \<and> blocks_fields a)) v"
    using that by (rule at_key_id) (erule elements_id, erule project_artifact_id)
  moreover assume "payload_fields kind v"
  ultimately show ?thesis
    unfolding payload_fields_def project_payload_def
    by (simp add: retain_id project_blocks_id split: if_splits)
qed

lemma kind_at_payload:
  "Option.bind (as_object (at_key ''payload'' f v)) (\<lambda>obj. get_str obj ''kind'') =
     Option.bind (as_object v) (\<lambda>obj. get_str obj ''kind'')"
  by (cases v) (simp_all add: at_key_def get_str_def map_of_update_other)

lemma step_projected: "step_fields (project_step v)"
proof -
  let ?w = "retain_object_fields v [''kind'', ''payload'']"
  show ?thesis
  proof (cases "Option.bind (as_object ?w) (\<lambda>obj. get_str obj ''kind'')")
    case None
    then show ?thesis by (simp add: step_fields_def project_step_def keys_retain)
  next
    case (Some kind)
    then show ?thesis
      by (simp add: step_fields_def project_step_def keys_retain kind_at_payload at_all_at payload_projected)
  qed
qed

lemma project_step_id: "step_fields v \<Longrightarrow> project_step v = v"
  unfolding step_fields_def project_step_def
  by (auto simp: retain_id Let_def split: option.splits intro: at_key_id project_payload_id)

lemma step_contract_fields: "contract_fields (project_provider_agent_step_fields v)"
  unfolding contract_fields_def project_provider_agent_step_fields_def
  by (simp add: keys_retain at_all_at step_projected)

lemma step_projection_id: "contract_fields v \<Longrightarrow> project_provider_agent_step_fields v = v"
  unfolding contract_fields_def project_provider_agent_step_fields_def
  by (auto simp: retain_id intro: at_key_id project_step_id)

text \<open>
  C7. A provider step stays in scope. Provider text is accepted exactly when its value, cut down to
  the fields of the contract, decodes to a step that keeps the contract: it names only
  capabilities, formats, evidence and artifacts that the runtime issued, its sizes and counts are
  bounded, calls, names and references are not repeated, and every claim of a sourced text cites
  while its headings do not. The projection leaves exactly the values alone that have no other
  fields, and what it returns has none.
\<close>

theorem provider_steps_stay_in_scope:
  "(step_parse_provider_output_and_validate parse_value ser decode ctx raw = Inr e \<longleftrightarrow>
     (\<exists>v t. parse_value (strip_json_fence raw) = Some v \<and>
        ser (project_provider_agent_step_fields v) = Some t \<and>
        decode (strip_json_fence t) = Some e \<and>
        ae_schema_version e = ''openlife.agent-step.v1'' \<and> step_ok ser ctx (ae_step e))) \<and>
   contract_fields (project_provider_agent_step_fields w) \<and>
   (contract_fields w \<longleftrightarrow> project_provider_agent_step_fields w = w)"
proof (intro conjI)
  show "contract_fields w \<longleftrightarrow> project_provider_agent_step_fields w = w"
    using step_projection_id [of w] step_contract_fields [of w] by metis
qed (auto simp: step_parse_provider_output_and_validate_def step_parse_and_validate_def
      validate_agent_step_iff step_contract_fields)

end
