(* ===== verification/Tool_Receipt.thy ===== *)
theory Tool_Receipt
  imports Machines "HOL-Library.Word"
begin

text \<open>
  The execution receipt of a tool call (\<open>openlife-core/src/tool_execution_receipt.rs\<close>):
  the receipt, the tracker that adapters drive through the dispatch boundary, the
  terminal checks and the proofs a receipt can give. Every call of \<open>Utc::now()\<close> is an
  argument \<open>now\<close>. Digests are parameters: \<open>structural_digest\<close> is the SHA-256 of the
  serialised receipt, applied to the receipt without its \<open>#[serde(skip)]\<close> fields.
\<close>

section \<open>Data\<close>

datatype ToolIdempotencyContract = Unspecified | NonIdempotent | Idempotent

datatype ToolActionEffect =
  ReadOnly | LocalMutation | ExternalMutation | ProposalOnly | UnknownAction

datatype ToolTransportStatus =
  TransportNotAttempted | Dispatched | ResponseObserved | LocalAborted | RemoteUnknown

datatype ToolDispatchKind =
  DispatchNotAttempted | Local | Network | McpStdio | Simulated | UnknownDispatch

datatype ToolEffectStatus = EffectNotAttempted | Confirmed | UnknownEffect

datatype ToolExecutionOutcome = NotObserved | Succeeded | Failed | UnknownOutcome

datatype ToolAuditPersistenceStatus = NotRequired | Pending | Committed | AuditFailed | AuditUnknown

definition eq_ignore_ascii_case :: "string \<Rightarrow> string \<Rightarrow> bool" where
  "eq_ignore_ascii_case a b \<longleftrightarrow> to_ascii_lower a = to_ascii_lower b"

definition effect_from_contract :: "string \<Rightarrow> string list \<Rightarrow> ToolActionEffect" where
  "effect_from_contract action_type capabilities =
     (let action_type = to_ascii_lower (trim action_type);
          has_capability = (\<lambda>candidate.
            list_ex (\<lambda>capability. eq_ignore_ascii_case (trim capability) candidate) capabilities)
      in if action_type = ''proposal_only_write'' then ProposalOnly
         else if action_type = ''external_side_effect'' \<or> has_capability ''external_side_effect''
         then ExternalMutation
         else if action_type = ''write'' \<or> has_capability ''write'' then LocalMutation
         else if action_type = ''read'' \<or> action_type = ''network'' then ReadOnly
         else UnknownAction)"

definition may_create_effect :: "ToolActionEffect \<Rightarrow> bool" where
  "may_create_effect e \<longleftrightarrow> e \<in> {LocalMutation, ExternalMutation, ProposalOnly, UnknownAction}"

definition can_confirm_effect :: "ToolActionEffect \<Rightarrow> bool" where
  "can_confirm_effect e \<longleftrightarrow> e \<in> {LocalMutation, ExternalMutation, ProposalOnly}"

definition may_outlive_local_wait :: "ToolDispatchKind \<Rightarrow> bool" where
  "may_outlive_local_wait k \<longleftrightarrow> k \<in> {Network, McpStdio, UnknownDispatch}"

text \<open>The process-local seal of a receipt handed out by the tracker.\<close>

record ToolReceiptRuntimeSeal =
  seal_structural_digest :: string
  seal_action_binding_digest :: "string option"

record ToolExecutionReceipt =
  receipt_id :: string
  source_run_id :: "string option"
  manifest_id :: "string option"
  request_digest :: string
  action_effect :: ToolActionEffect
  idempotency_contract :: ToolIdempotencyContract
  dispatch_kind :: ToolDispatchKind
  dispatch_attempt_count :: "32 word"
  dispatch_observed :: bool
  transport_status :: ToolTransportStatus
  effect_status :: ToolEffectStatus
  execution_outcome :: ToolExecutionOutcome
  audit_persistence_status :: ToolAuditPersistenceStatus
  started_at :: int
  dispatched_at :: "int option"
  response_observed_at :: "int option"
  finished_at :: "int option"
  action_binding_digest :: "string option"
  runtime_authenticity :: "ToolReceiptRuntimeSeal option"

section \<open>The tracker\<close>

text \<open>
  \<open>ToolExecutionReceiptTracker\<close>: the shared receipt and the flag
  \<open>started_transition_claimed\<close>. The first operation is the constructor; \<open>rid\<close> is the
  fresh UUID and \<open>digest\<close> the receipt-scoped request digest made with a private nonce.
\<close>

record ToolExecutionReceiptTracker =
  inner :: ToolExecutionReceipt
  started_transition_claimed :: bool

definition new_receipt ::
  "string \<Rightarrow> string \<Rightarrow> int \<Rightarrow> string option \<Rightarrow> string option \<Rightarrow> ToolActionEffect \<Rightarrow>
   ToolIdempotencyContract \<Rightarrow> ToolExecutionReceipt"
where
  "new_receipt rid digest now run manifest effect idem =
     \<lparr>receipt_id = rid, source_run_id = run, manifest_id = manifest, request_digest = digest,
      action_effect = effect, idempotency_contract = idem,
      dispatch_kind = DispatchNotAttempted, dispatch_attempt_count = 0, dispatch_observed = False,
      transport_status = TransportNotAttempted, effect_status = EffectNotAttempted,
      execution_outcome = NotObserved, audit_persistence_status = NotRequired,
      started_at = now, dispatched_at = None, response_observed_at = None, finished_at = None,
      action_binding_digest = None, runtime_authenticity = None\<rparr>"

definition new_tracker ::
  "string \<Rightarrow> string \<Rightarrow> int \<Rightarrow> string option \<Rightarrow> string option \<Rightarrow> ToolActionEffect \<Rightarrow>
   ToolIdempotencyContract \<Rightarrow> ToolExecutionReceiptTracker"
where
  "new_tracker rid digest now run manifest effect idem =
     \<lparr>inner = new_receipt rid digest now run manifest effect idem,
      started_transition_claimed = False\<rparr>"

text \<open>\<open>u32::saturating_add(1)\<close>.\<close>

definition saturating_inc :: "32 word \<Rightarrow> 32 word" where
  "saturating_inc n = (if n = - 1 then n else n + 1)"

lemma saturating_inc_nonzero [simp]: "saturating_inc n \<noteq> 0"
  using eq_neg_iff_add_eq_0 [of n 1] by (cases "n = - 1") (simp_all add: saturating_inc_def)

lemma u32_positive [simp]: "0 < n \<longleftrightarrow> n \<noteq> (0 :: 32 word)"
  by (simp add: word_gt_0)

definition mark_typed_dispatch_attempt ::
  "ToolDispatchKind \<Rightarrow> ToolExecutionReceipt \<Rightarrow> ToolExecutionReceipt"
where
  "mark_typed_dispatch_attempt k r =
     (if finished_at r \<noteq> None then r
      else r\<lparr>dispatch_kind :=
               (if dispatch_kind r = DispatchNotAttempted then k
                else if dispatch_kind r = k then dispatch_kind r else UnknownDispatch),
             dispatch_attempt_count := saturating_inc (dispatch_attempt_count r),
             response_observed_at := None,
             transport_status := Dispatched\<rparr>)"

definition mark_typed_dispatch_observed ::
  "int \<Rightarrow> ToolDispatchKind \<Rightarrow> ToolExecutionReceipt \<Rightarrow> ToolExecutionReceipt"
where
  "mark_typed_dispatch_observed now k r =
     (if finished_at r \<noteq> None \<or> dispatch_attempt_count r = 0 then r
      else r\<lparr>dispatch_kind := (if dispatch_kind r = k then dispatch_kind r else UnknownDispatch),
             dispatch_observed := True,
             dispatched_at := (if dispatched_at r = None then Some now else dispatched_at r),
             transport_status := Dispatched\<rparr>)"

definition mark_typed_dispatched ::
  "int \<Rightarrow> ToolDispatchKind \<Rightarrow> ToolExecutionReceipt \<Rightarrow> ToolExecutionReceipt"
where
  "mark_typed_dispatched now k r =
     mark_typed_dispatch_observed now k (mark_typed_dispatch_attempt k r)"

definition mark_response_observed :: "int \<Rightarrow> ToolExecutionReceipt \<Rightarrow> ToolExecutionReceipt" where
  "mark_response_observed now r =
     (if finished_at r \<noteq> None then r
      else if \<not> dispatch_observed r then r
      else r\<lparr>response_observed_at := Some now, transport_status := ResponseObserved\<rparr>)"

definition mark_remote_unknown :: "ToolExecutionReceipt \<Rightarrow> ToolExecutionReceipt" where
  "mark_remote_unknown r =
     (if finished_at r \<noteq> None then r
      else if dispatch_attempt_count r > 0 \<and> may_outlive_local_wait (dispatch_kind r)
      then r\<lparr>transport_status := RemoteUnknown, execution_outcome := UnknownOutcome,
             effect_status :=
               (if may_create_effect (action_effect r) \<and> effect_status r \<noteq> Confirmed
                then UnknownEffect else effect_status r)\<rparr>
      else r\<lparr>transport_status := LocalAborted, execution_outcome := UnknownOutcome\<rparr>)"

definition mark_effect_confirmed :: "ToolExecutionReceipt \<Rightarrow> ToolExecutionReceipt" where
  "mark_effect_confirmed r =
     (if finished_at r \<noteq> None then r
      else if can_confirm_effect (action_effect r) then r\<lparr>effect_status := Confirmed\<rparr>
      else if action_effect r = UnknownAction \<and> dispatch_attempt_count r > 0
      then r\<lparr>effect_status := UnknownEffect\<rparr>
      else r)"

definition mark_effect_unknown_if_dispatched :: "ToolExecutionReceipt \<Rightarrow> ToolExecutionReceipt" where
  "mark_effect_unknown_if_dispatched r =
     (if finished_at r \<noteq> None then r
      else if dispatch_attempt_count r > 0 \<and> may_create_effect (action_effect r) \<and>
              effect_status r \<noteq> Confirmed
      then r\<lparr>effect_status := UnknownEffect\<rparr>
      else r)"

definition mark_execution_succeeded :: "ToolExecutionReceipt \<Rightarrow> ToolExecutionReceipt" where
  "mark_execution_succeeded r =
     (if finished_at r = None then r\<lparr>execution_outcome := Succeeded\<rparr> else r)"

definition mark_execution_failed :: "ToolExecutionReceipt \<Rightarrow> ToolExecutionReceipt" where
  "mark_execution_failed r =
     (if finished_at r = None then r\<lparr>execution_outcome := Failed\<rparr> else r)"

definition mark_audit_persistence_pending :: "ToolExecutionReceipt \<Rightarrow> ToolExecutionReceipt" where
  "mark_audit_persistence_pending r =
     (if audit_persistence_status r = NotRequired then r\<lparr>audit_persistence_status := Pending\<rparr> else r)"

definition mark_audit_persistence_committed :: "ToolExecutionReceipt \<Rightarrow> ToolExecutionReceipt" where
  "mark_audit_persistence_committed r =
     (if audit_persistence_status r = Pending then r\<lparr>audit_persistence_status := Committed\<rparr> else r)"

definition mark_audit_persistence_failed :: "ToolExecutionReceipt \<Rightarrow> ToolExecutionReceipt" where
  "mark_audit_persistence_failed r =
     (if audit_persistence_status r = Pending then r\<lparr>audit_persistence_status := AuditFailed\<rparr> else r)"

definition mark_audit_persistence_unknown_if_pending ::
  "ToolExecutionReceipt \<Rightarrow> ToolExecutionReceipt"
where
  "mark_audit_persistence_unknown_if_pending r =
     (if audit_persistence_status r = Pending then r\<lparr>audit_persistence_status := AuditUnknown\<rparr> else r)"

definition mark_local_aborted :: "ToolExecutionReceipt \<Rightarrow> ToolExecutionReceipt" where
  "mark_local_aborted r =
     (if finished_at r \<noteq> None then r
      else r\<lparr>transport_status :=
               (if dispatch_attempt_count r > 0 \<and> response_observed_at r = None \<and>
                   may_outlive_local_wait (dispatch_kind r)
                then RemoteUnknown else LocalAborted),
             execution_outcome := UnknownOutcome,
             effect_status :=
               (if dispatch_attempt_count r > 0 \<and> may_create_effect (action_effect r) \<and>
                   effect_status r \<noteq> Confirmed
                then UnknownEffect else effect_status r)\<rparr>)"

definition finish :: "int \<Rightarrow> ToolExecutionReceipt \<Rightarrow> ToolExecutionReceipt" where
  "finish now r = (if finished_at r = None then r\<lparr>finished_at := Some now\<rparr> else r)"

definition settle_failed_terminal :: "int \<Rightarrow> ToolExecutionReceipt \<Rightarrow> ToolExecutionReceipt" where
  "settle_failed_terminal now r =
     finish now
       (case transport_status r of
          Dispatched \<Rightarrow>
            if may_outlive_local_wait (dispatch_kind r) then mark_remote_unknown r
            else mark_local_aborted r
        | ResponseObserved \<Rightarrow> mark_effect_unknown_if_dispatched (mark_execution_failed r)
        | TransportNotAttempted \<Rightarrow> mark_execution_failed r
        | LocalAborted \<Rightarrow> r
        | RemoteUnknown \<Rightarrow> r)"

definition tracker_settle_after_local_abort :: "int \<Rightarrow> ToolExecutionReceipt \<Rightarrow> ToolExecutionReceipt" where
  "tracker_settle_after_local_abort now r =
     (if finished_at r \<noteq> None then r
      else finish now
        (case transport_status r of
           TransportNotAttempted \<Rightarrow> r
         | Dispatched \<Rightarrow> mark_local_aborted r
         | ResponseObserved \<Rightarrow> mark_local_aborted r
         | LocalAborted \<Rightarrow> r
         | RemoteUnknown \<Rightarrow> r))"

text \<open>The two settlements of \<open>ToolExecutionReceiptRegistration\<close>, before the snapshot.\<close>

definition settle_after_local_abort :: "int \<Rightarrow> ToolExecutionReceipt \<Rightarrow> ToolExecutionReceipt" where
  "settle_after_local_abort now r =
     mark_audit_persistence_unknown_if_pending (tracker_settle_after_local_abort now r)"

definition settle_after_runtime_failure :: "int \<Rightarrow> ToolExecutionReceipt \<Rightarrow> ToolExecutionReceipt" where
  "settle_after_runtime_failure now r =
     mark_audit_persistence_unknown_if_pending (settle_failed_terminal now r)"

definition claim_first_concrete_dispatch_observation ::
  "ToolExecutionReceiptTracker \<Rightarrow> bool \<times> ToolExecutionReceiptTracker"
where
  "claim_first_concrete_dispatch_observation t =
     (if dispatch_observed (inner t) \<and> \<not> started_transition_claimed t
      then (True, t\<lparr>started_transition_claimed := True\<rparr>)
      else (False, t))"

section \<open>Digests, seals and action binding\<close>

text \<open>The fields the serialiser sees.\<close>

definition serialized :: "ToolExecutionReceipt \<Rightarrow> ToolExecutionReceipt" where
  "serialized r = r\<lparr>action_binding_digest := None, runtime_authenticity := None\<rparr>"

definition runtime_structural_digest ::
  "(ToolExecutionReceipt \<Rightarrow> string) \<Rightarrow> ToolExecutionReceipt \<Rightarrow> string"
where
  "runtime_structural_digest structural_digest r = structural_digest (serialized r)"

definition snapshot ::
  "(ToolExecutionReceipt \<Rightarrow> string) \<Rightarrow> ToolExecutionReceipt \<Rightarrow> ToolExecutionReceipt"
where
  "snapshot structural_digest r =
     r\<lparr>runtime_authenticity := Some
         \<lparr>seal_structural_digest = runtime_structural_digest structural_digest r,
          seal_action_binding_digest = action_binding_digest r\<rparr>\<rparr>"

definition is_runtime_issued :: "(ToolExecutionReceipt \<Rightarrow> string) \<Rightarrow> ToolExecutionReceipt \<Rightarrow> bool" where
  "is_runtime_issued structural_digest r \<longleftrightarrow>
     (case runtime_authenticity r of
        None \<Rightarrow> False
      | Some seal \<Rightarrow> seal_structural_digest seal = runtime_structural_digest structural_digest r)"

text \<open>
  What \<open>action_binding_digest_for\<close> hashes: the receipt's identity and the action's id,
  type, target, input hash and input length.
\<close>

record action_identity =
  act_id :: string
  act_type :: string
  act_target :: "string option"
  act_input_hash :: string
  act_input_length :: nat

type_synonym binding_material = "string \<times> string \<times> string option \<times> string option \<times> action_identity"

definition action_binding_digest_for ::
  "(binding_material \<Rightarrow> string) \<Rightarrow> ToolExecutionReceipt \<Rightarrow> action_identity \<Rightarrow> string"
where
  "action_binding_digest_for binding_digest r a =
     binding_digest (receipt_id r, request_digest r, source_run_id r, manifest_id r, a)"

definition bind_action_identity ::
  "(binding_material \<Rightarrow> string) \<Rightarrow> action_identity \<Rightarrow> ToolExecutionReceipt \<Rightarrow>
   string + ToolExecutionReceipt"
where
  "bind_action_identity binding_digest a r =
     (if trim (act_id a) = [] \<or> trim (act_type a) = []
      then Inl ''tool_receipt_action_binding_identity_missing''
      else let binding = action_binding_digest_for binding_digest r a in
           if action_binding_digest r \<noteq> None \<and> action_binding_digest r \<noteq> Some binding
           then Inl ''tool_receipt_action_binding_conflict''
           else Inr (r\<lparr>action_binding_digest := Some binding\<rparr>))"

definition is_runtime_bound_to_action_metadata ::
  "(ToolExecutionReceipt \<Rightarrow> string) \<Rightarrow> (binding_material \<Rightarrow> string) \<Rightarrow> string \<Rightarrow>
   action_identity \<Rightarrow> ToolExecutionReceipt \<Rightarrow> bool"
where
  "is_runtime_bound_to_action_metadata structural_digest binding_digest run_id a r \<longleftrightarrow>
     (if \<not> is_runtime_issued structural_digest r \<or> source_run_id r \<noteq> Some run_id then False
      else (case runtime_authenticity r of
              None \<Rightarrow> False
            | Some seal \<Rightarrow>
                seal_action_binding_digest seal =
                  Some (action_binding_digest_for binding_digest r a)))"

section \<open>Terminal checks and proofs\<close>

definition timestamp_order_invalid :: "ToolExecutionReceipt \<Rightarrow> int \<Rightarrow> bool" where
  "timestamp_order_invalid r finished \<longleftrightarrow>
     started_at r > finished \<or>
     (case dispatched_at r of
        None \<Rightarrow> False | Some d \<Rightarrow> d < started_at r \<or> d > finished) \<or>
     (case response_observed_at r of
        None \<Rightarrow> False
      | Some p \<Rightarrow>
          p < started_at r \<or> p > finished \<or>
          (case dispatched_at r of None \<Rightarrow> True | Some d \<Rightarrow> p < d))"

definition check_dispatch_kind :: "ToolExecutionReceipt \<Rightarrow> unit res" where
  "check_dispatch_kind r =
     (case dispatch_kind r of
        DispatchNotAttempted \<Rightarrow>
          bail_if (dispatch_attempt_count r \<noteq> 0 \<or> dispatch_observed r \<or> dispatched_at r \<noteq> None)
            ''tool_receipt_not_attempted_has_dispatch_fact''
      | UnknownDispatch \<Rightarrow> Inl ''tool_receipt_dispatch_kind_unknown''
      | _ \<Rightarrow>
          bail_if (dispatch_attempt_count r = 0 \<or>
                   dispatch_observed r \<noteq> (dispatched_at r \<noteq> None))
            ''tool_receipt_dispatch_kind_missing_attempt_fact'')"

definition check_transport :: "ToolExecutionReceipt \<Rightarrow> unit res" where
  "check_transport r =
     (case transport_status r of
        TransportNotAttempted \<Rightarrow>
          first_failure
            [bail_if (dispatch_kind r \<noteq> DispatchNotAttempted \<or> response_observed_at r \<noteq> None)
               ''tool_receipt_not_attempted_transport_conflict'',
             bail_if (execution_outcome r \<notin> {NotObserved, Failed})
               ''tool_receipt_not_attempted_outcome_conflict'']
      | Dispatched \<Rightarrow> Inl ''tool_receipt_dispatch_has_no_terminal_certainty''
      | ResponseObserved \<Rightarrow>
          first_failure
            [bail_if (dispatch_kind r = DispatchNotAttempted \<or> \<not> dispatch_observed r \<or>
                      response_observed_at r = None)
               ''tool_receipt_response_without_dispatch'',
             bail_if (execution_outcome r \<notin> {Succeeded, Failed})
               ''tool_receipt_response_outcome_missing'']
      | LocalAborted \<Rightarrow>
          first_failure
            [bail_if (may_outlive_local_wait (dispatch_kind r) \<and> response_observed_at r = None \<and>
                      dispatched_at r \<noteq> None)
               ''tool_receipt_remote_dispatch_mislabeled_local_abort'',
             bail_if (execution_outcome r \<notin> {NotObserved, UnknownOutcome})
               ''tool_receipt_local_abort_outcome_conflict'']
      | RemoteUnknown \<Rightarrow>
          first_failure
            [bail_if (\<not> may_outlive_local_wait (dispatch_kind r) \<or> dispatch_attempt_count r = 0 \<or>
                      response_observed_at r \<noteq> None)
               ''tool_receipt_remote_unknown_boundary_invalid'',
             bail_if (execution_outcome r \<noteq> UnknownOutcome)
               ''tool_receipt_remote_unknown_outcome_conflict''])"

definition check_effect :: "ToolExecutionReceipt \<Rightarrow> unit res" where
  "check_effect r =
     (case effect_status r of
        EffectNotAttempted \<Rightarrow>
          bail_if (action_effect r \<noteq> ReadOnly \<and> transport_status r \<noteq> TransportNotAttempted \<and>
                   transport_status r \<noteq> LocalAborted)
            ''tool_receipt_mutation_dispatch_has_no_effect_certainty''
      | Confirmed \<Rightarrow>
          bail_if (action_effect r \<notin> {LocalMutation, ExternalMutation, ProposalOnly} \<or>
                   transport_status r \<noteq> ResponseObserved)
            ''tool_receipt_confirmed_effect_without_response''
      | UnknownEffect \<Rightarrow>
          bail_if (\<not> may_create_effect (action_effect r) \<or> dispatch_attempt_count r = 0)
            ''tool_receipt_unknown_effect_without_mutation_dispatch'')"

text \<open>\<open>valid_uuid\<close> stands for \<open>uuid::Uuid::parse_str(..).is_ok()\<close>.\<close>

definition mechanically_valid_terminal ::
  "(string \<Rightarrow> bool) \<Rightarrow> ToolExecutionReceipt \<Rightarrow> unit res"
where
  "mechanically_valid_terminal valid_uuid r =
     (case finished_at r of
        None \<Rightarrow> Inl ''tool_receipt_terminal_finished_at_missing''
      | Some finished \<Rightarrow>
          first_failure
            [bail_if (audit_persistence_status r = Pending)
               ''tool_receipt_terminal_audit_persistence_pending'',
             bail_if (\<not> valid_uuid (receipt_id r)) ''tool_receipt_id_invalid'',
             bail_if (trim (request_digest r) = []) ''tool_receipt_request_digest_missing'',
             bail_if (timestamp_order_invalid r finished) ''tool_receipt_timestamp_order_invalid'',
             check_dispatch_kind r, check_transport r, check_effect r])"

definition automatic_retry_safe ::
  "(string \<Rightarrow> bool) \<Rightarrow> (ToolExecutionReceipt \<Rightarrow> string) \<Rightarrow> ToolExecutionReceipt \<Rightarrow> bool"
where
  "automatic_retry_safe valid_uuid structural_digest r \<longleftrightarrow>
     is_runtime_issued structural_digest r \<and>
     mechanically_valid_terminal valid_uuid r = Inr () \<and>
     idempotency_contract r = Idempotent \<and> action_effect r \<noteq> UnknownAction \<and>
     dispatch_kind r = DispatchNotAttempted \<and> dispatch_attempt_count r = 0 \<and>
     \<not> dispatch_observed r \<and> transport_status r = TransportNotAttempted \<and>
     effect_status r = EffectNotAttempted \<and> dispatched_at r = None \<and> response_observed_at r = None"

definition proves_not_dispatched ::
  "(string \<Rightarrow> bool) \<Rightarrow> (ToolExecutionReceipt \<Rightarrow> string) \<Rightarrow> ToolExecutionReceipt \<Rightarrow> bool"
where
  "proves_not_dispatched valid_uuid structural_digest r \<longleftrightarrow>
     is_runtime_issued structural_digest r \<and>
     mechanically_valid_terminal valid_uuid r = Inr () \<and>
     dispatch_kind r = DispatchNotAttempted \<and> dispatch_attempt_count r = 0 \<and>
     \<not> dispatch_observed r \<and> transport_status r = TransportNotAttempted \<and>
     effect_status r = EffectNotAttempted \<and> execution_outcome r \<in> {NotObserved, Failed} \<and>
     dispatched_at r = None \<and> response_observed_at r = None"

definition proves_success ::
  "(string \<Rightarrow> bool) \<Rightarrow> (ToolExecutionReceipt \<Rightarrow> string) \<Rightarrow> ToolExecutionReceipt \<Rightarrow> bool"
where
  "proves_success valid_uuid structural_digest r \<longleftrightarrow>
     is_runtime_issued structural_digest r \<and>
     mechanically_valid_terminal valid_uuid r = Inr () \<and>
     transport_status r = ResponseObserved \<and> execution_outcome r = Succeeded \<and>
     (case action_effect r of
        ReadOnly \<Rightarrow> effect_status r = EffectNotAttempted
      | LocalMutation \<Rightarrow> effect_status r = Confirmed
      | ExternalMutation \<Rightarrow> effect_status r = Confirmed
      | ProposalOnly \<Rightarrow> effect_status r = Confirmed
      | UnknownAction \<Rightarrow> False)"

text \<open>A blocker before any dispatch: its receipt has no seal.\<close>

definition failed_before_dispatch ::
  "string \<Rightarrow> string \<Rightarrow> int \<Rightarrow> int \<Rightarrow> string option \<Rightarrow> string option \<Rightarrow> ToolActionEffect \<Rightarrow>
   ToolIdempotencyContract \<Rightarrow> ToolExecutionReceipt"
where
  "failed_before_dispatch rid digest now now' run manifest effect idem =
     finish now' (mark_execution_failed (new_receipt rid digest now run manifest effect idem))
       \<lparr>runtime_authenticity := None\<rparr>"

section \<open>Histories of a receipt\<close>

text \<open>The calls an adapter or a runtime owner can make on a shared tracker.\<close>

datatype receipt_call =
  DispatchAttempted ToolDispatchKind | DispatchSeen int ToolDispatchKind | ResponseSeen int
| MarkRemoteUnknown | EffectConfirmed | EffectUnknownIfDispatched | ExecutionSucceeded
| ExecutionFailed | AuditPending | AuditCommitted | AuditFail | AuditUnknownIfPending
| MarkLocalAborted | Finish int | SettleFailed int | SettleAfterAbort int | SettleAfterFailure int
| BindAction "(binding_material \<Rightarrow> string)" action_identity

definition apply_call :: "receipt_call \<Rightarrow> ToolExecutionReceipt \<Rightarrow> string + ToolExecutionReceipt" where
  "apply_call c r =
     (case c of
        DispatchAttempted k \<Rightarrow> Inr (mark_typed_dispatch_attempt k r)
      | DispatchSeen now k \<Rightarrow> Inr (mark_typed_dispatch_observed now k r)
      | ResponseSeen now \<Rightarrow> Inr (mark_response_observed now r)
      | MarkRemoteUnknown \<Rightarrow> Inr (mark_remote_unknown r)
      | EffectConfirmed \<Rightarrow> Inr (mark_effect_confirmed r)
      | EffectUnknownIfDispatched \<Rightarrow> Inr (mark_effect_unknown_if_dispatched r)
      | ExecutionSucceeded \<Rightarrow> Inr (mark_execution_succeeded r)
      | ExecutionFailed \<Rightarrow> Inr (mark_execution_failed r)
      | AuditPending \<Rightarrow> Inr (mark_audit_persistence_pending r)
      | AuditCommitted \<Rightarrow> Inr (mark_audit_persistence_committed r)
      | AuditFail \<Rightarrow> Inr (mark_audit_persistence_failed r)
      | AuditUnknownIfPending \<Rightarrow> Inr (mark_audit_persistence_unknown_if_pending r)
      | MarkLocalAborted \<Rightarrow> Inr (mark_local_aborted r)
      | Finish now \<Rightarrow> Inr (finish now r)
      | SettleFailed now \<Rightarrow> Inr (settle_failed_terminal now r)
      | SettleAfterAbort now \<Rightarrow> Inr (settle_after_local_abort now r)
      | SettleAfterFailure now \<Rightarrow> Inr (settle_after_runtime_failure now r)
      | BindAction h a \<Rightarrow> bind_action_identity h a r)"

lemmas mark_defs =
  mark_typed_dispatch_attempt_def mark_typed_dispatch_observed_def mark_response_observed_def
  mark_remote_unknown_def mark_effect_confirmed_def mark_effect_unknown_if_dispatched_def
  mark_execution_succeeded_def mark_execution_failed_def mark_local_aborted_def finish_def

lemmas audit_defs =
  mark_audit_persistence_pending_def mark_audit_persistence_committed_def
  mark_audit_persistence_failed_def mark_audit_persistence_unknown_if_pending_def

lemmas settle_defs =
  settle_failed_terminal_def tracker_settle_after_local_abort_def settle_after_local_abort_def
  settle_after_runtime_failure_def

subsection \<open>A finished receipt is frozen\<close>

definition execution_facts :: "ToolExecutionReceipt \<Rightarrow> ToolExecutionReceipt" where
  "execution_facts r =
     r\<lparr>audit_persistence_status := NotRequired, action_binding_digest := None\<rparr>"

lemma bind_ok:
  "bind_action_identity h a r = Inr r' \<Longrightarrow> \<exists>b. r' = r\<lparr>action_binding_digest := Some b\<rparr>"
  by (auto simp: bind_action_identity_def Let_def split: if_splits)

lemma finished_frozen:
  assumes "finished_at r \<noteq> None" "apply_call c r = Inr r'"
  shows "finished_at r' \<noteq> None \<and> execution_facts r' = execution_facts r"
proof (cases c)
  case (BindAction h a)
  then show ?thesis using assms bind_ok by (fastforce simp: apply_call_def execution_facts_def)
qed (use assms in \<open>auto simp: apply_call_def mark_defs audit_defs settle_defs execution_facts_def
       split: ToolTransportStatus.splits\<close>)

interpretation finished_receipt:
  frozen_machine apply_call "\<lambda>r. finished_at r \<noteq> None" execution_facts
  by unfold_locales (rule finished_frozen)

subsection \<open>What a receipt says of the calls made\<close>

lemma attempt_count_marks:
  assumes "dispatch_attempt_count r \<noteq> 0"
  shows "dispatch_attempt_count (mark_typed_dispatch_attempt k r) \<noteq> 0"
    and "dispatch_attempt_count (mark_typed_dispatch_observed now k r) \<noteq> 0"
    and "dispatch_attempt_count (mark_response_observed now r) \<noteq> 0"
    and "dispatch_attempt_count (mark_remote_unknown r) \<noteq> 0"
    and "dispatch_attempt_count (mark_effect_confirmed r) \<noteq> 0"
    and "dispatch_attempt_count (mark_effect_unknown_if_dispatched r) \<noteq> 0"
    and "dispatch_attempt_count (mark_execution_succeeded r) \<noteq> 0"
    and "dispatch_attempt_count (mark_execution_failed r) \<noteq> 0"
    and "dispatch_attempt_count (mark_local_aborted r) \<noteq> 0"
    and "dispatch_attempt_count (finish now r) \<noteq> 0"
    and "dispatch_attempt_count (mark_audit_persistence_pending r) \<noteq> 0"
    and "dispatch_attempt_count (mark_audit_persistence_committed r) \<noteq> 0"
    and "dispatch_attempt_count (mark_audit_persistence_failed r) \<noteq> 0"
    and "dispatch_attempt_count (mark_audit_persistence_unknown_if_pending r) \<noteq> 0"
  using assms by (simp_all add: mark_defs audit_defs)

lemma attempt_count_positive:
  assumes "apply_call c r = Inr r'" and "dispatch_attempt_count r \<noteq> 0"
  shows "dispatch_attempt_count r' \<noteq> 0"
proof (cases c)
  case (BindAction h a)
  then show ?thesis using assms bind_ok by (fastforce simp: apply_call_def)
qed (use assms in \<open>auto simp: apply_call_def settle_defs attempt_count_marks
       split: ToolTransportStatus.splits if_splits\<close>)

lemma positive_count_stays:
  "dispatch_attempt_count r \<noteq> 0 \<Longrightarrow> dispatch_attempt_count (attempts apply_call cs r) \<noteq> 0"
proof (induction cs arbitrary: r)
  case (Cons c cs)
  have "dispatch_attempt_count (advance apply_call c r) \<noteq> 0"
    using attempt_count_positive Cons.prems by (auto simp: advance_def split: sum.splits)
  then show ?case using Cons by simp
qed simp

text \<open>The calls that must stand behind each positive fact of a receipt.\<close>

definition facts_have_calls :: "receipt_call list \<Rightarrow> ToolExecutionReceipt \<Rightarrow> bool" where
  "facts_have_calls cs r \<longleftrightarrow>
     (dispatch_attempt_count r > 0 \<longrightarrow> (\<exists>k. DispatchAttempted k \<in> set cs)) \<and>
     (dispatch_observed r \<longrightarrow> dispatch_attempt_count r > 0 \<and> (\<exists>t k. DispatchSeen t k \<in> set cs)) \<and>
     (transport_status r = ResponseObserved \<longrightarrow> dispatch_observed r \<and> (\<exists>t. ResponseSeen t \<in> set cs)) \<and>
     (execution_outcome r = Succeeded \<longrightarrow> ExecutionSucceeded \<in> set cs) \<and>
     (effect_status r = Confirmed \<longrightarrow> EffectConfirmed \<in> set cs)"

lemma facts_more_calls: "facts_have_calls cs r \<Longrightarrow> facts_have_calls (cs @ [c]) r"
  by (auto simp: facts_have_calls_def)

text \<open>Marks that establish no positive fact.\<close>

lemma facts_quiet_marks:
  assumes "facts_have_calls cs r"
  shows "facts_have_calls cs (mark_remote_unknown r)"
    and "facts_have_calls cs (mark_effect_unknown_if_dispatched r)"
    and "facts_have_calls cs (mark_execution_failed r)"
    and "facts_have_calls cs (mark_local_aborted r)"
    and "facts_have_calls cs (finish now r)"
    and "facts_have_calls cs (mark_audit_persistence_pending r)"
    and "facts_have_calls cs (mark_audit_persistence_committed r)"
    and "facts_have_calls cs (mark_audit_persistence_failed r)"
    and "facts_have_calls cs (mark_audit_persistence_unknown_if_pending r)"
  using assms
  by (simp_all add: facts_have_calls_def mark_remote_unknown_def mark_effect_unknown_if_dispatched_def
      mark_execution_failed_def mark_local_aborted_def finish_def audit_defs)

lemma facts_settled:
  assumes "facts_have_calls cs r"
  shows "facts_have_calls cs (settle_failed_terminal now r)"
    and "facts_have_calls cs (tracker_settle_after_local_abort now r)"
  using assms
  by (cases "transport_status r";
      simp add: settle_failed_terminal_def tracker_settle_after_local_abort_def facts_quiet_marks)+

text \<open>Marks that establish one fact, whose call is made now.\<close>

lemma facts_loud_marks:
  assumes "facts_have_calls cs r"
  shows "facts_have_calls (cs @ [DispatchAttempted k]) (mark_typed_dispatch_attempt k r)"
    and "facts_have_calls (cs @ [DispatchSeen now k]) (mark_typed_dispatch_observed now k r)"
    and "facts_have_calls (cs @ [ResponseSeen now]) (mark_response_observed now r)"
    and "facts_have_calls (cs @ [EffectConfirmed]) (mark_effect_confirmed r)"
    and "facts_have_calls (cs @ [ExecutionSucceeded]) (mark_execution_succeeded r)"
proof -
  note more = facts_more_calls [OF assms, unfolded facts_have_calls_def]
  show "facts_have_calls (cs @ [DispatchAttempted k]) (mark_typed_dispatch_attempt k r)"
    using more [of "DispatchAttempted k"]
    by (simp add: mark_typed_dispatch_attempt_def facts_have_calls_def) blast
  show "facts_have_calls (cs @ [DispatchSeen now k]) (mark_typed_dispatch_observed now k r)"
    using more [of "DispatchSeen now k"]
    by (simp add: mark_typed_dispatch_observed_def facts_have_calls_def) blast
  show "facts_have_calls (cs @ [ResponseSeen now]) (mark_response_observed now r)"
    using more [of "ResponseSeen now"]
    by (simp add: mark_response_observed_def facts_have_calls_def) blast
  show "facts_have_calls (cs @ [EffectConfirmed]) (mark_effect_confirmed r)"
    using more [of EffectConfirmed]
    by (simp add: mark_effect_confirmed_def facts_have_calls_def)
  show "facts_have_calls (cs @ [ExecutionSucceeded]) (mark_execution_succeeded r)"
    using more [of ExecutionSucceeded]
    by (simp add: mark_execution_succeeded_def facts_have_calls_def)
qed

lemmas facts_after_quiet = facts_quiet_marks [OF facts_more_calls] facts_settled [OF facts_more_calls]
  facts_quiet_marks(9) [OF facts_settled(1) [OF facts_more_calls]]
  facts_quiet_marks(9) [OF facts_settled(2) [OF facts_more_calls]]

lemma facts_have_calls_step:
  assumes "facts_have_calls cs r" "apply_call c r = Inr r'"
  shows "facts_have_calls (cs @ [c]) r'"
proof (cases c)
  case (BindAction h a)
  then obtain b where "r' = r\<lparr>action_binding_digest := Some b\<rparr>"
    using assms(2) bind_ok by (fastforce simp: apply_call_def)
  then show ?thesis
    using facts_more_calls [OF assms(1), of c] by (simp add: facts_have_calls_def)
qed (use assms in \<open>clarsimp simp: apply_call_def settle_after_local_abort_def
        settle_after_runtime_failure_def facts_after_quiet facts_loud_marks\<close>)+

lemma facts_have_calls:
  "facts_have_calls cs (attempts apply_call cs (new_receipt rid digest now run manifest effect idem))"
proof (rule attempts_history)
  show "facts_have_calls [] (new_receipt rid digest now run manifest effect idem)"
    by (simp add: facts_have_calls_def new_receipt_def)
next
  fix cs c r r' assume "facts_have_calls cs r" "apply_call c r = Inr r'"
  then show "facts_have_calls (cs @ [c]) r'" by (rule facts_have_calls_step)
next
  fix cs c r assume "facts_have_calls cs r"
  then show "facts_have_calls (cs @ [c]) r" by (rule facts_more_calls)
qed

subsection \<open>Claiming the start of the dispatch once\<close>

datatype tracker_call = ClaimStart | ReceiptCall receipt_call

definition tracker_step ::
  "tracker_call \<Rightarrow> ToolExecutionReceiptTracker \<Rightarrow> bool \<times> ToolExecutionReceiptTracker"
where
  "tracker_step c t =
     (case c of
        ClaimStart \<Rightarrow> claim_first_concrete_dispatch_observation t
      | ReceiptCall rc \<Rightarrow> (False, t\<lparr>inner := advance apply_call rc (inner t)\<rparr>))"

interpretation start_claim:
  one_shot tracker_step "\<lambda>fired. fired" started_transition_claimed "\<lambda>_. True"
  by unfold_locales
    (auto simp: tracker_step_def claim_first_concrete_dispatch_observation_def
      split: tracker_call.splits if_splits)

section \<open>Adapters that follow the protocol\<close>

text \<open>
  The states an adapter of one dispatch kind \<open>K\<close> reaches when it reports what it sees:
  it observes a dispatch it attempted, a response it was waiting for, an outcome and an
  effect once there is a response, does not dispatch again after a confirmed effect, and
  the clock does not run backwards.
\<close>

inductive adapter_run :: "ToolDispatchKind \<Rightarrow> int \<Rightarrow> ToolExecutionReceipt \<Rightarrow> bool" for K where
  start: "adapter_run K now (new_receipt rid digest now run manifest effect idem)"
| attempt: "adapter_run K now r \<Longrightarrow> effect_status r \<noteq> Confirmed \<Longrightarrow>
    adapter_run K now (mark_typed_dispatch_attempt K r)"
| seen: "adapter_run K now r \<Longrightarrow> transport_status r = Dispatched \<Longrightarrow> now \<le> now' \<Longrightarrow>
    adapter_run K now' (mark_typed_dispatch_observed now' K r)"
| response: "adapter_run K now r \<Longrightarrow> transport_status r = Dispatched \<Longrightarrow> now \<le> now' \<Longrightarrow>
    adapter_run K now' (mark_response_observed now' r)"
| succeeded: "adapter_run K now r \<Longrightarrow> transport_status r = ResponseObserved \<Longrightarrow>
    adapter_run K now (mark_execution_succeeded r)"
| failed: "adapter_run K now r \<Longrightarrow> transport_status r \<in> {TransportNotAttempted, ResponseObserved} \<Longrightarrow>
    adapter_run K now (mark_execution_failed r)"
| confirmed: "adapter_run K now r \<Longrightarrow> transport_status r = ResponseObserved \<Longrightarrow>
    adapter_run K now (mark_effect_confirmed r)"
| uncertain: "adapter_run K now r \<Longrightarrow> adapter_run K now (mark_effect_unknown_if_dispatched r)"
| aborted: "adapter_run K now r \<Longrightarrow> transport_status r \<in> {TransportNotAttempted, Dispatched} \<Longrightarrow>
    adapter_run K now (mark_local_aborted r)"
| lost: "adapter_run K now r \<Longrightarrow> transport_status r = Dispatched \<Longrightarrow>
    adapter_run K now (mark_remote_unknown r)"
| audit: "adapter_run K now r \<Longrightarrow> adapter_run K now (mark_audit_persistence_pending r)"
| audit_done: "adapter_run K now r \<Longrightarrow> adapter_run K now (mark_audit_persistence_committed r)"

fun transport_inv ::
  "ToolDispatchKind \<Rightarrow> ToolExecutionOutcome \<Rightarrow> 32 word \<Rightarrow> bool \<Rightarrow> int option \<Rightarrow> ToolTransportStatus \<Rightarrow> bool"
where
  "transport_inv K outcome count observed resp TransportNotAttempted \<longleftrightarrow>
     count = 0 \<and> outcome \<in> {NotObserved, Failed}"
| "transport_inv K outcome count observed resp Dispatched \<longleftrightarrow> count > 0 \<and> resp = None"
| "transport_inv K outcome count observed resp ResponseObserved \<longleftrightarrow> observed \<and> resp \<noteq> None"
| "transport_inv K outcome count observed resp LocalAborted \<longleftrightarrow>
     outcome = UnknownOutcome \<and> (count = 0 \<or> \<not> may_outlive_local_wait K)"
| "transport_inv K outcome count observed resp RemoteUnknown \<longleftrightarrow>
     outcome = UnknownOutcome \<and> count > 0 \<and> may_outlive_local_wait K \<and> resp = None"

fun effect_inv :: "ToolActionEffect \<Rightarrow> 32 word \<Rightarrow> ToolTransportStatus \<Rightarrow> ToolEffectStatus \<Rightarrow> bool" where
  "effect_inv a count t EffectNotAttempted \<longleftrightarrow> (t = RemoteUnknown \<longrightarrow> a = ReadOnly)"
| "effect_inv a count t Confirmed \<longleftrightarrow> t = ResponseObserved \<and> can_confirm_effect a"
| "effect_inv a count t UnknownEffect \<longleftrightarrow> may_create_effect a \<and> count > 0"

definition times_inv :: "int \<Rightarrow> int \<Rightarrow> bool \<Rightarrow> int option \<Rightarrow> int option \<Rightarrow> bool" where
  "times_inv now start observed sent resp \<longleftrightarrow>
     start \<le> now \<and> (observed \<longleftrightarrow> sent \<noteq> None) \<and>
     (\<forall>d. sent = Some d \<longrightarrow> start \<le> d \<and> d \<le> now) \<and>
     (\<forall>p. resp = Some p \<longrightarrow> p \<le> now \<and> (\<exists>d. sent = Some d \<and> d \<le> p))"

definition adapter_inv :: "ToolDispatchKind \<Rightarrow> int \<Rightarrow> ToolExecutionReceipt \<Rightarrow> bool" where
  "adapter_inv K now r \<longleftrightarrow>
     finished_at r = None \<and>
     times_inv now (started_at r) (dispatch_observed r) (dispatched_at r) (response_observed_at r) \<and>
     dispatch_kind r = (if dispatch_attempt_count r = 0 then DispatchNotAttempted else K) \<and>
     (dispatch_observed r \<longrightarrow> dispatch_attempt_count r > 0) \<and>
     transport_inv K (execution_outcome r) (dispatch_attempt_count r) (dispatch_observed r)
       (response_observed_at r) (transport_status r) \<and>
     effect_inv (action_effect r) (dispatch_attempt_count r) (transport_status r) (effect_status r)"

lemma not_may_create: "\<not> may_create_effect e \<longleftrightarrow> e = ReadOnly"
  by (cases e) (simp_all add: may_create_effect_def)

lemma confirm_creates: "can_confirm_effect e \<Longrightarrow> may_create_effect e"
  by (simp add: can_confirm_effect_def may_create_effect_def) blast

lemma times_later: "times_inv now start observed sent resp \<Longrightarrow> now \<le> now' \<Longrightarrow>
    times_inv now' start observed sent resp"
  by (fastforce simp: times_inv_def)

lemma times_marks:
  "times_inv now start observed sent resp \<Longrightarrow> times_inv now start observed sent None"
  "times_inv now start observed sent resp \<Longrightarrow>
    times_inv now start True (if sent = None then Some now else sent) resp"
  "times_inv now start True sent resp \<Longrightarrow> times_inv now start True sent (Some now)"
  by (auto simp: times_inv_def)

lemma adapter_run_inv:
  assumes "adapter_run K now r"
  shows "adapter_inv K now r"
  using assms
proof induction
  case (start now rid digest run manifest effect idem)
  then show ?case by (simp add: adapter_inv_def new_receipt_def times_inv_def)
next
  case (attempt now r)
  then show ?case
    by (cases "effect_status r")
      (auto simp: adapter_inv_def mark_typed_dispatch_attempt_def times_marks(1))
next
  case (seen now r now')
  then have "times_inv now' (started_at r) (dispatch_observed r) (dispatched_at r) (response_observed_at r)"
    by (auto simp: adapter_inv_def times_later)
  from times_marks(2) [OF this] seen show ?case
    by (cases "effect_status r") (auto simp: adapter_inv_def mark_typed_dispatch_observed_def)
next
  case (response now r now')
  then have "times_inv now' (started_at r) (dispatch_observed r) (dispatched_at r) (response_observed_at r)"
    by (auto simp: adapter_inv_def times_later)
  with response times_marks(3) show ?case
    by (cases "effect_status r"; cases "dispatch_observed r")
      (auto simp: adapter_inv_def mark_response_observed_def)
next
  case (succeeded now r)
  then show ?case by (auto simp: adapter_inv_def mark_execution_succeeded_def)
next
  case (failed now r)
  then show ?case by (auto simp: adapter_inv_def mark_execution_failed_def)
next
  case (confirmed now r)
  then show ?case
    by (auto simp: adapter_inv_def mark_effect_confirmed_def may_create_effect_def)
next
  case (uncertain now r)
  then show ?case by (auto simp: adapter_inv_def mark_effect_unknown_if_dispatched_def)
next
  case (aborted now r)
  then show ?case
    by (cases "effect_status r"; cases "transport_status r")
      (auto simp: adapter_inv_def mark_local_aborted_def not_may_create)
next
  case (lost now r)
  then show ?case
    by (cases "effect_status r") (auto simp: adapter_inv_def mark_remote_unknown_def not_may_create)
next
  case (audit now r)
  then show ?case by (simp add: adapter_inv_def mark_audit_persistence_pending_def)
next
  case (audit_done now r)
  then show ?case by (simp add: adapter_inv_def mark_audit_persistence_committed_def)
qed

lemma checks_cong:
  assumes "dispatch_kind s = dispatch_kind r" "dispatch_attempt_count s = dispatch_attempt_count r"
    "dispatch_observed s = dispatch_observed r" "dispatched_at s = dispatched_at r"
    "response_observed_at s = response_observed_at r" "transport_status s = transport_status r"
    "execution_outcome s = execution_outcome r" "effect_status s = effect_status r"
    "action_effect s = action_effect r" "started_at s = started_at r"
  shows "check_dispatch_kind s = check_dispatch_kind r" "check_transport s = check_transport r"
    "check_effect s = check_effect r" "timestamp_order_invalid s f = timestamp_order_invalid r f"
  by (simp_all only: check_dispatch_kind_def check_transport_def check_effect_def
      timestamp_order_invalid_def assms)

lemma audit_irrelevant:
  "finished_at (mark_audit_persistence_unknown_if_pending r) = finished_at r"
  "(audit_persistence_status (mark_audit_persistence_unknown_if_pending r) = Pending) = False"
  "receipt_id (mark_audit_persistence_unknown_if_pending r) = receipt_id r"
  "request_digest (mark_audit_persistence_unknown_if_pending r) = request_digest r"
  by (simp_all add: mark_audit_persistence_unknown_if_pending_def)

lemma audit_irrelevant_checks:
  "check_dispatch_kind (mark_audit_persistence_unknown_if_pending r) = check_dispatch_kind r"
  "check_transport (mark_audit_persistence_unknown_if_pending r) = check_transport r"
  "check_effect (mark_audit_persistence_unknown_if_pending r) = check_effect r"
  "timestamp_order_invalid (mark_audit_persistence_unknown_if_pending r) f = timestamp_order_invalid r f"
  by (rule checks_cong; simp add: mark_audit_persistence_unknown_if_pending_def)+

lemma adapter_inv_settles:
  assumes inv: "adapter_inv K now r" and K: "K \<notin> {UnknownDispatch, DispatchNotAttempted}" and now: "now \<le> now'"
    and ids: "valid_uuid (receipt_id r)" "trim (request_digest r) \<noteq> []"
  shows "mechanically_valid_terminal valid_uuid (settle_after_runtime_failure now' r) = Inr ()"
proof -
  let ?s = "settle_failed_terminal now' r"
  have fin: "finished_at ?s = Some now'"
    using inv by (cases "transport_status r")
      (simp_all add: settle_failed_terminal_def adapter_inv_def mark_defs)
  have same: "started_at ?s = started_at r" "dispatched_at ?s = dispatched_at r"
    "response_observed_at ?s = response_observed_at r" "receipt_id ?s = receipt_id r"
    "request_digest ?s = request_digest r" "dispatch_kind ?s = dispatch_kind r"
    "dispatch_attempt_count ?s = dispatch_attempt_count r"
    "dispatch_observed ?s = dispatch_observed r" "action_effect ?s = action_effect r"
    by (cases "transport_status r"; simp add: settle_failed_terminal_def mark_defs)+
  have order: "\<not> timestamp_order_invalid ?s now'"
    using inv now unfolding timestamp_order_invalid_def same adapter_inv_def times_inv_def
    by (fastforce split: option.splits)
  have kind: "check_dispatch_kind ?s = Inr ()"
    using inv K unfolding check_dispatch_kind_def same adapter_inv_def times_inv_def
    by (cases "dispatch_attempt_count r = 0"; cases K) auto
  have transport: "check_transport ?s = Inr ()"
    using inv K by (cases "transport_status r"; cases "dispatch_attempt_count r = 0")
      (auto simp: check_transport_def settle_failed_terminal_def adapter_inv_def mark_defs times_inv_def)
  have effect: "check_effect ?s = Inr ()"
    using inv by (cases "transport_status r"; cases "effect_status r")
      (auto simp: check_effect_def settle_failed_terminal_def adapter_inv_def mark_defs
        not_may_create can_confirm_effect_def)
  have "mechanically_valid_terminal valid_uuid (mark_audit_persistence_unknown_if_pending ?s) = Inr ()"
    unfolding mechanically_valid_terminal_def audit_irrelevant audit_irrelevant_checks
    by (simp add: fin same ids order kind transport effect)
  then show ?thesis
    unfolding settle_after_runtime_failure_def .
qed

section \<open>The proofs a snapshot gives\<close>

lemma issued_snapshot: "is_runtime_issued structural_digest (snapshot structural_digest r)"
  by (simp add: is_runtime_issued_def snapshot_def runtime_structural_digest_def serialized_def)

lemma snapshot_view [simp]:
  "dispatch_attempt_count (snapshot D r) = dispatch_attempt_count r"
  "dispatch_observed (snapshot D r) = dispatch_observed r"
  "transport_status (snapshot D r) = transport_status r"
  "execution_outcome (snapshot D r) = execution_outcome r"
  "effect_status (snapshot D r) = effect_status r"
  "action_effect (snapshot D r) = action_effect r"
  "finished_at (snapshot D r) = finished_at r"
  by (simp_all add: snapshot_def)

lemma success_facts:
  assumes "proves_success valid_uuid D r"
  shows "transport_status r = ResponseObserved" "execution_outcome r = Succeeded"
    "action_effect r \<noteq> ReadOnly \<Longrightarrow> effect_status r = Confirmed"
  using assms by (simp_all add: proves_success_def split: ToolActionEffect.splits)

text \<open>The identity of a receipt never changes, and a binding on it was made by a call.\<close>

definition identity :: "ToolExecutionReceipt \<Rightarrow> string \<times> string \<times> string option \<times> string option" where
  "identity r = (receipt_id r, request_digest r, source_run_id r, manifest_id r)"

lemma bind_identity:
  "bind_action_identity h a r = Inr r' \<Longrightarrow>
   identity r' = identity r \<and>
   action_binding_digest r' = Some (h (receipt_id r, request_digest r, source_run_id r, manifest_id r, a))"
  by (auto simp: bind_action_identity_def identity_def action_binding_digest_for_def Let_def
      split: if_splits)

lemma identity_step:
  assumes "apply_call c r = Inr r'"
  shows "identity r' = identity r"
    and "(\<forall>h a. c \<noteq> BindAction h a) \<Longrightarrow> action_binding_digest r' = action_binding_digest r"
proof -
  have "identity r' = identity r \<and>
      ((\<forall>h a. c \<noteq> BindAction h a) \<longrightarrow> action_binding_digest r' = action_binding_digest r)"
  proof (cases c)
    case (BindAction h a)
    then show ?thesis using assms bind_identity by (fastforce simp: apply_call_def)
  qed (use assms in \<open>auto simp: apply_call_def mark_defs audit_defs settle_defs identity_def
         split: ToolTransportStatus.splits\<close>)
  then show "identity r' = identity r"
    and "(\<forall>h a. c \<noteq> BindAction h a) \<Longrightarrow> action_binding_digest r' = action_binding_digest r"
    by blast+
qed

lemma identity_kept:
  "identity (attempts apply_call cs (new_receipt rid digest now run manifest effect idem)) =
     (rid, digest, run, manifest)"
  by (rule attempts_history [where P = "\<lambda>_ r. identity r = (rid, digest, run, manifest)"])
     (simp_all add: identity_step(1), simp add: new_receipt_def identity_def)

lemma binding_has_call:
  "action_binding_digest (attempts apply_call cs (new_receipt rid digest now run manifest effect idem))
     = Some d \<Longrightarrow>
   \<exists>h a. BindAction h a \<in> set cs \<and> d = h (rid, digest, run, manifest, a)"
proof -
  let ?P = "\<lambda>cs r. identity r = (rid, digest, run, manifest) \<and>
    (\<forall>d. action_binding_digest r = Some d \<longrightarrow>
       (\<exists>h a. BindAction h a \<in> set cs \<and> d = h (rid, digest, run, manifest, a)))"
  have "?P cs (attempts apply_call cs (new_receipt rid digest now run manifest effect idem))"
  proof (rule attempts_history [where P = ?P])
    show "?P [] (new_receipt rid digest now run manifest effect idem)"
      by (simp add: new_receipt_def identity_def)
  next
    fix cs c r r' assume P: "?P cs r" and step: "apply_call c r = Inr r'"
    show "?P (cs @ [c]) r'"
    proof (cases "\<exists>h a. c = BindAction h a")
      case True
      then obtain h a where c: "c = BindAction h a" by blast
      have "bind_action_identity h a r = Inr r'" using step c by (simp add: apply_call_def)
      from bind_identity [OF this] P show ?thesis by (auto simp: c identity_def)
    next
      case False
      then have "identity r' = identity r" "action_binding_digest r' = action_binding_digest r"
        using identity_step [OF step] by blast+
      then show ?thesis using P unfolding set_append Un_iff by metis
    qed
  qed (simp, blast)
  then show "action_binding_digest (attempts apply_call cs
      (new_receipt rid digest now run manifest effect idem)) = Some d \<Longrightarrow>
      \<exists>h a. BindAction h a \<in> set cs \<and> d = h (rid, digest, run, manifest, a)" by blast
qed

section \<open>Properties\<close>

text \<open>
  C13. A finished receipt is frozen: whatever calls still arrive on the shared tracker,
  in any order, only the status of the audit record and the action binding can change.
\<close>

theorem finished_receipt_is_frozen:
  assumes "finished_at r \<noteq> None"
  shows "execution_facts (attempts apply_call cs r) = execution_facts r"
  using finished_receipt.attempts_frozen [OF assms] by blast

definition idle_read :: ToolExecutionReceipt where
  "idle_read = new_receipt ''r1'' ''sha256:d'' 0 (Some ''run'') None ReadOnly Idempotent"

lemma finished_receipt_is_frozen_witness:
  "execution_facts (attempts apply_call [DispatchAttempted Network, ExecutionSucceeded]
     (finish 1 idle_read)) = execution_facts (finish 1 idle_read)"
proof (rule finished_receipt_is_frozen)
  show "finished_at (finish 1 idle_read) \<noteq> None" by code_simp
qed

text \<open>
  C14. Absence of dispatch is never claimed wrongly: when the snapshot of a tracker, after
  any history of calls, proves that nothing was dispatched or that an automatic retry is
  safe, then every dispatch attempt of that history came after the receipt was finished.
\<close>

theorem no_dispatch_proof_is_sound:
  assumes "r = attempts apply_call (ds @ DispatchAttempted k # es)
                 (new_receipt rid digest now run manifest effect idem)"
    and "proves_not_dispatched valid_uuid D (snapshot D r) \<or>
         automatic_retry_safe valid_uuid D (snapshot D r)"
  shows "finished_at (attempts apply_call ds (new_receipt rid digest now run manifest effect idem)) \<noteq> None"
proof (rule ccontr)
  let ?t = "attempts apply_call ds (new_receipt rid digest now run manifest effect idem)"
  assume "\<not> finished_at ?t \<noteq> None"
  then have "dispatch_attempt_count (advance apply_call (DispatchAttempted k) ?t) \<noteq> 0"
    by (simp add: advance_def apply_call_def mark_typed_dispatch_attempt_def)
  then have "dispatch_attempt_count r \<noteq> 0"
    using positive_count_stays by (simp add: assms(1) attempts_append)
  then show False
    using assms(2) by (auto simp: proves_not_dispatched_def automatic_retry_safe_def)
qed

lemma no_dispatch_proof_is_sound_witness:
  "finished_at (attempts apply_call [ExecutionFailed, Finish 1] idle_read) \<noteq> None"
proof -
  let ?D = "\<lambda>_. ''sha256:receipt''" and ?v = "\<lambda>_. True"
  have "proves_not_dispatched ?v ?D (snapshot ?D (attempts apply_call
      ([ExecutionFailed, Finish 1] @ DispatchAttempted Network # []) idle_read))" by code_simp
  then show ?thesis
    using no_dispatch_proof_is_sound [OF refl, of ?v ?D "[ExecutionFailed, Finish 1]" Network "[]"
        "''r1''" "''sha256:d''" 0 "Some ''run''" None ReadOnly Idempotent]
    unfolding idle_read_def by blast
qed

text \<open>
  C15. Success is never claimed without the edges that make it: a snapshot that proves
  success stands on a history with a dispatch attempt, an observed dispatch, an observed
  response and a reported success, and, unless the tool only reads, a confirmed effect.
\<close>

theorem success_proof_is_sound:
  assumes "proves_success valid_uuid D (snapshot D (attempts apply_call cs
             (new_receipt rid digest now run manifest effect idem)))"
  shows "(\<exists>k. DispatchAttempted k \<in> set cs) \<and> (\<exists>t k. DispatchSeen t k \<in> set cs) \<and>
    (\<exists>t. ResponseSeen t \<in> set cs) \<and> ExecutionSucceeded \<in> set cs \<and>
    (action_effect (attempts apply_call cs (new_receipt rid digest now run manifest effect idem))
       \<noteq> ReadOnly \<longrightarrow> EffectConfirmed \<in> set cs)"
proof -
  let ?r = "attempts apply_call cs (new_receipt rid digest now run manifest effect idem)"
  have "transport_status ?r = ResponseObserved" "execution_outcome ?r = Succeeded"
    and effect: "action_effect ?r \<noteq> ReadOnly \<Longrightarrow> effect_status ?r = Confirmed"
    using success_facts [OF assms] by simp_all
  then show ?thesis
    using facts_have_calls [of cs rid digest now run manifest effect idem]
    unfolding facts_have_calls_def by blast
qed

definition read_history :: "receipt_call list" where
  "read_history =
     [DispatchAttempted Network, DispatchSeen 1 Network, ResponseSeen 2, ExecutionSucceeded, Finish 3]"

lemma success_proof_is_sound_witness:
  "ExecutionSucceeded \<in> set read_history"
proof -
  let ?D = "\<lambda>_. ''sha256:receipt''"
  have "proves_success (\<lambda>_. True) ?D (snapshot ?D (attempts apply_call read_history idle_read))"
    by code_simp
  then show ?thesis
    unfolding idle_read_def by (rule success_proof_is_sound [THEN conjunct2, THEN conjunct2,
        THEN conjunct2, THEN conjunct1])
qed

text \<open>
  A runtime that fails after an adapter of one dispatch kind reported what it saw, at
  whatever point that was, can settle the receipt: the result is always a mechanically
  valid terminal.
\<close>

theorem runtime_failure_settles:
  assumes "adapter_run K now r" and "K \<notin> {UnknownDispatch, DispatchNotAttempted}"
    and "now \<le> now'" and "valid_uuid (receipt_id r)" and "trim (request_digest r) \<noteq> []"
  shows "mechanically_valid_terminal valid_uuid (settle_after_runtime_failure now' r) = Inr ()"
  by (rule adapter_inv_settles [OF adapter_run_inv [OF assms(1)] assms(2) assms(3)]) (rule assms)+

lemma runtime_failure_settles_witness:
  "mechanically_valid_terminal (\<lambda>_. True)
     (settle_after_runtime_failure 9 (mark_typed_dispatch_attempt Network idle_read)) = Inr ()"
proof (rule runtime_failure_settles)
  have "adapter_run Network 0 idle_read" unfolding idle_read_def by (rule adapter_run.start)
  then show "adapter_run Network 0 (mark_typed_dispatch_attempt Network idle_read)"
    by (rule adapter_run.attempt) code_simp
  show "trim (request_digest (mark_typed_dispatch_attempt Network idle_read)) \<noteq> []" by code_simp
qed simp_all

definition confirmed_write :: ToolExecutionReceipt where
  "confirmed_write =
     attempts apply_call
       [DispatchAttempted Network, DispatchSeen 1 Network, ResponseSeen 2, ExecutionSucceeded,
        EffectConfirmed]
       (new_receipt ''r1'' ''sha256:d'' 0 (Some ''run'') None ExternalMutation NonIdempotent)"


text \<open>
  C18. Authority over an action is bound once. If a snapshot counts as bound to an action
  of a run, then it is the run the receipt was made for, and, as long as the binding
  digest has no collision among the actions offered to this receipt, that very action was
  bound on the tracker, and the snapshot is bound to no other of them. A receipt without
  its seal, which is what deserialisation gives, is bound to nothing.
\<close>

theorem action_binding_is_exact:
  assumes "r = attempts apply_call cs (new_receipt rid digest now run manifest effect idem)"
    and "\<forall>g a. BindAction g a \<in> set cs \<longrightarrow> g = h"
    and "\<forall>a \<in> set offered. \<forall>b \<in> set offered.
      h (rid, digest, run, manifest, a) = h (rid, digest, run, manifest, b) \<longrightarrow> a = b"
    and "\<forall>g a. BindAction g a \<in> set cs \<longrightarrow> a \<in> set offered" and "a \<in> set offered"
    and "is_runtime_bound_to_action_metadata D h run_id a (snapshot D r)"
  shows "run = Some run_id \<and> BindAction h a \<in> set cs \<and>
    (\<forall>b \<in> set offered. is_runtime_bound_to_action_metadata D h run_id b (snapshot D r) \<longrightarrow> b = a) \<and>
    \<not> is_runtime_bound_to_action_metadata D h run_id a ((snapshot D r)\<lparr>runtime_authenticity := None\<rparr>)"
proof -
  have mat: "action_binding_digest_for h (snapshot D r) b = h (rid, digest, run, manifest, b)" for b
    using identity_kept [of cs rid digest now run manifest effect idem]
    by (simp add: action_binding_digest_for_def snapshot_def assms(1) identity_def)
  have bound: "is_runtime_bound_to_action_metadata D h run_id b (snapshot D r) \<longleftrightarrow>
      run = Some run_id \<and> action_binding_digest r = Some (h (rid, digest, run, manifest, b))" for b
    using identity_kept [of cs rid digest now run manifest effect idem]
    unfolding is_runtime_bound_to_action_metadata_def mat
    by (auto simp: issued_snapshot) (simp_all add: snapshot_def assms(1) identity_def)
  from assms(6) have run: "run = Some run_id"
    and dig: "action_binding_digest r = Some (h (rid, digest, run, manifest, a))"
    by (simp_all add: bound)
  obtain g b where b: "BindAction g b \<in> set cs"
      "h (rid, digest, run, manifest, a) = g (rid, digest, run, manifest, b)"
    using binding_has_call [of cs rid digest now run manifest effect idem] dig
    unfolding assms(1) by blast
  then have "BindAction h a \<in> set cs" using assms(2-5) by metis
  moreover have "\<forall>b \<in> set offered.
      is_runtime_bound_to_action_metadata D h run_id b (snapshot D r) \<longrightarrow> b = a"
    using dig assms(3,5) by (auto simp: bound)
  ultimately show ?thesis
    using run by (simp add: is_runtime_bound_to_action_metadata_def is_runtime_issued_def)
qed

definition read_action :: action_identity where
  "read_action =
     \<lparr>act_id = ''a1'', act_type = ''read'', act_target = None, act_input_hash = ''h'',
      act_input_length = 0\<rparr>"

definition sample_binding :: "binding_material \<Rightarrow> string" where
  "sample_binding m = (case m of (rid, _, _, _, a) \<Rightarrow> rid @ ''/'' @ act_id a)"

lemma action_binding_is_exact_witness:
  "\<not> is_runtime_bound_to_action_metadata (\<lambda>_. ''sha256:receipt'') sample_binding ''run'' read_action
      ((snapshot (\<lambda>_. ''sha256:receipt'')
         (attempts apply_call [BindAction sample_binding read_action] idle_read))
       \<lparr>runtime_authenticity := None\<rparr>)"
proof -
  let ?D = "\<lambda>_. ''sha256:receipt''"
  have act: "act_id read_action = ''a1''" "act_type read_action = ''read''"
    by (simp_all add: read_action_def)
  have "trim ''a1'' \<noteq> []" "trim ''read'' \<noteq> []" by code_simp+
  then have "is_runtime_bound_to_action_metadata ?D sample_binding ''run'' read_action
      (snapshot ?D (attempts apply_call [BindAction sample_binding read_action] idle_read))"
    by (simp add: is_runtime_bound_to_action_metadata_def issued_snapshot advance_def apply_call_def
        bind_action_identity_def act Let_def snapshot_def idle_read_def new_receipt_def
        action_binding_digest_for_def is_runtime_issued_def runtime_structural_digest_def)
  then show ?thesis
    using action_binding_is_exact [OF refl, of "[BindAction sample_binding read_action]"
        sample_binding "[read_action]" "''r1''" "''sha256:d''" "Some ''run''" None read_action ?D
        "''run''" 0 ReadOnly Idempotent]
    unfolding idle_read_def by simp
qed

end
