(* ===== verification/Task_Store.thy ===== *)
theory Task_Store
  imports Machines Work_Plan Work_Budget
begin

text \<open>
  The tables of the canonical task store (\<open>openlife-core/src/task_runtime.rs\<close>): the
  status enumerations with their database codes, one record per row type, the store as
  the record of its tables, the validators, the stable identifiers, and the inserts with
  the constraints the schema declares. The store runs every operation in one immediate
  transaction, so an operation is a function from a store to an error (and the old
  store) or to a result and a new store.

  A column with a \<open>CHECK\<close> on a list of codes has the enumeration as its type. A time
  stamp is an \<open>int\<close>, the argument \<open>now\<close> of the operation. Text that the store compares
  only with itself is a \<open>string\<close>. A record holds the columns that an operation of
  Task_Run or Task_Plan reads or writes after the insert; a column that is only written
  once and shown to the user (such as \<open>created_at\<close> of a task, a run or an item) is left out,
  and so are the tables of artifact snapshots, effects, undo and memory uses.
\<close>

section \<open>Enumerations\<close>

datatype WorkExecutionMode = ScopedAgent | ObserveOnly

fun mode_as_str :: "WorkExecutionMode \<Rightarrow> string" where
  "mode_as_str ScopedAgent = ''scoped_agent''"
| "mode_as_str ObserveOnly = ''observe_only''"

datatype CanonicalTaskStatus =
  TaskRunning | TaskWaitingReview | TaskCompleted | TaskBlocked | TaskFailed | TaskCancelled
| TaskInterrupted | TaskEffectUnknown

fun task_status_as_str :: "CanonicalTaskStatus \<Rightarrow> string" where
  "task_status_as_str TaskRunning = ''running''"
| "task_status_as_str TaskWaitingReview = ''waiting_review''"
| "task_status_as_str TaskCompleted = ''completed''"
| "task_status_as_str TaskBlocked = ''blocked''"
| "task_status_as_str TaskFailed = ''failed''"
| "task_status_as_str TaskCancelled = ''cancelled''"
| "task_status_as_str TaskInterrupted = ''interrupted''"
| "task_status_as_str TaskEffectUnknown = ''effect_unknown''"

datatype CanonicalTaskItemKind =
  KindInstruction | KindPlan | KindSteering | KindToolCall | KindObservation
| KindProviderGeneration | KindArtifactDraft | KindReviewCheckpoint | KindArtifactMaterialized
| KindVerification | KindFinalResult

fun item_kind_as_str :: "CanonicalTaskItemKind \<Rightarrow> string" where
  "item_kind_as_str KindInstruction = ''instruction''"
| "item_kind_as_str KindPlan = ''plan''"
| "item_kind_as_str KindSteering = ''steering''"
| "item_kind_as_str KindToolCall = ''tool_call''"
| "item_kind_as_str KindObservation = ''observation''"
| "item_kind_as_str KindProviderGeneration = ''provider_generation''"
| "item_kind_as_str KindArtifactDraft = ''artifact_draft''"
| "item_kind_as_str KindReviewCheckpoint = ''review_checkpoint''"
| "item_kind_as_str KindArtifactMaterialized = ''artifact_materialized''"
| "item_kind_as_str KindVerification = ''verification''"
| "item_kind_as_str KindFinalResult = ''final_result''"

datatype CanonicalTaskItemStatus =
  ItemWaiting | ItemRunning | ItemCompleted | ItemBlocked | ItemFailed | ItemCancelled
| ItemInterrupted | ItemEffectUnknown

fun item_status_as_str :: "CanonicalTaskItemStatus \<Rightarrow> string" where
  "item_status_as_str ItemWaiting = ''waiting''"
| "item_status_as_str ItemRunning = ''running''"
| "item_status_as_str ItemCompleted = ''completed''"
| "item_status_as_str ItemBlocked = ''blocked''"
| "item_status_as_str ItemFailed = ''failed''"
| "item_status_as_str ItemCancelled = ''cancelled''"
| "item_status_as_str ItemInterrupted = ''interrupted''"
| "item_status_as_str ItemEffectUnknown = ''effect_unknown''"

datatype CanonicalArtifactStatus =
  ArtifactDraft | ArtifactWaitingReview | ArtifactMaterialized | ArtifactFailed | ArtifactEffectUnknown

fun artifact_status_as_str :: "CanonicalArtifactStatus \<Rightarrow> string" where
  "artifact_status_as_str ArtifactDraft = ''draft''"
| "artifact_status_as_str ArtifactWaitingReview = ''waiting_review''"
| "artifact_status_as_str ArtifactMaterialized = ''materialized''"
| "artifact_status_as_str ArtifactFailed = ''failed''"
| "artifact_status_as_str ArtifactEffectUnknown = ''effect_unknown''"

datatype CanonicalSteeringStatus =
  SteeringPending | SteeringApplied | SteeringRejected | SteeringBlocked

fun steering_status_as_str :: "CanonicalSteeringStatus \<Rightarrow> string" where
  "steering_status_as_str SteeringPending = ''pending''"
| "steering_status_as_str SteeringApplied = ''applied''"
| "steering_status_as_str SteeringRejected = ''rejected''"
| "steering_status_as_str SteeringBlocked = ''blocked''"

datatype ReasoningEffort =
  EffortNone | EffortMinimal | EffortLow | EffortMedium | EffortHigh | EffortXhigh | EffortMax

text \<open>
  The \<open>from_db\<close> of each enumeration, as the source writes it: a match on the code, an
  error that carries the unknown code otherwise.
\<close>

datatype store_error = Bail string | NoRows | Constraint | Conversion

definition from_db :: "(string \<times> 'a) list \<Rightarrow> string \<Rightarrow> string \<Rightarrow> store_error + 'a" where
  "from_db table error value = ok_or (Bail (error @ '':'' @ value)) (map_of table value)"

definition mode_from_db :: "string \<Rightarrow> store_error + WorkExecutionMode" where
  "mode_from_db =
     from_db [(''scoped_agent'', ScopedAgent), (''observe_only'', ObserveOnly)]
       ''work_execution_mode_invalid''"

definition task_status_from_db :: "string \<Rightarrow> store_error + CanonicalTaskStatus" where
  "task_status_from_db =
     from_db [(''running'', TaskRunning), (''waiting_review'', TaskWaitingReview),
       (''completed'', TaskCompleted), (''blocked'', TaskBlocked), (''failed'', TaskFailed),
       (''cancelled'', TaskCancelled), (''interrupted'', TaskInterrupted),
       (''effect_unknown'', TaskEffectUnknown)] ''canonical_task_status_invalid''"

definition item_kind_from_db :: "string \<Rightarrow> store_error + CanonicalTaskItemKind" where
  "item_kind_from_db =
     from_db [(''instruction'', KindInstruction), (''plan'', KindPlan), (''steering'', KindSteering),
       (''tool_call'', KindToolCall), (''observation'', KindObservation),
       (''provider_generation'', KindProviderGeneration), (''artifact_draft'', KindArtifactDraft),
       (''review_checkpoint'', KindReviewCheckpoint),
       (''artifact_materialized'', KindArtifactMaterialized), (''verification'', KindVerification),
       (''final_result'', KindFinalResult)] ''canonical_task_item_kind_invalid''"

definition item_status_from_db :: "string \<Rightarrow> store_error + CanonicalTaskItemStatus" where
  "item_status_from_db =
     from_db [(''waiting'', ItemWaiting), (''running'', ItemRunning), (''completed'', ItemCompleted),
       (''blocked'', ItemBlocked), (''failed'', ItemFailed), (''cancelled'', ItemCancelled),
       (''interrupted'', ItemInterrupted), (''effect_unknown'', ItemEffectUnknown)]
       ''canonical_task_item_status_invalid''"

definition artifact_status_from_db :: "string \<Rightarrow> store_error + CanonicalArtifactStatus" where
  "artifact_status_from_db =
     from_db [(''draft'', ArtifactDraft), (''waiting_review'', ArtifactWaitingReview),
       (''materialized'', ArtifactMaterialized), (''failed'', ArtifactFailed),
       (''effect_unknown'', ArtifactEffectUnknown)] ''canonical_artifact_status_invalid''"

definition steering_status_from_db :: "string \<Rightarrow> store_error + CanonicalSteeringStatus" where
  "steering_status_from_db =
     from_db [(''pending'', SteeringPending), (''applied'', SteeringApplied),
       (''rejected'', SteeringRejected), (''blocked'', SteeringBlocked)]
       ''canonical_steering_status_invalid''"

section \<open>Rows\<close>

record CanonicalTaskRecord =
  t_id :: string
  t_conversation_id :: string
  t_task_kind :: string
  t_initial_outcome_digest :: string
  t_status :: CanonicalTaskStatus
  t_updated_at :: int

record CanonicalTaskRunRecord =
  r_task_id :: string
  r_run_id :: string
  r_execution_session_id :: string
  r_ordinal :: nat
  r_status :: CanonicalTaskStatus
  r_execution_facts_version :: nat
  r_plan_revision :: nat
  r_updated_at :: int
  r_completed_at :: "int option"
  r_project_id :: "string option"
  r_project_revision :: "nat option"
  r_scope_digest :: "string option"
  r_selected_skill_id :: "string option"
  r_execution_mode :: WorkExecutionMode

record CanonicalTaskItemRecord =
  i_id :: string
  i_task_id :: string
  i_run_id :: string
  i_sequence :: nat
  i_kind :: CanonicalTaskItemKind
  i_status :: CanonicalTaskItemStatus
  i_summary_code :: string
  i_payload_digest :: string
  i_updated_at :: int

record CanonicalTaskItemAttemptRecord =
  a_attempt_id :: string
  a_task_id :: string
  a_run_id :: string
  a_item_id :: string
  a_ordinal :: nat
  a_status :: CanonicalTaskItemStatus
  a_executor_kind :: string
  a_provider_profile_id :: "string option"
  a_provider_model_id :: "string option"
  a_provider_reasoning_effort :: "ReasoningEffort option"
  a_request_digest :: string
  a_receipt_digest :: "string option"
  a_started_at :: int
  a_finished_at :: "int option"

text \<open>A row of \<open>canonical_work_plans\<close> or of \<open>canonical_work_plan_revisions\<close>.\<close>

record work_plan_row =
  w_run_id :: string
  w_task_id :: string
  w_plan_revision :: nat
  w_schema_version :: string
  w_plan_json :: string
  w_plan_digest :: string
  w_budget_policy :: WorkRunBudgetPolicy
  w_created_at :: int

record CanonicalWorkPlanRecord =
  p_task_id :: string
  p_run_id :: string
  p_plan_revision :: nat
  p_plan :: StructuredWorkPlan
  p_plan_digest :: string
  p_budget_policy :: WorkRunBudgetPolicy
  p_created_at :: int

record CanonicalCompletionLimitation =
  lim_requirement_id :: string
  lim_description :: string
  lim_evidence_refs :: "string list"

record final_result_row =
  f_task_id :: string
  f_run_id :: string
  f_item_id :: string
  f_conversation_item_id :: string
  f_result_digest :: string
  f_summary_code :: string
  f_completion_limitations_json :: string
  f_created_at :: int

record CanonicalFinalResultRecord =
  res_row :: final_result_row
  res_completion_limitations :: "CanonicalCompletionLimitation list"

record deferred_result_row =
  d_task_id :: string
  d_run_id :: string
  d_conversation_item_id :: string
  d_result_digest :: string
  d_summary_code :: string
  d_completion_limitations_json :: string

record CanonicalSteeringRecord =
  s_steering_id :: string
  s_item_id :: string
  s_task_id :: string
  s_run_id :: string
  s_source_message_ref :: string
  s_source_message_digest :: string
  s_steering_digest :: string
  s_base_plan_revision :: nat
  s_status :: CanonicalSteeringStatus
  s_resolution_code :: "string option"
  s_applied_plan_revision :: "nat option"
  s_created_at :: int
  s_resolved_at :: "int option"

text \<open>The columns of artifacts, attention and review checkpoints that these operations use.\<close>

record artifact_row =
  ar_id :: string
  ar_task_id :: string
  ar_current_version :: nat
  ar_status :: CanonicalArtifactStatus
  ar_content_digest :: string

record artifact_version_row =
  av_artifact_id :: string
  av_version :: nat
  av_observed_content_digest :: "string option"

record CanonicalArtifactRevisionRecord =
  rev_task_id :: string
  rev_run_id :: string
  rev_artifact_id :: string
  rev_base_version :: nat
  rev_base_content_digest :: string
  rev_instruction_digest :: string

record attention_row =
  at_task_id :: string
  at_resolved_at :: "int option"

record tool_review_row =
  tr_task_id :: string
  tr_run_id :: string
  tr_status :: string
  tr_resolved_at :: "int option"

record store =
  tasks :: "CanonicalTaskRecord list"
  runs :: "CanonicalTaskRunRecord list"
  items :: "CanonicalTaskItemRecord list"
  item_attempts :: "CanonicalTaskItemAttemptRecord list"
  work_plans :: "work_plan_row list"
  work_plan_revisions :: "work_plan_row list"
  final_results :: "final_result_row list"
  deferred_results :: "deferred_result_row list"
  steerings :: "CanonicalSteeringRecord list"
  artifacts :: "artifact_row list"
  artifact_versions :: "artifact_version_row list"
  revision_admissions :: "CanonicalArtifactRevisionRecord list"
  attention :: "attention_row list"
  tool_reviews :: "tool_review_row list"

definition empty_store :: store where
  "empty_store =
     \<lparr>tasks = [], runs = [], items = [], item_attempts = [], work_plans = [],
      work_plan_revisions = [], final_results = [], deferred_results = [], steerings = [],
      artifacts = [], artifact_versions = [], revision_admissions = [], attention = [],
      tool_reviews = []\<rparr>"

type_synonym 'a tx = "store_error + 'a \<times> store"

section \<open>What is outside\<close>

text \<open>
  The libraries an operation calls: \<open>canonical_uuid\<close> (the text is the canonical form of a
  version 4 UUID that is not nil), SHA-256 in hexadecimal, and the JSON codecs of a plan
  and of the completion limitations.
\<close>

record env =
  canonical_uuid :: "string \<Rightarrow> bool"
  sha256_hex :: "string \<Rightarrow> string"
  plan_to_json :: "StructuredWorkPlan \<Rightarrow> string option"
  plan_of_json :: "string \<Rightarrow> StructuredWorkPlan option"
  limitations_to_json :: "CanonicalCompletionLimitation list \<Rightarrow> string option"
  limitations_of_json :: "string \<Rightarrow> CanonicalCompletionLimitation list option"

section \<open>Validators\<close>

definition invalid_field :: "string \<Rightarrow> store_error" where
  "invalid_field field = Bail (''canonical_task_runtime_'' @ field @ ''_invalid'')"

definition validate_nonempty :: "string \<Rightarrow> string \<Rightarrow> nat \<Rightarrow> store_error + unit" where
  "validate_nonempty field value max_bytes =
     bail_if (trim value = [] \<or> length value > max_bytes \<or> CHR 0x00 \<in> set value)
       (invalid_field field)"

definition validate_uuid :: "env \<Rightarrow> string \<Rightarrow> string \<Rightarrow> store_error + unit" where
  "validate_uuid e field value = bail_if (\<not> canonical_uuid e value) (invalid_field field)"

definition validate_digest :: "string \<Rightarrow> string \<Rightarrow> store_error + unit" where
  "validate_digest field value =
     first_failure
       [validate_nonempty field value 256,
        bail_if (\<not> starts_with ''sha256:'' value \<or> length value \<noteq> 7 + 64) (invalid_field field)]"

definition when_some :: "'a option \<Rightarrow> ('a \<Rightarrow> store_error + unit) \<Rightarrow> store_error + unit" where
  "when_some x f = (case x of None \<Rightarrow> Inr () | Some v \<Rightarrow> f v)"

definition I64_MAX :: nat where
  "I64_MAX = 2 ^ 63 - 1"

text \<open>\<open>i64::try_from(u64)?\<close>.\<close>

definition to_i64 :: "nat \<Rightarrow> store_error + unit" where
  "to_i64 n = bail_if (n > I64_MAX) Conversion"

definition limitation_text_invalid :: "nat \<Rightarrow> string \<Rightarrow> bool" where
  "limitation_text_invalid max_chars s \<longleftrightarrow>
     trim s = [] \<or> chars_count s > max_chars \<or> has_control s"

definition validate_limitation ::
  "string set \<Rightarrow> CanonicalCompletionLimitation \<Rightarrow> store_error + string set"
where
  "validate_limitation requirement_ids l =
     (if limitation_text_invalid 128 (lim_requirement_id l) \<or>
         lim_requirement_id l \<in> requirement_ids
      then Inl (Bail ''canonical_completion_limitation_requirement_invalid'')
      else if limitation_text_invalid 1024 (lim_description l)
      then Inl (Bail ''canonical_completion_limitation_description_invalid'')
      else if lim_evidence_refs l = [] \<or> length (lim_evidence_refs l) > 4
      then Inl (Bail ''canonical_completion_limitation_evidence_invalid'')
      else if list_ex (limitation_text_invalid 4096) (lim_evidence_refs l) \<or>
              \<not> distinct (lim_evidence_refs l)
      then Inl (Bail ''canonical_completion_limitation_evidence_invalid'')
      else Inr (insert (lim_requirement_id l) requirement_ids))"

definition validate_completion_limitations ::
  "CanonicalCompletionLimitation list \<Rightarrow> store_error + unit"
where
  "validate_completion_limitations ls =
     (if length ls > 8 then Inl (Bail ''canonical_completion_limitations_too_many'')
      else res_bind (res_fold validate_limitation {} ls) (\<lambda>_. Inr ()))"

definition encode_completion_limitations ::
  "env \<Rightarrow> CanonicalCompletionLimitation list \<Rightarrow> store_error + string"
where
  "encode_completion_limitations e ls =
     res_bind (validate_completion_limitations ls) (\<lambda>_.
     ok_or (Bail ''canonical_completion_limitations_encode_failed'') (limitations_to_json e ls))"

definition decode_completion_limitations ::
  "env \<Rightarrow> string \<Rightarrow> store_error + CanonicalCompletionLimitation list"
where
  "decode_completion_limitations e raw =
     res_bind (ok_or (Bail ''canonical_completion_limitations_decode_failed'')
                (limitations_of_json e raw)) (\<lambda>ls.
     res_bind (validate_completion_limitations ls) (\<lambda>_. Inr ls))"

definition validate_completion_limitation_disposition ::
  "string \<Rightarrow> CanonicalCompletionLimitation list \<Rightarrow> store_error + unit"
where
  "validate_completion_limitation_disposition summary_code ls =
     bail_if (ends_with ''_with_disclosed_limitations'' summary_code = (ls = []))
       (Bail ''canonical_completion_limitation_disposition_mismatch'')"

section \<open>Stable identifiers\<close>

definition sha256_text :: "env \<Rightarrow> string \<Rightarrow> string" where
  "sha256_text e value = ''sha256:'' @ sha256_hex e value"

text \<open>The hashed material: every part behind a NUL and its length in decimal.\<close>

fun stable_parts :: "string list \<Rightarrow> string" where
  "stable_parts [] = []"
| "stable_parts (p # ps) = CHR 0x00 # dec (length p) @ '':'' @ p @ stable_parts ps"

definition stable_id :: "env \<Rightarrow> string \<Rightarrow> string list \<Rightarrow> string" where
  "stable_id e namespace parts =
     namespace @ '':'' @ drop 7 (sha256_text e (namespace @ stable_parts parts))"

definition final_result_item_id :: "env \<Rightarrow> string \<Rightarrow> string \<Rightarrow> string" where
  "final_result_item_id e task_id run_id = stable_id e ''item'' [''final_result'', task_id, run_id]"

section \<open>Queries and constrained inserts\<close>

definition find_task :: "store \<Rightarrow> string \<Rightarrow> CanonicalTaskRecord option" where
  "find_task s task_id = find (\<lambda>t. t_id t = task_id) (tasks s)"

definition is_run :: "string \<Rightarrow> string \<Rightarrow> CanonicalTaskRunRecord \<Rightarrow> bool" where
  "is_run task_id run_id r \<longleftrightarrow> r_task_id r = task_id \<and> r_run_id r = run_id"

definition find_run :: "store \<Rightarrow> string \<Rightarrow> string \<Rightarrow> CanonicalTaskRunRecord option" where
  "find_run s task_id run_id = find (is_run task_id run_id) (runs s)"

definition find_run_id :: "store \<Rightarrow> string \<Rightarrow> CanonicalTaskRunRecord option" where
  "find_run_id s run_id = find (\<lambda>r. r_run_id r = run_id) (runs s)"

definition find_item :: "store \<Rightarrow> string \<Rightarrow> CanonicalTaskItemRecord option" where
  "find_item s item_id = find (\<lambda>i. i_id i = item_id) (items s)"

definition find_attempt :: "store \<Rightarrow> string \<Rightarrow> CanonicalTaskItemAttemptRecord option" where
  "find_attempt s attempt_id = find (\<lambda>a. a_attempt_id a = attempt_id) (item_attempts s)"

definition run_exists :: "store \<Rightarrow> string \<Rightarrow> string \<Rightarrow> bool" where
  "run_exists s task_id run_id = exists_where (is_run task_id run_id) (runs s)"

text \<open>\<open>SELECT COALESCE(MAX(...), 0) + 1\<close>.\<close>

definition next_sequence :: "store \<Rightarrow> string \<Rightarrow> nat" where
  "next_sequence s task_id = max_where (\<lambda>i. i_task_id i = task_id) i_sequence (items s) + 1"

definition next_run_ordinal :: "store \<Rightarrow> string \<Rightarrow> nat" where
  "next_run_ordinal s task_id = max_where (\<lambda>r. r_task_id r = task_id) r_ordinal (runs s) + 1"

definition next_attempt_ordinal :: "store \<Rightarrow> string \<Rightarrow> nat" where
  "next_attempt_ordinal s item_id =
     max_where (\<lambda>a. a_item_id a = item_id) a_ordinal (item_attempts s) + 1"

text \<open>
  An insert fails on the primary key, a unique index or a foreign key of the table; with
  \<open>ON CONFLICT(key) DO NOTHING\<close> it leaves the table as it is when the key exists.
\<close>

definition insert_run :: "CanonicalTaskRunRecord \<Rightarrow> store \<Rightarrow> store_error + store" where
  "insert_run r s =
     (if exists_where (\<lambda>x. r_run_id x = r_run_id r) (runs s) then Inr s
      else if \<not> exists_where (\<lambda>t. t_id t = r_task_id r) (tasks s) then Inl Constraint
      else Inr (s\<lparr>runs := runs s @ [r]\<rparr>))"

definition insert_item :: "CanonicalTaskItemRecord \<Rightarrow> store \<Rightarrow> store_error + store" where
  "insert_item i s =
     (if exists_where (\<lambda>x. i_id x = i_id i) (items s) \<or>
         exists_where (\<lambda>x. i_task_id x = i_task_id i \<and> i_sequence x = i_sequence i) (items s) \<or>
         \<not> run_exists s (i_task_id i) (i_run_id i)
      then Inl Constraint
      else Inr (s\<lparr>items := items s @ [i]\<rparr>))"

definition insert_attempt :: "CanonicalTaskItemAttemptRecord \<Rightarrow> store \<Rightarrow> store_error + store" where
  "insert_attempt a s =
     (if exists_where (\<lambda>x. a_attempt_id x = a_attempt_id a) (item_attempts s) then Inr s
      else if exists_where (\<lambda>x. a_item_id x = a_item_id a \<and> a_ordinal x = a_ordinal a)
                (item_attempts s) \<or>
              \<not> run_exists s (a_task_id a) (a_run_id a) \<or>
              \<not> exists_where (\<lambda>i. i_id i = a_item_id a) (items s)
      then Inl Constraint
      else Inr (s\<lparr>item_attempts := item_attempts s @ [a]\<rparr>))"

definition insert_final_result :: "final_result_row \<Rightarrow> store \<Rightarrow> store_error + store" where
  "insert_final_result f s =
     (if exists_where (\<lambda>x. f_task_id x = f_task_id f \<and> f_run_id x = f_run_id f) (final_results s) \<or>
         exists_where (\<lambda>x. f_item_id x = f_item_id f) (final_results s) \<or>
         exists_where (\<lambda>x. f_conversation_item_id x = f_conversation_item_id f) (final_results s) \<or>
         \<not> run_exists s (f_task_id f) (f_run_id f) \<or>
         \<not> exists_where (\<lambda>i. i_id i = f_item_id f) (items s)
      then Inl Constraint
      else Inr (s\<lparr>final_results := final_results s @ [f]\<rparr>))"

definition insert_deferred_result :: "deferred_result_row \<Rightarrow> store \<Rightarrow> store_error + store" where
  "insert_deferred_result d s =
     (if exists_where (\<lambda>x. d_task_id x = d_task_id d) (deferred_results s) then Inr s
      else if exists_where (\<lambda>x. d_run_id x = d_run_id d) (deferred_results s) \<or>
              \<not> run_exists s (d_task_id d) (d_run_id d)
      then Inl Constraint
      else Inr (s\<lparr>deferred_results := deferred_results s @ [d]\<rparr>))"

definition budget_positive :: "WorkRunBudgetPolicy \<Rightarrow> bool" where
  "budget_positive b \<longleftrightarrow>
     max_plan_attempts b > 0 \<and> max_provider_attempts b > 0 \<and> max_tool_attempts b > 0 \<and>
     max_total_items b > 0"

definition insert_work_plan :: "work_plan_row \<Rightarrow> store \<Rightarrow> store_error + store" where
  "insert_work_plan w s =
     (if exists_where (\<lambda>x. w_run_id x = w_run_id w) (work_plans s) \<or> w_plan_revision w = 0 \<or>
         \<not> budget_positive (w_budget_policy w) \<or> \<not> run_exists s (w_task_id w) (w_run_id w)
      then Inl Constraint
      else Inr (s\<lparr>work_plans := work_plans s @ [w]\<rparr>))"

definition insert_work_plan_revision :: "work_plan_row \<Rightarrow> store \<Rightarrow> store_error + store" where
  "insert_work_plan_revision w s =
     (if exists_where (\<lambda>x. w_run_id x = w_run_id w \<and> w_plan_revision x = w_plan_revision w)
           (work_plan_revisions s) \<or>
         w_plan_revision w = 0 \<or> \<not> budget_positive (w_budget_policy w) \<or>
         \<not> run_exists s (w_task_id w) (w_run_id w)
      then Inl Constraint
      else Inr (s\<lparr>work_plan_revisions := work_plan_revisions s @ [w]\<rparr>))"

definition insert_steering :: "CanonicalSteeringRecord \<Rightarrow> store \<Rightarrow> store_error + store" where
  "insert_steering x s =
     (if exists_where (\<lambda>y. s_steering_id y = s_steering_id x) (steerings s) \<or>
         exists_where (\<lambda>y. s_item_id y = s_item_id x) (steerings s) \<or>
         exists_where (\<lambda>y. s_source_message_ref y = s_source_message_ref x) (steerings s) \<or>
         s_base_plan_revision x = 0 \<or>
         \<not> exists_where (\<lambda>i. i_id i = s_item_id x) (items s) \<or>
         \<not> run_exists s (s_task_id x) (s_run_id x)
      then Inl Constraint
      else Inr (s\<lparr>steerings := steerings s @ [x]\<rparr>))"

text \<open>\<open>ensure_completed_item\<close>.\<close>

definition ensure_completed_item ::
  "string \<Rightarrow> string \<Rightarrow> string \<Rightarrow> CanonicalTaskItemKind \<Rightarrow> string \<Rightarrow> string \<Rightarrow> int \<Rightarrow> store \<Rightarrow>
   store_error + store"
where
  "ensure_completed_item item_id task_id run_id kind summary_code payload_digest now s =
     (case find_item s item_id of
        Some i \<Rightarrow>
          if i_task_id i \<noteq> task_id \<or> i_run_id i \<noteq> run_id \<or> i_kind i \<noteq> kind \<or>
             i_status i \<noteq> ItemCompleted \<or> i_summary_code i \<noteq> summary_code \<or>
             i_payload_digest i \<noteq> payload_digest
          then Inl (Bail ''canonical_execution_item_conflict'')
          else Inr s
      | None \<Rightarrow>
          insert_item
            \<lparr>i_id = item_id, i_task_id = task_id, i_run_id = run_id,
             i_sequence = next_sequence s task_id, i_kind = kind, i_status = ItemCompleted,
             i_summary_code = summary_code, i_payload_digest = payload_digest, i_updated_at = now\<rparr> s)"

section \<open>Well-formed stores\<close>

definition run_key :: "CanonicalTaskRunRecord \<Rightarrow> string \<times> string" where
  "run_key r = (r_task_id r, r_run_id r)"

definition item_run :: "CanonicalTaskItemRecord \<Rightarrow> string \<times> string" where
  "item_run i = (i_task_id i, i_run_id i)"

text \<open>
  What the schema and the operations keep: keys are unique; the sequence of an item
  orders the items of its task and the ordinal of a run the runs of its task; every
  reference is to an existing row, and an attempt belongs to the task and run of its
  item; a completed run has its final result and its final item; a plan has its
  revision in the history.
\<close>

definition keys_ok :: "store \<Rightarrow> bool" where
  "keys_ok s \<longleftrightarrow>
     distinct (map t_id (tasks s)) \<and> distinct (map r_run_id (runs s)) \<and>
     distinct (map i_id (items s)) \<and> distinct (map a_attempt_id (item_attempts s)) \<and>
     distinct (map (\<lambda>i. (i_task_id i, i_sequence i)) (items s)) \<and>
     distinct (map (\<lambda>r. (r_task_id r, r_ordinal r)) (runs s)) \<and>
     distinct (map (\<lambda>f. (f_task_id f, f_run_id f)) (final_results s)) \<and>
     distinct (map w_run_id (work_plans s)) \<and>
     distinct (map (\<lambda>w. (w_run_id w, w_plan_revision w)) (work_plan_revisions s)) \<and>
     distinct (map s_steering_id (steerings s))"

definition refs_ok :: "store \<Rightarrow> bool" where
  "refs_ok s \<longleftrightarrow>
     r_task_id ` set (runs s) \<subseteq> t_id ` set (tasks s) \<and>
     item_run ` set (items s) \<subseteq> run_key ` set (runs s) \<and>
     (\<lambda>a. (a_item_id a, a_task_id a, a_run_id a)) ` set (item_attempts s) \<subseteq>
       (\<lambda>i. (i_id i, i_task_id i, i_run_id i)) ` set (items s) \<and>
     (\<lambda>f. (f_task_id f, f_run_id f)) ` set (final_results s) \<subseteq> run_key ` set (runs s) \<and>
     f_item_id ` set (final_results s) \<subseteq> i_id ` set (items s) \<and>
     (\<lambda>d. (d_task_id d, d_run_id d)) ` set (deferred_results s) \<subseteq> run_key ` set (runs s) \<and>
     (\<lambda>w. (w_task_id w, w_run_id w)) ` set (work_plans s) \<subseteq> run_key ` set (runs s) \<and>
     (\<lambda>w. (w_task_id w, w_run_id w)) ` set (work_plan_revisions s) \<subseteq> run_key ` set (runs s) \<and>
     (\<lambda>x. (s_task_id x, s_run_id x)) ` set (steerings s) \<subseteq> run_key ` set (runs s) \<and>
     s_item_id ` set (steerings s) \<subseteq> i_id ` set (items s)"

definition completed_ok :: "store \<Rightarrow> bool" where
  "completed_ok s \<longleftrightarrow>
     run_key ` {r \<in> set (runs s). r_status r = TaskCompleted} \<subseteq>
       (\<lambda>f. (f_task_id f, f_run_id f)) ` set (final_results s)"

definition wf :: "store \<Rightarrow> bool" where
  "wf s \<longleftrightarrow> keys_ok s \<and> refs_ok s \<and> completed_ok s"

lemma wf_empty: "wf empty_store"
  by (simp add: wf_def keys_ok_def refs_ok_def completed_ok_def empty_store_def)

lemmas wf_defs = wf_def keys_ok_def refs_ok_def completed_ok_def

end
