(* ===== verification/Task_Run.thy ===== *)
theory Task_Run
  imports Task_Store
begin

text \<open>
  The run lifecycle of the canonical task store (\<open>openlife-core/src/task_runtime.rs\<close>):
  beginning a run or a retry, items, item attempts, completion, deferred results,
  terminalisation, recovery after a restart, and the budget usage counted from the rows.
  Every definition is one method of \<open>CanonicalTaskRuntimeStore\<close>, validators first, then
  the transaction statement by statement.
\<close>

section \<open>Beginning a run\<close>

record BeginGeneralTaskRunInput =
  b_task_id :: string
  b_conversation_id :: string
  b_run_id :: string
  b_execution_session_id :: string
  b_instruction_digest :: string
  b_plan_digest :: "string option"
  b_project_id :: "string option"
  b_project_revision :: "nat option"
  b_scope_digest :: "string option"
  b_execution_mode :: WorkExecutionMode

record ArtifactRevisionTargetInput =
  v_artifact_id :: string
  v_base_version :: nat
  v_base_content_digest :: string

record BegunGeneralTaskRun =
  bg_task_id :: string
  bg_run_id :: string
  bg_instruction_item_id :: string
  bg_plan_item_id :: "string option"
  bg_ordinal :: nat
  bg_plan_revision :: nat

definition validate_project_scope :: "env \<Rightarrow> BeginGeneralTaskRunInput \<Rightarrow> store_error + unit" where
  "validate_project_scope e b =
     (case (b_project_id b, b_project_revision b, b_scope_digest b) of
        (None, None, None) \<Rightarrow> Inr ()
      | (Some project_id, Some project_revision, Some scope_digest) \<Rightarrow>
          first_failure
            [validate_uuid e ''project_id'' project_id,
             bail_if (project_revision = 0) (Bail ''canonical_project_revision_invalid''),
             validate_digest ''scope_digest'' scope_digest]
      | _ \<Rightarrow> Inl (Bail ''canonical_project_scope_incomplete''))"

definition validate_begin :: "env \<Rightarrow> BeginGeneralTaskRunInput \<Rightarrow> store_error + unit" where
  "validate_begin e b =
     first_failure
       [validate_uuid e ''task_id'' (b_task_id b),
        validate_uuid e ''conversation_id'' (b_conversation_id b),
        validate_uuid e ''run_id'' (b_run_id b),
        validate_nonempty ''execution_session_id'' (b_execution_session_id b) 512,
        validate_digest ''instruction_digest'' (b_instruction_digest b),
        when_some (b_plan_digest b) (validate_digest ''plan_digest''),
        validate_project_scope e b]"

definition instruction_item_id :: "env \<Rightarrow> BeginGeneralTaskRunInput \<Rightarrow> string" where
  "instruction_item_id e b = stable_id e ''item'' [''instruction'', b_task_id b, b_run_id b]"

definition plan_item_id :: "env \<Rightarrow> BeginGeneralTaskRunInput \<Rightarrow> string option" where
  "plan_item_id e b =
     map_option (\<lambda>_. stable_id e ''item'' [''plan'', b_task_id b, b_run_id b]) (b_plan_digest b)"

text \<open>The task row: inserted unless it exists; the flag says whether it was inserted.\<close>

definition ensure_task :: "BeginGeneralTaskRunInput \<Rightarrow> int \<Rightarrow> store \<Rightarrow> bool \<times> store" where
  "ensure_task b now s =
     (if exists_where (\<lambda>t. t_id t = b_task_id b) (tasks s) then (False, s)
      else (True, s\<lparr>tasks := tasks s @
              [\<lparr>t_id = b_task_id b, t_conversation_id = b_conversation_id b, t_task_kind = ''work'',
                t_initial_outcome_digest = b_instruction_digest b, t_status = TaskRunning,
                t_updated_at = now\<rparr>]\<rparr>))"

definition latest_run :: "store \<Rightarrow> string \<Rightarrow> CanonicalTaskRunRecord option" where
  "latest_run s task_id =
     find (\<lambda>r. r_task_id r = task_id \<and>
               r_ordinal r = max_where (\<lambda>r. r_task_id r = task_id) r_ordinal (runs s)) (runs s)"

definition find_current_version ::
  "store \<Rightarrow> string \<Rightarrow> (artifact_row \<times> artifact_version_row) option"
where
  "find_current_version s artifact_id =
     Option.bind (find (\<lambda>a. ar_id a = artifact_id) (artifacts s)) (\<lambda>a.
     map_option (\<lambda>v. (a, v))
       (find (\<lambda>v. av_artifact_id v = artifact_id \<and> av_version v = ar_current_version a)
          (artifact_versions s)))"

text \<open>The admission of a new run that revises an artifact.\<close>

definition check_revision_base ::
  "BeginGeneralTaskRunInput \<Rightarrow> ArtifactRevisionTargetInput \<Rightarrow> CanonicalTaskRecord \<Rightarrow> store \<Rightarrow>
   store_error + unit"
where
  "check_revision_base b v task s =
     (if t_status task \<noteq> TaskCompleted
      then Inl (Bail ''canonical_artifact_revision_task_not_completed'')
      else
        res_bind (ok_or NoRows (latest_run s (b_task_id b))) (\<lambda>latest.
        if r_status latest \<noteq> TaskCompleted
        then Inl (Bail ''canonical_artifact_revision_latest_run_not_completed'')
        else
          res_bind (ok_or NoRows (find_current_version s (v_artifact_id v))) (\<lambda>(a, cur).
          bail_if
            (ar_task_id a \<noteq> b_task_id b \<or> ar_current_version a \<noteq> v_base_version v \<or>
             ar_status a \<noteq> ArtifactMaterialized \<or>
             ar_content_digest a \<noteq> v_base_content_digest v \<or>
             av_observed_content_digest cur \<noteq> Some (v_base_content_digest v))
            (Bail ''canonical_artifact_revision_base_not_verified_current''))))"

definition check_revision ::
  "BeginGeneralTaskRunInput \<Rightarrow> ArtifactRevisionTargetInput option \<Rightarrow> bool \<Rightarrow> bool \<Rightarrow>
   CanonicalTaskRecord \<Rightarrow> store \<Rightarrow> store_error + unit"
where
  "check_revision b revision inserted_task run_existed task s =
     (case revision of
        None \<Rightarrow> Inr ()
      | Some v \<Rightarrow>
          if inserted_task then Inl (Bail ''canonical_artifact_revision_task_must_exist'')
          else if \<not> run_existed then check_revision_base b v task s
          else Inr ())"

definition retryable :: "CanonicalTaskStatus \<Rightarrow> bool" where
  "retryable st \<longleftrightarrow> st \<in> {TaskCompleted, TaskFailed, TaskBlocked, TaskCancelled, TaskInterrupted}"

definition new_run_row :: "BeginGeneralTaskRunInput \<Rightarrow> nat \<Rightarrow> int \<Rightarrow> CanonicalTaskRunRecord" where
  "new_run_row b ordinal now =
     \<lparr>r_task_id = b_task_id b, r_run_id = b_run_id b,
      r_execution_session_id = b_execution_session_id b, r_ordinal = ordinal,
      r_status = TaskRunning, r_execution_facts_version = 5, r_plan_revision = 1,
      r_updated_at = now, r_completed_at = None, r_project_id = b_project_id b,
      r_project_revision = b_project_revision b, r_scope_digest = b_scope_digest b,
      r_selected_skill_id = None, r_execution_mode = b_execution_mode b\<rparr>"

definition check_run_identity ::
  "BeginGeneralTaskRunInput \<Rightarrow> CanonicalTaskRunRecord \<Rightarrow> store_error + unit"
where
  "check_run_identity b run =
     first_failure
       [bail_if (r_task_id run \<noteq> b_task_id b \<or>
                 r_execution_session_id run \<noteq> b_execution_session_id b)
          (Bail ''canonical_general_run_identity_conflict''),
        bail_if (r_project_id run \<noteq> b_project_id b \<or>
                 r_project_revision run \<noteq> b_project_revision b \<or>
                 r_scope_digest run \<noteq> b_scope_digest b)
          (Bail ''canonical_general_run_scope_conflict''),
        bail_if (r_execution_mode run \<noteq> b_execution_mode b)
          (Bail ''canonical_general_run_execution_mode_conflict'')]"

definition admit_revision ::
  "BeginGeneralTaskRunInput \<Rightarrow> ArtifactRevisionTargetInput option \<Rightarrow> store \<Rightarrow> store_error + store"
where
  "admit_revision b revision s =
     (case revision of
        None \<Rightarrow> Inr s
      | Some v \<Rightarrow>
          let row = \<lparr>rev_task_id = b_task_id b, rev_run_id = b_run_id b,
                     rev_artifact_id = v_artifact_id v, rev_base_version = v_base_version v,
                     rev_base_content_digest = v_base_content_digest v,
                     rev_instruction_digest = b_instruction_digest b\<rparr> in
          res_bind (to_i64 (v_base_version v)) (\<lambda>_.
          case find (\<lambda>x. rev_run_id x = b_run_id b) (revision_admissions s) of
            None \<Rightarrow>
              if exists_where (\<lambda>x. av_artifact_id x = v_artifact_id v \<and> av_version x = v_base_version v)
                   (artifact_versions s)
              then Inr (s\<lparr>revision_admissions := revision_admissions s @ [row]\<rparr>)
              else Inl Constraint
          | Some stored \<Rightarrow>
              if stored \<noteq> row then Inl (Bail ''canonical_artifact_revision_identity_conflict'')
              else Inr s))"

definition check_plan_digest ::
  "BeginGeneralTaskRunInput \<Rightarrow> bool \<Rightarrow> store \<Rightarrow> store_error + unit"
where
  "check_plan_digest b run_existed s =
     bail_if
       (run_existed \<and>
        map_option i_payload_digest
          (find (\<lambda>i. i_task_id i = b_task_id b \<and> i_run_id i = b_run_id b \<and> i_kind i = KindPlan)
             (items s)) \<noteq> b_plan_digest b)
       (Bail ''canonical_general_run_plan_conflict'')"

definition bind_run_items ::
  "env \<Rightarrow> BeginGeneralTaskRunInput \<Rightarrow> bool \<Rightarrow> int \<Rightarrow> store \<Rightarrow> store_error + store"
where
  "bind_run_items e b is_revision now s =
     res_bind
       (ensure_completed_item (instruction_item_id e b) (b_task_id b) (b_run_id b) KindInstruction
          (if is_revision then ''work_artifact_revision_instruction_bound''
           else ''work_instruction_bound'')
          (b_instruction_digest b) now s) (\<lambda>s1.
     case (plan_item_id e b, b_plan_digest b) of
       (Some item_id, Some plan_digest) \<Rightarrow>
         ensure_completed_item item_id (b_task_id b) (b_run_id b) KindPlan ''work_plan_bound''
           plan_digest now s1
     | _ \<Rightarrow> Inr s1)"

text \<open>The last step for a new run: the task runs again.\<close>

definition reopen_task ::
  "BeginGeneralTaskRunInput \<Rightarrow> bool \<Rightarrow> CanonicalTaskStatus \<Rightarrow> int \<Rightarrow> store \<Rightarrow> store"
where
  "reopen_task b run_existed status now s =
     (if run_existed then s
      else (if status = TaskCompleted
            then s\<lparr>deferred_results := filter (\<lambda>d. d_task_id d \<noteq> b_task_id b) (deferred_results s)\<rparr>
            else s)
           \<lparr>tasks := update_where (\<lambda>t. t_id t = b_task_id b)
              (\<lambda>t. t\<lparr>t_status := TaskRunning, t_updated_at := now\<rparr>) (tasks s)\<rparr>)"

definition begin_general_task_run_internal ::
  "env \<Rightarrow> int \<Rightarrow> BeginGeneralTaskRunInput \<Rightarrow> ArtifactRevisionTargetInput option \<Rightarrow> store \<Rightarrow>
   BegunGeneralTaskRun tx"
where
  "begin_general_task_run_internal e now b revision s =
     res_bind (validate_begin e b) (\<lambda>_.
     case ensure_task b now s of (inserted_task, s1) \<Rightarrow>
     res_bind (ok_or NoRows (find_task s1 (b_task_id b))) (\<lambda>task.
     if t_conversation_id task \<noteq> b_conversation_id b \<or> t_task_kind task \<noteq> ''work'' \<or>
        (revision = None \<and> t_initial_outcome_digest task \<noteq> b_instruction_digest b)
     then Inl (Bail ''canonical_general_task_identity_conflict'')
     else
       let run_existed = (find_run_id s1 (b_run_id b) \<noteq> None) in
       res_bind (check_revision b revision inserted_task run_existed task s1) (\<lambda>_.
       if \<not> inserted_task \<and> \<not> run_existed \<and> revision = None \<and> \<not> retryable (t_status task)
       then Inl (Bail ''canonical_general_task_not_retryable'')
       else
         res_bind (when_some (b_project_revision b) to_i64) (\<lambda>_.
         res_bind (insert_run (new_run_row b (next_run_ordinal s1 (b_task_id b)) now) s1) (\<lambda>s2.
         res_bind (ok_or NoRows (find_run_id s2 (b_run_id b))) (\<lambda>run.
         res_bind (check_run_identity b run) (\<lambda>_.
         res_bind (admit_revision b revision s2) (\<lambda>s3.
         res_bind (check_plan_digest b run_existed s3) (\<lambda>_.
         res_bind (bind_run_items e b (revision \<noteq> None) now s3) (\<lambda>s4.
         Inr (\<lparr>bg_task_id = b_task_id b, bg_run_id = b_run_id b,
               bg_instruction_item_id = instruction_item_id e b,
               bg_plan_item_id = plan_item_id e b, bg_ordinal = r_ordinal run,
               bg_plan_revision = r_plan_revision run\<rparr>,
              reopen_task b run_existed (t_status task) now s4)))))))))))"

definition begin_general_task_run ::
  "env \<Rightarrow> int \<Rightarrow> BeginGeneralTaskRunInput \<Rightarrow> store \<Rightarrow> BegunGeneralTaskRun tx"
where
  "begin_general_task_run e now b s = begin_general_task_run_internal e now b None s"

definition begin_artifact_revision_run ::
  "env \<Rightarrow> int \<Rightarrow> BeginGeneralTaskRunInput \<Rightarrow> ArtifactRevisionTargetInput \<Rightarrow> store \<Rightarrow>
   BegunGeneralTaskRun tx"
where
  "begin_artifact_revision_run e now b v s =
     res_bind (first_failure
       [validate_nonempty ''artifact_id'' (v_artifact_id v) 512,
        bail_if (v_base_version v = 0) (Bail ''canonical_artifact_revision_base_version_invalid''),
        validate_digest ''artifact_revision_base_content_digest'' (v_base_content_digest v)]) (\<lambda>_.
     begin_general_task_run_internal e now b (Some v) s)"

definition bind_general_run_selected_skill ::
  "env \<Rightarrow> int \<Rightarrow> string \<Rightarrow> string \<Rightarrow> string option \<Rightarrow> store \<Rightarrow> unit tx"
where
  "bind_general_run_selected_skill e now task_id run_id selected s =
     res_bind (first_failure
       [validate_uuid e ''task_id'' task_id, validate_uuid e ''run_id'' run_id,
        when_some selected (\<lambda>skill. validate_nonempty ''selected_skill_id'' skill 256)]) (\<lambda>_.
     res_bind (ok_or NoRows (find_run s task_id run_id)) (\<lambda>run.
     if r_selected_skill_id run \<noteq> None \<and> r_selected_skill_id run \<noteq> selected
     then Inl (Bail ''canonical_general_run_selected_skill_conflict'')
     else if selected \<noteq> None
     then Inr ((), s\<lparr>runs := update_where
            (\<lambda>r. is_run task_id run_id r \<and> r_selected_skill_id r = None)
            (\<lambda>r. r\<lparr>r_selected_skill_id := selected, r_updated_at := now\<rparr>) (runs s)\<rparr>)
     else Inr ((), s)))"

section \<open>Items and attempts\<close>

record BeginItemAttemptInput =
  ba_attempt_id :: string
  ba_task_id :: string
  ba_run_id :: string
  ba_item_id :: string
  ba_executor_kind :: string
  ba_provider_profile_id :: "string option"
  ba_provider_model_id :: "string option"
  ba_provider_reasoning_effort :: "ReasoningEffort option"
  ba_request_digest :: string

definition EXECUTOR_KINDS :: "string list" where
  "EXECUTOR_KINDS = [''provider'', ''tool'', ''internal'', ''review'', ''materializer'']"

definition validate_begin_attempt :: "env \<Rightarrow> BeginItemAttemptInput \<Rightarrow> store_error + unit" where
  "validate_begin_attempt e b =
     first_failure
       [validate_uuid e ''attempt_id'' (ba_attempt_id b),
        validate_uuid e ''task_id'' (ba_task_id b),
        validate_uuid e ''run_id'' (ba_run_id b),
        validate_nonempty ''item_id'' (ba_item_id b) 512,
        validate_nonempty ''executor_kind'' (ba_executor_kind b) 64,
        bail_if (ba_executor_kind b \<notin> set EXECUTOR_KINDS)
          (Bail ''canonical_task_runtime_executor_kind_invalid''),
        validate_digest ''request_digest'' (ba_request_digest b)]"

definition new_attempt_row ::
  "BeginItemAttemptInput \<Rightarrow> nat \<Rightarrow> int \<Rightarrow> CanonicalTaskItemAttemptRecord"
where
  "new_attempt_row b ordinal now =
     \<lparr>a_attempt_id = ba_attempt_id b, a_task_id = ba_task_id b, a_run_id = ba_run_id b,
      a_item_id = ba_item_id b, a_ordinal = ordinal, a_status = ItemRunning,
      a_executor_kind = ba_executor_kind b, a_provider_profile_id = ba_provider_profile_id b,
      a_provider_model_id = ba_provider_model_id b,
      a_provider_reasoning_effort = ba_provider_reasoning_effort b,
      a_request_digest = ba_request_digest b, a_receipt_digest = None, a_started_at = now,
      a_finished_at = None\<rparr>"

definition attempt_matches :: "BeginItemAttemptInput \<Rightarrow> CanonicalTaskItemAttemptRecord \<Rightarrow> bool" where
  "attempt_matches b a \<longleftrightarrow>
     a_task_id a = ba_task_id b \<and> a_run_id a = ba_run_id b \<and> a_item_id a = ba_item_id b \<and>
     a_executor_kind a = ba_executor_kind b \<and>
     a_provider_profile_id a = ba_provider_profile_id b \<and>
     a_provider_model_id a = ba_provider_model_id b \<and>
     a_provider_reasoning_effort a = ba_provider_reasoning_effort b \<and>
     a_request_digest a = ba_request_digest b"

definition set_item_status ::
  "string \<Rightarrow> CanonicalTaskItemStatus \<Rightarrow> int \<Rightarrow> store \<Rightarrow> store"
where
  "set_item_status item_id status now s =
     s\<lparr>items := update_where (\<lambda>i. i_id i = item_id)
         (\<lambda>i. i\<lparr>i_status := status, i_updated_at := now\<rparr>) (items s)\<rparr>"

definition begin_item_attempt ::
  "env \<Rightarrow> int \<Rightarrow> BeginItemAttemptInput \<Rightarrow> store \<Rightarrow> CanonicalTaskItemAttemptRecord tx"
where
  "begin_item_attempt e now b s =
     res_bind (validate_begin_attempt e b) (\<lambda>_.
     res_bind (ok_or NoRows (find_item s (ba_item_id b))) (\<lambda>item.
     if i_task_id item \<noteq> ba_task_id b \<or> i_run_id item \<noteq> ba_run_id b
     then Inl (Bail ''canonical_item_attempt_owner_conflict'')
     else if i_status item \<in> {ItemCompleted, ItemCancelled, ItemEffectUnknown}
     then Inl (Bail ''canonical_item_attempt_terminal_item'')
     else
       res_bind (insert_attempt (new_attempt_row b (next_attempt_ordinal s (ba_item_id b)) now) s)
         (\<lambda>s1.
       let s2 = set_item_status (ba_item_id b) ItemRunning now s1 in
       res_bind (ok_or (Bail ''canonical_item_attempt_missing_after_begin'')
                  (find_attempt s2 (ba_attempt_id b))) (\<lambda>attempt.
       if \<not> attempt_matches b attempt
       then Inl (Bail ''canonical_item_attempt_identity_conflict'')
       else Inr (attempt, s2)))))"

definition append_general_item ::
  "env \<Rightarrow> int \<Rightarrow> string \<Rightarrow> string \<Rightarrow> string \<Rightarrow> CanonicalTaskItemKind \<Rightarrow> string \<Rightarrow> string \<Rightarrow> store \<Rightarrow>
   CanonicalTaskItemRecord tx"
where
  "append_general_item e now task_id run_id item_id kind summary_code payload_digest s =
     res_bind (first_failure
       [validate_uuid e ''task_id'' task_id,
        validate_uuid e ''run_id'' run_id,
        validate_nonempty ''item_id'' item_id 512,
        validate_nonempty ''summary_code'' summary_code 128,
        validate_digest ''payload_digest'' payload_digest,
        bail_if (kind \<in> {KindInstruction, KindFinalResult})
          (Bail ''canonical_general_item_kind_reserved'')]) (\<lambda>_.
     res_bind (ok_or NoRows (find_run s task_id run_id)) (\<lambda>run.
     if r_status run \<noteq> TaskRunning then Inl (Bail ''canonical_general_item_run_not_running'')
     else
       (case find_item s item_id of
          Some existing \<Rightarrow>
            if i_task_id existing \<noteq> task_id \<or> i_run_id existing \<noteq> run_id \<or>
               i_kind existing \<noteq> kind \<or> i_summary_code existing \<noteq> summary_code \<or>
               i_payload_digest existing \<noteq> payload_digest
            then Inl (Bail ''canonical_general_item_identity_conflict'')
            else Inr (existing, s)
        | None \<Rightarrow>
            let row = \<lparr>i_id = item_id, i_task_id = task_id, i_run_id = run_id,
                       i_sequence = next_sequence s task_id, i_kind = kind,
                       i_status = ItemWaiting, i_summary_code = summary_code,
                       i_payload_digest = payload_digest, i_updated_at = now\<rparr> in
            res_bind (insert_item row s) (\<lambda>s1. Inr (row, s1)))))"

text \<open>
  A completed observation (or plan declaration) takes two transactions: what the first
  has committed stays when the second is refused.
\<close>

definition complete_appended_item ::
  "int \<Rightarrow> CanonicalTaskItemRecord \<Rightarrow> CanonicalTaskItemKind \<Rightarrow> string \<Rightarrow> string \<Rightarrow> store \<Rightarrow>
   CanonicalTaskItemRecord tx"
where
  "complete_appended_item now item kind summary_code payload_digest s =
     (let waiting = (\<lambda>i. i_id i = i_id item \<and> i_status i = ItemWaiting);
          changed = count_where waiting (items s);
          s1 = s\<lparr>items := update_where waiting
                 (\<lambda>i. i\<lparr>i_status := ItemCompleted, i_updated_at := now\<rparr>) (items s)\<rparr>;
          label = (if kind = KindPlan then ''canonical_completed_plan_item_''
                   else ''canonical_completed_observation_'')
      in res_bind (ok_or NoRows (find_item s1 (i_id item))) (\<lambda>completed.
         if changed = 0 \<and> i_status completed \<noteq> ItemCompleted
         then Inl (Bail (label @ ''terminal_conflict''))
         else if i_task_id completed \<noteq> i_task_id item \<or> i_run_id completed \<noteq> i_run_id item \<or>
                 i_kind completed \<noteq> kind \<or> i_summary_code completed \<noteq> summary_code \<or>
                 i_payload_digest completed \<noteq> payload_digest
         then Inl (Bail (label @ ''identity_conflict''))
         else Inr (completed, s1)))"

definition append_completed ::
  "env \<Rightarrow> int \<Rightarrow> CanonicalTaskItemKind \<Rightarrow> string \<Rightarrow> string \<Rightarrow> string \<Rightarrow> string \<Rightarrow> string \<Rightarrow> store \<Rightarrow>
   (store_error + CanonicalTaskItemRecord) \<times> store"
where
  "append_completed e now kind task_id run_id item_id summary_code payload_digest s =
     (case append_general_item e now task_id run_id item_id kind summary_code payload_digest s of
        Inl err \<Rightarrow> (Inl err, s)
      | Inr (item, s1) \<Rightarrow>
          (case complete_appended_item now item kind summary_code payload_digest s1 of
             Inl err \<Rightarrow> (Inl err, s1)
           | Inr (completed, s2) \<Rightarrow> (Inr completed, s2)))"

definition append_completed_observation ::
  "env \<Rightarrow> int \<Rightarrow> string \<Rightarrow> string \<Rightarrow> string \<Rightarrow> string \<Rightarrow> string \<Rightarrow> store \<Rightarrow>
   (store_error + CanonicalTaskItemRecord) \<times> store"
where
  "append_completed_observation e now = append_completed e now KindObservation"

definition append_completed_plan_item ::
  "env \<Rightarrow> int \<Rightarrow> string \<Rightarrow> string \<Rightarrow> string \<Rightarrow> string \<Rightarrow> string \<Rightarrow> store \<Rightarrow>
   (store_error + CanonicalTaskItemRecord) \<times> store"
where
  "append_completed_plan_item e now = append_completed e now KindPlan"

definition terminal_item_status :: "CanonicalTaskItemStatus \<Rightarrow> bool" where
  "terminal_item_status st \<longleftrightarrow>
     st \<in> {ItemCompleted, ItemBlocked, ItemFailed, ItemCancelled, ItemInterrupted, ItemEffectUnknown}"

definition terminalize_item_attempt ::
  "env \<Rightarrow> int \<Rightarrow> string \<Rightarrow> CanonicalTaskItemStatus \<Rightarrow> string option \<Rightarrow> store \<Rightarrow>
   CanonicalTaskItemAttemptRecord tx"
where
  "terminalize_item_attempt e now attempt_id status receipt_digest s =
     res_bind (first_failure
       [validate_uuid e ''attempt_id'' attempt_id,
        bail_if (\<not> terminal_item_status status)
          (Bail ''canonical_item_attempt_terminal_status_invalid''),
        when_some receipt_digest (validate_digest ''receipt_digest'')]) (\<lambda>_.
     res_bind (ok_or (Bail ''canonical_item_attempt_missing'') (find_attempt s attempt_id))
       (\<lambda>attempt.
     if a_status attempt \<noteq> ItemRunning
     then if a_status attempt = status \<and> a_receipt_digest attempt = receipt_digest
          then Inr (attempt, s)
          else Inl (Bail ''canonical_item_attempt_terminal_conflict'')
     else
       let s1 = s\<lparr>item_attempts := update_where
                    (\<lambda>a. a_attempt_id a = attempt_id \<and> a_status a = ItemRunning)
                    (\<lambda>a. a\<lparr>a_status := status, a_receipt_digest := receipt_digest,
                           a_finished_at := Some now\<rparr>) (item_attempts s)\<rparr>;
           s2 = set_item_status (a_item_id attempt) status now s1 in
       res_bind (ok_or (Bail ''canonical_item_attempt_missing_after_terminal'')
                  (find_attempt s2 attempt_id)) (\<lambda>result. Inr (result, s2))))"

section \<open>Budget usage from the rows\<close>

definition to_u32 :: "nat \<Rightarrow> store_error + 32 word" where
  "to_u32 n = (if n < 2 ^ 32 then Inr (word_of_nat n) else Inl Conversion)"

definition provider_attempt_of :: "string \<Rightarrow> CanonicalTaskItemAttemptRecord \<Rightarrow> bool" where
  "provider_attempt_of run_id a \<longleftrightarrow> a_run_id a = run_id \<and> a_executor_kind a = ''provider''"

text \<open>\<open>JOIN canonical_task_items\<close> on the item of the attempt, by its summary code.\<close>

definition attempt_summary :: "store \<Rightarrow> CanonicalTaskItemAttemptRecord \<Rightarrow> string option" where
  "attempt_summary s a = map_option i_summary_code (find_item s (a_item_id a))"

definition work_run_budget_usage :: "env \<Rightarrow> string \<Rightarrow> store \<Rightarrow> store_error + WorkRunBudgetUsage" where
  "work_run_budget_usage e run_id s =
     res_bind (validate_uuid e ''run_id'' run_id) (\<lambda>_.
     if \<not> exists_where (\<lambda>r. r_run_id r = run_id) (runs s)
     then Inl (Bail ''canonical_work_budget_run_missing'')
     else
       res_bind (to_u32 (count_where (\<lambda>a. provider_attempt_of run_id a \<and>
         attempt_summary s a = Some ''work_plan_generation'') (item_attempts s))) (\<lambda>plans.
       res_bind (to_u32 (count_where (provider_attempt_of run_id) (item_attempts s))) (\<lambda>providers.
       res_bind (to_u32 (count_where (\<lambda>a. provider_attempt_of run_id a \<and>
         attempt_summary s a = Some ''work_provider_semantic_verification'') (item_attempts s)))
         (\<lambda>verifications.
       res_bind (to_u32 (count_where (\<lambda>a. a_run_id a = run_id \<and> a_executor_kind a = ''tool'')
         (item_attempts s))) (\<lambda>tools.
       res_bind (to_u32 (count_where (\<lambda>i. i_run_id i = run_id) (items s))) (\<lambda>total.
       Inr \<lparr>plan_attempts = plans, provider_attempts = providers,
            verification_attempts = verifications, tool_attempts = tools, total_items = total\<rparr>))))))"

section \<open>Completion, deferral, terminalisation, recovery\<close>

record CompleteGeneralTaskInput =
  c_task_id :: string
  c_run_id :: string
  c_final_item_id :: string
  c_conversation_item_id :: string
  c_result_digest :: string
  c_summary_code :: string
  c_completion_limitations :: "CanonicalCompletionLimitation list"

record DeferGeneralTaskResultInput =
  df_task_id :: string
  df_run_id :: string
  df_conversation_item_id :: string
  df_result_digest :: string
  df_summary_code :: string
  df_completion_limitations :: "CanonicalCompletionLimitation list"

text \<open>\<open>row_to_final_result\<close>: the limitations are decoded and validated again.\<close>

definition row_to_final_result :: "env \<Rightarrow> final_result_row \<Rightarrow> store_error + CanonicalFinalResultRecord" where
  "row_to_final_result e row =
     res_bind (map_err (\<lambda>_. Conversion)
                (decode_completion_limitations e (f_completion_limitations_json row))) (\<lambda>ls.
     Inr \<lparr>res_row = row, res_completion_limitations = ls\<rparr>)"

text \<open>The ordinal of the run of a final result, from the join with the runs.\<close>

definition result_ordinal :: "store \<Rightarrow> final_result_row \<Rightarrow> nat option" where
  "result_ordinal s f = map_option r_ordinal (find_run s (f_task_id f) (f_run_id f))"

definition latest_final_result :: "store \<Rightarrow> string \<Rightarrow> final_result_row option" where
  "latest_final_result s task_id =
     (let joined = (\<lambda>f. f_task_id f = task_id \<and> result_ordinal s f \<noteq> None);
          top = max_where joined (\<lambda>f. the (result_ordinal s f)) (final_results s)
      in find (\<lambda>f. joined f \<and> result_ordinal s f = Some top) (final_results s))"

definition load_final_result_in_tx ::
  "env \<Rightarrow> string \<Rightarrow> store \<Rightarrow> store_error + CanonicalFinalResultRecord option"
where
  "load_final_result_in_tx e task_id s =
     (case latest_final_result s task_id of
        None \<Rightarrow> Inr None
      | Some row \<Rightarrow> res_bind (row_to_final_result e row) (\<lambda>r. Inr (Some r)))"

definition validate_complete :: "env \<Rightarrow> CompleteGeneralTaskInput \<Rightarrow> store_error + string" where
  "validate_complete e c =
     res_bind (first_failure
       [validate_uuid e ''task_id'' (c_task_id c), validate_uuid e ''run_id'' (c_run_id c),
        validate_nonempty ''final_item_id'' (c_final_item_id c) 512,
        bail_if (c_final_item_id c \<noteq> final_result_item_id e (c_task_id c) (c_run_id c))
          (Bail ''canonical_final_result_item_id_mismatch''),
        validate_nonempty ''conversation_item_id'' (c_conversation_item_id c) 512,
        validate_digest ''result_digest'' (c_result_digest c),
        validate_nonempty ''summary_code'' (c_summary_code c) 128]) (\<lambda>_.
     res_bind (encode_completion_limitations e (c_completion_limitations c)) (\<lambda>json.
     res_bind (validate_completion_limitation_disposition (c_summary_code c)
                (c_completion_limitations c)) (\<lambda>_. Inr json)))"

text \<open>The stored result is the one of an earlier call with the same input.\<close>

definition same_result :: "CompleteGeneralTaskInput \<Rightarrow> CanonicalFinalResultRecord \<Rightarrow> bool" where
  "same_result c r \<longleftrightarrow>
     f_run_id (res_row r) = c_run_id c \<and> f_item_id (res_row r) = c_final_item_id c \<and>
     f_conversation_item_id (res_row r) = c_conversation_item_id c \<and>
     f_result_digest (res_row r) = c_result_digest c \<and>
     res_completion_limitations r = c_completion_limitations c"

definition item_of_run :: "string \<Rightarrow> string \<Rightarrow> CanonicalTaskItemRecord \<Rightarrow> bool" where
  "item_of_run task_id run_id i \<longleftrightarrow> i_task_id i = task_id \<and> i_run_id i = run_id"

definition unsettled :: "string \<Rightarrow> string \<Rightarrow> CanonicalTaskItemRecord \<Rightarrow> bool" where
  "unsettled task_id run_id i \<longleftrightarrow>
     item_of_run task_id run_id i \<and> i_kind i \<noteq> KindFinalResult \<and>
     i_status i \<in> {ItemWaiting, ItemRunning, ItemEffectUnknown}"

definition final_row :: "CompleteGeneralTaskInput \<Rightarrow> string \<Rightarrow> int \<Rightarrow> final_result_row" where
  "final_row c json now =
     \<lparr>f_task_id = c_task_id c, f_run_id = c_run_id c, f_item_id = c_final_item_id c,
      f_conversation_item_id = c_conversation_item_id c, f_result_digest = c_result_digest c,
      f_summary_code = c_summary_code c, f_completion_limitations_json = json,
      f_created_at = now\<rparr>"

definition set_run_status ::
  "(CanonicalTaskRunRecord \<Rightarrow> bool) \<Rightarrow> CanonicalTaskStatus \<Rightarrow> int \<Rightarrow> store \<Rightarrow> store"
where
  "set_run_status p status now s =
     s\<lparr>runs := update_where p
         (\<lambda>r. r\<lparr>r_status := status, r_updated_at := now, r_completed_at := Some now\<rparr>) (runs s)\<rparr>"

definition set_task_status ::
  "(CanonicalTaskRecord \<Rightarrow> bool) \<Rightarrow> CanonicalTaskStatus \<Rightarrow> int \<Rightarrow> store \<Rightarrow> store"
where
  "set_task_status p status now s =
     s\<lparr>tasks := update_where p (\<lambda>t. t\<lparr>t_status := status, t_updated_at := now\<rparr>) (tasks s)\<rparr>"

definition resolve_attention :: "string \<Rightarrow> int \<Rightarrow> store \<Rightarrow> store" where
  "resolve_attention task_id now s =
     s\<lparr>attention := update_where (\<lambda>a. at_task_id a = task_id \<and> at_resolved_at a = None)
         (\<lambda>a. a\<lparr>at_resolved_at := Some now\<rparr>) (attention s)\<rparr>"

text \<open>The statuses after the final result is stored: run, task, attention.\<close>

definition close_run :: "string \<Rightarrow> string \<Rightarrow> int \<Rightarrow> store \<Rightarrow> store" where
  "close_run task_id run_id now s =
     resolve_attention task_id now
       (set_task_status (\<lambda>t. t_id t = task_id) TaskCompleted now
         (set_run_status (is_run task_id run_id) TaskCompleted now s))"

definition complete_general_task ::
  "env \<Rightarrow> int \<Rightarrow> CompleteGeneralTaskInput \<Rightarrow> store \<Rightarrow> CanonicalFinalResultRecord tx"
where
  "complete_general_task e now c s =
     res_bind (validate_complete e c) (\<lambda>json.
     res_bind (ok_or NoRows (find_run s (c_task_id c) (c_run_id c))) (\<lambda>run.
     if r_status run \<noteq> TaskRunning
     then res_bind (load_final_result_in_tx e (c_task_id c) s) (\<lambda>existing.
            case existing of
              None \<Rightarrow> Inl (Bail ''canonical_general_task_run_not_running'')
            | Some r \<Rightarrow> if same_result c r then Inr (r, s)
                        else Inl (Bail ''canonical_general_task_run_not_running''))
     else if count_where (unsettled (c_task_id c) (c_run_id c)) (items s) \<noteq> 0
     then Inl (Bail ''canonical_completion_item_unsettled'')
     else
       res_bind (ensure_completed_item (c_final_item_id c) (c_task_id c) (c_run_id c)
                  KindFinalResult (c_summary_code c) (c_result_digest c) now s) (\<lambda>s1.
       res_bind (insert_final_result (final_row c json now) s1) (\<lambda>s2.
       let s3 = close_run (c_task_id c) (c_run_id c) now s2 in
       res_bind (load_final_result_in_tx e (c_task_id c) s3) (\<lambda>loaded.
       res_bind (ok_or (Bail ''canonical_final_result_missing_after_commit'') loaded) (\<lambda>r.
       Inr (r, s3)))))))"

definition validate_defer :: "env \<Rightarrow> DeferGeneralTaskResultInput \<Rightarrow> store_error + string" where
  "validate_defer e d =
     res_bind (first_failure
       [validate_uuid e ''task_id'' (df_task_id d), validate_uuid e ''run_id'' (df_run_id d),
        validate_nonempty ''conversation_item_id'' (df_conversation_item_id d) 512,
        validate_digest ''result_digest'' (df_result_digest d),
        validate_nonempty ''summary_code'' (df_summary_code d) 128]) (\<lambda>_.
     res_bind (encode_completion_limitations e (df_completion_limitations d)) (\<lambda>json.
     res_bind (validate_completion_limitation_disposition (df_summary_code d)
                (df_completion_limitations d)) (\<lambda>_. Inr json)))"

definition defer_general_task_result ::
  "env \<Rightarrow> DeferGeneralTaskResultInput \<Rightarrow> store \<Rightarrow> unit tx"
where
  "defer_general_task_result e d s =
     res_bind (validate_defer e d) (\<lambda>json.
     res_bind (ok_or NoRows (find_run s (df_task_id d) (df_run_id d))) (\<lambda>run.
     if r_status run \<noteq> TaskWaitingReview
     then Inl (Bail ''canonical_deferred_result_run_not_waiting_review'')
     else
       let row = \<lparr>d_task_id = df_task_id d, d_run_id = df_run_id d,
                  d_conversation_item_id = df_conversation_item_id d,
                  d_result_digest = df_result_digest d, d_summary_code = df_summary_code d,
                  d_completion_limitations_json = json\<rparr> in
       res_bind (insert_deferred_result row s) (\<lambda>s1.
       res_bind (ok_or NoRows (find (\<lambda>x. d_task_id x = df_task_id d) (deferred_results s1)))
         (\<lambda>existing.
       if existing \<noteq> row then Inl (Bail ''canonical_deferred_result_identity_conflict'')
       else Inr ((), s1)))))"

definition terminal_status_ok :: "CanonicalTaskStatus \<Rightarrow> bool" where
  "terminal_status_ok st \<longleftrightarrow>
     st \<in> {TaskBlocked, TaskFailed, TaskCancelled, TaskInterrupted, TaskEffectUnknown}"

definition open_run :: "string \<Rightarrow> string \<Rightarrow> CanonicalTaskRunRecord \<Rightarrow> bool" where
  "open_run task_id run_id r \<longleftrightarrow>
     is_run task_id run_id r \<and> r_status r \<in> {TaskRunning, TaskWaitingReview}"

text \<open>The unfinished items and attempts of a run get the status of the run.\<close>

definition settle_items :: "string \<Rightarrow> string \<Rightarrow> CanonicalTaskItemStatus \<Rightarrow> int \<Rightarrow> store \<Rightarrow> store" where
  "settle_items task_id run_id status now s =
     s\<lparr>items := update_where
         (\<lambda>i. item_of_run task_id run_id i \<and> i_status i \<in> {ItemWaiting, ItemRunning})
         (\<lambda>i. i\<lparr>i_status := status, i_updated_at := now\<rparr>) (items s)\<rparr>"

definition attempt_of_run :: "string \<Rightarrow> string \<Rightarrow> CanonicalTaskItemAttemptRecord \<Rightarrow> bool" where
  "attempt_of_run task_id run_id a \<longleftrightarrow> a_task_id a = task_id \<and> a_run_id a = run_id"

definition settle_attempts ::
  "string \<Rightarrow> string \<Rightarrow> CanonicalTaskItemStatus \<Rightarrow> int \<Rightarrow> store \<Rightarrow> store"
where
  "settle_attempts task_id run_id status now s =
     s\<lparr>item_attempts := update_where
         (\<lambda>a. attempt_of_run task_id run_id a \<and> a_status a = ItemRunning)
         (\<lambda>a. a\<lparr>a_status := status, a_finished_at := Some now\<rparr>) (item_attempts s)\<rparr>"

definition cancel_reviews :: "string \<Rightarrow> string \<Rightarrow> int \<Rightarrow> store \<Rightarrow> store" where
  "cancel_reviews task_id run_id now s =
     s\<lparr>tool_reviews := update_where
         (\<lambda>x. tr_task_id x = task_id \<and> tr_run_id x = run_id \<and> tr_status x = ''waiting'')
         (\<lambda>x. x\<lparr>tr_status := ''cancelled'', tr_resolved_at := Some now\<rparr>) (tool_reviews s)\<rparr>"

text \<open>
  \<open>terminalize_general_run\<close> up to the commit; the snapshot it then reads for its caller
  is not modelled. An item and an attempt store the same code as the run, and the
  \<open>CHECK\<close> of their column rejects a code that is not an item status.
\<close>

definition terminalize_general_run ::
  "env \<Rightarrow> int \<Rightarrow> string \<Rightarrow> string \<Rightarrow> CanonicalTaskStatus \<Rightarrow> store \<Rightarrow> unit tx"
where
  "terminalize_general_run e now task_id run_id status s =
     res_bind (first_failure
       [validate_uuid e ''task_id'' task_id, validate_uuid e ''run_id'' run_id,
        bail_if (\<not> terminal_status_ok status)
          (Bail ''canonical_general_run_terminal_status_invalid'')]) (\<lambda>_.
     let changed = count_where (open_run task_id run_id) (runs s);
         s1 = set_run_status (open_run task_id run_id) status now s in
     res_bind (if changed = 0
               then res_bind (ok_or NoRows (find_run s1 task_id run_id)) (\<lambda>run.
                 bail_if (r_status run \<noteq> status) (Bail ''canonical_general_run_terminal_conflict''))
               else Inr ()) (\<lambda>_.
     res_bind (map_err (\<lambda>_. Constraint) (item_status_from_db (task_status_as_str status)))
       (\<lambda>item_status.
     let s2 = settle_items task_id run_id item_status now s1;
         s3 = (if status \<in> {TaskCancelled, TaskInterrupted}
               then cancel_reviews task_id run_id now s2 else s2);
         s4 = settle_attempts task_id run_id item_status now s3 in
     Inr ((), set_task_status (\<lambda>t. t_id t = task_id) status now s4))))"

text \<open>The rows the recovery selects, and the loop over them.\<close>

definition recoverable :: "store \<Rightarrow> CanonicalTaskRunRecord \<Rightarrow> bool" where
  "recoverable s r \<longleftrightarrow>
     r_status r = TaskRunning \<and> r_execution_facts_version r = 5 \<and>
     exists_where (\<lambda>t. t_id t = r_task_id r \<and> t_task_kind t = ''work'') (tasks s)"

definition interrupt_run :: "int \<Rightarrow> string \<times> string \<Rightarrow> store \<Rightarrow> store" where
  "interrupt_run now key s =
     (let s1 = set_run_status (is_run (fst key) (snd key)) TaskInterrupted now s;
          s2 = settle_items (fst key) (snd key) ItemInterrupted now s1;
          s3 = settle_attempts (fst key) (snd key) ItemInterrupted now s2
      in set_task_status (\<lambda>t. t_id t = fst key \<and> t_status t = TaskRunning) TaskInterrupted now s3)"

definition recover_interrupted_general_runs :: "int \<Rightarrow> store \<Rightarrow> nat tx" where
  "recover_interrupted_general_runs now s =
     (let running = map run_key (filter (recoverable s) (runs s))
      in Inr (length running, fold (interrupt_run now) running s))"

end
