(* ===== verification/Task_Plan.thy ===== *)
theory Task_Plan
  imports Task_Run
begin

text \<open>
  The durable work plan of a run and its steering
  (\<open>openlife-core/src/task_runtime.rs\<close>): the plan with its revision history and its
  budget policy, replanning by compare-and-swap on the revision, and the authenticated
  steering that moves a run to the next revision.
\<close>

section \<open>Plan rows\<close>

text \<open>\<open>row_to_work_plan_record\<close>: the stored JSON must decode, agree with the schema
  version column and have the stored digest.\<close>

definition row_to_work_plan_record :: "env \<Rightarrow> work_plan_row \<Rightarrow> store_error + CanonicalWorkPlanRecord" where
  "row_to_work_plan_record e w =
     res_bind (ok_or Conversion (plan_of_json e (w_plan_json w))) (\<lambda>plan.
     if schema_version plan \<noteq> w_schema_version w then Inl Conversion
     else if sha256_text e (w_plan_json w) \<noteq> w_plan_digest w then Inl Conversion
     else Inr \<lparr>p_task_id = w_task_id w, p_run_id = w_run_id w, p_plan_revision = w_plan_revision w,
               p_plan = plan, p_plan_digest = w_plan_digest w,
               p_budget_policy = w_budget_policy w, p_created_at = w_created_at w\<rparr>)"

definition find_plan :: "store \<Rightarrow> string \<Rightarrow> work_plan_row option" where
  "find_plan s run_id = find (\<lambda>w. w_run_id w = run_id) (work_plans s)"

definition load_work_plan_in_tx ::
  "env \<Rightarrow> string \<Rightarrow> store \<Rightarrow> store_error + CanonicalWorkPlanRecord option"
where
  "load_work_plan_in_tx e run_id s =
     (case find_plan s run_id of
        None \<Rightarrow> Inr None
      | Some w \<Rightarrow> res_bind (row_to_work_plan_record e w) (\<lambda>p. Inr (Some p)))"

text \<open>
  The prologue of every write of a plan: the plan is validated against its own kinds and
  targets, encoded, and its encoding bounded.
\<close>

definition encode_plan :: "env \<Rightarrow> StructuredWorkPlan \<Rightarrow> store_error + string" where
  "encode_plan e plan =
     res_bind (map_err Bail
       (validate_plan (step_kind ` set (steps plan))
          (set (List.map_filter target_id (steps plan))) plan)) (\<lambda>_.
     res_bind (ok_or (Bail ''work_plan_serialization_failed'') (plan_to_json e plan)) (\<lambda>json.
     res_bind (validate_nonempty ''work_plan_json'' json 32768) (\<lambda>_. Inr json)))"

definition plan_row ::
  "env \<Rightarrow> string \<Rightarrow> string \<Rightarrow> nat \<Rightarrow> StructuredWorkPlan \<Rightarrow> string \<Rightarrow> WorkRunBudgetPolicy \<Rightarrow> int \<Rightarrow>
   work_plan_row"
where
  "plan_row e task_id run_id revision plan json policy now =
     \<lparr>w_run_id = run_id, w_task_id = task_id, w_plan_revision = revision,
      w_schema_version = schema_version plan, w_plan_json = json,
      w_plan_digest = sha256_text e json, w_budget_policy = policy, w_created_at = now\<rparr>"

section \<open>Persisting and revising\<close>

definition persist_work_plan ::
  "env \<Rightarrow> int \<Rightarrow> string \<Rightarrow> string \<Rightarrow> nat \<Rightarrow> StructuredWorkPlan \<Rightarrow> WorkRunBudgetPolicy \<Rightarrow> store \<Rightarrow>
   CanonicalWorkPlanRecord tx"
where
  "persist_work_plan e now task_id run_id revision plan policy s =
     res_bind (first_failure
       [validate_uuid e ''task_id'' task_id, validate_uuid e ''run_id'' run_id,
        bail_if (revision = 0) (Bail ''canonical_work_plan_revision_invalid'')]) (\<lambda>_.
     res_bind (encode_plan e plan) (\<lambda>json.
     res_bind (ok_or NoRows (find_run s task_id run_id)) (\<lambda>run.
     if r_status run \<noteq> TaskRunning then Inl (Bail ''canonical_work_plan_run_not_running'')
     else if r_plan_revision run \<noteq> revision then Inl (Bail ''canonical_work_plan_revision_stale'')
     else
       res_bind (load_work_plan_in_tx e run_id s) (\<lambda>loaded.
       case loaded of
         Some existing \<Rightarrow>
           if p_task_id existing \<noteq> task_id \<or> p_plan_revision existing \<noteq> revision \<or>
              p_plan_digest existing \<noteq> sha256_text e json \<or> p_plan existing \<noteq> plan \<or>
              p_budget_policy existing \<noteq> policy
           then Inl (Bail ''canonical_work_plan_identity_conflict'')
           else Inr (existing, s)
       | None \<Rightarrow>
           let row = plan_row e task_id run_id revision plan json policy now in
           res_bind (to_i64 revision) (\<lambda>_.
           res_bind (insert_work_plan row s) (\<lambda>s1.
           res_bind (insert_work_plan_revision row s1) (\<lambda>s2.
           res_bind (load_work_plan_in_tx e run_id s2) (\<lambda>persisted.
           res_bind (ok_or (Bail ''canonical_work_plan_missing_after_insert'') persisted) (\<lambda>p.
           Inr (p, s2)))))))))) "

text \<open>
  Both replanning and steering move a running run from one revision to the next: the
  run and its plan by compare-and-swap on the revision, then the history.
\<close>

definition swap_run_revision :: "string \<Rightarrow> string \<Rightarrow> nat \<Rightarrow> int \<Rightarrow> store \<Rightarrow> nat \<times> store" where
  "swap_run_revision task_id run_id base now s =
     (let p = (\<lambda>r. is_run task_id run_id r \<and> r_status r = TaskRunning \<and> r_plan_revision r = base)
      in (count_where p (runs s),
          s\<lparr>runs := update_where p (\<lambda>r. r\<lparr>r_plan_revision := base + 1, r_updated_at := now\<rparr>)
              (runs s)\<rparr>))"

definition swap_plan_row ::
  "env \<Rightarrow> string \<Rightarrow> string \<Rightarrow> nat \<Rightarrow> StructuredWorkPlan \<Rightarrow> string \<Rightarrow> int \<Rightarrow> store \<Rightarrow> nat \<times> store"
where
  "swap_plan_row e task_id run_id base plan json now s =
     (let p = (\<lambda>w. w_task_id w = task_id \<and> w_run_id w = run_id \<and> w_plan_revision w = base)
      in (count_where p (work_plans s),
          s\<lparr>work_plans := update_where p
              (\<lambda>w. w\<lparr>w_plan_revision := base + 1, w_schema_version := schema_version plan,
                     w_plan_json := json, w_plan_digest := sha256_text e json,
                     w_created_at := now\<rparr>) (work_plans s)\<rparr>))"

definition U64_MAX :: nat where
  "U64_MAX = 2 ^ 64 - 1"

definition advance_plan ::
  "env \<Rightarrow> int \<Rightarrow> string \<Rightarrow> string \<Rightarrow> string \<Rightarrow> string \<Rightarrow> string \<Rightarrow> nat \<Rightarrow> StructuredWorkPlan \<Rightarrow> string \<Rightarrow>
   WorkRunBudgetPolicy \<Rightarrow> store \<Rightarrow> store_error + store"
where
  "advance_plan e now overflow run_conflict plan_conflict task_id run_id base plan json policy s =
     (if base = U64_MAX then Inl (Bail overflow)
      else
        res_bind (to_i64 (base + 1)) (\<lambda>_.
        case swap_run_revision task_id run_id base now s of (changed, s1) \<Rightarrow>
        if changed \<noteq> 1 then Inl (Bail run_conflict)
        else
          case swap_plan_row e task_id run_id base plan json now s1 of (plan_changed, s2) \<Rightarrow>
          if plan_changed \<noteq> 1 then Inl (Bail plan_conflict)
          else
            insert_work_plan_revision
              (plan_row e task_id run_id (base + 1) plan json policy now) s2))"

definition revise_work_plan ::
  "env \<Rightarrow> int \<Rightarrow> string \<Rightarrow> string \<Rightarrow> nat \<Rightarrow> StructuredWorkPlan \<Rightarrow> store \<Rightarrow> CanonicalWorkPlanRecord tx"
where
  "revise_work_plan e now task_id run_id base plan s =
     res_bind (first_failure
       [validate_uuid e ''task_id'' task_id, validate_uuid e ''run_id'' run_id,
        bail_if (base = 0) (Bail ''canonical_work_replan_base_revision_invalid'')]) (\<lambda>_.
     res_bind (encode_plan e plan) (\<lambda>json.
     res_bind (ok_or NoRows (find_run s task_id run_id)) (\<lambda>run.
     if r_status run \<noteq> TaskRunning then Inl (Bail ''canonical_work_replan_run_not_running'')
     else if r_plan_revision run \<noteq> base then Inl (Bail ''canonical_work_replan_revision_stale'')
     else
       res_bind (load_work_plan_in_tx e run_id s) (\<lambda>loaded.
       res_bind (ok_or (Bail ''canonical_work_replan_current_plan_missing'') loaded) (\<lambda>current.
       if p_task_id current \<noteq> task_id \<or> p_plan_revision current \<noteq> base
       then Inl (Bail ''canonical_work_replan_current_identity_conflict'')
       else
         res_bind (advance_plan e now ''canonical_work_replan_revision_overflow''
                     ''canonical_work_replan_run_cas_conflict''
                     ''canonical_work_replan_plan_cas_conflict''
                     task_id run_id base plan json (p_budget_policy current) s) (\<lambda>s1.
         res_bind (load_work_plan_in_tx e run_id s1) (\<lambda>revised.
         res_bind (ok_or (Bail ''canonical_work_replan_missing_after_update'') revised) (\<lambda>r.
         Inr (r, s1)))))))))"

definition list_work_plan_revisions ::
  "env \<Rightarrow> string \<Rightarrow> store \<Rightarrow> store_error + CanonicalWorkPlanRecord list"
where
  "list_work_plan_revisions e run_id s =
     res_bind (validate_uuid e ''run_id'' run_id) (\<lambda>_.
     res_fold (\<lambda>acc w. res_bind (row_to_work_plan_record e w) (\<lambda>p. Inr (acc @ [p]))) []
       (sort_key w_plan_revision (filter (\<lambda>w. w_run_id w = run_id) (work_plan_revisions s))))"

definition load_work_plan :: "env \<Rightarrow> string \<Rightarrow> store \<Rightarrow> store_error + CanonicalWorkPlanRecord option" where
  "load_work_plan e run_id s =
     res_bind (validate_uuid e ''run_id'' run_id) (\<lambda>_. load_work_plan_in_tx e run_id s)"

definition work_run_budget_policy :: "env \<Rightarrow> string \<Rightarrow> store \<Rightarrow> store_error + WorkRunBudgetPolicy" where
  "work_run_budget_policy e run_id s =
     res_bind (validate_uuid e ''run_id'' run_id) (\<lambda>_.
     res_bind (load_work_plan e run_id s) (\<lambda>loaded.
     Inr (case loaded of None \<Rightarrow> default_budget_policy | Some p \<Rightarrow> p_budget_policy p)))"

section \<open>Steering\<close>

record SubmitSteeringInput =
  ss_steering_id :: string
  ss_task_id :: string
  ss_run_id :: string
  ss_source_message_ref :: string
  ss_source_message_digest :: string
  ss_steering_digest :: string
  ss_base_plan_revision :: nat

definition steering_item_id :: "env \<Rightarrow> SubmitSteeringInput \<Rightarrow> string" where
  "steering_item_id e i =
     stable_id e ''item'' [''steering'', ss_task_id i, ss_run_id i, ss_steering_id i]"

definition load_steering_in_tx :: "store \<Rightarrow> string \<Rightarrow> CanonicalSteeringRecord option" where
  "load_steering_in_tx s steering_id = find (\<lambda>x. s_steering_id x = steering_id) (steerings s)"

definition run_finalized :: "store \<Rightarrow> string \<Rightarrow> string \<Rightarrow> bool" where
  "run_finalized s task_id run_id \<longleftrightarrow>
     exists_where (\<lambda>i. item_of_run task_id run_id i \<and> i_kind i = KindFinalResult \<and>
       i_status i = ItemCompleted) (items s)"

definition final_provider_started :: "store \<Rightarrow> string \<Rightarrow> string \<Rightarrow> bool" where
  "final_provider_started s task_id run_id \<longleftrightarrow>
     exists_where (\<lambda>i. item_of_run task_id run_id i \<and> i_kind i = KindProviderGeneration \<and>
       i_summary_code i = ''work_provider_generation'' \<and>
       i_status i \<in> {ItemRunning, ItemCompleted}) (items s)"

definition pending_of :: "string \<Rightarrow> string \<Rightarrow> CanonicalSteeringRecord \<Rightarrow> bool" where
  "pending_of task_id run_id x \<longleftrightarrow>
     s_task_id x = task_id \<and> s_run_id x = run_id \<and> s_status x = SteeringPending"

text \<open>The admission checks \<open>submit_steering\<close> and \<open>validate_steering_admission\<close> share.\<close>

definition steering_admission ::
  "string \<Rightarrow> string \<Rightarrow> nat \<Rightarrow> store \<Rightarrow> store_error + unit"
where
  "steering_admission task_id run_id base s =
     res_bind (ok_or (Bail ''canonical_steering_target_missing'') (find_task s task_id)) (\<lambda>task.
     res_bind (ok_or (Bail ''canonical_steering_target_missing'') (find_run s task_id run_id)) (\<lambda>run.
     first_failure
       [bail_if (run_finalized s task_id run_id \<or> t_status task \<notin> {TaskRunning, TaskWaitingReview})
          (Bail ''canonical_steering_target_terminal''),
        bail_if (r_plan_revision run \<noteq> base) (Bail ''canonical_steering_plan_revision_stale''),
        bail_if (final_provider_started s task_id run_id)
          (Bail ''canonical_steering_checkpoint_passed''),
        bail_if (exists_where (pending_of task_id run_id) (steerings s))
          (Bail ''canonical_steering_pending_conflict'')]))"

definition validate_submit :: "SubmitSteeringInput \<Rightarrow> store_error + unit" where
  "validate_submit i =
     first_failure
       [validate_nonempty ''steering_id'' (ss_steering_id i) 512,
        validate_nonempty ''task_id'' (ss_task_id i) 512,
        validate_nonempty ''run_id'' (ss_run_id i) 512,
        validate_nonempty ''source_message_ref'' (ss_source_message_ref i) 1024,
        validate_digest ''source_message_digest'' (ss_source_message_digest i),
        validate_digest ''steering_digest'' (ss_steering_digest i),
        bail_if (ss_base_plan_revision i = 0) (Bail ''canonical_steering_plan_revision_invalid'')]"

definition steering_item :: "env \<Rightarrow> SubmitSteeringInput \<Rightarrow> nat \<Rightarrow> int \<Rightarrow> CanonicalTaskItemRecord" where
  "steering_item e i sequence now =
     \<lparr>i_id = steering_item_id e i, i_task_id = ss_task_id i, i_run_id = ss_run_id i,
      i_sequence = sequence, i_kind = KindSteering, i_status = ItemWaiting,
      i_summary_code = ''work_steering_pending'', i_payload_digest = ss_steering_digest i,
      i_updated_at = now\<rparr>"

definition steering_row :: "env \<Rightarrow> SubmitSteeringInput \<Rightarrow> int \<Rightarrow> CanonicalSteeringRecord" where
  "steering_row e i now =
     \<lparr>s_steering_id = ss_steering_id i, s_item_id = steering_item_id e i, s_task_id = ss_task_id i,
      s_run_id = ss_run_id i, s_source_message_ref = ss_source_message_ref i,
      s_source_message_digest = ss_source_message_digest i,
      s_steering_digest = ss_steering_digest i, s_base_plan_revision = ss_base_plan_revision i,
      s_status = SteeringPending, s_resolution_code = None, s_applied_plan_revision = None,
      s_created_at = now, s_resolved_at = None\<rparr>"

definition submit_steering ::
  "env \<Rightarrow> int \<Rightarrow> SubmitSteeringInput \<Rightarrow> store \<Rightarrow> CanonicalSteeringRecord tx"
where
  "submit_steering e now i s =
     res_bind (validate_submit i) (\<lambda>_.
     case load_steering_in_tx s (ss_steering_id i) of
       Some existing \<Rightarrow>
         if s_item_id existing \<noteq> steering_item_id e i \<or> s_task_id existing \<noteq> ss_task_id i \<or>
            s_run_id existing \<noteq> ss_run_id i \<or>
            s_source_message_ref existing \<noteq> ss_source_message_ref i \<or>
            s_source_message_digest existing \<noteq> ss_source_message_digest i \<or>
            s_steering_digest existing \<noteq> ss_steering_digest i \<or>
            s_base_plan_revision existing \<noteq> ss_base_plan_revision i
         then Inl (Bail ''canonical_steering_identity_conflict'')
         else Inr (existing, s)
     | None \<Rightarrow>
         res_bind (steering_admission (ss_task_id i) (ss_run_id i) (ss_base_plan_revision i) s) (\<lambda>_.
         res_bind (insert_item (steering_item e i (next_sequence s (ss_task_id i)) now) s) (\<lambda>s1.
         res_bind (to_i64 (ss_base_plan_revision i)) (\<lambda>_.
         res_bind (insert_steering (steering_row e i now) s1) (\<lambda>s2.
         res_bind (ok_or (Bail ''canonical_steering_missing_after_insert'')
                    (load_steering_in_tx s2 (ss_steering_id i))) (\<lambda>record.
         Inr (record, s2)))))))"

definition validate_steering_admission ::
  "string \<Rightarrow> string \<Rightarrow> nat \<Rightarrow> store \<Rightarrow> store_error + unit"
where
  "validate_steering_admission task_id run_id base s =
     res_bind (first_failure
       [validate_nonempty ''task_id'' task_id 512, validate_nonempty ''run_id'' run_id 512,
        bail_if (base = 0) (Bail ''canonical_steering_plan_revision_invalid'')]) (\<lambda>_.
     steering_admission task_id run_id base s)"

text \<open>\<open>ORDER BY created_at ASC, steering_id ASC LIMIT 1\<close>, by two stable sorts.\<close>

definition load_pending_steering ::
  "string \<Rightarrow> string \<Rightarrow> store \<Rightarrow> store_error + CanonicalSteeringRecord option"
where
  "load_pending_steering task_id run_id s =
     res_bind (first_failure
       [validate_nonempty ''task_id'' task_id 512, validate_nonempty ''run_id'' run_id 512]) (\<lambda>_.
     Inr (case sort_key s_created_at (sort_key s_steering_id
                 (filter (pending_of task_id run_id) (steerings s))) of
            [] \<Rightarrow> None
          | x # _ \<Rightarrow> Some x))"

text \<open>\<open>UPDATE canonical_steering SET ... WHERE steering_id = ? AND status = 'pending'\<close>.\<close>

definition close_steering ::
  "string \<Rightarrow> CanonicalSteeringStatus \<Rightarrow> string \<Rightarrow> nat option \<Rightarrow> int \<Rightarrow> store \<Rightarrow> nat \<times> store"
where
  "close_steering steering_id status code applied now s =
     (let p = (\<lambda>x. s_steering_id x = steering_id \<and> s_status x = SteeringPending)
      in (count_where p (steerings s),
          s\<lparr>steerings := update_where p
              (\<lambda>x. x\<lparr>s_status := status, s_resolution_code := Some code,
                     s_applied_plan_revision :=
                       (if applied = None then s_applied_plan_revision x else applied),
                     s_resolved_at := Some now\<rparr>) (steerings s)\<rparr>))"

definition settle_steering_item ::
  "string \<Rightarrow> CanonicalTaskItemStatus \<Rightarrow> string \<Rightarrow> int \<Rightarrow> store \<Rightarrow> store"
where
  "settle_steering_item item_id status code now s =
     s\<lparr>items := update_where
         (\<lambda>i. i_id i = item_id \<and> i_kind i = KindSteering \<and> i_status i = ItemWaiting)
         (\<lambda>i. i\<lparr>i_status := status, i_summary_code := code, i_updated_at := now\<rparr>) (items s)\<rparr>"

definition apply_pending_steering_plan ::
  "env \<Rightarrow> int \<Rightarrow> string \<Rightarrow> StructuredWorkPlan \<Rightarrow> store \<Rightarrow> CanonicalSteeringRecord tx"
where
  "apply_pending_steering_plan e now steering_id plan s =
     res_bind (validate_nonempty ''steering_id'' steering_id 512) (\<lambda>_.
     res_bind (encode_plan e plan) (\<lambda>json.
     res_bind (ok_or (Bail ''canonical_steering_missing_before_apply'')
                (load_steering_in_tx s steering_id)) (\<lambda>record.
     if s_status record \<noteq> SteeringPending
     then Inl (Bail ''canonical_steering_apply_status_conflict'')
     else
       res_bind (load_work_plan_in_tx e (s_run_id record) s) (\<lambda>loaded.
       res_bind (ok_or (Bail ''canonical_steering_current_plan_missing'') loaded) (\<lambda>current.
       if p_task_id current \<noteq> s_task_id record \<or>
          p_plan_revision current \<noteq> s_base_plan_revision record
       then Inl (Bail ''canonical_steering_apply_revision_conflict'')
       else
         res_bind (advance_plan e now ''canonical_steering_plan_revision_overflow''
                     ''canonical_steering_run_revision_conflict''
                     ''canonical_steering_plan_revision_conflict''
                     (s_task_id record) (s_run_id record) (s_base_plan_revision record) plan json
                     (p_budget_policy current) s) (\<lambda>s1.
         case close_steering steering_id SteeringApplied ''work_steering_plan_applied''
                (Some (s_base_plan_revision record + 1)) now s1 of (changed, s2) \<Rightarrow>
         if changed \<noteq> 1 then Inl (Bail ''canonical_steering_apply_conflict'')
         else
           let s3 = settle_steering_item (s_item_id record) ItemCompleted ''work_steering_applied''
                      now s2 in
           res_bind (ok_or (Bail ''canonical_steering_missing_after_apply'')
                      (load_steering_in_tx s3 steering_id)) (\<lambda>applied.
           Inr (applied, s3))))))))"

definition resolve_pending_steering ::
  "int \<Rightarrow> string \<Rightarrow> CanonicalSteeringStatus \<Rightarrow> string \<Rightarrow> store \<Rightarrow> CanonicalSteeringRecord tx"
where
  "resolve_pending_steering now steering_id status code s =
     res_bind (first_failure
       [validate_nonempty ''steering_id'' steering_id 512,
        validate_nonempty ''resolution_code'' code 256,
        bail_if (status \<notin> {SteeringRejected, SteeringBlocked})
          (Bail ''canonical_steering_resolution_status_invalid'')]) (\<lambda>_.
     res_bind (ok_or (Bail ''canonical_steering_missing_before_resolution'')
                (load_steering_in_tx s steering_id)) (\<lambda>record.
     case close_steering steering_id status code None now s of (changed, s1) \<Rightarrow>
     if changed \<noteq> 1 then Inl (Bail ''canonical_steering_resolution_conflict'')
     else
       let s2 = settle_steering_item (s_item_id record)
                  (if status = SteeringBlocked then ItemBlocked else ItemFailed) code now s1 in
       res_bind (ok_or (Bail ''canonical_steering_missing_after_resolution'')
                  (load_steering_in_tx s2 steering_id)) (\<lambda>resolved.
       Inr (resolved, s2))))"

end
