(* ===== verification/Task_Steps.thy ===== *)
theory Task_Steps
  imports Task_Plan
begin

text \<open>
  The abstract specification of the task store: the steps its rows may take. A step
  adds one row or moves rows that already exist, with the guard the store promises for
  it. Every operation of \<open>Task_Run\<close> and \<open>Task_Plan\<close> that succeeds is a sequence of such
  steps, so an invariant of the steps is an invariant of the store.
\<close>

section \<open>Updates keep the primary keys\<close>

interpretation item_status: keyed_update i_id p "\<lambda>i. i\<lparr>i_status := st, i_updated_at := now\<rparr>"
  for p st now
  by unfold_locales simp

interpretation item_summary: keyed_update i_id p
  "\<lambda>i. i\<lparr>i_status := st, i_summary_code := code, i_updated_at := now\<rparr>"
  for p st code now
  by unfold_locales simp

interpretation run_status: keyed_update r_run_id p
  "\<lambda>r. r\<lparr>r_status := st, r_updated_at := now, r_completed_at := Some now\<rparr>"
  for p st now
  by unfold_locales simp

interpretation run_skill: keyed_update r_run_id p
  "\<lambda>r. r\<lparr>r_selected_skill_id := sk, r_updated_at := now\<rparr>"
  for p sk now
  by unfold_locales simp

interpretation run_revision: keyed_update r_run_id p
  "\<lambda>r. r\<lparr>r_plan_revision := n, r_updated_at := now\<rparr>"
  for p n now
  by unfold_locales simp

interpretation task_status: keyed_update t_id p "\<lambda>t. t\<lparr>t_status := st, t_updated_at := now\<rparr>"
  for p st now
  by unfold_locales simp

interpretation attempt_terminal: keyed_update a_attempt_id p
  "\<lambda>a. a\<lparr>a_status := st, a_receipt_digest := rd, a_finished_at := Some now\<rparr>"
  for p st rd now
  by unfold_locales simp

interpretation attempt_status: keyed_update a_attempt_id p
  "\<lambda>a. a\<lparr>a_status := st, a_finished_at := Some now\<rparr>"
  for p st now
  by unfold_locales simp

interpretation plan_swap: keyed_update w_run_id p
  "\<lambda>w. w\<lparr>w_plan_revision := n, w_schema_version := v, w_plan_json := j, w_plan_digest := d,
         w_created_at := now\<rparr>"
  for p n v j d now
  by unfold_locales simp

interpretation steering_close: keyed_update s_steering_id p
  "\<lambda>x. x\<lparr>s_status := st, s_resolution_code := Some code,
         s_applied_plan_revision := (if applied = None then s_applied_plan_revision x else applied),
         s_resolved_at := Some now\<rparr>"
  for p st code applied now
  by unfold_locales simp

lemmas table_keys =
  item_status.keys_same item_summary.keys_same run_status.keys_same run_skill.keys_same
  run_revision.keys_same task_status.keys_same attempt_terminal.keys_same
  attempt_status.keys_same plan_swap.keys_same steering_close.keys_same

lemmas run_lookups = run_status.lookup run_skill.lookup run_revision.lookup

section \<open>Steps\<close>

inductive row_step :: "store \<Rightarrow> store \<Rightarrow> bool" where
  task_added:
    "find_task s (t_id t) = None \<Longrightarrow> row_step s (s\<lparr>tasks := tasks s @ [t]\<rparr>)"
| task_moved:
    "row_step s (set_task_status p st now s)"
| run_added:
    "find_run_id s (r_run_id r) = None \<Longrightarrow> find_task s (r_task_id r) \<noteq> None \<Longrightarrow>
     r_ordinal r = next_run_ordinal s (r_task_id r) \<Longrightarrow> r_status r = TaskRunning \<Longrightarrow>
     r_plan_revision r = 1 \<Longrightarrow> row_step s (s\<lparr>runs := runs s @ [r]\<rparr>)"
| skill_bound:
    "row_step s (s\<lparr>runs := update_where p
        (\<lambda>r. r\<lparr>r_selected_skill_id := sk, r_updated_at := now\<rparr>) (runs s)\<rparr>)"
| run_closed:
    "\<forall>r. p r \<longrightarrow> r_status r \<in> {TaskRunning, TaskWaitingReview} \<Longrightarrow> terminal_status_ok st \<Longrightarrow>
     row_step s (set_run_status p st now s)"
| run_completed:
    "find_run s (f_task_id f) (f_run_id f) = Some r \<Longrightarrow> r_status r = TaskRunning \<Longrightarrow>
     count_where (unsettled (f_task_id f) (f_run_id f)) (items s) = 0 \<Longrightarrow>
     insert_final_result f s = Inr s1 \<Longrightarrow>
     row_step s (set_run_status (is_run (f_task_id f) (f_run_id f)) TaskCompleted now s1)"
| item_added:
    "insert_item i s = Inr s' \<Longrightarrow> row_step s s'"
| item_moved:
    "st \<noteq> ItemWaiting \<Longrightarrow>
     row_step s (s\<lparr>items := update_where p
        (\<lambda>i. i\<lparr>i_status := st, i_updated_at := now\<rparr>) (items s)\<rparr>)"
| steering_item_moved:
    "st \<noteq> ItemWaiting \<Longrightarrow> row_step s (settle_steering_item item_id st code now s)"
| attempt_begun:
    "find_item s (a_item_id a) = Some i \<Longrightarrow> i_task_id i = a_task_id a \<Longrightarrow>
     i_run_id i = a_run_id a \<Longrightarrow> insert_attempt a s = Inr s1 \<Longrightarrow>
     row_step s (set_item_status (a_item_id a) ItemRunning now s1)"
| attempt_settled:
    "row_step s (s\<lparr>item_attempts := update_where p
        (\<lambda>a. a\<lparr>a_status := st, a_receipt_digest := rd, a_finished_at := Some now\<rparr>)
        (item_attempts s)\<rparr>)"
| attempts_closed:
    "row_step s (settle_attempts task_id run_id st now s)"
| plan_persisted:
    "find_run s (w_task_id w) (w_run_id w) = Some r \<Longrightarrow> r_status r = TaskRunning \<Longrightarrow>
     r_plan_revision r = w_plan_revision w \<Longrightarrow> insert_work_plan w s = Inr s1 \<Longrightarrow>
     insert_work_plan_revision w s1 = Inr s2 \<Longrightarrow> row_step s s2"
| plan_advanced:
    "find_plan s run_id = Some w \<Longrightarrow> w_task_id w = task_id \<Longrightarrow> w_plan_revision w = base \<Longrightarrow>
     advance_plan e now c1 c2 c3 task_id run_id base plan json (w_budget_policy w) s = Inr s' \<Longrightarrow>
     row_step s s'"
| steering_submitted:
    "s_status x = SteeringPending \<Longrightarrow> s_applied_plan_revision x = None \<Longrightarrow>
     \<not> exists_where (pending_of (s_task_id x) (s_run_id x)) (steerings s) \<Longrightarrow>
     insert_steering x s = Inr s' \<Longrightarrow> row_step s s'"
| steering_applied:
    "load_steering_in_tx s steering_id = Some x \<Longrightarrow> s_status x = SteeringPending \<Longrightarrow>
     find_plan s (s_run_id x) = Some w \<Longrightarrow> w_task_id w = s_task_id x \<Longrightarrow>
     w_plan_revision w = s_base_plan_revision x \<Longrightarrow>
     advance_plan e now c1 c2 c3 (s_task_id x) (s_run_id x) (s_base_plan_revision x) plan json
       (w_budget_policy w) s = Inr s1 \<Longrightarrow>
     close_steering steering_id SteeringApplied code (Some (s_base_plan_revision x + 1)) now s1 =
       (changed, s2) \<Longrightarrow> row_step s s2"
| steering_resolved:
    "st \<in> {SteeringRejected, SteeringBlocked} \<Longrightarrow>
     close_steering steering_id st code None now s = (changed, s') \<Longrightarrow> row_step s s'"
| result_deferred:
    "insert_deferred_result d s = Inr s' \<Longrightarrow> row_step s s'"
| deferred_dropped:
    "row_step s (s\<lparr>deferred_results := filter p (deferred_results s)\<rparr>)"
| notes_changed:
    "row_step s (s\<lparr>revision_admissions := ra, attention := at, tool_reviews := tr\<rparr>)"

abbreviation row_steps :: "store \<Rightarrow> store \<Rightarrow> bool" where
  "row_steps \<equiv> row_step\<^sup>*\<^sup>*"

lemma one_step: "row_step s s' \<Longrightarrow> row_steps s s'"
  by (rule r_into_rtranclp)

lemma then_step: "row_steps s s1 \<Longrightarrow> row_step s1 s2 \<Longrightarrow> row_steps s s2"
  by (rule rtranclp.rtrancl_into_rtrancl)

lemma steps_trans: "row_steps s s1 \<Longrightarrow> row_steps s1 s2 \<Longrightarrow> row_steps s s2"
  by (rule rtranclp_trans)

lemma note_revision: "row_step s (s\<lparr>revision_admissions := ra\<rparr>)"
  using notes_changed [where s = s and ra = ra and at = "attention s" and tr = "tool_reviews s"] by simp

lemma note_attention: "row_step s (s\<lparr>attention := x\<rparr>)"
  using notes_changed [where s = s and ra = "revision_admissions s" and at = x and tr = "tool_reviews s"] by simp

lemma note_review: "row_step s (s\<lparr>tool_reviews := x\<rparr>)"
  using notes_changed [where s = s and ra = "revision_admissions s" and at = "attention s" and tr = x] by simp

lemma settle_items_step: "st \<noteq> ItemWaiting \<Longrightarrow> row_step s (settle_items task_id run_id st now s)"
  unfolding settle_items_def by (rule item_moved)

lemma set_item_status_step: "st \<noteq> ItemWaiting \<Longrightarrow> row_step s (set_item_status item_id st now s)"
  unfolding set_item_status_def by (rule item_moved)

lemma ensure_completed_item_steps:
  "ensure_completed_item item_id task_id run_id kind code digest now s = Inr s' \<Longrightarrow> row_steps s s'"
  by (auto simp: ensure_completed_item_def split: option.splits if_splits
      intro: one_step item_added)


section \<open>Every operation is a sequence of steps\<close>

text \<open>The success of an operation, one statement at a time.\<close>

lemmas op_ok = res_bind_ok early_return_ok Let_def sum.inject prod.inject

lemma ensure_task_steps:
  assumes "ensure_task b now s = (inserted, s')"
  shows "row_steps s s'" "exists_where (\<lambda>t. t_id t = b_task_id b) (tasks s')"
proof -
  show "row_steps s s'"
  proof (cases "exists_where (\<lambda>t. t_id t = b_task_id b) (tasks s)")
    case True
    then show ?thesis using assms by (simp add: ensure_task_def)
  next
    case False
    let ?t = "\<lparr>t_id = b_task_id b, t_conversation_id = b_conversation_id b, t_task_kind = ''work'',
      t_initial_outcome_digest = b_instruction_digest b, t_status = TaskRunning,
      t_updated_at = now\<rparr>"
    have "row_step s (s\<lparr>tasks := tasks s @ [?t]\<rparr>)"
      by (rule task_added) (use False in \<open>auto simp: find_task_def find_None_iff\<close>)
    then show ?thesis using assms False by (auto simp: ensure_task_def)
  qed
  show "exists_where (\<lambda>t. t_id t = b_task_id b) (tasks s')"
    using assms by (auto simp: ensure_task_def split: if_splits)
qed

lemma insert_run_steps:
  assumes "insert_run (new_run_row b (next_run_ordinal s (b_task_id b)) now) s = Inr s'"
    and "exists_where (\<lambda>t. t_id t = b_task_id b) (tasks s)"
  shows "row_steps s s'"
proof (cases "exists_where (\<lambda>x. r_run_id x = b_run_id b) (runs s)")
  case True
  then show ?thesis using assms by (auto simp: insert_run_def new_run_row_def)
next
  case False
  let ?r = "new_run_row b (next_run_ordinal s (b_task_id b)) now"
  have "row_step s (s\<lparr>runs := runs s @ [?r]\<rparr>)"
    by (rule run_added)
      (use assms(2) False in
        \<open>auto simp: find_run_id_def find_task_def find_None_iff new_run_row_def\<close>)
  then show ?thesis using assms False by (auto simp: insert_run_def new_run_row_def)
qed

lemma admit_revision_steps: "admit_revision b v s = Inr s' \<Longrightarrow> row_steps s s'"
  by (auto simp: admit_revision_def Let_def split: option.splits if_splits
      intro: one_step note_revision)

lemma bind_run_items_steps: "bind_run_items e b rv now s = Inr s' \<Longrightarrow> row_steps s s'"
  unfolding bind_run_items_def
  by (auto split: option.splits dest!: ensure_completed_item_steps intro: steps_trans)

lemma set_task_status_step: "row_step s (set_task_status p st now s)"
  by (rule task_moved)

lemma reopen_task_steps: "row_steps s (reopen_task b existed st now s)"
proof (cases "existed")
  case False
  let ?s1 = "s\<lparr>deferred_results := filter (\<lambda>d. d_task_id d \<noteq> b_task_id b) (deferred_results s)\<rparr>"
  have "row_steps s (if st = TaskCompleted then ?s1 else s)"
    by (auto intro: one_step deferred_dropped)
  moreover have "row_step (if st = TaskCompleted then ?s1 else s) (reopen_task b existed st now s)"
    using False task_moved [where p = "\<lambda>t. t_id t = b_task_id b" and st = TaskRunning and now = now
        and s = "if st = TaskCompleted then ?s1 else s"]
    by (simp add: reopen_task_def set_task_status_def split: if_splits)
  ultimately show ?thesis by (rule then_step)
qed (simp add: reopen_task_def)

lemma begin_internal_steps:
  assumes "begin_general_task_run_internal e now b v s = Inr (r, s')"
  shows "row_steps s s'"
proof -
  obtain ins s1 where e1: "ensure_task b now s = (ins, s1)" by (cases "ensure_task b now s")
  obtain s2 s3 s4 existed st where
    "insert_run (new_run_row b (next_run_ordinal s1 (b_task_id b)) now) s1 = Inr s2"
    "admit_revision b v s2 = Inr s3" "bind_run_items e b (v \<noteq> None) now s3 = Inr s4"
    "s' = reopen_task b existed st now s4"
    using assms
    by (simp only: begin_general_task_run_internal_def e1 prod.case op_ok)
      (elim exE conjE, rule that, assumption+, erule sym)
  then show ?thesis
    using ensure_task_steps [OF e1]
    by (metis admit_revision_steps bind_run_items_steps insert_run_steps reopen_task_steps
        steps_trans)
qed


lemma begin_revision_steps:
  assumes "begin_artifact_revision_run e now b v s = Inr (r, s')"
  shows "row_steps s s'"
  using assms begin_internal_steps by (simp only: begin_artifact_revision_run_def op_ok) blast

lemma begin_steps: "begin_general_task_run e now b s = Inr (r, s') \<Longrightarrow> row_steps s s'"
  unfolding begin_general_task_run_def by (rule begin_internal_steps)

lemma bind_skill_steps:
  assumes "bind_general_run_selected_skill e now task_id run_id sk s = Inr (r, s')"
  shows "row_steps s s'"
proof -
  have "s' = s \<or> (\<exists>p. s' = s\<lparr>runs := update_where p
          (\<lambda>r. r\<lparr>r_selected_skill_id := sk, r_updated_at := now\<rparr>) (runs s)\<rparr>)"
    using assms
    by (simp only: bind_general_run_selected_skill_def op_ok) (auto split: if_splits)
  then show ?thesis by (metis one_step rtranclp.rtrancl_refl skill_bound)
qed

lemma begin_attempt_steps:
  assumes "begin_item_attempt e now b s = Inr (r, s')"
  shows "row_steps s s'"
proof -
  obtain item s1 where *: "find_item s (ba_item_id b) = Some item"
    "i_task_id item = ba_task_id b" "i_run_id item = ba_run_id b"
    "insert_attempt (new_attempt_row b (next_attempt_ordinal s (ba_item_id b)) now) s = Inr s1"
    "s' = set_item_status (ba_item_id b) ItemRunning now s1"
    using assms by (simp only: begin_item_attempt_def op_ok ok_or_ok) blast
  have "row_step s (set_item_status
    (a_item_id (new_attempt_row b (next_attempt_ordinal s (ba_item_id b)) now)) ItemRunning now s1)"
    by (rule attempt_begun [where i = item]) (use * in \<open>simp_all add: new_attempt_row_def\<close>)
  then show ?thesis using * by (simp add: one_step new_attempt_row_def)
qed

lemma append_item_steps:
  assumes "append_general_item e now task_id run_id item_id kind code digest s = Inr (i, s')"
  shows "row_steps s s'"
proof -
  have "s' = s \<or> (\<exists>row. insert_item row s = Inr s')"
    using assms
    by (simp only: append_general_item_def op_ok) (auto split: option.splits if_splits)
  then show ?thesis by (metis item_added one_step rtranclp.rtrancl_refl)
qed

lemma complete_appended_steps:
  assumes "complete_appended_item now item kind code digest s = Inr (i, s')"
  shows "row_steps s s'"
proof -
  have "s' = s\<lparr>items := update_where (\<lambda>j. i_id j = i_id item \<and> i_status j = ItemWaiting)
          (\<lambda>j. j\<lparr>i_status := ItemCompleted, i_updated_at := now\<rparr>) (items s)\<rparr>"
    using assms by (simp only: complete_appended_item_def op_ok) blast
  then show ?thesis by (simp add: one_step item_moved)
qed

lemma append_completed_steps:
  "row_steps s (snd (append_completed e now kind task_id run_id item_id code digest s))"
  by (auto simp: append_completed_def split: sum.splits
      intro: append_item_steps steps_trans [OF append_item_steps complete_appended_steps])

definition settled_attempt ::
  "string \<Rightarrow> CanonicalTaskItemStatus \<Rightarrow> string option \<Rightarrow> int \<Rightarrow> CanonicalTaskItemAttemptRecord \<Rightarrow>
   store \<Rightarrow> store"
where
  "settled_attempt attempt_id st rd now a s =
     set_item_status (a_item_id a) st now (s\<lparr>item_attempts := update_where
        (\<lambda>a. a_attempt_id a = attempt_id \<and> a_status a = ItemRunning)
        (\<lambda>a. a\<lparr>a_status := st, a_receipt_digest := rd, a_finished_at := Some now\<rparr>)
        (item_attempts s)\<rparr>)"

lemma terminalize_attempt_store:
  assumes "terminalize_item_attempt e now attempt_id st rd s = Inr (r, s')"
    and "find_attempt s attempt_id = Some a"
  shows "terminal_item_status st \<and>
    s' = (if a_status a = ItemRunning then settled_attempt attempt_id st rd now a s else s)"
proof -
  have "terminal_item_status st"
    using assms(1) unfolding terminalize_item_attempt_def
    by (simp only: op_ok first_failure_ok list.set ball_simps bail_if_ok) blast
  moreover have "s' = (if a_status a = ItemRunning then settled_attempt attempt_id st rd now a s else s)"
  proof (cases "a_status a = ItemRunning")
    case True
    then show ?thesis
      using assms(1) unfolding terminalize_item_attempt_def assms(2) settled_attempt_def
      by (simp only: op_ok ok_or_ok option.inject) (elim exE conjE, simp)
  next
    case False
    then show ?thesis
      using assms(1) unfolding terminalize_item_attempt_def assms(2)
      by (simp only: op_ok ok_or_ok option.inject) (elim exE conjE, simp split: if_splits)
  qed
  ultimately show ?thesis by blast
qed

lemma terminalize_attempt_steps:
  assumes "terminalize_item_attempt e now attempt_id st rd s = Inr (r, s')"
  shows "row_steps s s'"
proof -
  obtain a where a: "find_attempt s attempt_id = Some a"
    using assms unfolding terminalize_item_attempt_def by (simp only: op_ok ok_or_ok) blast
  note store = terminalize_attempt_store [OF assms a]
  then have "st \<noteq> ItemWaiting" by (auto simp: terminal_item_status_def)
  then have "row_steps s (settled_attempt attempt_id st rd now a s)"
    unfolding settled_attempt_def
    by (intro then_step [OF one_step [OF attempt_settled] set_item_status_step])
  then show ?thesis using store by simp
qed

lemma close_run_steps:
  assumes "find_run s (f_task_id f) (f_run_id f) = Some r" "r_status r = TaskRunning"
    "count_where (unsettled (f_task_id f) (f_run_id f)) (items s) = 0"
    "insert_final_result f s = Inr s1"
  shows "row_steps s (close_run (f_task_id f) (f_run_id f) now s1)"
proof -
  let ?s2 = "set_run_status (is_run (f_task_id f) (f_run_id f)) TaskCompleted now s1"
  let ?s3 = "set_task_status (\<lambda>t. t_id t = f_task_id f) TaskCompleted now ?s2"
  have "row_step s ?s2" by (rule run_completed [OF assms])
  moreover have "row_step ?s2 ?s3" by (rule task_moved)
  moreover have "row_step ?s3 (resolve_attention (f_task_id f) now ?s3)"
    unfolding resolve_attention_def by (rule note_attention)
  ultimately show ?thesis
    unfolding close_run_def by (rule then_step [OF then_step [OF one_step]])
qed

lemma completed_item_frame:
  assumes "ensure_completed_item item_id task_id run_id KindFinalResult code digest now s = Inr s'"
    and "count_where (unsettled task_id run_id) (items s) = 0"
  shows "count_where (unsettled task_id run_id) (items s') = 0 \<and>
    find_run s' = find_run s \<and> final_results s' = final_results s"
  using assms
  by (auto simp: ensure_completed_item_def insert_item_def unsettled_def find_run_def fun_eq_iff
      split: option.splits if_splits)

lemma complete_replay_store:
  assumes "complete_general_task e now c s = Inr (r, s')"
    and "find_run s (c_task_id c) (c_run_id c) = Some run" "r_status run \<noteq> TaskRunning"
  shows "s' = s \<and> load_final_result_in_tx e (c_task_id c) s = Inr (Some r) \<and> same_result c r"
proof -
  obtain existing where x: "load_final_result_in_tx e (c_task_id c) s = Inr existing"
    and "(case existing of None \<Rightarrow> Inl (Bail ''canonical_general_task_run_not_running'')
          | Some r \<Rightarrow> if same_result c r then Inr (r, s)
                      else Inl (Bail ''canonical_general_task_run_not_running'')) = Inr (r, s')"
    using assms(1,3)
    unfolding complete_general_task_def assms(2)
    by (simp only: op_ok ok_or_ok option.inject if_True not_not simp_thms) blast
  then show ?thesis
    by (cases existing) (auto simp: x split: if_splits)
qed

lemma complete_running_store:
  assumes "complete_general_task e now c s = Inr (r, s')"
    and "find_run s (c_task_id c) (c_run_id c) = Some run" "r_status run = TaskRunning"
  shows "\<exists>json s1 s2. validate_complete e c = Inr json \<and>
    count_where (unsettled (c_task_id c) (c_run_id c)) (items s) = 0 \<and>
    ensure_completed_item (c_final_item_id c) (c_task_id c) (c_run_id c)
      KindFinalResult (c_summary_code c) (c_result_digest c) now s = Inr s1 \<and>
    insert_final_result (final_row c json now) s1 = Inr s2 \<and>
    s' = close_run (c_task_id c) (c_run_id c) now s2 \<and>
    load_final_result_in_tx e (c_task_id c) s' = Inr (Some r)"
  using assms(1,3) unfolding complete_general_task_def assms(2)
  by (simp only: op_ok ok_or_ok option.inject if_False not_not simp_thms) blast

lemma complete_find_run:
  assumes "complete_general_task e now c s = Inr (r, s')"
  shows "\<exists>run. find_run s (c_task_id c) (c_run_id c) = Some run"
  using assms unfolding complete_general_task_def by (simp only: op_ok ok_or_ok) blast

lemma complete_steps:
  assumes "complete_general_task e now c s = Inr (r, s')"
  shows "row_steps s s'"
proof -
  obtain run where run: "find_run s (c_task_id c) (c_run_id c) = Some run"
    using complete_find_run [OF assms] by blast
  show ?thesis
  proof (cases "r_status run = TaskRunning")
    case False
    then show ?thesis using complete_replay_store [OF assms run] by simp
  next
    case True
    then obtain json s1 s2 where a:
      "count_where (unsettled (c_task_id c) (c_run_id c)) (items s) = 0"
      "ensure_completed_item (c_final_item_id c) (c_task_id c) (c_run_id c)
         KindFinalResult (c_summary_code c) (c_result_digest c) now s = Inr s1"
      "insert_final_result (final_row c json now) s1 = Inr s2"
      "s' = close_run (c_task_id c) (c_run_id c) now s2"
      using complete_running_store [OF assms run] by blast
    have "row_steps s1 s'"
      using close_run_steps [where f = "final_row c json now" and s = s1 and ?s1.0 = s2 and r = run
          and now = now] a run True completed_item_frame [OF a(2,1)]
      by (simp add: final_row_def)
    then show ?thesis using ensure_completed_item_steps [OF a(2)] by (rule steps_trans [rotated])
  qed
qed


lemma defer_steps:
  assumes "defer_general_task_result e d s = Inr (r, s')"
  shows "row_steps s s'"
proof -
  obtain row where "insert_deferred_result row s = Inr s'"
    using assms unfolding defer_general_task_result_def by (simp only: op_ok) blast
  then show ?thesis by (rule one_step [OF result_deferred])
qed

text \<open>The code of a terminal run status is the code of the item status of the same name.\<close>

lemma terminal_item_code:
  "terminal_status_ok st \<Longrightarrow>
   \<exists>ist. item_status_from_db (task_status_as_str st) = Inr ist \<and> ist \<notin> {ItemWaiting, ItemRunning} \<and>
     item_status_as_str ist = task_status_as_str st"
  by (auto simp: terminal_status_ok_def item_status_from_db_def from_db_def ok_or_def)

definition settled_run ::
  "string \<Rightarrow> string \<Rightarrow> CanonicalTaskStatus \<Rightarrow> CanonicalTaskItemStatus \<Rightarrow> int \<Rightarrow> store \<Rightarrow> store"
where
  "settled_run task_id run_id st ist now s =
     (let s2 = settle_items task_id run_id ist now
                 (set_run_status (open_run task_id run_id) st now s);
          s3 = (if st \<in> {TaskCancelled, TaskInterrupted} then cancel_reviews task_id run_id now s2
                else s2)
      in set_task_status (\<lambda>t. t_id t = task_id) st now (settle_attempts task_id run_id ist now s3))"

lemma terminalize_run_store:
  assumes "terminalize_general_run e now task_id run_id st s = Inr (r, s')"
  shows "terminal_status_ok st \<and>
    (\<exists>ist. item_status_from_db (task_status_as_str st) = Inr ist \<and>
           s' = settled_run task_id run_id st ist now s)"
  using assms unfolding terminalize_general_run_def settled_run_def
  by (simp only: op_ok first_failure_ok list.set ball_simps bail_if_ok map_err_ok) blast

lemma settled_run_steps:
  assumes "terminal_status_ok st" "ist \<noteq> ItemWaiting"
  shows "row_steps s (settled_run task_id run_id st ist now s)"
proof -
  let ?s1 = "set_run_status (open_run task_id run_id) st now s"
  let ?s2 = "settle_items task_id run_id ist now ?s1"
  let ?s3 = "if st \<in> {TaskCancelled, TaskInterrupted} then cancel_reviews task_id run_id now ?s2
             else ?s2"
  have "row_steps s ?s1"
    by (rule one_step, rule run_closed) (use assms(1) in \<open>simp_all add: open_run_def\<close>)
  moreover have "row_step ?s1 ?s2" using assms(2) by (rule settle_items_step)
  moreover have "row_steps ?s2 ?s3"
    by (simp add: cancel_reviews_def one_step note_review)
  ultimately have "row_steps s ?s3" by (rule steps_trans [OF then_step])
  then have "row_steps s (settle_attempts task_id run_id ist now ?s3)"
    by (rule then_step) (rule attempts_closed)
  then show ?thesis
    unfolding settled_run_def Let_def by (rule then_step) (rule task_moved)
qed

lemma terminalize_run_steps:
  "terminalize_general_run e now task_id run_id st s = Inr (r, s') \<Longrightarrow> row_steps s s'"
  using terminalize_run_store terminal_item_code settled_run_steps
  by (metis insertCI sum.inject(2))

text \<open>The recovery interrupts runs that are running; it keeps the list of run keys.\<close>

lemma interrupt_run_runs:
  "runs (interrupt_run now k s) =
     update_where (is_run (fst k) (snd k))
       (\<lambda>r. r\<lparr>r_status := TaskInterrupted, r_updated_at := now, r_completed_at := Some now\<rparr>) (runs s)"
  by (simp add: interrupt_run_def set_run_status_def settle_items_def settle_attempts_def
      set_task_status_def Let_def)

lemma interrupt_run_steps:
  assumes "\<forall>r \<in> set (runs s). run_key r = k \<longrightarrow> r_status r \<in> {TaskRunning, TaskWaitingReview}"
  shows "row_steps s (interrupt_run now k s)"
proof -
  let ?p = "\<lambda>r. is_run (fst k) (snd k) r \<and> r_status r \<in> {TaskRunning, TaskWaitingReview}"
  have same: "set_run_status (is_run (fst k) (snd k)) TaskInterrupted now s =
      set_run_status ?p TaskInterrupted now s"
    using assms
    by (cases k) (auto simp: set_run_status_def update_where_def is_run_def run_key_def
        intro!: arg_cong [where f = "\<lambda>x. runs_update (\<lambda>_. x) s"])
  have "row_step s (set_run_status ?p TaskInterrupted now s)"
    by (rule run_closed) (auto simp: terminal_status_ok_def)
  then have "row_step s (set_run_status (is_run (fst k) (snd k)) TaskInterrupted now s)"
    unfolding same .
  then have "row_steps s (settle_items (fst k) (snd k) ItemInterrupted now
      (set_run_status (is_run (fst k) (snd k)) TaskInterrupted now s))"
    by (intro then_step [OF one_step settle_items_step]) simp_all
  then show ?thesis
    unfolding interrupt_run_def Let_def
    by (intro then_step [OF then_step [OF _ attempts_closed] task_moved])
qed

lemma interrupt_runs_steps:
  assumes "distinct ks" "distinct (map r_run_id (runs s))"
    and "\<forall>k \<in> set ks. \<forall>r \<in> set (runs s). run_key r = k \<longrightarrow>
           r_status r \<in> {TaskRunning, TaskWaitingReview}"
  shows "row_steps s (fold (interrupt_run now) ks s)"
  using assms
proof (induction ks arbitrary: s)
  case (Cons k ks)
  have "row_steps s (interrupt_run now k s)"
    by (rule interrupt_run_steps) (use Cons.prems in simp)
  moreover have "row_steps (interrupt_run now k s) (fold (interrupt_run now) ks (interrupt_run now k s))"
  proof (rule Cons.IH)
    show "distinct ks" using Cons.prems by simp
    show "distinct (map r_run_id (runs (interrupt_run now k s)))"
      using Cons.prems(2) by (subst interrupt_run_runs, subst map_update_where) simp_all
    show "\<forall>j \<in> set ks. \<forall>r \<in> set (runs (interrupt_run now k s)). run_key r = j \<longrightarrow>
        r_status r \<in> {TaskRunning, TaskWaitingReview}"
      using Cons.prems
      by (auto simp: interrupt_run_runs set_update_where is_run_def run_key_def split: if_splits)
  qed
  ultimately show ?case by (simp add: steps_trans)
qed simp

lemma recover_steps:
  assumes "recover_interrupted_general_runs now s = Inr (n, s')"
    and "distinct (map r_run_id (runs s))"
  shows "row_steps s s'"
proof -
  have inj: "inj_on run_key (set (runs s))"
    using assms(2) by (auto simp: distinct_map run_key_def inj_on_def)
  let ?ks = "map run_key (filter (recoverable s) (runs s))"
  have "row_steps s (fold (interrupt_run now) ?ks s)"
  proof (rule interrupt_runs_steps)
    show "distinct ?ks"
      using assms(2) inj by (auto simp: distinct_map intro: inj_on_subset)
    show "\<forall>k \<in> set ?ks. \<forall>r \<in> set (runs s). run_key r = k \<longrightarrow>
        r_status r \<in> {TaskRunning, TaskWaitingReview}"
      using inj by (auto simp: recoverable_def dest: inj_onD)
  qed (rule assms(2))
  then show ?thesis
    using assms(1) by (simp add: recover_interrupted_general_runs_def Let_def)
qed


text \<open>The stored plan behind a loaded record.\<close>

lemma load_work_plan_row:
  assumes "load_work_plan_in_tx e run_id s = Inr (Some p)"
  shows "\<exists>w. find_plan s run_id = Some w \<and> w_task_id w = p_task_id p \<and> w_run_id w = run_id \<and>
    w_plan_revision w = p_plan_revision p \<and> w_budget_policy w = p_budget_policy p \<and>
    w_plan_digest w = p_plan_digest p \<and> sha256_text e (w_plan_json w) = w_plan_digest w \<and>
    plan_of_json e (w_plan_json w) = Some (p_plan p)"
  using assms
  by (auto simp: load_work_plan_in_tx_def row_to_work_plan_record_def find_plan_def
      split: option.splits if_splits dest!: find_Some_mem)

lemma persist_plan_store:
  assumes "persist_work_plan e now task_id run_id revision plan policy s = Inr (r, s')"
  shows "s' = s \<or> (\<exists>run json s1. find_run s task_id run_id = Some run \<and> r_status run = TaskRunning \<and>
    r_plan_revision run = revision \<and> load_work_plan_in_tx e run_id s = Inr None \<and>
    encode_plan e plan = Inr json \<and>
    insert_work_plan (plan_row e task_id run_id revision plan json policy now) s = Inr s1 \<and>
    insert_work_plan_revision (plan_row e task_id run_id revision plan json policy now) s1 = Inr s')"
proof -
  obtain json run loaded where a: "encode_plan e plan = Inr json"
    "find_run s task_id run_id = Some run" "\<not> r_status run \<noteq> TaskRunning"
    "\<not> r_plan_revision run \<noteq> revision" "load_work_plan_in_tx e run_id s = Inr loaded"
    and rest: "(case loaded of
         Some existing \<Rightarrow>
           if p_task_id existing \<noteq> task_id \<or> p_plan_revision existing \<noteq> revision \<or>
              p_plan_digest existing \<noteq> sha256_text e json \<or> p_plan existing \<noteq> plan \<or>
              p_budget_policy existing \<noteq> policy
           then Inl (Bail ''canonical_work_plan_identity_conflict'')
           else Inr (existing, s)
       | None \<Rightarrow>
           res_bind (to_i64 revision) (\<lambda>_.
           res_bind (insert_work_plan (plan_row e task_id run_id revision plan json policy now) s) (\<lambda>s1.
           res_bind (insert_work_plan_revision
             (plan_row e task_id run_id revision plan json policy now) s1) (\<lambda>s2.
           res_bind (load_work_plan_in_tx e run_id s2) (\<lambda>persisted.
           res_bind (ok_or (Bail ''canonical_work_plan_missing_after_insert'') persisted) (\<lambda>p.
           Inr (p, s2))))))) = Inr (r, s')"
    using assms unfolding persist_work_plan_def by (simp only: op_ok ok_or_ok) blast
  show ?thesis
  proof (cases loaded)
    case None
    have "\<exists>s1. insert_work_plan (plan_row e task_id run_id revision plan json policy now) s = Inr s1 \<and>
      insert_work_plan_revision (plan_row e task_id run_id revision plan json policy now) s1 = Inr s'"
      using rest unfolding None option.case by (simp only: op_ok) blast
    then show ?thesis using a None by blast
  next
    case (Some existing)
    then show ?thesis using rest by (simp only: option.case op_ok) simp
  qed
qed

lemma persist_plan_steps:
  assumes "persist_work_plan e now task_id run_id revision plan policy s = Inr (r, s')"
  shows "row_steps s s'"
  using persist_plan_store [OF assms]
proof (elim disjE exE conjE)
  fix run json s1
  assume a: "find_run s task_id run_id = Some run" "r_status run = TaskRunning"
    "r_plan_revision run = revision"
    "insert_work_plan (plan_row e task_id run_id revision plan json policy now) s = Inr s1"
    "insert_work_plan_revision (plan_row e task_id run_id revision plan json policy now) s1 = Inr s'"
  show ?thesis
    by (rule one_step, rule plan_persisted [OF _ a(2) _ a(4,5)]) (simp_all add: plan_row_def a)
qed simp

lemma revise_plan_store:
  assumes "revise_work_plan e now task_id run_id base plan s = Inr (r, s')"
  shows "\<exists>json w c1 c2 c3. encode_plan e plan = Inr json \<and> find_plan s run_id = Some w \<and>
    w_task_id w = task_id \<and> w_plan_revision w = base \<and>
    advance_plan e now c1 c2 c3 task_id run_id base plan json (w_budget_policy w) s = Inr s' \<and>
    load_work_plan_in_tx e run_id s' = Inr (Some r)"
proof -
  obtain json current c1 c2 c3 where a: "encode_plan e plan = Inr json"
    "load_work_plan_in_tx e run_id s = Inr (Some current)"
    "\<not> (p_task_id current \<noteq> task_id \<or> p_plan_revision current \<noteq> base)"
    "advance_plan e now c1 c2 c3 task_id run_id base plan json (p_budget_policy current) s = Inr s'"
    "load_work_plan_in_tx e run_id s' = Inr (Some r)"
    using assms unfolding revise_work_plan_def
    by (simp only: op_ok ok_or_ok) ((elim exE conjE, hypsubst+), rule that, assumption+)
  then show ?thesis using load_work_plan_row [OF a(2)] by metis
qed

lemma revise_plan_steps:
  "revise_work_plan e now task_id run_id base plan s = Inr (r, s') \<Longrightarrow> row_steps s s'"
  using revise_plan_store plan_advanced one_step by metis

lemma submit_steering_store:
  assumes "submit_steering e now i s = Inr (r, s')"
  shows "s' = s \<or> (\<exists>u s1. load_steering_in_tx s (ss_steering_id i) = None \<and>
    steering_admission (ss_task_id i) (ss_run_id i) (ss_base_plan_revision i) s = Inr u \<and>
    insert_item (steering_item e i (next_sequence s (ss_task_id i)) now) s = Inr s1 \<and>
    insert_steering (steering_row e i now) s1 = Inr s')"
proof (cases "load_steering_in_tx s (ss_steering_id i)")
  case None
  then show ?thesis
    using assms unfolding submit_steering_def None option.case
    by (simp only: op_ok) blast
next
  case (Some existing)
  then show ?thesis
    using assms unfolding submit_steering_def by (simp only: op_ok option.case) (elim exE conjE, simp)
qed

lemma insert_item_frame:
  "insert_item i s = Inr s' \<Longrightarrow> s' = s\<lparr>items := items s @ [i]\<rparr>"
  by (simp add: insert_item_def split: if_splits)

lemma submit_steering_steps:
  assumes "submit_steering e now i s = Inr (r, s')"
  shows "row_steps s s'"
  using submit_steering_store [OF assms]
proof (elim disjE exE conjE)
  fix u s1
  assume a: "steering_admission (ss_task_id i) (ss_run_id i) (ss_base_plan_revision i) s = Inr u"
    "insert_item (steering_item e i (next_sequence s (ss_task_id i)) now) s = Inr s1"
    "insert_steering (steering_row e i now) s1 = Inr s'"
  have "\<not> exists_where (pending_of (ss_task_id i) (ss_run_id i)) (steerings s)"
    using a(1) unfolding steering_admission_def
    by (simp only: op_ok first_failure_ok list.set ball_simps bail_if_ok) blast
  then have "row_step s1 s'"
    using insert_item_frame [OF a(2)]
    by (intro steering_submitted [OF _ _ _ a(3)]) (simp_all add: steering_row_def)
  then show ?thesis using a(2) by (metis item_added one_step then_step)
qed simp


lemma apply_steering_store:
  assumes "apply_pending_steering_plan e now steering_id plan s = Inr (r, s')"
  shows "\<exists>json x w c1 c2 c3 s1 changed s2. load_steering_in_tx s steering_id = Some x \<and>
    s_status x = SteeringPending \<and> encode_plan e plan = Inr json \<and>
    find_plan s (s_run_id x) = Some w \<and> w_task_id w = s_task_id x \<and>
    w_plan_revision w = s_base_plan_revision x \<and>
    advance_plan e now c1 c2 c3 (s_task_id x) (s_run_id x) (s_base_plan_revision x) plan json
      (w_budget_policy w) s = Inr s1 \<and>
    close_steering steering_id SteeringApplied ''work_steering_plan_applied''
      (Some (s_base_plan_revision x + 1)) now s1 = (changed, s2) \<and>
    s' = settle_steering_item (s_item_id x) ItemCompleted ''work_steering_applied'' now s2"
proof -
  obtain json x current c1 c2 c3 s1 changed s2 where a: "load_steering_in_tx s steering_id = Some x"
    "\<not> s_status x \<noteq> SteeringPending" "encode_plan e plan = Inr json"
    "load_work_plan_in_tx e (s_run_id x) s = Inr (Some current)"
    "\<not> (p_task_id current \<noteq> s_task_id x \<or> p_plan_revision current \<noteq> s_base_plan_revision x)"
    "advance_plan e now c1 c2 c3 (s_task_id x) (s_run_id x) (s_base_plan_revision x) plan json
       (p_budget_policy current) s = Inr s1"
    "close_steering steering_id SteeringApplied ''work_steering_plan_applied''
       (Some (s_base_plan_revision x + 1)) now s1 = (changed, s2)"
    "settle_steering_item (s_item_id x) ItemCompleted ''work_steering_applied'' now s2 = s'"
    using assms unfolding apply_pending_steering_plan_def case_prod_beta
    by (simp only: op_ok ok_or_ok)
      (elim exE conjE, rule that, assumption, assumption, assumption, simp, assumption, assumption,
        rule prod.collapse [symmetric], assumption)
  have "\<exists>w. find_plan s (s_run_id x) = Some w \<and> w_task_id w = p_task_id current \<and>
      w_plan_revision w = p_plan_revision current \<and> w_budget_policy w = p_budget_policy current"
    using load_work_plan_row [OF a(4)] by blast
  then obtain w where w: "find_plan s (s_run_id x) = Some w" "w_task_id w = p_task_id current"
      "w_plan_revision w = p_plan_revision current" "w_budget_policy w = p_budget_policy current"
    by blast
  show ?thesis
    by (rule exI [of _ json], rule exI [of _ x], rule exI [of _ w], intro exI conjI,
        rule a(1), use a(2) in simp, rule a(3), rule w(1), use w a(5) in simp, use w a(5) in simp,
        use w(4) a(6) in simp, rule a(7), rule a(8) [symmetric])
qed

lemma apply_steering_steps:
  assumes "apply_pending_steering_plan e now steering_id plan s = Inr (r, s')"
  shows "row_steps s s'"
proof -
  obtain x :: CanonicalSteeringRecord and s2 where "row_step s s2"
    "s' = settle_steering_item (s_item_id x) ItemCompleted ''work_steering_applied'' now s2"
    using apply_steering_store [OF assms] steering_applied by metis
  then show ?thesis by (simp add: then_step [OF one_step steering_item_moved])
qed

lemma resolve_steering_store:
  assumes "resolve_pending_steering now steering_id st code s = Inr (r, s')"
  shows "\<exists>x s1. load_steering_in_tx s steering_id = Some x \<and>
    st \<in> {SteeringRejected, SteeringBlocked} \<and>
    close_steering steering_id st code None now s = (1, s1) \<and>
    s' = settle_steering_item (s_item_id x)
           (if st = SteeringBlocked then ItemBlocked else ItemFailed) code now s1"
proof -
  obtain x where a: "load_steering_in_tx s steering_id = Some x"
    "\<not> st \<notin> {SteeringRejected, SteeringBlocked}"
    "\<not> fst (close_steering steering_id st code None now s) \<noteq> 1"
    "settle_steering_item (s_item_id x) (if st = SteeringBlocked then ItemBlocked else ItemFailed)
       code now (snd (close_steering steering_id st code None now s)) = s'"
    using assms unfolding resolve_pending_steering_def case_prod_beta
    by (simp only: op_ok ok_or_ok first_failure_ok list.set ball_simps bail_if_ok) blast
  then show ?thesis
    by (intro exI [of _ x] exI [of _ "snd (close_steering steering_id st code None now s)"])
      (simp add: prod_eq_iff)
qed

lemma resolve_steering_steps:
  assumes "resolve_pending_steering now steering_id st code s = Inr (r, s')"
  shows "row_steps s s'"
proof -
  obtain x :: CanonicalSteeringRecord and s1 where a: "st \<in> {SteeringRejected, SteeringBlocked}"
    "close_steering steering_id st code None now s = (1, s1)"
    "s' = settle_steering_item (s_item_id x)
           (if st = SteeringBlocked then ItemBlocked else ItemFailed) code now s1"
    using resolve_steering_store [OF assms] by blast
  have "row_step s s1" using a(1,2) by (rule steering_resolved)
  then show ?thesis
    unfolding a(3) by (rule then_step [OF one_step steering_item_moved]) simp
qed

end
