(* ===== verification/Task_Invariant.thy ===== *)
theory Task_Invariant
  imports Task_Steps
begin

text \<open>
  The calls of the task store as one machine and the invariant of its tables: keys and
  references, completed runs and their results, attempted items, plans and their
  histories. Every step keeps each part; the steering part follows in \<open>Task_Safety\<close>.
\<close>

section \<open>The calls\<close>

datatype store_call =
  CallBegin BeginGeneralTaskRunInput
| CallRevision BeginGeneralTaskRunInput ArtifactRevisionTargetInput
| CallBindSkill string string "string option"
| CallBeginAttempt BeginItemAttemptInput
| CallAppendItem string string string CanonicalTaskItemKind string string
| CallObservation string string string string string
| CallPlanItem string string string string string
| CallTerminalizeAttempt string CanonicalTaskItemStatus "string option"
| CallComplete CompleteGeneralTaskInput
| CallDefer DeferGeneralTaskResultInput
| CallTerminalizeRun string string CanonicalTaskStatus
| CallRecover
| CallPersistPlan string string nat StructuredWorkPlan WorkRunBudgetPolicy
| CallRevisePlan string string nat StructuredWorkPlan
| CallSubmitSteering SubmitSteeringInput
| CallApplySteering string StructuredWorkPlan
| CallResolveSteering string CanonicalSteeringStatus string

definition stored :: "'a tx \<Rightarrow> store_error + store" where
  "stored r = res_bind r (\<lambda>x. Inr (snd x))"

lemma stored_ok [simp, res_simps]: "stored r = Inr s' \<longleftrightarrow> (\<exists>x. r = Inr (x, s'))"
  by (cases r) (auto simp: stored_def)

text \<open>
  The store after a call at the time \<open>now\<close>; the two calls of two transactions always
  leave a store, the one of their first transaction when the second is refused.
\<close>

fun store_step :: "env \<Rightarrow> int \<times> store_call \<Rightarrow> store \<Rightarrow> store_error + store" where
  "store_step e (now, CallBegin b) s = stored (begin_general_task_run e now b s)"
| "store_step e (now, CallRevision b v) s = stored (begin_artifact_revision_run e now b v s)"
| "store_step e (now, CallBindSkill t r sk) s = stored (bind_general_run_selected_skill e now t r sk s)"
| "store_step e (now, CallBeginAttempt b) s = stored (begin_item_attempt e now b s)"
| "store_step e (now, CallAppendItem t r i k c d) s = stored (append_general_item e now t r i k c d s)"
| "store_step e (now, CallObservation t r i c d) s =
     Inr (snd (append_completed_observation e now t r i c d s))"
| "store_step e (now, CallPlanItem t r i c d) s =
     Inr (snd (append_completed_plan_item e now t r i c d s))"
| "store_step e (now, CallTerminalizeAttempt a st rd) s =
     stored (terminalize_item_attempt e now a st rd s)"
| "store_step e (now, CallComplete c) s = stored (complete_general_task e now c s)"
| "store_step e (now, CallDefer d) s = stored (defer_general_task_result e d s)"
| "store_step e (now, CallTerminalizeRun t r st) s = stored (terminalize_general_run e now t r st s)"
| "store_step e (now, CallRecover) s = stored (recover_interrupted_general_runs now s)"
| "store_step e (now, CallPersistPlan t r n p b) s = stored (persist_work_plan e now t r n p b s)"
| "store_step e (now, CallRevisePlan t r n p) s = stored (revise_work_plan e now t r n p s)"
| "store_step e (now, CallSubmitSteering i) s = stored (submit_steering e now i s)"
| "store_step e (now, CallApplySteering i p) s = stored (apply_pending_steering_plan e now i p s)"
| "store_step e (now, CallResolveSteering i st c) s = stored (resolve_pending_steering now i st c s)"

lemma store_step_rows:
  assumes "store_step e c s = Inr s'" and "distinct (map r_run_id (runs s))"
  shows "row_steps s s'"
  using assms(1)
  by (cases "(e, c, s)" rule: store_step.cases)
     (auto simp: append_completed_observation_def append_completed_plan_item_def
       intro: begin_steps begin_revision_steps bind_skill_steps begin_attempt_steps
         append_item_steps append_completed_steps terminalize_attempt_steps complete_steps
         defer_steps terminalize_run_steps recover_steps [OF _ assms(2)] persist_plan_steps
         revise_plan_steps submit_steering_steps apply_steering_steps resolve_steering_steps)

section \<open>The invariant\<close>

text \<open>An item with an attempt is not waiting: it was set running with its first attempt.\<close>

definition attempted_items_ok :: "store \<Rightarrow> bool" where
  "attempted_items_ok s \<longleftrightarrow>
     (\<forall>a \<in> set (item_attempts s). \<forall>i \<in> set (items s).
        i_id i = a_item_id a \<longrightarrow> i_status i \<noteq> ItemWaiting)"

text \<open>
  The plan of a run: its history holds the revisions from 1 to the current one, in order
  and under one budget policy, and ends with the current plan. A run without a plan is
  at revision 1 and has no history.
\<close>

definition plan_history :: "store \<Rightarrow> string \<Rightarrow> work_plan_row list" where
  "plan_history s run_id = filter (\<lambda>w. w_run_id w = run_id) (work_plan_revisions s)"

definition run_plan_ok :: "store \<Rightarrow> CanonicalTaskRunRecord \<Rightarrow> bool" where
  "run_plan_ok s r \<longleftrightarrow>
     (case find_plan s (r_run_id r) of
        None \<Rightarrow> r_plan_revision r = 1 \<and> plan_history s (r_run_id r) = []
      | Some w \<Rightarrow>
          w_task_id w = r_task_id r \<and>
          map w_plan_revision (plan_history s (r_run_id r)) = [1..<Suc (r_plan_revision r)] \<and>
          plan_history s (r_run_id r) \<noteq> [] \<and> last (plan_history s (r_run_id r)) = w \<and>
          w_budget_policy ` set (plan_history s (r_run_id r)) = {w_budget_policy w})"

definition plans_ok :: "store \<Rightarrow> bool" where
  "plans_ok s \<longleftrightarrow> (\<forall>r \<in> set (runs s). run_plan_ok s r)"

text \<open>
  Steering: at most one pending per run; an applied steering produced the revision after
  the one it was based on, and the run is there or beyond.
\<close>

definition steering_ok :: "store \<Rightarrow> bool" where
  "steering_ok s \<longleftrightarrow>
     (\<forall>x \<in> set (steerings s). \<forall>y \<in> set (steerings s).
        s_status x = SteeringPending \<and> s_status y = SteeringPending \<and>
        s_task_id x = s_task_id y \<and> s_run_id x = s_run_id y \<longrightarrow> s_steering_id x = s_steering_id y) \<and>
     (\<forall>x \<in> set (steerings s).
        (s_status x = SteeringApplied) = (s_applied_plan_revision x \<noteq> None)) \<and>
     (\<forall>x \<in> set (steerings s). \<forall>r \<in> set (runs s).
        r_run_id r = s_run_id x \<and> s_status x = SteeringApplied \<longrightarrow>
        s_applied_plan_revision x = Some (s_base_plan_revision x + 1) \<and>
        s_base_plan_revision x < r_plan_revision r) \<and>
     (\<forall>x \<in> set (steerings s). \<forall>y \<in> set (steerings s).
        s_status x = SteeringApplied \<and> s_status y = SteeringApplied \<and>
        s_run_id x = s_run_id y \<and> s_base_plan_revision x = s_base_plan_revision y \<longrightarrow>
        s_steering_id x = s_steering_id y) \<and>
     (\<forall>x \<in> set (steerings s). s_base_plan_revision x \<noteq> 0)"

lemmas store_ops =
  set_task_status_def set_run_status_def settle_steering_item_def set_item_status_def
  settle_attempts_def resolve_attention_def

lemma image_update_where:
  assumes "\<And>r. p r \<Longrightarrow> g (f r) = g r"
  shows "g ` set (update_where p f rows) = g ` set rows"
  by (metis assms list.set_map map_update_where)

lemma ordinal_fresh: "r \<in> set (runs s) \<Longrightarrow> r_task_id r = k \<Longrightarrow> r_ordinal r \<noteq> next_run_ordinal s k"
  unfolding next_run_ordinal_def
  using max_where_ge [of r "runs s" "\<lambda>r. r_task_id r = k" r_ordinal] by fastforce

lemma run_exists_mem: "run_exists s t k \<longleftrightarrow> (t, k) \<in> run_key ` set (runs s)"
  by (auto simp: run_exists_def is_run_def run_key_def)

text \<open>The insert and swap operations, on the tables they touch.\<close>

lemma insert_attempt_tables:
  "insert_attempt a s = Inr s1 \<Longrightarrow>
   s1 = s \<or> s1 = s\<lparr>item_attempts := item_attempts s @ [a]\<rparr> \<and>
     a_attempt_id a \<notin> a_attempt_id ` set (item_attempts s)"
  by (auto simp: insert_attempt_def split: if_splits)

lemma insert_item_tables:
  "insert_item i s = Inr s' \<Longrightarrow>
   s' = s\<lparr>items := items s @ [i]\<rparr> \<and> i_id i \<notin> i_id ` set (items s) \<and>
   (i_task_id i, i_sequence i) \<notin> (\<lambda>i. (i_task_id i, i_sequence i)) ` set (items s) \<and>
   run_exists s (i_task_id i) (i_run_id i)"
  by (auto simp: insert_item_def split: if_splits)

lemma insert_work_plan_tables:
  "insert_work_plan w s = Inr s' \<Longrightarrow>
   s' = s\<lparr>work_plans := work_plans s @ [w]\<rparr> \<and> w_run_id w \<notin> w_run_id ` set (work_plans s) \<and>
   run_exists s (w_task_id w) (w_run_id w)"
  by (auto simp: insert_work_plan_def split: if_splits)

lemma insert_revision_tables:
  "insert_work_plan_revision w s = Inr s' \<Longrightarrow>
   s' = s\<lparr>work_plan_revisions := work_plan_revisions s @ [w]\<rparr> \<and>
   (w_run_id w, w_plan_revision w) \<notin>
     (\<lambda>w. (w_run_id w, w_plan_revision w)) ` set (work_plan_revisions s) \<and>
   run_exists s (w_task_id w) (w_run_id w)"
  by (auto simp: insert_work_plan_revision_def split: if_splits)

lemma insert_deferred_tables:
  "insert_deferred_result d s = Inr s' \<Longrightarrow>
   s' = s \<or> s' = s\<lparr>deferred_results := deferred_results s @ [d]\<rparr> \<and> run_exists s (d_task_id d) (d_run_id d)"
  by (auto simp: insert_deferred_result_def split: if_splits)

lemma insert_steering_tables:
  "insert_steering x s = Inr s' \<Longrightarrow>
   s' = s\<lparr>steerings := steerings s @ [x]\<rparr> \<and> s_steering_id x \<notin> s_steering_id ` set (steerings s) \<and>
   s_item_id x \<in> i_id ` set (items s) \<and> run_exists s (s_task_id x) (s_run_id x) \<and>
   s_base_plan_revision x \<noteq> 0"
  by (force simp: insert_steering_def split: if_splits)

text \<open>The run, the plan and the history after the plan of a run has moved on.\<close>

lemma advance_plan_tables:
  "advance_plan e now c1 c2 c3 task_id run_id base plan json policy s = Inr s' \<Longrightarrow>
   s' = s\<lparr>runs := update_where
            (\<lambda>r. is_run task_id run_id r \<and> r_status r = TaskRunning \<and> r_plan_revision r = base)
            (\<lambda>r. r\<lparr>r_plan_revision := base + 1, r_updated_at := now\<rparr>) (runs s),
          work_plans := update_where
            (\<lambda>w. w_task_id w = task_id \<and> w_run_id w = run_id \<and> w_plan_revision w = base)
            (\<lambda>w. w\<lparr>w_plan_revision := base + 1, w_schema_version := schema_version plan,
                   w_plan_json := json, w_plan_digest := sha256_text e json,
                   w_created_at := now\<rparr>) (work_plans s),
          work_plan_revisions := work_plan_revisions s @
            [plan_row e task_id run_id (base + 1) plan json policy now]\<rparr> \<and>
   (run_id, base + 1) \<notin> (\<lambda>w. (w_run_id w, w_plan_revision w)) ` set (work_plan_revisions s) \<and>
   (task_id, run_id) \<in> run_key ` set (runs s) \<and>
   count_where (\<lambda>r. is_run task_id run_id r \<and> r_status r = TaskRunning \<and> r_plan_revision r = base)
     (runs s) = 1 \<and>
   count_where (\<lambda>w. w_task_id w = task_id \<and> w_run_id w = run_id \<and> w_plan_revision w = base)
     (work_plans s) = 1"
  by (auto simp: advance_plan_def swap_run_revision_def swap_plan_row_def Let_def plan_row_def
      run_exists_mem image_update_where run_key_def
      dest!: insert_revision_tables split: if_splits)

lemma insert_final_result_tables:
  "insert_final_result f s = Inr s1 \<Longrightarrow>
   s1 = s\<lparr>final_results := final_results s @ [f]\<rparr> \<and> run_exists s (f_task_id f) (f_run_id f) \<and>
   f_item_id f \<in> i_id ` set (items s) \<and>
   (f_task_id f, f_run_id f) \<notin> (\<lambda>x. (f_task_id x, f_run_id x)) ` set (final_results s)"
  by (force simp: insert_final_result_def split: if_splits)

lemma keys_ok_step: "row_step s s' \<Longrightarrow> keys_ok s \<Longrightarrow> keys_ok s'"
proof (induction rule: row_step.induct)
  case (task_added s t)
  then show ?case by (auto simp: keys_ok_def find_task_def find_None_iff)
next
  case (task_moved s p st now)
  then show ?case by (simp add: keys_ok_def store_ops table_keys)
next
  case (run_added s r)
  then show ?case
    by (auto simp: keys_ok_def find_run_id_def find_None_iff dest: ordinal_fresh)
next
  case (skill_bound s p sk now)
  then show ?case by (simp add: keys_ok_def table_keys map_update_where)
next
  case (run_closed p st s now)
  then show ?case by (simp add: keys_ok_def store_ops table_keys map_update_where)
next
  case (run_completed s f r s1 now)
  then show ?case
    by (auto simp: keys_ok_def store_ops table_keys map_update_where
        dest!: insert_final_result_tables)
next
  case (item_added i s s')
  then show ?case by (auto simp: keys_ok_def dest!: insert_item_tables)
next
  case (item_moved st s p now)
  then show ?case by (simp add: keys_ok_def table_keys map_update_where)
next
  case (steering_item_moved st s item_id code now)
  then show ?case by (simp add: keys_ok_def store_ops table_keys map_update_where)
next
  case (attempt_begun s a i s1 now)
  then show ?case
    by (auto simp: keys_ok_def store_ops table_keys map_update_where dest!: insert_attempt_tables)
next
  case (attempt_settled s p st rd now)
  then show ?case by (simp add: keys_ok_def table_keys)
next
  case (attempts_closed s task_id run_id st now)
  then show ?case by (simp add: keys_ok_def store_ops table_keys)
next
  case (plan_persisted s w r s1 s2)
  then show ?case
    by (auto simp: keys_ok_def dest!: insert_work_plan_tables insert_revision_tables)
next
  case (plan_advanced s run_id w task_id base e now c1 c2 c3 plan json s')
  then show ?case
    by (auto simp: keys_ok_def plan_row_def table_keys map_update_where dest!: advance_plan_tables)
next
  case (steering_submitted x s s')
  then show ?case by (auto simp: keys_ok_def dest!: insert_steering_tables)
next
  case (steering_applied s steering_id x w e now c1 c2 c3 plan json s1 code changed s2)
  then show ?case
    by (auto simp: keys_ok_def plan_row_def close_steering_def Let_def table_keys map_update_where
        dest!: advance_plan_tables)
next
  case (steering_resolved st steering_id code now s changed s')
  then show ?case by (auto simp: keys_ok_def close_steering_def Let_def map_update_where)
next
  case (result_deferred d s s')
  then show ?case by (auto simp: keys_ok_def insert_deferred_result_def split: if_splits)
next
  case (deferred_dropped s p)
  then show ?case by (simp add: keys_ok_def)
next
  case (notes_changed s ra at tr)
  then show ?case by (simp add: keys_ok_def)
qed


lemma find_run_mem: "find_run s t k = Some r \<Longrightarrow> r \<in> set (runs s) \<and> r_task_id r = t \<and> r_run_id r = k"
  by (auto simp: find_run_def is_run_def dest: find_Some_mem)

lemma find_task_mem: "find_task s k = Some t \<Longrightarrow> k \<in> t_id ` set (tasks s)"
  by (auto simp: find_task_def dest!: find_Some_mem)

lemma find_item_mem: "find_item s k = Some i \<Longrightarrow> i \<in> set (items s) \<and> i_id i = k"
  by (auto simp: find_item_def dest: find_Some_mem)

lemmas key_images = image_update_where run_key_def item_run_def

lemma refs_ok_deferred:
  "refs_ok s \<Longrightarrow> (\<lambda>d. (d_task_id d, d_run_id d)) ` set ds \<subseteq> run_key ` set (runs s) \<Longrightarrow>
   refs_ok (s\<lparr>deferred_results := ds\<rparr>)"
  by (simp add: refs_ok_def)

lemma refs_ok_step: "row_step s s' \<Longrightarrow> refs_ok s \<Longrightarrow> refs_ok s'"
proof (induction rule: row_step.induct)
  case (task_added s t)
  then show ?case by (auto simp: refs_ok_def)
next
  case (task_moved s p st now)
  then show ?case by (simp add: refs_ok_def store_ops key_images)
next
  case (run_added s r)
  then show ?case by (auto simp: refs_ok_def dest: find_task_mem)
next
  case (skill_bound s p sk now)
  then show ?case by (simp add: refs_ok_def key_images)
next
  case (run_closed p st s now)
  then show ?case by (simp add: refs_ok_def store_ops key_images)
next
  case (run_completed s f r s1 now)
  then show ?case
    by (clarsimp simp: refs_ok_def store_ops key_images run_exists_mem
        dest!: insert_final_result_tables)
next
  case (item_added i s s')
  have "item_run i \<in> run_key ` set (runs s)" "s' = s\<lparr>items := items s @ [i]\<rparr>"
    using insert_item_tables [OF item_added(1)] by (simp_all add: run_exists_mem item_run_def)
  then show ?case using item_added(2) by (simp add: refs_ok_def subset_insertI2)
next
  case (item_moved st s p now)
  then show ?case by (simp add: refs_ok_def key_images)
next
  case (steering_item_moved st s item_id code now)
  then show ?case by (simp add: refs_ok_def store_ops key_images)
next
  case (attempt_begun s a i s1 now)
  have "(a_item_id a, a_task_id a, a_run_id a) \<in> (\<lambda>i. (i_id i, i_task_id i, i_run_id i)) ` set (items s)"
    using attempt_begun by (force dest!: find_item_mem)
  then show ?case
    using attempt_begun(5) insert_attempt_tables [OF attempt_begun(4)]
    by (elim disjE) (clarsimp simp: refs_ok_def store_ops key_images)+
next
  case (attempt_settled s p st rd now)
  then show ?case by (simp add: refs_ok_def key_images)
next
  case (attempts_closed s task_id run_id st now)
  then show ?case by (simp add: refs_ok_def store_ops key_images)
next
  case (plan_persisted s w r s1 s2)
  then show ?case
    by (clarsimp simp: refs_ok_def run_exists_mem
        dest!: insert_work_plan_tables insert_revision_tables)
next
  case (plan_advanced s run_id w task_id base e now c1 c2 c3 plan json s')
  then show ?case
    by (clarsimp simp: refs_ok_def plan_row_def key_images dest!: advance_plan_tables)
next
  case (steering_submitted x s s')
  then show ?case
    by (clarsimp simp: refs_ok_def run_exists_mem dest!: insert_steering_tables)
next
  case (steering_applied s steering_id x w e now c1 c2 c3 plan json s1 code changed s2)
  then show ?case
    by (clarsimp simp: refs_ok_def plan_row_def close_steering_def Let_def key_images
        dest!: advance_plan_tables)
next
  case (steering_resolved st steering_id code now s changed s')
  then show ?case by (clarsimp simp: refs_ok_def close_steering_def Let_def key_images)
next
  case (result_deferred d s s')
  then show ?case
    using insert_deferred_tables [OF result_deferred(1)]
    by (elim disjE) (clarsimp simp: refs_ok_def run_exists_mem)+
next
  case (deferred_dropped s p)
  have "(\<lambda>d. (d_task_id d, d_run_id d)) ` set (filter p (deferred_results s)) \<subseteq>
      (\<lambda>d. (d_task_id d, d_run_id d)) ` set (deferred_results s)"
    by (intro image_mono) simp
  also have "\<dots> \<subseteq> run_key ` set (runs s)" using deferred_dropped by (simp add: refs_ok_def)
  finally show ?case using deferred_dropped by (rule refs_ok_deferred [rotated])
next
  case (notes_changed s ra at tr)
  then show ?case by (simp add: refs_ok_def)
qed

text \<open>No step but the completion makes a run completed, and results are never removed.\<close>

lemma completed_ok_step: "row_step s s' \<Longrightarrow> completed_ok s \<Longrightarrow> completed_ok s'"
proof (induction rule: row_step.induct)
  case (run_added s r)
  then show ?case by (auto simp: completed_ok_def)
next
  case (skill_bound s p sk now)
  then show ?case by (force simp: completed_ok_def set_update_where run_key_def)
next
  case (run_closed p st s now)
  then show ?case
    by (force simp: completed_ok_def store_ops set_update_where run_key_def terminal_status_ok_def)
next
  case (run_completed s f r s1 now)
  then show ?case
    by (force simp: completed_ok_def store_ops set_update_where run_key_def is_run_def
        dest!: insert_final_result_tables)
next
  case (plan_advanced s run_id w task_id base e now c1 c2 c3 plan json s')
  then show ?case
    by (force simp: completed_ok_def set_update_where run_key_def dest!: advance_plan_tables)
next
  case (steering_applied s steering_id x w e now c1 c2 c3 plan json s1 code changed s2)
  then show ?case
    by (force simp: completed_ok_def close_steering_def Let_def set_update_where run_key_def
        dest!: advance_plan_tables)
next
  case (attempt_begun s a i s1 now)
  then show ?case by (auto simp: completed_ok_def store_ops dest!: insert_attempt_tables) blast
qed (auto simp: store_ops close_steering_def Let_def insert_deferred_result_def
      dest!: insert_item_tables insert_work_plan_tables insert_revision_tables
        insert_steering_tables split: if_splits, simp_all add: completed_ok_def)

text \<open>Nothing sets an item waiting, and a new item has no attempt yet.\<close>

lemma attempted_items_ok_step:
  "row_step s s' \<Longrightarrow> refs_ok s \<Longrightarrow> attempted_items_ok s \<Longrightarrow> attempted_items_ok s'"
proof (induction rule: row_step.induct)
  case (item_added i s s')
  have "a_item_id ` set (item_attempts s) \<subseteq> i_id ` set (items s)"
    using item_added(2) by (auto simp: refs_ok_def)
  then show ?case
    using item_added(3) insert_item_tables [OF item_added(1)]
    by (auto simp: attempted_items_ok_def)
next
  case (item_moved st s p now)
  then show ?case by (force simp: attempted_items_ok_def set_update_where)
next
  case (steering_item_moved st s item_id code now)
  then show ?case by (force simp: attempted_items_ok_def store_ops set_update_where)
next
  case (attempt_begun s a i s1 now)
  then show ?case
    by (auto simp: attempted_items_ok_def store_ops set_update_where dest!: insert_attempt_tables
        split: if_splits)
next
  case (attempt_settled s p st rd now)
  then show ?case by (auto simp: attempted_items_ok_def set_update_where)
next
  case (attempts_closed s task_id run_id st now)
  then show ?case by (auto simp: attempted_items_ok_def store_ops set_update_where)
qed (auto simp: attempted_items_ok_def store_ops close_steering_def Let_def
      insert_deferred_result_def dest!: insert_final_result_tables insert_work_plan_tables
        insert_revision_tables insert_steering_tables advance_plan_tables split: if_splits)


lemma wf_step: "row_step s s' \<Longrightarrow> wf s \<Longrightarrow> wf s'"
  by (simp add: wf_def keys_ok_step refs_ok_step completed_ok_step)

text \<open>Primary keys find their rows.\<close>

lemma find_key_mem:
  "distinct (map key rows) \<Longrightarrow> find (\<lambda>x. key x = k) rows = Some r \<longleftrightarrow> r \<in> set rows \<and> key r = k"
  using find_key_distinct by (auto dest: find_Some_mem)

lemma find_plan_iff:
  "keys_ok s \<Longrightarrow> find_plan s k = Some w \<longleftrightarrow> w \<in> set (work_plans s) \<and> w_run_id w = k"
  unfolding find_plan_def by (rule find_key_mem) (simp add: keys_ok_def)

lemma find_run_id_iff:
  "keys_ok s \<Longrightarrow> find_run_id s k = Some r \<longleftrightarrow> r \<in> set (runs s) \<and> r_run_id r = k"
  unfolding find_run_id_def by (rule find_key_mem) (simp add: keys_ok_def)

lemma run_id_unique:
  "keys_ok s \<Longrightarrow> r \<in> set (runs s) \<Longrightarrow> r' \<in> set (runs s) \<Longrightarrow> r_run_id r = r_run_id r' \<Longrightarrow> r = r'"
  by (metis find_run_id_iff option.inject)

lemma plan_history_append:
  "plan_history (s\<lparr>work_plan_revisions := work_plan_revisions s @ [w]\<rparr>) k =
     plan_history s k @ (if w_run_id w = k then [w] else [])"
  by (simp add: plan_history_def)

lemma history_run:
  assumes "refs_ok s" "x \<in> set (plan_history s k)"
  shows "(w_task_id x, k) \<in> run_key ` set (runs s)"
  using assms by (force simp: refs_ok_def plan_history_def)

text \<open>Steps that leave a run, its plan and its history alone leave its plan correct.\<close>

lemma run_plan_ok_cong:
  "r_plan_revision r' = r_plan_revision r \<Longrightarrow> r_run_id r' = r_run_id r \<Longrightarrow> r_task_id r' = r_task_id r \<Longrightarrow>
   find_plan s' (r_run_id r) = find_plan s (r_run_id r) \<Longrightarrow>
   plan_history s' (r_run_id r) = plan_history s (r_run_id r) \<Longrightarrow>
   run_plan_ok s' r' = run_plan_ok s r"
  by (cases "find_plan s (r_run_id r)") (simp_all add: run_plan_ok_def)

lemma plans_ok_frame:
  assumes "plans_ok s" "work_plans s' = work_plans s" "work_plan_revisions s' = work_plan_revisions s"
    and "\<forall>r' \<in> set (runs s'). \<exists>r \<in> set (runs s).
      r_plan_revision r' = r_plan_revision r \<and> r_run_id r' = r_run_id r \<and> r_task_id r' = r_task_id r"
  shows "plans_ok s'"
proof -
  have "run_plan_ok s' r'" if r': "r' \<in> set (runs s')" for r'
  proof -
    obtain r where r: "r \<in> set (runs s)" "r_plan_revision r' = r_plan_revision r"
      "r_run_id r' = r_run_id r" "r_task_id r' = r_task_id r"
      using bspec [OF assms(4) r'] by blast
    then have "run_plan_ok s' r' = run_plan_ok s r"
      using assms(2,3) by (intro run_plan_ok_cong) (simp_all add: find_plan_def plan_history_def)
    then show ?thesis using assms(1) r(1) by (simp add: plans_ok_def)
  qed
  then show ?thesis by (simp add: plans_ok_def)
qed

text \<open>A plan is persisted for a run that has none: at its revision 1.\<close>

lemma plans_ok_persisted:
  assumes "plans_ok s" "keys_ok s" "find_run s (w_task_id w) (w_run_id w) = Some r"
    and "r_plan_revision r = w_plan_revision w" "insert_work_plan w s = Inr s1"
    and "insert_work_plan_revision w s1 = Inr s2"
  shows "plans_ok s2"
proof -
  have s2: "s2 = s\<lparr>work_plans := work_plans s @ [w], work_plan_revisions := work_plan_revisions s @ [w]\<rparr>"
    and fresh: "w_run_id w \<notin> w_run_id ` set (work_plans s)"
    using insert_work_plan_tables [OF assms(5)] insert_revision_tables [OF assms(6)] by simp_all
  have none: "find_plan s (w_run_id w) = None"
    using fresh unfolding find_plan_def find_None_iff by (metis imageI)
  have found: "find_plan s2 k = (if k = w_run_id w then Some w else find_plan s k)" for k
    using none by (auto simp: s2 find_plan_def find_append split: option.splits)
  have hist: "plan_history s2 k = plan_history s k @ (if w_run_id w = k then [w] else [])" for k
    by (simp add: s2 plan_history_def)
  have r: "r \<in> set (runs s)" "r_task_id r = w_task_id w" "r_run_id r = w_run_id w"
    using find_run_mem [OF assms(3)] by auto
  have "run_plan_ok s r" using assms(1) r(1) by (simp add: plans_ok_def)
  then have at1: "r_plan_revision r = 1" "plan_history s (w_run_id w) = []"
    using none r by (simp_all add: run_plan_ok_def)
  have "run_plan_ok s2 x" if x: "x \<in> set (runs s)" for x
  proof (cases "r_run_id x = w_run_id w")
    case True
    then have "x = r" using run_id_unique [OF assms(2) x r(1)] r(3) by simp
    then show ?thesis using at1 assms(4) r by (simp add: run_plan_ok_def found hist)
  next
    case False
    then have "run_plan_ok s2 x = run_plan_ok s x"
      by (intro run_plan_ok_cong) (simp_all add: found hist)
    then show ?thesis using assms(1) x by (simp add: plans_ok_def)
  qed
  then show ?thesis by (simp add: plans_ok_def s2)
qed


lemma count_one_ex: "count_where p xs = 1 \<Longrightarrow> \<exists>x \<in> set xs. p x"
  by (metis count_where_0 zero_neq_one)

text \<open>A plan that moves on: run, plan and history reach the next revision together.\<close>

lemma plans_ok_advanced:
  assumes "plans_ok s" "keys_ok s" "find_plan s run_id = Some w" "w_task_id w = task_id"
    and base: "w_plan_revision w = base"
    and adv: "advance_plan e now c1 c2 c3 task_id run_id base plan json (w_budget_policy w) s = Inr s'"
  shows "plans_ok s'"
proof -
  let ?row = "plan_row e task_id run_id (base + 1) plan json (w_budget_policy w) now"
  let ?p = "\<lambda>r. is_run task_id run_id r \<and> r_status r = TaskRunning \<and> r_plan_revision r = base"
  let ?g = "\<lambda>r. r\<lparr>r_plan_revision := base + 1, r_updated_at := now\<rparr>"
  note tables = advance_plan_tables [OF adv]
  have w: "w_run_id w = run_id" using assms(3) by (auto simp: find_plan_def dest: find_Some_mem)
  let ?q = "\<lambda>w. w_task_id w = task_id \<and> w_run_id w = run_id \<and> w_plan_revision w = base"
  let ?f = "\<lambda>w. w\<lparr>w_plan_revision := base + 1, w_schema_version := schema_version plan,
    w_plan_json := json, w_plan_digest := sha256_text e json, w_created_at := now\<rparr>"
  have "work_plans s' = update_where ?q ?f (work_plans s)" using tables by simp
  then have moved: "find_plan s' k = map_option (\<lambda>w. if ?q w then ?f w else w) (find_plan s k)" for k
    by (simp only: find_plan_def plan_swap.lookup)
  have row: "?f w = ?row" using assms(4) w by (simp add: plan_row_def)
  have found: "find_plan s' k = (if k = run_id then Some ?row else find_plan s k)" for k
  proof (cases "k = run_id")
    case True
    have q: "?q w" using assms(4) w base by simp
    have "find_plan s' run_id = Some (if ?q w then ?f w else w)"
      unfolding moved [of run_id] assms(3) by (rule option.map)
    also have "\<dots> = Some ?row" unfolding if_P [OF q] row ..
    finally show ?thesis using True by simp
  next
    case False
    then have "w_run_id v \<noteq> run_id" if "find_plan s k = Some v" for v
      using that by (auto simp: find_plan_def dest: find_Some_mem)
    then show ?thesis
      using False unfolding moved [of k] by (cases "find_plan s k") simp_all
  qed
  have hist: "plan_history s' k = plan_history s k @ (if k = run_id then [?row] else [])" for k
    using tables by (simp add: plan_history_def plan_row_def)
  have runs': "runs s' = update_where ?p ?g (runs s)" "count_where ?p (runs s) = 1"
    using tables by simp_all
  obtain r where r: "r \<in> set (runs s)" "?p r" using count_one_ex [OF runs'(2)] by blast
  have okr: "run_plan_ok s r" using assms(1) r(1) by (simp add: plans_ok_def)
  have "run_plan_ok s' x'" if x': "x' \<in> set (runs s')" for x'
  proof -
    obtain x where x: "x \<in> set (runs s)" "x' = (if ?p x then ?g x else x)"
      using x' unfolding runs'(1) set_update_where by (elim imageE)
    show ?thesis
    proof (cases "r_run_id x = run_id")
      case True
      then have "x = r" using run_id_unique [OF assms(2) x(1) r(1)] r(2) by (simp add: is_run_def)
      then have "x' = ?g r" using x(2) r(2) by simp
      then show ?thesis
        using okr r(2) assms(3,4) base
        by (auto simp: run_plan_ok_def found hist is_run_def plan_row_def)
    next
      case False
      then have "x' = x" using x(2) by (simp add: is_run_def)
      then have "run_plan_ok s' x' = run_plan_ok s x"
        using False by (intro run_plan_ok_cong) (simp_all add: found hist)
      then show ?thesis using assms(1) x(1) by (simp add: plans_ok_def)
    qed
  qed
  then show ?thesis by (simp add: plans_ok_def)
qed

lemma close_steering_frame:
  assumes "close_steering k st code applied now s = (n, s')"
  shows "runs s' = runs s" "work_plans s' = work_plans s"
    "work_plan_revisions s' = work_plan_revisions s"
  using assms by (auto simp: close_steering_def Let_def)

lemma plans_ok_step: "row_step s s' \<Longrightarrow> keys_ok s \<Longrightarrow> plans_ok s \<Longrightarrow> refs_ok s \<Longrightarrow> plans_ok s'"
proof (induction rule: row_step.induct)
  case (run_added s r)
  have fresh: "r_run_id x \<noteq> r_run_id r" if "x \<in> set (runs s)" for x
    using run_added(1) that by (auto simp: find_run_id_def find_None_iff)
  have none: "find_plan s (r_run_id r) = None" "plan_history s (r_run_id r) = []"
    using fresh run_added(8)
    by (force simp: find_plan_def find_None_iff plan_history_def filter_empty_conv refs_ok_def run_key_def)+
  have "run_plan_ok (s\<lparr>runs := runs s @ [r]\<rparr>) x = run_plan_ok s x" for x
    by (rule run_plan_ok_cong) (simp_all add: find_plan_def plan_history_def)
  then show ?case
    using run_added(5,7) none by (auto simp: plans_ok_def run_plan_ok_def [of s r])
next
  case (plan_persisted s w r s1 s2)
  then show ?case by (blast intro: plans_ok_persisted)
next
  case (plan_advanced s run_id w task_id base e now c1 c2 c3 plan json s')
  then show ?case by (blast intro: plans_ok_advanced)
next
  case (steering_applied s steering_id x w e now c1 c2 c3 plan json s1 code changed s2)
  have "plans_ok s1" using steering_applied by (blast intro: plans_ok_advanced)
  then show ?case
    by (rule plans_ok_frame) (use close_steering_frame [OF steering_applied(7)] in auto)
next
  case (skill_bound s p sk now)
  then show ?case by (force intro: plans_ok_frame simp: set_update_where)
next
  case (run_closed p st s now)
  then show ?case by (force intro: plans_ok_frame simp: set_update_where store_ops)
next
  case (run_completed s f r s1 now)
  then show ?case
    by (force intro: plans_ok_frame simp: set_update_where store_ops dest!: insert_final_result_tables)
qed (force intro: plans_ok_frame simp: store_ops close_steering_def Let_def
      dest!: insert_item_tables insert_attempt_tables insert_steering_tables insert_deferred_tables)+

end
