(* ===== verification/Task_Safety.thy ===== *)
theory Task_Safety
  imports Task_Invariant
begin

text \<open>
  The invariant of the task store over every sequence of calls, and the properties of
  runs, results, plans, budgets and steering that rest on it.
\<close>

section \<open>Steering\<close>

lemma steering_okI:
  assumes "\<And>x y. x \<in> set (steerings s) \<Longrightarrow> y \<in> set (steerings s) \<Longrightarrow> s_status x = SteeringPending \<Longrightarrow>
      s_status y = SteeringPending \<Longrightarrow> s_task_id x = s_task_id y \<Longrightarrow> s_run_id x = s_run_id y \<Longrightarrow>
      s_steering_id x = s_steering_id y"
    and "\<And>x. x \<in> set (steerings s) \<Longrightarrow>
      (s_status x = SteeringApplied) = (s_applied_plan_revision x \<noteq> None)"
    and "\<And>x r. x \<in> set (steerings s) \<Longrightarrow> r \<in> set (runs s) \<Longrightarrow> r_run_id r = s_run_id x \<Longrightarrow>
      s_status x = SteeringApplied \<Longrightarrow>
      s_applied_plan_revision x = Some (s_base_plan_revision x + 1) \<and>
      s_base_plan_revision x < r_plan_revision r"
    and "\<And>x y. x \<in> set (steerings s) \<Longrightarrow> y \<in> set (steerings s) \<Longrightarrow> s_status x = SteeringApplied \<Longrightarrow>
      s_status y = SteeringApplied \<Longrightarrow> s_run_id x = s_run_id y \<Longrightarrow>
      s_base_plan_revision x = s_base_plan_revision y \<Longrightarrow> s_steering_id x = s_steering_id y"
    and "\<And>x. x \<in> set (steerings s) \<Longrightarrow> s_base_plan_revision x \<noteq> 0"
  shows "steering_ok s"
  unfolding steering_ok_def by (intro conjI ballI impI) (use assms in blast)+

lemma steering_okD:
  assumes "steering_ok s" "x \<in> set (steerings s)"
  shows "y \<in> set (steerings s) \<Longrightarrow> s_status x = SteeringPending \<Longrightarrow> s_status y = SteeringPending \<Longrightarrow>
      s_task_id x = s_task_id y \<Longrightarrow> s_run_id x = s_run_id y \<Longrightarrow> s_steering_id x = s_steering_id y"
    and "(s_status x = SteeringApplied) = (s_applied_plan_revision x \<noteq> None)"
    and "r \<in> set (runs s) \<Longrightarrow> r_run_id r = s_run_id x \<Longrightarrow> s_status x = SteeringApplied \<Longrightarrow>
      s_applied_plan_revision x = Some (s_base_plan_revision x + 1) \<and>
      s_base_plan_revision x < r_plan_revision r"
    and "y \<in> set (steerings s) \<Longrightarrow> s_status x = SteeringApplied \<Longrightarrow> s_status y = SteeringApplied \<Longrightarrow>
      s_run_id x = s_run_id y \<Longrightarrow> s_base_plan_revision x = s_base_plan_revision y \<Longrightarrow>
      s_steering_id x = s_steering_id y"
    and "s_base_plan_revision x \<noteq> 0"
  using assms unfolding steering_ok_def by blast+

text \<open>Steps that keep the steerings and do not take a run back.\<close>

lemma steering_ok_frame:
  assumes ok: "steering_ok s" and same: "steerings s' = steerings s"
    and runs': "\<forall>r' \<in> set (runs s'). \<exists>r \<in> set (runs s).
      r_run_id r' = r_run_id r \<and> r_plan_revision r \<le> r_plan_revision r'"
  shows "steering_ok s'"
proof (rule steering_okI; unfold same)
  fix x r'
  assume x: "x \<in> set (steerings s)" "s_status x = SteeringApplied"
    and r': "r' \<in> set (runs s')" "r_run_id r' = s_run_id x"
  obtain r where "r \<in> set (runs s)" "r_run_id r' = r_run_id r" "r_plan_revision r \<le> r_plan_revision r'"
    using bspec [OF runs' r'(1)] by blast
  then show "s_applied_plan_revision x = Some (s_base_plan_revision x + 1) \<and>
      s_base_plan_revision x < r_plan_revision r'"
    using steering_okD(3) [OF ok x(1), of r] x(2) r'(2) by simp
qed (rule steering_okD [OF ok]; assumption)+

lemma advance_steering_ok:
  assumes "steering_ok s"
    and "advance_plan e now c1 c2 c3 task_id run_id base plan json policy s = Inr s'"
  shows "steering_ok s'"
  using assms(1)
proof (rule steering_ok_frame)
  note tables = advance_plan_tables [OF assms(2)]
  show "steerings s' = steerings s" using tables by simp
  show "\<forall>r' \<in> set (runs s'). \<exists>r \<in> set (runs s).
      r_run_id r' = r_run_id r \<and> r_plan_revision r \<le> r_plan_revision r'"
    using tables by (auto simp: set_update_where)
qed

lemma advanced_run:
  assumes "keys_ok s" "advance_plan e now c1 c2 c3 task_id run_id base plan json policy s = Inr s'"
  shows "(\<exists>r \<in> set (runs s). r_run_id r = run_id \<and> r_plan_revision r = base) \<and>
    (\<forall>r \<in> set (runs s'). r_run_id r = run_id \<longrightarrow> r_plan_revision r = base + 1)"
proof -
  let ?p = "\<lambda>r. is_run task_id run_id r \<and> r_status r = TaskRunning \<and> r_plan_revision r = base"
  let ?g = "\<lambda>r. r\<lparr>r_plan_revision := base + 1, r_updated_at := now\<rparr>"
  have runs': "runs s' = update_where ?p ?g (runs s)" "count_where ?p (runs s) = 1"
    using advance_plan_tables [OF assms(2)] by simp_all
  obtain r where r: "r \<in> set (runs s)" "?p r" using count_one_ex [OF runs'(2)] by blast
  have "?p x" if "x \<in> set (runs s)" "r_run_id x = run_id" for x
    using run_id_unique [OF assms(1) that(1) r(1)] that(2) r(2) by (simp add: is_run_def)
  then have "r_plan_revision r' = base + 1" if "r' \<in> set (runs s')" "r_run_id r' = run_id" for r'
    using that unfolding runs'(1) set_update_where by (elim imageE) (simp split: if_splits)
  then show ?thesis using r by (auto simp: is_run_def)
qed

lemma applied_steering_ok:
  assumes "steering_ok s" "keys_ok s" "load_steering_in_tx s k = Some x" "s_status x = SteeringPending"
    and adv: "advance_plan e now c1 c2 c3 (s_task_id x) (s_run_id x) (s_base_plan_revision x) plan
      json policy s = Inr s1"
    and close: "close_steering k SteeringApplied code (Some (s_base_plan_revision x + 1)) now s1 =
      (n, s2)"
  shows "steering_ok s2"
proof -
  let ?close = "\<lambda>y. y\<lparr>s_status := SteeringApplied, s_resolution_code := Some code,
    s_applied_plan_revision := Some (s_base_plan_revision x + 1), s_resolved_at := Some now\<rparr>"
  have x: "x \<in> set (steerings s)" "s_steering_id x = k"
    using assms(3) by (auto simp: load_steering_in_tx_def dest: find_Some_mem)
  have same: "steerings s1 = steerings s" using advance_plan_tables [OF adv] by simp
  have unique: "y = x" if "y \<in> set (steerings s)" "s_steering_id y = k" for y
    using assms(2) x that find_key_mem [of s_steering_id "steerings s" k] unfolding keys_ok_def
    by (metis option.inject)
  have ok1: "steering_ok s1" using advance_steering_ok [OF assms(1) adv] .
  have runs2: "runs s2 = runs s1" using close_steering_frame(1) [OF close] .
  have rev: "\<forall>r \<in> set (runs s1). r_run_id r = s_run_id x \<longrightarrow> r_plan_revision r = s_base_plan_revision x + 1"
    using advanced_run [OF assms(2) adv] by blast
  obtain r where r: "r \<in> set (runs s)" "r_run_id r = s_run_id x" "r_plan_revision r = s_base_plan_revision x"
    using advanced_run [OF assms(2) adv] by blast
  have lower: "s_base_plan_revision y \<noteq> s_base_plan_revision x"
    if "y \<in> set (steerings s)" "s_status y = SteeringApplied" "s_run_id y = s_run_id x" for y
    using steering_okD(3) [OF assms(1) that(1) r(1)] that r by simp
  have "steerings s2 = update_where (\<lambda>y. s_steering_id y = k \<and> s_status y = SteeringPending) ?close
      (steerings s)"
    using close same by (auto simp: close_steering_def Let_def)
  note moved = this
  have rows: "y = ?close x \<or> (y \<in> set (steerings s) \<and> s_steering_id y \<noteq> k)"
    if y: "y \<in> set (steerings s2)" for y
    using y [unfolded moved]
  proof (cases rule: update_whereE)
    case (moved z)
    then have "z = x" using unique by blast
    with moved(3) show ?thesis by simp
  next
    case kept
    then show ?thesis using unique assms(4) by blast
  qed
  note okD = steering_okD [OF assms(1)] and ok1D = steering_okD [OF ok1, unfolded same]
  show ?thesis
  proof (rule steering_okI)
    fix y z
    assume a: "y \<in> set (steerings s2)" "z \<in> set (steerings s2)" "s_status y = SteeringPending"
      "s_status z = SteeringPending" "s_task_id y = s_task_id z" "s_run_id y = s_run_id z"
    then show "s_steering_id y = s_steering_id z"
      using rows [OF a(1)] rows [OF a(2)] by (elim disjE; simp add: okD(1))
  next
    fix y assume a: "y \<in> set (steerings s2)"
    then show "(s_status y = SteeringApplied) = (s_applied_plan_revision y \<noteq> None)"
      using rows [OF a] by (elim disjE; simp add: okD(2))
  next
    fix y r
    assume a: "y \<in> set (steerings s2)" "r \<in> set (runs s2)" "r_run_id r = s_run_id y"
      "s_status y = SteeringApplied"
    then show "s_applied_plan_revision y = Some (s_base_plan_revision y + 1) \<and>
        s_base_plan_revision y < r_plan_revision r"
      using rows [OF a(1)] rev unfolding runs2 by (elim disjE; simp add: ok1D(3))
  next
    fix y z
    assume a: "y \<in> set (steerings s2)" "z \<in> set (steerings s2)" "s_status y = SteeringApplied"
      "s_status z = SteeringApplied" "s_run_id y = s_run_id z"
      "s_base_plan_revision y = s_base_plan_revision z"
    then show "s_steering_id y = s_steering_id z"
      using rows [OF a(1)] rows [OF a(2)] lower [of y] lower [of z] by (elim disjE; simp add: okD(4))
  next
    fix y assume a: "y \<in> set (steerings s2)"
    then show "s_base_plan_revision y \<noteq> 0"
      using rows [OF a] okD(5) [OF x(1)] by (elim disjE; simp add: okD(5) del: neq0_conv)
  qed
qed


lemma submitted_steering_ok:
  assumes "steering_ok s" "s_status x = SteeringPending" "s_applied_plan_revision x = None"
    and "\<not> exists_where (pending_of (s_task_id x) (s_run_id x)) (steerings s)"
    and "insert_steering x s = Inr s'"
  shows "steering_ok s'"
proof -
  note okD = steering_okD [OF assms(1)]
  have s': "steerings s' = steerings s @ [x]" "runs s' = runs s"
    using insert_steering_tables [OF assms(5)] by simp_all
  have none: "s_status y \<noteq> SteeringPending"
    if "y \<in> set (steerings s)" "s_task_id y = s_task_id x" "s_run_id y = s_run_id x" for y
    using assms(4) that by (auto simp: pending_of_def)
  show ?thesis
  proof (rule steering_okI; unfold s')
    fix y z
    assume "y \<in> set (steerings s @ [x])" "z \<in> set (steerings s @ [x])"
      "s_status y = SteeringPending" "s_status z = SteeringPending" "s_task_id y = s_task_id z"
      "s_run_id y = s_run_id z"
    then show "s_steering_id y = s_steering_id z"
      using none okD(1) by (metis Un_iff empty_iff insert_iff list.set set_append)
  next
    fix y assume "y \<in> set (steerings s @ [x])"
    then show "(s_status y = SteeringApplied) = (s_applied_plan_revision y \<noteq> None)"
      using okD(2) [of y] assms(2,3) by auto
  next
    fix y r
    assume "y \<in> set (steerings s @ [x])" "r \<in> set (runs s)" "r_run_id r = s_run_id y"
      "s_status y = SteeringApplied"
    then show "s_applied_plan_revision y = Some (s_base_plan_revision y + 1) \<and>
        s_base_plan_revision y < r_plan_revision r"
      using okD(3) [of y r] assms(2) by auto
  next
    fix y z
    assume "y \<in> set (steerings s @ [x])" "z \<in> set (steerings s @ [x])"
      "s_status y = SteeringApplied" "s_status z = SteeringApplied" "s_run_id y = s_run_id z"
      "s_base_plan_revision y = s_base_plan_revision z"
    then show "s_steering_id y = s_steering_id z"
      using okD(4) [of y z] assms(2) by auto
  next
    fix y assume "y \<in> set (steerings s @ [x])"
    then show "s_base_plan_revision y \<noteq> 0"
      using okD(5) [of y] insert_steering_tables [OF assms(5)] by auto
  qed
qed

text \<open>A refusal takes a steering out of the pending ones and changes no other.\<close>

lemma resolved_steering_ok:
  assumes "steering_ok s" "st \<in> {SteeringRejected, SteeringBlocked}"
    and "close_steering k st code None now s = (n, s')"
  shows "steering_ok s'"
proof -
  note okD = steering_okD [OF assms(1)]
  let ?p = "\<lambda>y. s_steering_id y = k \<and> s_status y = SteeringPending"
  let ?close = "\<lambda>y. y\<lparr>s_status := st, s_resolution_code := Some code, s_resolved_at := Some now\<rparr>"
  have s': "steerings s' = update_where ?p ?close (steerings s)" "runs s' = runs s"
    using assms(3) by (auto simp: close_steering_def Let_def)
  have kept: "y \<in> set (steerings s)"
    if y: "y \<in> set (steerings s')" "s_status y \<in> {SteeringPending, SteeringApplied}" for y
    using y(1) [unfolded s'] by (cases rule: update_whereE) (use y(2) assms(2) in auto)
  have pending: "s_status y = SteeringPending \<Longrightarrow> y \<in> set (steerings s)"
    and applied: "s_status y = SteeringApplied \<Longrightarrow> y \<in> set (steerings s)"
    if "y \<in> set (steerings s')" for y
    using kept [OF that] by simp_all
  show ?thesis
  proof (rule steering_okI)
    fix y assume y: "y \<in> set (steerings s')"
    show "(s_status y = SteeringApplied) = (s_applied_plan_revision y \<noteq> None)"
      using y [unfolded s']
    proof (cases rule: update_whereE)
      case (moved z)
      then show ?thesis using okD(2) [of z] assms(2) by auto
    next
      case kept
      then show ?thesis by (simp add: okD(2))
    qed
  next
    fix y z
    assume "y \<in> set (steerings s')" "z \<in> set (steerings s')" "s_status y = SteeringPending"
      "s_status z = SteeringPending" "s_task_id y = s_task_id z" "s_run_id y = s_run_id z"
    then show "s_steering_id y = s_steering_id z" using pending okD(1) by blast
  next
    fix y r
    assume "y \<in> set (steerings s')" "r \<in> set (runs s')" "r_run_id r = s_run_id y"
      "s_status y = SteeringApplied"
    then show "s_applied_plan_revision y = Some (s_base_plan_revision y + 1) \<and>
        s_base_plan_revision y < r_plan_revision r"
      using applied okD(3) s'(2) by simp
  next
    fix y z
    assume "y \<in> set (steerings s')" "z \<in> set (steerings s')" "s_status y = SteeringApplied"
      "s_status z = SteeringApplied" "s_run_id y = s_run_id z"
      "s_base_plan_revision y = s_base_plan_revision z"
    then show "s_steering_id y = s_steering_id z" using applied okD(4) by blast
  next
    fix y assume y: "y \<in> set (steerings s')"
    show "s_base_plan_revision y \<noteq> 0"
      using y [unfolded s'] by (cases rule: update_whereE) (auto dest: okD(5))
  qed
qed

lemma steering_ok_step: "row_step s s' \<Longrightarrow> keys_ok s \<Longrightarrow> steering_ok s \<Longrightarrow> refs_ok s \<Longrightarrow> steering_ok s'"
proof (induction rule: row_step.induct)
  case (run_added s r)
  have "(s_task_id x, s_run_id x) \<in> run_key ` set (runs s)" if "x \<in> set (steerings s)" for x
    using run_added(8) that unfolding refs_ok_def by blast
  then have other: "r_run_id r \<noteq> s_run_id x" if "x \<in> set (steerings s)" for x
    using run_added(1) that by (force simp: find_run_id_def find_None_iff run_key_def)
  note okD = steering_okD [OF run_added(7)]
  let ?s = "s\<lparr>runs := runs s @ [r]\<rparr>"
  have same: "steerings ?s = steerings s" "runs ?s = runs s @ [r]" by simp_all
  show ?case
  proof (rule steering_okI; unfold same)
    fix x q
    assume "x \<in> set (steerings s)" "q \<in> set (runs s @ [r])" "r_run_id q = s_run_id x"
      "s_status x = SteeringApplied"
    then show "s_applied_plan_revision x = Some (s_base_plan_revision x + 1) \<and>
        s_base_plan_revision x < r_plan_revision q"
      using okD(3) [of x q] other [of x] by auto
  qed (rule okD; assumption)+
next
  case (plan_advanced s run_id w task_id base e now c1 c2 c3 plan json s')
  then show ?case by (blast intro: advance_steering_ok)
next
  case (steering_submitted x s s')
  then show ?case by (blast intro: submitted_steering_ok)
next
  case (steering_applied s steering_id x w e now c1 c2 c3 plan json s1 code changed s2)
  then show ?case by (blast intro: applied_steering_ok)
next
  case (steering_resolved st steering_id code now s changed s')
  then show ?case by (blast intro: resolved_steering_ok)
next
  case (skill_bound s p sk now)
  then show ?case by (force intro: steering_ok_frame simp: set_update_where)
next
  case (run_closed p st s now)
  then show ?case by (force intro: steering_ok_frame simp: set_update_where store_ops)
next
  case (run_completed s f r s1 now)
  then show ?case
    by (force intro: steering_ok_frame simp: set_update_where store_ops
        dest!: insert_final_result_tables)
next
  case (plan_persisted s w r s1 s2)
  then show ?case
    by (force intro: steering_ok_frame dest!: insert_work_plan_tables insert_revision_tables)
qed (force intro: steering_ok_frame simp: store_ops
      dest!: insert_item_tables insert_attempt_tables insert_deferred_tables)+

section \<open>Every call keeps the invariant\<close>

definition store_inv :: "store \<Rightarrow> bool" where
  "store_inv s \<longleftrightarrow> wf s \<and> attempted_items_ok s \<and> plans_ok s \<and> steering_ok s"

lemma store_inv_row: "row_step s s' \<Longrightarrow> store_inv s \<Longrightarrow> store_inv s'"
  unfolding store_inv_def
  using wf_step attempted_items_ok_step plans_ok_step steering_ok_step by (metis wf_def)

lemma store_inv_rows: "row_steps s s' \<Longrightarrow> store_inv s \<Longrightarrow> store_inv s'"
  by (induction rule: rtranclp_induct) (auto intro: store_inv_row)

lemma store_inv_runs: "store_inv s \<Longrightarrow> distinct (map r_run_id (runs s))"
  by (simp add: store_inv_def wf_def keys_ok_def)

lemma store_inv_step: "store_inv s \<Longrightarrow> store_step e c s = Inr s' \<Longrightarrow> store_inv s'"
  using store_step_rows store_inv_runs store_inv_rows by blast

interpretation task_store: guarded_machine "store_step e" store_inv for e
  by unfold_locales (rule store_inv_step)

text \<open>A store is reached from the empty one by calls, in any order, refused or not.\<close>

definition reached :: "env \<Rightarrow> (int \<times> store_call) list \<Rightarrow> store" where
  "reached e cs = attempts (store_step e) cs empty_store"

lemma store_inv_empty: "store_inv empty_store"
  using wf_empty
  by (simp add: store_inv_def attempted_items_ok_def plans_ok_def steering_ok_def empty_store_def)

lemma store_inv_reached: "store_inv (reached e cs)"
  unfolding reached_def by (rule task_store.attempts_inv) (rule store_inv_empty)


section \<open>Terminal runs\<close>

definition terminal_run :: "store \<Rightarrow> string \<Rightarrow> bool" where
  "terminal_run s k \<longleftrightarrow>
     (case find_run_id s k of
        None \<Rightarrow> False
      | Some r \<Rightarrow> r_status r \<notin> {TaskRunning, TaskWaitingReview})"

text \<open>What a run is for its readers: its row, its plan, the history of it, its result.\<close>

definition run_row :: "CanonicalTaskRunRecord \<Rightarrow>
  string \<times> nat \<times> string \<times> CanonicalTaskStatus \<times> nat \<times> int option"
where
  "run_row r =
     (r_task_id r, r_ordinal r, r_execution_session_id r, r_status r, r_plan_revision r,
      r_completed_at r)"

definition run_view where
  "run_view s k =
     (map_option run_row (find_run_id s k), find_plan s k, plan_history s k,
      filter (\<lambda>f. f_run_id f = k) (final_results s))"

lemma terminal_runE:
  assumes "terminal_run s k"
  obtains r where "find_run_id s k = Some r" "r_status r \<notin> {TaskRunning, TaskWaitingReview}"
  using assms by (auto simp: terminal_run_def split: option.splits)

lemma terminal_other:
  assumes "terminal_run s k" "keys_ok s" "r \<in> set (runs s)" "r_status r = TaskRunning"
  shows "r_run_id r \<noteq> k"
proof -
  obtain t where t: "find_run_id s k = Some t" "r_status t \<notin> {TaskRunning, TaskWaitingReview}"
    using assms(1) by (rule terminal_runE)
  then have "t \<in> set (runs s)" "r_run_id t = k" using find_run_id_iff [OF assms(2)] by blast+
  then show ?thesis using run_id_unique [OF assms(2) assms(3)] assms(4) t(2) by auto
qed

text \<open>A step that leaves the runs, plans, histories and results alone.\<close>

lemma terminal_frame:
  assumes "runs s' = runs s" "work_plans s' = work_plans s"
    and "work_plan_revisions s' = work_plan_revisions s" "final_results s' = final_results s"
  shows "terminal_run s' k = terminal_run s k \<and> run_view s' k = run_view s k"
  using assms by (simp add: terminal_run_def run_view_def find_run_id_def find_plan_def plan_history_def)

text \<open>An update of the runs that does not touch the row of a terminal run.\<close>

lemma terminal_update:
  assumes "terminal_run s k"
    and "find_run_id s' k = map_option (\<lambda>r. if p r then f r else r) (find_run_id s k)"
    and "\<And>r. find_run_id s k = Some r \<Longrightarrow> p r \<Longrightarrow> run_row (f r) = run_row r"
    and "find_plan s' k = find_plan s k" "plan_history s' k = plan_history s k"
    and "filter (\<lambda>f. f_run_id f = k) (final_results s') = filter (\<lambda>f. f_run_id f = k) (final_results s)"
  shows "terminal_run s' k \<and> run_view s' k = run_view s k"
proof -
  obtain r where r: "find_run_id s k = Some r" "r_status r \<notin> {TaskRunning, TaskWaitingReview}"
    using assms(1) by (rule terminal_runE)
  have "run_row (if p r then f r else r) = run_row r" using assms(3) [OF r(1)] by simp
  then show ?thesis
    using assms(2,4-6) r by (simp add: terminal_run_def run_view_def run_row_def)
qed

lemma terminal_advance:
  assumes "terminal_run s k" "keys_ok s"
    and adv: "advance_plan e now c1 c2 c3 task_id run_id base plan json policy s = Inr s'"
  shows "terminal_run s' k \<and> run_view s' k = run_view s k"
proof -
  let ?p = "\<lambda>r. is_run task_id run_id r \<and> r_status r = TaskRunning \<and> r_plan_revision r = base"
  note tables = advance_plan_tables [OF adv]
  have "count_where ?p (runs s) = 1" using tables by simp
  then obtain r where r: "r \<in> set (runs s)" "?p r" using count_one_ex by blast
  then have k: "run_id \<noteq> k" using terminal_other [OF assms(1,2) r(1)] by (simp add: is_run_def)
  show ?thesis
    using assms(1)
  proof (rule terminal_update)
    have "runs s' = update_where ?p (\<lambda>r. r\<lparr>r_plan_revision := base + 1, r_updated_at := now\<rparr>) (runs s)"
      using tables by simp
    then show "find_run_id s' k = map_option (\<lambda>r. if ?p r
        then r\<lparr>r_plan_revision := base + 1, r_updated_at := now\<rparr> else r) (find_run_id s k)"
      by (simp only: find_run_id_def run_revision.lookup)
  next
    fix r assume "find_run_id s k = Some r" "?p r"
    then show "run_row (r\<lparr>r_plan_revision := base + 1, r_updated_at := now\<rparr>) = run_row r"
      using k by (auto simp: find_run_id_def is_run_def dest!: find_Some_mem)
  next
    let ?q = "\<lambda>w. w_task_id w = task_id \<and> w_run_id w = run_id \<and> w_plan_revision w = base"
    let ?f = "\<lambda>w. w\<lparr>w_plan_revision := base + 1, w_schema_version := schema_version plan,
      w_plan_json := json, w_plan_digest := sha256_text e json, w_created_at := now\<rparr>"
    have "work_plans s' = update_where ?q ?f (work_plans s)" using tables by simp
    then have "find_plan s' k = map_option (\<lambda>w. if ?q w then ?f w else w) (find_plan s k)"
      by (simp only: find_plan_def plan_swap.lookup)
    then show "find_plan s' k = find_plan s k"
      using k by (cases "find_plan s k") (auto simp: find_plan_def dest!: find_Some_mem)
  qed (use tables k in \<open>simp_all add: plan_history_def plan_row_def\<close>)
qed

lemma terminal_run_step:
  "row_step s s' \<Longrightarrow> keys_ok s \<Longrightarrow> terminal_run s k \<Longrightarrow>
   terminal_run s' k \<and> run_view s' k = run_view s k"
proof (induction rule: row_step.induct)
  case (run_added s r)
  then show ?case
    by (auto simp: terminal_run_def run_view_def find_run_id_def find_append find_plan_def
        plan_history_def split: option.splits)
next
  case (skill_bound s p now sk)
  show ?case
    by (rule terminal_update [OF skill_bound(2), where p = p
          and f = "\<lambda>r. r\<lparr>r_selected_skill_id := sk, r_updated_at := now\<rparr>"])
      (simp_all add: find_run_id_def run_lookups run_row_def find_plan_def plan_history_def)
next
  case (run_closed p st s now)
  show ?case
    using run_closed(4)
  proof (rule terminal_update)
    show "find_run_id (set_run_status p st now s) k = map_option (\<lambda>r. if p r
        then r\<lparr>r_status := st, r_updated_at := now, r_completed_at := Some now\<rparr> else r) (find_run_id s k)"
      by (simp add: find_run_id_def set_run_status_def run_status.lookup)
  next
    fix r assume "find_run_id s k = Some r" "p r"
    then show "run_row (r\<lparr>r_status := st, r_updated_at := now, r_completed_at := Some now\<rparr>) = run_row r"
      using run_closed(1,4) by (auto elim!: terminal_runE)
  qed (simp_all add: set_run_status_def find_plan_def plan_history_def)
next
  case (run_completed s f r s1 now)
  have k: "f_run_id f \<noteq> k"
    using terminal_other [OF run_completed(6,5)] run_completed(2) find_run_mem [OF run_completed(1)]
    by blast
  let ?p = "is_run (f_task_id f) (f_run_id f)"
  have s1: "s1 = s\<lparr>final_results := final_results s @ [f]\<rparr>"
    using insert_final_result_tables [OF run_completed(4)] by simp
  show ?case
    using run_completed(6)
  proof (rule terminal_update)
    show "find_run_id (set_run_status ?p TaskCompleted now s1) k = map_option (\<lambda>r. if ?p r
        then r\<lparr>r_status := TaskCompleted, r_updated_at := now, r_completed_at := Some now\<rparr> else r)
        (find_run_id s k)"
      by (simp add: find_run_id_def set_run_status_def run_status.lookup s1)
  next
    fix r assume "find_run_id s k = Some r" "?p r"
    then show "run_row (r\<lparr>r_status := TaskCompleted, r_updated_at := now, r_completed_at := Some now\<rparr>) =
        run_row r"
      using k by (auto simp: find_run_id_def is_run_def dest!: find_Some_mem)
  qed (use k in \<open>simp_all add: set_run_status_def find_plan_def plan_history_def s1\<close>)
next
  case (plan_persisted s w r s1 s2)
  have "w_run_id w \<noteq> k"
    using terminal_other [OF plan_persisted(7,6)] plan_persisted(2) find_run_mem [OF plan_persisted(1)]
    by blast
  moreover have "s2 = s\<lparr>work_plans := work_plans s @ [w], work_plan_revisions := work_plan_revisions s @ [w]\<rparr>"
    using insert_work_plan_tables [OF plan_persisted(4)] insert_revision_tables [OF plan_persisted(5)]
    by simp
  ultimately show ?case
    using plan_persisted(7)
    by (simp add: terminal_run_def run_view_def find_run_id_def find_plan_def plan_history_def
        find_append split: option.splits)
next
  case (plan_advanced s run_id w task_id base e now c1 c2 c3 plan json s')
  show ?case by (rule terminal_advance [OF plan_advanced(6,5,4)])
next
  case (steering_applied s steering_id x w e now c1 c2 c3 plan json s1 code changed s2)
  have "terminal_run s1 k \<and> run_view s1 k = run_view s k"
    by (rule terminal_advance [OF steering_applied(9,8,6)])
  moreover have "final_results s2 = final_results s1"
    using steering_applied(7) by (auto simp: close_steering_def Let_def)
  ultimately show ?case
    using terminal_frame [of s2 s1 k] close_steering_frame [OF steering_applied(7)] by simp
next
  case (attempt_begun s a i s1 now)
  have "terminal_run (set_item_status (a_item_id a) ItemRunning now s1) k = terminal_run s k \<and>
      run_view (set_item_status (a_item_id a) ItemRunning now s1) k = run_view s k"
    using insert_attempt_tables [OF attempt_begun(4)]
    by (intro terminal_frame) (auto simp: set_item_status_def)
  then show ?case using attempt_begun(6) by simp
qed (auto simp: store_ops close_steering_def Let_def
      dest!: insert_item_tables insert_steering_tables insert_deferred_tables,
    simp_all add: terminal_run_def run_view_def find_run_id_def find_plan_def plan_history_def)

lemma terminal_run_rows:
  "row_steps s s' \<Longrightarrow> store_inv s \<Longrightarrow> terminal_run s k \<Longrightarrow>
   store_inv s' \<and> terminal_run s' k \<and> run_view s' k = run_view s k"
proof (induction rule: rtranclp_induct)
  case (step t u)
  then show ?case
    using store_inv_row terminal_run_step [of t u k] by (simp add: store_inv_def wf_def)
qed simp

interpretation terminal: frozen_machine "store_step e" "\<lambda>s. store_inv s \<and> terminal_run s k"
  "\<lambda>s. run_view s k" for e k
  by unfold_locales (use terminal_run_rows store_step_rows store_inv_runs in blast)

end
