(* ===== verification/Task_Usage.thy ===== *)
theory Task_Usage
  imports Task_Safety
begin

text \<open>
  The budget usage of a run, counted from the rows of the store, over every sequence of
  calls: it never decreases, so no restart, retry, replan or steering gives a run its
  budget back.
\<close>

section \<open>Attempts and the budget\<close>

text \<open>
  What an attempt is for the budget: run, executor and the summary code of its item. The
  summary code of an item is fixed once the item has an attempt.
\<close>

definition attempt_use :: "store \<Rightarrow> CanonicalTaskItemAttemptRecord \<Rightarrow>
  string \<times> string \<times> string option"
where
  "attempt_use s a = (a_run_id a, a_executor_kind a, attempt_summary s a)"

definition uses :: "store \<Rightarrow> (string \<times> string \<times> string option) list" where
  "uses s = map (attempt_use s) (item_attempts s)"

definition item_runs :: "store \<Rightarrow> string list" where
  "item_runs s = map i_run_id (items s)"

text \<open>Rows are only added, in order.\<close>

definition grows :: "store \<Rightarrow> store \<Rightarrow> bool" where
  "grows s s' \<longleftrightarrow>
     (\<exists>xs. uses s' = uses s @ xs) \<and> (\<exists>ys. item_runs s' = item_runs s @ ys) \<and>
     (\<exists>zs. map r_run_id (runs s') = map r_run_id (runs s) @ zs)"

lemma grows_refl: "grows s s"
  by (simp add: grows_def)

lemma grows_trans: "grows s t \<Longrightarrow> grows t u \<Longrightarrow> grows s u"
  by (auto simp: grows_def)

lemma grows_frame:
  assumes "map (\<lambda>a. (a_run_id a, a_executor_kind a, a_item_id a)) (item_attempts s') =
      map (\<lambda>a. (a_run_id a, a_executor_kind a, a_item_id a)) (item_attempts s)"
    and "\<And>a. a \<in> set (item_attempts s) \<Longrightarrow>
      map_option i_summary_code (find_item s' (a_item_id a)) =
      map_option i_summary_code (find_item s (a_item_id a))"
    and "item_runs s' = item_runs s @ ys" "map r_run_id (runs s') = map r_run_id (runs s) @ zs"
  shows "grows s s'"
proof -
  have "uses s' = map (\<lambda>(run, kind, item). (run, kind, map_option i_summary_code (find_item s' item)))
      (map (\<lambda>a. (a_run_id a, a_executor_kind a, a_item_id a)) (item_attempts s'))"
    by (simp add: uses_def attempt_use_def attempt_summary_def)
  also have "\<dots> = uses s"
    using assms(2) unfolding assms(1) by (simp add: uses_def attempt_use_def attempt_summary_def)
  finally show ?thesis using assms(3,4) by (simp add: grows_def)
qed

lemma attempt_item:
  "refs_ok s \<Longrightarrow> a \<in> set (item_attempts s) \<Longrightarrow> a_item_id a \<in> i_id ` set (items s)"
  by (force simp: refs_ok_def)

lemma grows_step:
  "row_step s s' \<Longrightarrow> keys_ok s \<Longrightarrow> refs_ok s \<Longrightarrow> attempted_items_ok s \<Longrightarrow> grows s s'"
proof (induction rule: row_step.induct)
  case (item_added i s s')
  have s': "s' = s\<lparr>items := items s @ [i]\<rparr>" using insert_item_tables [OF item_added(1)] by simp
  have "find_item s' (a_item_id a) = find_item s (a_item_id a)" if "a \<in> set (item_attempts s)" for a
    using attempt_item [OF item_added(3) that]
    by (auto simp: s' find_item_def find_append find_None_iff split: option.splits)
  then show ?case by (intro grows_frame) (simp_all add: s' item_runs_def)
next
  case (steering_item_moved st s item_id code now)
  let ?p = "\<lambda>i. i_id i = item_id \<and> i_kind i = KindSteering \<and> i_status i = ItemWaiting"
  have "map_option i_summary_code (find_item (settle_steering_item item_id st code now s) (a_item_id a)) =
      map_option i_summary_code (find_item s (a_item_id a))" if a: "a \<in> set (item_attempts s)" for a
  proof (cases "find_item s (a_item_id a)")
    case None
    then show ?thesis
      by (simp add: find_item_def settle_steering_item_def item_summary.lookup)
  next
    case (Some i)
    then have "i_status i \<noteq> ItemWaiting"
      using steering_item_moved(4) a find_item_mem [OF Some] by (auto simp: attempted_items_ok_def)
    with Some show ?thesis
      by (simp add: find_item_def settle_steering_item_def item_summary.lookup)
  qed
  then show ?case
    by (intro grows_frame [where ys = "[]" and zs = "[]"])
      (simp_all add: settle_steering_item_def item_runs_def map_update_where)
next
  case (item_moved st s p now)
  then show ?case
    by (intro grows_frame [where ys = "[]" and zs = "[]"])
      (simp_all add: item_runs_def map_update_where find_item_def item_status.lookup
        option.map_comp comp_def if_distrib cong: if_cong)
next
  case (attempt_begun s a i s1 now)
  have "grows t (set_item_status k ItemRunning now t)" for k t
    by (intro grows_frame [where ys = "[]" and zs = "[]"])
      (simp_all add: set_item_status_def item_runs_def map_update_where find_item_def
        item_status.lookup option.map_comp comp_def if_distrib cong: if_cong)
  moreover have "grows s s1"
    using insert_attempt_tables [OF attempt_begun(4)]
    by (elim disjE) (simp_all add: grows_def uses_def attempt_use_def attempt_summary_def
        find_item_def item_runs_def)
  ultimately show ?case using grows_trans by blast
next
  case (attempt_settled s p st rd now)
  then show ?case
    by (intro grows_frame [where ys = "[]" and zs = "[]"])
      (simp_all add: map_update_where find_item_def item_runs_def)
next
  case (attempts_closed s task_id run_id st now)
  then show ?case
    by (intro grows_frame [where ys = "[]" and zs = "[]"])
      (simp_all add: map_update_where find_item_def item_runs_def settle_attempts_def)
next
  case (plan_advanced s run_id w task_id base e now c1 c2 c3 plan json s')
  then show ?case
    using advance_plan_tables [OF plan_advanced(4)]
    by (intro grows_frame [where ys = "[]" and zs = "[]"])
      (simp_all add: map_update_where find_item_def item_runs_def)
next
  case (steering_applied s steering_id x w e now c1 c2 c3 plan json s1 code changed s2)
  have "s2 = s1\<lparr>steerings := steerings s2\<rparr>"
    using steering_applied(7) by (auto simp: close_steering_def Let_def)
  then have "item_attempts s2 = item_attempts s1" "items s2 = items s1" "runs s2 = runs s1"
    by (metis store.select_convs store.surjective store.update_convs(9))+
  then show ?case
    using advance_plan_tables [OF steering_applied(6)]
    by (intro grows_frame [where ys = "[]" and zs = "[]"])
      (simp_all add: map_update_where find_item_def item_runs_def)
next
  case (run_added s r)
  then show ?case
    by (intro grows_frame [where ys = "[]"]) (simp_all add: find_item_def item_runs_def)
qed (rule grows_frame [where ys = "[]" and zs = "[]"];
    force simp: store_ops find_item_def item_runs_def map_update_where close_steering_def Let_def
      dest!: insert_steering_tables insert_deferred_tables insert_final_result_tables
        insert_work_plan_tables insert_revision_tables)+


lemma grows_rows: "row_steps s s' \<Longrightarrow> store_inv s \<Longrightarrow> store_inv s' \<and> grows s s'"
proof (induction rule: rtranclp_induct)
  case base
  then show ?case by (simp add: grows_refl)
next
  case (step t u)
  then have "grows t u" using grows_step [of t u] by (simp add: store_inv_def wf_def)
  with step show ?case using grows_trans store_inv_row by blast
qed

interpretation growing: guarded_machine "store_step e" "\<lambda>t. store_inv t \<and> grows s t" for e s
  by unfold_locales (use grows_rows store_step_rows store_inv_runs grows_trans in blast)

lemma reached_grows: "grows (reached e cs) (reached e (cs @ ds))"
  using growing.attempts_inv [of "reached e cs" "reached e cs"] store_inv_reached [of e cs] grows_refl
  by (simp add: reached_def attempts_append)

section \<open>Usage counts\<close>

lemma count_where_map: "count_where p (map f xs) = count_where (\<lambda>x. p (f x)) xs"
  by (simp add: count_where_def filter_map comp_def)

lemma count_where_grows: "xs' = xs @ ys \<Longrightarrow> count_where p xs \<le> count_where p xs'"
  by simp

definition plan_use :: "string \<Rightarrow> string \<times> string \<times> string option \<Rightarrow> bool" where
  "plan_use k x \<longleftrightarrow> x = (k, ''provider'', Some ''work_plan_generation'')"

definition provider_use :: "string \<Rightarrow> string \<times> string \<times> string option \<Rightarrow> bool" where
  "provider_use k x \<longleftrightarrow> fst x = k \<and> fst (snd x) = ''provider''"

definition verification_use :: "string \<Rightarrow> string \<times> string \<times> string option \<Rightarrow> bool" where
  "verification_use k x \<longleftrightarrow> x = (k, ''provider'', Some ''work_provider_semantic_verification'')"

definition tool_use :: "string \<Rightarrow> string \<times> string \<times> string option \<Rightarrow> bool" where
  "tool_use k x \<longleftrightarrow> fst x = k \<and> fst (snd x) = ''tool''"

text \<open>The stored counters are the counts, and did not overflow.\<close>

lemma to_u32_ok: "to_u32 n = Inr w \<longleftrightarrow> n < 2 ^ 32 \<and> w = word_of_nat n"
  by (auto simp: to_u32_def)

lemma unat_to_u32: "to_u32 n = Inr w \<Longrightarrow> unat w = n"
  by (auto simp: to_u32_ok unsigned_of_nat take_bit_nat_eq_self)

lemma usage_counts:
  assumes "work_run_budget_usage e k s = Inr u"
  shows "unat (plan_attempts u) = count_where (plan_use k) (uses s) \<and>
    unat (provider_attempts u) = count_where (provider_use k) (uses s) \<and>
    unat (verification_attempts u) = count_where (verification_use k) (uses s) \<and>
    unat (tool_attempts u) = count_where (tool_use k) (uses s) \<and>
    unat (total_items u) = count_where (\<lambda>x. x = k) (item_runs s)"
proof -
  have plan: "count_where (plan_use k) (uses s) = count_where (\<lambda>a. provider_attempt_of k a \<and>
      attempt_summary s a = Some ''work_plan_generation'') (item_attempts s)"
    by (simp add: uses_def count_where_map plan_use_def attempt_use_def provider_attempt_of_def)
  have provider: "count_where (provider_use k) (uses s) =
      count_where (provider_attempt_of k) (item_attempts s)"
    by (simp add: uses_def count_where_map provider_use_def attempt_use_def provider_attempt_of_def
        [abs_def])
  have verification: "count_where (verification_use k) (uses s) =
      count_where (\<lambda>a. provider_attempt_of k a \<and>
        attempt_summary s a = Some ''work_provider_semantic_verification'') (item_attempts s)"
    by (simp add: uses_def count_where_map verification_use_def attempt_use_def
        provider_attempt_of_def)
  have tool: "count_where (tool_use k) (uses s) =
      count_where (\<lambda>a. a_run_id a = k \<and> a_executor_kind a = ''tool'') (item_attempts s)"
    by (simp add: uses_def count_where_map tool_use_def attempt_use_def)
  have items: "count_where (\<lambda>x. x = k) (item_runs s) = count_where (\<lambda>i. i_run_id i = k) (items s)"
    by (simp add: item_runs_def count_where_map)
  show ?thesis
    using assms unfolding plan provider verification tool items work_run_budget_usage_def
    by (simp only: op_ok) (elim exE conjE, auto dest: unat_to_u32)
qed

text \<open>Usage that has grown: every counter, and the agent share of the provider calls.\<close>

definition usage_le :: "WorkRunBudgetUsage \<Rightarrow> WorkRunBudgetUsage \<Rightarrow> bool" where
  "usage_le u v \<longleftrightarrow>
     plan_attempts u \<le> plan_attempts v \<and> provider_attempts u \<le> provider_attempts v \<and>
     verification_attempts u \<le> verification_attempts v \<and> tool_attempts u \<le> tool_attempts v \<and>
     total_items u \<le> total_items v \<and>
     saturating_sub (provider_attempts u) (verification_attempts u) \<le>
       saturating_sub (provider_attempts v) (verification_attempts v)"

lemma verification_provider: "count_where (verification_use k) xs \<le> count_where (provider_use k) xs"
  by (induction xs) (auto simp: count_where_def verification_use_def provider_use_def)

lemma usage_grows:
  assumes "work_run_budget_usage e k s = Inr u" "work_run_budget_usage e k s' = Inr v" "grows s s'"
  shows "usage_le u v"
proof -
  note counts = usage_counts [OF assms(1)] usage_counts [OF assms(2)]
  obtain xs ys where more: "uses s' = uses s @ xs" "item_runs s' = item_runs s @ ys"
    using assms(3) by (auto simp: grows_def)
  have agent: "count_where (provider_use k) (uses s) - count_where (verification_use k) (uses s) \<le>
      count_where (provider_use k) (uses s') - count_where (verification_use k) (uses s')"
    using verification_provider [of k "uses s"] verification_provider [of k xs]
    unfolding more count_where_append by linarith
  have sub: "unat (saturating_sub a b) = unat a - unat b" for a b :: "32 word"
    by (simp add: saturating_sub_def unat_sub word_le_nat_alt word_less_nat_alt)
  show ?thesis
    unfolding usage_le_def word_le_nat_alt sub
    using counts agent by (simp add: more)
qed

text \<open>An admission that the later usage passes, the earlier one passes too.\<close>

lemma admit_mono:
  assumes "usage_le u v"
  shows "admit_item b v = Inr x \<Longrightarrow> admit_item b u = Inr x"
    and "admit_provider b v = Inr x \<Longrightarrow> admit_provider b u = Inr x"
    and "admit_plan b v = Inr x \<Longrightarrow> admit_plan b u = Inr x"
    and "admit_semantic_verification b v = Inr x \<Longrightarrow> admit_semantic_verification b u = Inr x"
    and "admit_tool b v = Inr x \<Longrightarrow> admit_tool b u = Inr x"
proof -
  have item: "admit_item b v = Inr x \<Longrightarrow> admit_item b u = Inr x" for x
    using assms by (auto simp: admit_item_def usage_le_def)
  have provider: "admit_provider b v = Inr x \<Longrightarrow> admit_provider b u = Inr x" for x
    using assms item by (auto simp: admit_provider_def usage_le_def Let_def split: if_splits)
  show "admit_item b v = Inr x \<Longrightarrow> admit_item b u = Inr x" by (rule item)
  show "admit_provider b v = Inr x \<Longrightarrow> admit_provider b u = Inr x" by (rule provider)
  show "admit_plan b v = Inr x \<Longrightarrow> admit_plan b u = Inr x"
    using assms provider by (auto simp: admit_plan_def usage_le_def split: if_splits)
  show "admit_semantic_verification b v = Inr x \<Longrightarrow> admit_semantic_verification b u = Inr x"
    using assms item by (auto simp: admit_semantic_verification_def usage_le_def split: if_splits)
  show "admit_tool b v = Inr x \<Longrightarrow> admit_tool b u = Inr x"
    using assms item by (auto simp: admit_tool_def usage_le_def split: if_splits)
qed

end
