(* ===== verification/Task_Completion.thy ===== *)
theory Task_Completion
  imports Task_Usage
begin

text \<open>
  What the calls that end a run achieve: a completion settles the run and stores its one
  result, a second completion changes nothing, and the recovery after a restart
  interrupts exactly the running work and can be repeated.
\<close>

section \<open>Completion\<close>

text \<open>The tables after the final item, the final result and the statuses are stored.\<close>

lemma ensure_completed_item_tables:
  assumes "ensure_completed_item item_id task_id run_id kind code digest now s = Inr s'"
  shows "(\<exists>added. s' = s\<lparr>items := items s @ added\<rparr>) \<and>
    (\<exists>i \<in> set (items s'). i_id i = item_id \<and> item_of_run task_id run_id i \<and>
      i_kind i = kind \<and> i_status i = ItemCompleted \<and> i_payload_digest i = digest)"
proof (cases "find_item s item_id")
  case None
  then have "insert_item
            \<lparr>i_id = item_id, i_task_id = task_id, i_run_id = run_id,
             i_sequence = next_sequence s task_id, i_kind = kind, i_status = ItemCompleted,
             i_summary_code = code, i_payload_digest = digest, i_updated_at = now\<rparr> s = Inr s'"
    using assms by (simp add: ensure_completed_item_def)
  from insert_item_tables [OF this] show ?thesis by (auto simp: item_of_run_def)
next
  case (Some i)
  then have "s' = s" "i_task_id i = task_id" "i_run_id i = run_id" "i_kind i = kind"
    "i_status i = ItemCompleted" "i_payload_digest i = digest"
    using assms by (auto simp: ensure_completed_item_def split: if_splits)
  moreover have "s = s\<lparr>items := items s @ []\<rparr>" by simp
  ultimately show ?thesis using find_item_mem [OF Some] unfolding item_of_run_def by metis
qed

lemma completed_tables:
  assumes "complete_general_task e now c s = Inr (r, s')"
    and "find_run s (c_task_id c) (c_run_id c) = Some run" "r_status run = TaskRunning"
  shows "\<exists>json added. validate_complete e c = Inr json \<and>
    count_where (unsettled (c_task_id c) (c_run_id c)) (items s) = 0 \<and>
    s' = close_run (c_task_id c) (c_run_id c) now
      (s\<lparr>items := items s @ added, final_results := final_results s @ [final_row c json now]\<rparr>) \<and>
    (\<exists>i \<in> set (items s @ added). i_id i = c_final_item_id c \<and>
      item_of_run (c_task_id c) (c_run_id c) i \<and> i_kind i = KindFinalResult \<and>
      i_status i = ItemCompleted \<and> i_payload_digest i = c_result_digest c) \<and>
    (c_task_id c, c_run_id c) \<notin> (\<lambda>x. (f_task_id x, f_run_id x)) ` set (final_results s) \<and>
    load_final_result_in_tx e (c_task_id c) s' = Inr (Some r) \<and>
    count_where (unsettled (c_task_id c) (c_run_id c)) (items s') = 0"
proof -
  obtain json s1 s2 where a: "validate_complete e c = Inr json"
    "count_where (unsettled (c_task_id c) (c_run_id c)) (items s) = 0"
    "ensure_completed_item (c_final_item_id c) (c_task_id c) (c_run_id c)
      KindFinalResult (c_summary_code c) (c_result_digest c) now s = Inr s1"
    "insert_final_result (final_row c json now) s1 = Inr s2"
    "s' = close_run (c_task_id c) (c_run_id c) now s2"
    "load_final_result_in_tx e (c_task_id c) s' = Inr (Some r)"
    using complete_running_store [OF assms] by blast
  obtain added where added: "s1 = s\<lparr>items := items s @ added\<rparr>"
    using ensure_completed_item_tables [OF a(3)] by blast
  have s2: "s2 = s1\<lparr>final_results := final_results s1 @ [final_row c json now]\<rparr>"
    and fresh: "(c_task_id c, c_run_id c) \<notin> (\<lambda>x. (f_task_id x, f_run_id x)) ` set (final_results s1)"
    using insert_final_result_tables [OF a(4)] by (simp_all add: final_row_def)
  have "items s' = items s1"
    unfolding a(5) s2 close_run_def resolve_attention_def set_task_status_def set_run_status_def by simp
  then have settled: "count_where (unsettled (c_task_id c) (c_run_id c)) (items s') = 0"
    using completed_item_frame [OF a(3,2)] by simp
  show ?thesis
    using a ensure_completed_item_tables [OF a(3)] fresh settled unfolding s2 added
    by (intro exI [of _ json] exI [of _ added]) simp
qed

definition same_result_row :: "CompleteGeneralTaskInput \<Rightarrow> final_result_row \<Rightarrow> bool" where
  "same_result_row c f \<longleftrightarrow>
     f_task_id f = c_task_id c \<and> f_run_id f = c_run_id c \<and> f_item_id f = c_final_item_id c \<and>
     f_conversation_item_id f = c_conversation_item_id c \<and> f_result_digest f = c_result_digest c \<and>
     f_summary_code f = c_summary_code c"

lemma close_run_tables:
  "runs (close_run t k now s) = update_where (is_run t k)
     (\<lambda>r. r\<lparr>r_status := TaskCompleted, r_updated_at := now, r_completed_at := Some now\<rparr>) (runs s)"
  "tasks (close_run t k now s) = update_where (\<lambda>x. t_id x = t)
     (\<lambda>x. x\<lparr>t_status := TaskCompleted, t_updated_at := now\<rparr>) (tasks s)"
  "items (close_run t k now s) = items s" "final_results (close_run t k now s) = final_results s"
  "attention (close_run t k now s) = update_where (\<lambda>a. at_task_id a = t \<and> at_resolved_at a = None)
     (\<lambda>a. a\<lparr>at_resolved_at := Some now\<rparr>) (attention s)"
  by (simp_all add: close_run_def resolve_attention_def set_task_status_def set_run_status_def)

text \<open>The record that is returned decodes the latest result row of the task.\<close>

lemma load_final_result_row:
  assumes "load_final_result_in_tx e task_id s = Inr (Some r)"
  shows "res_row r \<in> set (final_results s) \<and> f_task_id (res_row r) = task_id \<and>
    decode_completion_limitations e (f_completion_limitations_json (res_row r)) =
      Inr (res_completion_limitations r)"
proof -
  obtain row where row: "latest_final_result s task_id = Some row" "row_to_final_result e row = Inr r"
    using assms by (auto simp: load_final_result_in_tx_def split: option.splits)
  have "row \<in> set (final_results s)" "f_task_id row = task_id"
    using row(1) unfolding latest_final_result_def Let_def by (auto dest!: find_Some_mem)
  then show ?thesis using row(2) by (auto simp: row_to_final_result_def)
qed

text \<open>The row a completion has stored is the only row of its run.\<close>

lemma completed_row:
  assumes inv: "store_inv s" and call: "complete_general_task e now c s = Inr (r, s')"
    and own: "f_run_id (res_row r) = c_run_id c"
    and codec: "\<And>json. limitations_to_json e (c_completion_limitations c) = Some json \<Longrightarrow>
      limitations_of_json e json = Some (c_completion_limitations c)"
    and run: "find_run s (c_task_id c) (c_run_id c) = Some run" "r_status run = TaskRunning"
  shows "same_result c r"
proof -
  obtain json added where a: "validate_complete e c = Inr json"
    "s' = close_run (c_task_id c) (c_run_id c) now
      (s\<lparr>items := items s @ added, final_results := final_results s @ [final_row c json now]\<rparr>)"
    "load_final_result_in_tx e (c_task_id c) s' = Inr (Some r)"
    "(c_task_id c, c_run_id c) \<notin> (\<lambda>x. (f_task_id x, f_run_id x)) ` set (final_results s)"
    using completed_tables [OF call run] by blast
  note loaded = load_final_result_row [OF a(3)]
  have "res_row r \<in> set (final_results s @ [final_row c json now])"
    using loaded unfolding a(2) close_run_tables by simp
  then have row: "res_row r = final_row c json now"
    using a(4) loaded own by force
  have enc: "encode_completion_limitations e (c_completion_limitations c) = Inr json"
    using a(1) unfolding validate_complete_def by (simp only: op_ok) blast
  then have "limitations_of_json e json = Some (c_completion_limitations c)"
    using codec unfolding encode_completion_limitations_def by (simp only: op_ok ok_or_ok) blast
  then have "res_completion_limitations r = c_completion_limitations c"
    using loaded unfolding row by (auto simp: final_row_def decode_completion_limitations_def)
  then show ?thesis by (simp add: same_result_def row final_row_def)
qed

lemma filter_update_where_other:
  "(\<And>x. p x \<Longrightarrow> \<not> q x \<and> \<not> q (f x)) \<Longrightarrow> filter q (update_where p f xs) = filter q xs"
  by (induction xs) (auto simp: update_where_def)

lemma completion_settled:
  assumes inv: "store_inv s" and call: "complete_general_task e now c s = Inr (r, s')"
    and run: "find_run s (c_task_id c) (c_run_id c) = Some run" "r_status run = TaskRunning"
  shows "count_where (unsettled (c_task_id c) (c_run_id c)) (items s) = 0 \<and>
    count_where (unsettled (c_task_id c) (c_run_id c)) (items s') = 0 \<and>
    (\<exists>run'. find_run s' (c_task_id c) (c_run_id c) = Some run' \<and>
       r_status run' = TaskCompleted \<and> r_completed_at run' = Some now) \<and>
    (\<forall>t \<in> set (tasks s'). t_id t = c_task_id c \<longrightarrow> t_status t = TaskCompleted) \<and>
    (\<exists>f. filter (\<lambda>f. f_run_id f = c_run_id c) (final_results s') = [f] \<and> same_result_row c f \<and>
       (\<exists>i \<in> set (items s'). i_id i = f_item_id f \<and> i_status i = ItemCompleted)) \<and>
    (\<forall>a \<in> set (attention s'). at_task_id a = c_task_id c \<longrightarrow> at_resolved_at a \<noteq> None) \<and>
    filter (\<lambda>r. r_run_id r \<noteq> c_run_id c) (runs s') = filter (\<lambda>r. r_run_id r \<noteq> c_run_id c) (runs s)"
proof -
  let ?t = "c_task_id c" and ?k = "c_run_id c"
  let ?done = "\<lambda>r. r\<lparr>r_status := TaskCompleted, r_updated_at := now, r_completed_at := Some now\<rparr>"
  have keys: "keys_ok s" and refs: "refs_ok s" using inv by (simp_all add: store_inv_def wf_def)
  obtain json added where a: "count_where (unsettled ?t ?k) (items s) = 0"
    "s' = close_run ?t ?k now
      (s\<lparr>items := items s @ added, final_results := final_results s @ [final_row c json now]\<rparr>)"
    "\<exists>i \<in> set (items s @ added). i_id i = c_final_item_id c \<and>
      item_of_run ?t ?k i \<and> i_kind i = KindFinalResult \<and>
      i_status i = ItemCompleted \<and> i_payload_digest i = c_result_digest c"
    "(?t, ?k) \<notin> (\<lambda>x. (f_task_id x, f_run_id x)) ` set (final_results s)"
    "count_where (unsettled ?t ?k) (items s') = 0"
    using completed_tables [OF call run] by blast
  note tables = close_run_tables [of ?t ?k now "s\<lparr>items := items s @ added,
      final_results := final_results s @ [final_row c json now]\<rparr>", folded a(2)]
  have none: "f_run_id f \<noteq> ?k" if f: "f \<in> set (final_results s)" for f
  proof
    assume k: "f_run_id f = ?k"
    have "(\<lambda>f. (f_task_id f, f_run_id f)) ` set (final_results s) \<subseteq> run_key ` set (runs s)"
      using refs by (simp add: refs_ok_def)
    then have "(f_task_id f, f_run_id f) \<in> run_key ` set (runs s)" using f by blast
    then obtain q where q: "q \<in> set (runs s)" "r_task_id q = f_task_id f" "r_run_id q = ?k"
      using k by (auto simp: run_key_def)
    have "q = run" using run_id_unique [OF keys q(1), of run] find_run_mem [OF run(1)] q(3) by simp
    then have "(?t, ?k) \<in> (\<lambda>x. (f_task_id x, f_run_id x)) ` set (final_results s)"
      using f k q(2) find_run_mem [OF run(1)] by force
    then show False using a(4) by contradiction
  qed
  have "find_run s' ?t ?k = Some (?done run)"
  proof -
    have "find_run s' ?t ?k = map_option (\<lambda>r. if is_run ?t ?k r then ?done r else r) (find_run s ?t ?k)"
      unfolding find_run_def tables by (simp add: find_update_where is_run_def)
    then show ?thesis using run(1) find_run_mem [OF run(1)] by (simp add: is_run_def)
  qed
  moreover have "filter (\<lambda>r. r_run_id r \<noteq> ?k) (runs s') = filter (\<lambda>r. r_run_id r \<noteq> ?k) (runs s)"
  proof -
    have "filter (\<lambda>r. r_run_id r \<noteq> ?k) (update_where (is_run ?t ?k) ?done (runs s)) =
        filter (\<lambda>r. r_run_id r \<noteq> ?k) (runs s)"
      by (rule filter_update_where_other) (simp add: is_run_def)
    then show ?thesis by (simp add: tables)
  qed
  moreover have "filter (\<lambda>f. f_run_id f = ?k) (final_results s') = [final_row c json now]"
    using none by (simp add: tables final_row_def filter_empty_conv)
  moreover have "same_result_row c (final_row c json now)"
    by (simp add: same_result_row_def final_row_def)
  moreover have "\<exists>i \<in> set (items s'). i_id i = f_item_id (final_row c json now) \<and>
      i_status i = ItemCompleted"
    using a(3) by (auto simp: tables final_row_def)
  moreover have "\<forall>t \<in> set (tasks s'). t_id t = ?t \<longrightarrow> t_status t = TaskCompleted"
    "\<forall>x \<in> set (attention s'). at_task_id x = ?t \<longrightarrow> at_resolved_at x \<noteq> None"
    unfolding tables by (auto elim!: update_whereE)
  ultimately show ?thesis using a(1,5) by simp
qed

section \<open>Recovery\<close>

lemma update_where_twice:
  assumes "\<And>x. q x \<Longrightarrow> p (f x) \<Longrightarrow> f (f x) = f x"
  shows "update_where p f (update_where q f xs) = update_where (\<lambda>x. q x \<or> p x) f xs"
  using assms by (simp add: update_where_def)

text \<open>The rows after the loop over the keys of the runs.\<close>

definition interrupted :: "int \<Rightarrow> (string \<times> string) set \<Rightarrow> store \<Rightarrow> store" where
  "interrupted now ks s =
     s\<lparr>runs := update_where (\<lambda>r. run_key r \<in> ks)
         (\<lambda>r. r\<lparr>r_status := TaskInterrupted, r_updated_at := now, r_completed_at := Some now\<rparr>) (runs s),
       items := update_where (\<lambda>i. item_run i \<in> ks \<and> i_status i \<in> {ItemWaiting, ItemRunning})
         (\<lambda>i. i\<lparr>i_status := ItemInterrupted, i_updated_at := now\<rparr>) (items s),
       item_attempts := update_where (\<lambda>a. (a_task_id a, a_run_id a) \<in> ks \<and> a_status a = ItemRunning)
         (\<lambda>a. a\<lparr>a_status := ItemInterrupted, a_finished_at := Some now\<rparr>) (item_attempts s),
       tasks := update_where (\<lambda>t. t_id t \<in> fst ` ks \<and> t_status t = TaskRunning)
         (\<lambda>t. t\<lparr>t_status := TaskInterrupted, t_updated_at := now\<rparr>) (tasks s)\<rparr>"

lemma update_where_none: "update_where (\<lambda>_. False) f xs = xs"
  by (simp add: update_where_def)

lemma update_where_cong:
  "(\<And>x. x \<in> set xs \<Longrightarrow> p x = q x) \<Longrightarrow> update_where p f xs = update_where q f xs"
  by (simp add: update_where_def)

lemma interrupt_run_interrupted: "interrupt_run now k s = interrupted now {k} s"
  by (cases k) (simp add: interrupt_run_def interrupted_def set_run_status_def settle_items_def
      settle_attempts_def set_task_status_def Let_def is_run_def [abs_def] run_key_def item_run_def
      item_of_run_def attempt_of_run_def conj_ac)

lemma interrupted_insert: "interrupted now ks (interrupted now {k} s) = interrupted now (insert k ks) s"
proof -
  have runs: "update_where (\<lambda>r. run_key r \<in> ks) f (update_where (\<lambda>r. run_key r \<in> {k}) f rs) =
      update_where (\<lambda>r. run_key r \<in> insert k ks) f rs"
    if "f = (\<lambda>r. r\<lparr>r_status := TaskInterrupted, r_updated_at := now, r_completed_at := Some now\<rparr>)"
    for f and rs :: "CanonicalTaskRunRecord list"
    unfolding that by (subst update_where_twice) (auto intro!: update_where_cong)
  have items: "update_where (\<lambda>i. item_run i \<in> ks \<and> i_status i \<in> {ItemWaiting, ItemRunning}) f
      (update_where (\<lambda>i. item_run i \<in> {k} \<and> i_status i \<in> {ItemWaiting, ItemRunning}) f xs) =
      update_where (\<lambda>i. item_run i \<in> insert k ks \<and> i_status i \<in> {ItemWaiting, ItemRunning}) f xs"
    if "f = (\<lambda>i. i\<lparr>i_status := ItemInterrupted, i_updated_at := now\<rparr>)"
    for f and xs :: "CanonicalTaskItemRecord list"
    unfolding that by (subst update_where_twice) (auto intro!: update_where_cong)
  have attempts: "update_where (\<lambda>a. (a_task_id a, a_run_id a) \<in> ks \<and> a_status a = ItemRunning) f
      (update_where (\<lambda>a. (a_task_id a, a_run_id a) \<in> {k} \<and> a_status a = ItemRunning) f xs) =
      update_where (\<lambda>a. (a_task_id a, a_run_id a) \<in> insert k ks \<and> a_status a = ItemRunning) f xs"
    if "f = (\<lambda>a. a\<lparr>a_status := ItemInterrupted, a_finished_at := Some now\<rparr>)"
    for f and xs :: "CanonicalTaskItemAttemptRecord list"
    unfolding that by (subst update_where_twice) (auto intro!: update_where_cong)
  have tasks: "update_where (\<lambda>t. t_id t \<in> fst ` ks \<and> t_status t = TaskRunning) f
      (update_where (\<lambda>t. t_id t \<in> fst ` {k} \<and> t_status t = TaskRunning) f xs) =
      update_where (\<lambda>t. t_id t \<in> fst ` insert k ks \<and> t_status t = TaskRunning) f xs"
    if "f = (\<lambda>t. t\<lparr>t_status := TaskInterrupted, t_updated_at := now\<rparr>)"
    for f and xs :: "CanonicalTaskRecord list"
    unfolding that by (subst update_where_twice) (auto intro!: update_where_cong)
  show ?thesis
    unfolding interrupted_def
    by (simp add: runs [OF refl, simplified] items [OF refl, simplified]
        attempts [OF refl, simplified] tasks [OF refl, simplified])
qed

lemma fold_interrupt: "fold (interrupt_run now) ks s = interrupted now (set ks) s"
proof (induction ks arbitrary: s)
  case Nil
  then show ?case by (simp add: interrupted_def update_where_none)
next
  case (Cons k ks)
  then show ?case by (simp add: interrupt_run_interrupted interrupted_insert)
qed

definition recovered_keys :: "store \<Rightarrow> (string \<times> string) set" where
  "recovered_keys s = run_key ` {r \<in> set (runs s). recoverable s r}"

lemma recover_interrupted:
  "recover_interrupted_general_runs now s =
     Inr (count_where (recoverable s) (runs s), interrupted now (recovered_keys s) s)"
  by (simp add: recover_interrupted_general_runs_def Let_def fold_interrupt recovered_keys_def
      count_where_def)

lemma exists_update_where:
  "(\<And>x. q x \<Longrightarrow> p (f x) = p x) \<Longrightarrow> exists_where p (update_where q f xs) = exists_where p xs"
  by (induction xs) (auto simp: exists_where_def update_where_def)

lemma nothing_recoverable:
  "r \<in> set (runs (interrupted now (recovered_keys s) s)) \<Longrightarrow>
   \<not> recoverable (interrupted now (recovered_keys s) s) r"
proof
  let ?s = "interrupted now (recovered_keys s) s"
  assume r: "r \<in> set (runs ?s)" and rec: "recoverable ?s r"
  have kind: "exists_where (\<lambda>t. t_id t = k \<and> t_task_kind t = ''work'') (tasks ?s) =
      exists_where (\<lambda>t. t_id t = k \<and> t_task_kind t = ''work'') (tasks s)" for k
    by (simp add: interrupted_def exists_update_where del: exists_where_iff)
  from r have "r \<in> set (update_where (\<lambda>r. run_key r \<in> recovered_keys s)
      (\<lambda>r. r\<lparr>r_status := TaskInterrupted, r_updated_at := now, r_completed_at := Some now\<rparr>) (runs s))"
    by (simp add: interrupted_def)
  then show False
  proof (cases rule: update_whereE)
    case (moved q)
    then show ?thesis using rec by (simp add: recoverable_def)
  next
    case kept
    have "recoverable s r" using rec unfolding recoverable_def kind .
    then have "run_key r \<in> recovered_keys s" using kept(1) unfolding recovered_keys_def by blast
    then show ?thesis using kept(2) by contradiction
  qed
qed

end
