(* ===== verification/Task_Claims.thy ===== *)
theory Task_Claims
  imports Task_Completion "HOL-Library.Code_Target_Nat"
begin

text \<open>
  The properties of the task store, over every sequence of its calls, and the concrete
  store their witnesses run on: one task with a plan, a steering, attempts, a recovery
  and a retry.
\<close>

section \<open>A concrete environment\<close>

definition demo_digest :: string where
  "demo_digest = ''sha256:'' @ replicate 64 CHR ''0''"

definition demo_plan :: "string \<Rightarrow> StructuredWorkPlan" where
  "demo_plan label =
     \<lparr>schema_version = WORK_PLAN_SCHEMA_VERSION,
      steps = [\<lparr>step_id = label, step_kind = DeliverResult, step_required = True, depends_on = [],
               target_id = None, target_contract_digest = None\<rparr>],
      completion = \<lparr>result_kind = Answer, requires_verification = False, requirements = [],
                    requires_review_before_write = False\<rparr>,
      source_constraints = \<lparr>required_web_domains = []\<rparr>\<rparr>"

text \<open>A plan is encoded as the identifier of its step, the empty list of limitations as \<open>[]\<close>.\<close>

definition demo_env :: env where
  "demo_env =
     \<lparr>canonical_uuid = (\<lambda>_. True), sha256_hex = filter (\<lambda>c. c \<noteq> CHR 0x00),
      plan_to_json = (\<lambda>p. case steps p of s # _ \<Rightarrow> Some (step_id s) | [] \<Rightarrow> None),
      plan_of_json = (\<lambda>s. Some (demo_plan s)),
      limitations_to_json = (\<lambda>ls. if ls = [] then Some ''[]'' else None),
      limitations_of_json = (\<lambda>s. if s = ''[]'' then Some [] else None)\<rparr>"

definition demo_begin :: "string \<Rightarrow> BeginGeneralTaskRunInput" where
  "demo_begin run =
     \<lparr>b_task_id = ''t'', b_conversation_id = ''c'', b_run_id = run, b_execution_session_id = ''x'',
      b_instruction_digest = demo_digest, b_plan_digest = None, b_project_id = None,
      b_project_revision = None, b_scope_digest = None, b_execution_mode = ScopedAgent\<rparr>"

definition demo_attempt :: "string \<Rightarrow> string \<Rightarrow> BeginItemAttemptInput" where
  "demo_attempt attempt kind =
     \<lparr>ba_attempt_id = attempt, ba_task_id = ''t'', ba_run_id = ''r1'', ba_item_id = ''i'',
      ba_executor_kind = kind, ba_provider_profile_id = None, ba_provider_model_id = None,
      ba_provider_reasoning_effort = None, ba_request_digest = demo_digest\<rparr>"

definition demo_complete :: CompleteGeneralTaskInput where
  "demo_complete =
     \<lparr>c_task_id = ''t'', c_run_id = ''r1'',
      c_final_item_id = final_result_item_id demo_env ''t'' ''r1'', c_conversation_item_id = ''m'',
      c_result_digest = demo_digest, c_summary_code = ''done'', c_completion_limitations = []\<rparr>"

definition demo_steering :: SubmitSteeringInput where
  "demo_steering =
     \<lparr>ss_steering_id = ''s'', ss_task_id = ''t'', ss_run_id = ''r1'', ss_source_message_ref = ''m1'',
      ss_source_message_digest = demo_digest, ss_steering_digest = demo_digest,
      ss_base_plan_revision = 1\<rparr>"

definition demo_item :: "string \<Rightarrow> store_call" where
  "demo_item item = CallAppendItem ''t'' ''r1'' item KindToolCall ''work_tool'' demo_digest"

text \<open>A run with a plan that a steering has replaced.\<close>

definition demo_planned :: "(int \<times> store_call) list" where
  "demo_planned =
     [(1, CallBegin (demo_begin ''r1'')),
      (2, CallPersistPlan ''t'' ''r1'' 1 (demo_plan ''one'') default_budget_policy),
      (3, CallSubmitSteering demo_steering),
      (4, CallApplySteering ''s'' (demo_plan ''two''))]"

lemma demo_planned_runs:
  "map (\<lambda>r. (r_run_id r, r_plan_revision r)) (runs (reached demo_env demo_planned)) = [(''r1'', 2)] \<and>
   map w_plan_revision (work_plan_revisions (reached demo_env demo_planned)) = [1, 2] \<and>
   map s_status (steerings (reached demo_env demo_planned)) = [SteeringApplied]"
  by code_simp


section \<open>The store as an abstract machine\<close>



section \<open>Plans and steering\<close>

lemma collect_rows:
  "res_fold (\<lambda>acc w. res_bind (f w) (\<lambda>p. Inr (acc @ [p]))) acc ws = Inr ps \<Longrightarrow>
   \<exists>qs. ps = acc @ qs \<and> list_all2 (\<lambda>w q. f w = Inr q) ws qs"
proof (induction ws arbitrary: acc)
  case (Cons w ws)
  then obtain q where q: "f w = Inr q"
    "res_fold (\<lambda>acc w. res_bind (f w) (\<lambda>p. Inr (acc @ [p]))) (acc @ [q]) ws = Inr ps"
    by auto
  obtain qs where "ps = (acc @ [q]) @ qs" "list_all2 (\<lambda>w q. f w = Inr q) ws qs"
    using Cons.IH [OF q(2)] by blast
  with q(1) show ?case by (intro exI [of _ "q # qs"]) simp
qed simp

lemma list_all2_last: "list_all2 P xs ys \<Longrightarrow> xs \<noteq> [] \<Longrightarrow> P (last xs) (last ys)"
  by (induction rule: list_all2_induct) auto

lemma list_all2_mem: "list_all2 P xs ys \<Longrightarrow> y \<in> set ys \<Longrightarrow> \<exists>x \<in> set xs. P x y"
  by (induction rule: list_all2_induct) auto

lemma row_record:
  "row_to_work_plan_record e w = Inr p \<Longrightarrow>
   p_plan_revision p = w_plan_revision w \<and> p_budget_policy p = w_budget_policy w"
  by (auto simp: row_to_work_plan_record_def)

lemma listed_revisions:
  assumes "list_work_plan_revisions e k s = Inr ps"
    and "sorted (map w_plan_revision (plan_history s k))"
  shows "list_all2 (\<lambda>w p. row_to_work_plan_record e w = Inr p) (plan_history s k) ps"
proof -
  have "sort_key w_plan_revision (plan_history s k) = plan_history s k"
    using assms(2) by (rule sort_key_id_if_sorted)
  then show ?thesis
    using assms(1) collect_rows [where acc = "[]"]
    unfolding list_work_plan_revisions_def plan_history_def by (simp only: op_ok) force
qed

text \<open>
  C21. The history of the plan of a run is complete: the listed revisions are exactly 1 to
  the current revision of the run, in order, all under one budget policy, which is the
  policy the budget of the run is read from, and the last one is the current plan.
\<close>

theorem plan_history_is_contiguous:
  assumes "r \<in> set (runs (reached e cs))"
    and "list_work_plan_revisions e (r_run_id r) (reached e cs) = Inr ps"
  shows "(ps = [] \<longrightarrow> r_plan_revision r = 1 \<and>
      load_work_plan e (r_run_id r) (reached e cs) = Inr None) \<and>
    (ps \<noteq> [] \<longrightarrow> map p_plan_revision ps = [1..<Suc (r_plan_revision r)] \<and>
      load_work_plan e (r_run_id r) (reached e cs) = Inr (Some (last ps)) \<and>
      (\<forall>p \<in> set ps. work_run_budget_policy e (r_run_id r) (reached e cs) = Inr (p_budget_policy p)))"
proof -
  let ?s = "reached e cs" and ?k = "r_run_id r"
  have ok: "run_plan_ok ?s r"
    using store_inv_reached [of e cs] assms(1) by (simp add: store_inv_def plans_ok_def)
  have uuid: "validate_uuid e ''run_id'' ?k = Inr ()"
    using assms(2) unfolding list_work_plan_revisions_def by (simp only: op_ok) auto
  show ?thesis
  proof (cases "find_plan ?s ?k")
    case None
    then have hist: "r_plan_revision r = 1" "plan_history ?s ?k = []"
      using ok by (simp_all add: run_plan_ok_def)
    then have "ps = []" using listed_revisions [OF assms(2)] by simp
    then show ?thesis using hist None uuid by (simp add: load_work_plan_def load_work_plan_in_tx_def)
  next
    case (Some w)
    then have hist: "map w_plan_revision (plan_history ?s ?k) = [1..<Suc (r_plan_revision r)]"
      "plan_history ?s ?k \<noteq> []" "last (plan_history ?s ?k) = w"
      "\<And>x. x \<in> set (plan_history ?s ?k) \<Longrightarrow> w_budget_policy x = w_budget_policy w"
      using ok by (auto simp: run_plan_ok_def)
    have rows: "list_all2 (\<lambda>w p. row_to_work_plan_record e w = Inr p) (plan_history ?s ?k) ps"
      using listed_revisions [OF assms(2)] by (simp only: hist(1) sorted_upt)
    have "ps \<noteq> []" using rows hist(2) by auto
    have "map p_plan_revision ps = map w_plan_revision (plan_history ?s ?k)"
      using rows by (induction rule: list_all2_induct) (auto dest: row_record)
    moreover have last: "row_to_work_plan_record e w = Inr (last ps)"
      using list_all2_last [OF rows hist(2)] hist(3) by simp
    moreover have "p_budget_policy p = w_budget_policy w" if "p \<in> set ps" for p
      using list_all2_mem [OF rows that] hist(4) row_record by metis
    ultimately show ?thesis
      using Some uuid hist(1) \<open>ps \<noteq> []\<close> row_record [OF last]
      by (simp add: load_work_plan_def load_work_plan_in_tx_def work_run_budget_policy_def)
  qed
qed

definition demo_run :: CanonicalTaskRunRecord where
  "demo_run = hd (runs (reached demo_env demo_planned))"

lemma demo_run_mem: "demo_run \<in> set (runs (reached demo_env demo_planned)) \<and> r_run_id demo_run = ''r1'' \<and>
    r_plan_revision demo_run = 2"
  by code_simp

theorem plan_history_is_contiguous_witness:
  "\<exists>ps. list_work_plan_revisions demo_env ''r1'' (reached demo_env demo_planned) = Inr ps \<and>
     map p_plan_revision ps = [1, 2] \<and>
     load_work_plan demo_env ''r1'' (reached demo_env demo_planned) = Inr (Some (last ps))"
proof -
  have "case list_work_plan_revisions demo_env ''r1'' (reached demo_env demo_planned) of
      Inl _ \<Rightarrow> False | Inr ps \<Rightarrow> ps \<noteq> []"
    by code_simp
  then obtain ps where ps: "list_work_plan_revisions demo_env ''r1'' (reached demo_env demo_planned) = Inr ps"
    "ps \<noteq> []"
    by (auto split: sum.splits)
  then show ?thesis
    using plan_history_is_contiguous [of demo_run demo_env demo_planned ps] demo_run_mem
    by (simp add: upt_rec)
qed


definition demo_applied :: CanonicalSteeringRecord where
  "demo_applied = hd (steerings (reached demo_env demo_planned))"

lemma demo_applied_mem:
  "demo_applied \<in> set (steerings (reached demo_env demo_planned)) \<and>
   s_status demo_applied = SteeringApplied \<and> s_base_plan_revision demo_applied = 1"
  by code_simp



section \<open>Runs that have ended\<close>


definition demo_ended :: "(int \<times> store_call) list" where
  "demo_ended = demo_planned @ [(5, CallTerminalizeRun ''t'' ''r1'' TaskFailed)]"

definition demo_later :: "(int \<times> store_call) list" where
  "demo_later =
     [(6, CallBegin (demo_begin ''r2'')), (7, CallTerminalizeRun ''t'' ''r1'' TaskCancelled),
      (8, CallRevisePlan ''t'' ''r1'' 2 (demo_plan ''three'')), (9, CallRecover)]"

lemma demo_later_runs:
  "map r_status (runs (reached demo_env (demo_ended @ demo_later))) = [TaskFailed, TaskInterrupted]"
  by code_simp

lemma demo_ended_terminal: "terminal_run (reached demo_env demo_ended) ''r1''"
  by code_simp


text \<open>
  C24. A completion settles the run: it is accepted only when no item of the run waits,
  runs or has an unknown effect; afterwards the run and its task are completed, the run
  has exactly one final result, with the data of the call and a completed final item, the
  attention of the task is resolved, and every other run is untouched.
\<close>

theorem completion_settles_the_run:
  fixes e cs
  defines "s \<equiv> reached e cs"
  assumes call: "complete_general_task e now c s = Inr (r, s')"
    and run: "find_run s (c_task_id c) (c_run_id c) = Some run" "r_status run = TaskRunning"
  shows "count_where (unsettled (c_task_id c) (c_run_id c)) (items s) = 0 \<and>
    count_where (unsettled (c_task_id c) (c_run_id c)) (items s') = 0 \<and>
    (\<exists>run'. find_run s' (c_task_id c) (c_run_id c) = Some run' \<and>
       r_status run' = TaskCompleted \<and> r_completed_at run' = Some now) \<and>
    (\<forall>t \<in> set (tasks s'). t_id t = c_task_id c \<longrightarrow> t_status t = TaskCompleted) \<and>
    (\<exists>f. filter (\<lambda>f. f_run_id f = c_run_id c) (final_results s') = [f] \<and> same_result_row c f \<and>
       (\<exists>i \<in> set (items s'). i_id i = f_item_id f \<and> i_status i = ItemCompleted)) \<and>
    (\<forall>a \<in> set (attention s'). at_task_id a = c_task_id c \<longrightarrow> at_resolved_at a \<noteq> None) \<and>
    filter (\<lambda>r. r_run_id r \<noteq> c_run_id c) (runs s') = filter (\<lambda>r. r_run_id r \<noteq> c_run_id c) (runs s)"
  by (rule completion_settled [OF store_inv_reached call [unfolded s_def] run [unfolded s_def],
      folded s_def])

definition demo_working :: "(int \<times> store_call) list" where
  "demo_working =
     demo_planned @
     [(5, demo_item ''i''), (6, CallBeginAttempt (demo_attempt ''a'' ''tool'')),
      (7, CallTerminalizeAttempt ''a'' ItemCompleted None)]"

definition demo_completion :: "CanonicalFinalResultRecord \<times> store" where
  "demo_completion =
     (case complete_general_task demo_env 8 demo_complete (reached demo_env demo_working) of
        Inr x \<Rightarrow> x | Inl _ \<Rightarrow> undefined)"

lemma demo_completes:
  "complete_general_task demo_env 8 demo_complete (reached demo_env demo_working) =
     Inr (fst demo_completion, snd demo_completion)"
proof -
  have "is_ok (complete_general_task demo_env 8 demo_complete (reached demo_env demo_working))"
    by code_simp
  then obtain x where "complete_general_task demo_env 8 demo_complete (reached demo_env demo_working) = Inr x"
    unfolding is_ok_iff by blast
  then show ?thesis by (simp add: demo_completion_def)
qed

lemma demo_working_run:
  "\<exists>run. find_run (reached demo_env demo_working) (c_task_id demo_complete) (c_run_id demo_complete) =
     Some run \<and> r_status run = TaskRunning"
proof -
  have "case find_run (reached demo_env demo_working) (c_task_id demo_complete)
      (c_run_id demo_complete) of None \<Rightarrow> False | Some run \<Rightarrow> r_status run = TaskRunning"
    by code_simp
  then show ?thesis by (auto split: option.splits)
qed

theorem completion_settles_the_run_witness:
  "\<exists>f. filter (\<lambda>f. f_run_id f = ''r1'') (final_results (snd demo_completion)) = [f] \<and>
     f_result_digest f = demo_digest"
proof -
  obtain run where "find_run (reached demo_env demo_working) (c_task_id demo_complete)
      (c_run_id demo_complete) = Some run" "r_status run = TaskRunning"
    using demo_working_run by blast
  from completion_settles_the_run [OF demo_completes this]
  show ?thesis by (auto simp: same_result_row_def demo_complete_def)
qed



lemma demo_completion_own: "f_run_id (res_row (fst demo_completion)) = c_run_id demo_complete"
  by code_simp

lemma demo_codec:
  "limitations_to_json demo_env (c_completion_limitations demo_complete) = Some json \<Longrightarrow>
   limitations_of_json demo_env json = Some (c_completion_limitations demo_complete)"
  by (auto simp: demo_env_def demo_complete_def)


section \<open>Recovery after a restart\<close>

text \<open>
  C26. The recovery interrupts exactly the running work: it returns the number of running
  runs, marks these runs, their waiting or running items, their running attempts and their
  running tasks as interrupted, and leaves every other row and every other table as it
  was. It can be repeated: a second recovery finds nothing and changes nothing.
\<close>

theorem recovery_interrupts_exactly:
  fixes s now
  defines "keys \<equiv> run_key ` {r \<in> set (runs s). recoverable s r}"
  defines "s' \<equiv> s\<lparr>
       runs := update_where (\<lambda>r. run_key r \<in> keys)
         (\<lambda>r. r\<lparr>r_status := TaskInterrupted, r_updated_at := now, r_completed_at := Some now\<rparr>) (runs s),
       items := update_where (\<lambda>i. item_run i \<in> keys \<and> i_status i \<in> {ItemWaiting, ItemRunning})
         (\<lambda>i. i\<lparr>i_status := ItemInterrupted, i_updated_at := now\<rparr>) (items s),
       item_attempts := update_where (\<lambda>a. (a_task_id a, a_run_id a) \<in> keys \<and> a_status a = ItemRunning)
         (\<lambda>a. a\<lparr>a_status := ItemInterrupted, a_finished_at := Some now\<rparr>) (item_attempts s),
       tasks := update_where (\<lambda>t. t_id t \<in> fst ` keys \<and> t_status t = TaskRunning)
         (\<lambda>t. t\<lparr>t_status := TaskInterrupted, t_updated_at := now\<rparr>) (tasks s)\<rparr>"
  shows "recover_interrupted_general_runs now s = Inr (count_where (recoverable s) (runs s), s') \<and>
    recover_interrupted_general_runs later s' = Inr (0, s')"
proof -
  have s': "s' = interrupted now (recovered_keys s) s"
    by (simp add: s'_def keys_def interrupted_def recovered_keys_def)
  have "recovered_keys s' = {}" "count_where (recoverable s') (runs s') = 0"
    using nothing_recoverable [of _ now s] unfolding recovered_keys_def count_where_0 s' by blast+
  moreover have "interrupted later {} s' = s'"
    by (simp add: interrupted_def update_where_none)
  ultimately show ?thesis
    using recover_interrupted [of now s] recover_interrupted [of later s'] s' by simp
qed

section \<open>The budget of a run\<close>

text \<open>
  C27. A run never gets budget back. Its stored usage never decreases under any later
  calls (recovery, replays, replans, steering and retries included), so an admission that
  the later usage passes, the earlier usage had passed too: once a provider call, a
  verification, a tool call or an item is refused for a run, it stays refused.
\<close>

theorem budget_is_never_given_back:
  assumes "work_run_budget_usage e k (reached e cs) = Inr u"
    and "work_run_budget_usage e k (reached e (cs @ ds)) = Inr v"
  shows "provider_attempts u \<le> provider_attempts v \<and> tool_attempts u \<le> tool_attempts v \<and>
    verification_attempts u \<le> verification_attempts v \<and> total_items u \<le> total_items v \<and>
    (admit_provider b v = Inr () \<longrightarrow> admit_provider b u = Inr ()) \<and>
    (admit_semantic_verification b v = Inr () \<longrightarrow> admit_semantic_verification b u = Inr ()) \<and>
    (admit_tool b v = Inr () \<longrightarrow> admit_tool b u = Inr ()) \<and>
    (admit_item b v = Inr () \<longrightarrow> admit_item b u = Inr ())"
proof -
  have le: "usage_le u v" by (rule usage_grows [OF assms reached_grows])
  then show ?thesis
    using admit_mono [OF le] by (auto simp: usage_le_def)
qed

definition demo_usage :: "(int \<times> store_call) list \<Rightarrow> WorkRunBudgetUsage" where
  "demo_usage cs =
     (case work_run_budget_usage demo_env ''r1'' (reached demo_env cs) of
        Inr u \<Rightarrow> u | Inl _ \<Rightarrow> undefined)"

lemma demo_usages:
  "work_run_budget_usage demo_env ''r1'' (reached demo_env demo_working) =
     Inr \<lparr>plan_attempts = 0, provider_attempts = 0, verification_attempts = 0, tool_attempts = 1,
          total_items = 3\<rparr>"
  "work_run_budget_usage demo_env ''r1'' (reached demo_env (demo_working @ [(9, CallRecover)])) =
     Inr \<lparr>plan_attempts = 0, provider_attempts = 0, verification_attempts = 0, tool_attempts = 1,
          total_items = 3\<rparr>"
  by code_simp+

theorem budget_is_never_given_back_witness:
  "admit_tool default_budget_policy \<lparr>plan_attempts = 0, provider_attempts = 0,
     verification_attempts = 0, tool_attempts = 1, total_items = 3\<rparr> = Inr ()"
  using budget_is_never_given_back [OF demo_usages, of default_budget_policy]
  by (simp add: admit_tool_def admit_item_def default_budget_policy_def word_le_nat_alt)

section \<open>Identifiers and codes\<close>

lemma dec_colon: "CHR '':'' \<notin> set (dec n)"
  using dec_digits [of "CHR '':''" n] by (auto simp: is_ascii_digit_def byte_def)

lemma split_at_colon:
  "CHR '':'' \<notin> set a \<Longrightarrow> CHR '':'' \<notin> set b \<Longrightarrow>
   a @ CHR '':'' # x = b @ CHR '':'' # y \<Longrightarrow> a = b \<and> x = y"
proof (induction a arbitrary: b)
  case Nil
  then show ?case by (cases b) auto
next
  case (Cons c a)
  then show ?case by (cases b) auto
qed

lemma stable_parts_inject: "stable_parts ps = stable_parts qs \<Longrightarrow> ps = qs"
proof (induction ps arbitrary: qs)
  case Nil
  then show ?case by (cases qs) auto
next
  case (Cons p ps)
  then obtain q qs' where qs: "qs = q # qs'" by (cases qs) auto
  from Cons.prems have "dec (length p) = dec (length q) \<and> p @ stable_parts ps = q @ stable_parts qs'"
    unfolding qs by (auto dest!: split_at_colon [OF dec_colon dec_colon])
  then have "p = q \<and> stable_parts ps = stable_parts qs'" by auto
  with Cons.IH show ?case unfolding qs by blast
qed

text \<open>
  Two stable identifiers of one namespace are equal only when their parts are, or when
  the hash has a collision: the hashed material is an injective encoding of the parts,
  whatever bytes they hold.
\<close>

theorem stable_ids_clash_only_by_hash:
  "stable_id e namespace ps = stable_id e namespace qs \<longleftrightarrow>
   ps = qs \<or> (namespace @ stable_parts ps \<noteq> namespace @ stable_parts qs \<and>
     sha256_hex e (namespace @ stable_parts ps) = sha256_hex e (namespace @ stable_parts qs))"
proof -
  have "stable_id e namespace ps = stable_id e namespace qs \<longleftrightarrow>
      sha256_hex e (namespace @ stable_parts ps) = sha256_hex e (namespace @ stable_parts qs)"
    by (simp add: stable_id_def sha256_text_def)
  then show ?thesis using stable_parts_inject [of ps qs] by auto
qed

text \<open>
  The database codes of the six enumerations are a bijection onto the codes their
  decoder accepts: decoding the code of a value gives the value, and a text that decodes
  to a value is the code of that value.
\<close>

theorem status_codes_round_trip:
  "(mode_from_db v = Inr m \<longleftrightarrow> v = mode_as_str m) \<and>
   (task_status_from_db v = Inr ts \<longleftrightarrow> v = task_status_as_str ts) \<and>
   (item_kind_from_db v = Inr k \<longleftrightarrow> v = item_kind_as_str k) \<and>
   (item_status_from_db v = Inr is \<longleftrightarrow> v = item_status_as_str is) \<and>
   (artifact_status_from_db v = Inr ars \<longleftrightarrow> v = artifact_status_as_str ars) \<and>
   (steering_status_from_db v = Inr ss \<longleftrightarrow> v = steering_status_as_str ss)"
proof -
  have "mode_from_db v = Inr m \<longleftrightarrow> v = mode_as_str m"
    by (cases m) (auto simp: mode_from_db_def from_db_def ok_or_def split: if_splits)
  moreover have "task_status_from_db v = Inr ts \<longleftrightarrow> v = task_status_as_str ts"
    by (cases ts) (auto simp: task_status_from_db_def from_db_def ok_or_def split: if_splits)
  moreover have "item_kind_from_db v = Inr k \<longleftrightarrow> v = item_kind_as_str k"
    by (cases k) (auto simp: item_kind_from_db_def from_db_def ok_or_def split: if_splits)
  moreover have "item_status_from_db v = Inr is \<longleftrightarrow> v = item_status_as_str is"
    by (cases "is") (auto simp: item_status_from_db_def from_db_def ok_or_def split: if_splits)
  moreover have "artifact_status_from_db v = Inr ars \<longleftrightarrow> v = artifact_status_as_str ars"
    by (cases ars) (auto simp: artifact_status_from_db_def from_db_def ok_or_def split: if_splits)
  moreover have "steering_status_from_db v = Inr ss \<longleftrightarrow> v = steering_status_as_str ss"
    by (cases ss) (auto simp: steering_status_from_db_def from_db_def ok_or_def split: if_splits)
  ultimately show ?thesis by blast
qed


section \<open>Retries\<close>

text \<open>A run that does not exist yet has used nothing.\<close>

lemma fresh_run_rows:
  assumes "store_inv s" "find_run_id s k = None"
  shows "(\<forall>a \<in> set (item_attempts s). a_run_id a \<noteq> k) \<and> (\<forall>i \<in> set (items s). i_run_id i \<noteq> k)"
proof -
  have refs: "refs_ok s" using assms(1) by (simp add: store_inv_def wf_def)
  have none: "(t, k) \<notin> run_key ` set (runs s)" for t
    using assms(2) by (auto simp: find_run_id_def find_None_iff run_key_def)
  have "item_run ` set (items s) \<subseteq> run_key ` set (runs s)" using refs by (simp add: refs_ok_def)
  then have items: "i_run_id i \<noteq> k" if "i \<in> set (items s)" for i
    using that none by (auto simp: item_run_def)
  have "(\<lambda>a. (a_item_id a, a_task_id a, a_run_id a)) ` set (item_attempts s) \<subseteq>
      (\<lambda>i. (i_id i, i_task_id i, i_run_id i)) ` set (items s)"
    using refs by (simp add: refs_ok_def)
  then have "(a_item_id a, a_task_id a, a_run_id a) \<in> (\<lambda>i. (i_id i, i_task_id i, i_run_id i)) ` set (items s)"
    if "a \<in> set (item_attempts s)" for a
    using that by blast
  then have "a_run_id a \<noteq> k" if "a \<in> set (item_attempts s)" for a
    using that items by (metis (no_types, lifting) Pair_inject imageE)
  with items show ?thesis by blast
qed

text \<open>The store after a stopped task was started again.\<close>

definition retried_item :: "env \<Rightarrow> BeginGeneralTaskRunInput \<Rightarrow> int \<Rightarrow> store \<Rightarrow> CanonicalTaskItemRecord" where
  "retried_item e b now s =
     \<lparr>i_id = instruction_item_id e b, i_task_id = b_task_id b, i_run_id = b_run_id b,
      i_sequence = next_sequence s (b_task_id b), i_kind = KindInstruction, i_status = ItemCompleted,
      i_summary_code = ''work_instruction_bound'', i_payload_digest = b_instruction_digest b,
      i_updated_at = now\<rparr>"

definition retried_run :: "BeginGeneralTaskRunInput \<Rightarrow> int \<Rightarrow> store \<Rightarrow> store" where
  "retried_run b now s =
     s\<lparr>runs := runs s @ [new_run_row b (next_run_ordinal s (b_task_id b)) now]\<rparr>"

definition retried :: "env \<Rightarrow> BeginGeneralTaskRunInput \<Rightarrow> CanonicalTaskStatus \<Rightarrow> int \<Rightarrow> store \<Rightarrow> store" where
  "retried e b st now s =
     reopen_task b False st now
       (retried_run b now s\<lparr>items := items s @ [retried_item e b now s]\<rparr>)"

lemma retried_tables:
  "runs (retried e b st now s) = runs (retried_run b now s)"
  "items (retried e b st now s) = items s @ [retried_item e b now s]"
  "item_attempts (retried e b st now s) = item_attempts s"
  by (simp_all add: retried_def retried_run_def reopen_task_def)

lemma retried_items_bound:
  assumes "b_plan_digest b = None" "find_item s (instruction_item_id e b) = None"
  shows "bind_run_items e b False now (retried_run b now s) =
    Inr (retried_run b now s\<lparr>items := items s @ [retried_item e b now s]\<rparr>)"
proof -
  have "\<not> exists_where (\<lambda>x. i_id x = instruction_item_id e b) (items s)"
    using assms(2) by (auto simp: find_item_def find_None_iff)
  moreover have "i_sequence x \<noteq> next_sequence s (b_task_id b)"
    if "x \<in> set (items s)" "i_task_id x = b_task_id b" for x
    using max_where_ge [of x "items s" "\<lambda>i. i_task_id i = b_task_id b" i_sequence] that
    by (simp add: next_sequence_def)
  ultimately have "insert_item (retried_item e b now s) (retried_run b now s) =
      Inr (retried_run b now s\<lparr>items := items s @ [retried_item e b now s]\<rparr>)"
    by (auto simp: insert_item_def run_exists_def is_run_def new_run_row_def retried_item_def
        retried_run_def)
  moreover have "next_sequence (retried_run b now s) (b_task_id b) = next_sequence s (b_task_id b)"
    "find_item (retried_run b now s) (instruction_item_id e b) = None"
    using assms(2) by (simp_all add: next_sequence_def find_item_def retried_run_def)
  ultimately show ?thesis
    using assms(1)
    by (simp add: bind_run_items_def ensure_completed_item_def plan_item_id_def retried_item_def)
qed

lemma retry_call:
  assumes valid: "validate_begin e b = Inr ()" "b_plan_digest b = None"
      "when_some (b_project_revision b) to_i64 = Inr ()"
    and task: "find_task s (b_task_id b) = Some t" "t_conversation_id t = b_conversation_id b"
      "t_task_kind t = ''work''" "t_initial_outcome_digest t = b_instruction_digest b"
      "retryable (t_status t)"
    and fresh: "find_run_id s (b_run_id b) = None" "find_item s (instruction_item_id e b) = None"
  shows "begin_general_task_run e now b s = Inr (\<lparr>bg_task_id = b_task_id b, bg_run_id = b_run_id b,
      bg_instruction_item_id = instruction_item_id e b, bg_plan_item_id = plan_item_id e b,
      bg_ordinal = next_run_ordinal s (b_task_id b), bg_plan_revision = 1\<rparr>,
      retried e b (t_status t) now s)"
    and "find_run_id (retried e b (t_status t) now s) (b_run_id b) =
      Some (new_run_row b (next_run_ordinal s (b_task_id b)) now)"
proof -
  let ?row = "new_run_row b (next_run_ordinal s (b_task_id b)) now"
  have exists: "exists_where (\<lambda>t. t_id t = b_task_id b) (tasks s)"
    using task(1) by (auto simp: find_task_def dest!: find_Some_mem)
  have no_run: "\<not> exists_where (\<lambda>x. r_run_id x = b_run_id b) (runs s)"
    using fresh(1) by (auto simp: find_run_id_def find_None_iff)
  have ensured: "ensure_task b now s = (False, s)" using exists by (simp add: ensure_task_def)
  have inserted: "insert_run ?row s = Inr (retried_run b now s)"
    using exists no_run by (simp add: insert_run_def new_run_row_def retried_run_def)
  have found: "find_run_id (retried_run b now s) (b_run_id b) = Some ?row"
    using fresh(1) by (simp add: find_run_id_def find_append new_run_row_def retried_run_def)
  show "begin_general_task_run e now b s = Inr (\<lparr>bg_task_id = b_task_id b, bg_run_id = b_run_id b,
      bg_instruction_item_id = instruction_item_id e b, bg_plan_item_id = plan_item_id e b,
      bg_ordinal = next_run_ordinal s (b_task_id b), bg_plan_revision = 1\<rparr>,
      retried e b (t_status t) now s)"
    unfolding begin_general_task_run_def begin_general_task_run_internal_def ensured prod.case
    using valid task fresh(1) inserted found retried_items_bound [OF valid(2) fresh(2), of now]
    by (simp add: ok_or_def check_revision_def check_run_identity_def admit_revision_def
        check_plan_digest_def new_run_row_def bail_if_def retried_def)
  show "find_run_id (retried e b (t_status t) now s) (b_run_id b) = Some ?row"
    using found unfolding find_run_id_def retried_tables .
qed

lemma retried_usage:
  assumes inv: "store_inv s" and fresh: "find_run_id s (b_run_id b) = None"
    and valid: "validate_begin e b = Inr ()"
  shows "work_run_budget_usage e (b_run_id b) (retried e b st now s) =
    Inr \<lparr>plan_attempts = 0, provider_attempts = 0, verification_attempts = 0, tool_attempts = 0,
         total_items = 1\<rparr>"
proof -
  have "validate_uuid e ''run_id'' (b_run_id b) = Inr ()"
    using valid unfolding validate_begin_def by (simp only: first_failure_ok list.set) blast
  moreover have "count_where (\<lambda>a. provider_attempt_of (b_run_id b) a \<and>
      attempt_summary (retried e b st now s) a = c) (item_attempts s) = 0"
    "count_where (provider_attempt_of (b_run_id b)) (item_attempts s) = 0"
    "count_where (\<lambda>a. a_run_id a = b_run_id b \<and> a_executor_kind a = ''tool'') (item_attempts s) = 0"
    for c
    using fresh_run_rows [OF inv fresh] by (auto simp: provider_attempt_of_def)
  moreover have "count_where (\<lambda>i. i_run_id i = b_run_id b) (items s @ [retried_item e b now s]) = 1"
  proof -
    have "count_where (\<lambda>i. i_run_id i = b_run_id b) (items s) = 0"
      using fresh_run_rows [OF inv fresh] by auto
    then show ?thesis by (simp add: count_where_def retried_item_def)
  qed
  moreover have "exists_where (\<lambda>r. r_run_id r = b_run_id b) (runs (retried_run b now s))"
    by (simp add: new_run_row_def retried_run_def)
  moreover have "to_u32 0 = Inr 0" "to_u32 1 = Inr 1" by (simp_all add: to_u32_def)
  ultimately show ?thesis
    unfolding work_run_budget_usage_def retried_tables
    by (simp only: res_bind.simps if_False not_True_eq_False)
qed


definition demo_stopped :: "(int \<times> store_call) list" where
  "demo_stopped = [(1, CallBegin (demo_begin ''r1'')), (2, CallRecover)]"

definition demo_task :: CanonicalTaskRecord where
  "demo_task = hd (tasks (reached demo_env demo_stopped))"

lemma demo_retry_facts:
  "validate_begin demo_env (demo_begin ''r2'') = Inr ()"
  "b_plan_digest (demo_begin ''r2'') = None"
  "when_some (b_project_revision (demo_begin ''r2'')) to_i64 = Inr ()"
  "find_task (reached demo_env demo_stopped) (b_task_id (demo_begin ''r2'')) = Some demo_task"
  "t_conversation_id demo_task = b_conversation_id (demo_begin ''r2'')"
  "t_task_kind demo_task = ''work''"
  "t_initial_outcome_digest demo_task = b_instruction_digest (demo_begin ''r2'')"
  "retryable (t_status demo_task)"
  "find_run_id (reached demo_env demo_stopped) (b_run_id (demo_begin ''r2'')) = None"
  "find_item (reached demo_env demo_stopped) (instruction_item_id demo_env (demo_begin ''r2'')) = None"
  by code_simp+


section \<open>What the store does not tie together\<close>

definition demo_run_store :: "(int \<times> store_call) list \<Rightarrow> store" where
  "demo_run_store cs = reached demo_env ((1, CallBegin (demo_begin ''r1'')) # cs)"

text \<open>
  Items, attempts and runs can disagree, because beginning an attempt checks neither
  the run nor earlier attempts of the item. Repeating the begin call of an attempt that
  has failed sets its item running although no attempt runs: repeating the end of the
  attempt is accepted without effect, and the run can no longer be completed. An attempt
  may begin on the failed item of a run that has failed. And of two attempts on one item
  the first to end settles the item, so a run completes while an attempt still runs.
\<close>

theorem attempts_items_and_runs_disagree:
  "(let failed = [(2, demo_item ''i''), (3, CallBeginAttempt (demo_attempt ''a'' ''tool'')),
                  (4, CallTerminalizeAttempt ''a'' ItemFailed None)];
        again = (5, CallBeginAttempt (demo_attempt ''a'' ''tool''));
        s = demo_run_store (failed @ [again, (6, CallTerminalizeAttempt ''a'' ItemFailed None)])
    in map a_status (item_attempts s) = [ItemFailed] \<and>
       map_option i_status (find_item s ''i'') = Some ItemRunning \<and>
       is_ok (store_step demo_env (7, CallTerminalizeAttempt ''a'' ItemFailed None) s) \<and>
       complete_general_task demo_env 8 demo_complete s =
         Inl (Bail ''canonical_completion_item_unsettled'')) \<and>
   (let s = demo_run_store [(2, demo_item ''i''), (3, CallBeginAttempt (demo_attempt ''a'' ''tool'')),
              (4, CallTerminalizeRun ''t'' ''r1'' TaskFailed),
              (5, CallBeginAttempt (demo_attempt ''b'' ''tool''))]
    in map r_status (runs s) = [TaskFailed] \<and>
       map_option i_status (find_item s ''i'') = Some ItemRunning \<and>
       map a_status (item_attempts s) = [ItemFailed, ItemRunning]) \<and>
   (let s = demo_run_store [(2, demo_item ''i''), (3, CallBeginAttempt (demo_attempt ''a'' ''tool'')),
              (4, CallBeginAttempt (demo_attempt ''b'' ''tool'')),
              (5, CallTerminalizeAttempt ''a'' ItemCompleted None), (6, CallComplete demo_complete)]
    in map r_status (runs s) = [TaskCompleted] \<and>
       map a_status (item_attempts s) = [ItemCompleted, ItemRunning])"
  by code_simp

text \<open>
  Repeating the end of an old run stops the task under its new run: the repeated
  \<open>terminalize_general_run\<close> of the interrupted first run is accepted and sets the task
  interrupted while its second run is running, and a third run may then begin beside it.
\<close>

theorem replayed_end_stops_the_new_run:
  "let ended = [(2, CallTerminalizeRun ''t'' ''r1'' TaskInterrupted), (3, CallBegin (demo_begin ''r2'')),
                (4, CallTerminalizeRun ''t'' ''r1'' TaskInterrupted)];
       s = demo_run_store ended;
       s' = demo_run_store (ended @ [(5, CallBegin (demo_begin ''r3''))])
   in map t_status (tasks s) = [TaskInterrupted] \<and>
      map r_status (runs s) = [TaskInterrupted, TaskRunning] \<and>
      map t_status (tasks s') = [TaskRunning] \<and>
      map r_status (runs s') = [TaskInterrupted, TaskRunning, TaskRunning]"
  by code_simp

end
