(* ===== verification/Danger_Action.thy ===== *)
theory Danger_Action
  imports Machines Provider_Json "HOL-Library.AList"
begin

text \<open>
  The confirmation of dangerous actions (\<open>src-tauri/src/danger_action_confirmation.rs\<close>): a
  challenge is issued for an action and its targets, the user is asked once in a dialog of
  the operating system, and the answer yields one grant per target, each of which
  authorises one call for a minute.

  The authority behind its mutex is the association list of its challenges. The
  asynchronous command is its two synchronous halves, before and after the dialog, so that
  any number of calls may interleave: \<open>Request\<close> and \<open>Answer\<close> are the events of the machine at
  the end, and its \<open>prompts\<close> are the calls that wait for a dialog. Creating a challenge and
  the first use of it are one event, because nobody knows the identifier in between. UUIDs
  and the time are arguments, the hash of a JSON value is a parameter.
\<close>

section \<open>Data\<close>

definition DANGER_ACTION_POLICY_VERSION :: string where
  "DANGER_ACTION_POLICY_VERSION = ''danger-action-native-v1''"

definition CHALLENGE_TTL_MILLIS :: int where
  "CHALLENGE_TTL_MILLIS = 5 * 60 * 1000"

definition GRANT_TTL_MILLIS :: int where
  "GRANT_TTL_MILLIS = 60 * 1000"

definition MAX_OUTSTANDING_CHALLENGES :: nat where
  "MAX_OUTSTANDING_CHALLENGES = 256"

definition SINGLETON_TARGET :: string where
  "SINGLETON_TARGET = ''__danger_action_singleton_scope__''"

record NativeDangerActionRequest =
  nd_action_type :: string
  nd_target_ids_for_new_challenge :: "string list"
  nd_requested_target :: "string option"
  nd_affected_count :: nat
  nd_arguments :: json
  nd_challenge_id :: "string option"

record ChallengeScope =
  sc_action_type :: string
  sc_target_ids :: "string list"
  sc_affected_count :: nat
  sc_local_session_binding :: string
  sc_policy_version :: string

definition target_keys :: "ChallengeScope \<Rightarrow> string list" where
  "target_keys sc = (if sc_target_ids sc = [] then [SINGLETON_TARGET] else sc_target_ids sc)"

record GrantRecord =
  g_grant_id :: string
  g_target_key :: string
  g_scope_digest :: string
  g_arguments_digest :: string
  g_policy_version :: string
  g_expires_at_millis :: int
  g_consumed_at_millis :: "int option"

datatype ChallengeStatus =
  ChallengePending
| Confirming string string
| ChallengeConfirmed string "(string \<times> GrantRecord) list"
| ChallengeRejected

record ChallengeRecord =
  ch_scope :: ChallengeScope
  ch_expires_at_millis :: int
  ch_status :: ChallengeStatus

record NativePromptTicket =
  n_challenge_id :: string
  n_ticket_id :: string
  n_requested_target :: string
  n_action_type :: string
  n_affected_count :: nat
  n_target_count :: nat
  n_arguments_digest :: string

datatype AuthorizationStep = NativePromptRequired NativePromptTicket | GrantConsumed

type_synonym challenges = "(string \<times> ChallengeRecord) list"

text \<open>\<open>i64::saturating_add\<close> of a time and a positive duration.\<close>

definition saturating_add :: "int \<Rightarrow> int \<Rightarrow> int" where
  "saturating_add t d = min (t + d) (2 ^ 63 - 1)"

section \<open>Digests\<close>

definition digest_serializable :: "(json \<Rightarrow> string) \<Rightarrow> json \<Rightarrow> string" where
  "digest_serializable h v = ''sha256:'' @ h v"

definition arguments_digest :: "(json \<Rightarrow> string) \<Rightarrow> json \<Rightarrow> string" where
  "arguments_digest h arguments =
     digest_serializable h (JArray [JString ''danger-action-arguments'', arguments])"

definition local_session_binding :: "(json \<Rightarrow> string) \<Rightarrow> string \<Rightarrow> string \<Rightarrow> string + string" where
  "local_session_binding h app_session_nonce window_label =
     (if window_label \<noteq> ''main''
      then Inl ''danger action confirmation requires the authenticated main app session''
      else Inr (digest_serializable h
        (JArray [JString ''openlife-local-session'', JString app_session_nonce,
                 JString window_label])))"

section \<open>Challenges\<close>

definition target_unsafe :: "string \<Rightarrow> bool" where
  "target_unsafe t \<longleftrightarrow> t = [] \<or> 128 < length t \<or> trim t \<noteq> t \<or> has_control t"

definition canonical_target_ids :: "string list \<Rightarrow> string + string list" where
  "canonical_target_ids target_ids =
     (if exists_where target_unsafe target_ids
      then Inl ''danger action confirmation target is not metadata-safe''
      else
        let canonical = remdups_adj (sort target_ids) in
        if 100 < length canonical
        then Inl ''danger action confirmation target scope is too large''
        else Inr canonical)"

definition new_challenge :: "string \<Rightarrow> string list \<Rightarrow> nat \<Rightarrow> string \<Rightarrow> int \<Rightarrow> ChallengeRecord" where
  "new_challenge action_type target_ids affected_count binding now =
     \<lparr>ch_scope =
        \<lparr>sc_action_type = action_type, sc_target_ids = target_ids,
         sc_affected_count = affected_count, sc_local_session_binding = binding,
         sc_policy_version = DANGER_ACTION_POLICY_VERSION\<rparr>,
      ch_expires_at_millis = saturating_add now CHALLENGE_TTL_MILLIS,
      ch_status = ChallengePending\<rparr>"

text \<open>Expired challenges are dropped also when the new one is refused.\<close>

definition create_challenge ::
  "string \<Rightarrow> string list \<Rightarrow> nat \<Rightarrow> string \<Rightarrow> int \<Rightarrow> string \<Rightarrow> challenges \<Rightarrow>
   (string + string) \<times> challenges"
where
  "create_challenge action_type targets affected_count binding now uuid chs =
     (case canonical_target_ids targets of
        Inl err \<Rightarrow> (Inl err, chs)
      | Inr target_ids \<Rightarrow>
          let challenge_id = ''danger-challenge:'' @ uuid;
              kept = filter (\<lambda>(_, r). now \<le> ch_expires_at_millis r) chs
          in if MAX_OUTSTANDING_CHALLENGES \<le> length kept
             then (Inl ''too many pending danger action confirmations; wait for existing challenges to expire'',
                   kept)
             else (Inr challenge_id,
                   AList.update challenge_id
                     (new_challenge action_type target_ids affected_count binding now) kept))"

definition ensure_challenge_scope ::
  "ChallengeRecord \<Rightarrow> string \<Rightarrow> string option \<Rightarrow> nat \<Rightarrow> string \<Rightarrow> int \<Rightarrow> string + unit"
where
  "ensure_challenge_scope r action_type requested_target affected_count binding now =
     (let sc = ch_scope r in
      first_failure
       [bail_if (ch_expires_at_millis r < now) ''danger action confirmation challenge expired'',
        bail_if (sc_action_type sc \<noteq> action_type \<or> sc_affected_count sc \<noteq> affected_count \<or>
                 sc_local_session_binding sc \<noteq> binding \<or>
                 sc_policy_version sc \<noteq> DANGER_ACTION_POLICY_VERSION)
          ''danger action confirmation scope does not match the requested action'',
        case requested_target of
          Some target \<Rightarrow>
            bail_if (target \<notin> set (sc_target_ids sc))
              ''danger action target is outside the server-issued confirmation scope''
        | None \<Rightarrow>
            bail_if (sc_target_ids sc \<noteq> [])
              ''danger action target scope is missing from the final action''])"

section \<open>Grants\<close>

definition consume_grant ::
  "(string \<times> GrantRecord) list \<Rightarrow> string \<Rightarrow> string \<Rightarrow> int \<Rightarrow> string + (string \<times> GrantRecord) list"
where
  "consume_grant grants target_key arguments now =
     res_bind (ok_or ''no native confirmation grant exists for this danger action target''
       (map_of grants target_key)) (\<lambda>grant.
     if g_target_key grant \<noteq> target_key \<or> \<not> starts_with ''danger-grant:'' (g_grant_id grant) \<or>
        g_scope_digest grant = [] \<or> g_policy_version grant \<noteq> DANGER_ACTION_POLICY_VERSION \<or>
        g_arguments_digest grant \<noteq> arguments
     then Inl ''native confirmation grant scope does not match the final action''
     else if g_expires_at_millis grant < now
     then Inl ''native confirmation grant expired before it could be consumed''
     else if g_consumed_at_millis grant \<noteq> None
     then Inl ''native confirmation grant was already consumed''
     else Inr (AList.update target_key (grant\<lparr>g_consumed_at_millis := Some now\<rparr>) grants))"

definition new_grant ::
  "(json \<Rightarrow> string) \<Rightarrow> ChallengeScope \<Rightarrow> string \<Rightarrow> int \<Rightarrow> (string \<Rightarrow> string) \<Rightarrow> string \<Rightarrow> GrantRecord"
where
  "new_grant h sc arguments expires uuid_of target_key =
     \<lparr>g_grant_id = ''danger-grant:'' @ uuid_of target_key,
      g_target_key = target_key,
      g_scope_digest = digest_serializable h
        (JArray [JString (sc_action_type sc), JString target_key, JString arguments,
                 JString (sc_local_session_binding sc), JString (sc_policy_version sc)]),
      g_arguments_digest = arguments,
      g_policy_version = sc_policy_version sc,
      g_expires_at_millis = expires,
      g_consumed_at_millis = None\<rparr>"

definition begin_or_consume ::
  "string \<Rightarrow> string \<Rightarrow> string option \<Rightarrow> nat \<Rightarrow> string \<Rightarrow> string \<Rightarrow> int \<Rightarrow> string \<Rightarrow> challenges \<Rightarrow>
   string + AuthorizationStep \<times> challenges"
where
  "begin_or_consume challenge_id action_type requested affected_count arguments binding now uuid chs =
     res_bind
       (ok_or ''danger action requires a fresh server-issued native confirmation challenge''
         (map_of chs challenge_id)) (\<lambda>r.
     res_bind (ensure_challenge_scope r action_type requested affected_count binding now) (\<lambda>_.
     let requested_target = (case requested of None \<Rightarrow> SINGLETON_TARGET | Some t \<Rightarrow> t) in
     case ch_status r of
       ChallengePending \<Rightarrow>
         let ticket =
           \<lparr>n_challenge_id = challenge_id, n_ticket_id = uuid,
            n_requested_target = requested_target, n_action_type = sc_action_type (ch_scope r),
            n_affected_count = sc_affected_count (ch_scope r),
            n_target_count = length (sc_target_ids (ch_scope r)),
            n_arguments_digest = arguments\<rparr>
         in Inr (NativePromptRequired ticket,
                 AList.update challenge_id (r\<lparr>ch_status := Confirming uuid arguments\<rparr>) chs)
     | Confirming _ _ \<Rightarrow>
         Inl ''native confirmation is already in progress for this danger action''
     | ChallengeRejected \<Rightarrow>
         Inl ''native confirmation was rejected; start a fresh danger action preflight''
     | ChallengeConfirmed confirmed grants \<Rightarrow>
         if confirmed \<noteq> arguments
         then Inl ''danger action arguments changed after native confirmation''
         else
           res_bind (consume_grant grants requested_target arguments now) (\<lambda>grants'.
           Inr (GrantConsumed,
                AList.update challenge_id
                  (r\<lparr>ch_status := ChallengeConfirmed confirmed grants'\<rparr>) chs))))"

definition confirm_and_consume ::
  "(json \<Rightarrow> string) \<Rightarrow> NativePromptTicket \<Rightarrow> string \<Rightarrow> int \<Rightarrow> (string \<Rightarrow> string) \<Rightarrow> challenges \<Rightarrow>
   string + challenges"
where
  "confirm_and_consume h ticket binding now uuid_of chs =
     res_bind (ok_or ''native confirmation challenge is no longer available''
       (map_of chs (n_challenge_id ticket))) (\<lambda>r.
     res_bind
       (ensure_challenge_scope r (n_action_type ticket)
         (if n_requested_target ticket = SINGLETON_TARGET then None
          else Some (n_requested_target ticket))
         (n_affected_count ticket) binding now) (\<lambda>_.
     if ch_status r \<noteq> Confirming (n_ticket_id ticket) (n_arguments_digest ticket)
     then Inl ''native confirmation ticket does not match the pending challenge''
     else
       let grants = map (\<lambda>t. (t, new_grant h (ch_scope r) (n_arguments_digest ticket)
             (saturating_add now GRANT_TTL_MILLIS) uuid_of t)) (target_keys (ch_scope r))
       in res_bind
            (consume_grant grants (n_requested_target ticket) (n_arguments_digest ticket) now)
            (\<lambda>grants'. Inr (AList.update (n_challenge_id ticket)
              (r\<lparr>ch_status := ChallengeConfirmed (n_arguments_digest ticket) grants'\<rparr>) chs))))"

definition reject_ticket :: "NativePromptTicket \<Rightarrow> challenges \<Rightarrow> string + challenges" where
  "reject_ticket ticket chs =
     res_bind (ok_or ''native confirmation challenge is no longer available''
       (map_of chs (n_challenge_id ticket))) (\<lambda>r.
     case ch_status r of
       Confirming ticket_id _ \<Rightarrow>
         if ticket_id = n_ticket_id ticket
         then Inr (AList.update (n_challenge_id ticket) (r\<lparr>ch_status := ChallengeRejected\<rparr>) chs)
         else Inl ''native confirmation ticket does not match the pending challenge''
     | _ \<Rightarrow> Inl ''native confirmation ticket does not match the pending challenge'')"

section \<open>The command\<close>

text \<open>\<open>require_native_danger_action_confirmation\<close> up to the dialog.\<close>

definition own_challenge ::
  "NativeDangerActionRequest \<Rightarrow> string \<Rightarrow> int \<Rightarrow> string \<Rightarrow> challenges \<Rightarrow>
   (string + string) \<times> challenges"
where
  "own_challenge rq binding now uuid chs =
     (case nd_challenge_id rq of
        Some challenge_id \<Rightarrow>
          if trim challenge_id \<noteq> [] then (Inr challenge_id, chs)
          else create_challenge (nd_action_type rq) (nd_target_ids_for_new_challenge rq)
                 (nd_affected_count rq) binding now uuid chs
      | None \<Rightarrow>
          create_challenge (nd_action_type rq) (nd_target_ids_for_new_challenge rq)
            (nd_affected_count rq) binding now uuid chs)"

definition require_confirmation ::
  "(json \<Rightarrow> string) \<Rightarrow> string \<Rightarrow> string \<Rightarrow> NativeDangerActionRequest \<Rightarrow> int \<Rightarrow> string \<Rightarrow> string \<Rightarrow>
   challenges \<Rightarrow> (string + string \<times> AuthorizationStep \<times> string) \<times> challenges"
where
  "require_confirmation h nonce label rq now uuid ticket_uuid chs =
     (case local_session_binding h nonce label of
        Inl err \<Rightarrow> (Inl err, chs)
      | Inr binding \<Rightarrow>
          (case own_challenge rq binding now uuid chs of
             (Inl err, chs1) \<Rightarrow> (Inl err, chs1)
           | (Inr challenge_id, chs1) \<Rightarrow>
               (case begin_or_consume challenge_id (nd_action_type rq) (nd_requested_target rq)
                       (nd_affected_count rq) (arguments_digest h (nd_arguments rq)) binding now
                       ticket_uuid chs1 of
                  Inl err \<Rightarrow> (Inl err, chs1)
                | Inr (step, chs2) \<Rightarrow> (Inr (challenge_id, step, binding), chs2))))"

text \<open>And after it: the user has confirmed or cancelled, or the dialog has failed.\<close>

datatype dialog = DialogConfirmed | DialogCancelled | DialogFailed

definition finish_confirmation ::
  "(json \<Rightarrow> string) \<Rightarrow> NativePromptTicket \<Rightarrow> string \<Rightarrow> dialog \<Rightarrow> int \<Rightarrow> (string \<Rightarrow> string) \<Rightarrow>
   challenges \<Rightarrow> (string + unit) \<times> challenges"
where
  "finish_confirmation h ticket binding answer now uuid_of chs =
     (case answer of
        DialogFailed \<Rightarrow>
          (Inl ''native confirmation dialog timed out'',
           case reject_ticket ticket chs of Inl _ \<Rightarrow> chs | Inr chs' \<Rightarrow> chs')
      | DialogCancelled \<Rightarrow>
          (case reject_ticket ticket chs of
             Inl err \<Rightarrow> (Inl err, chs)
           | Inr chs' \<Rightarrow>
               (Inl ''danger action was not confirmed in the native system dialog'', chs'))
      | DialogConfirmed \<Rightarrow>
          (case confirm_and_consume h ticket binding now uuid_of chs of
             Inl err \<Rightarrow> (Inl err, chs)
           | Inr chs' \<Rightarrow> (Inr (), chs')))"

section \<open>All calls together\<close>

datatype danger_event =
  Request string NativeDangerActionRequest int string string
| Answer nat dialog int "string \<Rightarrow> string"

datatype danger_output =
  Refused string
| Prompt NativePromptTicket
| Authorised string string string string

record danger_state =
  dg_challenges :: challenges
  dg_prompts :: "(NativePromptTicket \<times> string) list"

text \<open>\<open>Authorised\<close> names the challenge, the target, the action and the digest of the arguments.\<close>

fun danger_step ::
  "(json \<Rightarrow> string) \<Rightarrow> string \<Rightarrow> danger_event \<Rightarrow> danger_state \<Rightarrow> danger_output \<times> danger_state"
where
  "danger_step h nonce (Request label rq now uuid ticket_uuid) s =
     (case require_confirmation h nonce label rq now uuid ticket_uuid (dg_challenges s) of
        (Inl err, chs) \<Rightarrow> (Refused err, s\<lparr>dg_challenges := chs\<rparr>)
      | (Inr (challenge_id, NativePromptRequired ticket, binding), chs) \<Rightarrow>
          (Prompt ticket,
           s\<lparr>dg_challenges := chs, dg_prompts := dg_prompts s @ [(ticket, binding)]\<rparr>)
      | (Inr (challenge_id, GrantConsumed, binding), chs) \<Rightarrow>
          (Authorised challenge_id
             (case nd_requested_target rq of None \<Rightarrow> SINGLETON_TARGET | Some t \<Rightarrow> t)
             (nd_action_type rq) (arguments_digest h (nd_arguments rq)),
           s\<lparr>dg_challenges := chs\<rparr>))"
| "danger_step h nonce (Answer i answer now uuid_of) s =
     (if i < length (dg_prompts s) then
        (case dg_prompts s ! i of
           (ticket, binding) \<Rightarrow>
             (case finish_confirmation h ticket binding answer now uuid_of (dg_challenges s) of
                (res, chs) \<Rightarrow>
                  ((case res of
                      Inl err \<Rightarrow> Refused err
                    | Inr _ \<Rightarrow> Authorised (n_challenge_id ticket) (n_requested_target ticket)
                                (n_action_type ticket) (n_arguments_digest ticket)),
                   \<lparr>dg_challenges = chs,
                    dg_prompts = take i (dg_prompts s) @ drop (Suc i) (dg_prompts s)\<rparr>)))
      else (Refused ''no such dialog'', s))"

definition danger_init :: danger_state where
  "danger_init = \<lparr>dg_challenges = [], dg_prompts = []\<rparr>"

text \<open>The events of a process with what each returned, and the state after them.\<close>

definition danger_run ::
  "(json \<Rightarrow> string) \<Rightarrow> string \<Rightarrow> danger_event list \<Rightarrow> (danger_event \<times> danger_output) list \<times> danger_state"
where
  "danger_run h nonce evs =
     (zip evs (run_outputs (danger_step h nonce) evs danger_init),
      run_state (danger_step h nonce) evs danger_init)"

end
