(* ===== verification/Danger_Safety.thy ===== *)
theory Danger_Safety
  imports Danger_Action
begin

text \<open>
  The history of a challenge. \<open>about c\<close> selects what the calls about one challenge returned;
  \<open>protocol\<close> says which such histories there are: nothing, one dialog, or one dialog that the
  user confirmed, followed by uses of the grants. The invariant ties the status of every
  stored challenge to its history, and each call extends it.
\<close>

section \<open>Histories\<close>

type_synonym danger_entry = "danger_event \<times> danger_output"

definition target_of :: "NativeDangerActionRequest \<Rightarrow> string" where
  "target_of rq = (case nd_requested_target rq of None \<Rightarrow> SINGLETON_TARGET | Some t \<Rightarrow> t)"

fun output_challenge :: "danger_output \<Rightarrow> string option" where
  "output_challenge (Refused _) = None"
| "output_challenge (Prompt tk) = Some (n_challenge_id tk)"
| "output_challenge (Authorised c _ _ _) = Some c"

fun output_target :: "danger_output \<Rightarrow> string option" where
  "output_target (Authorised _ t _ _) = Some t"
| "output_target _ = None"

definition targets :: "(danger_event \<times> danger_output) list \<Rightarrow> string option list" where
  "targets xs = map (\<lambda>x. output_target (snd x)) xs"

definition about :: "string \<Rightarrow> danger_entry list \<Rightarrow> danger_entry list" where
  "about c tr = filter (\<lambda>(_, out). output_challenge out = Some c) tr"

text \<open>The call for which the dialog \<open>tk\<close> was shown.\<close>

definition asked :: "(json \<Rightarrow> string) \<Rightarrow> NativePromptTicket \<Rightarrow> danger_entry \<Rightarrow> bool" where
  "asked h tk x \<longleftrightarrow>
     (\<exists>rq now u tu. x = (Request ''main'' rq now u tu, Prompt tk) \<and>
        n_action_type tk = nd_action_type rq \<and> n_affected_count tk = nd_affected_count rq \<and>
        n_arguments_digest tk = arguments_digest h (nd_arguments rq) \<and>
        n_requested_target tk = target_of rq)"

text \<open>The answer of the user to it, at the time \<open>at\<close>.\<close>

definition confirmed :: "NativePromptTicket \<Rightarrow> int \<Rightarrow> danger_entry \<Rightarrow> bool" where
  "confirmed tk at x \<longleftrightarrow>
     (\<exists>i g. x = (Answer i DialogConfirmed at g,
        Authorised (n_challenge_id tk) (n_requested_target tk) (n_action_type tk)
          (n_arguments_digest tk)))"

text \<open>A later call that the answer authorises: the same action with the same arguments, in time.\<close>

definition used_grant :: "(json \<Rightarrow> string) \<Rightarrow> NativePromptTicket \<Rightarrow> int \<Rightarrow> danger_entry \<Rightarrow> bool" where
  "used_grant h tk at x \<longleftrightarrow>
     (\<exists>rq now u tu. x = (Request ''main'' rq now u tu,
        Authorised (n_challenge_id tk) (target_of rq) (n_action_type tk) (n_arguments_digest tk)) \<and>
        nd_action_type rq = n_action_type tk \<and> nd_affected_count rq = n_affected_count tk \<and>
        arguments_digest h (nd_arguments rq) = n_arguments_digest tk \<and>
        now \<le> saturating_add at GRANT_TTL_MILLIS)"

definition protocol :: "(json \<Rightarrow> string) \<Rightarrow> danger_entry list \<Rightarrow> bool" where
  "protocol h xs \<longleftrightarrow>
     (case xs of
        [] \<Rightarrow> True
      | [p] \<Rightarrow> \<exists>tk. asked h tk p
      | p # q # rest \<Rightarrow>
          (\<exists>tk at. asked h tk p \<and> confirmed tk at q \<and> (\<forall>x \<in> set rest. used_grant h tk at x)) \<and>
          distinct (targets (q # rest)))"

lemma targets_simps [simp]:
  "targets [] = []" "targets (x # xs) = output_target (snd x) # targets xs"
  "targets (xs @ ys) = targets xs @ targets ys"
  by (simp_all add: targets_def)

lemma about_append [simp]: "about c (xs @ ys) = about c xs @ about c ys"
  by (simp add: about_def)

lemma about_one:
  "about c [(ev, out)] = (if output_challenge out = Some c then [(ev, out)] else [])"
  by (simp add: about_def)

lemma protocol_Nil [simp]: "protocol h []"
  by (simp add: protocol_def)

lemma protocol_asked [simp]: "protocol h [p] \<longleftrightarrow> (\<exists>tk. asked h tk p)"
  by (simp add: protocol_def)

lemma protocol_confirmed:
  "protocol h (p # q # rest) \<longleftrightarrow>
     (\<exists>tk at. asked h tk p \<and> confirmed tk at q \<and> (\<forall>x \<in> set rest. used_grant h tk at x)) \<and>
     distinct (targets (q # rest))"
  by (simp add: protocol_def)

section \<open>The status of a challenge and its history\<close>

text \<open>The grants of a confirmed challenge: those that were used are consumed.\<close>

definition grants_ok ::
  "NativePromptTicket \<Rightarrow> int \<Rightarrow> (string \<times> GrantRecord) list \<Rightarrow> danger_entry list \<Rightarrow> bool"
where
  "grants_ok tk at grants xs \<longleftrightarrow>
     (\<forall>t g. map_of grants t = Some g \<longrightarrow>
        g_expires_at_millis g = saturating_add at GRANT_TTL_MILLIS \<and>
        (Some t \<in> set (targets xs) \<longrightarrow> g_consumed_at_millis g \<noteq> None)) \<and>
     (\<forall>t. Some t \<in> set (targets xs) \<longrightarrow> map_of grants t \<noteq> None)"

definition scope_shown :: "ChallengeScope \<Rightarrow> NativePromptTicket \<Rightarrow> bool" where
  "scope_shown sc tk \<longleftrightarrow>
     n_action_type tk = sc_action_type sc \<and> n_affected_count tk = sc_affected_count sc"

definition record_ok ::
  "(json \<Rightarrow> string) \<Rightarrow> string \<Rightarrow> ChallengeRecord \<Rightarrow> danger_entry list \<Rightarrow> bool"
where
  "record_ok h c r xs \<longleftrightarrow>
     (case ch_status r of
        ChallengePending \<Rightarrow> xs = []
      | Confirming tid args \<Rightarrow>
          (\<exists>p tk. xs = [p] \<and> asked h tk p \<and> n_challenge_id tk = c \<and> n_ticket_id tk = tid \<and>
             n_arguments_digest tk = args \<and> scope_shown (ch_scope r) tk)
      | ChallengeConfirmed args grants \<Rightarrow>
          (\<exists>p q rest tk at. xs = p # q # rest \<and> asked h tk p \<and> confirmed tk at q \<and>
             (\<forall>x \<in> set rest. used_grant h tk at x) \<and>
             distinct (targets (q # rest)) \<and>
             n_challenge_id tk = c \<and> n_arguments_digest tk = args \<and>
             scope_shown (ch_scope r) tk \<and> grants_ok tk at grants (q # rest))
      | ChallengeRejected \<Rightarrow> \<exists>p tk. xs = [p] \<and> asked h tk p)"

lemma record_ok_protocol: "record_ok h c r xs \<Longrightarrow> protocol h xs"
proof (cases "ch_status r")
  case (ChallengeConfirmed args grants)
  assume "record_ok h c r xs"
  with ChallengeConfirmed obtain p q rest tk at where xs: "xs = p # q # rest"
    and "asked h tk p" "confirmed tk at q" "\<forall>x \<in> set rest. used_grant h tk at x"
      "distinct (targets (q # rest))"
    by (auto simp: record_ok_def)
  then show ?thesis unfolding xs protocol_confirmed by blast
qed (auto simp: record_ok_def)

fun event_uuids :: "danger_event \<Rightarrow> string list" where
  "event_uuids (Request _ _ _ u _) = [u]"
| "event_uuids (Answer _ _ _ _) = []"

definition issued :: "danger_entry list \<Rightarrow> string set" where
  "issued tr = (@) ''danger-challenge:'' ` set (concat (map (event_uuids \<circ> fst) tr))"

definition table_ok ::
  "(json \<Rightarrow> string) \<Rightarrow> string set \<Rightarrow> danger_entry list \<Rightarrow> challenges \<Rightarrow> bool"
where
  "table_ok h U tr chs \<longleftrightarrow>
     distinct (map fst chs) \<and> length chs \<le> MAX_OUTSTANDING_CHALLENGES \<and>
     (\<forall>c r. map_of chs c = Some r \<longrightarrow> c \<in> U \<and> record_ok h c r (about c tr))"

definition danger_inv :: "(json \<Rightarrow> string) \<Rightarrow> danger_entry list \<Rightarrow> danger_state \<Rightarrow> bool" where
  "danger_inv h tr s \<longleftrightarrow>
     table_ok h (issued tr) tr (dg_challenges s) \<and>
     (\<forall>c. protocol h (about c tr) \<and> (about c tr \<noteq> [] \<longrightarrow> c \<in> issued tr)) \<and>
     (\<forall>(tk, b) \<in> set (dg_prompts s). \<exists>ev. (ev, Prompt tk) \<in> set tr)"

lemma issued_append: "issued (xs @ ys) = issued xs \<union> issued ys"
  by (auto simp: issued_def)

lemma danger_inv_init: "danger_inv h [] danger_init"
  by (simp add: danger_inv_def danger_init_def about_def table_ok_def)

section \<open>The operations on the table\<close>

lemma map_of_update: "map_of (AList.update k v xs) = (map_of xs)(k \<mapsto> v)"
  by (rule update_conv')

lemma length_update_le: "length (AList.update k v xs) \<le> Suc (length xs)"
  by (induction xs) auto

lemma length_update_mem: "map_of xs k \<noteq> None \<Longrightarrow> length (AList.update k v xs) = length xs"
  by (induction xs) (auto split: if_splits)

lemma map_of_filter_distinct:
  "distinct (map fst xs) \<Longrightarrow> map_of (filter P xs) k = Some v \<Longrightarrow> map_of xs k = Some v"
  by (meson distinct_map_filter filter_is_subset in_mono map_of_SomeD map_of_is_SomeI)

lemma consume_grantE:
  assumes "consume_grant grants t args now = Inr grants'"
  obtains g where "map_of grants t = Some g" "g_consumed_at_millis g = None"
    "now \<le> g_expires_at_millis g"
    "map_of grants' = (map_of grants)(t \<mapsto> g\<lparr>g_consumed_at_millis := Some now\<rparr>)"
  using assms by (auto simp: consume_grant_def map_of_update not_less)

lemma grants_ok_consume:
  assumes "grants_ok tk at grants xs" and "consume_grant grants t args now = Inr grants'"
    and "output_target out = Some t"
  shows "grants_ok tk at grants' (xs @ [(ev, out)])"
proof -
  from assms(2) obtain g where g: "map_of grants t = Some g"
    and upd: "map_of grants' = (map_of grants)(t \<mapsto> g\<lparr>g_consumed_at_millis := Some now\<rparr>)"
    by (rule consume_grantE)
  show ?thesis using assms(1,3) g unfolding grants_ok_def upd by auto
qed

lemma grants_ok_unused:
  assumes "grants_ok tk at grants xs" and "consume_grant grants t args now = Inr grants'"
  shows "Some t \<notin> set (targets xs)" and
    "now \<le> saturating_add at GRANT_TTL_MILLIS"
proof -
  from assms(2) obtain g where g: "map_of grants t = Some g" "g_consumed_at_millis g = None"
    "now \<le> g_expires_at_millis g" by (rule consume_grantE)
  with assms(1) show "Some t \<notin> set (targets xs)" "now \<le> saturating_add at GRANT_TTL_MILLIS"
    unfolding grants_ok_def by metis+
qed

lemma new_grants_ok:
  "grants_ok tk at (map (\<lambda>t. (t, new_grant h sc args (saturating_add at GRANT_TTL_MILLIS) u t)) ts) []"
  by (auto simp: grants_ok_def new_grant_def map_of_map_restrict restrict_map_def
      dest!: map_of_SomeD)

section \<open>One call\<close>

lemma table_okD:
  "table_ok h U tr chs \<Longrightarrow> map_of chs c = Some r \<Longrightarrow> c \<in> U \<and> record_ok h c r (about c tr)"
  by (simp add: table_ok_def)

lemma table_ok_refused:
  "table_ok h U tr chs \<Longrightarrow> output_challenge out = None \<Longrightarrow> table_ok h U (tr @ [(ev, out)]) chs"
  by (simp add: table_ok_def about_one)

lemma table_ok_mono: "table_ok h U tr chs \<Longrightarrow> U \<subseteq> U' \<Longrightarrow> table_ok h U' tr chs"
  by (auto simp: table_ok_def)

lemma table_ok_extend:
  assumes "table_ok h U tr chs" "map_of chs c = Some r"
    and "\<And>c'. c' \<noteq> c \<Longrightarrow> about c' xs = []"
    and "record_ok h c r' (about c (tr @ xs))"
  shows "table_ok h U (tr @ xs) (AList.update c r' chs)"
  using assms by (auto simp: table_ok_def map_of_update length_update_mem distinct_update)

lemma table_ok_insert:
  assumes "table_ok h U tr chs" "length chs < MAX_OUTSTANDING_CHALLENGES"
    and "c \<in> U" "about c tr = []" "ch_status r = ChallengePending"
  shows "table_ok h U tr (AList.update c r chs)"
  using assms length_update_le [of c r chs]
  by (auto simp: table_ok_def map_of_update distinct_update record_ok_def)

lemma table_ok_filter: "table_ok h U tr chs \<Longrightarrow> table_ok h U tr (filter P chs)"
  using length_filter_le [of P chs]
  by (auto simp: table_ok_def distinct_map_filter simp del: length_filter_le
      dest: map_of_filter_distinct)

lemma create_challenge_ok:
  assumes ok: "table_ok h U tr chs" and create: "create_challenge a ts n b now u chs = (res, chs1)"
    and mem: "''danger-challenge:'' @ u \<in> U" and fresh: "about (''danger-challenge:'' @ u) tr = []"
  shows "table_ok h U tr chs1"
proof -
  define c where "c = ''danger-challenge:'' @ u"
  define kept where "kept = filter (\<lambda>(_, r). now \<le> ch_expires_at_millis r) chs"
  have kept_ok: "table_ok h U tr kept" unfolding kept_def by (rule table_ok_filter [OF ok])
  have "table_ok h U tr (AList.update c (new_challenge a ids n b now) kept)"
    if "length kept < MAX_OUTSTANDING_CHALLENGES" for ids
    using that mem fresh
    by (intro table_ok_insert [OF kept_ok]) (simp_all only: c_def new_challenge_def ChallengeRecord.simps)
  with create ok kept_ok show ?thesis
    unfolding create_challenge_def Let_def c_def [symmetric] kept_def [symmetric]
    by (auto simp only: not_le prod.inject split: sum.splits if_splits)
qed

lemma own_challenge_ok:
  assumes ok: "table_ok h U tr chs" and own: "own_challenge rq b now u chs = (res, chs1)"
    and fresh: "about (''danger-challenge:'' @ u) tr = []"
  shows "table_ok h (insert (''danger-challenge:'' @ u) U) tr chs1"
proof -
  have ok': "table_ok h (insert (''danger-challenge:'' @ u) U) tr chs"
    by (rule table_ok_mono [OF ok]) blast
  have "chs1 = chs \<or> (\<exists>a ts n. create_challenge a ts n b now u chs = (res, chs1))"
    using own unfolding own_challenge_def by (auto split: option.splits if_splits)
  then show ?thesis using ok' create_challenge_ok [OF ok' _ insertI1 fresh] by blast
qed

lemma begin_or_consumeE:
  assumes "begin_or_consume c a req n args b now tu chs = Inr (step, chs')"
  obtains (prompt) r where "map_of chs c = Some r" "ensure_challenge_scope r a req n b now = Inr ()"
      "ch_status r = ChallengePending"
      "step = NativePromptRequired
         \<lparr>n_challenge_id = c, n_ticket_id = tu,
          n_requested_target = (case req of None \<Rightarrow> SINGLETON_TARGET | Some t \<Rightarrow> t),
          n_action_type = sc_action_type (ch_scope r),
          n_affected_count = sc_affected_count (ch_scope r),
          n_target_count = length (sc_target_ids (ch_scope r)), n_arguments_digest = args\<rparr>"
      "chs' = AList.update c (r\<lparr>ch_status := Confirming tu args\<rparr>) chs"
  | (consume) r grants grants' where "map_of chs c = Some r"
      "ensure_challenge_scope r a req n b now = Inr ()"
      "ch_status r = ChallengeConfirmed args grants" "step = GrantConsumed"
      "consume_grant grants (case req of None \<Rightarrow> SINGLETON_TARGET | Some t \<Rightarrow> t) args now = Inr grants'"
      "chs' = AList.update c (r\<lparr>ch_status := ChallengeConfirmed args grants'\<rparr>) chs"
proof -
  from assms obtain r where r: "map_of chs c = Some r" "ensure_challenge_scope r a req n b now = Inr ()"
    unfolding begin_or_consume_def by auto
  show thesis
  proof (cases "ch_status r")
    case ChallengePending
    with assms r show ?thesis by (intro prompt) (auto simp: begin_or_consume_def Let_def)
  next
    case (ChallengeConfirmed args' grants)
    with assms r show ?thesis
      by (auto simp: begin_or_consume_def Let_def intro: consume)
  qed (use assms r in \<open>auto simp: begin_or_consume_def Let_def\<close>)
qed

lemma begin_prompts:
  assumes ok: "table_ok h U tr chs"
    and call: "begin_or_consume c (nd_action_type rq) (nd_requested_target rq) (nd_affected_count rq)
      (arguments_digest h (nd_arguments rq)) b now tu chs = Inr (NativePromptRequired tk, chs')"
    and ev: "ev = Request ''main'' rq now u tu"
  shows "c \<in> U \<and> n_challenge_id tk = c \<and> about c tr = [] \<and> asked h tk (ev, Prompt tk) \<and>
    table_ok h U (tr @ [(ev, Prompt tk)]) chs'"
proof -
  from call obtain r :: ChallengeRecord
    where r: "map_of chs c = Some r" "ch_status r = ChallengePending"
    and scope: "ensure_challenge_scope r (nd_action_type rq) (nd_requested_target rq)
        (nd_affected_count rq) b now = Inr ()"
    and tk: "tk = \<lparr>n_challenge_id = c, n_ticket_id = tu, n_requested_target = target_of rq,
      n_action_type = sc_action_type (ch_scope r),
      n_affected_count = sc_affected_count (ch_scope r),
      n_target_count = length (sc_target_ids (ch_scope r)),
      n_arguments_digest = arguments_digest h (nd_arguments rq)\<rparr>"
    and chs': "chs' = AList.update c
      (r\<lparr>ch_status := Confirming tu (arguments_digest h (nd_arguments rq))\<rparr>) chs"
    by (rule begin_or_consumeE) (simp_all only: target_of_def AuthorizationStep.simps)
  have c: "c \<in> U" "record_ok h c r (about c tr)" using table_okD [OF ok r(1)] by simp_all
  with r(2) have h0: "about c tr = []" by (simp add: record_ok_def)
  have shown: "sc_action_type (ch_scope r) = nd_action_type rq"
    "sc_affected_count (ch_scope r) = nd_affected_count rq"
    using scope by (auto simp: ensure_challenge_scope_def Let_def)
  have asked: "asked h tk (ev, Prompt tk)" using shown by (auto simp: asked_def tk ev)
  have "record_ok h c (r\<lparr>ch_status := Confirming tu (arguments_digest h (nd_arguments rq))\<rparr>)
      (about c (tr @ [(ev, Prompt tk)]))"
    using asked by (auto simp: record_ok_def h0 about_one tk scope_shown_def)
  then have "table_ok h U (tr @ [(ev, Prompt tk)]) chs'"
    unfolding chs' by (rule table_ok_extend [OF ok r(1), rotated]) (simp add: about_one tk)
  with c h0 asked show ?thesis by (simp add: tk)
qed

lemma begin_consumes:
  assumes ok: "table_ok h U tr chs"
    and call: "begin_or_consume c (nd_action_type rq) (nd_requested_target rq) (nd_affected_count rq)
      (arguments_digest h (nd_arguments rq)) b now tu chs = Inr (GrantConsumed, chs')"
    and ev: "ev = Request ''main'' rq now u tu"
    and out: "out = Authorised c (target_of rq) (nd_action_type rq) (arguments_digest h (nd_arguments rq))"
  shows "c \<in> U \<and> protocol h (about c tr @ [(ev, out)]) \<and> table_ok h U (tr @ [(ev, out)]) chs'"
proof -
  from call obtain r :: ChallengeRecord and args grants grants' where r: "map_of chs c = Some r"
      "ch_status r = ChallengeConfirmed args grants"
    and args: "args = arguments_digest h (nd_arguments rq)"
    and scope: "ensure_challenge_scope r (nd_action_type rq) (nd_requested_target rq)
        (nd_affected_count rq) b now = Inr ()"
    and cons: "consume_grant grants (target_of rq) args now = Inr grants'"
    and chs': "chs' = AList.update c (r\<lparr>ch_status := ChallengeConfirmed args grants'\<rparr>) chs"
    by (rule begin_or_consumeE) (simp_all only: target_of_def AuthorizationStep.simps)
  have c: "c \<in> U" "record_ok h c r (about c tr)" using table_okD [OF ok r(1)] by simp_all
  with r(2) obtain p q rest tk at where h: "about c tr = p # q # rest" and p: "asked h tk p"
    and q: "confirmed tk at q" and rest: "\<forall>x \<in> set rest. used_grant h tk at x"
    and dist: "distinct (targets (q # rest))" and tk: "n_challenge_id tk = c"
      "n_arguments_digest tk = args" "scope_shown (ch_scope r) tk"
    and gr: "grants_ok tk at grants (q # rest)"
    by (auto simp: record_ok_def)
  have shown: "n_action_type tk = nd_action_type rq" "n_affected_count tk = nd_affected_count rq"
    using scope tk(3) by (auto simp: ensure_challenge_scope_def Let_def scope_shown_def)
  have unused: "Some (target_of rq) \<notin> set (targets (q # rest))"
    and time: "now \<le> saturating_add at GRANT_TTL_MILLIS"
    using grants_ok_unused [OF gr cons] by simp_all
  have used: "used_grant h tk at (ev, out)"
    using shown time tk args by (auto simp: used_grant_def ev out)
  have target: "output_target out = Some (target_of rq)" by (simp add: out)
  have gr': "grants_ok tk at grants' ((q # rest) @ [(ev, out)])"
    by (rule grants_ok_consume [OF gr cons target])
  have dist': "distinct (targets (q # rest @ [(ev, out)]))"
    using dist unused target by auto
  have rest': "\<forall>x \<in> set (rest @ [(ev, out)]). used_grant h tk at x" using rest used by simp
  have ab: "about c (tr @ [(ev, out)]) = p # q # rest @ [(ev, out)]" by (simp add: h about_one out)
  have rec: "record_ok h c (r\<lparr>ch_status := ChallengeConfirmed args grants'\<rparr>)
      (about c (tr @ [(ev, out)]))"
    unfolding ab record_ok_def
    using p q rest' dist' tk gr' by (auto simp del: targets_simps)
  have "table_ok h U (tr @ [(ev, out)]) chs'"
    unfolding chs' by (rule table_ok_extend [OF ok r(1) _ rec]) (simp add: about_one out)
  moreover have "protocol h (about c tr @ [(ev, out)])"
    using record_ok_protocol [OF rec] by (simp add: about_one out)
  ultimately show ?thesis using c(1) by blast
qed

lemma confirm_consumes:
  assumes ok: "table_ok h U tr chs" and shown: "(ev0, Prompt tk) \<in> set tr"
    and call: "confirm_and_consume h tk b now g chs = Inr chs'"
    and ev: "ev = Answer i DialogConfirmed now g"
    and out: "out = Authorised (n_challenge_id tk) (n_requested_target tk) (n_action_type tk)
      (n_arguments_digest tk)"
  shows "n_challenge_id tk \<in> U \<and> protocol h (about (n_challenge_id tk) tr @ [(ev, out)]) \<and>
    table_ok h U (tr @ [(ev, out)]) chs'"
proof -
  define c where "c = n_challenge_id tk"
  define args where "args = n_arguments_digest tk"
  from call obtain r :: ChallengeRecord and ts grants' where r: "map_of chs c = Some r"
      "ch_status r = Confirming (n_ticket_id tk) args"
    and cons: "consume_grant (map (\<lambda>t. (t, new_grant h (ch_scope r) args
        (saturating_add now GRANT_TTL_MILLIS) g t)) ts) (n_requested_target tk) args now = Inr grants'"
    and chs': "chs' = AList.update c (r\<lparr>ch_status := ChallengeConfirmed args grants'\<rparr>) chs"
    by (auto simp: confirm_and_consume_def c_def args_def Let_def)
  have c: "c \<in> U" "record_ok h c r (about c tr)" using table_okD [OF ok r(1)] by simp_all
  with r(2) obtain p tk' where h: "about c tr = [p]" and p: "asked h tk' p"
    and sc: "scope_shown (ch_scope r) tk'"
    by (auto simp: record_ok_def)
  have "(ev0, Prompt tk) \<in> set (about c tr)" using shown by (simp add: about_def c_def)
  then have "p = (ev0, Prompt tk)" using h by simp
  with p have tk: "tk' = tk" by (auto simp: asked_def)
  have q: "confirmed tk now (ev, out)" by (simp add: confirmed_def ev out)
  have target: "output_target out = Some (n_requested_target tk)" by (simp add: out)
  have gr: "grants_ok tk now grants' ([] @ [(ev, out)])"
    by (rule grants_ok_consume [OF new_grants_ok cons target])
  have ab: "about c (tr @ [(ev, out)]) = [p, (ev, out)]" using h by (simp add: about_one out c_def)
  have rec: "record_ok h c (r\<lparr>ch_status := ChallengeConfirmed args grants'\<rparr>)
      (about c (tr @ [(ev, out)]))"
    unfolding ab record_ok_def using p q sc gr by (auto simp: tk c_def args_def)
  have "table_ok h U (tr @ [(ev, out)]) chs'"
    unfolding chs' by (rule table_ok_extend [OF ok r(1) _ rec]) (simp add: about_one out c_def)
  moreover have "protocol h (about c tr @ [(ev, out)])"
    using record_ok_protocol [OF rec] by (simp add: about_one out c_def)
  ultimately show ?thesis using c(1) unfolding c_def by blast
qed

lemma reject_ticketE:
  assumes "reject_ticket tk chs = Inr chs'"
  obtains r args where "map_of chs (n_challenge_id tk) = Some r"
    "ch_status r = Confirming (n_ticket_id tk) args"
    "chs' = AList.update (n_challenge_id tk) (r\<lparr>ch_status := ChallengeRejected\<rparr>) chs"
proof -
  from assms obtain r where "map_of chs (n_challenge_id tk) = Some r"
    unfolding reject_ticket_def by auto
  with assms that show thesis
    by (cases "ch_status r") (auto simp: reject_ticket_def split: if_splits)
qed

lemma reject_ok:
  assumes ok: "table_ok h U tr chs" and call: "reject_ticket tk chs = Inr chs'"
  shows "table_ok h U tr chs'"
proof -
  from call obtain r :: ChallengeRecord and args where r: "map_of chs (n_challenge_id tk) = Some r"
      "ch_status r = Confirming (n_ticket_id tk) args"
    and chs': "chs' = AList.update (n_challenge_id tk) (r\<lparr>ch_status := ChallengeRejected\<rparr>) chs"
    by (rule reject_ticketE)
  have "record_ok h (n_challenge_id tk) (r\<lparr>ch_status := ChallengeRejected\<rparr>)
      (about (n_challenge_id tk) (tr @ []))"
    using table_okD [OF ok r(1)] r(2) by (auto simp: record_ok_def)
  from table_ok_extend [OF ok r(1) _ this] show ?thesis unfolding chs' by (simp add: about_def)
qed

section \<open>All calls\<close>

lemma require_confirmation_main:
  assumes "require_confirmation h nonce label rq now u tu chs = (res, chs')"
  obtains (refused) err where "res = Inl err" "chs' = chs"
  | (own_refused) err b err' where "res = Inl err" "own_challenge rq b now u chs = (Inl err', chs')"
  | (scope_refused) err b c where "res = Inl err" "own_challenge rq b now u chs = (Inr c, chs')"
  | (passed) b c step chs1 where "label = ''main''" "res = Inr (c, step, b)"
      "own_challenge rq b now u chs = (Inr c, chs1)"
      "begin_or_consume c (nd_action_type rq) (nd_requested_target rq) (nd_affected_count rq)
         (arguments_digest h (nd_arguments rq)) b now tu chs1 = Inr (step, chs')"
  using assms unfolding require_confirmation_def local_session_binding_def
  by (auto split: if_splits sum.splits prod.splits)

lemma issued_snoc: "issued (tr @ [(ev, out)]) = (@) ''danger-challenge:'' ` set (event_uuids ev) \<union> issued tr"
  by (simp add: issued_def image_Un Un_commute)

lemma danger_inv_refused:
  assumes inv: "danger_inv h tr s" and "output_challenge out = None"
    and ok: "table_ok h (issued (tr @ [(ev, out)])) tr chs"
    and sub: "set prompts \<subseteq> set (dg_prompts s)"
  shows "danger_inv h (tr @ [(ev, out)]) \<lparr>dg_challenges = chs, dg_prompts = prompts\<rparr>"
proof -
  have "about c (tr @ [(ev, out)]) = about c tr" for c using assms(2) by (simp add: about_one)
  moreover have "issued tr \<subseteq> issued (tr @ [(ev, out)])" by (simp add: issued_append)
  moreover have "\<forall>(tk, b) \<in> set prompts. \<exists>ev'. (ev', Prompt tk) \<in> set (tr @ [(ev, out)])"
    using inv sub by (fastforce simp: danger_inv_def)
  ultimately show ?thesis
    using inv table_ok_refused [OF ok assms(2)] unfolding danger_inv_def by auto
qed

lemma danger_inv_extend:
  assumes inv: "danger_inv h tr s"
    and out: "output_challenge out = Some c" and c: "c \<in> issued (tr @ [(ev, out)])"
    and prot: "protocol h (about c tr @ [(ev, out)])"
    and ok: "table_ok h (issued (tr @ [(ev, out)])) (tr @ [(ev, out)]) chs"
    and prompts: "\<forall>(tk, b) \<in> set prompts. \<exists>ev'. (ev', Prompt tk) \<in> set (tr @ [(ev, out)])"
  shows "danger_inv h (tr @ [(ev, out)]) \<lparr>dg_challenges = chs, dg_prompts = prompts\<rparr>"
proof -
  have "issued tr \<subseteq> issued (tr @ [(ev, out)])" by (simp add: issued_append)
  moreover have "about c' (tr @ [(ev, out)]) = (if c' = c then about c tr @ [(ev, out)] else about c' tr)"
    for c' using out by (simp add: about_one)
  ultimately show ?thesis
    using inv c prot ok prompts unfolding danger_inv_def by auto
qed

lemma danger_inv_request:
  assumes inv: "danger_inv h tr s" and fresh: "''danger-challenge:'' @ u \<notin> issued tr"
    and ev: "ev = Request label rq now u tu" and step: "danger_step h nonce ev s = (out, s')"
  shows "danger_inv h (tr @ [(ev, out)]) s'"
proof -
  let ?U = "insert (''danger-challenge:'' @ u) (issued tr)"
  have U: "issued (tr @ [(ev, out)]) = ?U" for out by (simp add: issued_snoc ev)
  have ok: "table_ok h (issued tr) tr (dg_challenges s)" using inv by (simp add: danger_inv_def)
  have none: "about (''danger-challenge:'' @ u) tr = []" using inv fresh by (auto simp: danger_inv_def)
  have own: "table_ok h ?U tr chs1" if "own_challenge rq b now u (dg_challenges s) = (res, chs1)"
    for b res chs1 by (rule own_challenge_ok [OF ok that none])
  obtain res chs' where req: "require_confirmation h nonce label rq now u tu (dg_challenges s) = (res, chs')"
    by fastforce
  have upd: "s\<lparr>dg_challenges := chs\<rparr> = \<lparr>dg_challenges = chs, dg_prompts = dg_prompts s\<rparr>" for chs
    by (cases s) simp
  have refuse: ?thesis if "res = Inl err" "table_ok h ?U tr chs'" for err
    using step danger_inv_refused [OF inv, of "Refused err" ev chs' "dg_prompts s"] that
    by (auto simp: ev req U [unfolded ev] upd)
  from req show ?thesis
  proof (cases rule: require_confirmation_main)
    case (refused err)
    then show ?thesis using table_ok_mono [OF ok subset_insertI] by (intro refuse) simp_all
  next
    case (own_refused err b err')
    with own show ?thesis by (intro refuse) simp_all
  next
    case (scope_refused err b c)
    with own show ?thesis by (intro refuse) simp_all
  next
    case (passed b c stp chs1)
    have ok1: "table_ok h ?U tr chs1" by (rule own [OF passed(3)])
    have ev': "ev = Request ''main'' rq now u tu" by (simp add: ev passed(1))
    show ?thesis
    proof (cases stp)
      case (NativePromptRequired tk)
      from begin_prompts [OF ok1 passed(4) [unfolded NativePromptRequired] ev']
      have b: "c \<in> ?U" "n_challenge_id tk = c" "about c tr = []" "asked h tk (ev, Prompt tk)"
        "table_ok h ?U (tr @ [(ev, Prompt tk)]) chs'" by simp_all
      have out: "out = Prompt tk"
        "s' = \<lparr>dg_challenges = chs', dg_prompts = dg_prompts s @ [(tk, b)]\<rparr>"
        using step by (simp_all add: ev req passed(2) NativePromptRequired upd)
      show ?thesis unfolding out(2) using b inv
        by (intro danger_inv_extend [OF inv, where c = c])
          (auto simp: out(1) U danger_inv_def)
    next
      case GrantConsumed
      have out: "out = Authorised c (target_of rq) (nd_action_type rq) (arguments_digest h (nd_arguments rq))"
        "s' = \<lparr>dg_challenges = chs', dg_prompts = dg_prompts s\<rparr>"
        using step by (simp_all add: ev req passed(2) GrantConsumed target_of_def upd)
      from begin_consumes [OF ok1 passed(4) [unfolded GrantConsumed] ev' out(1)]
      have b: "c \<in> ?U" "protocol h (about c tr @ [(ev, out)])" "table_ok h ?U (tr @ [(ev, out)]) chs'"
        by simp_all
      show ?thesis unfolding out(2) using b inv
        by (intro danger_inv_extend [OF inv, where c = c])
          (auto simp: out(1) U danger_inv_def)
    qed
  qed
qed

lemma danger_inv_answer:
  assumes inv: "danger_inv h tr s" and ev: "ev = Answer i answer now g"
    and step: "danger_step h nonce ev s = (out, s')"
  shows "danger_inv h (tr @ [(ev, out)]) s'"
proof (cases "i < length (dg_prompts s)")
  case False
  then have "out = Refused ''no such dialog''" "s' = s" using step by (auto simp: ev)
  moreover have "s = \<lparr>dg_challenges = dg_challenges s, dg_prompts = dg_prompts s\<rparr>" by (cases s) simp
  ultimately show ?thesis
    using danger_inv_refused [OF inv, of out ev "dg_challenges s" "dg_prompts s"] inv
    by (auto simp: danger_inv_def issued_snoc ev)
next
  case True
  obtain tk b where tk: "dg_prompts s ! i = (tk, b)" by fastforce
  let ?rest = "take i (dg_prompts s) @ drop (Suc i) (dg_prompts s)"
  obtain res chs' where fin: "finish_confirmation h tk b answer now g (dg_challenges s) = (res, chs')"
    by fastforce
  have out: "out = (case res of Inl err \<Rightarrow> Refused err | Inr _ \<Rightarrow> Authorised (n_challenge_id tk)
      (n_requested_target tk) (n_action_type tk) (n_arguments_digest tk))"
    and s': "s' = \<lparr>dg_challenges = chs', dg_prompts = ?rest\<rparr>"
    using step True by (simp_all add: ev tk fin)
  have ok: "table_ok h (issued tr) tr (dg_challenges s)" using inv by (simp add: danger_inv_def)
  have U: "issued (tr @ [(ev, x)]) = issued tr" for x by (simp add: issued_snoc ev)
  have sub: "set ?rest \<subseteq> set (dg_prompts s)"
    by (auto dest: in_set_takeD in_set_dropD)
  have "(tk, b) \<in> set (dg_prompts s)" using True tk nth_mem by metis
  then obtain ev0 where shown: "(ev0, Prompt tk) \<in> set tr" using inv by (auto simp: danger_inv_def)
  show ?thesis
  proof (cases res)
    case (Inl err)
    have "table_ok h (issued tr) tr chs'"
      using fin ok Inl by (auto simp: finish_confirmation_def intro: reject_ok
          split: dialog.splits sum.splits)
    then show ?thesis unfolding s'
      using danger_inv_refused [OF inv _ _ sub, of out ev chs'] by (simp add: out Inl U)
  next
    case (Inr v)
    then have conf: "answer = DialogConfirmed"
      "confirm_and_consume h tk b now g (dg_challenges s) = Inr chs'"
      using fin by (auto simp: finish_confirmation_def split: dialog.splits sum.splits)
    from confirm_consumes [OF ok shown conf(2) ev [unfolded conf(1)] refl]
    have "n_challenge_id tk \<in> issued tr" "protocol h (about (n_challenge_id tk) tr @ [(ev, out)])"
      "table_ok h (issued tr) (tr @ [(ev, out)]) chs'"
      by (simp_all add: out Inr)
    then show ?thesis unfolding s' using inv sub
      by (intro danger_inv_extend [OF inv, where c = "n_challenge_id tk"])
        (auto simp: out Inr U danger_inv_def)
  qed
qed

lemma danger_inv_run:
  assumes "danger_inv h tr s" and "distinct (concat (map event_uuids evs))"
    and "\<forall>u \<in> set (concat (map event_uuids evs)). ''danger-challenge:'' @ u \<notin> issued tr"
  shows "danger_inv h (tr @ zip evs (run_outputs (danger_step h nonce) evs s))
    (run_state (danger_step h nonce) evs s)"
  using assms
proof (induction evs arbitrary: tr s)
  case Nil
  then show ?case by simp
next
  case (Cons ev evs)
  obtain out s' where step: "danger_step h nonce ev s = (out, s')" by fastforce
  have inv: "danger_inv h (tr @ [(ev, out)]) s'"
  proof (cases ev)
    case (Request label rq now u tu)
    then show ?thesis using danger_inv_request [OF Cons.prems(1) _ Request step] Cons.prems(3) by simp
  next
    case (Answer i answer now g)
    then show ?thesis by (rule danger_inv_answer [OF Cons.prems(1) _ step])
  qed
  have "\<forall>u \<in> set (concat (map event_uuids evs)). ''danger-challenge:'' @ u \<notin> issued (tr @ [(ev, out)])"
    using Cons.prems(2,3) by (auto simp only: issued_snoc Un_iff image_iff same_append_eq
        list.map concat.simps set_append distinct_append)
  moreover have "distinct (concat (map event_uuids evs))" using Cons.prems(2) by simp
  ultimately have "danger_inv h ((tr @ [(ev, out)]) @ zip evs (run_outputs (danger_step h nonce) evs s'))
    (run_state (danger_step h nonce) evs s')"
    using Cons.IH [OF inv] by blast
  then show ?case by (simp add: step)
qed

section \<open>The property\<close>

text \<open>
  C33. No dangerous action without the user. Whatever calls and answers interleave, if a call
  was authorised under a challenge, then the calls about that challenge are, in this order: one
  for which the dialog was shown, the answer of the user that confirmed it, and uses of the
  grants by the main window. All are for the action, the number of affected objects and the
  digest of the arguments that the dialog was shown for, each use is at most a minute after the
  answer, and no target is authorised twice. (Hypothesis: the UUIDs drawn for challenges differ.)
\<close>

theorem danger_actions_are_confirmed:
  fixes h nonce evs
  defines "tr \<equiv> fst (danger_run h nonce evs)"
  assumes "distinct (concat (map event_uuids evs))"
    and "(ev, Authorised c t a d) \<in> set tr"
  shows "\<exists>p q rest tk at. about c tr = p # q # rest \<and>
    asked h tk p \<and> confirmed tk at q \<and> (\<forall>x \<in> set rest. used_grant h tk at x) \<and>
    (ev, Authorised c t a d) \<in> set (q # rest) \<and>
    n_action_type tk = a \<and> n_arguments_digest tk = d \<and> distinct (targets (q # rest))"
proof -
  have "danger_inv h ([] @ tr) (run_state (danger_step h nonce) evs danger_init)"
    unfolding tr_def danger_run_def fst_conv
    by (rule danger_inv_run [OF danger_inv_init assms(2)]) (simp add: issued_def)
  then have prot: "protocol h (about c tr)" by (simp add: danger_inv_def)
  have mem: "(ev, Authorised c t a d) \<in> set (about c tr)" using assms(3) by (simp add: about_def)
  show ?thesis
  proof (cases "about c tr" rule: remdups_adj.cases)
    case 1
    with mem show ?thesis by simp
  next
    case (2 p)
    with mem prot show ?thesis by (auto simp: asked_def)
  next
    case (3 p q rest)
    from prot obtain tk at where tk: "asked h tk p" "confirmed tk at q"
        "\<forall>x \<in> set rest. used_grant h tk at x" "distinct (targets (q # rest))"
      unfolding 3 protocol_confirmed by blast
    have "(ev, Authorised c t a d) \<noteq> p" using tk(1) by (auto simp: asked_def)
    with mem have mem': "(ev, Authorised c t a d) \<in> set (q # rest)" by (simp add: 3)
    then have "n_action_type tk = a \<and> n_arguments_digest tk = d"
      using tk(2,3) by (auto simp: confirmed_def used_grant_def)
    with 3 tk mem' show ?thesis by blast
  qed
qed

text \<open>One dialog for two targets.\<close>

definition demo_request :: "string option \<Rightarrow> string \<Rightarrow> NativeDangerActionRequest" where
  "demo_request challenge target =
     \<lparr>nd_action_type = ''delete'', nd_target_ids_for_new_challenge = [''b'', ''a''],
      nd_requested_target = Some target, nd_affected_count = 2, nd_arguments = JNull,
      nd_challenge_id = challenge\<rparr>"

definition demo_events :: "danger_event list" where
  "demo_events =
     [Request ''main'' (demo_request None ''a'') 0 ''u'' ''k'',
      Answer 0 DialogConfirmed 1000 (\<lambda>t. t),
      Request ''main'' (demo_request (Some ''danger-challenge:u'') ''b'') 61000 ''v'' ''l'',
      Request ''main'' (demo_request (Some ''danger-challenge:u'') ''b'') 61000 ''w'' ''m'']"

lemma demo_outputs:
  "map snd (fst (danger_run (\<lambda>_. []) ''n'' demo_events)) =
     [snd (hd (fst (danger_run (\<lambda>_. []) ''n'' demo_events))),
      Authorised ''danger-challenge:u'' ''a'' ''delete'' ''sha256:'',
      Authorised ''danger-challenge:u'' ''b'' ''delete'' ''sha256:'',
      Refused ''native confirmation grant was already consumed'']"
  by code_simp

theorem danger_actions_are_confirmed_witness:
  "\<exists>p q rest tk at. about ''danger-challenge:u'' (fst (danger_run (\<lambda>_. []) ''n'' demo_events)) =
     p # q # rest \<and> asked (\<lambda>_. []) tk p \<and> confirmed tk at q"
proof -
  let ?tr = "fst (danger_run (\<lambda>_. []) ''n'' demo_events)"
  have "Authorised ''danger-challenge:u'' ''a'' ''delete'' ''sha256:'' \<in> set (map snd ?tr)"
    unfolding demo_outputs by simp
  then obtain ev where ev: "(ev, Authorised ''danger-challenge:u'' ''a'' ''delete'' ''sha256:'') \<in> set ?tr"
    by auto
  have "distinct (concat (map event_uuids demo_events))" by (simp add: demo_events_def)
  from danger_actions_are_confirmed [OF this ev] show ?thesis by blast
qed

end
