(* ===== verification/Outbox.thy ===== *)
theory Outbox
  imports Machines "HOL-Library.Word" "HOL-Library.Product_Lexorder"
begin

text \<open>
  The transactional outbox (\<open>openlife-core/src/persistence_outbox.rs\<close>, up to the file journal):
  every mutation of an aggregate (a memory, a conversation, a resource, ...) is an event with
  the next revision of that aggregate and one delivery per projection that must follow it; a
  deletion also leaves a tombstone.

  The three tables are lists of rows. The functions that enqueue run inside the transaction of
  their caller, which rolls back on an error, so they return an error or a new outbox. UUIDs
  and the time are arguments; one operation uses one time, and a time orders like its RFC 3339
  text. The hexadecimal SHA-256 of a text is the parameter \<open>sha\<close>.
\<close>

section \<open>Data\<close>

datatype ProjectionDeliveryState =
  DeliveryPending | DeliveryDegraded | DeliveryApplied | DeliverySuperseded | DeliveryCompensated

fun delivery_state_as_str :: "ProjectionDeliveryState \<Rightarrow> string" where
  "delivery_state_as_str DeliveryPending = ''pending''"
| "delivery_state_as_str DeliveryDegraded = ''degraded''"
| "delivery_state_as_str DeliveryApplied = ''applied''"
| "delivery_state_as_str DeliverySuperseded = ''superseded''"
| "delivery_state_as_str DeliveryCompensated = ''compensated''"

text \<open>The columns: \<open>state\<close> and \<open>terminal_disposition\<close> have \<open>CHECK\<close>s on their codes.\<close>

datatype row_state = RowPending | RowDegraded | RowApplied

datatype terminal_disposition = TerminalSuperseded | TerminalCompensated

fun row_state_parse :: "row_state \<Rightarrow> ProjectionDeliveryState" where
  "row_state_parse RowPending = DeliveryPending"
| "row_state_parse RowDegraded = DeliveryDegraded"
| "row_state_parse RowApplied = DeliveryApplied"

datatype outbox_error =
  OutboxBail string
| OutboxNoRows string
| OutboxConstraint
| OutboxConversion
| CanonicalProjectionHeadAdvanced string nat string nat

record tombstone_row =
  tb_tombstone_id :: string
  tb_aggregate_kind :: string
  tb_aggregate_id :: string
  tb_reason_digest :: "string option"
  tb_created_at :: int
  tb_superseded_at :: "int option"
  tb_superseded_by_event_id :: "string option"

record CanonicalMutationReceipt =
  ev_event_id :: string
  ev_aggregate_kind :: string
  ev_aggregate_id :: string
  ev_mutation_kind :: string
  ev_aggregate_revision :: nat
  ev_payload_digest :: string
  ev_tombstone_id :: "string option"
  ev_created_at :: int

record delivery_row =
  dl_event_id :: string
  dl_projection_target :: string
  dl_state :: row_state
  dl_attempt_count :: nat
  dl_last_error_digest :: "string option"
  dl_terminal_disposition :: "terminal_disposition option"
  dl_superseded_by_event_id :: "string option"
  dl_created_at :: int
  dl_updated_at :: int

record ProjectionDelivery =
  pd_event :: CanonicalMutationReceipt
  pd_projection_target :: string
  pd_state :: ProjectionDeliveryState
  pd_attempt_count :: "32 word"
  pd_last_error_digest :: "string option"
  pd_terminal_disposition :: "terminal_disposition option"
  pd_superseded_by_event_id :: "string option"
  pd_created_at :: int
  pd_updated_at :: int

record outbox =
  ob_tombstones :: "tombstone_row list"
  ob_events :: "CanonicalMutationReceipt list"
  ob_deliveries :: "delivery_row list"

definition empty_outbox :: outbox where
  "empty_outbox = \<lparr>ob_tombstones = [], ob_events = [], ob_deliveries = []\<rparr>"

section \<open>Validation\<close>

definition MAX_ID_LEN :: nat where
  "MAX_ID_LEN = 256"

definition MAX_PROJECTION_TARGETS :: nat where
  "MAX_PROJECTION_TARGETS = 32"

definition validate_identifier :: "string \<Rightarrow> string \<Rightarrow> outbox_error + unit" where
  "validate_identifier label value =
     bail_if (value = [] \<or> MAX_ID_LEN < length value \<or> trim value \<noteq> value \<or> has_control value)
       (OutboxBail (''invalid canonical outbox '' @ label))"

definition validate_payload_digest :: "string \<Rightarrow> outbox_error + unit" where
  "validate_payload_digest value =
     (case strip_prefix ''sha256:'' value of
        None \<Rightarrow> Inl (OutboxBail ''canonical outbox payload digest must be sha256'')
      | Some hex \<Rightarrow>
          bail_if (length hex \<noteq> 64 \<or> \<not> list_all is_ascii_hexdigit hex)
            (OutboxBail ''canonical outbox payload digest is malformed''))"

definition validate_targets :: "string list \<Rightarrow> outbox_error + unit" where
  "validate_targets targets =
     (if MAX_PROJECTION_TARGETS < length targets
      then Inl (OutboxBail ''too many canonical outbox projection targets'')
      else
        res_bind
          (res_fold (\<lambda>unique target.
             res_bind (validate_identifier ''projection_target'' target) (\<lambda>_.
             if target \<in> unique
             then Inl (OutboxBail (''duplicate canonical outbox projection target: '' @ target))
             else Inr (insert target unique))) {} targets)
          (\<lambda>_. Inr ()))"

definition metadata_digest :: "(string \<Rightarrow> string) \<Rightarrow> string \<Rightarrow> string" where
  "metadata_digest sha value = ''sha256:'' @ sha value"

section \<open>Queries\<close>

definition in_aggregate :: "string \<Rightarrow> string \<Rightarrow> CanonicalMutationReceipt \<Rightarrow> bool" where
  "in_aggregate kind aid ev \<longleftrightarrow> ev_aggregate_kind ev = kind \<and> ev_aggregate_id ev = aid"

definition find_event :: "outbox \<Rightarrow> string \<Rightarrow> CanonicalMutationReceipt option" where
  "find_event o1 event_id = find (\<lambda>ev. ev_event_id ev = event_id) (ob_events o1)"

definition find_delivery :: "outbox \<Rightarrow> string \<Rightarrow> string \<Rightarrow> delivery_row option" where
  "find_delivery o1 event_id target =
     find (\<lambda>d. dl_event_id d = event_id \<and> dl_projection_target d = target) (ob_deliveries o1)"

definition head_revision :: "outbox \<Rightarrow> string \<Rightarrow> string \<Rightarrow> nat" where
  "head_revision o1 kind aid = max_where (in_aggregate kind aid) ev_aggregate_revision (ob_events o1)"

text \<open>\<open>ORDER BY aggregate_revision DESC LIMIT 1\<close>; the index on revisions leaves no ties.\<close>

definition head_event :: "outbox \<Rightarrow> string \<Rightarrow> string \<Rightarrow> CanonicalMutationReceipt option" where
  "head_event o1 kind aid =
     find (\<lambda>ev. in_aggregate kind aid ev \<and> ev_aggregate_revision ev = head_revision o1 kind aid)
       (ob_events o1)"

definition active_tombstone :: "string \<Rightarrow> string \<Rightarrow> tombstone_row \<Rightarrow> bool" where
  "active_tombstone kind aid tb \<longleftrightarrow>
     tb_aggregate_kind tb = kind \<and> tb_aggregate_id tb = aid \<and> tb_superseded_at tb = None"

definition active_tombstone_event :: "outbox \<Rightarrow> string \<Rightarrow> string \<Rightarrow> CanonicalMutationReceipt option" where
  "active_tombstone_event o1 kind aid =
     (case sort_key ev_created_at
             (filter (\<lambda>ev. exists_where (\<lambda>tb. active_tombstone kind aid tb \<and>
                ev_tombstone_id ev = Some (tb_tombstone_id tb)) (ob_tombstones o1)) (ob_events o1)) of
        [] \<Rightarrow> None
      | ev # _ \<Rightarrow> Some ev)"

definition has_active_tombstone :: "string \<Rightarrow> string \<Rightarrow> outbox \<Rightarrow> outbox_error + bool" where
  "has_active_tombstone kind aid o1 =
     res_bind (validate_identifier ''aggregate_kind'' kind) (\<lambda>_.
     res_bind (validate_identifier ''aggregate_id'' aid) (\<lambda>_.
     Inr (exists_where (active_tombstone kind aid) (ob_tombstones o1))))"

definition superseded_tombstone_ids_for_event :: "string \<Rightarrow> outbox \<Rightarrow> outbox_error + string list" where
  "superseded_tombstone_ids_for_event event_id o1 =
     res_bind (validate_identifier ''superseding_event_id'' event_id) (\<lambda>_.
     Inr (sort (map tb_tombstone_id
       (filter (\<lambda>tb. tb_superseded_by_event_id tb = Some event_id) (ob_tombstones o1)))))"

definition latest_mutation_for_aggregate ::
  "string \<Rightarrow> string \<Rightarrow> outbox \<Rightarrow> outbox_error + CanonicalMutationReceipt option"
where
  "latest_mutation_for_aggregate kind aid o1 =
     res_bind (validate_identifier ''aggregate_kind'' kind) (\<lambda>_.
     res_bind (validate_identifier ''aggregate_id'' aid) (\<lambda>_. Inr (head_event o1 kind aid)))"

definition mutation_by_event_id :: "string \<Rightarrow> outbox \<Rightarrow> outbox_error + CanonicalMutationReceipt option" where
  "mutation_by_event_id event_id o1 =
     res_bind (validate_identifier ''event_id'' event_id) (\<lambda>_. Inr (find_event o1 event_id))"

definition tombstone_ids_for_aggregate :: "string \<Rightarrow> string \<Rightarrow> outbox \<Rightarrow> outbox_error + string list" where
  "tombstone_ids_for_aggregate kind aid o1 =
     res_bind (validate_identifier ''aggregate_kind'' kind) (\<lambda>_.
     res_bind (validate_identifier ''aggregate_id'' aid) (\<lambda>_.
     Inr (map tb_tombstone_id (sort_key (\<lambda>tb. (tb_created_at tb, tb_tombstone_id tb))
       (filter (\<lambda>tb. tb_aggregate_kind tb = kind \<and> tb_aggregate_id tb = aid) (ob_tombstones o1))))))"

section \<open>Enqueuing\<close>

definition new_delivery :: "string \<Rightarrow> string \<Rightarrow> int \<Rightarrow> delivery_row" where
  "new_delivery event_id target now =
     \<lparr>dl_event_id = event_id, dl_projection_target = target, dl_state = RowPending,
      dl_attempt_count = 0, dl_last_error_digest = None, dl_terminal_disposition = None,
      dl_superseded_by_event_id = None, dl_created_at = now, dl_updated_at = now\<rparr>"

definition ensure_delivery_targets :: "string \<Rightarrow> string list \<Rightarrow> int \<Rightarrow> outbox \<Rightarrow> outbox" where
  "ensure_delivery_targets event_id targets now o1 =
     fold (\<lambda>target o2.
       if find_delivery o2 event_id target \<noteq> None then o2
       else o2\<lparr>ob_deliveries := ob_deliveries o2 @ [new_delivery event_id target now]\<rparr>) targets o1"

definition settled :: "delivery_row \<Rightarrow> bool" where
  "settled d \<longleftrightarrow> dl_state d = RowApplied \<or> dl_terminal_disposition d \<noteq> None"

definition supersede_deliveries ::
  "string \<Rightarrow> string \<Rightarrow> string \<Rightarrow> nat \<Rightarrow> int \<Rightarrow> outbox \<Rightarrow> outbox"
where
  "supersede_deliveries kind aid event_id revision now o1 =
     o1\<lparr>ob_deliveries := update_where
         (\<lambda>d. \<not> settled d \<and>
            exists_where (\<lambda>ev. ev_event_id ev = dl_event_id d \<and> in_aggregate kind aid ev \<and>
              ev_aggregate_revision ev < revision) (ob_events o1))
         (\<lambda>d. d\<lparr>dl_terminal_disposition := Some TerminalSuperseded,
                dl_superseded_by_event_id := Some event_id, dl_updated_at := now\<rparr>)
         (ob_deliveries o1)\<rparr>"

definition insert_event ::
  "string \<Rightarrow> string \<Rightarrow> string \<Rightarrow> string \<Rightarrow> string \<Rightarrow> string option \<Rightarrow> int \<Rightarrow> string list \<Rightarrow> outbox \<Rightarrow>
   outbox_error + CanonicalMutationReceipt \<times> outbox"
where
  "insert_event event_id kind aid mutation_kind payload tombstone_id now targets o1 =
     (let revision = head_revision o1 kind aid + 1;
          receipt = \<lparr>ev_event_id = event_id, ev_aggregate_kind = kind, ev_aggregate_id = aid,
            ev_mutation_kind = mutation_kind, ev_aggregate_revision = revision,
            ev_payload_digest = payload, ev_tombstone_id = tombstone_id, ev_created_at = now\<rparr>
      in if find_event o1 event_id \<noteq> None then Inl OutboxConstraint
         else Inr (receipt,
           ensure_delivery_targets event_id targets now
             (supersede_deliveries kind aid event_id revision now
               (o1\<lparr>ob_events := ob_events o1 @ [receipt]\<rparr>))))"

definition enqueue_event ::
  "string \<Rightarrow> string \<Rightarrow> string \<Rightarrow> string \<Rightarrow> string list \<Rightarrow> string \<Rightarrow> int \<Rightarrow> outbox \<Rightarrow>
   outbox_error + CanonicalMutationReceipt \<times> outbox"
where
  "enqueue_event kind aid mutation_kind payload targets uuid now o1 =
     res_bind (first_failure
       [validate_identifier ''aggregate_kind'' kind, validate_identifier ''aggregate_id'' aid,
        validate_identifier ''mutation_kind'' mutation_kind, validate_payload_digest payload,
        validate_targets targets]) (\<lambda>_.
     insert_event (''outbox:'' @ uuid) kind aid mutation_kind payload None now targets o1)"

definition enqueue_mutation ::
  "string \<Rightarrow> string \<Rightarrow> string \<Rightarrow> string \<Rightarrow> string list \<Rightarrow> string \<Rightarrow> int \<Rightarrow> outbox \<Rightarrow>
   outbox_error + CanonicalMutationReceipt \<times> outbox"
where
  "enqueue_mutation = enqueue_event"

definition new_tombstone ::
  "(string \<Rightarrow> string) \<Rightarrow> string \<Rightarrow> string \<Rightarrow> string \<Rightarrow> string option \<Rightarrow> int \<Rightarrow> tombstone_row"
where
  "new_tombstone sha tombstone_id kind aid reason now =
     \<lparr>tb_tombstone_id = tombstone_id, tb_aggregate_kind = kind, tb_aggregate_id = aid,
      tb_reason_digest = map_option (metadata_digest sha) reason, tb_created_at = now,
      tb_superseded_at = None, tb_superseded_by_event_id = None\<rparr>"

definition insert_tombstone :: "tombstone_row \<Rightarrow> outbox \<Rightarrow> outbox_error + outbox" where
  "insert_tombstone tb o1 =
     (if exists_where (\<lambda>x. tb_tombstone_id x = tb_tombstone_id tb \<or>
           active_tombstone (tb_aggregate_kind tb) (tb_aggregate_id tb) x) (ob_tombstones o1)
      then Inl OutboxConstraint
      else Inr (o1\<lparr>ob_tombstones := ob_tombstones o1 @ [tb]\<rparr>))"

definition enqueue_tombstone ::
  "(string \<Rightarrow> string) \<Rightarrow> string \<Rightarrow> string \<Rightarrow> string option \<Rightarrow> string list \<Rightarrow> string \<Rightarrow> string \<Rightarrow> int \<Rightarrow>
   outbox \<Rightarrow> outbox_error + CanonicalMutationReceipt \<times> outbox"
where
  "enqueue_tombstone sha kind aid reason targets uuid event_uuid now o1 =
     res_bind (first_failure
       [validate_identifier ''aggregate_kind'' kind, validate_identifier ''aggregate_id'' aid,
        validate_targets targets]) (\<lambda>_.
     case active_tombstone_event o1 kind aid of
       Some existing \<Rightarrow>
         Inr (existing, ensure_delivery_targets (ev_event_id existing) targets now o1)
     | None \<Rightarrow>
         let tombstone_id = ''tombstone:'' @ uuid;
             payload = metadata_digest sha (kind @ '':'' @ aid @ '':deleted:'' @ tombstone_id)
         in res_bind (insert_tombstone (new_tombstone sha tombstone_id kind aid reason now) o1)
              (insert_event (''outbox:'' @ event_uuid) kind aid ''deleted'' payload
                (Some tombstone_id) now targets))"

text \<open>\<open>UNIQUE(aggregate_kind, aggregate_id, superseded_at)\<close> rejects a second restore at the same time.\<close>

definition supersede_tombstones :: "string \<Rightarrow> string \<Rightarrow> string \<Rightarrow> int \<Rightarrow> outbox \<Rightarrow> outbox_error + outbox" where
  "supersede_tombstones kind aid event_id now o1 =
     (if exists_where (active_tombstone kind aid) (ob_tombstones o1) \<and>
         exists_where (\<lambda>tb. tb_aggregate_kind tb = kind \<and> tb_aggregate_id tb = aid \<and>
           tb_superseded_at tb = Some now) (ob_tombstones o1)
      then Inl OutboxConstraint
      else Inr (o1\<lparr>ob_tombstones := update_where (active_tombstone kind aid)
             (\<lambda>tb. tb\<lparr>tb_superseded_at := Some now, tb_superseded_by_event_id := Some event_id\<rparr>)
             (ob_tombstones o1)\<rparr>))"

definition supersede_active_tombstone ::
  "string \<Rightarrow> string \<Rightarrow> string \<Rightarrow> string list \<Rightarrow> string \<Rightarrow> int \<Rightarrow> outbox \<Rightarrow>
   outbox_error + CanonicalMutationReceipt \<times> outbox"
where
  "supersede_active_tombstone kind aid payload targets uuid now o1 =
     res_bind (first_failure
       [validate_identifier ''aggregate_kind'' kind, validate_identifier ''aggregate_id'' aid]) (\<lambda>_.
     res_bind (enqueue_event kind aid ''restored'' payload targets uuid now o1) (\<lambda>(receipt, o2).
     res_bind (supersede_tombstones kind aid (ev_event_id receipt) now o2) (\<lambda>o3.
     Inr (receipt, o3))))"

section \<open>Replay\<close>

text \<open>A delivery that a consumer may still have to apply.\<close>

definition replayable :: "outbox \<Rightarrow> delivery_row \<Rightarrow> bool" where
  "replayable o1 d \<longleftrightarrow>
     \<not> settled d \<and>
     (case find_event o1 (dl_event_id d) of
        None \<Rightarrow> False
      | Some ev \<Rightarrow>
          \<not> exists_where (\<lambda>tb. ev_tombstone_id ev = Some (tb_tombstone_id tb) \<and>
            tb_superseded_by_event_id tb \<noteq> None) (ob_tombstones o1))"

definition to_u32_count :: "nat \<Rightarrow> outbox_error + 32 word" where
  "to_u32_count n = (if n < 2 ^ 32 then Inr (word_of_nat n) else Inl OutboxConversion)"

definition row_to_delivery :: "outbox \<Rightarrow> delivery_row \<Rightarrow> outbox_error + ProjectionDelivery" where
  "row_to_delivery o1 d =
     res_bind (ok_or (OutboxNoRows []) (find_event o1 (dl_event_id d))) (\<lambda>ev.
     res_bind (to_u32_count (dl_attempt_count d)) (\<lambda>n.
     Inr \<lparr>pd_event = ev, pd_projection_target = dl_projection_target d,
          pd_state = row_state_parse (dl_state d), pd_attempt_count = n,
          pd_last_error_digest = dl_last_error_digest d,
          pd_terminal_disposition = dl_terminal_disposition d,
          pd_superseded_by_event_id = dl_superseded_by_event_id d,
          pd_created_at = dl_created_at d, pd_updated_at = dl_updated_at d\<rparr>))"

definition rows_to_deliveries :: "outbox \<Rightarrow> delivery_row list \<Rightarrow> outbox_error + ProjectionDelivery list" where
  "rows_to_deliveries o1 ds =
     res_fold (\<lambda>acc d. res_bind (row_to_delivery o1 d) (\<lambda>x. Inr (acc @ [x]))) [] ds"

text \<open>Deletions and restores come first.\<close>

definition replay_priority :: "outbox \<Rightarrow> delivery_row \<Rightarrow> nat" where
  "replay_priority o1 d =
     (case find_event o1 (dl_event_id d) of
        None \<Rightarrow> 1
      | Some ev \<Rightarrow> if ev_tombstone_id ev \<noteq> None \<or> ev_mutation_kind ev = ''restored'' then 0 else 1)"

definition list_replayable_deliveries :: "nat \<Rightarrow> outbox \<Rightarrow> outbox_error + ProjectionDelivery list" where
  "list_replayable_deliveries limit o1 =
     rows_to_deliveries o1 (take (min 500 (max 1 limit))
       (sort_key (\<lambda>d. (replay_priority o1 d, dl_updated_at d, dl_event_id d, dl_projection_target d))
         (filter (replayable o1) (ob_deliveries o1))))"

definition list_replayable_deliveries_for_event ::
  "string \<Rightarrow> outbox \<Rightarrow> outbox_error + ProjectionDelivery list"
where
  "list_replayable_deliveries_for_event event_id o1 =
     res_bind (validate_identifier ''event_id'' event_id) (\<lambda>_.
     rows_to_deliveries o1
       (sort_key (\<lambda>d. (replay_priority o1 d, dl_projection_target d))
         (filter (\<lambda>d. dl_event_id d = event_id \<and> replayable o1 d) (ob_deliveries o1))))"

section \<open>What a consumer reports\<close>

definition open_delivery :: "string \<Rightarrow> string \<Rightarrow> delivery_row \<Rightarrow> bool" where
  "open_delivery event_id target d \<longleftrightarrow>
     dl_event_id d = event_id \<and> dl_projection_target d = target \<and> \<not> settled d"

definition set_applied :: "int \<Rightarrow> delivery_row \<Rightarrow> delivery_row" where
  "set_applied now d =
     d\<lparr>dl_state := RowApplied, dl_attempt_count := dl_attempt_count d + 1,
       dl_last_error_digest := None, dl_updated_at := now\<rparr>"

definition apply_open :: "string \<Rightarrow> string \<Rightarrow> int \<Rightarrow> outbox \<Rightarrow> nat \<times> outbox" where
  "apply_open event_id target now o1 =
     (count_where (open_delivery event_id target) (ob_deliveries o1),
      o1\<lparr>ob_deliveries := update_where (open_delivery event_id target) (set_applied now)
            (ob_deliveries o1)\<rparr>)"

definition delivery_missing :: "string \<Rightarrow> string \<Rightarrow> string \<Rightarrow> outbox_error" where
  "delivery_missing label event_id target = OutboxBail (label @ event_id @ '':'' @ target)"

definition mark_delivery_applied :: "string \<Rightarrow> string \<Rightarrow> int \<Rightarrow> outbox \<Rightarrow> outbox_error + unit \<times> outbox" where
  "mark_delivery_applied event_id target now o1 =
     res_bind (first_failure
       [validate_identifier ''event_id'' event_id,
        validate_identifier ''projection_target'' target]) (\<lambda>_.
     case apply_open event_id target now o1 of (changed, o2) \<Rightarrow>
     if changed = 0 \<and> map_option dl_state (find_delivery o2 event_id target) \<noteq> Some RowApplied
     then Inl (delivery_missing ''canonical outbox delivery missing: '' event_id target)
     else Inr ((), o2))"

text \<open>The check that an event is the head of its aggregate, shared with the compensation.\<close>

definition check_head ::
  "string \<Rightarrow> nat \<Rightarrow> CanonicalMutationReceipt \<Rightarrow> outbox \<Rightarrow> outbox_error + unit"
where
  "check_head event_id revision ev o1 =
     res_bind (ok_or (OutboxNoRows [])
       (head_event o1 (ev_aggregate_kind ev) (ev_aggregate_id ev))) (\<lambda>actual.
     if ev_event_id actual \<noteq> event_id \<or> ev_aggregate_revision actual \<noteq> revision
     then Inl (CanonicalProjectionHeadAdvanced event_id revision (ev_event_id actual)
                (ev_aggregate_revision actual))
     else Inr ())"

definition I64_LIMIT :: nat where
  "I64_LIMIT = 2 ^ 63"

definition mark_delivery_applied_if_canonical_head ::
  "string \<Rightarrow> nat \<Rightarrow> string \<Rightarrow> int \<Rightarrow> outbox \<Rightarrow> outbox_error + unit \<times> outbox"
where
  "mark_delivery_applied_if_canonical_head event_id revision target now o1 =
     res_bind (first_failure
       [validate_identifier ''event_id'' event_id,
        validate_identifier ''projection_target'' target,
        bail_if (revision = 0)
          (OutboxBail ''canonical delivery finalization requires a non-zero revision''),
        bail_if (I64_LIMIT \<le> revision) OutboxConversion]) (\<lambda>_.
     res_bind (ok_or (OutboxNoRows (''canonical outbox event missing: '' @ event_id))
       (find_event o1 event_id)) (\<lambda>ev.
     if ev_aggregate_revision ev \<noteq> revision
     then Inl (OutboxBail (''canonical delivery finalization revision mismatch: persisted='' @
            dec (ev_aggregate_revision ev) @ '', expected='' @ dec revision))
     else
       res_bind (check_head event_id revision ev o1) (\<lambda>_.
       case apply_open event_id target now o1 of (changed, o2) \<Rightarrow>
       if changed = 0 \<and>
          \<not> exists_where (\<lambda>d. dl_event_id d = event_id \<and> dl_projection_target d = target \<and>
              dl_state d = RowApplied \<and> dl_terminal_disposition d = None) (ob_deliveries o2)
       then Inl (delivery_missing ''canonical head delivery missing for finalization: ''
              event_id target)
       else Inr ((), o2))))"

definition set_degraded :: "string \<Rightarrow> int \<Rightarrow> delivery_row \<Rightarrow> delivery_row" where
  "set_degraded err now d =
     d\<lparr>dl_state := RowDegraded, dl_attempt_count := dl_attempt_count d + 1,
       dl_last_error_digest := Some err, dl_updated_at := now\<rparr>"

definition mark_delivery_degraded ::
  "(string \<Rightarrow> string) \<Rightarrow> string \<Rightarrow> string \<Rightarrow> string \<Rightarrow> int \<Rightarrow> outbox \<Rightarrow> outbox_error + unit \<times> outbox"
where
  "mark_delivery_degraded sha event_id target err now o1 =
     res_bind (first_failure
       [validate_identifier ''event_id'' event_id,
        validate_identifier ''projection_target'' target]) (\<lambda>_.
     let changed = count_where (open_delivery event_id target) (ob_deliveries o1);
         o2 = o1\<lparr>ob_deliveries := update_where (open_delivery event_id target)
                (set_degraded (metadata_digest sha err) now) (ob_deliveries o1)\<rparr>
     in if changed = 0 \<and> find_delivery o2 event_id target = None
        then Inl (delivery_missing ''canonical outbox delivery missing: '' event_id target)
        else Inr ((), o2))"

text \<open>The earlier disposition of a stale delivery must refer to this aggregate, not past the head.\<close>

definition check_prior_terminal ::
  "string \<Rightarrow> string \<Rightarrow> delivery_row \<Rightarrow> CanonicalMutationReceipt \<Rightarrow> outbox \<Rightarrow> outbox_error + unit"
where
  "check_prior_terminal stale target d head o1 =
     (if dl_terminal_disposition d = None then Inr ()
      else
        res_bind (ok_or (delivery_missing
            ''stale canonical outbox terminal delivery lacks superseding event: '' stale target)
          (dl_superseded_by_event_id d)) (\<lambda>prior_id.
        res_bind (ok_or (OutboxNoRows (''stale canonical outbox terminal reference missing: '' @ prior_id))
          (find_event o1 prior_id)) (\<lambda>prior.
        bail_if (\<not> in_aggregate (ev_aggregate_kind head) (ev_aggregate_id head) prior \<or>
                 ev_aggregate_revision head < ev_aggregate_revision prior)
          (OutboxBail (''stale canonical outbox terminal reference is ahead or cross-aggregate: '' @
             prior_id)))))"

definition set_compensated :: "string \<Rightarrow> int \<Rightarrow> delivery_row \<Rightarrow> delivery_row" where
  "set_compensated head_event_id now d =
     d\<lparr>dl_terminal_disposition := Some TerminalCompensated,
       dl_superseded_by_event_id := Some head_event_id,
       dl_attempt_count := dl_attempt_count d + 1, dl_last_error_digest := None,
       dl_updated_at := now\<rparr>"

definition check_compensation ::
  "string \<Rightarrow> string \<Rightarrow> nat \<Rightarrow> outbox \<Rightarrow> outbox_error + CanonicalMutationReceipt"
where
  "check_compensation stale head revision o1 =
     res_bind (ok_or (OutboxNoRows (''stale canonical outbox event missing: '' @ stale))
       (find_event o1 stale)) (\<lambda>sev.
     res_bind (ok_or (OutboxNoRows (''canonical compensation head missing: '' @ head))
       (find_event o1 head)) (\<lambda>hev.
     res_bind (first_failure
       [bail_if (\<not> in_aggregate (ev_aggregate_kind hev) (ev_aggregate_id hev) sev)
          (OutboxBail (''canonical compensation aggregate mismatch: '' @ stale @ '':'' @ head)),
        bail_if (ev_aggregate_revision hev \<noteq> revision \<or>
                 ev_aggregate_revision hev \<le> ev_aggregate_revision sev)
          (OutboxBail (''canonical compensation revision mismatch: stale='' @
             dec (ev_aggregate_revision sev) @ '', persisted_head='' @
             dec (ev_aggregate_revision hev) @ '', expected_head='' @ dec revision)),
        check_head head revision hev o1]) (\<lambda>_.
     Inr hev)))"

definition mark_delivery_compensated_to_head ::
  "string \<Rightarrow> string \<Rightarrow> nat \<Rightarrow> string \<Rightarrow> int \<Rightarrow> outbox \<Rightarrow> outbox_error + unit \<times> outbox"
where
  "mark_delivery_compensated_to_head stale head revision target now o1 =
     res_bind (first_failure
       [validate_identifier ''stale_event_id'' stale, validate_identifier ''head_event_id'' head,
        validate_identifier ''projection_target'' target,
        bail_if (stale = head)
          (OutboxBail ''compensation requires distinct stale and head events''),
        bail_if (revision = 0)
          (OutboxBail ''compensation requires a non-zero canonical head revision''),
        bail_if (I64_LIMIT \<le> revision) OutboxConversion]) (\<lambda>_.
     res_bind (check_compensation stale head revision o1) (\<lambda>hev.
     res_bind (ok_or (OutboxNoRows (''stale canonical outbox delivery missing for compensation: '' @
         stale @ '':'' @ target)) (find_delivery o1 stale target)) (\<lambda>sd.
     if dl_state sd = RowApplied
     then Inl (delivery_missing ''stale canonical outbox delivery is not compensatable: '' stale target)
     else
       res_bind (check_prior_terminal stale target sd hev o1) (\<lambda>_.
       res_bind (ok_or (OutboxNoRows (''canonical head delivery missing for compensation: '' @
           head @ '':'' @ target)) (find_delivery o1 head target)) (\<lambda>hd.
       if dl_terminal_disposition hd \<noteq> None
       then Inl (delivery_missing ''canonical head delivery is terminal before compensation: ''
              head target)
       else
         let stale_open = (\<lambda>d. dl_event_id d = stale \<and> dl_projection_target d = target \<and>
               dl_state d \<noteq> RowApplied);
             stale_changed = count_where stale_open (ob_deliveries o1);
             o2 = o1\<lparr>ob_deliveries := update_where stale_open (set_compensated head now)
                    (ob_deliveries o1)\<rparr>
         in if stale_changed = 0
            then Inl (delivery_missing ''stale canonical outbox delivery missing for compensation: ''
                   stale target)
            else
              case apply_open head target now o2 of (head_changed, o3) \<Rightarrow>
              if head_changed = 0 \<and> dl_state hd \<noteq> RowApplied
              then Inl (delivery_missing ''canonical head delivery missing for compensation: ''
                     head target)
              else Inr ((), o3))))))"

section \<open>Summaries\<close>

record ProjectionSummary =
  sum_event_id :: string
  sum_pending :: "32 word"
  sum_degraded :: "32 word"
  sum_applied :: "32 word"
  sum_superseded :: "32 word"
  sum_compensated :: "32 word"

definition count_event :: "outbox \<Rightarrow> string \<Rightarrow> (delivery_row \<Rightarrow> bool) \<Rightarrow> nat" where
  "count_event o1 event_id p =
     count_where (\<lambda>d. dl_event_id d = event_id \<and> p d) (ob_deliveries o1)"

definition projection_summary :: "string \<Rightarrow> outbox \<Rightarrow> outbox_error + ProjectionSummary" where
  "projection_summary event_id o1 =
     res_bind (to_u32_count (count_event o1 event_id
       (\<lambda>d. dl_state d = RowPending \<and> dl_terminal_disposition d = None))) (\<lambda>pending.
     res_bind (to_u32_count (count_event o1 event_id
       (\<lambda>d. dl_state d = RowDegraded \<and> dl_terminal_disposition d = None))) (\<lambda>degraded.
     res_bind (to_u32_count (count_event o1 event_id (\<lambda>d. dl_state d = RowApplied))) (\<lambda>applied.
     res_bind (to_u32_count (count_event o1 event_id
       (\<lambda>d. dl_terminal_disposition d = Some TerminalSuperseded))) (\<lambda>superseded.
     res_bind (to_u32_count (count_event o1 event_id
       (\<lambda>d. dl_terminal_disposition d = Some TerminalCompensated))) (\<lambda>compensated.
     Inr \<lparr>sum_event_id = event_id, sum_pending = pending, sum_degraded = degraded,
          sum_applied = applied, sum_superseded = superseded,
          sum_compensated = compensated\<rparr>)))))"

definition summary_state :: "ProjectionSummary \<Rightarrow> ProjectionDeliveryState" where
  "summary_state x =
     (if 0 < sum_degraded x then DeliveryDegraded
      else if 0 < sum_pending x then DeliveryPending
      else if 0 < sum_compensated x then DeliveryCompensated
      else if 0 < sum_superseded x then DeliverySuperseded
      else DeliveryApplied)"

end
