(* ===== verification/Outbox_Safety.thy ===== *)
theory Outbox_Safety
  imports Outbox
begin

text \<open>
  The outbox as a state machine: \<open>outbox_call\<close> has a constructor per operation that writes,
  \<open>outbox_inv\<close> is the invariant of every reachable outbox, \<open>current\<close> what holds in addition when
  writers respect the deletion fence, as the comment on \<open>has_active_tombstone\<close> asks.
\<close>

section \<open>Calls\<close>

datatype outbox_call =
  CallEnqueue string string string string "string list" string
| CallTombstone string string "string option" "string list" string string
| CallRestore string string string "string list" string
| CallApplied string string
| CallAppliedIfHead string nat string
| CallDegraded string string string
| CallCompensated string string nat string

definition after :: "'e + 'a \<times> 's \<Rightarrow> 'e + 's" where
  "after r = res_bind r (\<lambda>(_, s). Inr s)"

fun outbox_step :: "(string \<Rightarrow> string) \<Rightarrow> int \<times> outbox_call \<Rightarrow> outbox \<Rightarrow> outbox_error + outbox" where
  "outbox_step sha (now, CallEnqueue kind aid mutation payload targets uuid) o1 =
     after (enqueue_mutation kind aid mutation payload targets uuid now o1)"
| "outbox_step sha (now, CallTombstone kind aid reason targets uuid event_uuid) o1 =
     after (enqueue_tombstone sha kind aid reason targets uuid event_uuid now o1)"
| "outbox_step sha (now, CallRestore kind aid payload targets uuid) o1 =
     after (supersede_active_tombstone kind aid payload targets uuid now o1)"
| "outbox_step sha (now, CallApplied event_id target) o1 =
     after (mark_delivery_applied event_id target now o1)"
| "outbox_step sha (now, CallAppliedIfHead event_id revision target) o1 =
     after (mark_delivery_applied_if_canonical_head event_id revision target now o1)"
| "outbox_step sha (now, CallDegraded event_id target err) o1 =
     after (mark_delivery_degraded sha event_id target err now o1)"
| "outbox_step sha (now, CallCompensated stale head revision target) o1 =
     after (mark_delivery_compensated_to_head stale head revision target now o1)"

lemma after_ok [simp]: "after r = Inr s \<longleftrightarrow> (\<exists>x. r = Inr (x, s))"
  by (auto simp: after_def)

text \<open>A writer that reads the fence first.\<close>

fun fenced_step :: "(string \<Rightarrow> string) \<Rightarrow> int \<times> outbox_call \<Rightarrow> outbox \<Rightarrow> outbox_error + outbox" where
  "fenced_step sha (now, CallEnqueue kind aid mutation payload targets uuid) o1 =
     res_bind (has_active_tombstone kind aid o1) (\<lambda>fenced.
     if fenced then Inl (OutboxBail ''aggregate_deleted'')
     else outbox_step sha (now, CallEnqueue kind aid mutation payload targets uuid) o1)"
| "fenced_step sha c o1 = outbox_step sha c o1"

section \<open>The invariant\<close>

definition revisions :: "outbox \<Rightarrow> string \<Rightarrow> string \<Rightarrow> nat list" where
  "revisions o1 kind aid = map ev_aggregate_revision (filter (in_aggregate kind aid) (ob_events o1))"

text \<open>The revisions of an aggregate are 1, 2, ... in the order of the events.\<close>

definition events_ok :: "outbox \<Rightarrow> bool" where
  "events_ok o1 \<longleftrightarrow>
     distinct (map ev_event_id (ob_events o1)) \<and>
     (\<forall>kind aid. revisions o1 kind aid = [1 ..< Suc (length (revisions o1 kind aid))])"

definition delivery_key :: "delivery_row \<Rightarrow> string \<times> string" where
  "delivery_key d = (dl_event_id d, dl_projection_target d)"

definition same_aggregate :: "CanonicalMutationReceipt \<Rightarrow> CanonicalMutationReceipt \<Rightarrow> bool" where
  "same_aggregate x y \<longleftrightarrow>
     ev_aggregate_kind x = ev_aggregate_kind y \<and> ev_aggregate_id x = ev_aggregate_id y"

text \<open>
  A delivery belongs to an event; it is not both applied and disposed of; and it is disposed of
  in favour of a later event of the same aggregate.
\<close>

definition delivery_ok :: "outbox \<Rightarrow> delivery_row \<Rightarrow> bool" where
  "delivery_ok o1 d \<longleftrightarrow>
     (\<exists>ev. find_event o1 (dl_event_id d) = Some ev \<and>
        (dl_terminal_disposition d = None \<and> dl_superseded_by_event_id d = None \<or>
         dl_terminal_disposition d \<noteq> None \<and> dl_state d \<noteq> RowApplied \<and>
         (\<exists>by later. dl_superseded_by_event_id d = Some by \<and> find_event o1 by = Some later \<and>
            same_aggregate ev later \<and> ev_aggregate_revision ev < ev_aggregate_revision later)))"

definition deliveries_ok :: "outbox \<Rightarrow> bool" where
  "deliveries_ok o1 \<longleftrightarrow>
     distinct (map delivery_key (ob_deliveries o1)) \<and> (\<forall>d \<in> set (ob_deliveries o1). delivery_ok o1 d)"

definition tombstones_ok :: "outbox \<Rightarrow> bool" where
  "tombstones_ok o1 \<longleftrightarrow>
     distinct (map tb_tombstone_id (ob_tombstones o1)) \<and>
     (\<forall>kind aid. count_where (active_tombstone kind aid) (ob_tombstones o1) \<le> 1) \<and>
     (\<forall>ev \<in> set (ob_events o1). \<forall>t. ev_tombstone_id ev = Some t \<longrightarrow>
        (\<exists>tb \<in> set (ob_tombstones o1). tb_tombstone_id tb = t \<and>
           in_aggregate (tb_aggregate_kind tb) (tb_aggregate_id tb) ev)) \<and>
     (\<forall>tb \<in> set (ob_tombstones o1). \<exists>ev \<in> set (ob_events o1).
        ev_tombstone_id ev = Some (tb_tombstone_id tb) \<and>
        in_aggregate (tb_aggregate_kind tb) (tb_aggregate_id tb) ev) \<and>
     (\<forall>tb \<in> set (ob_tombstones o1).
        tb_superseded_at tb = None \<and> tb_superseded_by_event_id tb = None \<or>
        tb_superseded_at tb \<noteq> None \<and>
        (\<exists>ev \<in> set (ob_events o1). tb_superseded_by_event_id tb = Some (ev_event_id ev) \<and>
           in_aggregate (tb_aggregate_kind tb) (tb_aggregate_id tb) ev))"

definition outbox_inv :: "outbox \<Rightarrow> bool" where
  "outbox_inv o1 \<longleftrightarrow> events_ok o1 \<and> deliveries_ok o1 \<and> tombstones_ok o1"

text \<open>With the fence: open deliveries and active tombstones belong to the head of their aggregate.\<close>

definition is_head :: "outbox \<Rightarrow> CanonicalMutationReceipt \<Rightarrow> bool" where
  "is_head o1 ev \<longleftrightarrow>
     ev_aggregate_revision ev = head_revision o1 (ev_aggregate_kind ev) (ev_aggregate_id ev)"

definition open_current :: "outbox \<Rightarrow> bool" where
  "open_current o1 \<longleftrightarrow>
     (\<forall>d \<in> set (ob_deliveries o1). \<not> settled d \<longrightarrow>
        (\<forall>ev. find_event o1 (dl_event_id d) = Some ev \<longrightarrow> is_head o1 ev))"

definition fence_current :: "outbox \<Rightarrow> bool" where
  "fence_current o1 \<longleftrightarrow>
     (\<forall>tb \<in> set (ob_tombstones o1). tb_superseded_at tb = None \<longrightarrow>
        (\<forall>ev \<in> set (ob_events o1). ev_tombstone_id ev = Some (tb_tombstone_id tb) \<longrightarrow> is_head o1 ev))"

definition current :: "outbox \<Rightarrow> bool" where
  "current o1 \<longleftrightarrow> outbox_inv o1 \<and> open_current o1 \<and> fence_current o1"

lemma outbox_inv_empty: "outbox_inv empty_outbox"
  by (simp add: outbox_inv_def events_ok_def deliveries_ok_def tombstones_ok_def empty_outbox_def
      revisions_def count_where_def)

lemma current_empty: "current empty_outbox"
  by (simp add: current_def outbox_inv_empty)
    (simp add: open_current_def fence_current_def empty_outbox_def)

section \<open>Heads\<close>

lemma max_where_filter: "max_where p f rows = foldr max (map f (filter p rows)) 0"
  unfolding max_where_def by (induction rows) auto

lemma foldr_max_upt: "foldr max [1 ..< Suc n] (0 :: nat) = n"
proof -
  have "foldr max [1 ..< Suc n] (m :: nat) = max n m" for m
    by (induction n arbitrary: m) auto
  then show ?thesis by simp
qed

lemma head_revision_length:
  "events_ok o1 \<Longrightarrow> head_revision o1 kind aid = length (revisions o1 kind aid)"
  unfolding head_revision_def max_where_filter events_ok_def revisions_def [symmetric]
  by (metis foldr_max_upt)

lemma event_revision:
  assumes "events_ok o1" "ev \<in> set (ob_events o1)" "in_aggregate kind aid ev"
  shows "1 \<le> ev_aggregate_revision ev \<and> ev_aggregate_revision ev \<le> head_revision o1 kind aid"
proof -
  have "ev_aggregate_revision ev \<in> set (revisions o1 kind aid)"
    using assms by (auto simp: revisions_def)
  then have "ev_aggregate_revision ev \<in> set [1 ..< Suc (length (revisions o1 kind aid))]"
    using assms(1) unfolding events_ok_def by metis
  then show ?thesis by (auto simp: head_revision_length [OF assms(1)])
qed

lemma revision_unique:
  assumes "events_ok o1" "x \<in> set (ob_events o1)" "y \<in> set (ob_events o1)"
    and "same_aggregate x y" "ev_aggregate_revision x = ev_aggregate_revision y"
  shows "x = y"
proof -
  let ?p = "in_aggregate (ev_aggregate_kind x) (ev_aggregate_id x)"
  have "distinct (map ev_aggregate_revision (filter ?p (ob_events o1)))"
    using assms(1) unfolding events_ok_def revisions_def by (metis distinct_upt)
  moreover have "x \<in> set (filter ?p (ob_events o1))" "y \<in> set (filter ?p (ob_events o1))"
    using assms by (auto simp: in_aggregate_def same_aggregate_def)
  ultimately show ?thesis using assms(5) by (simp add: distinct_map inj_on_def)
qed

lemma find_event_mem: "find_event o1 x = Some ev \<Longrightarrow> ev \<in> set (ob_events o1) \<and> ev_event_id ev = x"
  unfolding find_event_def by (auto dest: find_Some_mem)

lemma mem_find_event:
  "events_ok o1 \<Longrightarrow> ev \<in> set (ob_events o1) \<Longrightarrow> find_event o1 (ev_event_id ev) = Some ev"
  unfolding find_event_def events_ok_def by (blast intro: find_key_distinct)

lemma head_event_is_head:
  assumes "head_event o1 kind aid = Some ev"
  shows "ev \<in> set (ob_events o1) \<and> in_aggregate kind aid ev \<and> is_head o1 ev"
  using assms unfolding head_event_def is_head_def in_aggregate_def
  by (auto dest: find_Some_mem)

section \<open>Updates of deliveries\<close>

lemma same_tables:
  assumes "ob_events o2 = ob_events o1"
  shows "events_ok o2 = events_ok o1" "find_event o2 = find_event o1"
    "head_revision o2 = head_revision o1" "is_head o2 = is_head o1" "delivery_ok o2 = delivery_ok o1"
    "ob_tombstones o2 = ob_tombstones o1 \<Longrightarrow> tombstones_ok o2 = tombstones_ok o1"
    "ob_tombstones o2 = ob_tombstones o1 \<Longrightarrow> fence_current o2 = fence_current o1"
proof -
  have 1: "find_event o2 = find_event o1" "head_revision o2 = head_revision o1"
    using assms by (auto simp: fun_eq_iff find_event_def head_revision_def)
  moreover have 2: "is_head o2 = is_head o1" using 1 by (auto simp: fun_eq_iff is_head_def)
  ultimately show "events_ok o2 = events_ok o1" "find_event o2 = find_event o1"
    "head_revision o2 = head_revision o1" "is_head o2 = is_head o1" "delivery_ok o2 = delivery_ok o1"
    using assms by (auto simp: fun_eq_iff events_ok_def revisions_def delivery_ok_def)
  assume "ob_tombstones o2 = ob_tombstones o1"
  with assms 2 show "tombstones_ok o2 = tombstones_ok o1" "fence_current o2 = fence_current o1"
    by (simp_all add: tombstones_ok_def fence_current_def)
qed

lemma deliveries_frame [simp]:
  "events_ok (o1\<lparr>ob_deliveries := ds\<rparr>) = events_ok o1"
  "find_event (o1\<lparr>ob_deliveries := ds\<rparr>) = find_event o1"
  "head_revision (o1\<lparr>ob_deliveries := ds\<rparr>) = head_revision o1"
  "is_head (o1\<lparr>ob_deliveries := ds\<rparr>) = is_head o1"
  "delivery_ok (o1\<lparr>ob_deliveries := ds\<rparr>) = delivery_ok o1"
  "tombstones_ok (o1\<lparr>ob_deliveries := ds\<rparr>) = tombstones_ok o1"
  "fence_current (o1\<lparr>ob_deliveries := ds\<rparr>) = fence_current o1"
  by (rule same_tables, simp, (simp; fail)?)+

lemma deliveries_update:
  assumes ok: "deliveries_ok o1"
    and key: "\<And>d. p d \<Longrightarrow> delivery_key (f d) = delivery_key d"
    and row: "\<And>d. d \<in> set (ob_deliveries o1) \<Longrightarrow> p d \<Longrightarrow> delivery_ok o1 d \<Longrightarrow> delivery_ok o1 (f d)"
  shows "deliveries_ok (o1\<lparr>ob_deliveries := update_where p f (ob_deliveries o1)\<rparr>)"
  using ok row map_update_where [of p delivery_key f "ob_deliveries o1", OF key]
  unfolding deliveries_ok_def by (auto simp: set_update_where)

lemma open_current_update:
  assumes "open_current o1" and "\<And>d. p d \<Longrightarrow> delivery_key (f d) = delivery_key d"
    and "\<And>d. p d \<Longrightarrow> \<not> settled (f d) \<Longrightarrow> \<not> settled d"
  shows "open_current (o1\<lparr>ob_deliveries := update_where p f (ob_deliveries o1)\<rparr>)"
proof -
  have "dl_event_id (f d) = dl_event_id d" if "p d" for d
    using assms(2) [OF that] by (simp add: delivery_key_def)
  then show ?thesis
    using assms(1,3) unfolding open_current_def
    by (auto simp: set_update_where)
qed

text \<open>Marking keeps the events and the tombstones.\<close>

definition marks :: "outbox \<Rightarrow> outbox \<Rightarrow> bool" where
  "marks o1 o2 \<longleftrightarrow>
     (outbox_inv o1 \<longrightarrow> outbox_inv o2) \<and> (current o1 \<longrightarrow> current o2)"

lemma marks_trans: "marks o1 o2 \<Longrightarrow> marks o2 o3 \<Longrightarrow> marks o1 o3"
  by (simp add: marks_def)

lemma marks_update:
  assumes "\<And>d. p d \<Longrightarrow> delivery_key (f d) = delivery_key d"
    and "\<And>d. p d \<Longrightarrow> \<not> settled (f d) \<Longrightarrow> \<not> settled d"
    and "\<And>d. d \<in> set (ob_deliveries o1) \<Longrightarrow> p d \<Longrightarrow> delivery_ok o1 d \<Longrightarrow> delivery_ok o1 (f d)"
  shows "marks o1 (o1\<lparr>ob_deliveries := update_where p f (ob_deliveries o1)\<rparr>)"
  using deliveries_update [OF _ assms(1,3)] open_current_update [OF _ assms(1,2)]
  unfolding marks_def current_def outbox_inv_def
  by simp

lemma delivery_ok_keep:
  assumes "delivery_ok o1 d" "dl_event_id d' = dl_event_id d" "dl_terminal_disposition d = None"
    and "dl_terminal_disposition d' = None" "dl_superseded_by_event_id d' = dl_superseded_by_event_id d"
  shows "delivery_ok o1 d'"
  using assms by (auto simp: delivery_ok_def)

lemma marks_apply_open: "marks o1 (snd (apply_open event_id target now o1))"
  unfolding apply_open_def snd_conv
  by (rule marks_update)
    (auto simp: delivery_key_def set_applied_def settled_def open_delivery_def intro: delivery_ok_keep)

lemma marks_degrade:
  "marks o1 (o1\<lparr>ob_deliveries := update_where (open_delivery event_id target) (set_degraded err now)
     (ob_deliveries o1)\<rparr>)"
  by (rule marks_update)
    (auto simp: delivery_key_def set_degraded_def settled_def open_delivery_def intro: delivery_ok_keep)

lemma check_compensationE:
  assumes "check_compensation stale head revision o1 = Inr hev"
  obtains sev where "find_event o1 stale = Some sev" "find_event o1 head = Some hev"
    "same_aggregate sev hev" "ev_aggregate_revision sev < ev_aggregate_revision hev"
  using assms unfolding check_compensation_def
  by (auto simp: in_aggregate_def same_aggregate_def not_le)

lemma marks_compensate:
  assumes "check_compensation stale head revision o1 = Inr hev"
  shows "marks o1 (o1\<lparr>ob_deliveries := update_where
    (\<lambda>d. dl_event_id d = stale \<and> dl_projection_target d = target \<and> dl_state d \<noteq> RowApplied)
    (set_compensated head now) (ob_deliveries o1)\<rparr>)"
proof (rule marks_update)
  fix d :: delivery_row
  assume "dl_event_id d = stale \<and> dl_projection_target d = target \<and> dl_state d \<noteq> RowApplied"
  moreover from assms obtain sev where "find_event o1 stale = Some sev" "find_event o1 head = Some hev"
    "same_aggregate sev hev" "ev_aggregate_revision sev < ev_aggregate_revision hev"
    by (rule check_compensationE)
  ultimately show "delivery_ok o1 (set_compensated head now d)"
    by (auto simp: delivery_ok_def set_compensated_def)
qed (auto simp: delivery_key_def set_compensated_def settled_def)

lemma mark_delivery_applied_marks:
  "mark_delivery_applied event_id target now o1 = Inr ((), o2) \<Longrightarrow> marks o1 o2"
  using marks_apply_open [of o1 event_id target now]
  by (auto simp: mark_delivery_applied_def split: prod.splits if_splits)

lemma mark_head_applied_marks:
  "mark_delivery_applied_if_canonical_head event_id revision target now o1 = Inr ((), o2) \<Longrightarrow> marks o1 o2"
  using marks_apply_open [of o1 event_id target now]
  by (auto simp: mark_delivery_applied_if_canonical_head_def split: prod.splits if_splits)

lemma mark_degraded_marks:
  "mark_delivery_degraded sha event_id target err now o1 = Inr ((), o2) \<Longrightarrow> marks o1 o2"
  using marks_degrade [of o1 event_id target _ now]
  by (auto simp: mark_delivery_degraded_def Let_def split: if_splits)

lemma mark_compensated_marks:
  assumes "mark_delivery_compensated_to_head stale head revision target now o1 = Inr ((), o2)"
  shows "marks o1 o2"
proof -
  from assms obtain hev where "check_compensation stale head revision o1 = Inr hev"
    and "o2 = snd (apply_open head target now (o1\<lparr>ob_deliveries := update_where
      (\<lambda>d. dl_event_id d = stale \<and> dl_projection_target d = target \<and> dl_state d \<noteq> RowApplied)
      (set_compensated head now) (ob_deliveries o1)\<rparr>))"
    unfolding mark_delivery_compensated_to_head_def Let_def
    by (auto simp: case_prod_beta split: if_splits)
  then show ?thesis using marks_trans [OF marks_compensate marks_apply_open] by blast
qed

section \<open>New events\<close>

lemma ensure_tables:
  "\<exists>new. distinct new \<and> (\<forall>t \<in> set new. find_delivery o1 event_id t = None) \<and>
     ensure_delivery_targets event_id targets now o1 =
       o1\<lparr>ob_deliveries := ob_deliveries o1 @ map (\<lambda>t. new_delivery event_id t now) new\<rparr>"
proof (induction targets arbitrary: o1)
  case Nil
  show ?case by (rule exI [of _ "[]"]) (simp add: ensure_delivery_targets_def)
next
  case (Cons t targets)
  show ?case
  proof (cases "find_delivery o1 event_id t = None")
    case False
    then have "ensure_delivery_targets event_id (t # targets) now o1 =
        ensure_delivery_targets event_id targets now o1"
      by (simp add: ensure_delivery_targets_def)
    then show ?thesis using Cons.IH [of o1] by simp
  next
    case True
    let ?o = "o1\<lparr>ob_deliveries := ob_deliveries o1 @ [new_delivery event_id t now]\<rparr>"
    have step: "ensure_delivery_targets event_id (t # targets) now o1 =
        ensure_delivery_targets event_id targets now ?o"
      using True by (simp add: ensure_delivery_targets_def)
    obtain new where new: "distinct new" "\<forall>t' \<in> set new. find_delivery ?o event_id t' = None"
      "ensure_delivery_targets event_id targets now ?o =
         ?o\<lparr>ob_deliveries := ob_deliveries ?o @ map (\<lambda>t. new_delivery event_id t now) new\<rparr>"
      using Cons.IH [of ?o] by blast
    have "t \<noteq> t' \<and> find_delivery o1 event_id t' = None" if "t' \<in> set new" for t'
      using new(2) that by (fastforce simp: find_delivery_def find_append new_delivery_def
          split: option.splits if_splits)
    with new True step show ?thesis by (intro exI [of _ "t # new"]) auto
  qed
qed

lemma ensure_deliveries_ok:
  assumes ok: "deliveries_ok o1" and ev: "find_event o1 event_id = Some ev"
  shows "deliveries_ok (ensure_delivery_targets event_id targets now o1)"
proof -
  obtain new where new: "distinct new" "\<forall>t \<in> set new. find_delivery o1 event_id t = None"
    and eq: "ensure_delivery_targets event_id targets now o1 =
      o1\<lparr>ob_deliveries := ob_deliveries o1 @ map (\<lambda>t. new_delivery event_id t now) new\<rparr>"
    using ensure_tables [of o1 event_id targets now] by blast
  have "delivery_key d \<noteq> (event_id, t)" if "d \<in> set (ob_deliveries o1)" "t \<in> set new" for d t
    using new(2) that by (auto simp: find_delivery_def find_None_iff delivery_key_def)
  moreover have "map (delivery_key \<circ> (\<lambda>t. new_delivery event_id t now)) new = map (Pair event_id) new"
    by (simp add: delivery_key_def new_delivery_def comp_def)
  moreover have "delivery_ok o1 (new_delivery event_id t now)" for t
    using ev by (simp add: delivery_ok_def new_delivery_def)
  ultimately show ?thesis
    using ok new(1) unfolding eq deliveries_ok_def
    by (auto simp: distinct_map inj_on_def image_iff) (metis)+
qed

lemma ensure_open_current:
  assumes "open_current o1" "find_event o1 event_id = Some ev" "is_head o1 ev"
  shows "open_current (ensure_delivery_targets event_id targets now o1)"
proof -
  obtain new where eq: "ensure_delivery_targets event_id targets now o1 =
      o1\<lparr>ob_deliveries := ob_deliveries o1 @ map (\<lambda>t. new_delivery event_id t now) new\<rparr>"
    using ensure_tables [of o1 event_id targets now] by blast
  show ?thesis using assms unfolding eq open_current_def by (auto simp: new_delivery_def)
qed

lemma ensure_frame:
  "ob_events (ensure_delivery_targets event_id targets now o1) = ob_events o1"
  "ob_tombstones (ensure_delivery_targets event_id targets now o1) = ob_tombstones o1"
  using ensure_tables [of o1 event_id targets now] by auto

text \<open>The next event of an aggregate, before the deliveries.\<close>

definition add_event :: "CanonicalMutationReceipt \<Rightarrow> outbox \<Rightarrow> outbox" where
  "add_event r o1 = o1\<lparr>ob_events := ob_events o1 @ [r]\<rparr>"

definition next_event :: "outbox \<Rightarrow> CanonicalMutationReceipt \<Rightarrow> bool" where
  "next_event o1 r \<longleftrightarrow>
     find_event o1 (ev_event_id r) = None \<and>
     ev_aggregate_revision r = head_revision o1 (ev_aggregate_kind r) (ev_aggregate_id r) + 1"

lemma revisions_add:
  "revisions (add_event r o1) kind aid =
     revisions o1 kind aid @ (if in_aggregate kind aid r then [ev_aggregate_revision r] else [])"
  by (simp add: revisions_def add_event_def)

lemma add_event_ok:
  assumes ok: "events_ok o1" and r: "next_event o1 r"
  shows "events_ok (add_event r o1)"
proof -
  have "ev_event_id r \<notin> set (map ev_event_id (ob_events o1))"
    using r by (auto simp: next_event_def find_event_def find_None_iff)
  then have "distinct (map ev_event_id (ob_events (add_event r o1)))"
    using ok by (simp add: events_ok_def add_event_def)
  moreover have "revisions (add_event r o1) kind aid =
      [1 ..< Suc (length (revisions (add_event r o1) kind aid))]" for kind aid
  proof (cases "in_aggregate kind aid r")
    case True
    define n where "n = length (revisions o1 kind aid)"
    have rev: "ev_aggregate_revision r = Suc n"
      using True r head_revision_length [OF ok] by (auto simp: next_event_def in_aggregate_def n_def)
    have old: "revisions o1 kind aid = [1 ..< Suc n]" using ok unfolding events_ok_def n_def by blast
    have "revisions (add_event r o1) kind aid = [1 ..< Suc n] @ [Suc n]"
      by (simp only: revisions_add True if_True rev old)
    also have "\<dots> = [1 ..< Suc (Suc n)]" by simp
    finally have new: "revisions (add_event r o1) kind aid = [1 ..< Suc (Suc n)]" .
    then have "length (revisions (add_event r o1) kind aid) = Suc n" by simp
    with new show ?thesis by simp
  next
    case False
    then show ?thesis using ok unfolding revisions_add events_ok_def by simp
  qed
  ultimately show ?thesis unfolding events_ok_def by blast
qed

lemma find_event_add:
  "find_event (add_event r o1) x =
     (case find_event o1 x of Some ev \<Rightarrow> Some ev | None \<Rightarrow> if ev_event_id r = x then Some r else None)"
  by (auto simp: find_event_def add_event_def find_append split: option.split)

lemma head_revision_add:
  assumes "events_ok o1" "next_event o1 r"
  shows "head_revision (add_event r o1) kind aid =
    (if in_aggregate kind aid r then ev_aggregate_revision r else head_revision o1 kind aid)"
  using head_revision_length [OF add_event_ok [OF assms]] head_revision_length [OF assms(1)] assms(2)
  by (auto simp: revisions_add next_event_def in_aggregate_def)

lemma delivery_ok_add: "delivery_ok o1 d \<Longrightarrow> delivery_ok (add_event r o1) d"
  unfolding delivery_ok_def by (fastforce simp: find_event_add split: option.splits)

text \<open>All that inserting an event does.\<close>

lemma insert_eventE:
  assumes "insert_event event_id kind aid mutation payload tid now targets o1 = Inr (r, o2)"
  obtains "next_event o1 r" "in_aggregate kind aid r" "ev_event_id r = event_id" "ev_tombstone_id r = tid"
    "o2 = ensure_delivery_targets event_id targets now
       (supersede_deliveries kind aid event_id (ev_aggregate_revision r) now (add_event r o1))"
  using assms unfolding insert_event_def Let_def
  by (auto simp: next_event_def in_aggregate_def add_event_def split: if_splits)

lemma insert_event_ok:
  assumes ok: "events_ok o1" "deliveries_ok o1"
    and ins: "insert_event event_id kind aid mutation payload tid now targets o1 = Inr (r, o2)"
  shows "events_ok o2 \<and> deliveries_ok o2 \<and> ob_tombstones o2 = ob_tombstones o1 \<and>
    ob_events o2 = ob_events (add_event r o1) \<and> (open_current o1 \<longrightarrow> open_current o2)"
  using ins
proof (rule insert_eventE)
  let ?a = "add_event r o1" and ?rev = "ev_aggregate_revision r"
  let ?p = "\<lambda>d. \<not> settled d \<and> exists_where (\<lambda>ev. ev_event_id ev = dl_event_id d \<and>
      in_aggregate kind aid ev \<and> ev_aggregate_revision ev < ?rev) (ob_events ?a)"
  let ?f = "\<lambda>d. d\<lparr>dl_terminal_disposition := Some TerminalSuperseded,
      dl_superseded_by_event_id := Some event_id, dl_updated_at := now\<rparr>"
  let ?s = "supersede_deliveries kind aid event_id ?rev now ?a"
  assume r: "next_event o1 r" "in_aggregate kind aid r" "ev_event_id r = event_id"
    "ev_tombstone_id r = tid" and o2: "o2 = ensure_delivery_targets event_id targets now ?s"
  have ev_a: "events_ok ?a" by (rule add_event_ok [OF ok(1) r(1)])
  have find_r: "find_event ?a event_id = Some r"
    using r(1,3) by (simp add: find_event_add next_event_def)
  have del_a: "deliveries_ok ?a"
    using ok(2) delivery_ok_add by (auto simp: deliveries_ok_def) (simp_all add: add_event_def)
  have s: "?s = ?a\<lparr>ob_deliveries := update_where ?p ?f (ob_deliveries ?a)\<rparr>"
    by (simp add: supersede_deliveries_def)
  have row: "delivery_ok ?a (?f d)" if d: "?p d" "delivery_ok ?a d" for d :: delivery_row
  proof -
    from d(1) obtain ev where ev: "ev \<in> set (ob_events ?a)" "ev_event_id ev = dl_event_id d"
      "in_aggregate kind aid ev" "ev_aggregate_revision ev < ?rev" "\<not> settled d" by auto
    then have "find_event ?a (dl_event_id d) = Some ev" using mem_find_event [OF ev_a, of ev] by simp
    moreover have "same_aggregate ev r" using ev(3) r(2) by (simp add: same_aggregate_def in_aggregate_def)
    ultimately show ?thesis using ev find_r by (auto simp: delivery_ok_def settled_def)
  qed
  have del_s: "deliveries_ok ?s" unfolding s
    by (rule deliveries_update [OF del_a]) (simp add: delivery_key_def, rule row)
  have ev_s: "events_ok ?s" "find_event ?s event_id = Some r" using ev_a find_r by (simp_all add: s)
  have "events_ok o2" unfolding o2 using ev_s(1) same_tables(1) [OF ensure_frame(1)] by blast
  moreover have "deliveries_ok o2" unfolding o2 by (rule ensure_deliveries_ok [OF del_s ev_s(2)])
  moreover have "ob_tombstones o2 = ob_tombstones o1" "ob_events o2 = ob_events ?a"
    unfolding o2 ensure_frame by (simp_all add: supersede_deliveries_def add_event_def)
  moreover have "open_current o2" if cur: "open_current o1"
    unfolding o2
  proof (rule ensure_open_current [OF _ ev_s(2)])
    show "is_head ?s r"
      using head_revision_add [OF ok(1) r(1)] by (auto simp: s is_head_def in_aggregate_def)
    have "is_head ?a ev" if d: "d \<in> set (ob_deliveries o1)" "\<not> ?p d" "\<not> settled d"
        "find_event ?a (dl_event_id d) = Some ev" for d ev
    proof (cases "in_aggregate kind aid ev")
      case True
      have ev: "ev \<in> set (ob_events ?a)" "ev_event_id ev = dl_event_id d"
        using find_event_mem [OF d(4)] by simp_all
      with d(2,3) True have "?rev \<le> ev_aggregate_revision ev" by (auto simp: not_less)
      moreover have "ev_aggregate_revision ev \<le> head_revision ?a kind aid"
        using event_revision [OF ev_a ev(1) True] by simp
      moreover have "head_revision ?a kind aid = ?rev" using head_revision_add [OF ok(1) r(1)] r(2) by simp
      ultimately show ?thesis using True by (auto simp: is_head_def in_aggregate_def)
    next
      case False
      with d(4) r(2) have "find_event o1 (dl_event_id d) = Some ev"
        by (auto simp: find_event_add split: option.splits if_splits)
      with cur d(1,3) have "is_head o1 ev" by (auto simp: open_current_def)
      with False r(2) show ?thesis
        using head_revision_add [OF ok(1) r(1)] by (auto simp: is_head_def in_aggregate_def)
    qed
    then show "open_current ?s"
      unfolding s open_current_def
      by (auto simp: set_update_where add_event_def [of r o1, THEN arg_cong, of ob_deliveries, simplified]
          settled_def split: if_splits)
  qed
  ultimately show ?thesis by blast
qed

section \<open>Tombstones\<close>

lemma tombstones_okD:
  assumes "tombstones_ok o1"
  shows "distinct (map tb_tombstone_id (ob_tombstones o1))"
    "count_where (active_tombstone kind aid) (ob_tombstones o1) \<le> 1"
    "ev \<in> set (ob_events o1) \<Longrightarrow> ev_tombstone_id ev = Some t \<Longrightarrow>
       \<exists>tb \<in> set (ob_tombstones o1). tb_tombstone_id tb = t \<and>
         in_aggregate (tb_aggregate_kind tb) (tb_aggregate_id tb) ev"
    "tb \<in> set (ob_tombstones o1) \<Longrightarrow> \<exists>ev \<in> set (ob_events o1).
       ev_tombstone_id ev = Some (tb_tombstone_id tb) \<and>
       in_aggregate (tb_aggregate_kind tb) (tb_aggregate_id tb) ev"
  using assms unfolding tombstones_ok_def by blast+

lemma tombstone_event_aggregate:
  assumes ok: "tombstones_ok o1" and tb: "tb \<in> set (ob_tombstones o1)"
    and ev: "ev \<in> set (ob_events o1)" "ev_tombstone_id ev = Some (tb_tombstone_id tb)"
  shows "in_aggregate (tb_aggregate_kind tb) (tb_aggregate_id tb) ev"
proof -
  obtain tb' where "tb' \<in> set (ob_tombstones o1)" "tb_tombstone_id tb' = tb_tombstone_id tb"
    "in_aggregate (tb_aggregate_kind tb') (tb_aggregate_id tb') ev"
    using tombstones_okD(3) [OF ok ev] by blast
  moreover from this tb have "tb' = tb"
    using tombstones_okD(1) [OF ok] by (auto simp: distinct_map inj_on_def)
  ultimately show ?thesis by simp
qed

lemma tombstones_ok_add:
  assumes ok: "tombstones_ok o1" and tid: "ev_tombstone_id r = None"
    and tables: "ob_tombstones o2 = ob_tombstones o1" "ob_events o2 = ob_events (add_event r o1)"
  shows "tombstones_ok o2"
proof -
  have sub: "set (ob_events o1) \<subseteq> set (ob_events o2)" by (auto simp: tables add_event_def)
  moreover have "\<forall>ev \<in> set (ob_events o2). \<forall>t. ev_tombstone_id ev = Some t \<longrightarrow> ev \<in> set (ob_events o1)"
    using tid by (auto simp: tables add_event_def)
  ultimately show ?thesis using ok unfolding tombstones_ok_def tables(1) by (meson subsetD)
qed

lemma is_head_other:
  assumes "events_ok o1" "next_event o1 r" "in_aggregate kind aid r" "\<not> in_aggregate kind aid ev"
    and "is_head o1 ev"
  shows "is_head (add_event r o1) ev"
  using assms head_revision_add [OF assms(1,2)] by (auto simp: is_head_def in_aggregate_def)

lemma fence_current_add:
  assumes ok: "events_ok o1" "tombstones_ok o1" and cur: "fence_current o1"
    and r: "next_event o1 r" "in_aggregate kind aid r" "ev_tombstone_id r = None"
    and ev: "ev \<in> set (ob_events (add_event r o1))" "ev_tombstone_id ev = Some (tb_tombstone_id tb)"
    and tb: "tb \<in> set (ob_tombstones o1)" "tb_superseded_at tb = None"
      "\<not> active_tombstone kind aid tb"
  shows "is_head (add_event r o1) ev"
proof -
  have mem: "ev \<in> set (ob_events o1)" using ev r(3) by (auto simp: add_event_def)
  have "in_aggregate (tb_aggregate_kind tb) (tb_aggregate_id tb) ev"
    by (rule tombstone_event_aggregate [OF ok(2) tb(1) mem ev(2)])
  with tb have other: "\<not> in_aggregate kind aid ev"
    by (auto simp: active_tombstone_def in_aggregate_def)
  have "is_head o1 ev" using cur tb mem ev(2) unfolding fence_current_def by blast
  with other show ?thesis using is_head_other [OF ok(1) r(1,2)] by blast
qed

lemma active_tombstone_event_None:
  assumes "tombstones_ok o1" "active_tombstone_event o1 kind aid = None"
  shows "\<not> exists_where (active_tombstone kind aid) (ob_tombstones o1)"
proof
  define evs where "evs = filter (\<lambda>ev. exists_where (\<lambda>tb. active_tombstone kind aid tb \<and>
      ev_tombstone_id ev = Some (tb_tombstone_id tb)) (ob_tombstones o1)) (ob_events o1)"
  assume "exists_where (active_tombstone kind aid) (ob_tombstones o1)"
  then obtain tb where tb: "tb \<in> set (ob_tombstones o1)" "active_tombstone kind aid tb" by auto
  from tombstones_okD(4) [OF assms(1) tb(1)] obtain ev where
    "ev \<in> set (ob_events o1)" "ev_tombstone_id ev = Some (tb_tombstone_id tb)" by blast
  with tb have "ev \<in> set evs" by (auto simp: evs_def)
  moreover have "set (sort_key ev_created_at evs) = set evs" by simp
  moreover have "sort_key ev_created_at evs = []"
    using assms(2) unfolding active_tombstone_event_def evs_def [symmetric]
    by (cases "sort_key ev_created_at evs") simp_all
  ultimately show False by simp
qed

lemma active_tombstone_event_Some:
  assumes "active_tombstone_event o1 kind aid = Some ev"
  obtains tb where "ev \<in> set (ob_events o1)" "tb \<in> set (ob_tombstones o1)"
    "active_tombstone kind aid tb" "ev_tombstone_id ev = Some (tb_tombstone_id tb)"
proof -
  define evs where "evs = filter (\<lambda>ev. exists_where (\<lambda>tb. active_tombstone kind aid tb \<and>
      ev_tombstone_id ev = Some (tb_tombstone_id tb)) (ob_tombstones o1)) (ob_events o1)"
  have "\<exists>rest. sort_key ev_created_at evs = ev # rest"
    using assms unfolding active_tombstone_event_def evs_def [symmetric]
    by (cases "sort_key ev_created_at evs") simp_all
  then have "ev \<in> set (sort_key ev_created_at evs)" by (elim exE) (simp only: list.set_intros)
  then have "ev \<in> set evs" by simp
  with that show thesis by (auto simp: evs_def)
qed

section \<open>Every call\<close>

text \<open>What the three enqueuing operations promise.\<close>

lemma enqueue_event_ok:
  assumes "outbox_inv o1" "enqueue_event kind aid mutation payload targets uuid now o1 = Inr (r, o2)"
  shows "outbox_inv o2 \<and> next_event o1 r \<and> in_aggregate kind aid r \<and> ev_tombstone_id r = None \<and>
    ob_tombstones o2 = ob_tombstones o1 \<and> ob_events o2 = ob_events (add_event r o1) \<and>
    (open_current o1 \<longrightarrow> open_current o2)"
proof -
  have ok: "events_ok o1" "deliveries_ok o1" "tombstones_ok o1" using assms(1) by (simp_all add: outbox_inv_def)
  from assms(2) have ins: "insert_event (''outbox:'' @ uuid) kind aid mutation payload None now targets o1 =
      Inr (r, o2)"
    by (auto simp: enqueue_event_def)
  from insert_event_ok [OF ok(1,2) ins] have tables: "events_ok o2" "deliveries_ok o2"
    "ob_tombstones o2 = ob_tombstones o1" "ob_events o2 = ob_events (add_event r o1)"
    "open_current o1 \<longrightarrow> open_current o2" by blast+
  from ins have r: "next_event o1 r" "in_aggregate kind aid r" "ev_tombstone_id r = None"
    by (auto elim: insert_eventE)
  have "tombstones_ok o2" by (rule tombstones_ok_add [OF ok(3) r(3) tables(3,4)])
  with tables r show ?thesis by (simp add: outbox_inv_def)
qed

lemma enqueue_mutation_current:
  assumes cur: "current o1" and free: "\<not> exists_where (active_tombstone kind aid) (ob_tombstones o1)"
    and call: "enqueue_mutation kind aid mutation payload targets uuid now o1 = Inr (r, o2)"
  shows "current o2"
proof -
  have inv: "outbox_inv o1" "open_current o1" "fence_current o1" using cur by (simp_all add: current_def)
  from enqueue_event_ok [OF inv(1) call [unfolded enqueue_mutation_def]]
  have r: "outbox_inv o2" "next_event o1 r" "in_aggregate kind aid r" "ev_tombstone_id r = None"
    "ob_tombstones o2 = ob_tombstones o1" "ob_events o2 = ob_events (add_event r o1)" "open_current o2"
    using inv(2) by blast+
  have head: "is_head o2 = is_head (add_event r o1)" using r(6) by (rule same_tables(4))
  have "is_head (add_event r o1) ev" if "tb \<in> set (ob_tombstones o1)" "tb_superseded_at tb = None"
      "ev \<in> set (ob_events (add_event r o1))" "ev_tombstone_id ev = Some (tb_tombstone_id tb)" for tb ev
    using fence_current_add [OF _ _ inv(3) r(2-4) that(3,4,1,2)] inv(1) free that(1)
    by (auto simp: outbox_inv_def)
  then have "fence_current o2" unfolding fence_current_def head r(5,6) by blast
  with r show ?thesis by (simp add: current_def)
qed

lemma enqueue_tombstone_ok:
  assumes inv: "outbox_inv o1"
    and call: "enqueue_tombstone sha kind aid reason targets uuid event_uuid now o1 = Inr (r, o2)"
  shows "outbox_inv o2 \<and> (current o1 \<longrightarrow> current o2)"
proof (cases "active_tombstone_event o1 kind aid")
  case (Some existing)
  with call have o2: "o2 = ensure_delivery_targets (ev_event_id existing) targets now o1"
    by (auto simp: enqueue_tombstone_def)
  from Some obtain tb where ev: "existing \<in> set (ob_events o1)" and tb: "tb \<in> set (ob_tombstones o1)"
    "active_tombstone kind aid tb" "ev_tombstone_id existing = Some (tb_tombstone_id tb)"
    by (rule active_tombstone_event_Some)
  have find: "find_event o1 (ev_event_id existing) = Some existing"
    using inv ev by (intro mem_find_event) (simp_all add: outbox_inv_def)
  have "deliveries_ok o2" unfolding o2
    using inv by (intro ensure_deliveries_ok [OF _ find]) (simp add: outbox_inv_def)
  then have "outbox_inv o2"
    using inv same_tables(1,6) [OF ensure_frame(1)] ensure_frame(2)
    unfolding outbox_inv_def o2 by blast
  moreover have "current o2" if cur: "current o1"
  proof -
    have "is_head o1 existing"
      using cur ev tb unfolding current_def fence_current_def active_tombstone_def by blast
    then have "open_current o2" unfolding o2
      using cur by (intro ensure_open_current [OF _ find]) (simp_all add: current_def)
    moreover have "fence_current o2"
      using cur same_tables(7) [OF ensure_frame(1)] ensure_frame(2) unfolding current_def o2 by blast
    ultimately show ?thesis using \<open>outbox_inv o2\<close> by (simp add: current_def)
  qed
  ultimately show ?thesis by blast
next
  case None
  let ?tid = "''tombstone:'' @ uuid"
  define tb where "tb = new_tombstone sha ?tid kind aid reason now"
  define o1' where "o1' = o1\<lparr>ob_tombstones := ob_tombstones o1 @ [tb]\<rparr>"
  have ok: "events_ok o1" "deliveries_ok o1" "tombstones_ok o1" using inv by (simp_all add: outbox_inv_def)
  have free: "\<not> exists_where (active_tombstone kind aid) (ob_tombstones o1)"
    by (rule active_tombstone_event_None [OF ok(3) None])
  have tb_fields: "tb_tombstone_id tb = ?tid" "tb_aggregate_kind tb = kind" "tb_aggregate_id tb = aid"
    "tb_superseded_at tb = None" "tb_superseded_by_event_id tb = None"
    by (simp_all add: tb_def new_tombstone_def)
  from call None obtain payload where fresh: "\<forall>x \<in> set (ob_tombstones o1). tb_tombstone_id x \<noteq> ?tid"
    and ins: "insert_event (''outbox:'' @ event_uuid) kind aid ''deleted'' payload (Some ?tid) now targets o1' =
      Inr (r, o2)"
    by (auto simp: enqueue_tombstone_def Let_def insert_tombstone_def tb_def o1'_def new_tombstone_def)
  have same: "ob_events o1' = ob_events o1" "ob_deliveries o1' = ob_deliveries o1" by (simp_all add: o1'_def)
  have ok': "events_ok o1'" "deliveries_ok o1'"
    using ok same_tables(1,5) [OF same(1)] by (simp_all add: deliveries_ok_def same(2))
  from insert_event_ok [OF ok' ins] have t: "events_ok o2" "deliveries_ok o2"
    "ob_tombstones o2 = ob_tombstones o1 @ [tb]" "ob_events o2 = ob_events (add_event r o1')"
    "open_current o1' \<longrightarrow> open_current o2" by (auto simp: o1'_def)
  from ins have r: "next_event o1' r" "in_aggregate kind aid r" "ev_tombstone_id r = Some ?tid"
    by (auto elim: insert_eventE)
  have ev2: "ob_events o2 = ob_events o1 @ [r]" by (simp add: t(4) add_event_def same)
  have "tombstones_ok o2"
  proof -
    have "distinct (map tb_tombstone_id (ob_tombstones o2))"
      using tombstones_okD(1) [OF ok(3)] fresh by (auto simp: t(3) tb_fields)
    moreover have "count_where (active_tombstone k a) (ob_tombstones o2) \<le> 1" for k a
    proof (cases "k = kind \<and> a = aid")
      case True
      then have "count_where (active_tombstone k a) (ob_tombstones o1) = 0" using free by simp
      then show ?thesis by (simp add: t(3) del: count_where_0) (simp add: count_where_def)
    next
      case False
      then have "\<not> active_tombstone k a tb" by (auto simp: active_tombstone_def tb_fields)
      then show ?thesis using tombstones_okD(2) [OF ok(3), of k a] by (simp add: t(3)) (simp add: count_where_def)
    qed
    moreover have "in_aggregate (tb_aggregate_kind tb) (tb_aggregate_id tb) r" using r(2) by (simp add: tb_fields)
    ultimately show ?thesis
      using ok(3) r(3) unfolding tombstones_ok_def t(3) ev2 by (auto simp: tb_fields)
  qed
  moreover have "fence_current o2 \<and> open_current o2" if cur: "current o1"
  proof -
    have fc: "fence_current o1" and oc: "open_current o1'"
      using cur same_tables(2,4) [OF same(1)] by (simp_all add: current_def open_current_def same(2))
    have r1: "next_event o1 r"
      using r(1) same_tables(2,3) [OF same(1)] by (simp add: next_event_def)
    have head: "is_head o2 = is_head (add_event r o1)"
      by (rule same_tables(4)) (simp add: ev2 add_event_def)
    have "is_head (add_event r o1) ev" if x: "x \<in> set (ob_tombstones o2)" "tb_superseded_at x = None"
        "ev \<in> set (ob_events o2)" "ev_tombstone_id ev = Some (tb_tombstone_id x)" for x ev
    proof (cases "ev = r")
      case True
      then show ?thesis
        using head_revision_add [OF ok(1) r1] by (simp add: is_head_def in_aggregate_def)
    next
      case False
      with x(3) have mem: "ev \<in> set (ob_events o1)" by (simp add: ev2)
      with ok(3) x(4) fresh have "tb_tombstone_id x \<noteq> ?tid"
        by (metis tombstones_okD(3))
      with x(1) have x1: "x \<in> set (ob_tombstones o1)" by (auto simp: t(3) tb_fields)
      have "is_head o1 ev" using fc x1 x(2,4) mem unfolding fence_current_def by blast
      moreover have "in_aggregate (tb_aggregate_kind x) (tb_aggregate_id x) ev"
        by (rule tombstone_event_aggregate [OF ok(3) x1 mem x(4)])
      then have "\<not> in_aggregate kind aid ev"
        using free x1 x(2) by (auto simp: active_tombstone_def in_aggregate_def)
      ultimately show ?thesis using is_head_other [OF ok(1) r1 r(2)] by blast
    qed
    then have "fence_current o2" unfolding fence_current_def head by blast
    with oc t(5) show ?thesis by blast
  qed
  ultimately show ?thesis using t(1,2) by (simp add: current_def outbox_inv_def)
qed

lemma count_where_update_le:
  assumes "\<And>x. p (if q x then f x else x) \<Longrightarrow> p x"
  shows "count_where p (update_where q f xs) \<le> count_where p xs"
proof (induction xs)
  case (Cons x xs)
  then show ?case using assms [of x] by (cases "q x") (auto simp: count_where_def update_where_def)
qed (simp add: update_where_def)

lemma restore_ok:
  assumes inv: "outbox_inv o1"
    and call: "supersede_active_tombstone kind aid payload targets uuid now o1 = Inr (r, o2)"
  shows "outbox_inv o2 \<and> (current o1 \<longrightarrow> current o2)"
proof -
  from call obtain om where enq: "enqueue_event kind aid ''restored'' payload targets uuid now o1 = Inr (r, om)"
    and sup: "supersede_tombstones kind aid (ev_event_id r) now om = Inr o2"
    by (auto simp: supersede_active_tombstone_def)
  let ?p = "active_tombstone kind aid"
  let ?f = "\<lambda>tb. tb\<lparr>tb_superseded_at := Some now, tb_superseded_by_event_id := Some (ev_event_id r)\<rparr>"
  from sup have o2: "o2 = om\<lparr>ob_tombstones := update_where ?p ?f (ob_tombstones om)\<rparr>"
    by (simp add: supersede_tombstones_def)
  from enqueue_event_ok [OF inv enq] have om: "outbox_inv om" "next_event o1 r" "in_aggregate kind aid r"
    "ev_tombstone_id r = None" "ob_tombstones om = ob_tombstones o1"
    "ob_events om = ob_events (add_event r o1)" "open_current o1 \<longrightarrow> open_current om" by blast+
  have ok: "events_ok om" "deliveries_ok om" "tombstones_ok om" using om(1) by (simp_all add: outbox_inv_def)
  have same: "ob_events o2 = ob_events om" "ob_deliveries o2 = ob_deliveries om" by (simp_all add: o2)
  have r_mem: "r \<in> set (ob_events om)" by (simp add: om(6) add_event_def)
  have ev2: "events_ok o2" "deliveries_ok o2"
    using ok same_tables(1,5) [OF same(1)] by (simp_all add: deliveries_ok_def same(2))
  have keys: "map tb_tombstone_id (update_where ?p ?f (ob_tombstones om)) = map tb_tombstone_id (ob_tombstones om)"
    by (rule map_update_where) simp
  have "tombstones_ok o2"
  proof -
    have count: "count_where (active_tombstone k a) (update_where ?p ?f (ob_tombstones om)) \<le> 1" for k a
      using tombstones_okD(2) [OF ok(3), of k a]
      by (intro le_trans [OF count_where_update_le]) (auto simp: active_tombstone_def split: if_splits)
    have "\<exists>tb' \<in> set (update_where ?p ?f (ob_tombstones om)). tb_tombstone_id tb' = tb_tombstone_id tb \<and>
        tb_aggregate_kind tb' = tb_aggregate_kind tb \<and> tb_aggregate_id tb' = tb_aggregate_id tb"
      if "tb \<in> set (ob_tombstones om)" for tb
      using that by (intro bexI [of _ "if ?p tb then ?f tb else tb"]) (auto simp: set_update_where)
    then have "\<forall>ev \<in> set (ob_events om). \<forall>t. ev_tombstone_id ev = Some t \<longrightarrow>
        (\<exists>tb \<in> set (update_where ?p ?f (ob_tombstones om)). tb_tombstone_id tb = t \<and>
           in_aggregate (tb_aggregate_kind tb) (tb_aggregate_id tb) ev)"
      using tombstones_okD(3) [OF ok(3)] by metis
    moreover have "\<exists>ev \<in> set (ob_events om). ev_tombstone_id ev = Some (tb_tombstone_id tb) \<and>
        in_aggregate (tb_aggregate_kind tb) (tb_aggregate_id tb) ev"
      if "tb \<in> set (update_where ?p ?f (ob_tombstones om))" for tb
      using that by (rule update_whereE) (use tombstones_okD(4) [OF ok(3)] in auto)
    moreover have "tb_superseded_at tb = None \<and> tb_superseded_by_event_id tb = None \<or>
        tb_superseded_at tb \<noteq> None \<and>
        (\<exists>ev \<in> set (ob_events om). tb_superseded_by_event_id tb = Some (ev_event_id ev) \<and>
           in_aggregate (tb_aggregate_kind tb) (tb_aggregate_id tb) ev)"
      if "tb \<in> set (update_where ?p ?f (ob_tombstones om))" for tb
      using that
    proof (rule update_whereE)
      fix z :: tombstone_row
      assume z: "?p z" "tb = ?f z"
      then have "in_aggregate (tb_aggregate_kind tb) (tb_aggregate_id tb) r"
        using om(3) by (simp add: active_tombstone_def)
      with z r_mem show ?thesis by auto
    next
      assume "tb \<in> set (ob_tombstones om)"
      then show ?thesis using ok(3) unfolding tombstones_ok_def by blast
    qed
    moreover have "distinct (map tb_tombstone_id (update_where ?p ?f (ob_tombstones om)))"
      unfolding keys by (rule tombstones_okD(1) [OF ok(3)])
    moreover have "ob_tombstones o2 = update_where ?p ?f (ob_tombstones om)" by (simp add: o2)
    ultimately show ?thesis
      using count unfolding tombstones_ok_def same(1) by (simp only:) blast
  qed
  moreover have "fence_current o2 \<and> open_current o2" if cur: "current o1"
  proof -
    have c: "fence_current o1" "open_current om" "events_ok o1" "tombstones_ok o1"
      using cur om(7) by (simp_all add: current_def outbox_inv_def)
    have head: "is_head o2 = is_head (add_event r o1)" by (rule same_tables(4)) (simp add: same om(6))
    have "is_head (add_event r o1) ev" if x: "x \<in> set (ob_tombstones o2)" "tb_superseded_at x = None"
        "ev \<in> set (ob_events o2)" "ev_tombstone_id ev = Some (tb_tombstone_id x)" for x ev
    proof -
      from x(1,2) have x': "x \<in> set (ob_tombstones o1)" "\<not> ?p x"
        by (auto simp: o2 om(5) set_update_where split: if_splits)
      show ?thesis
        using x fence_current_add [OF c(3,4,1) om(2-4) _ x(4) x'(1) x(2) x'(2)]
        by (simp add: same om(6))
    qed
    then have "fence_current o2" unfolding fence_current_def head by blast
    moreover have "open_current o2"
      using c(2) same_tables(2,4) [OF same(1)] by (simp add: open_current_def same(2))
    ultimately show ?thesis by blast
  qed
  ultimately show ?thesis using ev2 by (simp add: current_def outbox_inv_def)
qed

lemma outbox_step_inv:
  assumes "outbox_inv o1" "outbox_step sha c o1 = Inr o2"
  shows "outbox_inv o2"
proof (cases "(sha, c, o1)" rule: outbox_step.cases)
  case (1 sha' now kind aid mutation payload targets uuid o')
  with assms show ?thesis using enqueue_event_ok by (fastforce simp: enqueue_mutation_def)
next
  case (2 sha' now kind aid reason targets uuid event_uuid o')
  with assms show ?thesis using enqueue_tombstone_ok by fastforce
next
  case (3 sha' now kind aid payload targets uuid o')
  with assms show ?thesis using restore_ok by fastforce
next
  case (4 sha' now event_id target o')
  with assms show ?thesis using mark_delivery_applied_marks by (fastforce simp: marks_def)
next
  case (5 sha' now event_id revision target o')
  with assms show ?thesis using mark_head_applied_marks by (fastforce simp: marks_def)
next
  case (6 sha' now event_id target err o')
  with assms show ?thesis using mark_degraded_marks by (fastforce simp: marks_def)
next
  case (7 sha' now stale head revision target o')
  with assms show ?thesis using mark_compensated_marks by (fastforce simp: marks_def)
qed

lemma fenced_step_current:
  assumes cur: "current o1" and step: "fenced_step sha c o1 = Inr o2"
  shows "current o2"
proof -
  have inv: "outbox_inv o1" using cur by (simp add: current_def)
  obtain now call where c: "c = (now, call)" by fastforce
  show ?thesis
  proof (cases call)
    case (CallEnqueue kind aid mutation payload targets uuid)
    from step obtain b where b: "has_active_tombstone kind aid o1 = Inr b" "\<not> b"
      and free: "outbox_step sha c o1 = Inr o2"
      unfolding c CallEnqueue fenced_step.simps res_bind_ok early_return_ok by blast
    from b have "\<not> exists_where (active_tombstone kind aid) (ob_tombstones o1)"
      unfolding has_active_tombstone_def res_bind_ok by blast
    moreover from free obtain r where
      "enqueue_mutation kind aid mutation payload targets uuid now o1 = Inr (r, o2)"
      unfolding c CallEnqueue outbox_step.simps after_ok by blast
    ultimately show ?thesis using enqueue_mutation_current [OF cur] by blast
  next
    case (CallTombstone kind aid reason targets uuid event_uuid)
    with step c obtain r where
      "enqueue_tombstone sha kind aid reason targets uuid event_uuid now o1 = Inr (r, o2)"
      by auto
    then show ?thesis using enqueue_tombstone_ok inv cur by blast
  next
    case (CallRestore kind aid payload targets uuid)
    with step c obtain r where
      "supersede_active_tombstone kind aid payload targets uuid now o1 = Inr (r, o2)"
      by auto
    then show ?thesis using restore_ok inv cur by blast
  next
    case (CallApplied event_id target)
    with step c cur show ?thesis using mark_delivery_applied_marks by (fastforce simp: marks_def)
  next
    case (CallAppliedIfHead event_id revision target)
    with step c cur show ?thesis using mark_head_applied_marks by (fastforce simp: marks_def)
  next
    case (CallDegraded event_id target err)
    with step c cur show ?thesis using mark_degraded_marks by (fastforce simp: marks_def)
  next
    case (CallCompensated stale head revision target)
    with step c cur show ?thesis using mark_compensated_marks by (fastforce simp: marks_def)
  qed
qed

interpretation outbox_machine: guarded_machine "outbox_step sha" outbox_inv for sha
  by unfold_locales (rule outbox_step_inv)

interpretation fenced_machine: guarded_machine "fenced_step sha" current for sha
  by unfold_locales (rule fenced_step_current)

end
