(* ===== verification/Outbox_Claims.thy ===== *)
theory Outbox_Claims
  imports Outbox_Safety "HOL-Library.Code_Target_Nat"
begin

text \<open>
  The properties of the outbox: the invariant of every reachable outbox, deliveries that are
  settled for good, what a replay offers, and what the summary of an event counts.
\<close>

section \<open>How a delivery moves\<close>

text \<open>An applied delivery is final; a disposed one is never applied or opened again.\<close>

definition progresses :: "delivery_row \<Rightarrow> delivery_row \<Rightarrow> bool" where
  "progresses d d' \<longleftrightarrow>
     (dl_state d = RowApplied \<longrightarrow> d' = d) \<and>
     (dl_terminal_disposition d \<noteq> None \<longrightarrow>
        dl_terminal_disposition d' \<noteq> None \<and> dl_state d' = dl_state d)"

definition keeps_deliveries :: "outbox \<Rightarrow> outbox \<Rightarrow> bool" where
  "keeps_deliveries o1 o2 \<longleftrightarrow>
     (\<forall>e t d. find_delivery o1 e t = Some d \<longrightarrow>
        (\<exists>d'. find_delivery o2 e t = Some d' \<and> progresses d d'))"

lemma progresses_refl: "progresses d d"
  by (simp add: progresses_def)

lemma progresses_trans: "progresses d d' \<Longrightarrow> progresses d' d'' \<Longrightarrow> progresses d d''"
  by (auto simp: progresses_def)

lemma keeps_refl: "ob_deliveries o2 = ob_deliveries o1 \<Longrightarrow> keeps_deliveries o1 o2"
  by (auto simp: keeps_deliveries_def find_delivery_def intro: progresses_refl)

lemma keeps_trans: "keeps_deliveries o1 o2 \<Longrightarrow> keeps_deliveries o2 o3 \<Longrightarrow> keeps_deliveries o1 o3"
  unfolding keeps_deliveries_def by (meson progresses_trans)

lemma keeps_update:
  assumes "\<And>d. p d \<Longrightarrow> delivery_key (f d) = delivery_key d \<and> progresses d (f d)"
  shows "keeps_deliveries o1 (o1\<lparr>ob_deliveries := update_where p f (ob_deliveries o1)\<rparr>)"
proof -
  have "find_delivery (o1\<lparr>ob_deliveries := update_where p f (ob_deliveries o1)\<rparr>) e t =
      map_option (\<lambda>d. if p d then f d else d) (find_delivery o1 e t)" for e t
    unfolding find_delivery_def using assms
    by (auto simp: delivery_key_def intro!: find_update_where)
  then show ?thesis using assms by (auto simp: keeps_deliveries_def intro: progresses_refl)
qed

lemma keeps_apply_open: "keeps_deliveries o1 (snd (apply_open e t now o1))"
  unfolding apply_open_def snd_conv
  by (rule keeps_update) (auto simp: delivery_key_def open_delivery_def settled_def progresses_def set_applied_def)

lemma keeps_ensure: "keeps_deliveries o1 (ensure_delivery_targets e targets now o1)"
proof -
  obtain new where "ensure_delivery_targets e targets now o1 =
      o1\<lparr>ob_deliveries := ob_deliveries o1 @ map (\<lambda>t. new_delivery e t now) new\<rparr>"
    using ensure_tables by blast
  then show ?thesis
    by (auto simp: keeps_deliveries_def find_delivery_def find_append intro: progresses_refl)
qed

lemma keeps_insert_event:
  assumes "insert_event event_id kind aid mutation payload tid now targets o1 = Inr (r, o2)"
  shows "keeps_deliveries o1 o2"
  using assms
proof (rule insert_eventE)
  let ?s = "supersede_deliveries kind aid event_id (ev_aggregate_revision r) now (add_event r o1)"
  assume o2: "o2 = ensure_delivery_targets event_id targets now ?s"
  have "keeps_deliveries o1 (add_event r o1)" by (rule keeps_refl) (simp add: add_event_def)
  moreover have "keeps_deliveries (add_event r o1) ?s" unfolding supersede_deliveries_def
    by (rule keeps_update) (auto simp: delivery_key_def settled_def progresses_def)
  ultimately show ?thesis unfolding o2 using keeps_ensure keeps_trans by blast
qed

lemma keeps_enqueue:
  "enqueue_event kind aid mutation payload targets uuid now o1 = Inr (r, o2) \<Longrightarrow> keeps_deliveries o1 o2"
  unfolding enqueue_event_def by (auto intro: keeps_insert_event)

lemma keeps_tombstone:
  assumes "enqueue_tombstone sha kind aid reason targets uuid event_uuid now o1 = Inr (r, o2)"
  shows "keeps_deliveries o1 o2"
proof (cases "active_tombstone_event o1 kind aid")
  case None
  with assms obtain om tb payload tid where tb: "insert_tombstone tb o1 = Inr om"
    and ins: "insert_event (''outbox:'' @ event_uuid) kind aid ''deleted'' payload (Some tid) now targets om =
      Inr (r, o2)"
    by (auto simp: enqueue_tombstone_def Let_def)
  from tb have "keeps_deliveries o1 om"
    by (intro keeps_refl) (auto simp: insert_tombstone_def)
  then show ?thesis using keeps_insert_event [OF ins] keeps_trans by blast
next
  case (Some ev)
  with assms show ?thesis by (auto simp: enqueue_tombstone_def intro: keeps_ensure)
qed

lemma keeps_restore:
  assumes "supersede_active_tombstone kind aid payload targets uuid now o1 = Inr (r, o2)"
  shows "keeps_deliveries o1 o2"
proof -
  from assms obtain om where "keeps_deliveries o1 om" "ob_deliveries o2 = ob_deliveries om"
    by (auto simp: supersede_active_tombstone_def supersede_tombstones_def dest: keeps_enqueue)
  then show ?thesis using keeps_refl keeps_trans by blast
qed

lemma keeps_compensate:
  assumes "mark_delivery_compensated_to_head stale head revision target now o1 = Inr ((), o2)"
  shows "keeps_deliveries o1 o2"
proof -
  let ?om = "o1\<lparr>ob_deliveries := update_where
      (\<lambda>d. dl_event_id d = stale \<and> dl_projection_target d = target \<and> dl_state d \<noteq> RowApplied)
      (set_compensated head now) (ob_deliveries o1)\<rparr>"
  from assms have "o2 = snd (apply_open head target now ?om)"
    unfolding mark_delivery_compensated_to_head_def Let_def
    by (auto simp: case_prod_beta split: if_splits)
  moreover have "keeps_deliveries o1 ?om"
    by (rule keeps_update) (auto simp: delivery_key_def progresses_def set_compensated_def)
  ultimately show ?thesis using keeps_apply_open keeps_trans by blast
qed

lemma outbox_step_keeps:
  assumes "outbox_step sha c o1 = Inr o2"
  shows "keeps_deliveries o1 o2"
proof (cases "(sha, c, o1)" rule: outbox_step.cases)
  case (4 sha' now event_id target o')
  then have "o2 = snd (apply_open event_id target now o1)"
    using assms by (auto simp: mark_delivery_applied_def case_prod_beta split: if_splits)
  then show ?thesis using keeps_apply_open by simp
next
  case (5 sha' now event_id revision target o')
  then have "o2 = snd (apply_open event_id target now o1)"
    using assms by (auto simp: mark_delivery_applied_if_canonical_head_def case_prod_beta split: if_splits)
  then show ?thesis using keeps_apply_open by simp
next
  case (6 sha' now event_id target err o')
  then have "o2 = o1\<lparr>ob_deliveries := update_where (open_delivery event_id target)
      (set_degraded (metadata_digest sha err) now) (ob_deliveries o1)\<rparr>"
    using assms by (auto simp: mark_delivery_degraded_def Let_def split: if_splits)
  then show ?thesis
    using keeps_update [of "open_delivery event_id target" "set_degraded (metadata_digest sha err) now" o1]
    by (auto simp: delivery_key_def open_delivery_def settled_def progresses_def set_degraded_def)
qed (use assms in \<open>auto simp: enqueue_mutation_def
    intro: keeps_enqueue keeps_tombstone keeps_restore keeps_compensate\<close>)

interpretation applied_delivery: frozen_machine "outbox_step sha"
  "\<lambda>o1. \<exists>d. find_delivery o1 e t = Some d \<and> dl_state d = RowApplied" "\<lambda>o1. find_delivery o1 e t"
  for sha e t
proof
  fix o1 o2 c
  assume "\<exists>d. find_delivery o1 e t = Some d \<and> dl_state d = RowApplied" "outbox_step sha c o1 = Inr o2"
  then show "(\<exists>d. find_delivery o2 e t = Some d \<and> dl_state d = RowApplied) \<and>
      find_delivery o2 e t = find_delivery o1 e t"
    using outbox_step_keeps by (fastforce simp: keeps_deliveries_def progresses_def)
qed

interpretation disposed_delivery: frozen_machine "outbox_step sha"
  "\<lambda>o1. \<exists>d. find_delivery o1 e t = Some d \<and> dl_terminal_disposition d \<noteq> None"
  "\<lambda>o1. map_option dl_state (find_delivery o1 e t)"
  for sha e t
proof
  fix o1 o2 c
  assume "\<exists>d. find_delivery o1 e t = Some d \<and> dl_terminal_disposition d \<noteq> None"
    "outbox_step sha c o1 = Inr o2"
  then show "(\<exists>d. find_delivery o2 e t = Some d \<and> dl_terminal_disposition d \<noteq> None) \<and>
      map_option dl_state (find_delivery o2 e t) = map_option dl_state (find_delivery o1 e t)"
    using outbox_step_keeps by (fastforce simp: keeps_deliveries_def progresses_def)
qed

section \<open>Properties\<close>

text \<open>
  C34. The outbox stays sound. In every outbox reached by any calls, each aggregate has the
  revisions 1, 2, 3, ... in the order of its events; a delivery belongs to an event, is never
  both applied and disposed of, and is disposed of only in favour of a later event of the same
  aggregate; an aggregate has at most one active tombstone. And deliveries are settled for
  good: an applied delivery is the same row ever after, and one that was superseded or
  compensated is never applied and never offered again.
\<close>

theorem outbox_stays_sound:
  fixes sha cs ds
  defines "o1 \<equiv> attempts (outbox_step sha) cs empty_outbox"
    and "o2 \<equiv> attempts (outbox_step sha) (cs @ ds) empty_outbox"
  shows "outbox_inv o1 \<and>
    (\<forall>e t d. find_delivery o1 e t = Some d \<longrightarrow>
       (dl_state d = RowApplied \<longrightarrow> find_delivery o2 e t = Some d) \<and>
       (dl_terminal_disposition d \<noteq> None \<longrightarrow>
          (\<exists>d'. find_delivery o2 e t = Some d' \<and> dl_state d' \<noteq> RowApplied \<and> \<not> replayable o2 d')))"
proof -
  have o2: "o2 = attempts (outbox_step sha) ds o1" by (simp add: o1_def o2_def attempts_append)
  have inv: "outbox_inv o1" unfolding o1_def by (rule outbox_machine.attempts_inv [OF outbox_inv_empty])
  have applied: "find_delivery o2 e t = Some d" if "find_delivery o1 e t = Some d" "dl_state d = RowApplied"
    for e t d
    using applied_delivery.attempts_frozen [of o1 e t sha ds] that by (simp add: o2)
  have "\<exists>d'. find_delivery o2 e t = Some d' \<and> dl_state d' \<noteq> RowApplied \<and> \<not> replayable o2 d'"
    if d: "find_delivery o1 e t = Some d" "dl_terminal_disposition d \<noteq> None" for e t d
  proof -
    have "d \<in> set (ob_deliveries o1)" using d(1) unfolding find_delivery_def by (auto dest: find_Some_mem)
    then have "dl_state d \<noteq> RowApplied" using inv d(2) by (auto simp: outbox_inv_def deliveries_ok_def delivery_ok_def)
    with disposed_delivery.attempts_frozen [of o1 e t sha ds] d show ?thesis
      by (auto simp: o2 replayable_def settled_def)
  qed
  with inv applied show ?thesis by blast
qed

lemma rows_to_deliveries_mem:
  assumes "rows_to_deliveries o1 ds = Inr xs" "x \<in> set xs"
  shows "\<exists>d \<in> set ds. row_to_delivery o1 d = Inr x"
proof -
  have "res_fold (\<lambda>acc d. res_bind (row_to_delivery o1 d) (\<lambda>x. Inr (acc @ [x]))) acc ds = Inr xs \<Longrightarrow>
      x \<in> set acc \<or> (\<exists>d \<in> set ds. row_to_delivery o1 d = Inr x)" for acc
    using assms(2) by (induction ds arbitrary: acc) fastforce+
  from this [of "[]"] show ?thesis using assms(1) by (simp add: rows_to_deliveries_def)
qed

lemma list_replayable_mem:
  assumes "list_replayable_deliveries limit o1 = Inr xs" "x \<in> set xs"
  obtains d where "d \<in> set (ob_deliveries o1)" "replayable o1 d" "row_to_delivery o1 d = Inr x"
  using rows_to_deliveries_mem [OF assms(1) [unfolded list_replayable_deliveries_def] assms(2)]
  by (auto dest!: in_set_takeD)

lemma head_eventI:
  assumes "events_ok o1" "ev \<in> set (ob_events o1)" "is_head o1 ev"
  shows "head_event o1 (ev_aggregate_kind ev) (ev_aggregate_id ev) = Some ev"
proof -
  have "\<exists>x. head_event o1 (ev_aggregate_kind ev) (ev_aggregate_id ev) = Some x"
    using assms(2,3) unfolding head_event_def is_head_def
    by (cases "find (\<lambda>x. in_aggregate (ev_aggregate_kind ev) (ev_aggregate_id ev) x \<and>
        ev_aggregate_revision x = head_revision o1 (ev_aggregate_kind ev) (ev_aggregate_id ev)) (ob_events o1)")
      (auto simp: find_None_iff in_aggregate_def)
  then obtain x where x: "head_event o1 (ev_aggregate_kind ev) (ev_aggregate_id ev) = Some x" by blast
  have "x = ev"
    using head_event_is_head [OF x] assms
    by (intro revision_unique [OF assms(1)]) (auto simp: is_head_def in_aggregate_def same_aggregate_def)
  with x show ?thesis by simp
qed

text \<open>
  C35. A replay offers the present, not the past. When the writers read the deletion fence before
  they enqueue a mutation, every delivery that \<open>list_replayable_deliveries\<close> returns belongs to
  the latest event of its aggregate, so no projection is driven back to an older state. And a
  consumer can always finish what it was offered: finalising the delivery at the revision it was
  listed with succeeds, and the delivery is applied.
\<close>

theorem replay_offers_the_head:
  fixes sha cs
  defines "o1 \<equiv> attempts (fenced_step sha) cs empty_outbox"
  assumes listed: "list_replayable_deliveries limit o1 = Inr xs" "x \<in> set xs"
  shows "head_event o1 (ev_aggregate_kind (pd_event x)) (ev_aggregate_id (pd_event x)) = Some (pd_event x) \<and>
    (validate_identifier ''event_id'' (ev_event_id (pd_event x)) = Inr () \<and>
     validate_identifier ''projection_target'' (pd_projection_target x) = Inr () \<and>
     ev_aggregate_revision (pd_event x) < 2 ^ 63 \<longrightarrow>
     (\<exists>o2 d. mark_delivery_applied_if_canonical_head (ev_event_id (pd_event x))
          (ev_aggregate_revision (pd_event x)) (pd_projection_target x) now o1 = Inr ((), o2) \<and>
        find_delivery o2 (ev_event_id (pd_event x)) (pd_projection_target x) = Some d \<and>
        dl_state d = RowApplied))"
proof -
  have cur: "current o1" unfolding o1_def by (rule fenced_machine.attempts_inv [OF current_empty])
  then have ev_ok: "events_ok o1" and del_ok: "deliveries_ok o1" by (simp_all add: current_def outbox_inv_def)
  from listed obtain d where d: "d \<in> set (ob_deliveries o1)" "replayable o1 d" "row_to_delivery o1 d = Inr x"
    by (rule list_replayable_mem)
  from d(3) have x: "find_event o1 (dl_event_id d) = Some (pd_event x)" "pd_projection_target x = dl_projection_target d"
    by (auto simp: row_to_delivery_def)
  have open_d: "\<not> settled d" using d(2) by (simp add: replayable_def)
  have mem: "pd_event x \<in> set (ob_events o1)" "ev_event_id (pd_event x) = dl_event_id d"
    using find_event_mem [OF x(1)] by simp_all
  have head: "is_head o1 (pd_event x)"
    using cur d(1) open_d x(1) by (auto simp: current_def open_current_def)
  have h: "head_event o1 (ev_aggregate_kind (pd_event x)) (ev_aggregate_id (pd_event x)) = Some (pd_event x)"
    by (rule head_eventI [OF ev_ok mem(1) head])
  have rev: "0 < ev_aggregate_revision (pd_event x)"
    using event_revision [OF ev_ok mem(1)] by (simp add: in_aggregate_def)
  have find_d: "find_delivery o1 (dl_event_id d) (dl_projection_target d) = Some d"
    using find_key_distinct [of delivery_key "ob_deliveries o1" d] del_ok d(1)
    by (simp add: deliveries_ok_def find_delivery_def delivery_key_def)
  let ?p = "open_delivery (dl_event_id d) (dl_projection_target d)"
  let ?o2 = "snd (apply_open (dl_event_id d) (dl_projection_target d) now o1)"
  have changed: "fst (apply_open (dl_event_id d) (dl_projection_target d) now o1) \<noteq> 0"
    using d(1) open_d by (auto simp: apply_open_def open_delivery_def)
  have "find_delivery ?o2 (dl_event_id d) (dl_projection_target d) = Some (set_applied now d)"
  proof -
    have "find_delivery ?o2 (dl_event_id d) (dl_projection_target d) =
        map_option (\<lambda>d. if ?p d then set_applied now d else d)
          (find_delivery o1 (dl_event_id d) (dl_projection_target d))"
      unfolding find_delivery_def apply_open_def
      by (simp, rule find_update_where) (simp add: set_applied_def open_delivery_def)
    with find_d open_d show ?thesis by (simp add: open_delivery_def)
  qed
  moreover have "mark_delivery_applied_if_canonical_head (ev_event_id (pd_event x))
      (ev_aggregate_revision (pd_event x)) (pd_projection_target x) now o1 = Inr ((), ?o2)"
    if "validate_identifier ''event_id'' (ev_event_id (pd_event x)) = Inr ()"
      "validate_identifier ''projection_target'' (pd_projection_target x) = Inr ()"
      "ev_aggregate_revision (pd_event x) < 2 ^ 63"
    using that rev h changed x mem(2)
    by (simp add: mark_delivery_applied_if_canonical_head_def I64_LIMIT_def check_head_def case_prod_beta)
  ultimately show ?thesis
    using h mem(2) x(2) by (auto simp: set_applied_def)
qed

definition demo_sha :: string where
  "demo_sha = ''sha256:'' @ replicate 64 (CHR ''0'')"

definition demo_calls :: "(int \<times> outbox_call) list" where
  "demo_calls =
     [(0, CallEnqueue ''memory'' ''m'' ''updated'' demo_sha [''index'', ''graph''] ''1''),
      (1, CallApplied ''outbox:1'' ''graph''),
      (2, CallEnqueue ''memory'' ''m'' ''updated'' demo_sha [''index''] ''2''),
      (3, CallTombstone ''memory'' ''n'' None [''index''] ''3'' ''4''),
      (4, CallEnqueue ''memory'' ''n'' ''updated'' demo_sha [''index''] ''5'')]"

definition demo_outbox :: outbox where
  "demo_outbox = attempts (fenced_step (\<lambda>_. [])) demo_calls empty_outbox"

definition demo_listed :: "ProjectionDelivery list" where
  "demo_listed = (case list_replayable_deliveries 10 demo_outbox of Inl _ \<Rightarrow> [] | Inr xs \<Rightarrow> xs)"

lemma demo_listed:
  "list_replayable_deliveries 10 demo_outbox = Inr demo_listed \<and>
   map (ev_event_id \<circ> pd_event) demo_listed = [''outbox:4'', ''outbox:2'']"
  by code_simp

theorem replay_offers_the_head_witness:
  "\<exists>x :: ProjectionDelivery. head_event demo_outbox ''memory'' ''m'' = Some (pd_event x) \<and> ev_event_id (pd_event x) = ''outbox:2''"
proof -
  have last: "last demo_listed \<in> set demo_listed \<and> ev_event_id (pd_event (last demo_listed)) = ''outbox:2'' \<and>
      ev_aggregate_kind (pd_event (last demo_listed)) = ''memory'' \<and>
      ev_aggregate_id (pd_event (last demo_listed)) = ''m''"
    by code_simp
  from replay_offers_the_head [OF demo_listed [THEN conjunct1, unfolded demo_outbox_def] last [THEN conjunct1]]
  have "head_event demo_outbox ''memory'' ''m'' = Some (pd_event (last demo_listed))"
    using last unfolding demo_outbox_def by simp
  with last show ?thesis by blast
qed

text \<open>An applied delivery stays as it is when a late failure is reported for it.\<close>

lemma demo_applied:
  "map_option dl_state (find_delivery (attempts (outbox_step (\<lambda>_. [])) demo_calls empty_outbox)
     ''outbox:1'' ''graph'') = Some RowApplied"
  by code_simp

theorem outbox_stays_sound_witness:
  "find_delivery (attempts (outbox_step (\<lambda>_. [])) (demo_calls @ [(5, CallDegraded ''outbox:1'' ''graph'' ''late'')])
     empty_outbox) ''outbox:1'' ''graph'' =
   find_delivery (attempts (outbox_step (\<lambda>_. [])) demo_calls empty_outbox) ''outbox:1'' ''graph''"
proof -
  obtain d :: delivery_row where d: "find_delivery (attempts (outbox_step (\<lambda>_. [])) demo_calls empty_outbox)
      ''outbox:1'' ''graph'' = Some d" "dl_state d = RowApplied"
    using demo_applied by auto
  from outbox_stays_sound [of "\<lambda>_. []" demo_calls
      "[(5, CallDegraded ''outbox:1'' ''graph'' ''late'')]"] d
  show ?thesis by simp
qed

section \<open>Summaries\<close>

lemma to_u32_count_ok: "to_u32_count n = Inr w \<Longrightarrow> unat w = n"
  by (auto simp: to_u32_count_def unsigned_of_nat take_bit_nat_eq_self split: if_splits)

lemma count_partition:
  assumes "\<forall>d \<in> set xs. dl_terminal_disposition d \<noteq> None \<longrightarrow> dl_state d \<noteq> RowApplied"
  shows "count_where (\<lambda>d. q d \<and> dl_state d = RowPending \<and> dl_terminal_disposition d = None) xs +
    count_where (\<lambda>d. q d \<and> dl_state d = RowDegraded \<and> dl_terminal_disposition d = None) xs +
    count_where (\<lambda>d. q d \<and> dl_state d = RowApplied) xs +
    count_where (\<lambda>d. q d \<and> dl_terminal_disposition d = Some TerminalSuperseded) xs +
    count_where (\<lambda>d. q d \<and> dl_terminal_disposition d = Some TerminalCompensated) xs = count_where q xs"
  using assms
proof (induction xs)
  case (Cons d xs)
  show ?case
    using Cons
    by (cases "dl_state d"; cases "dl_terminal_disposition d"; cases "the (dl_terminal_disposition d)")
      (auto simp: count_where_def)
qed (simp add: count_where_def)

text \<open>
  The summary of an event counts each of its deliveries exactly once. The five counts add up
  to the number of deliveries; the summary says \<open>applied\<close> exactly when every delivery was
  applied, and \<open>pending\<close> or \<open>degraded\<close> exactly when one is still open.
\<close>

theorem summary_counts_every_delivery:
  fixes sha cs
  defines "o1 \<equiv> attempts (outbox_step sha) cs empty_outbox"
  assumes sum: "projection_summary e o1 = Inr x"
  shows "unat (sum_pending x) + unat (sum_degraded x) + unat (sum_applied x) +
      unat (sum_superseded x) + unat (sum_compensated x) =
      count_where (\<lambda>d. dl_event_id d = e) (ob_deliveries o1) \<and>
    (summary_state x = DeliveryApplied \<longleftrightarrow>
       (\<forall>d \<in> set (ob_deliveries o1). dl_event_id d = e \<longrightarrow> dl_state d = RowApplied)) \<and>
    (summary_state x \<in> {DeliveryPending, DeliveryDegraded} \<longleftrightarrow>
       (\<exists>d \<in> set (ob_deliveries o1). dl_event_id d = e \<and> \<not> settled d))"
proof -
  let ?n = "count_event o1 e"
  have "outbox_inv o1" unfolding o1_def by (rule outbox_machine.attempts_inv [OF outbox_inv_empty])
  then have rows: "\<forall>d \<in> set (ob_deliveries o1). dl_terminal_disposition d \<noteq> None \<longrightarrow> dl_state d \<noteq> RowApplied"
    by (auto simp: outbox_inv_def deliveries_ok_def delivery_ok_def)
  from sum have counts:
    "unat (sum_pending x) = ?n (\<lambda>d. dl_state d = RowPending \<and> dl_terminal_disposition d = None)"
    "unat (sum_degraded x) = ?n (\<lambda>d. dl_state d = RowDegraded \<and> dl_terminal_disposition d = None)"
    "unat (sum_applied x) = ?n (\<lambda>d. dl_state d = RowApplied)"
    "unat (sum_superseded x) = ?n (\<lambda>d. dl_terminal_disposition d = Some TerminalSuperseded)"
    "unat (sum_compensated x) = ?n (\<lambda>d. dl_terminal_disposition d = Some TerminalCompensated)"
    by (auto simp: projection_summary_def dest!: to_u32_count_ok)
  have pos: "0 < w \<longleftrightarrow> unat w \<noteq> 0" for w :: "32 word" by (simp add: word_gt_0 unat_eq_zero)
  have total: "unat (sum_pending x) + unat (sum_degraded x) + unat (sum_applied x) +
      unat (sum_superseded x) + unat (sum_compensated x) =
      count_where (\<lambda>d. dl_event_id d = e) (ob_deliveries o1)"
    unfolding counts count_event_def by (rule count_partition [OF rows])
  have open_rows: "\<not> settled d \<longleftrightarrow> dl_state d = RowPending \<and> dl_terminal_disposition d = None \<or>
      dl_state d = RowDegraded \<and> dl_terminal_disposition d = None" for d :: delivery_row
    by (cases "dl_state d") (auto simp: settled_def)
  have applied_row: "dl_state d = RowApplied \<longleftrightarrow>
      \<not> (dl_state d = RowPending \<and> dl_terminal_disposition d = None) \<and>
      \<not> (dl_state d = RowDegraded \<and> dl_terminal_disposition d = None) \<and>
      dl_terminal_disposition d \<noteq> Some TerminalSuperseded \<and>
      dl_terminal_disposition d \<noteq> Some TerminalCompensated" if "d \<in> set (ob_deliveries o1)" for d
    using rows that
    by (cases "dl_state d"; cases "dl_terminal_disposition d"; cases "the (dl_terminal_disposition d)") auto
  have open_iff: "(\<exists>d \<in> set (ob_deliveries o1). dl_event_id d = e \<and> \<not> settled d) \<longleftrightarrow>
      unat (sum_pending x) \<noteq> 0 \<or> unat (sum_degraded x) \<noteq> 0"
    unfolding counts count_event_def count_where_0 open_rows by blast
  have applied_iff: "(\<forall>d \<in> set (ob_deliveries o1). dl_event_id d = e \<longrightarrow> dl_state d = RowApplied) \<longleftrightarrow>
      unat (sum_pending x) = 0 \<and> unat (sum_degraded x) = 0 \<and>
      unat (sum_superseded x) = 0 \<and> unat (sum_compensated x) = 0"
    unfolding counts count_event_def count_where_0 using applied_row by blast
  have state: "summary_state x = DeliveryApplied \<longleftrightarrow> unat (sum_pending x) = 0 \<and> unat (sum_degraded x) = 0 \<and>
      unat (sum_superseded x) = 0 \<and> unat (sum_compensated x) = 0"
    "summary_state x \<in> {DeliveryPending, DeliveryDegraded} \<longleftrightarrow>
      unat (sum_pending x) \<noteq> 0 \<or> unat (sum_degraded x) \<noteq> 0"
    unfolding summary_state_def pos by auto
  show ?thesis using total open_iff applied_iff state by blast
qed

theorem summary_counts_every_delivery_witness:
  "\<exists>x. projection_summary ''outbox:1'' (attempts (outbox_step (\<lambda>_. [])) demo_calls empty_outbox) = Inr x \<and>
     summary_state x = DeliverySuperseded \<and>
     unat (sum_pending x) + unat (sum_degraded x) + unat (sum_applied x) +
       unat (sum_superseded x) + unat (sum_compensated x) = 2"
proof -
  let ?o = "attempts (outbox_step (\<lambda>_. [])) demo_calls empty_outbox"
  have eval: "(case projection_summary ''outbox:1'' ?o of Inl _ \<Rightarrow> False
      | Inr x \<Rightarrow> summary_state x = DeliverySuperseded) \<and>
      count_where (\<lambda>d. dl_event_id d = ''outbox:1'') (ob_deliveries ?o) = 2"
    by code_simp
  then obtain x where x: "projection_summary ''outbox:1'' ?o = Inr x" "summary_state x = DeliverySuperseded"
    by (cases "projection_summary ''outbox:1'' ?o") simp_all
  from summary_counts_every_delivery [OF x(1)] eval have
    "unat (sum_pending x) + unat (sum_degraded x) + unat (sum_applied x) +
       unat (sum_superseded x) + unat (sum_compensated x) = 2"
    by simp
  with x show ?thesis by blast
qed

end
