(* ===== verification/File_Journal.thy ===== *)
theory File_Journal
  imports Outbox
begin

text \<open>
  The recovery journal of a file owner (\<open>FileMutationJournal\<close> in
  \<open>openlife-core/src/persistence_outbox.rs\<close>): a write is prepared with the digests of the file
  before and after it, the file is renamed, and after a crash the digest that is found decides
  whether the write happened. Only then may projections follow it, and only when they have may
  the next write of that aggregate be prepared.

  As in the outbox the tables are lists of rows, an operation is one transaction, UUIDs and the
  time are arguments.
\<close>

section \<open>Data\<close>

datatype FileMutationState = FilePrepared | FileCommitted | FileNotCommitted | FileDegraded

fun file_state_as_str :: "FileMutationState \<Rightarrow> string" where
  "file_state_as_str FilePrepared = ''prepared''"
| "file_state_as_str FileCommitted = ''committed''"
| "file_state_as_str FileNotCommitted = ''not_committed''"
| "file_state_as_str FileDegraded = ''degraded''"

record file_mutation_row =
  fm_operation_id :: string
  fm_aggregate_kind :: string
  fm_aggregate_id :: string
  fm_mutation_kind :: string
  fm_before_digest :: string
  fm_after_digest :: string
  fm_state :: FileMutationState
  fm_last_error_digest :: "string option"
  fm_created_at :: int
  fm_updated_at :: int

record file_delivery_row =
  fd_operation_id :: string
  fd_projection_target :: string
  fd_state :: row_state
  fd_attempt_count :: nat
  fd_last_error_digest :: "string option"
  fd_updated_at :: int

record active_operation_row =
  ao_aggregate_kind :: string
  ao_aggregate_id :: string
  ao_operation_id :: string

record journal =
  jn_mutations :: "file_mutation_row list"
  jn_active :: "active_operation_row list"
  jn_deliveries :: "file_delivery_row list"

definition empty_journal :: journal where
  "empty_journal = \<lparr>jn_mutations = [], jn_active = [], jn_deliveries = []\<rparr>"

record FileMutationReceipt =
  fr_operation_id :: string
  fr_aggregate_kind :: string
  fr_aggregate_id :: string
  fr_mutation_kind :: string
  fr_before_digest :: string
  fr_after_digest :: string
  fr_state :: FileMutationState
  fr_created_at :: int

record FileProjectionDelivery =
  fp_operation_id :: string
  fp_aggregate_kind :: string
  fp_aggregate_id :: string
  fp_mutation_kind :: string
  fp_before_digest :: string
  fp_after_digest :: string
  fp_projection_target :: string
  fp_state :: ProjectionDeliveryState
  fp_attempt_count :: "32 word"
  fp_last_error_digest :: "string option"

section \<open>Queries\<close>

definition find_mutation :: "journal \<Rightarrow> string \<Rightarrow> file_mutation_row option" where
  "find_mutation j operation_id = find (\<lambda>m. fm_operation_id m = operation_id) (jn_mutations j)"

definition file_of :: "string \<Rightarrow> string \<Rightarrow> file_mutation_row \<Rightarrow> bool" where
  "file_of kind aid m \<longleftrightarrow> fm_aggregate_kind m = kind \<and> fm_aggregate_id m = aid"

definition open_projection :: "string \<Rightarrow> file_delivery_row \<Rightarrow> bool" where
  "open_projection operation_id d \<longleftrightarrow> fd_operation_id d = operation_id \<and> fd_state d \<noteq> RowApplied"

definition unresolved :: "journal \<Rightarrow> file_mutation_row \<Rightarrow> bool" where
  "unresolved j m \<longleftrightarrow>
     fm_state m \<in> {FilePrepared, FileDegraded} \<or>
     fm_state m = FileCommitted \<and>
       exists_where (open_projection (fm_operation_id m)) (jn_deliveries j)"

definition first_unresolved :: "journal \<Rightarrow> string \<Rightarrow> string \<Rightarrow> file_mutation_row option" where
  "first_unresolved j kind aid =
     (case sort_key fm_created_at
             (filter (\<lambda>m. file_of kind aid m \<and> unresolved j m) (jn_mutations j)) of
        [] \<Rightarrow> None
      | m # _ \<Rightarrow> Some m)"

definition unresolved_operation ::
  "string \<Rightarrow> string \<Rightarrow> journal \<Rightarrow> outbox_error + (string \<times> FileMutationState) option"
where
  "unresolved_operation kind aid j =
     res_bind (first_failure
       [validate_identifier ''aggregate_kind'' kind, validate_identifier ''aggregate_id'' aid]) (\<lambda>_.
     Inr (map_option (\<lambda>m. (fm_operation_id m, fm_state m)) (first_unresolved j kind aid)))"

definition operation_state :: "string \<Rightarrow> journal \<Rightarrow> outbox_error + FileMutationState" where
  "operation_state operation_id j =
     res_bind (ok_or (OutboxNoRows []) (find_mutation j operation_id)) (\<lambda>m.
     Inr (fm_state m))"

section \<open>Preparing a write\<close>

definition new_file_mutation ::
  "string \<Rightarrow> string \<Rightarrow> string \<Rightarrow> string \<Rightarrow> string \<Rightarrow> string \<Rightarrow> int \<Rightarrow> file_mutation_row"
where
  "new_file_mutation operation_id kind aid mutation_kind before after_digest now =
     \<lparr>fm_operation_id = operation_id, fm_aggregate_kind = kind, fm_aggregate_id = aid,
      fm_mutation_kind = mutation_kind, fm_before_digest = before,
      fm_after_digest = after_digest, fm_state = FilePrepared, fm_last_error_digest = None,
      fm_created_at = now, fm_updated_at = now\<rparr>"

definition new_file_delivery :: "string \<Rightarrow> int \<Rightarrow> string \<Rightarrow> file_delivery_row" where
  "new_file_delivery operation_id now target =
     \<lparr>fd_operation_id = operation_id, fd_projection_target = target, fd_state = RowPending,
      fd_attempt_count = 0, fd_last_error_digest = None, fd_updated_at = now\<rparr>"

definition receipt_of :: "file_mutation_row \<Rightarrow> FileMutationReceipt" where
  "receipt_of m =
     \<lparr>fr_operation_id = fm_operation_id m, fr_aggregate_kind = fm_aggregate_kind m,
      fr_aggregate_id = fm_aggregate_id m, fr_mutation_kind = fm_mutation_kind m,
      fr_before_digest = fm_before_digest m, fr_after_digest = fm_after_digest m,
      fr_state = fm_state m, fr_created_at = fm_created_at m\<rparr>"

definition prepare ::
  "string \<Rightarrow> string \<Rightarrow> string \<Rightarrow> string \<Rightarrow> string \<Rightarrow> string list \<Rightarrow> string \<Rightarrow> int \<Rightarrow> journal \<Rightarrow>
   outbox_error + FileMutationReceipt \<times> journal"
where
  "prepare kind aid mutation_kind before after_digest targets uuid now j =
     res_bind (first_failure
       [validate_identifier ''aggregate_kind'' kind, validate_identifier ''aggregate_id'' aid,
        validate_identifier ''mutation_kind'' mutation_kind, validate_payload_digest before,
        validate_payload_digest after_digest,
        bail_if (before = after_digest)
          (OutboxBail ''canonical file mutation before and after digests are equal''),
        validate_targets targets]) (\<lambda>_.
     let operation_id = ''file-outbox:'' @ uuid;
         m = new_file_mutation operation_id kind aid mutation_kind before after_digest now
     in case first_unresolved j kind aid of
          Some u \<Rightarrow> Inl (OutboxBail (''canonical file mutation blocked by unresolved operation '' @
            fm_operation_id u))
        | None \<Rightarrow>
            if find_mutation j operation_id \<noteq> None \<or>
               exists_where (\<lambda>a. ao_aggregate_kind a = kind \<and> ao_aggregate_id a = aid \<or>
                 ao_operation_id a = operation_id) (jn_active j) \<or>
               exists_where (\<lambda>d. fd_operation_id d = operation_id \<and>
                 fd_projection_target d \<in> set targets) (jn_deliveries j)
            then Inl OutboxConstraint
            else Inr (receipt_of m,
              \<lparr>jn_mutations = jn_mutations j @ [m],
               jn_active = jn_active j @ [\<lparr>ao_aggregate_kind = kind, ao_aggregate_id = aid,
                 ao_operation_id = operation_id\<rparr>],
               jn_deliveries = jn_deliveries j @ map (new_file_delivery operation_id now) targets\<rparr>))"

section \<open>Resolving it\<close>

definition set_mutation_state ::
  "string \<Rightarrow> FileMutationState \<Rightarrow> string option \<Rightarrow> int \<Rightarrow> journal \<Rightarrow> journal"
where
  "set_mutation_state operation_id st err now j =
     j\<lparr>jn_mutations := update_where (\<lambda>m. fm_operation_id m = operation_id)
         (\<lambda>m. m\<lparr>fm_state := st, fm_last_error_digest := err, fm_updated_at := now\<rparr>)
         (jn_mutations j)\<rparr>"

definition set_projections ::
  "string \<Rightarrow> row_state \<Rightarrow> string option \<Rightarrow> int \<Rightarrow> journal \<Rightarrow> journal"
where
  "set_projections operation_id st err now j =
     j\<lparr>jn_deliveries := update_where (open_projection operation_id)
         (\<lambda>d. d\<lparr>fd_state := st, fd_attempt_count := fd_attempt_count d + 1,
                fd_last_error_digest := err, fd_updated_at := now\<rparr>) (jn_deliveries j)\<rparr>"

definition release :: "string \<Rightarrow> journal \<Rightarrow> journal" where
  "release operation_id j =
     j\<lparr>jn_active := filter (\<lambda>a. ao_operation_id a \<noteq> operation_id) (jn_active j)\<rparr>"

definition next_file_state :: "file_mutation_row \<Rightarrow> string \<Rightarrow> FileMutationState" where
  "next_file_state m observed =
     (if observed = fm_after_digest m then FileCommitted
      else if observed = fm_before_digest m \<and> fm_state m = FilePrepared then FileNotCommitted
      else FileDegraded)"

definition observe_canonical_digest ::
  "(string \<Rightarrow> string) \<Rightarrow> string \<Rightarrow> string \<Rightarrow> int \<Rightarrow> journal \<Rightarrow>
   outbox_error + FileMutationState \<times> journal"
where
  "observe_canonical_digest sha operation_id observed now j =
     res_bind (validate_payload_digest observed) (\<lambda>_.
     res_bind (ok_or (OutboxNoRows []) (find_mutation j operation_id)) (\<lambda>m.
     let st = next_file_state m observed;
         err = (if st = FileDegraded
                then Some (metadata_digest sha ''canonical_file_digest_diverged'') else None);
         j1 = set_mutation_state operation_id st err now j;
         j2 = (if st = FileNotCommitted then set_projections operation_id RowApplied None now j1
               else if st = FileDegraded then set_projections operation_id RowDegraded err now j1
               else j1);
         j3 = (if st = FileNotCommitted \<or>
                  st = FileCommitted \<and>
                    count_where (open_projection operation_id) (jn_deliveries j2) = 0
               then release operation_id j2 else j2)
     in Inr (st, j3)))"

definition mark_not_committed :: "string \<Rightarrow> int \<Rightarrow> journal \<Rightarrow> outbox_error + unit \<times> journal" where
  "mark_not_committed operation_id now j =
     res_bind (validate_identifier ''operation_id'' operation_id) (\<lambda>_.
     res_bind (ok_or (OutboxNoRows []) (find_mutation j operation_id)) (\<lambda>m.
     if fm_state m = FileCommitted
     then Inl (OutboxBail ''committed canonical file mutation cannot become not_committed'')
     else if fm_state m = FileDegraded
     then Inl (OutboxBail ''degraded canonical file mutation requires digest reconciliation'')
     else Inr ((), release operation_id
            (set_projections operation_id RowApplied None now
              (set_mutation_state operation_id FileNotCommitted None now j)))))"

definition mark_degraded ::
  "(string \<Rightarrow> string) \<Rightarrow> string \<Rightarrow> string \<Rightarrow> int \<Rightarrow> journal \<Rightarrow> outbox_error + unit \<times> journal"
where
  "mark_degraded sha operation_id err now j =
     res_bind (validate_identifier ''operation_id'' operation_id) (\<lambda>_.
     res_bind (ok_or (OutboxNoRows []) (find_mutation j operation_id)) (\<lambda>m.
     if fm_state m = FileNotCommitted
     then Inl (OutboxBail ''not_committed canonical file mutation cannot become degraded'')
     else
       let digest = Some (metadata_digest sha err)
       in Inr ((), set_projections operation_id RowDegraded digest now
            (set_mutation_state operation_id FileDegraded digest now j))))"

text \<open>Each observation is a transaction of its own; the first error ends the loop.\<close>

fun observe_all ::
  "(string \<Rightarrow> string) \<Rightarrow> string list \<Rightarrow> string \<Rightarrow> int \<Rightarrow> journal \<Rightarrow>
   (outbox_error + (string \<times> FileMutationState) list) \<times> journal"
where
  "observe_all sha [] observed now j = (Inr [], j)"
| "observe_all sha (i # is) observed now j =
     (case observe_canonical_digest sha i observed now j of
        Inl err \<Rightarrow> (Inl err, j)
      | Inr (st, j1) \<Rightarrow>
          (case observe_all sha is observed now j1 of
             (Inl err, j2) \<Rightarrow> (Inl err, j2)
           | (Inr rest, j2) \<Rightarrow> (Inr ((i, st) # rest), j2)))"

definition pending_operations :: "journal \<Rightarrow> string list" where
  "pending_operations j =
     map fm_operation_id (sort_key fm_created_at
       (filter (\<lambda>m. fm_state m \<in> {FilePrepared, FileDegraded}) (jn_mutations j)))"

definition reconcile_prepared ::
  "(string \<Rightarrow> string) \<Rightarrow> string \<Rightarrow> int \<Rightarrow> journal \<Rightarrow>
   (outbox_error + (string \<times> FileMutationState) list) \<times> journal"
where
  "reconcile_prepared sha observed now j = observe_all sha (pending_operations j) observed now j"

section \<open>Projections\<close>

definition projectable :: "journal \<Rightarrow> file_delivery_row \<Rightarrow> bool" where
  "projectable j d \<longleftrightarrow>
     fd_state d \<noteq> RowApplied \<and>
     map_option fm_state (find_mutation j (fd_operation_id d)) = Some FileCommitted"

definition row_to_file_delivery :: "journal \<Rightarrow> file_delivery_row \<Rightarrow> outbox_error + FileProjectionDelivery" where
  "row_to_file_delivery j d =
     res_bind (ok_or (OutboxNoRows []) (find_mutation j (fd_operation_id d))) (\<lambda>m.
     res_bind (to_u32_count (fd_attempt_count d)) (\<lambda>n.
     Inr \<lparr>fp_operation_id = fm_operation_id m, fp_aggregate_kind = fm_aggregate_kind m,
          fp_aggregate_id = fm_aggregate_id m, fp_mutation_kind = fm_mutation_kind m,
          fp_before_digest = fm_before_digest m, fp_after_digest = fm_after_digest m,
          fp_projection_target = fd_projection_target d,
          fp_state = row_state_parse (fd_state d), fp_attempt_count = n,
          fp_last_error_digest = fd_last_error_digest d\<rparr>))"

definition list_replayable_projections :: "nat \<Rightarrow> journal \<Rightarrow> outbox_error + FileProjectionDelivery list" where
  "list_replayable_projections limit j =
     res_fold (\<lambda>acc d. res_bind (row_to_file_delivery j d) (\<lambda>x. Inr (acc @ [x]))) []
       (take (min 500 (max 1 limit))
         (sort_key (\<lambda>d. (fd_updated_at d, fd_operation_id d))
           (filter (projectable j) (jn_deliveries j))))"

definition is_projection :: "string \<Rightarrow> string \<Rightarrow> file_delivery_row \<Rightarrow> bool" where
  "is_projection operation_id target d \<longleftrightarrow>
     fd_operation_id d = operation_id \<and> fd_projection_target d = target"

definition mark_projection_applied :: "string \<Rightarrow> string \<Rightarrow> int \<Rightarrow> journal \<Rightarrow> outbox_error + unit \<times> journal" where
  "mark_projection_applied operation_id target now j =
     (let p = (\<lambda>d. is_projection operation_id target d \<and> fd_state d \<noteq> RowApplied);
          changed = count_where p (jn_deliveries j);
          j1 = j\<lparr>jn_deliveries := update_where p
                 (\<lambda>d. d\<lparr>fd_state := RowApplied, fd_attempt_count := fd_attempt_count d + 1,
                        fd_last_error_digest := None, fd_updated_at := now\<rparr>) (jn_deliveries j)\<rparr>
      in if changed = 0 \<and>
            \<not> exists_where (\<lambda>d. is_projection operation_id target d \<and> fd_state d = RowApplied)
                (jn_deliveries j1)
         then Inl (OutboxBail ''canonical file projection delivery missing'')
         else Inr ((), if count_where (open_projection operation_id) (jn_deliveries j1) = 0
                       then release operation_id j1 else j1))"

definition mark_projection_degraded ::
  "(string \<Rightarrow> string) \<Rightarrow> string \<Rightarrow> string \<Rightarrow> string \<Rightarrow> int \<Rightarrow> journal \<Rightarrow> outbox_error + unit \<times> journal"
where
  "mark_projection_degraded sha operation_id target err now j =
     (let p = (\<lambda>d. is_projection operation_id target d \<and> fd_state d \<noteq> RowApplied)
      in if count_where p (jn_deliveries j) = 0
         then Inl (OutboxBail ''canonical file projection delivery missing or already applied'')
         else Inr ((), j\<lparr>jn_deliveries := update_where p
                (\<lambda>d. d\<lparr>fd_state := RowDegraded, fd_attempt_count := fd_attempt_count d + 1,
                       fd_last_error_digest := Some (metadata_digest sha err),
                       fd_updated_at := now\<rparr>) (jn_deliveries j)\<rparr>))"

end
