(* ===== verification/File_Safety.thy ===== *)
theory File_Safety
  imports File_Journal "HOL-Library.Code_Target_Nat"
begin

text \<open>
  The journal under any calls: \<open>journal_inv\<close> is the invariant that makes the table of active
  operations agree with the unresolved ones, and the properties say how a prepared write is
  decided after a crash and when it can no longer be.
\<close>

section \<open>Calls\<close>

datatype journal_call =
  CallPrepare string string string string string "string list" string
| CallObserve string string
| CallReconcile string
| CallNotCommitted string
| CallFileDegraded string string
| CallProjected string string
| CallProjectionFailed string string string

definition next_journal :: "journal \<Rightarrow> outbox_error + 'a \<times> journal \<Rightarrow> journal" where
  "next_journal j r = (case r of Inl _ \<Rightarrow> j | Inr (_, j') \<Rightarrow> j')"

fun journal_next :: "(string \<Rightarrow> string) \<Rightarrow> int \<times> journal_call \<Rightarrow> journal \<Rightarrow> journal" where
  "journal_next sha (now, CallPrepare kind aid mutation before after_digest targets uuid) j =
     next_journal j (prepare kind aid mutation before after_digest targets uuid now j)"
| "journal_next sha (now, CallObserve operation_id observed) j =
     next_journal j (observe_canonical_digest sha operation_id observed now j)"
| "journal_next sha (now, CallReconcile observed) j = snd (reconcile_prepared sha observed now j)"
| "journal_next sha (now, CallNotCommitted operation_id) j =
     next_journal j (mark_not_committed operation_id now j)"
| "journal_next sha (now, CallFileDegraded operation_id err) j =
     next_journal j (mark_degraded sha operation_id err now j)"
| "journal_next sha (now, CallProjected operation_id target) j =
     next_journal j (mark_projection_applied operation_id target now j)"
| "journal_next sha (now, CallProjectionFailed operation_id target err) j =
     next_journal j (mark_projection_degraded sha operation_id target err now j)"

definition journal_after :: "(string \<Rightarrow> string) \<Rightarrow> (int \<times> journal_call) list \<Rightarrow> journal" where
  "journal_after sha cs = fold (journal_next sha) cs empty_journal"

section \<open>The invariant\<close>

definition active_ok :: "journal \<Rightarrow> active_operation_row \<Rightarrow> bool" where
  "active_ok j a \<longleftrightarrow>
     (\<exists>m \<in> set (jn_mutations j). fm_operation_id m = ao_operation_id a \<and>
        file_of (ao_aggregate_kind a) (ao_aggregate_id a) m \<and> unresolved j m)"

definition journal_inv :: "journal \<Rightarrow> bool" where
  "journal_inv j \<longleftrightarrow>
     distinct (map fm_operation_id (jn_mutations j)) \<and>
     fd_operation_id ` set (jn_deliveries j) \<subseteq> fm_operation_id ` set (jn_mutations j) \<and>
     (\<forall>a \<in> set (jn_active j). active_ok j a)"

lemma journal_inv_empty: "journal_inv empty_journal"
  by (simp add: journal_inv_def empty_journal_def)

text \<open>A call that touches one operation: its row, its deliveries, its active row.\<close>

definition same_identity :: "file_mutation_row \<Rightarrow> file_mutation_row \<Rightarrow> bool" where
  "same_identity m m' \<longleftrightarrow>
     fm_operation_id m' = fm_operation_id m \<and> fm_aggregate_kind m' = fm_aggregate_kind m \<and>
     fm_aggregate_id m' = fm_aggregate_id m"

lemma unresolved_other:
  assumes "fm_operation_id m \<noteq> x"
    and "jn_deliveries j' = update_where (\<lambda>d. fd_operation_id d = x \<and> q d) g (jn_deliveries j)"
    and "\<And>d. fd_operation_id (g d) = fd_operation_id d"
  shows "unresolved j' m = unresolved j m"
  using assms unfolding unresolved_def exists_where_iff
  by (auto simp: open_projection_def set_update_where split: if_splits)

lemma touch_inv:
  assumes inv: "journal_inv j"
    and muts: "jn_mutations j' = update_where (\<lambda>m. fm_operation_id m = x) f (jn_mutations j)"
    and f: "\<And>m. same_identity m (f m)"
    and dels: "jn_deliveries j' = update_where (\<lambda>d. fd_operation_id d = x \<and> q d) g (jn_deliveries j)"
    and g: "\<And>d. fd_operation_id (g d) = fd_operation_id d"
    and act: "set (jn_active j') \<subseteq> set (jn_active j)"
    and x: "\<And>m a. m \<in> set (jn_mutations j) \<Longrightarrow> fm_operation_id m = x \<Longrightarrow> a \<in> set (jn_active j') \<Longrightarrow>
      ao_operation_id a = x \<Longrightarrow> unresolved j m \<Longrightarrow> unresolved j' (f m)"
  shows "journal_inv j'"
proof -
  have ids: "map fm_operation_id (jn_mutations j') = map fm_operation_id (jn_mutations j)"
    unfolding muts using f by (intro map_update_where) (simp add: same_identity_def)
  have "map fd_operation_id (jn_deliveries j') = map fd_operation_id (jn_deliveries j)"
    unfolding dels using g by (intro map_update_where) simp
  then have "fd_operation_id ` set (jn_deliveries j') = fd_operation_id ` set (jn_deliveries j)"
    by (metis set_map)
  moreover have "fm_operation_id ` set (jn_mutations j') = fm_operation_id ` set (jn_mutations j)"
    using ids by (metis set_map)
  moreover have "active_ok j' a" if a: "a \<in> set (jn_active j')" for a
  proof -
    from inv a act obtain m where m: "m \<in> set (jn_mutations j)" "fm_operation_id m = ao_operation_id a"
      "file_of (ao_aggregate_kind a) (ao_aggregate_id a) m" "unresolved j m"
      unfolding journal_inv_def active_ok_def by blast
    show ?thesis
    proof (cases "fm_operation_id m = x")
      case True
      have "f m \<in> set (jn_mutations j')" using m(1) True by (auto simp: muts set_update_where)
      moreover have "unresolved j' (f m)" using x [OF m(1) True a] m(2,4) True by simp
      ultimately show ?thesis
        using m(2,3) f [of m] unfolding active_ok_def
        by (intro bexI [of _ "f m"]) (auto simp: same_identity_def file_of_def)
    next
      case False
      then have "m \<in> set (jn_mutations j')" using m(1) by (auto simp: muts set_update_where)
      moreover have "unresolved j' m" using m(4) unresolved_other [OF False dels g] by simp
      ultimately show ?thesis using m(2,3) unfolding active_ok_def by blast
    qed
  qed
  ultimately show ?thesis using inv ids unfolding journal_inv_def by simp
qed

lemma update_where_id: "update_where p (\<lambda>x. x) xs = xs"
  by (simp add: update_where_def)

lemma release_tables:
  "jn_mutations (release x j) = jn_mutations j" "jn_deliveries (release x j) = jn_deliveries j"
  "jn_active (release x j) = filter (\<lambda>a. ao_operation_id a \<noteq> x) (jn_active j)"
  by (simp_all add: release_def)

lemma unresolved_release: "unresolved (release x j) = unresolved j"
  by (simp add: fun_eq_iff unresolved_def release_tables)

lemma open_projection_abs: "open_projection x = (\<lambda>d. fd_operation_id d = x \<and> fd_state d \<noteq> RowApplied)"
  by (simp add: fun_eq_iff open_projection_def)

lemma settle_tables:
  "jn_mutations (set_projections x st err now j) = jn_mutations j"
  "jn_active (set_projections x st err now j) = jn_active j"
  "jn_deliveries (set_mutation_state x st' err now j) = jn_deliveries j"
  "jn_active (set_mutation_state x st' err now j) = jn_active j"
  "jn_mutations (set_mutation_state x st' err now j) = update_where (\<lambda>m. fm_operation_id m = x)
     (\<lambda>m. m\<lparr>fm_state := st', fm_last_error_digest := err, fm_updated_at := now\<rparr>) (jn_mutations j)"
  "jn_deliveries (set_projections x st err now j) =
     update_where (\<lambda>d. fd_operation_id d = x \<and> fd_state d \<noteq> RowApplied)
     (\<lambda>d. d\<lparr>fd_state := st, fd_attempt_count := fd_attempt_count d + 1,
           fd_last_error_digest := err, fd_updated_at := now\<rparr>) (jn_deliveries j)"
  by (simp_all add: set_projections_def set_mutation_state_def open_projection_abs)

lemma settle_inv:
  assumes "journal_inv j"
  shows "journal_inv (release x (set_projections x RowApplied err now (set_mutation_state x st err' now j)))"
    and "journal_inv (set_projections x RowDegraded err now (set_mutation_state x FileDegraded err' now j))"
    and "journal_inv (release x (set_mutation_state x st err' now j))"
    and "exists_where (open_projection x) (jn_deliveries j) \<Longrightarrow>
      journal_inv (set_mutation_state x FileCommitted err' now j)"
proof -
  let ?none = "\<lambda>d :: file_delivery_row. False" and ?open = "\<lambda>d. fd_state d \<noteq> RowApplied"
  let ?f = "\<lambda>st m. m\<lparr>fm_state := st, fm_last_error_digest := err', fm_updated_at := now\<rparr>"
  let ?g = "\<lambda>st d. d\<lparr>fd_state := st, fd_attempt_count := fd_attempt_count d + 1,
      fd_last_error_digest := err, fd_updated_at := now\<rparr>"
  note tables = release_tables settle_tables same_identity_def
  show "journal_inv (release x (set_projections x RowApplied err now (set_mutation_state x st err' now j)))"
    by (rule touch_inv [OF assms, where x = x and q = ?open and f = "?f st" and g = "?g RowApplied"])
      (simp_all add: tables)
  show "journal_inv (set_projections x RowDegraded err now (set_mutation_state x FileDegraded err' now j))"
    by (rule touch_inv [OF assms, where x = x and q = ?open and f = "?f FileDegraded" and g = "?g RowDegraded"])
      (simp_all add: tables unresolved_def)
  show "journal_inv (release x (set_mutation_state x st err' now j))"
    by (rule touch_inv [OF assms, where x = x and q = ?none and f = "?f st" and g = "\<lambda>d. d"])
      (simp_all add: tables update_where_id)
  assume "exists_where (open_projection x) (jn_deliveries j)"
  then show "journal_inv (set_mutation_state x FileCommitted err' now j)"
    by (intro touch_inv [OF assms, where x = x and q = ?none and f = "?f FileCommitted" and g = "\<lambda>d. d"])
      (simp_all add: tables update_where_id unresolved_def)
qed

lemma observe_inv:
  assumes inv: "journal_inv j" and call: "observe_canonical_digest sha x observed now j = Inr (st, j')"
  shows "journal_inv j'"
proof -
  from call obtain m where m: "find_mutation j x = Some m" and st: "st = next_file_state m observed"
    by (auto simp: observe_canonical_digest_def Let_def)
  show ?thesis
  proof (cases st)
    case FilePrepared
    then show ?thesis using st by (auto simp: next_file_state_def split: if_splits)
  next
    case FileCommitted
    with call m st have "j' = (if count_where (open_projection x) (jn_deliveries j) = 0
        then release x (set_mutation_state x FileCommitted None now j)
        else set_mutation_state x FileCommitted None now j)"
      by (auto simp: observe_canonical_digest_def Let_def settle_tables simp del: count_where_0)
    then show ?thesis using settle_inv(3,4) [OF inv] by (auto split: if_splits)
  next
    case FileNotCommitted
    with call m st show ?thesis
      using settle_inv(1) [OF inv] by (auto simp: observe_canonical_digest_def Let_def)
  next
    case FileDegraded
    with call m st show ?thesis
      using settle_inv(2) [OF inv] by (auto simp: observe_canonical_digest_def Let_def)
  qed
qed

lemma observe_all_inv: "journal_inv j \<Longrightarrow> journal_inv (snd (observe_all sha is observed now j))"
proof (induction "is" arbitrary: j)
  case (Cons i "is")
  show ?case
  proof (cases "observe_canonical_digest sha i observed now j")
    case (Inr r)
    obtain st j1 where r: "r = (st, j1)" by fastforce
    obtain res j2 where rest: "observe_all sha is observed now j1 = (res, j2)" by fastforce
    have "journal_inv j2" using Cons.IH [OF observe_inv [OF Cons.prems Inr [unfolded r]]] rest by simp
    then show ?thesis by (cases res) (simp_all add: Inr r rest)
  qed (simp add: Cons.prems)
qed simp

lemma projection_inv:
  assumes inv: "journal_inv j"
    and keep: "\<not> rel \<Longrightarrow> exists_where (open_projection x) (jn_deliveries j) \<Longrightarrow>
      exists_where (open_projection x) (update_where (\<lambda>d. fd_operation_id d = x \<and> q d) g (jn_deliveries j))"
    and g: "\<And>d. fd_operation_id (g d) = fd_operation_id d"
  defines "j1 \<equiv> j\<lparr>jn_deliveries := update_where (\<lambda>d. fd_operation_id d = x \<and> q d) g (jn_deliveries j)\<rparr>"
  shows "journal_inv (if rel then release x j1 else j1)"
proof (cases rel)
  case True
  have "journal_inv (release x j1)"
    by (rule touch_inv [OF inv _ _ _ g, where x = x and f = "\<lambda>m. m" and q = q])
      (auto simp: j1_def release_def update_where_id same_identity_def)
  with True show ?thesis by simp
next
  case False
  have "unresolved j1 m" if "fm_operation_id m = x" "unresolved j m" for m
    using keep [OF False] that by (auto simp: unresolved_def j1_def simp del: exists_where_iff)
  then have "journal_inv j1"
    by (intro touch_inv [OF inv _ _ _ g, where x = x and f = "\<lambda>m. m" and q = q])
      (auto simp: j1_def update_where_id same_identity_def)
  with False show ?thesis by simp
qed

lemma mark_projection_applied_inv:
  assumes "journal_inv j" "mark_projection_applied x target now j = Inr (u, j')"
  shows "journal_inv j'"
proof -
  let ?q = "\<lambda>d. fd_projection_target d = target \<and> fd_state d \<noteq> RowApplied"
  let ?g = "\<lambda>d. d\<lparr>fd_state := RowApplied, fd_attempt_count := fd_attempt_count d + 1,
      fd_last_error_digest := None, fd_updated_at := now\<rparr>"
  let ?ds = "update_where (\<lambda>d. fd_operation_id d = x \<and> ?q d) ?g (jn_deliveries j)"
  have "j' = (if count_where (open_projection x) ?ds = 0
      then release x (j\<lparr>jn_deliveries := ?ds\<rparr>) else j\<lparr>jn_deliveries := ?ds\<rparr>)"
    using assms(2) by (auto simp: mark_projection_applied_def Let_def is_projection_def conj_assoc
        simp del: count_where_0 exists_where_iff split: if_splits)
  moreover have "journal_inv (if count_where (open_projection x) ?ds = 0
      then release x (j\<lparr>jn_deliveries := ?ds\<rparr>) else j\<lparr>jn_deliveries := ?ds\<rparr>)"
    by (rule projection_inv [OF assms(1)]) simp_all
  ultimately show ?thesis by simp
qed

lemma mark_projection_degraded_inv:
  assumes "journal_inv j" "mark_projection_degraded sha x target err now j = Inr (u, j')"
  shows "journal_inv j'"
proof -
  let ?q = "\<lambda>d. fd_projection_target d = target \<and> fd_state d \<noteq> RowApplied"
  let ?g = "\<lambda>d. d\<lparr>fd_state := RowDegraded, fd_attempt_count := fd_attempt_count d + 1,
      fd_last_error_digest := Some (metadata_digest sha err), fd_updated_at := now\<rparr>"
  let ?ds = "update_where (\<lambda>d. fd_operation_id d = x \<and> ?q d) ?g (jn_deliveries j)"
  have "j' = j\<lparr>jn_deliveries := ?ds\<rparr>"
    using assms(2) by (simp add: mark_projection_degraded_def Let_def is_projection_def conj_assoc)
  moreover have "exists_where (open_projection x) ?ds" if "exists_where (open_projection x) (jn_deliveries j)"
  proof -
    from that obtain d where d: "d \<in> set (jn_deliveries j)" "open_projection x d" by auto
    let ?d = "if fd_operation_id d = x \<and> ?q d then ?g d else d"
    have "?d \<in> set ?ds" using d(1) unfolding set_update_where by (rule imageI)
    moreover have "open_projection x ?d" using d(2) by (simp add: open_projection_def)
    ultimately show ?thesis unfolding exists_where_iff by blast
  qed
  then have "journal_inv (if False then release x (j\<lparr>jn_deliveries := ?ds\<rparr>) else j\<lparr>jn_deliveries := ?ds\<rparr>)"
    by (intro projection_inv [OF assms(1)]) simp_all
  ultimately show ?thesis by simp
qed

lemma first_unresolved_None:
  "first_unresolved j kind aid = None \<longleftrightarrow>
     (\<forall>m \<in> set (jn_mutations j). file_of kind aid m \<longrightarrow> \<not> unresolved j m)"
proof -
  define ms where "ms = filter (\<lambda>m. file_of kind aid m \<and> unresolved j m) (jn_mutations j)"
  have "first_unresolved j kind aid = None \<longleftrightarrow> sort_key fm_created_at ms = []"
    unfolding first_unresolved_def ms_def [symmetric] by (simp split: list.split)
  also have "\<dots> \<longleftrightarrow> ms = []" by (metis set_empty set_sort)
  finally show ?thesis by (auto simp: ms_def filter_empty_conv)
qed

lemma first_unresolved_Some:
  assumes "first_unresolved j kind aid = Some m"
  shows "m \<in> set (jn_mutations j) \<and> file_of kind aid m \<and> unresolved j m"
proof -
  define ms where "ms = filter (\<lambda>m. file_of kind aid m \<and> unresolved j m) (jn_mutations j)"
  have "\<exists>rest. sort_key fm_created_at ms = m # rest"
    using assms unfolding first_unresolved_def ms_def [symmetric] by (simp split: list.splits)
  then have "m \<in> set (sort_key fm_created_at ms)" by (elim exE) (simp only: list.set_intros)
  then show ?thesis by (simp add: ms_def)
qed

lemma prepareE:
  assumes "prepare kind aid mutation before after_digest targets uuid now j = Inr (r, j1)"
  obtains m where "m = new_file_mutation (''file-outbox:'' @ uuid) kind aid mutation before after_digest now"
    "r = receipt_of m" "find_mutation j (fm_operation_id m) = None" "first_unresolved j kind aid = None"
    "before \<noteq> after_digest" "validate_payload_digest before = Inr ()"
    "validate_payload_digest after_digest = Inr ()" "validate_identifier ''aggregate_kind'' kind = Inr ()"
    "validate_identifier ''aggregate_id'' aid = Inr ()" "validate_identifier ''mutation_kind'' mutation = Inr ()"
    "validate_targets targets = Inr ()"
    "j1 = \<lparr>jn_mutations = jn_mutations j @ [m],
       jn_active = jn_active j @ [\<lparr>ao_aggregate_kind = kind, ao_aggregate_id = aid,
         ao_operation_id = fm_operation_id m\<rparr>],
       jn_deliveries = jn_deliveries j @ map (new_file_delivery (fm_operation_id m) now) targets\<rparr>"
  using assms unfolding prepare_def Let_def
  by (auto simp: new_file_mutation_def split: option.splits if_splits)

lemma prepare_inv:
  assumes inv: "journal_inv j"
    and call: "prepare kind aid mutation before after_digest targets uuid now j = Inr (r, j1)"
  shows "journal_inv j1"
  using call
proof (rule prepareE)
  fix m
  assume m: "m = new_file_mutation (''file-outbox:'' @ uuid) kind aid mutation before after_digest now"
    and none: "find_mutation j (fm_operation_id m) = None"
    and j1: "j1 = \<lparr>jn_mutations = jn_mutations j @ [m],
       jn_active = jn_active j @ [\<lparr>ao_aggregate_kind = kind, ao_aggregate_id = aid,
         ao_operation_id = fm_operation_id m\<rparr>],
       jn_deliveries = jn_deliveries j @ map (new_file_delivery (fm_operation_id m) now) targets\<rparr>"
  have fresh: "fm_operation_id m \<notin> fm_operation_id ` set (jn_mutations j)"
    using none by (auto simp: find_mutation_def find_None_iff)
  have "active_ok j1 a" if "active_ok j a" for a
    using that unfolding active_ok_def unresolved_def by (auto simp: j1)
  moreover have "active_ok j1 \<lparr>ao_aggregate_kind = kind, ao_aggregate_id = aid,
      ao_operation_id = fm_operation_id m\<rparr>"
    unfolding active_ok_def by (auto simp: j1 m new_file_mutation_def file_of_def unresolved_def)
  ultimately show ?thesis
    using inv fresh unfolding journal_inv_def
    by (auto simp: j1 new_file_delivery_def)
qed

lemma journal_next_inv:
  assumes "journal_inv j"
  shows "journal_inv (journal_next sha c j)"
proof (cases "(sha, c, j)" rule: journal_next.cases)
  case (2 sha' now x d j')
  then show ?thesis using assms
    by (auto simp: next_journal_def split: sum.splits dest: observe_inv)
next
  case (3 sha' now d j')
  then show ?thesis using assms by (simp add: reconcile_prepared_def observe_all_inv)
next
  case (4 sha' now x j')
  then show ?thesis using assms settle_inv(1) [OF assms]
    by (auto simp: next_journal_def mark_not_committed_def split: sum.splits)
next
  case (5 sha' now x err j')
  then show ?thesis using assms settle_inv(2) [OF assms]
    by (auto simp: next_journal_def mark_degraded_def Let_def split: sum.splits)
qed (use assms in \<open>auto simp: next_journal_def split: sum.splits
    dest: prepare_inv mark_projection_applied_inv mark_projection_degraded_inv\<close>)

lemma journal_after_inv: "journal_inv (journal_after sha cs)"
proof -
  have "journal_inv j \<Longrightarrow> journal_inv (fold (journal_next sha) cs j)" for j
    by (induction cs arbitrary: j) (simp_all add: journal_next_inv)
  then show ?thesis by (simp add: journal_after_def journal_inv_empty)
qed

section \<open>A prepared write after a crash\<close>

text \<open>The journal right after a write was prepared.\<close>

lemma find_mutation_update:
  assumes "find_mutation j x = Some m"
  shows "find_mutation (set_mutation_state x st err now j) x =
    Some (m\<lparr>fm_state := st, fm_last_error_digest := err, fm_updated_at := now\<rparr>)"
proof -
  have "fm_operation_id m = x" using assms unfolding find_mutation_def by (auto dest: find_Some_mem)
  then show ?thesis
    using assms unfolding find_mutation_def settle_tables
    by (subst find_update_where) simp_all
qed

lemma prepared_facts:
  assumes inv: "journal_inv j"
    and call: "prepare kind aid mutation before after_digest targets uuid now j = Inr (r, j1)"
  obtains m where "find_mutation j1 (fr_operation_id r) = Some m" "fm_state m = FilePrepared"
    "fm_before_digest m = before" "fm_after_digest m = after_digest" "file_of kind aid m"
    "fd_projection_target ` {d \<in> set (jn_deliveries j1). fd_operation_id d = fr_operation_id r} = set targets"
    "\<forall>d \<in> set (jn_deliveries j1). fd_operation_id d = fr_operation_id r \<longrightarrow> fd_state d = RowPending"
    "\<forall>m \<in> set (jn_mutations j1). file_of kind aid m \<and> fm_operation_id m \<noteq> fr_operation_id r \<longrightarrow>
       \<not> unresolved j1 m"
  using call
proof (rule prepareE)
  fix m
  assume m: "m = new_file_mutation (''file-outbox:'' @ uuid) kind aid mutation before after_digest now"
    and r: "r = receipt_of m" and none: "find_mutation j (fm_operation_id m) = None"
    and free: "first_unresolved j kind aid = None"
    and j1: "j1 = \<lparr>jn_mutations = jn_mutations j @ [m],
       jn_active = jn_active j @ [\<lparr>ao_aggregate_kind = kind, ao_aggregate_id = aid,
         ao_operation_id = fm_operation_id m\<rparr>],
       jn_deliveries = jn_deliveries j @ map (new_file_delivery (fm_operation_id m) now) targets\<rparr>"
  have op: "fr_operation_id r = fm_operation_id m" by (simp add: r receipt_of_def)
  have fresh: "fm_operation_id m \<notin> fm_operation_id ` set (jn_mutations j)"
    using none by (auto simp: find_mutation_def find_None_iff)
  have sub: "fd_operation_id ` set (jn_deliveries j) \<subseteq> fm_operation_id ` set (jn_mutations j)"
    using inv by (simp add: journal_inv_def)
  have old: "fd_operation_id d \<noteq> fm_operation_id m" if "d \<in> set (jn_deliveries j)" for d
    using fresh subsetD [OF sub imageI [OF that]] by metis
  have other: "unresolved j1 m' = unresolved j m'" if "fm_operation_id m' \<noteq> fm_operation_id m" for m'
    using that by (auto simp: unresolved_def j1 open_projection_def new_file_delivery_def)
  show thesis
  proof (rule that [of m])
    show "find_mutation j1 (fr_operation_id r) = Some m"
      using none by (simp add: op find_mutation_def j1 find_append)
    show "fm_state m = FilePrepared" "fm_before_digest m = before" "fm_after_digest m = after_digest"
      "file_of kind aid m" by (simp_all add: m new_file_mutation_def file_of_def)
    show "fd_projection_target ` {d \<in> set (jn_deliveries j1). fd_operation_id d = fr_operation_id r} = set targets"
    proof -
      have "{d \<in> set (jn_deliveries j1). fd_operation_id d = fr_operation_id r} =
          new_file_delivery (fm_operation_id m) now ` set targets"
        using old by (auto simp: j1 op new_file_delivery_def)
      then show ?thesis by (simp add: image_image new_file_delivery_def)
    qed
    show "\<forall>d \<in> set (jn_deliveries j1). fd_operation_id d = fr_operation_id r \<longrightarrow> fd_state d = RowPending"
      using old by (auto simp: j1 op new_file_delivery_def)
    show "\<forall>m \<in> set (jn_mutations j1). file_of kind aid m \<and> fm_operation_id m \<noteq> fr_operation_id r \<longrightarrow>
        \<not> unresolved j1 m"
      using free other by (auto simp: j1 op first_unresolved_None)
  qed
qed

text \<open>What an observation leaves of the operation and of its file.\<close>

lemma observed_file:
  assumes inv: "journal_inv j'" and find: "find_mutation j' x = Some m" "file_of kind aid m"
    and others: "\<forall>m' \<in> set (jn_mutations j'). file_of kind aid m' \<and> fm_operation_id m' \<noteq> x \<longrightarrow>
      \<not> unresolved j' m'"
    and ids: "validate_identifier ''aggregate_kind'' kind = Inr ()"
      "validate_identifier ''aggregate_id'' aid = Inr ()"
  shows "unresolved_operation kind aid j' =
    Inr (if unresolved j' m then Some (x, fm_state m) else None)"
proof -
  have m: "m \<in> set (jn_mutations j')" "fm_operation_id m = x"
    using find(1) unfolding find_mutation_def by (auto dest: find_Some_mem)
  have only: "m' = m" if "m' \<in> set (jn_mutations j')" "fm_operation_id m' = x" for m'
    using inv m that by (auto simp: journal_inv_def distinct_map inj_on_def)
  show ?thesis
  proof (cases "first_unresolved j' kind aid")
    case None
    then have "\<not> unresolved j' m" using m(1) find(2) unfolding first_unresolved_None by blast
    with None show ?thesis by (simp add: unresolved_operation_def ids)
  next
    case (Some u)
    from first_unresolved_Some [OF this] others have "fm_operation_id u = x" "u \<in> set (jn_mutations j')"
      "unresolved j' u" by blast+
    with only have "u = m" by blast
    with \<open>unresolved j' u\<close> m(2) Some show ?thesis by (simp add: unresolved_operation_def ids)
  qed
qed

text \<open>One observation of a prepared operation.\<close>

definition delivery_after :: "FileMutationState \<Rightarrow> row_state" where
  "delivery_after st = (case st of FileNotCommitted \<Rightarrow> RowApplied | FileDegraded \<Rightarrow> RowDegraded | _ \<Rightarrow> RowPending)"

definition open_of :: "string \<Rightarrow> journal \<Rightarrow> file_delivery_row set" where
  "open_of x j = {d \<in> set (jn_deliveries j). fd_operation_id d = x}"

lemma observed:
  assumes inv: "journal_inv j"
    and m: "find_mutation j x = Some m" "fm_state m = FilePrepared" "file_of kind aid m"
    and pending: "\<forall>d \<in> open_of x j. fd_state d = RowPending"
    and others: "\<forall>m' \<in> set (jn_mutations j). file_of kind aid m' \<and> fm_operation_id m' \<noteq> x \<longrightarrow>
      \<not> unresolved j m'"
    and valid: "validate_payload_digest digest = Inr ()"
  defines "st \<equiv> next_file_state m digest"
  obtains j' m' where "observe_canonical_digest sha x digest now j = Inr (st, j')"
    "journal_inv j'" "find_mutation j' x = Some m'" "fm_state m' = st" "file_of kind aid m'"
    "\<forall>m' \<in> set (jn_mutations j'). file_of kind aid m' \<and> fm_operation_id m' \<noteq> x \<longrightarrow> \<not> unresolved j' m'"
    "fd_projection_target ` open_of x j' = fd_projection_target ` open_of x j"
    "\<forall>d \<in> open_of x j'. fd_state d = delivery_after st"
proof -
  obtain j' where call: "observe_canonical_digest sha x digest now j = Inr (st, j')"
    by (simp add: observe_canonical_digest_def valid m(1) Let_def st_def)
  obtain err where muts: "jn_mutations j' = jn_mutations (set_mutation_state x st err now j)"
    using call by (auto simp: observe_canonical_digest_def valid m(1) Let_def st_def
        release_tables settle_tables(1) split: if_splits)
  let ?m = "m\<lparr>fm_state := st, fm_last_error_digest := err, fm_updated_at := now\<rparr>"
  have find: "find_mutation j' x = Some ?m"
    using find_mutation_update [OF m(1)] muts by (simp add: find_mutation_def)
  have prepared: "st \<noteq> FilePrepared" by (simp add: st_def next_file_state_def)
  obtain g :: "file_delivery_row \<Rightarrow> file_delivery_row"
    where dels: "jn_deliveries j' = update_where (\<lambda>d. fd_operation_id d = x \<and> fd_state d \<noteq> RowApplied) g (jn_deliveries j)"
      and g: "\<And>d. fd_operation_id (g d) = fd_operation_id d" "\<And>d. fd_projection_target (g d) = fd_projection_target d"
        "\<And>d. fd_state d = RowPending \<Longrightarrow> fd_state (g d) = delivery_after st"
  proof (cases "st \<in> {FileNotCommitted, FileDegraded}")
    case True
    then show ?thesis using call
      by (intro that [of "\<lambda>d. d\<lparr>fd_state := delivery_after st, fd_attempt_count := fd_attempt_count d + 1,
            fd_last_error_digest := (if st = FileDegraded
              then Some (metadata_digest sha ''canonical_file_digest_diverged'') else None),
            fd_updated_at := now\<rparr>"])
        (auto simp: observe_canonical_digest_def valid m(1) Let_def st_def [symmetric]
          release_tables settle_tables delivery_after_def)
  next
    case False
    with prepared have "st = FileCommitted" by (cases st) auto
    then show ?thesis using call
      by (intro that [of "\<lambda>d. d"])
        (auto simp: observe_canonical_digest_def valid m(1) Let_def st_def [symmetric]
          release_tables settle_tables delivery_after_def update_where_id split: if_splits)
  qed
  have set': "open_of x j' = g ` open_of x j"
    using pending g(1) by (auto simp: open_of_def dels set_update_where)
  show thesis
  proof (rule that [OF call observe_inv [OF inv call] find])
    show "fm_state ?m = st" "file_of kind aid ?m" using m(3) by (simp_all add: file_of_def)
    show "fd_projection_target ` open_of x j' = fd_projection_target ` open_of x j"
      by (simp add: set' image_image g)
    show "\<forall>d \<in> open_of x j'. fd_state d = delivery_after st"
      using pending g(3) by (auto simp: set')
    show "\<forall>m' \<in> set (jn_mutations j'). file_of kind aid m' \<and> fm_operation_id m' \<noteq> x \<longrightarrow> \<not> unresolved j' m'"
      using others unresolved_other [OF _ dels g(1)]
      by (auto simp: muts settle_tables set_update_where split: if_splits)
  qed
qed

definition projected_targets :: "string \<Rightarrow> journal \<Rightarrow> string set" where
  "projected_targets x j =
     fd_projection_target ` {d \<in> set (jn_deliveries j). fd_operation_id d = x \<and> projectable j d}"

lemma projected_targets:
  assumes "find_mutation j x = Some m" and "\<forall>d \<in> open_of x j. fd_state d = delivery_after st"
    and "fm_state m = st"
  shows "projected_targets x j =
    (if st = FileCommitted then fd_projection_target ` open_of x j else {})"
proof -
  have "{d \<in> set (jn_deliveries j). fd_operation_id d = x \<and> projectable j d} =
      (if st = FileCommitted then open_of x j else {})"
    using assms by (auto simp: projectable_def open_of_def delivery_after_def)
  then show ?thesis by (simp add: projected_targets_def)
qed

lemma unresolved_after:
  assumes "find_mutation j x = Some m" and "\<forall>d \<in> open_of x j. fd_state d = delivery_after st"
    and "fm_state m = st" "st \<noteq> FilePrepared"
  shows "unresolved j m \<longleftrightarrow> st = FileDegraded \<or> st = FileCommitted \<and> open_of x j \<noteq> {}"
proof -
  have "fm_operation_id m = x" using assms(1) unfolding find_mutation_def by (auto dest: find_Some_mem)
  with assms(2-4) show ?thesis
    by (auto simp: unresolved_def open_projection_def open_of_def delivery_after_def)
qed

text \<open>What an observation of a prepared write shows from outside.\<close>

lemma observed_outcome:
  assumes inv: "journal_inv j"
    and m: "find_mutation j x = Some m" "fm_state m = FilePrepared" "file_of kind aid m"
    and pending: "\<forall>d \<in> open_of x j. fd_state d = RowPending"
    and targets: "fd_projection_target ` open_of x j = set targets"
    and others: "\<forall>m' \<in> set (jn_mutations j). file_of kind aid m' \<and> fm_operation_id m' \<noteq> x \<longrightarrow>
      \<not> unresolved j m'"
    and ids: "validate_identifier ''aggregate_kind'' kind = Inr ()"
      "validate_identifier ''aggregate_id'' aid = Inr ()"
    and valid: "validate_payload_digest digest = Inr ()"
  defines "st \<equiv> next_file_state m digest"
  shows "\<exists>j'. observe_canonical_digest sha x digest now j = Inr (st, j') \<and> journal_inv j' \<and>
    projected_targets x j' = (if st = FileCommitted then set targets else {}) \<and>
    unresolved_operation kind aid j' =
      Inr (if st = FileDegraded \<or> st = FileCommitted \<and> targets \<noteq> [] then Some (x, st) else None)"
  unfolding st_def
proof (rule observed [OF inv m pending others valid, of sha now])
  fix j' m'
  assume o: "observe_canonical_digest sha x digest now j = Inr (next_file_state m digest, j')"
    "journal_inv j'" "find_mutation j' x = Some m'" "fm_state m' = next_file_state m digest"
    "file_of kind aid m'"
    "\<forall>m' \<in> set (jn_mutations j'). file_of kind aid m' \<and> fm_operation_id m' \<noteq> x \<longrightarrow> \<not> unresolved j' m'"
    "fd_projection_target ` open_of x j' = fd_projection_target ` open_of x j"
    "\<forall>d \<in> open_of x j'. fd_state d = delivery_after (next_file_state m digest)"
  have empty: "open_of x j' = {} \<longleftrightarrow> targets = []"
    using o(7) targets by (metis image_is_empty set_empty)
  have "next_file_state m digest \<noteq> FilePrepared" by (simp add: next_file_state_def)
  from unresolved_after [OF o(3,8,4) this] observed_file [OF o(2,3,5,6) ids]
    projected_targets [OF o(3,8,4)] o(1,2,4,7) targets empty
  show "\<exists>j'. observe_canonical_digest sha x digest now j = Inr (next_file_state m digest, j') \<and>
      journal_inv j' \<and>
      projected_targets x j' = (if next_file_state m digest = FileCommitted then set targets else {}) \<and>
      unresolved_operation kind aid j' = Inr (if next_file_state m digest = FileDegraded \<or>
        next_file_state m digest = FileCommitted \<and> targets \<noteq> []
        then Some (x, next_file_state m digest) else None)"
    by simp
qed

lemma prepare_free:
  assumes inv: "journal_inv j" and fresh: "find_mutation j (''file-outbox:'' @ uuid) = None"
    and free: "first_unresolved j kind aid = None"
    and valid: "validate_identifier ''aggregate_kind'' kind = Inr ()"
      "validate_identifier ''aggregate_id'' aid = Inr ()"
      "validate_identifier ''mutation_kind'' mutation = Inr ()" "validate_payload_digest before = Inr ()"
      "validate_payload_digest after_digest = Inr ()" "before \<noteq> after_digest"
      "validate_targets targets = Inr ()"
  shows "is_ok (prepare kind aid mutation before after_digest targets uuid now j)"
proof -
  let ?x = "''file-outbox:'' @ uuid"
  have none: "fm_operation_id m \<noteq> ?x" if "m \<in> set (jn_mutations j)" for m
    using fresh that unfolding find_mutation_def find_None_iff by blast
  have dels: "fd_operation_id d \<noteq> ?x" if d: "d \<in> set (jn_deliveries j)" for d
  proof -
    from inv d have "fd_operation_id d \<in> fm_operation_id ` set (jn_mutations j)"
      unfolding journal_inv_def by blast
    then obtain m where "m \<in> set (jn_mutations j)" "fd_operation_id d = fm_operation_id m" by blast
    with none show ?thesis by metis
  qed
  have act: "\<not> (ao_aggregate_kind a = kind \<and> ao_aggregate_id a = aid \<or> ao_operation_id a = ?x)"
    if a: "a \<in> set (jn_active j)" for a
  proof -
    from inv a obtain m where "m \<in> set (jn_mutations j)" "fm_operation_id m = ao_operation_id a"
      "file_of (ao_aggregate_kind a) (ao_aggregate_id a) m" "unresolved j m"
      unfolding journal_inv_def active_ok_def by blast
    with none free show ?thesis unfolding first_unresolved_None by metis
  qed
  have "\<not> (find_mutation j ?x \<noteq> None \<or>
      exists_where (\<lambda>a. ao_aggregate_kind a = kind \<and> ao_aggregate_id a = aid \<or> ao_operation_id a = ?x)
        (jn_active j) \<or>
      exists_where (\<lambda>d. fd_operation_id d = ?x \<and> fd_projection_target d \<in> set targets) (jn_deliveries j))"
    unfolding exists_where_iff using fresh act dels by blast
  then show ?thesis
    unfolding prepare_def Let_def free option.case if_not_P
    by (simp only: valid if_not_P first_failure.simps) (simp add: is_ok_def bail_if_def)
qed

definition validated :: "string \<Rightarrow> bool" where
  "validated digest \<longleftrightarrow> validate_payload_digest digest = Inr ()"

text \<open>
  C37. A prepared write is decided by the file. Nothing of a prepared write may be projected
  before the file was looked at. If the file then has the digest after the write, the write is
  committed, exactly its targets are to be projected, and its file stays blocked until they are.
  If it has the digest before the write, the write did not happen: nothing is projected, the file
  is free, and the next write can be prepared. Any other digest leaves it degraded: nothing is
  projected and the file is blocked.
\<close>

theorem prepared_write_is_decided:
  fixes sha cs
  defines "j \<equiv> journal_after sha cs"
  assumes call: "prepare kind aid mutation before after_digest targets uuid now j = Inr (r, j1)"
  defines "x \<equiv> fr_operation_id r"
  shows "projected_targets x j1 = {} \<and>
    (\<exists>j2. observe_canonical_digest sha x after_digest later j1 = Inr (FileCommitted, j2) \<and>
       projected_targets x j2 = set targets \<and>
       unresolved_operation kind aid j2 = Inr (if targets = [] then None else Some (x, FileCommitted))) \<and>
    (\<exists>j2. observe_canonical_digest sha x before later j1 = Inr (FileNotCommitted, j2) \<and>
       projected_targets x j2 = {} \<and> unresolved_operation kind aid j2 = Inr None \<and>
       (\<forall>uuid'. find_mutation j2 (''file-outbox:'' @ uuid') = None \<longrightarrow>
          is_ok (prepare kind aid mutation before after_digest targets uuid' later j2))) \<and>
    (\<forall>other. validated other \<and> other \<noteq> before \<and> other \<noteq> after_digest \<longrightarrow>
       (\<exists>j2. observe_canonical_digest sha x other later j1 = Inr (FileDegraded, j2) \<and>
          projected_targets x j2 = {} \<and>
          unresolved_operation kind aid j2 = Inr (Some (x, FileDegraded))))"
proof -
  have inv: "journal_inv j" unfolding j_def by (rule journal_after_inv)
  have inv1: "journal_inv j1" by (rule prepare_inv [OF inv call])
  obtain m where m0: "find_mutation j1 (fr_operation_id r) = Some m" "fm_state m = FilePrepared"
      "fm_before_digest m = before" "fm_after_digest m = after_digest" "file_of kind aid m"
      "fd_projection_target ` {d \<in> set (jn_deliveries j1). fd_operation_id d = fr_operation_id r} = set targets"
      "\<forall>d \<in> set (jn_deliveries j1). fd_operation_id d = fr_operation_id r \<longrightarrow> fd_state d = RowPending"
      "\<forall>m \<in> set (jn_mutations j1). file_of kind aid m \<and> fm_operation_id m \<noteq> fr_operation_id r \<longrightarrow>
         \<not> unresolved j1 m"
    by (rule prepared_facts [OF inv call])
  note m = m0(1-5) [folded x_def] and targets = m0(6) [folded x_def open_of_def]
    and pending = m0(7) [folded x_def] and others = m0(8) [folded x_def]
  have open_pending: "\<forall>d \<in> open_of x j1. fd_state d = RowPending"
    using pending by (auto simp: open_of_def)
  have targets: "fd_projection_target ` open_of x j1 = set targets"
    using targets by (simp add: open_of_def)
  from call have valid: "validate_payload_digest before = Inr ()" "validate_payload_digest after_digest = Inr ()"
      "before \<noteq> after_digest" and ids: "validate_identifier ''aggregate_kind'' kind = Inr ()"
      "validate_identifier ''aggregate_id'' aid = Inr ()" "validate_identifier ''mutation_kind'' mutation = Inr ()"
      "validate_targets targets = Inr ()"
    by (auto elim: prepareE)
  have start: "projected_targets x j1 = {}"
    using m(1,2) by (auto simp: projected_targets_def projectable_def)
  note seen = observed_outcome [OF inv1 m(1,2,5) open_pending targets others ids(1,2), of _ sha later]
  have after_write: "next_file_state m after_digest = FileCommitted"
    and before_write: "next_file_state m before = FileNotCommitted"
    using valid(3) by (simp_all add: next_file_state_def m)
  have diverged: "next_file_state m other = FileDegraded" if "other \<noteq> before" "other \<noteq> after_digest" for other
    using that by (simp add: next_file_state_def m)
  from seen [OF valid(1)] obtain j2 where j2:
      "observe_canonical_digest sha x before later j1 = Inr (FileNotCommitted, j2)" "journal_inv j2"
      "projected_targets x j2 = {}" "unresolved_operation kind aid j2 = Inr None"
    by (auto simp: before_write)
  have "first_unresolved j2 kind aid = None"
    using j2(4) by (simp add: unresolved_operation_def ids)
  then have again: "is_ok (prepare kind aid mutation before after_digest targets uuid' later j2)"
    if "find_mutation j2 (''file-outbox:'' @ uuid') = None" for uuid'
    using that by (intro prepare_free [OF j2(2)] ids valid)
  have "\<exists>j2. observe_canonical_digest sha x other later j1 = Inr (FileDegraded, j2) \<and>
        projected_targets x j2 = {} \<and> unresolved_operation kind aid j2 = Inr (Some (x, FileDegraded))"
    if o: "validated other" "other \<noteq> before" "other \<noteq> after_digest" for other
    using seen [OF o(1) [unfolded validated_def]] by (auto simp: diverged [OF o(2,3)])
  then show ?thesis
    using start j2 again seen [OF valid(2)] by (intro conjI) (auto simp: after_write)
qed

definition sample_digest :: "char \<Rightarrow> string" where
  "sample_digest c = ''sha256:'' @ replicate 64 c"

definition sample_prepare :: "journal \<Rightarrow> outbox_error + FileMutationReceipt \<times> journal" where
  "sample_prepare = prepare ''life_model'' ''main'' ''write'' (sample_digest CHR ''a'')
     (sample_digest CHR ''b'') [''memory''] ''u1'' 7"

lemma sample_prepare_ok: "is_ok (sample_prepare (journal_after (\<lambda>s. s) []))"
  by code_simp

theorem prepared_write_is_decided_witness:
  "\<exists>r j1. sample_prepare (journal_after (\<lambda>s. s) []) = Inr (r, j1) \<and>
     projected_targets (fr_operation_id r) j1 = {} \<and>
     (\<exists>j2. observe_canonical_digest (\<lambda>s. s) (fr_operation_id r) (sample_digest CHR ''b'') 8 j1 =
        Inr (FileCommitted, j2) \<and> projected_targets (fr_operation_id r) j2 = {''memory''})"
proof -
  obtain r j1 where call: "sample_prepare (journal_after (\<lambda>s. s) []) = Inr (r, j1)"
    using sample_prepare_ok by (auto simp: is_ok_def split: sum.splits)
  from prepared_write_is_decided [OF this [unfolded sample_prepare_def], of 8] call
  show ?thesis by auto
qed

section \<open>A degraded write\<close>

definition degraded_write :: "string \<Rightarrow> string \<Rightarrow> string \<Rightarrow> string \<Rightarrow> journal \<Rightarrow> bool" where
  "degraded_write x kind aid after_digest j \<longleftrightarrow>
     (\<exists>m. find_mutation j x = Some m \<and> fm_state m = FileDegraded \<and>
        fm_after_digest m = after_digest \<and> file_of kind aid m)"

fun sees_digest :: "string \<Rightarrow> journal_call \<Rightarrow> bool" where
  "sees_digest digest (CallObserve _ observed) \<longleftrightarrow> observed = digest"
| "sees_digest digest (CallReconcile observed) \<longleftrightarrow> observed = digest"
| "sees_digest digest _ \<longleftrightarrow> False"

lemma find_mutation_other:
  "y \<noteq> x \<Longrightarrow> find_mutation (set_mutation_state y st err now j) x = find_mutation j x"
  unfolding find_mutation_def settle_tables by (subst find_update_where) (auto split: option.split dest: find_Some_mem
      simp: option.map_comp intro!: option.expand simp: option.map_sel)

lemma degraded_update:
  assumes "degraded_write x kind aid a j" and "y = x \<Longrightarrow> st = FileDegraded"
    and "jn_mutations j' = jn_mutations (set_mutation_state y st err now j)"
  shows "degraded_write x kind aid a j'"
proof -
  from assms(1) obtain m where m: "find_mutation j x = Some m" "fm_state m = FileDegraded"
      "fm_after_digest m = a" "file_of kind aid m"
    unfolding degraded_write_def by blast
  have same: "find_mutation j' x = find_mutation (set_mutation_state y st err now j) x"
    by (simp add: find_mutation_def assms(3))
  show ?thesis
  proof (cases "y = x")
    case True
    with assms(2) m show ?thesis
      by (simp add: degraded_write_def same find_mutation_update [OF m(1)] file_of_def)
  next
    case False
    with m show ?thesis by (simp add: degraded_write_def same find_mutation_other)
  qed
qed

lemma degraded_same:
  "degraded_write x kind aid a j \<Longrightarrow> jn_mutations j' = jn_mutations j \<Longrightarrow> degraded_write x kind aid a j'"
  by (simp add: degraded_write_def find_mutation_def)

lemma observe_degraded:
  assumes "degraded_write x kind aid a j" "observe_canonical_digest sha y observed now j = Inr (st, j')"
    and "observed \<noteq> a"
  shows "degraded_write x kind aid a j'"
proof -
  from assms(2) obtain m err where m: "find_mutation j y = Some m" "st = next_file_state m observed"
      and muts: "jn_mutations j' = jn_mutations (set_mutation_state y st err now j)"
    by (auto simp: observe_canonical_digest_def Let_def release_tables settle_tables(1)
        split: if_splits)
  show ?thesis
  proof (rule degraded_update [OF assms(1) _ muts])
    assume "y = x"
    with m assms(1,3) show "st = FileDegraded" by (auto simp: degraded_write_def next_file_state_def)
  qed
qed

lemma observe_all_degraded:
  "degraded_write x kind aid a j \<Longrightarrow> observed \<noteq> a \<Longrightarrow>
   degraded_write x kind aid a (snd (observe_all sha is observed now j))"
proof (induction "is" arbitrary: j)
  case (Cons i "is")
  show ?case
  proof (cases "observe_canonical_digest sha i observed now j")
    case (Inr r)
    obtain st j1 where r: "r = (st, j1)" by fastforce
    obtain res j2 where rest: "observe_all sha is observed now j1 = (res, j2)" by fastforce
    have "degraded_write x kind aid a j2"
      using Cons.IH [OF observe_degraded [OF Cons.prems(1) Inr [unfolded r] Cons.prems(2)] Cons.prems(2)]
        rest by simp
    then show ?thesis by (cases res) (simp_all add: Inr r rest)
  qed (simp add: Cons.prems)
qed simp

lemma journal_next_degraded:
  assumes deg: "degraded_write x kind aid a j" and unseen: "\<not> sees_digest a (snd c)"
  shows "degraded_write x kind aid a (journal_next sha c j)"
proof (cases "(sha, c, j)" rule: journal_next.cases)
  case (1 sha' now k i mut b d ts u j')
  have "degraded_write x kind aid a j1" if "prepare k i mut b d ts u now j = Inr (r, j1)" for r j1
    using that deg by (auto simp: degraded_write_def find_mutation_def find_append elim!: prepareE)
  with 1 deg show ?thesis by (auto simp: next_journal_def split: sum.splits)
next
  case (2 sha' now y d j')
  with deg unseen show ?thesis
    by (auto simp: next_journal_def split: sum.splits dest: observe_degraded)
next
  case (3 sha' now d j')
  with deg unseen show ?thesis by (simp add: reconcile_prepared_def observe_all_degraded)
next
  case (4 sha' now y j')
  have "y \<noteq> x" if "mark_not_committed y now j = Inr r" for r
    using that deg by (auto simp: mark_not_committed_def degraded_write_def)
  moreover have "degraded_write x kind aid a j1" if "mark_not_committed y now j = Inr (u, j1)" "y \<noteq> x" for u j1
    using that(1) by (intro degraded_update [OF deg, where y = y and st = FileNotCommitted and err = None and now = now])
      (auto simp: that(2) mark_not_committed_def release_tables settle_tables(1) split: if_splits)
  ultimately show ?thesis using 4 deg by (auto simp: next_journal_def split: sum.splits)
next
  case (5 sha' now y err j')
  have "degraded_write x kind aid a j1" if "mark_degraded sha y err now j = Inr (u, j1)" for u j1
    using that by (intro degraded_update [OF deg, where y = y and st = FileDegraded and
        err = "Some (metadata_digest sha err)" and now = now])
      (auto simp: mark_degraded_def Let_def settle_tables(1) split: if_splits)
  with 5 deg show ?thesis by (auto simp: next_journal_def split: sum.splits)
qed (use deg in \<open>auto simp: next_journal_def mark_projection_applied_def mark_projection_degraded_def
    Let_def release_tables split: sum.splits if_splits intro: degraded_same\<close>)


definition sample_degraded :: "(int \<times> journal_call) list" where
  "sample_degraded =
     [(7, CallPrepare ''life_model'' ''main'' ''write'' (sample_digest CHR ''a'')
        (sample_digest CHR ''b'') [''memory''] ''u1''),
      (8, CallFileDegraded ''file-outbox:u1'' ''fsync failed'')]"

definition sample_restored :: "(int \<times> journal_call) list" where
  "sample_restored = [(9, CallReconcile (sample_digest CHR ''a''))]"

lemma sample_degraded_state:
  "map_option (\<lambda>m. (fm_state m, fm_after_digest m))
     (find_mutation (journal_after (\<lambda>s. s) sample_degraded) ''file-outbox:u1'') =
   Some (FileDegraded, sample_digest CHR ''b'')"
  by code_simp

lemma sample_restored_unseen:
  "list_all (\<lambda>c. \<not> sees_digest (sample_digest CHR ''b'') (snd c)) sample_restored"
  by code_simp


end
