(* ===== verification/Proposal_Store.thy ===== *)
theory Proposal_Store
  imports Machines Provider_Json "HOL-Library.Word" "HOL-Library.Product_Lexorder"
begin

text \<open>
  The proposals the user decides on (\<open>openlife-core/src/agent/proposal_store.rs\<close>, with the types of
  \<open>openlife-core/src/agent/types.rs\<close>): what is proposed, its review status, and the dispatch of its
  effect, which is claimed, and then failed before the effect, confirmed, or unknown.

  The table is a list of rows, an operation one transaction; UUIDs and the time are arguments. A
  column that holds the text of an enumeration or of a JSON value holds that value here; the codes
  are \<open>*_as_str\<close> and \<open>*_from_str\<close>. A confidence is an \<open>f32\<close> that is only stored: it is kept as its
  bits. The parameter \<open>H\<close> is the SHA-256 of the serialised proposal.
\<close>

section \<open>Data\<close>

datatype ProposalType =
  MemoryWrite | MemoryArchive | ToolPermissionProposal | ExternalWriteAction | LifeModelUpdate

fun proposal_type_as_str :: "ProposalType \<Rightarrow> string" where
  "proposal_type_as_str MemoryWrite = ''memory_write''"
| "proposal_type_as_str MemoryArchive = ''memory_archive''"
| "proposal_type_as_str ToolPermissionProposal = ''tool_permission''"
| "proposal_type_as_str ExternalWriteAction = ''external_write_action''"
| "proposal_type_as_str LifeModelUpdate = ''life_model_update''"

definition proposal_type_from_str :: "string \<Rightarrow> ProposalType option" where
  "proposal_type_from_str s =
     (if s = ''memory_write'' then Some MemoryWrite
      else if s = ''memory_archive'' then Some MemoryArchive
      else if s = ''tool_permission'' then Some ToolPermissionProposal
      else if s = ''external_write_action'' then Some ExternalWriteAction
      else if s = ''life_model_update'' then Some LifeModelUpdate
      else None)"

datatype ProposalSource =
  SourceBuilderReview | SourceMemoryGovernance | SourceSkillRuntime | SourceNetworkConsent
| SourceManual | SourceChatConversation

fun proposal_source_as_str :: "ProposalSource \<Rightarrow> string" where
  "proposal_source_as_str SourceBuilderReview = ''builder_review''"
| "proposal_source_as_str SourceMemoryGovernance = ''memory_governance''"
| "proposal_source_as_str SourceSkillRuntime = ''skill_runtime''"
| "proposal_source_as_str SourceNetworkConsent = ''network_consent''"
| "proposal_source_as_str SourceManual = ''manual''"
| "proposal_source_as_str SourceChatConversation = ''chat_conversation''"

definition proposal_source_from_str :: "string \<Rightarrow> ProposalSource option" where
  "proposal_source_from_str s =
     (if s = ''builder_review'' then Some SourceBuilderReview
      else if s = ''memory_governance'' then Some SourceMemoryGovernance
      else if s = ''skill_runtime'' then Some SourceSkillRuntime
      else if s = ''network_consent'' then Some SourceNetworkConsent
      else if s = ''manual'' then Some SourceManual
      else if s = ''chat_conversation'' then Some SourceChatConversation
      else None)"

datatype RiskLevel = RiskLow | RiskMedium | RiskHigh | RiskCritical

fun risk_as_str :: "RiskLevel \<Rightarrow> string" where
  "risk_as_str RiskLow = ''low''"
| "risk_as_str RiskMedium = ''medium''"
| "risk_as_str RiskHigh = ''high''"
| "risk_as_str RiskCritical = ''critical''"

definition risk_from_str :: "string \<Rightarrow> RiskLevel" where
  "risk_from_str s =
     (if s = ''low'' then RiskLow
      else if s = ''medium'' then RiskMedium
      else if s = ''high'' then RiskHigh
      else if s = ''critical'' then RiskCritical
      else RiskMedium)"

datatype ProposalStatus =
  ProposalPending | ProposalAccepted | ProposalRejected | ProposalCancelled | ProposalEdited
| ProposalPostponed | ProposalExpired

fun proposal_status_as_str :: "ProposalStatus \<Rightarrow> string" where
  "proposal_status_as_str ProposalPending = ''pending''"
| "proposal_status_as_str ProposalAccepted = ''accepted''"
| "proposal_status_as_str ProposalRejected = ''rejected''"
| "proposal_status_as_str ProposalCancelled = ''cancelled''"
| "proposal_status_as_str ProposalEdited = ''edited''"
| "proposal_status_as_str ProposalPostponed = ''postponed''"
| "proposal_status_as_str ProposalExpired = ''expired''"

definition proposal_status_from_str :: "string \<Rightarrow> ProposalStatus option" where
  "proposal_status_from_str s =
     (if s = ''pending'' then Some ProposalPending
      else if s = ''accepted'' then Some ProposalAccepted
      else if s = ''rejected'' then Some ProposalRejected
      else if s = ''cancelled'' then Some ProposalCancelled
      else if s = ''edited'' then Some ProposalEdited
      else if s = ''postponed'' then Some ProposalPostponed
      else if s = ''expired'' then Some ProposalExpired
      else None)"

record AgentProposal =
  ap_id :: string
  ap_run_id :: "string option"
  ap_proposal_type :: ProposalType
  ap_source :: ProposalSource
  ap_source_detail :: "string option"
  ap_base_hash :: "string option"
  ap_affected_path :: string
  ap_before :: "json option"
  ap_after :: json
  ap_reason :: string
  ap_confidence :: "32 word"
  ap_risk_level :: RiskLevel
  ap_status :: ProposalStatus
  ap_created_at :: int
  ap_resolved_at :: "int option"
  ap_expires_at :: "int option"

text \<open>Times are in milliseconds here.\<close>

definition days_millis :: "int \<Rightarrow> int" where
  "days_millis n = n * 86400000"

fun calculate_expires_at :: "ProposalSource \<Rightarrow> int \<Rightarrow> int option" where
  "calculate_expires_at SourceBuilderReview now = Some (now + days_millis 30)"
| "calculate_expires_at SourceMemoryGovernance now = Some (now + days_millis 7)"
| "calculate_expires_at SourceSkillRuntime now = Some (now + days_millis 14)"
| "calculate_expires_at SourceNetworkConsent now = Some (now + days_millis 3)"
| "calculate_expires_at SourceManual now = Some (now + days_millis 365)"
| "calculate_expires_at SourceChatConversation now = Some (now + days_millis 3)"

definition new_proposal ::
  "ProposalType \<Rightarrow> string \<Rightarrow> json \<Rightarrow> string \<Rightarrow> 32 word \<Rightarrow> RiskLevel \<Rightarrow> ProposalSource \<Rightarrow> string \<Rightarrow> int \<Rightarrow>
   AgentProposal"
where
  "new_proposal ty path after reason confidence risk source uuid now =
     \<lparr>ap_id = uuid, ap_run_id = None, ap_proposal_type = ty, ap_source = source,
      ap_source_detail = None, ap_base_hash = None, ap_affected_path = path, ap_before = None,
      ap_after = after, ap_reason = reason, ap_confidence = confidence, ap_risk_level = risk,
      ap_status = ProposalPending, ap_created_at = now, ap_resolved_at = None,
      ap_expires_at = calculate_expires_at source now\<rparr>"

definition is_expired :: "int \<Rightarrow> AgentProposal \<Rightarrow> bool" where
  "is_expired now p \<longleftrightarrow> (case ap_expires_at p of Some expires \<Rightarrow> expires < now | None \<Rightarrow> False)"

text \<open>The number of whole days, rounded towards zero as \<open>num_days\<close> does.\<close>

definition days_until_expiration :: "int \<Rightarrow> AgentProposal \<Rightarrow> int option" where
  "days_until_expiration now p =
     map_option (\<lambda>t. sgn (t - now) * (abs (t - now) div days_millis 1)) (ap_expires_at p)"

definition proposal_accept :: "int \<Rightarrow> AgentProposal \<Rightarrow> AgentProposal" where
  "proposal_accept now p = p\<lparr>ap_status := ProposalAccepted, ap_resolved_at := Some now\<rparr>"

definition proposal_reject :: "int \<Rightarrow> AgentProposal \<Rightarrow> AgentProposal" where
  "proposal_reject now p = p\<lparr>ap_status := ProposalRejected, ap_resolved_at := Some now\<rparr>"

definition proposal_cancel :: "int \<Rightarrow> AgentProposal \<Rightarrow> AgentProposal" where
  "proposal_cancel now p = p\<lparr>ap_status := ProposalCancelled, ap_resolved_at := Some now\<rparr>"

definition proposal_edit :: "json \<Rightarrow> AgentProposal \<Rightarrow> AgentProposal" where
  "proposal_edit new_after p =
     p\<lparr>ap_after := new_after, ap_status := ProposalEdited, ap_resolved_at := None\<rparr>"

definition proposal_postpone :: "int \<Rightarrow> AgentProposal \<Rightarrow> AgentProposal" where
  "proposal_postpone now p = p\<lparr>ap_status := ProposalPostponed, ap_resolved_at := Some now\<rparr>"

datatype dispatch_state =
  Unclaimed | Claimed | FailedBeforeEffect | DispatchUnknown | ConfirmedProjectionPending | Confirmed

record proposal_row =
  pw_proposal :: AgentProposal
  pw_dispatch_claim_id :: "string option"
  pw_dispatch_claimed_at :: "int option"
  pw_dispatch_snapshot_digest :: "string option"
  pw_dispatch_state :: dispatch_state
  pw_dispatch_error_code :: "string option"
  pw_review_idempotency_key :: "string option"

type_synonym proposals = "proposal_row list"

abbreviation pw_id :: "proposal_row \<Rightarrow> string" where
  "pw_id r \<equiv> ap_id (pw_proposal r)"

abbreviation pw_status :: "proposal_row \<Rightarrow> ProposalStatus" where
  "pw_status r \<equiv> ap_status (pw_proposal r)"

datatype proposal_error = ProposalBail string | ProposalConstraint

section \<open>Rows\<close>

definition active_status :: "ProposalStatus \<Rightarrow> bool" where
  "active_status st \<longleftrightarrow> st \<in> {ProposalPending, ProposalPostponed, ProposalEdited}"

definition free_dispatch :: "proposal_row \<Rightarrow> bool" where
  "free_dispatch r \<longleftrightarrow> pw_dispatch_state r \<in> {Unclaimed, FailedBeforeEffect}"

definition find_proposal :: "string \<Rightarrow> proposals \<Rightarrow> proposal_row option" where
  "find_proposal pid rows = find (\<lambda>r. pw_id r = pid) rows"

text \<open>The unique index over the review keys of the active proposals.\<close>

definition holds_key :: "proposal_row \<Rightarrow> bool" where
  "holds_key r \<longleftrightarrow> active_status (pw_status r) \<and> pw_review_idempotency_key r \<noteq> None"

definition review_keys_unique :: "proposals \<Rightarrow> bool" where
  "review_keys_unique rows \<longleftrightarrow> distinct (map pw_review_idempotency_key (filter holds_key rows))"

definition write_rows :: "'a \<Rightarrow> proposals \<Rightarrow> proposal_error + 'a \<times> proposals" where
  "write_rows x rows = (if review_keys_unique rows then Inr (x, rows) else Inl ProposalConstraint)"

definition new_row :: "AgentProposal \<Rightarrow> string option \<Rightarrow> proposal_row" where
  "new_row p key =
     \<lparr>pw_proposal = p, pw_dispatch_claim_id = None, pw_dispatch_claimed_at = None,
      pw_dispatch_snapshot_digest = None, pw_dispatch_state = Unclaimed,
      pw_dispatch_error_code = None, pw_review_idempotency_key = key\<rparr>"

definition insert_row :: "'a \<Rightarrow> AgentProposal \<Rightarrow> string option \<Rightarrow> proposals \<Rightarrow> proposal_error + 'a \<times> proposals" where
  "insert_row x p key rows =
     (if find_proposal (ap_id p) rows \<noteq> None then Inl ProposalConstraint
      else write_rows x (rows @ [new_row p key]))"

definition create_proposal :: "AgentProposal \<Rightarrow> proposals \<Rightarrow> proposal_error + unit \<times> proposals" where
  "create_proposal p rows = insert_row () p None rows"

definition create_or_reuse_active_review_proposal ::
  "AgentProposal \<Rightarrow> string \<Rightarrow> proposals \<Rightarrow> proposal_error + (AgentProposal \<times> bool) \<times> proposals"
where
  "create_or_reuse_active_review_proposal p raw_key rows =
     (let key = trim raw_key in
      res_bind (first_failure
        [bail_if (key = []) (ProposalBail ''review workflow idempotency key is empty''),
         bail_if (512 < length key) (ProposalBail ''review workflow idempotency key is too large'')])
        (\<lambda>_.
      case find (\<lambda>r. pw_review_idempotency_key r = Some key \<and> active_status (pw_status r)) rows of
        Some existing \<Rightarrow> Inr ((pw_proposal existing, False), rows)
      | None \<Rightarrow> insert_row (p, True) p (Some key) rows))"

section \<open>Review\<close>

text \<open>What an UPDATE writes of a proposal: everything but its id and its time of creation.\<close>

definition overwrite :: "AgentProposal \<Rightarrow> AgentProposal \<Rightarrow> AgentProposal" where
  "overwrite p old = p\<lparr>ap_id := ap_id old, ap_created_at := ap_created_at old\<rparr>"

definition changed_one :: "(proposal_row \<Rightarrow> bool) \<Rightarrow> proposals \<Rightarrow> bool" where
  "changed_one q rows \<longleftrightarrow> count_where q rows = 1"

definition update_active_review_proposal ::
  "AgentProposal \<Rightarrow> string \<Rightarrow> string \<Rightarrow> proposals \<Rightarrow> proposal_error + bool \<times> proposals"
where
  "update_active_review_proposal p expected_id raw_key rows =
     (let key = trim raw_key;
          q = (\<lambda>r. pw_id r = ap_id p \<and> pw_id r = expected_id \<and> pw_status r = ProposalPending \<and>
                 free_dispatch r)
      in if key = [] \<or> 512 < length key
         then Inl (ProposalBail ''review workflow idempotency key is invalid'')
         else write_rows (changed_one q rows)
           (update_where q (\<lambda>r. r\<lparr>pw_proposal := overwrite
               (p\<lparr>ap_status := ProposalPending, ap_resolved_at := None\<rparr>) (pw_proposal r),
               pw_review_idempotency_key := Some key\<rparr>) rows))"

definition update_proposal :: "AgentProposal \<Rightarrow> proposals \<Rightarrow> proposal_error + unit \<times> proposals" where
  "update_proposal p rows =
     (let q = (\<lambda>r. pw_id r = ap_id p) in
      if \<not> changed_one q rows then Inl (ProposalBail ''proposal_status_projection_target_missing'')
      else write_rows ()
        (update_where q (\<lambda>r. r\<lparr>pw_proposal := overwrite p (pw_proposal r)\<rparr>) rows))"

definition redacted_after :: "string \<Rightarrow> json" where
  "redacted_after memory_id =
     JObject [(''memoryId'', JString memory_id), (''privacyErased'', JBool True)]"

definition redact :: "string \<Rightarrow> AgentProposal \<Rightarrow> AgentProposal" where
  "redact memory_id p =
     p\<lparr>ap_source_detail := Some ''privacy_erased'', ap_base_hash := None, ap_before := None,
       ap_after := redacted_after memory_id,
       ap_reason := ''Memory proposal content privacy-erased by user request.''\<rparr>"

definition redact_accepted_memory_proposal_content ::
  "string \<Rightarrow> string \<Rightarrow> proposals \<Rightarrow> proposal_error + bool \<times> proposals"
where
  "redact_accepted_memory_proposal_content raw_id raw_memory_id rows =
     (let pid = trim raw_id; memory_id = trim raw_memory_id in
      if pid = [] \<or> memory_id = []
      then Inl (ProposalBail ''Memory proposal privacy redaction requires exact ids'')
      else
        case find_proposal pid rows of
          None \<Rightarrow> Inr (False, rows)
        | Some r \<Rightarrow>
            if pw_status r \<noteq> ProposalAccepted
            then Inl (ProposalBail ''Memory proposal privacy redaction requires an accepted proposal'')
            else if ap_proposal_type (pw_proposal r) \<notin> {MemoryWrite, MemoryArchive}
            then Inl (ProposalBail ''proposal privacy redaction target is not a Memory proposal'')
            else
              let q = (\<lambda>r. pw_id r = pid \<and> pw_status r = ProposalAccepted \<and>
                    ap_proposal_type (pw_proposal r) \<in> {MemoryWrite, MemoryArchive})
              in if \<not> changed_one q rows
                 then Inl (ProposalBail ''Memory proposal privacy redaction lost its exact target'')
                 else write_rows True
                   (update_where q (\<lambda>r. r\<lparr>pw_proposal := redact memory_id (pw_proposal r)\<rparr>) rows))"

definition update_review_before_dispatch ::
  "AgentProposal \<Rightarrow> ProposalStatus \<Rightarrow> proposals \<Rightarrow> proposal_error + bool \<times> proposals"
where
  "update_review_before_dispatch p expected rows =
     (let q = (\<lambda>r. pw_id r = ap_id p \<and> pw_status r = expected \<and> free_dispatch r) in
      write_rows (changed_one q rows)
        (update_where q (\<lambda>r. r\<lparr>pw_proposal := overwrite p (pw_proposal r)\<rparr>) rows))"

text \<open>A rejection of one external write takes the other open ones of its run with it.\<close>

definition sibling :: "string \<Rightarrow> string \<Rightarrow> string \<Rightarrow> proposal_row \<Rightarrow> bool" where
  "sibling pid run_id detail r \<longleftrightarrow>
     pw_id r \<noteq> pid \<and> ap_run_id (pw_proposal r) = Some run_id \<and>
     ap_source_detail (pw_proposal r) = Some detail \<and>
     ap_source (pw_proposal r) = SourceChatConversation \<and>
     ap_proposal_type (pw_proposal r) = ExternalWriteAction \<and> active_status (pw_status r)"

definition resolve :: "ProposalStatus \<Rightarrow> int option \<Rightarrow> proposal_row \<Rightarrow> proposal_row" where
  "resolve st at r = r\<lparr>pw_proposal := (pw_proposal r)\<lparr>ap_status := st, ap_resolved_at := at\<rparr>\<rparr>"

definition nonempty :: "string option \<Rightarrow> string option" where
  "nonempty s = (if s = Some [] then None else s)"

definition reject_review_and_cancel_active_siblings ::
  "AgentProposal \<Rightarrow> ProposalStatus \<Rightarrow> proposals \<Rightarrow> proposal_error + string list option \<times> proposals"
where
  "reject_review_and_cancel_active_siblings p expected rows =
     res_bind (bail_if (ap_status p \<noteq> ProposalRejected \<or> ap_resolved_at p = None)
       (ProposalBail ''proposal_bundle_rejection_requires_resolved_rejected_status'')) (\<lambda>_.
     res_bind (ok_or (ProposalBail ''proposal_bundle_rejection_run_missing'')
       (nonempty (ap_run_id p))) (\<lambda>run_id.
     res_bind (ok_or (ProposalBail ''proposal_bundle_rejection_task_missing'')
       (nonempty (ap_source_detail p))) (\<lambda>detail.
     if ap_source p \<noteq> SourceChatConversation \<or> ap_proposal_type p \<noteq> ExternalWriteAction
     then Inl (ProposalBail ''proposal_bundle_rejection_owner_invalid'')
     else if count_where (\<lambda>r. sibling (ap_id p) run_id detail r \<and> \<not> free_dispatch r) rows \<noteq> 0
     then Inl (ProposalBail ''proposal_bundle_sibling_dispatch_already_started'')
     else
       let q = (\<lambda>r. pw_id r = ap_id p \<and> pw_status r = expected \<and> free_dispatch r)
       in if \<not> changed_one q rows then Inr (None, rows)
          else
            let rows1 = update_where q (resolve ProposalRejected (ap_resolved_at p)) rows;
                s = (\<lambda>r. sibling (ap_id p) run_id detail r \<and> free_dispatch r);
                ids = map pw_id (sort_key (\<lambda>r. (ap_created_at (pw_proposal r), pw_id r))
                        (filter s rows1))
            in write_rows (Some ids)
                 (update_where s (resolve ProposalCancelled (ap_resolved_at p)) rows1))))"

text \<open>A NULL \<open>expires_at\<close> never compares.\<close>

definition cleanup_expired_proposals :: "int \<Rightarrow> proposals \<Rightarrow> proposal_error + nat \<times> proposals" where
  "cleanup_expired_proposals now rows =
     (let q = (\<lambda>r. pw_status r = ProposalPending \<and> free_dispatch r \<and> is_expired now (pw_proposal r))
      in write_rows (count_where q rows)
           (update_where q (resolve ProposalExpired (Some now)) rows))"

section \<open>Dispatch\<close>

definition review_proposal_snapshot_digest :: "(AgentProposal \<Rightarrow> string) \<Rightarrow> AgentProposal \<Rightarrow> string" where
  "review_proposal_snapshot_digest H p = ''sha256:'' @ H p"

definition claimable :: "string \<Rightarrow> proposal_row \<Rightarrow> bool" where
  "claimable pid r \<longleftrightarrow>
     pw_id r = pid \<and> active_status (pw_status r) \<and>
     (pw_dispatch_claim_id r = None \<or> free_dispatch r)"

definition claim_dispatch ::
  "(AgentProposal \<Rightarrow> string) \<Rightarrow> string \<Rightarrow> string \<Rightarrow> int \<Rightarrow> proposals \<Rightarrow>
   proposal_error + string option \<times> proposals"
where
  "claim_dispatch H pid claim_id now rows =
     (case find (claimable pid) rows of
        None \<Rightarrow> Inr (None, rows)
      | Some r \<Rightarrow>
          let digest = review_proposal_snapshot_digest H (pw_proposal r)
          in write_rows (if changed_one (claimable pid) rows then Some claim_id else None)
               (update_where (claimable pid)
                 (\<lambda>r. r\<lparr>pw_dispatch_claim_id := Some claim_id, pw_dispatch_claimed_at := Some now,
                        pw_dispatch_snapshot_digest := Some digest, pw_dispatch_state := Claimed,
                        pw_dispatch_error_code := None\<rparr>) rows))"

definition owns_claim :: "string \<Rightarrow> string \<Rightarrow> dispatch_state \<Rightarrow> proposal_row \<Rightarrow> bool" where
  "owns_claim pid claim_id st r \<longleftrightarrow>
     pw_id r = pid \<and> pw_dispatch_claim_id r = Some claim_id \<and> pw_dispatch_state r = st"

definition transition_claimed_dispatch ::
  "string \<Rightarrow> string \<Rightarrow> dispatch_state \<Rightarrow> string option \<Rightarrow> proposals \<Rightarrow> proposal_error + bool \<times> proposals"
where
  "transition_claimed_dispatch pid claim_id next_state code rows =
     write_rows (changed_one (owns_claim pid claim_id Claimed) rows)
       (update_where (owns_claim pid claim_id Claimed)
         (\<lambda>r. r\<lparr>pw_dispatch_state := next_state, pw_dispatch_error_code := code\<rparr>) rows)"

definition mark_dispatch_failed_before_effect ::
  "string \<Rightarrow> string \<Rightarrow> string \<Rightarrow> proposals \<Rightarrow> proposal_error + bool \<times> proposals"
where
  "mark_dispatch_failed_before_effect pid claim_id code rows =
     transition_claimed_dispatch pid claim_id FailedBeforeEffect (Some code) rows"

definition mark_dispatch_unknown ::
  "string \<Rightarrow> string \<Rightarrow> string \<Rightarrow> proposals \<Rightarrow> proposal_error + bool \<times> proposals"
where
  "mark_dispatch_unknown pid claim_id code rows =
     transition_claimed_dispatch pid claim_id DispatchUnknown (Some code) rows"

definition mark_effect_confirmed_projection_pending ::
  "string \<Rightarrow> string \<Rightarrow> proposals \<Rightarrow> proposal_error + bool \<times> proposals"
where
  "mark_effect_confirmed_projection_pending pid claim_id rows =
     transition_claimed_dispatch pid claim_id ConfirmedProjectionPending
       (Some ''proposal_status_projection_pending'') rows"

definition project_confirmed_effect ::
  "AgentProposal \<Rightarrow> string \<Rightarrow> proposals \<Rightarrow> proposal_error + bool \<times> proposals"
where
  "project_confirmed_effect p claim_id rows =
     (if ap_status p \<noteq> ProposalAccepted \<or> ap_resolved_at p = None
      then Inl (ProposalBail ''confirmed effect projection requires an accepted Proposal'')
      else
        let q = owns_claim (ap_id p) claim_id ConfirmedProjectionPending
        in write_rows (changed_one q rows)
             (update_where q (\<lambda>r. r\<lparr>pw_proposal := (pw_proposal r)\<lparr>
                   ap_affected_path := ap_affected_path p, ap_status := ProposalAccepted,
                   ap_resolved_at := ap_resolved_at p\<rparr>,
                 pw_dispatch_state := Confirmed, pw_dispatch_error_code := None\<rparr>) rows))"

section \<open>Queries\<close>

definition get_proposal :: "string \<Rightarrow> proposals \<Rightarrow> AgentProposal option" where
  "get_proposal pid rows = map_option pw_proposal (find_proposal pid rows)"

definition dispatch_state_of :: "string \<Rightarrow> proposals \<Rightarrow> dispatch_state option" where
  "dispatch_state_of pid rows = map_option pw_dispatch_state (find_proposal pid rows)"

definition dispatch_error_code :: "string \<Rightarrow> proposals \<Rightarrow> string option" where
  "dispatch_error_code pid rows = Option.bind (find_proposal pid rows) pw_dispatch_error_code"

definition dispatch_claim_id :: "string \<Rightarrow> proposals \<Rightarrow> string option" where
  "dispatch_claim_id pid rows = Option.bind (find_proposal pid rows) pw_dispatch_claim_id"

definition confirmed_projection_claim_id :: "string \<Rightarrow> proposals \<Rightarrow> string option" where
  "confirmed_projection_claim_id pid rows =
     Option.bind (find (\<lambda>r. pw_id r = pid \<and> pw_dispatch_state r = ConfirmedProjectionPending) rows)
       pw_dispatch_claim_id"

definition clamp :: "int \<Rightarrow> int \<Rightarrow> int \<Rightarrow> nat" where
  "clamp lo hi n = nat (max lo (min hi n))"

text \<open>\<open>NULL\<close> sorts first in SQLite.\<close>

definition claimed_order :: "proposal_row \<Rightarrow> bool \<times> int \<times> string" where
  "claimed_order r =
     (pw_dispatch_claimed_at r \<noteq> None,
      (case pw_dispatch_claimed_at r of None \<Rightarrow> 0 | Some t \<Rightarrow> t), pw_id r)"

definition claimed_pairs :: "(proposal_row \<Rightarrow> 'a) \<Rightarrow> proposals \<Rightarrow> ('a \<times> string) list" where
  "claimed_pairs f rows =
     concat (map (\<lambda>r. case pw_dispatch_claim_id r of None \<Rightarrow> [] | Some c \<Rightarrow> [(f r, c)])
       (sort_key claimed_order rows))"

definition list_confirmed_projection_pending :: "int \<Rightarrow> proposals \<Rightarrow> (AgentProposal \<times> string) list" where
  "list_confirmed_projection_pending limit rows =
     take (clamp 1 200 limit) (claimed_pairs pw_proposal
       (filter (\<lambda>r. pw_dispatch_state r = ConfirmedProjectionPending) rows))"

definition list_claimed_external_writes_without_artifact_intent ::
  "nat \<Rightarrow> proposals \<Rightarrow> (string \<times> string) list"
where
  "list_claimed_external_writes_without_artifact_intent limit rows =
     take (max 1 (min 250 limit)) (claimed_pairs pw_id
       (filter (\<lambda>r. ap_proposal_type (pw_proposal r) = ExternalWriteAction \<and>
          pw_dispatch_state r = Claimed) rows))"

definition claimed_dispatch_proposal ::
  "string \<Rightarrow> string \<Rightarrow> proposals \<Rightarrow> (AgentProposal \<times> string) option"
where
  "claimed_dispatch_proposal pid claim_id rows =
     (case find (\<lambda>r. pw_id r = pid \<and> pw_dispatch_claim_id r = Some claim_id \<and>
             pw_dispatch_state r \<in> {Claimed, ConfirmedProjectionPending} \<and>
             pw_dispatch_snapshot_digest r \<noteq> None) rows of
        None \<Rightarrow> None
      | Some r \<Rightarrow> map_option (\<lambda>d. (pw_proposal r, d)) (pw_dispatch_snapshot_digest r))"

definition materialized_dispatch_proposal ::
  "string \<Rightarrow> proposals \<Rightarrow> (AgentProposal \<times> string \<times> string \<times> dispatch_state) option"
where
  "materialized_dispatch_proposal pid rows =
     (case find (\<lambda>r. pw_id r = pid \<and> pw_dispatch_claim_id r \<noteq> None \<and>
             pw_dispatch_snapshot_digest r \<noteq> None \<and>
             pw_dispatch_state r \<in> {ConfirmedProjectionPending, Confirmed}) rows of
        None \<Rightarrow> None
      | Some r \<Rightarrow>
          Option.bind (pw_dispatch_claim_id r) (\<lambda>c.
          map_option (\<lambda>d. (pw_proposal r, c, d, pw_dispatch_state r))
            (pw_dispatch_snapshot_digest r)))"

text \<open>A negative \<open>LIMIT\<close> is no limit; a negative \<open>OFFSET\<close> is none.\<close>

definition sql_limit :: "int \<Rightarrow> 'a list \<Rightarrow> 'a list" where
  "sql_limit limit xs = (if limit < 0 then xs else take (nat limit) xs)"

definition newest_first :: "proposals \<Rightarrow> AgentProposal list" where
  "newest_first rows = map pw_proposal (sort_key (\<lambda>r. - ap_created_at (pw_proposal r)) rows)"

definition list_pending_proposals :: "int \<Rightarrow> proposals \<Rightarrow> AgentProposal list" where
  "list_pending_proposals limit rows =
     sql_limit limit (newest_first (filter (\<lambda>r. pw_status r = ProposalPending) rows))"

definition list_active_review_proposals :: "int \<Rightarrow> proposals \<Rightarrow> AgentProposal list" where
  "list_active_review_proposals limit rows =
     sql_limit limit (newest_first (filter (\<lambda>r. active_status (pw_status r)) rows))"

definition owns_active_review_idempotency_key :: "string \<Rightarrow> string \<Rightarrow> proposals \<Rightarrow> bool" where
  "owns_active_review_idempotency_key pid key rows \<longleftrightarrow>
     exists_where (\<lambda>r. pw_id r = pid \<and> pw_review_idempotency_key r = Some key \<and>
       active_status (pw_status r)) rows"

definition list_all_proposals :: "int \<Rightarrow> int \<Rightarrow> proposals \<Rightarrow> AgentProposal list" where
  "list_all_proposals limit offset rows = sql_limit limit (drop (nat offset) (newest_first rows))"

definition matches :: "'a option \<Rightarrow> 'a \<Rightarrow> bool" where
  "matches x y \<longleftrightarrow> (case x of None \<Rightarrow> True | Some v \<Rightarrow> y = v)"

definition list_proposals_filtered ::
  "ProposalStatus option \<Rightarrow> ProposalType option \<Rightarrow> RiskLevel option \<Rightarrow> int \<Rightarrow> proposals \<Rightarrow>
   AgentProposal list"
where
  "list_proposals_filtered status ty risk limit rows =
     sql_limit limit (newest_first (filter (\<lambda>r. matches status (pw_status r) \<and>
       matches ty (ap_proposal_type (pw_proposal r)) \<and>
       matches risk (ap_risk_level (pw_proposal r))) rows))"

fun at_least :: "RiskLevel \<Rightarrow> RiskLevel set" where
  "at_least RiskLow = {RiskLow, RiskMedium, RiskHigh, RiskCritical}"
| "at_least RiskMedium = {RiskMedium, RiskHigh, RiskCritical}"
| "at_least RiskHigh = {RiskHigh, RiskCritical}"
| "at_least RiskCritical = {RiskCritical}"

definition count_by_status_and_risk :: "ProposalStatus \<Rightarrow> RiskLevel option \<Rightarrow> proposals \<Rightarrow> nat" where
  "count_by_status_and_risk status min_risk rows =
     count_where (\<lambda>r. pw_status r = status \<and>
       (case min_risk of None \<Rightarrow> True | Some risk \<Rightarrow> ap_risk_level (pw_proposal r) \<in> at_least risk)) rows"

definition pending_count :: "proposals \<Rightarrow> nat" where
  "pending_count rows = count_where (\<lambda>r. pw_status r = ProposalPending) rows"

definition get_proposals_by_run_id :: "string \<Rightarrow> proposals \<Rightarrow> AgentProposal list" where
  "get_proposals_by_run_id run_id rows =
     newest_first (filter (\<lambda>r. ap_run_id (pw_proposal r) = Some run_id) rows)"

definition list_expiring_soon :: "int \<Rightarrow> int \<Rightarrow> proposals \<Rightarrow> AgentProposal list" where
  "list_expiring_soon days now rows =
     map pw_proposal (sort_key (\<lambda>r. (case ap_expires_at (pw_proposal r) of None \<Rightarrow> 0 | Some t \<Rightarrow> t))
       (filter (\<lambda>r. pw_status r = ProposalPending \<and>
          is_expired (now + days_millis days) (pw_proposal r)) rows))"

end
