(* ===== verification/Proposal_Safety.thy ===== *)
theory Proposal_Safety
  imports Proposal_Store
begin

text \<open>
  The proposal store under any calls. Each call that moves a dispatch leaves an event; the events
  of one proposal form a word of the dispatch protocol (\<open>next_phase\<close>), and the row of the proposal
  agrees with the phase that its events reached.
\<close>

section \<open>Calls and events\<close>

datatype proposal_call =
  CallCreate AgentProposal
| CallCreateOrReuse AgentProposal string
| CallUpdateActive AgentProposal string string
| CallUpdate AgentProposal
| CallRedact string string
| CallReview AgentProposal ProposalStatus
| CallRejectBundle AgentProposal ProposalStatus
| CallCleanup
| CallClaim string string
| CallFailedBefore string string string
| CallUnknown string string string
| CallConfirm string string
| CallProject AgentProposal string

datatype dispatch_event =
  EvClaimed (event_pid: string) string AgentProposal
| EvFailed (event_pid: string) string
| EvUnknown (event_pid: string) string
| EvConfirmed (event_pid: string) string
| EvProjected (event_pid: string) string

definition quiet :: "proposals \<Rightarrow> proposal_error + 'a \<times> proposals \<Rightarrow> dispatch_event option \<times> proposals" where
  "quiet rows res = (None, case res of Inl _ \<Rightarrow> rows | Inr (_, rows') \<Rightarrow> rows')"

definition moved ::
  "dispatch_event \<Rightarrow> proposals \<Rightarrow> proposal_error + bool \<times> proposals \<Rightarrow> dispatch_event option \<times> proposals"
where
  "moved ev rows res =
     (case res of Inl _ \<Rightarrow> (None, rows) | Inr (done, rows') \<Rightarrow> (if done then Some ev else None, rows'))"

fun proposal_step ::
  "(AgentProposal \<Rightarrow> string) \<Rightarrow> int \<times> proposal_call \<Rightarrow> proposals \<Rightarrow> dispatch_event option \<times> proposals"
where
  "proposal_step H (now, CallCreate p) rows = quiet rows (create_proposal p rows)"
| "proposal_step H (now, CallCreateOrReuse p key) rows =
     quiet rows (create_or_reuse_active_review_proposal p key rows)"
| "proposal_step H (now, CallUpdateActive p expected key) rows =
     quiet rows (update_active_review_proposal p expected key rows)"
| "proposal_step H (now, CallUpdate p) rows = quiet rows (update_proposal p rows)"
| "proposal_step H (now, CallRedact pid memory_id) rows =
     quiet rows (redact_accepted_memory_proposal_content pid memory_id rows)"
| "proposal_step H (now, CallReview p expected) rows =
     quiet rows (update_review_before_dispatch p expected rows)"
| "proposal_step H (now, CallRejectBundle p expected) rows =
     quiet rows (reject_review_and_cancel_active_siblings p expected rows)"
| "proposal_step H (now, CallCleanup) rows = quiet rows (cleanup_expired_proposals now rows)"
| "proposal_step H (now, CallClaim pid uuid) rows =
     (case claim_dispatch H pid uuid now rows of
        Inl _ \<Rightarrow> (None, rows)
      | Inr (claim, rows') \<Rightarrow>
          (case (claim, get_proposal pid rows) of
             (Some c, Some p) \<Rightarrow> (Some (EvClaimed pid c p), rows')
           | _ \<Rightarrow> (None, rows')))"
| "proposal_step H (now, CallFailedBefore pid claim code) rows =
     moved (EvFailed pid claim) rows (mark_dispatch_failed_before_effect pid claim code rows)"
| "proposal_step H (now, CallUnknown pid claim code) rows =
     moved (EvUnknown pid claim) rows (mark_dispatch_unknown pid claim code rows)"
| "proposal_step H (now, CallConfirm pid claim) rows =
     moved (EvConfirmed pid claim) rows (mark_effect_confirmed_projection_pending pid claim rows)"
| "proposal_step H (now, CallProject p claim) rows =
     moved (EvProjected (ap_id p) claim) rows (project_confirmed_effect p claim rows)"

definition proposals_after ::
  "(AgentProposal \<Rightarrow> string) \<Rightarrow> (int \<times> proposal_call) list \<Rightarrow> proposals"
where
  "proposals_after H cs = run_state (proposal_step H) cs []"

text \<open>What happened to the dispatch of one proposal, in order.\<close>

definition dispatches ::
  "(AgentProposal \<Rightarrow> string) \<Rightarrow> (int \<times> proposal_call) list \<Rightarrow> string \<Rightarrow> dispatch_event list"
where
  "dispatches H cs pid =
     concat (map (\<lambda>out. case out of None \<Rightarrow> [] | Some ev \<Rightarrow> if event_pid ev = pid then [ev] else [])
       (run_outputs (proposal_step H) cs []))"

section \<open>The protocol\<close>

datatype phase =
  PhaseFree
| PhaseClaimed string AgentProposal
| PhaseUnknown string
| PhaseConfirmed string AgentProposal
| PhaseProjected string

fun next_phase :: "phase \<Rightarrow> dispatch_event \<Rightarrow> phase option" where
  "next_phase PhaseFree (EvClaimed _ c p) = Some (PhaseClaimed c p)"
| "next_phase (PhaseClaimed c p) (EvFailed _ d) = (if c = d then Some PhaseFree else None)"
| "next_phase (PhaseClaimed c p) (EvUnknown _ d) = (if c = d then Some (PhaseUnknown c) else None)"
| "next_phase (PhaseClaimed c p) (EvConfirmed _ d) = (if c = d then Some (PhaseConfirmed c p) else None)"
| "next_phase (PhaseConfirmed c p) (EvProjected _ d) = (if c = d then Some (PhaseProjected c) else None)"
| "next_phase _ _ = None"

fun reach :: "phase option \<Rightarrow> dispatch_event list \<Rightarrow> phase option" where
  "reach ph [] = ph"
| "reach ph (ev # evs) = reach (Option.bind ph (\<lambda>x. next_phase x ev)) evs"

lemma reach_append: "reach ph (xs @ ys) = reach (reach ph xs) ys"
  by (induction xs arbitrary: ph) auto

text \<open>The words of the protocol: failed attempts, then at most one that is not known to have failed.\<close>

definition failed_tries :: "string \<Rightarrow> (string \<times> AgentProposal) list \<Rightarrow> dispatch_event list" where
  "failed_tries pid tries = concat (map (\<lambda>(c, p). [EvClaimed pid c p, EvFailed pid c]) tries)"

definition last_try :: "string \<Rightarrow> string \<Rightarrow> AgentProposal \<Rightarrow> dispatch_event list set" where
  "last_try pid c p =
     {[EvClaimed pid c p],
      [EvClaimed pid c p, EvUnknown pid c],
      [EvClaimed pid c p, EvConfirmed pid c],
      [EvClaimed pid c p, EvConfirmed pid c, EvProjected pid c]}"

definition phase_word :: "string \<Rightarrow> phase \<Rightarrow> dispatch_event list \<Rightarrow> bool" where
  "phase_word pid ph evs \<longleftrightarrow>
     (\<exists>tries. case ph of
        PhaseFree \<Rightarrow> evs = failed_tries pid tries
      | PhaseClaimed c p \<Rightarrow> evs = failed_tries pid tries @ [EvClaimed pid c p]
      | PhaseUnknown c \<Rightarrow> \<exists>p. evs = failed_tries pid tries @ [EvClaimed pid c p, EvUnknown pid c]
      | PhaseConfirmed c p \<Rightarrow> evs = failed_tries pid tries @ [EvClaimed pid c p, EvConfirmed pid c]
      | PhaseProjected c \<Rightarrow>
          \<exists>p. evs = failed_tries pid tries @ [EvClaimed pid c p, EvConfirmed pid c, EvProjected pid c])"

lemma failed_tries_snoc:
  "failed_tries pid (tries @ [(c, p)]) = failed_tries pid tries @ [EvClaimed pid c p, EvFailed pid c]"
  by (simp add: failed_tries_def)

lemma phase_word_reached:
  assumes "reach (Some PhaseFree) evs = Some ph" and "\<forall>ev \<in> set evs. event_pid ev = pid"
  shows "phase_word pid ph evs"
  using assms
proof (induction evs arbitrary: ph rule: rev_induct)
  case Nil
  then show ?case by (auto simp: phase_word_def failed_tries_def intro: exI [of _ "[]"])
next
  case (snoc ev evs)
  then obtain old where old: "reach (Some PhaseFree) evs = Some old" "next_phase old ev = Some ph"
    by (cases "reach (Some PhaseFree) evs") (auto simp: reach_append)
  with snoc have word: "phase_word pid old evs" and ev: "event_pid ev = pid" by auto
  show ?case
  proof (cases "(old, ev)" rule: next_phase.cases)
    case (2 c p d)
    with old word ev show ?thesis
      by (auto simp: phase_word_def failed_tries_snoc split: if_splits
          intro: exI [of _ "tries @ [(c, p)]" for tries])
  qed (use old word ev in \<open>auto simp: phase_word_def split: if_splits\<close>)
qed

section \<open>Rows and phases\<close>

fun agrees :: "(AgentProposal \<Rightarrow> string) \<Rightarrow> phase \<Rightarrow> proposal_row \<Rightarrow> bool" where
  "agrees H PhaseFree r \<longleftrightarrow> free_dispatch r"
| "agrees H (PhaseClaimed c p) r \<longleftrightarrow> pw_dispatch_state r = Claimed \<and> pw_dispatch_claim_id r = Some c \<and>
     pw_dispatch_snapshot_digest r = Some (review_proposal_snapshot_digest H p)"
| "agrees H (PhaseUnknown c) r \<longleftrightarrow>
     pw_dispatch_state r = DispatchUnknown \<and> pw_dispatch_claim_id r = Some c"
| "agrees H (PhaseConfirmed c p) r \<longleftrightarrow>
     pw_dispatch_state r = ConfirmedProjectionPending \<and> pw_dispatch_claim_id r = Some c \<and>
     pw_dispatch_snapshot_digest r = Some (review_proposal_snapshot_digest H p)"
| "agrees H (PhaseProjected c) r \<longleftrightarrow> pw_dispatch_state r = Confirmed \<and> pw_dispatch_claim_id r = Some c"

definition rows_ok :: "proposals \<Rightarrow> bool" where
  "rows_ok rows \<longleftrightarrow> distinct (map pw_id rows) \<and> review_keys_unique rows"

definition row_phase ::
  "(AgentProposal \<Rightarrow> string) \<Rightarrow> dispatch_event list \<Rightarrow> proposal_row option \<Rightarrow> bool"
where
  "row_phase H evs r \<longleftrightarrow>
     (case r of
        None \<Rightarrow> evs = []
      | Some row \<Rightarrow> \<exists>ph. reach (Some PhaseFree) evs = Some ph \<and> agrees H ph row)"

text \<open>The part of a row that the dispatch is about.\<close>

definition dispatch_view :: "proposal_row \<Rightarrow> string option \<times> string option \<times> dispatch_state" where
  "dispatch_view r = (pw_dispatch_claim_id r, pw_dispatch_snapshot_digest r, pw_dispatch_state r)"

lemma agrees_view: "dispatch_view r' = dispatch_view r \<Longrightarrow> agrees H ph r' = agrees H ph r"
  by (cases ph) (auto simp: dispatch_view_def free_dispatch_def)

lemma row_phase_view:
  assumes "map_option dispatch_view r' = map_option dispatch_view r" "row_phase H evs r"
  shows "row_phase H evs r'"
proof (cases r)
  case (Some x)
  with assms(1) obtain y where y: "r' = Some y" "dispatch_view y = dispatch_view x" by (cases r') auto
  show ?thesis using assms(2) unfolding row_phase_def Some y(1) by (simp add: agrees_view [OF y(2)])
qed (use assms in \<open>simp add: row_phase_def\<close>)

lemma find_updated:
  assumes "\<And>r. pw_id (f r) = pw_id r"
  shows "find_proposal pid (update_where q f rows) =
    map_option (\<lambda>r. if q r then f r else r) (find_proposal pid rows)"
  unfolding find_proposal_def by (rule find_update_where) (simp add: assms)

lemma ids_updated:
  assumes "\<And>r. pw_id (f r) = pw_id r"
  shows "map pw_id (update_where q f rows) = map pw_id rows"
  by (rule map_update_where) (simp add: assms)

text \<open>An operation that leaves the dispatch of every proposal alone.\<close>

definition undispatched :: "proposals \<Rightarrow> proposals \<Rightarrow> bool" where
  "undispatched rows rows' \<longleftrightarrow>
     (rows_ok rows \<longrightarrow> rows_ok rows') \<and>
     (\<forall>H evs pid. row_phase H evs (find_proposal pid rows) \<longrightarrow> row_phase H evs (find_proposal pid rows'))"

lemma undispatched_refl: "undispatched rows rows"
  by (simp add: undispatched_def)

lemma undispatched_update:
  assumes "\<And>r. pw_id (f r) = pw_id r" "\<And>r. dispatch_view (f r) = dispatch_view r"
    and "review_keys_unique (update_where q f rows)"
  shows "undispatched rows (update_where q f rows)"
proof -
  have view: "map_option dispatch_view (find_proposal pid (update_where q f rows)) =
      map_option dispatch_view (find_proposal pid rows)" for pid
    by (cases "find_proposal pid rows") (simp_all add: find_updated [OF assms(1)] assms(2))
  show ?thesis
    unfolding undispatched_def rows_ok_def
    using assms(3) row_phase_view [OF view] by (auto simp: ids_updated [OF assms(1)])
qed

lemma undispatched_insert:
  assumes "insert_row x p key rows = Inr (y, rows')"
  shows "undispatched rows rows'"
proof -
  from assms have none: "find_proposal (ap_id p) rows = None"
    and rows': "rows' = rows @ [new_row p key]" and keys: "review_keys_unique rows'"
    by (auto simp: insert_row_def write_rows_def split: if_splits)
  have fresh: "ap_id p \<notin> set (map pw_id rows)"
    using none by (auto simp: find_proposal_def find_None_iff)
  have "row_phase H evs (find_proposal pid rows')" if "row_phase H evs (find_proposal pid rows)" for H evs pid
    using that none by (cases "find_proposal pid rows")
      (auto simp: rows' find_proposal_def find_append row_phase_def new_row_def free_dispatch_def)
  then show ?thesis using fresh keys by (auto simp: undispatched_def rows_ok_def rows' new_row_def)
qed

lemma write_rows_ok [simp]:
  "write_rows x rows = Inr (y, rows') \<longleftrightarrow> review_keys_unique rows \<and> y = x \<and> rows' = rows"
  by (auto simp: write_rows_def)

lemma overwrite_id [simp]: "ap_id (overwrite p old) = ap_id old"
  by (simp add: overwrite_def)

lemma resolve_frame [simp]:
  "pw_id (resolve st at r) = pw_id r" "dispatch_view (resolve st at r) = dispatch_view r"
  by (simp_all add: resolve_def dispatch_view_def)

lemma create_undispatched: "create_proposal p rows = Inr (x, rows') \<Longrightarrow> undispatched rows rows'"
  by (auto simp: create_proposal_def dest: undispatched_insert)

lemma create_or_reuse_undispatched:
  "create_or_reuse_active_review_proposal p key rows = Inr (x, rows') \<Longrightarrow> undispatched rows rows'"
  by (auto simp: create_or_reuse_active_review_proposal_def Let_def undispatched_refl
      dest: undispatched_insert split: option.splits)

lemma update_active_undispatched:
  "update_active_review_proposal p expected key rows = Inr (x, rows') \<Longrightarrow> undispatched rows rows'"
  by (auto simp: update_active_review_proposal_def Let_def dispatch_view_def
      intro!: undispatched_update split: if_splits)

lemma update_undispatched: "update_proposal p rows = Inr (x, rows') \<Longrightarrow> undispatched rows rows'"
  by (auto simp: update_proposal_def Let_def dispatch_view_def intro!: undispatched_update split: if_splits)

lemma redact_undispatched:
  "redact_accepted_memory_proposal_content pid m rows = Inr (x, rows') \<Longrightarrow> undispatched rows rows'"
  by (auto simp: redact_accepted_memory_proposal_content_def Let_def dispatch_view_def redact_def
      intro!: undispatched_update undispatched_refl split: if_splits option.splits)

lemma review_undispatched:
  "update_review_before_dispatch p expected rows = Inr (x, rows') \<Longrightarrow> undispatched rows rows'"
  by (auto simp: update_review_before_dispatch_def Let_def dispatch_view_def intro!: undispatched_update)

lemma cleanup_undispatched: "cleanup_expired_proposals now rows = Inr (x, rows') \<Longrightarrow> undispatched rows rows'"
  by (auto simp: cleanup_expired_proposals_def Let_def intro!: undispatched_update)

text \<open>Resolving active proposals keeps the keys unique.\<close>

lemma distinct_map_filter_update:
  assumes "distinct (map k (filter h rows))" "\<And>r. \<not> h (f r)"
  shows "distinct (map k (filter h (update_where q f rows)))"
proof -
  have "filter h (update_where q f rows) = filter (\<lambda>r. h r \<and> \<not> q r) rows" for rows
    using assms(2) by (induction rows) (auto simp: update_where_def)
  moreover have "distinct (map k (filter (\<lambda>r. h r \<and> \<not> q r) rows))"
    using assms(1) by (induction rows) (auto split: if_splits)
  ultimately show ?thesis by simp
qed

lemma resolve_keys:
  assumes "review_keys_unique rows" "\<not> active_status st"
  shows "review_keys_unique (update_where q (resolve st at) rows)"
  using assms unfolding review_keys_unique_def
  by (intro distinct_map_filter_update) (auto simp: holds_key_def resolve_def)

lemma undispatched_trans: "undispatched a b \<Longrightarrow> undispatched b c \<Longrightarrow> undispatched a c"
  by (auto simp: undispatched_def)

lemma reject_bundle_undispatched:
  assumes ok: "rows_ok rows"
    and call: "reject_review_and_cancel_active_siblings p expected rows = Inr (x, rows')"
  shows "undispatched rows rows'"
proof (cases "rows' = rows")
  case False
  with call obtain q s where rows': "rows' = update_where s (resolve ProposalCancelled (ap_resolved_at p))
      (update_where q (resolve ProposalRejected (ap_resolved_at p)) rows)" "review_keys_unique rows'"
    by (auto simp: reject_review_and_cancel_active_siblings_def Let_def split: if_splits)
  have "review_keys_unique (update_where q (resolve ProposalRejected (ap_resolved_at p)) rows)"
    using ok by (intro resolve_keys) (auto simp: rows_ok_def active_status_def)
  then show ?thesis
    using rows' by (auto intro!: undispatched_trans [OF undispatched_update undispatched_update])
qed (simp add: undispatched_refl)

section \<open>Moves\<close>

text \<open>An update of the one row of a proposal.\<close>

lemma find_proposal_id: "find_proposal pid rows = Some r \<Longrightarrow> pw_id r = pid"
  unfolding find_proposal_def by (auto dest: find_Some_mem)

lemma find_moved:
  assumes "\<And>r. q r \<Longrightarrow> pw_id r = pid" "\<And>r. pw_id (f r) = pw_id r"
  shows "find_proposal x (update_where q f rows) =
    (if x = pid then map_option (\<lambda>r. if q r then f r else r) (find_proposal pid rows)
     else find_proposal x rows)"
proof (cases "find_proposal x rows")
  case (Some r)
  then have "pw_id r = x" by (rule find_proposal_id)
  with Some assms(1) [of r] show ?thesis by (auto simp: find_updated [OF assms(2)])
qed (auto simp: find_updated [OF assms(2)])

lemma changed_one_iff:
  assumes "distinct (map pw_id rows)" "\<And>r. q r \<Longrightarrow> pw_id r = pid"
  shows "changed_one q rows \<longleftrightarrow> (\<exists>r. find_proposal pid rows = Some r \<and> q r)"
  using assms(1)
proof (induction rows)
  case (Cons r rows)
  have "count_where q rows = 0" if "pw_id r = pid" "pw_id r \<notin> set (map pw_id rows)"
    using that assms(2) by (auto simp: image_iff)
  with Cons assms(2) [of r] show ?case
    by (auto simp: changed_one_def find_proposal_def count_where_def simp del: count_where_0)
qed (simp add: changed_one_def find_proposal_def count_where_def)

lemma find_claimable:
  assumes "distinct (map pw_id rows)"
  shows "find (claimable pid) rows = Some r \<longleftrightarrow> find_proposal pid rows = Some r \<and> claimable pid r"
  using assms
proof (induction rows)
  case (Cons x rows)
  have "pw_id r = pid \<Longrightarrow> r \<in> set rows \<Longrightarrow> pw_id x \<noteq> pid" using Cons.prems by auto
  with Cons show ?case
    by (auto simp: find_proposal_def claimable_def dest: find_Some_mem)
qed (simp add: find_proposal_def)

definition event_list :: "string \<Rightarrow> dispatch_event option \<Rightarrow> dispatch_event list" where
  "event_list pid out = (case out of None \<Rightarrow> [] | Some ev \<Rightarrow> if event_pid ev = pid then [ev] else [])"

definition follows ::
  "(AgentProposal \<Rightarrow> string) \<Rightarrow> proposals \<Rightarrow> dispatch_event option \<times> proposals \<Rightarrow> bool"
where
  "follows H rows res \<longleftrightarrow>
     rows_ok (snd res) \<and>
     (\<forall>evs pid. row_phase H evs (find_proposal pid rows) \<longrightarrow>
        row_phase H (evs @ event_list pid (fst res)) (find_proposal pid (snd res)))"

lemma follows_quiet:
  assumes "rows_ok rows" "\<And>x rows'. res = Inr (x, rows') \<Longrightarrow> undispatched rows rows'"
  shows "follows H rows (quiet rows res)"
  using assms by (cases res) (auto simp: follows_def quiet_def event_list_def undispatched_def)

lemma follows_moved:
  assumes ok: "rows_ok rows"
    and q: "\<And>r. q r \<Longrightarrow> pw_id r = pid" and f: "\<And>r. pw_id (f r) = pw_id r"
    and res: "res = write_rows (changed_one q rows) (update_where q f rows)"
    and move: "\<And>r ph. q r \<Longrightarrow> agrees H ph r \<Longrightarrow> \<exists>ph'. next_phase ph ev = Some ph' \<and> agrees H ph' (f r)"
    and ev: "event_pid ev = pid"
  shows "follows H rows (moved ev rows res)"
proof (cases "review_keys_unique (update_where q f rows)")
  case False
  then show ?thesis using ok by (auto simp: res write_rows_def moved_def follows_def event_list_def)
next
  case True
  have "row_phase H (evs @ event_list x (if changed_one q rows then Some ev else None))
      (find_proposal x (update_where q f rows))" if "row_phase H evs (find_proposal x rows)" for evs x
  proof (cases "x = pid \<and> changed_one q rows")
    case True
    then obtain r where r: "find_proposal pid rows = Some r" "q r"
      using changed_one_iff [OF _ q] ok unfolding rows_ok_def by blast
    from that True r obtain ph where ph: "reach (Some PhaseFree) evs = Some ph" "agrees H ph r"
      by (auto simp: row_phase_def)
    from move [OF r(2) ph(2)] ph r True ev show ?thesis
      by (auto simp: find_moved [OF q f] row_phase_def event_list_def reach_append)
  next
    case False
    have "find_proposal x (update_where q f rows) = find_proposal x rows"
    proof (cases "x = pid")
      case True
      with False have "\<not> changed_one q rows" by simp
      then have "\<not> q r" if "find_proposal pid rows = Some r" for r
        using that changed_one_iff [OF _ q] ok unfolding rows_ok_def by blast
      then show ?thesis by (cases "find_proposal pid rows") (auto simp: find_moved [OF q f] True)
    qed (simp add: find_moved [OF q f])
    with False that ev show ?thesis by (auto simp: event_list_def)
  qed
  with True ok show ?thesis
    by (simp add: res moved_def follows_def rows_ok_def ids_updated [OF f] write_rows_def)
qed

lemma transition_follows:
  assumes "rows_ok rows" "event_pid ev = pid"
    and "\<And>p. next_phase (PhaseClaimed c p) ev = Some (ph p)"
    and "\<And>r p. agrees H (PhaseClaimed c p) r \<Longrightarrow>
      agrees H (ph p) (r\<lparr>pw_dispatch_state := st, pw_dispatch_error_code := code\<rparr>)"
  shows "follows H rows (moved ev rows (transition_claimed_dispatch pid c st code rows))"
proof (rule follows_moved [OF assms(1) _ _ transition_claimed_dispatch_def _ assms(2)])
  fix r ph' assume "owns_claim pid c Claimed r" "agrees H ph' r"
  then obtain p where "ph' = PhaseClaimed c p"
    by (cases ph') (auto simp: owns_claim_def free_dispatch_def)
  with assms(3,4) \<open>agrees H ph' r\<close>
  show "\<exists>ph''. next_phase ph' ev = Some ph'' \<and>
      agrees H ph'' (r\<lparr>pw_dispatch_state := st, pw_dispatch_error_code := code\<rparr>)"
    by auto
qed (auto simp: owns_claim_def)

lemma claim_follows:
  assumes ok: "rows_ok rows"
  shows "follows H rows (proposal_step H (now, CallClaim pid uuid) rows)"
proof (cases "find (claimable pid) rows")
  case None
  then show ?thesis using ok by (simp add: claim_dispatch_def follows_def event_list_def)
next
  case (Some r)
  have r: "find_proposal pid rows = Some r" "claimable pid r"
    using Some find_claimable ok unfolding rows_ok_def by blast+
  let ?f = "\<lambda>x. x\<lparr>pw_dispatch_claim_id := Some uuid, pw_dispatch_claimed_at := Some now,
      pw_dispatch_snapshot_digest := Some (review_proposal_snapshot_digest H (pw_proposal r)),
      pw_dispatch_state := Claimed, pw_dispatch_error_code := None\<rparr>"
  have one: "changed_one (claimable pid) rows"
    using r ok unfolding rows_ok_def by (subst changed_one_iff [of rows _ pid]) (auto simp: claimable_def)
  have step: "proposal_step H (now, CallClaim pid uuid) rows =
      moved (EvClaimed pid uuid (pw_proposal r)) rows
        (write_rows (changed_one (claimable pid) rows) (update_where (claimable pid) ?f rows))"
    by (simp add: claim_dispatch_def Some Let_def one get_proposal_def r(1) moved_def write_rows_def)
  show ?thesis unfolding step
  proof (rule follows_moved [OF ok _ _ refl])
    fix x ph assume x: "claimable pid x" "agrees H ph x"
    then have "ph = PhaseFree" by (cases ph) (auto simp: claimable_def free_dispatch_def)
    then show "\<exists>ph'. next_phase ph (EvClaimed pid uuid (pw_proposal r)) = Some ph' \<and> agrees H ph' (?f x)"
      by simp
  qed (auto simp: claimable_def)
qed

lemma project_follows:
  assumes "rows_ok rows"
  shows "follows H rows (moved (EvProjected (ap_id p) c) rows (project_confirmed_effect p c rows))"
proof (cases "ap_status p \<noteq> ProposalAccepted \<or> ap_resolved_at p = None")
  case True
  then show ?thesis using assms by (auto simp: project_confirmed_effect_def moved_def follows_def event_list_def)
next
  case False
  show ?thesis
    unfolding project_confirmed_effect_def if_not_P [OF False] Let_def
  proof (rule follows_moved [OF assms _ _ refl])
    fix r ph assume "owns_claim (ap_id p) c ConfirmedProjectionPending r" "agrees H ph r"
    then obtain x where "ph = PhaseConfirmed c x"
      by (cases ph) (auto simp: owns_claim_def free_dispatch_def)
    with \<open>agrees H ph r\<close> show "\<exists>ph'. next_phase ph (EvProjected (ap_id p) c) = Some ph' \<and>
        agrees H ph' (r\<lparr>pw_proposal := (pw_proposal r)\<lparr>ap_affected_path := ap_affected_path p,
          ap_status := ProposalAccepted, ap_resolved_at := ap_resolved_at p\<rparr>,
          pw_dispatch_state := Confirmed, pw_dispatch_error_code := None\<rparr>)"
      by simp
  qed (auto simp: owns_claim_def)
qed

lemma step_follows:
  assumes ok: "rows_ok rows"
  shows "follows H rows (proposal_step H c rows)"
proof -
  obtain now call where c: "c = (now, call)" by fastforce
  show ?thesis
  proof (cases call)
    case (CallClaim pid uuid)
    then show ?thesis unfolding c using claim_follows [OF ok] by simp
  next
    case (CallFailedBefore pid claim code)
    then show ?thesis unfolding c CallFailedBefore proposal_step.simps mark_dispatch_failed_before_effect_def
      by (intro transition_follows [OF ok, where ph = "\<lambda>_. PhaseFree"]) (auto simp: free_dispatch_def)
  next
    case (CallUnknown pid claim code)
    then show ?thesis unfolding c CallUnknown proposal_step.simps mark_dispatch_unknown_def
      by (intro transition_follows [OF ok, where ph = "\<lambda>_. PhaseUnknown claim"]) auto
  next
    case (CallConfirm pid claim)
    then show ?thesis unfolding c CallConfirm proposal_step.simps mark_effect_confirmed_projection_pending_def
      by (intro transition_follows [OF ok, where ph = "PhaseConfirmed claim"]) auto
  next
    case (CallProject p claim)
    then show ?thesis unfolding c using project_follows [OF ok] by simp
  qed (use ok in \<open>auto simp: c intro!: follows_quiet
      intro: create_undispatched create_or_reuse_undispatched update_active_undispatched
        update_undispatched redact_undispatched review_undispatched cleanup_undispatched
        reject_bundle_undispatched\<close>)
qed

section \<open>Histories\<close>

lemma run_outputs_append:
  "run_outputs step (cs @ ds) s = run_outputs step cs s @ run_outputs step ds (run_state step cs s)"
  by (induction cs arbitrary: s) simp_all

lemma dispatches_snoc:
  "dispatches H (cs @ [c]) pid =
     dispatches H cs pid @ event_list pid (fst (proposal_step H c (proposals_after H cs)))"
  by (simp add: dispatches_def run_outputs_append proposals_after_def event_list_def)

lemma proposals_after_snoc:
  "proposals_after H (cs @ [c]) = snd (proposal_step H c (proposals_after H cs))"
  by (simp add: proposals_after_def run_state_append)

lemma proposals_inv:
  "rows_ok (proposals_after H cs) \<and>
   (\<forall>pid. row_phase H (dispatches H cs pid) (find_proposal pid (proposals_after H cs)))"
proof (induction cs rule: rev_induct)
  case Nil
  show ?case by (simp add: proposals_after_def dispatches_def rows_ok_def review_keys_unique_def
      find_proposal_def row_phase_def)
next
  case (snoc c cs)
  with step_follows [of "proposals_after H cs" H c] show ?case
    by (auto simp: follows_def dispatches_snoc proposals_after_snoc)
qed

lemma dispatches_about: "ev \<in> set (dispatches H cs pid) \<Longrightarrow> event_pid ev = pid"
  by (auto simp: dispatches_def split: option.splits if_splits)

lemma row_dispatched:
  assumes "find_proposal pid (proposals_after H cs) = Some r"
  obtains ph where "phase_word pid ph (dispatches H cs pid)" "agrees H ph r"
proof -
  have "row_phase H (dispatches H cs pid) (Some r)"
    using proposals_inv [of H cs] assms by metis
  then obtain ph where ph: "reach (Some PhaseFree) (dispatches H cs pid) = Some ph" "agrees H ph r"
    by (auto simp: row_phase_def)
  with that phase_word_reached dispatches_about show thesis by blast
qed

lemma dispatches_word: "\<exists>ph. phase_word pid ph (dispatches H cs pid)"
proof (cases "find_proposal pid (proposals_after H cs)")
  case None
  with proposals_inv [of H cs] have "dispatches H cs pid = []" by (auto simp: row_phase_def dest: spec [of _ pid])
  then show ?thesis by (auto simp: phase_word_def failed_tries_def intro!: exI [of _ PhaseFree] exI [of _ "[]"])
next
  case (Some r)
  then show ?thesis by (rule row_dispatched) blast
qed

text \<open>
  C39. The effect of a proposal is dispatched once. Whatever calls are made on the store, what
  happens to the dispatch of one proposal is a number of claims that each ended in a failure
  before the effect, followed by at most one claim that did not: it is still held, or its outcome
  is unknown, or its effect was confirmed and then at most once projected. So no proposal is
  claimed while a claim of it is held, nor after an effect that may have happened. And the ids of
  the proposals, and the review keys of the open ones, stay unique.
\<close>

theorem effects_are_dispatched_once:
  "(\<exists>tries last. dispatches H cs pid = failed_tries pid tries @ last \<and>
      (last = [] \<or> (\<exists>c p. last \<in> last_try pid c p))) \<and>
   rows_ok (proposals_after H cs)"
proof -
  obtain ph where "phase_word pid ph (dispatches H cs pid)" using dispatches_word by blast
  then have "\<exists>tries last. dispatches H cs pid = failed_tries pid tries @ last \<and>
      (last = [] \<or> (\<exists>c p. last \<in> last_try pid c p))"
    by (cases ph) (fastforce simp: phase_word_def last_try_def)+
  then show ?thesis using proposals_inv by blast
qed

end
