(* ===== verification/Review_Workflow.thy ===== *)
theory Review_Workflow
  imports Proposal_Safety
begin

text \<open>
  The review of durable writes (\<open>openlife-core/src/agent/review_workflow.rs\<close>) on the proposal store:
  a write is submitted as a pending proposal, and its acceptance is proved by a snapshot that only
  the owner of the dispatch claim can get, or, after the effect, by a materialised snapshot.

  The proofs of authority are types without a public constructor; here they are records that only
  the two functions below return. \<open>sha\<close> is the SHA-256 of a serialised JSON value, \<open>hex\<close> the one of a
  text, \<open>H\<close> as in the proposal store. The admission of a canonical write is a trait: its answer is
  an argument.
\<close>

section \<open>Requests\<close>

datatype DurableWriteSource = MainChat | ToolPermissionSource | ManualOverride | NetworkConsent

fun durable_source_name :: "DurableWriteSource \<Rightarrow> string" where
  "durable_source_name MainChat = ''main_chat''"
| "durable_source_name ToolPermissionSource = ''tool_permission''"
| "durable_source_name ManualOverride = ''manual_override''"
| "durable_source_name NetworkConsent = ''network_consent''"

datatype DurableWriteSubject = SubjectMemory | SubjectLifeModel | SubjectToolPermission | SubjectExternalWrite

fun subject_name :: "DurableWriteSubject \<Rightarrow> string" where
  "subject_name SubjectMemory = ''memory''"
| "subject_name SubjectLifeModel = ''life_model''"
| "subject_name SubjectToolPermission = ''tool_permission''"
| "subject_name SubjectExternalWrite = ''external_write''"

fun subject_from_proposal_type :: "ProposalType \<Rightarrow> DurableWriteSubject" where
  "subject_from_proposal_type MemoryWrite = SubjectMemory"
| "subject_from_proposal_type MemoryArchive = SubjectMemory"
| "subject_from_proposal_type LifeModelUpdate = SubjectLifeModel"
| "subject_from_proposal_type ToolPermissionProposal = SubjectToolPermission"
| "subject_from_proposal_type ExternalWriteAction = SubjectExternalWrite"

datatype FinalDeliveryWordingContract = PendingProposalOnly | ApprovalRequiredBeforeDurableWrite

fun pending_message :: "FinalDeliveryWordingContract \<Rightarrow> string" where
  "pending_message PendingProposalOnly =
     ''Proposal is pending Review Center approval; no durable write has been applied.''"
| "pending_message ApprovalRequiredBeforeDurableWrite =
     ''Review Center approval is required before any durable write is applied.''"

record DurableWriteRequest =
  dw_source :: DurableWriteSource
  dw_subject :: DurableWriteSubject
  dw_risk_level :: RiskLevel
  dw_user_visible_summary :: string
  dw_evidence_refs :: "string list"
  dw_idempotency_key :: string
  dw_requires_approval :: bool
  dw_wording_contract :: FinalDeliveryWordingContract
  dw_proposal :: AgentProposal
  dw_existing_proposal_id :: "string option"

definition opt_json :: "json option \<Rightarrow> json" where
  "opt_json x = (case x of None \<Rightarrow> JNull | Some v \<Rightarrow> v)"

definition opt_string :: "string option \<Rightarrow> json" where
  "opt_string x = (case x of None \<Rightarrow> JNull | Some v \<Rightarrow> JString v)"

definition default_idempotency_key ::
  "(json \<Rightarrow> string) \<Rightarrow> DurableWriteSource \<Rightarrow> DurableWriteSubject \<Rightarrow> AgentProposal \<Rightarrow> string"
where
  "default_idempotency_key sha source subject p =
     ''review_workflow:'' @ sha (JObject
       [(''schema'', JString ''openlife.reviewWorkflow.idempotency.v1''),
        (''source'', JString (durable_source_name source)),
        (''subject'', JString (subject_name subject)),
        (''proposalType'', JString (proposal_type_as_str (ap_proposal_type p))),
        (''proposalSource'', JString (proposal_source_as_str (ap_source p))),
        (''sourceDetail'', opt_string (ap_source_detail p)),
        (''affectedPath'', JString (ap_affected_path p)),
        (''before'', opt_json (ap_before p)),
        (''after'', ap_after p)])"

definition from_agent_proposal ::
  "(json \<Rightarrow> string) \<Rightarrow> DurableWriteSource \<Rightarrow> DurableWriteSubject \<Rightarrow> AgentProposal \<Rightarrow> string \<Rightarrow>
   DurableWriteRequest"
where
  "from_agent_proposal sha source subject p summary =
     \<lparr>dw_source = source, dw_subject = subject, dw_risk_level = ap_risk_level p,
      dw_user_visible_summary = summary, dw_evidence_refs = [],
      dw_idempotency_key = default_idempotency_key sha source subject p,
      dw_requires_approval = True, dw_wording_contract = PendingProposalOnly, dw_proposal = p,
      dw_existing_proposal_id = None\<rparr>"

section \<open>Outcomes\<close>

datatype DurableWriteDecisionKind = CreatePendingProposal | ReusePendingProposal | UpdatePendingProposal

record DurableWriteDecision =
  dd_kind :: DurableWriteDecisionKind
  dd_proposal_id :: string
  dd_proposal_status :: ProposalStatus
  dd_durable_write_completed :: bool
  dd_idempotency_key :: string
  dd_requires_approval :: bool
  dd_reason :: string

record ReviewWorkflowOutcome =
  ro_proposal :: AgentProposal
  ro_decision :: DurableWriteDecision
  ro_user_visible_status :: string
  ro_user_visible_summary :: string
  ro_final_delivery_message :: string
  ro_evidence_refs :: "string list"

fun proposal_status_semantics :: "ProposalStatus \<Rightarrow> string" where
  "proposal_status_semantics ProposalPending = ''pending_review_no_durable_write_applied''"
| "proposal_status_semantics ProposalAccepted = ''accepted_and_eligible_for_durable_write_application''"
| "proposal_status_semantics ProposalRejected = ''rejected_no_durable_write_applied''"
| "proposal_status_semantics ProposalCancelled = ''cancelled_no_durable_write_applied''"
| "proposal_status_semantics ProposalEdited = ''edited_pending_or_applied_only_after_explicit_acceptance''"
| "proposal_status_semantics ProposalPostponed = ''postponed_no_durable_write_applied''"
| "proposal_status_semantics ProposalExpired = ''expired_no_durable_write_applied''"

definition review_outcome ::
  "DurableWriteRequest \<Rightarrow> AgentProposal \<Rightarrow> DurableWriteDecisionKind \<Rightarrow> string \<Rightarrow> ReviewWorkflowOutcome"
where
  "review_outcome rq p kind reason =
     \<lparr>ro_proposal = p,
      ro_decision =
        \<lparr>dd_kind = kind, dd_proposal_id = ap_id p, dd_proposal_status = ap_status p,
         dd_durable_write_completed = False, dd_idempotency_key = dw_idempotency_key rq,
         dd_requires_approval = dw_requires_approval rq, dd_reason = reason\<rparr>,
      ro_user_visible_status = proposal_status_semantics (ap_status p),
      ro_user_visible_summary = dw_user_visible_summary rq,
      ro_final_delivery_message = pending_message (dw_wording_contract rq),
      ro_evidence_refs = dw_evidence_refs rq\<rparr>"

text \<open>The words for remembered, updated and completed, the Chinese ones as UTF-8.\<close>

definition contains_forbidden_pending_completion_claim :: "string \<Rightarrow> bool" where
  "contains_forbidden_pending_completion_claim value \<longleftrightarrow>
     (let lower = to_ascii_lower value in
      contains_str ''remembered'' lower \<or> contains_str ''updated'' lower \<or>
      contains_str ''completed'' lower \<or>
      contains_str [CHR 0xE5, CHR 0xB7, CHR 0xB2, CHR 0xE8, CHR 0xAE, CHR 0xB0,
        CHR 0xE4, CHR 0xBD, CHR 0x8F] value \<or>
      contains_str [CHR 0xE5, CHR 0xB7, CHR 0xB2, CHR 0xE6, CHR 0x9B, CHR 0xB4,
        CHR 0xE6, CHR 0x96, CHR 0xB0] value \<or>
      contains_str [CHR 0xE5, CHR 0xB7, CHR 0xB2, CHR 0xE5, CHR 0xAE, CHR 0x8C,
        CHR 0xE6, CHR 0x88, CHR 0x90] value)"

definition validate_pending_wording :: "DurableWriteRequest \<Rightarrow> proposal_error + unit" where
  "validate_pending_wording rq =
     bail_if (exists_where contains_forbidden_pending_completion_claim
         [dw_user_visible_summary rq, pending_message (dw_wording_contract rq)])
       (ProposalBail ''pending proposal wording must not claim durable completion'')"

section \<open>Submission\<close>

definition pending_again :: "AgentProposal \<Rightarrow> AgentProposal" where
  "pending_again p = p\<lparr>ap_status := ProposalPending, ap_resolved_at := None\<rparr>"

definition submit_new ::
  "DurableWriteRequest \<Rightarrow> proposals \<Rightarrow> proposal_error + ReviewWorkflowOutcome \<times> proposals"
where
  "submit_new rq rows =
     res_bind (create_or_reuse_active_review_proposal (dw_proposal rq) (dw_idempotency_key rq) rows)
       (\<lambda>((p, created), rows').
     Inr (review_outcome rq p
       (if created then CreatePendingProposal else ReusePendingProposal)
       (if created then ''created_pending_review_proposal''
        else ''reused_existing_active_review_proposal''), rows'))"

text \<open>
  Reading the linked proposal, and then writing, are transactions of their own; the write is
  guarded by the status that was read.
\<close>

definition submit_linked ::
  "DurableWriteRequest \<Rightarrow> string \<Rightarrow> AgentProposal \<Rightarrow> proposals \<Rightarrow>
   proposal_error + ReviewWorkflowOutcome \<times> proposals"
where
  "submit_linked rq existing_id old rows =
     (let replacement = overwrite (pending_again (dw_proposal rq)) old in
      res_bind (update_active_review_proposal replacement existing_id (dw_idempotency_key rq) rows)
        (\<lambda>(updated, rows').
      if \<not> updated
      then Inl (ProposalBail ''linked pending review proposal changed before update'')
      else Inr (review_outcome rq replacement UpdatePendingProposal
             ''linked_existing_pending_proposal'', rows')))"

definition submit ::
  "DurableWriteRequest \<Rightarrow> proposals \<Rightarrow> proposal_error + ReviewWorkflowOutcome \<times> proposals"
where
  "submit raw rows =
     res_bind (validate_pending_wording raw) (\<lambda>_.
     let rq = (if dw_requires_approval raw
               then raw\<lparr>dw_proposal := pending_again (dw_proposal raw)\<rparr> else raw)
     in case dw_existing_proposal_id rq of
          None \<Rightarrow> submit_new rq rows
        | Some existing_id \<Rightarrow>
            (case get_proposal existing_id rows of
               None \<Rightarrow> submit_new rq rows
             | Some old \<Rightarrow>
                 if ap_status old = ProposalPending then submit_linked rq existing_id old rows
                 else submit_new rq rows))"

text \<open>The permit of an admission is closed in one of three ways.\<close>

datatype permit_end = FinishCommitted | FinishFailed | FinishNoop

definition rejection_reason :: "string \<Rightarrow> string" where
  "rejection_reason code =
     (if code \<noteq> [] \<and> length code \<le> 96 \<and>
         list_all (\<lambda>c. is_ascii_lowercase c \<or> is_ascii_digit c \<or> c \<in> {CHR ''_'', CHR ''-'', CHR ''.''}) code
      then code else ''invalid_admission_rejection_reason'')"

definition submit_with_admission ::
  "DurableWriteRequest \<Rightarrow> (string \<Rightarrow> string \<Rightarrow> string + unit) \<Rightarrow> proposals \<Rightarrow>
   (proposal_error + ReviewWorkflowOutcome) \<times> permit_end option \<times> proposals"
where
  "submit_with_admission rq acquire rows =
     (let canonical = (case dw_existing_proposal_id rq of None \<Rightarrow> ap_id (dw_proposal rq) | Some i \<Rightarrow> i) in
      case acquire ''proposal'' (''proposal:'' @ canonical) of
        Inl code \<Rightarrow>
          (Inl (ProposalBail (''canonical_write_admission_rejected:'' @ rejection_reason code)), None, rows)
      | Inr _ \<Rightarrow>
          (case submit rq rows of
             Inl err \<Rightarrow> (Inl err, Some FinishFailed, rows)
           | Inr (outcome, rows') \<Rightarrow>
               (Inr outcome,
                Some (if dd_kind (ro_decision outcome) = ReusePendingProposal
                      then FinishNoop else FinishCommitted), rows')))"

section \<open>Acceptance\<close>

datatype ReviewAcceptanceAuthorityProof = ClaimedByReviewWorkflow

datatype MaterializedReviewAcceptanceAuthorityProof = ReloadedFromCanonicalReviewWorkflow

record ClaimedReviewAcceptanceSnapshot =
  cs_proposal :: AgentProposal
  cs_proposal_snapshot_digest :: string
  cs_dispatch_claim_digest :: string
  cs_authority_proof :: ReviewAcceptanceAuthorityProof

record MaterializedReviewAcceptanceSnapshot =
  ms_proposal :: AgentProposal
  ms_proposal_snapshot_digest :: string
  ms_dispatch_claim_digest :: string
  ms_authority_proof :: MaterializedReviewAcceptanceAuthorityProof

definition validate_claimed ::
  "(AgentProposal \<Rightarrow> string) \<Rightarrow> int \<Rightarrow> ClaimedReviewAcceptanceSnapshot \<Rightarrow> proposal_error + unit"
where
  "validate_claimed H now x =
     first_failure
       [bail_if (cs_authority_proof x \<noteq> ClaimedByReviewWorkflow)
          (ProposalBail ''review acceptance authority proof is unavailable''),
        bail_if (\<not> active_status (ap_status (cs_proposal x)) \<or> is_expired now (cs_proposal x))
          (ProposalBail ''review acceptance snapshot is not active''),
        bail_if (review_proposal_snapshot_digest H (cs_proposal x) \<noteq> cs_proposal_snapshot_digest x)
          (ProposalBail ''review acceptance snapshot changed after claim''),
        bail_if (trim (cs_dispatch_claim_digest x) = [])
          (ProposalBail ''review acceptance dispatch claim digest is missing'')]"

definition validate_materialized :: "MaterializedReviewAcceptanceSnapshot \<Rightarrow> proposal_error + unit" where
  "validate_materialized x =
     first_failure
       [bail_if (ms_authority_proof x \<noteq> ReloadedFromCanonicalReviewWorkflow)
          (ProposalBail ''materialized review acceptance authority proof is unavailable''),
        bail_if (trim (ms_proposal_snapshot_digest x) = [] \<or> trim (ms_dispatch_claim_digest x) = [])
          (ProposalBail ''materialized review acceptance provenance is incomplete'')]"

definition claimed_acceptance_snapshot ::
  "(AgentProposal \<Rightarrow> string) \<Rightarrow> (string \<Rightarrow> string) \<Rightarrow> string \<Rightarrow> string \<Rightarrow> int \<Rightarrow> proposals \<Rightarrow>
   proposal_error + ClaimedReviewAcceptanceSnapshot"
where
  "claimed_acceptance_snapshot H hex pid claim now rows =
     res_bind (bail_if (trim pid = [] \<or> trim claim = [])
       (ProposalBail ''review acceptance claim is incomplete'')) (\<lambda>_.
     res_bind (ok_or (ProposalBail ''review acceptance dispatch claim is not canonical'')
       (claimed_dispatch_proposal pid claim rows)) (\<lambda>(p, digest).
     if digest \<noteq> review_proposal_snapshot_digest H p
     then Inl (ProposalBail ''review acceptance snapshot digest is not canonical'')
     else
       let snapshot = \<lparr>cs_proposal = p, cs_proposal_snapshot_digest = digest,
             cs_dispatch_claim_digest = ''sha256:'' @ hex claim,
             cs_authority_proof = ClaimedByReviewWorkflow\<rparr>
       in res_bind (validate_claimed H now snapshot) (\<lambda>_. Inr snapshot)))"

definition check_materialized ::
  "(AgentProposal \<Rightarrow> string) \<Rightarrow> AgentProposal \<Rightarrow> string \<Rightarrow> dispatch_state \<Rightarrow> proposal_error + unit"
where
  "check_materialized H p digest st =
     (case st of
        ConfirmedProjectionPending \<Rightarrow>
          bail_if (\<not> active_status (ap_status p) \<or> review_proposal_snapshot_digest H p \<noteq> digest)
            (ProposalBail ''projection-pending review snapshot changed after dispatch'')
      | Confirmed \<Rightarrow>
          bail_if (ap_status p \<noteq> ProposalAccepted \<or> ap_resolved_at p = None)
            (ProposalBail ''confirmed review effect lacks its accepted projection'')
      | _ \<Rightarrow> Inl (ProposalBail ''review effect is not durably materialized''))"

definition materialized_acceptance_snapshot ::
  "(AgentProposal \<Rightarrow> string) \<Rightarrow> (string \<Rightarrow> string) \<Rightarrow> string \<Rightarrow> proposals \<Rightarrow>
   proposal_error + MaterializedReviewAcceptanceSnapshot"
where
  "materialized_acceptance_snapshot H hex pid rows =
     res_bind (ok_or (ProposalBail ''materialized review acceptance is not canonical'')
       (materialized_dispatch_proposal pid rows)) (\<lambda>(p, claim, digest, st).
     res_bind (check_materialized H p digest st) (\<lambda>_.
     let snapshot = \<lparr>ms_proposal = p, ms_proposal_snapshot_digest = digest,
           ms_dispatch_claim_digest = ''sha256:'' @ hex claim,
           ms_authority_proof = ReloadedFromCanonicalReviewWorkflow\<rparr>
     in res_bind (validate_materialized snapshot) (\<lambda>_. Inr snapshot)))"

end
