(* ===== verification/Review_Claims.thy ===== *)
theory Review_Claims
  imports Review_Workflow
begin

text \<open>What the acceptance of a proposal proves (C40).\<close>

lemma find_refine:
  assumes "distinct (map pw_id rows)" "find_proposal pid rows = Some r" "p r" "\<And>x. p x \<Longrightarrow> pw_id x = pid"
  shows "find p rows = Some r"
  using assms(1,2)
proof (induction rows)
  case (Cons x rows)
  have "pw_id r = pid" using find_proposal_id Cons.prems(2) .
  moreover have "r \<in> set rows" if "x \<noteq> r"
    using that Cons.prems(2) by (auto simp: find_proposal_def split: if_splits dest: find_Some_mem)
  ultimately show ?case
    using Cons assms(3) assms(4) [of x] by (auto simp: find_proposal_def split: if_splits)
qed (simp add: find_proposal_def)

lemma find_row:
  assumes "distinct (map pw_id rows)" "r \<in> set rows"
  shows "find_proposal (pw_id r) rows = Some r"
  using assms by (induction rows) (force simp: find_proposal_def)+

lemma claimed_row:
  assumes "claimed_dispatch_proposal pid claim (proposals_after H cs) = Some (p, digest)"
  obtains r where "find_proposal pid (proposals_after H cs) = Some r" "pw_proposal r = p"
    "pw_dispatch_claim_id r = Some claim" "pw_dispatch_snapshot_digest r = Some digest"
    "pw_dispatch_state r \<in> {Claimed, ConfirmedProjectionPending}"
proof -
  let ?q = "\<lambda>r. pw_id r = pid \<and> pw_dispatch_claim_id r = Some claim \<and>
      pw_dispatch_state r \<in> {Claimed, ConfirmedProjectionPending} \<and> pw_dispatch_snapshot_digest r \<noteq> None"
  from assms obtain r where r: "find ?q (proposals_after H cs) = Some r"
      "pw_proposal r = p" "pw_dispatch_snapshot_digest r = Some digest"
    by (auto simp: claimed_dispatch_proposal_def split: option.splits)
  from find_Some_mem [OF r(1)] have mem: "r \<in> set (proposals_after H cs)" "?q r" by blast+
  have "find_proposal pid (proposals_after H cs) = Some r"
    using mem proposals_inv [of H cs] find_row [of "proposals_after H cs" r]
    unfolding rows_ok_def by simp
  with mem r(2,3) that show thesis by blast
qed

lemma claimed_history:
  assumes r: "find_proposal pid (proposals_after H cs) = Some r" "pw_dispatch_claim_id r = Some claim"
    "pw_dispatch_snapshot_digest r = Some digest"
    "pw_dispatch_state r \<in> {Claimed, ConfirmedProjectionPending}"
  shows "\<exists>tries p last. dispatches H cs pid = failed_tries pid tries @ EvClaimed pid claim p # last \<and>
    last \<in> {[], [EvConfirmed pid claim]} \<and> digest = review_proposal_snapshot_digest H p"
proof -
  obtain ph where ph: "phase_word pid ph (dispatches H cs pid)" "agrees H ph r"
    using row_dispatched [OF r(1)] .
  then show ?thesis
    using r(2-4) by (cases ph) (auto simp: phase_word_def free_dispatch_def)
qed

text \<open>A digest is never blank.\<close>

lemma trim_start_rev_blank:
  "trim_start_rev u = [] \<Longrightarrow> u \<noteq> [] \<Longrightarrow> byte (last u) \<noteq> 115"
  by (induction u rule: trim_start_rev.induct)
    (auto simp: ws1_def ws2_def ws3_def split: if_splits)

lemma trim_digest: "trim (''sha256:'' @ s) \<noteq> []"
proof -
  have "trim_start (''sha256:'' @ s) = ''sha256:'' @ s"
    by (simp add: ws1_def ws2_def ws3_def byte_def)
  moreover have "byte (last (rev (''sha256:'' @ s))) = 115" by (simp add: byte_def)
  ultimately show ?thesis
    using trim_start_rev_blank [of "rev (''sha256:'' @ s)"] by (auto simp: trim_def)
qed

text \<open>A crash after the effect was confirmed: the acceptance is found again.\<close>

lemma materialized_after_confirm:
  assumes ok: "rows_ok rows" and r: "find_proposal pid rows = Some r"
    "pw_dispatch_claim_id r = Some claim"
    "pw_dispatch_snapshot_digest r = Some (review_proposal_snapshot_digest H (pw_proposal r))"
    "pw_dispatch_state r \<in> {Claimed, ConfirmedProjectionPending}" "active_status (pw_status r)"
  shows "\<exists>y. materialized_acceptance_snapshot H hex pid
      (snd (proposal_step H (t, CallConfirm pid claim) rows)) = Inr y \<and> ms_proposal y = pw_proposal r"
proof -
  let ?q = "owns_claim pid claim Claimed"
  let ?f = "\<lambda>r. r\<lparr>pw_dispatch_state := ConfirmedProjectionPending,
      pw_dispatch_error_code := Some ''proposal_status_projection_pending''\<rparr>"
  let ?rows = "update_where ?q ?f rows"
  have keys: "review_keys_unique ?rows"
  proof -
    have "map pw_review_idempotency_key (filter holds_key (update_where ?q ?f rows)) =
        map pw_review_idempotency_key (filter holds_key rows)" for rows
      by (induction rows) (auto simp: update_where_def holds_key_def)
    then show ?thesis using ok by (simp add: rows_ok_def review_keys_unique_def)
  qed
  have step: "snd (proposal_step H (t, CallConfirm pid claim) rows) = ?rows"
    using keys by (simp add: mark_effect_confirmed_projection_pending_def transition_claimed_dispatch_def
        write_rows_def moved_def)
  define r' where "r' = (if ?q r then ?f r else r)"
  have found: "find_proposal pid ?rows = Some r'"
    using r(1) unfolding r'_def by (subst find_moved [of _ pid]) (auto simp: owns_claim_def)
  have view: "pw_proposal r' = pw_proposal r" "pw_dispatch_claim_id r' = Some claim"
      "pw_dispatch_snapshot_digest r' = Some (review_proposal_snapshot_digest H (pw_proposal r))"
      "pw_dispatch_state r' = ConfirmedProjectionPending"
    using r find_proposal_id [OF r(1)] unfolding r'_def by (auto simp: owns_claim_def)
  have "distinct (map pw_id ?rows)" using ok by (simp add: ids_updated rows_ok_def)
  then have "find (\<lambda>x. pw_id x = pid \<and> pw_dispatch_claim_id x \<noteq> None \<and>
      pw_dispatch_snapshot_digest x \<noteq> None \<and>
      pw_dispatch_state x \<in> {ConfirmedProjectionPending, Confirmed}) ?rows = Some r'"
    using found view find_proposal_id [OF found] by (intro find_refine) auto
  then show ?thesis
    using view r(5) trim_digest unfolding step
    by (auto simp: materialized_acceptance_snapshot_def materialized_dispatch_proposal_def
        check_materialized_def validate_materialized_def review_proposal_snapshot_digest_def)
qed

text \<open>
  C40. An acceptance is for what was claimed. Whoever gets a snapshot of an accepted proposal holds
  the one claim of it that has not failed; the proposal in it is the one in the store, still open
  and not expired, and has the digest of the proposal at the time of the claim, so it was not
  edited since; no other claim gets a snapshot. And once the effect is confirmed, a restart finds
  the acceptance again, with the same proposal.
\<close>

theorem acceptance_is_what_was_claimed:
  fixes H cs
  defines "rows \<equiv> proposals_after H cs"
  assumes snap: "claimed_acceptance_snapshot H hex pid claim now rows = Inr x"
  shows "(\<exists>tries p last. dispatches H cs pid = failed_tries pid tries @ EvClaimed pid claim p # last \<and>
      last \<in> {[], [EvConfirmed pid claim]} \<and> H (cs_proposal x) = H p) \<and>
    get_proposal pid rows = Some (cs_proposal x) \<and> active_status (ap_status (cs_proposal x)) \<and>
    \<not> is_expired now (cs_proposal x) \<and>
    (\<forall>claim' now'. is_ok (claimed_acceptance_snapshot H hex pid claim' now' rows) \<longrightarrow> claim' = claim) \<and>
    (\<exists>y. materialized_acceptance_snapshot H hex pid
        (proposals_after H (cs @ [(t, CallConfirm pid claim)])) = Inr y \<and>
      ms_proposal y = cs_proposal x)"
proof -
  from snap obtain digest where c: "claimed_dispatch_proposal pid claim rows = Some (cs_proposal x, digest)"
      "digest = review_proposal_snapshot_digest H (cs_proposal x)"
      "active_status (ap_status (cs_proposal x))" "\<not> is_expired now (cs_proposal x)"
    by (auto simp: claimed_acceptance_snapshot_def Let_def validate_claimed_def split: if_splits)
  obtain r where r: "find_proposal pid rows = Some r" "pw_proposal r = cs_proposal x"
      "pw_dispatch_claim_id r = Some claim" "pw_dispatch_snapshot_digest r = Some digest"
      "pw_dispatch_state r \<in> {Claimed, ConfirmedProjectionPending}"
    using claimed_row [OF c(1) [unfolded rows_def]] unfolding rows_def by blast
  have "claim' = claim" if "is_ok (claimed_acceptance_snapshot H hex pid claim' now' rows)" for claim' now'
  proof -
    from that obtain p d where "claimed_dispatch_proposal pid claim' rows = Some (p, d)"
      by (auto simp: is_ok_iff claimed_acceptance_snapshot_def Let_def)
    then show ?thesis using r(1,3) unfolding rows_def by (elim claimed_row) simp
  qed
  moreover have "\<exists>y. materialized_acceptance_snapshot H hex pid
      (proposals_after H (cs @ [(t, CallConfirm pid claim)])) = Inr y \<and> ms_proposal y = cs_proposal x"
    using materialized_after_confirm [of rows pid r claim H hex t] proposals_inv [of H cs] r c(2,3)
    by (simp add: proposals_after_snoc rows_def)
  moreover have "\<exists>tries p last. dispatches H cs pid = failed_tries pid tries @ EvClaimed pid claim p # last \<and>
      last \<in> {[], [EvConfirmed pid claim]} \<and> digest = review_proposal_snapshot_digest H p"
    using r unfolding rows_def by (intro claimed_history)
  ultimately show ?thesis
    using r(1,2) c(2-4) by (auto simp: get_proposal_def review_proposal_snapshot_digest_def)
qed

definition demo_proposal :: AgentProposal where
  "demo_proposal = new_proposal MemoryWrite ''/memory'' (JString ''note'') ''asked'' 0 RiskLow
     SourceManual ''p1'' 0"

definition demo_review :: "(int \<times> proposal_call) list" where
  "demo_review =
     [(0, CallCreateOrReuse demo_proposal ''key''), (1, CallClaim ''p1'' ''c1''),
      (2, CallFailedBefore ''p1'' ''c1'' ''busy''), (3, CallClaim ''p1'' ''c2'')]"

definition demo_hash :: "AgentProposal \<Rightarrow> string" where
  "demo_hash p = ap_reason p"

lemma demo_accepted:
  "is_ok (claimed_acceptance_snapshot demo_hash (\<lambda>s. s) ''p1'' ''c2'' 4 (proposals_after demo_hash demo_review))"
  by code_simp

theorem acceptance_is_what_was_claimed_witness:
  "\<exists>tries p. dispatches demo_hash demo_review ''p1'' =
     failed_tries ''p1'' tries @ [EvClaimed ''p1'' ''c2'' p] \<or>
   dispatches demo_hash demo_review ''p1'' =
     failed_tries ''p1'' tries @ [EvClaimed ''p1'' ''c2'' p, EvConfirmed ''p1'' ''c2'']"
proof -
  obtain x where "claimed_acceptance_snapshot demo_hash (\<lambda>s. s) ''p1'' ''c2'' 4
      (proposals_after demo_hash demo_review) = Inr x"
    using demo_accepted by (auto simp: is_ok_iff)
  from acceptance_is_what_was_claimed [OF this, of 5, THEN conjunct1] show ?thesis by auto
qed

end
