(* ===== verification/Tool_Permission.thy ===== *)
theory Tool_Permission
  imports Review_Workflow
begin

text \<open>
  The permissions of tools (\<open>openlife-core/src/tool_permissions.rs\<close>): policies by pattern, the
  network consents that a review has granted, and permissions bound to one action. Each of the
  three tables is a list of rows. \<open>ser\<close> is \<open>serde_json::to_string\<close>, \<open>sha\<close> the hexadecimal SHA-256 of
  a text, \<open>H\<close> and \<open>hex\<close> are those of the review workflow; times are in milliseconds, and compared as
  such also where the code compares their RFC 3339 texts.
\<close>

section \<open>Policies and decisions\<close>

datatype ToolPermissionPolicy =
  PolicyAllow | PolicyDeny | PolicyAskEveryTime | PolicyAllowOnce | PolicyAllowUntilRevoked

fun policy_as_str :: "ToolPermissionPolicy \<Rightarrow> string" where
  "policy_as_str PolicyAllow = ''allow''"
| "policy_as_str PolicyDeny = ''deny''"
| "policy_as_str PolicyAskEveryTime = ''ask_every_time''"
| "policy_as_str PolicyAllowOnce = ''allow_once''"
| "policy_as_str PolicyAllowUntilRevoked = ''allow_until_revoked''"

definition policy_from_str :: "string \<Rightarrow> string + ToolPermissionPolicy" where
  "policy_from_str s =
     (if s = ''allow'' then Inr PolicyAllow
      else if s = ''deny'' then Inr PolicyDeny
      else if s = ''ask_every_time'' then Inr PolicyAskEveryTime
      else if s = ''allow_once'' then Inr PolicyAllowOnce
      else if s = ''allow_until_revoked'' then Inr PolicyAllowUntilRevoked
      else Inl (''unknown tool permission policy: '' @ s))"

record ToolPermissionRecord =
  tp_id :: string
  tp_tool_name :: string
  tp_source :: string
  tp_risk_level :: string
  tp_action_type :: string
  tp_policy :: ToolPermissionPolicy
  tp_created_at :: int
  tp_expires_at :: "int option"
  tp_consumed_at :: "int option"

record ToolPermissionDecision =
  td_allowed :: bool
  td_requires_confirmation :: bool
  td_decision :: string
  td_reason :: string
  td_policy_id :: "string option"

datatype permission_error = PermissionBail string | PermissionConstraint

text \<open>What the four scope columns of a permission are compared with.\<close>

record tool_scope =
  sc_tool_name :: string
  sc_source :: string
  sc_risk_level :: string
  sc_action_type :: string

definition scope_of :: "ToolPermissionRecord \<Rightarrow> tool_scope" where
  "scope_of r = \<lparr>sc_tool_name = tp_tool_name r, sc_source = tp_source r,
     sc_risk_level = tp_risk_level r, sc_action_type = tp_action_type r\<rparr>"

section \<open>Consumed network consents\<close>

datatype ReviewedNetworkPermissionAuthority = ConsumedByCanonicalStore

record ConsumedReviewedNetworkPermission =
  cn_permission_id :: string
  cn_proposal_id :: string
  cn_scope :: tool_scope
  cn_authority :: ReviewedNetworkPermissionAuthority

definition validate_scope ::
  "ConsumedReviewedNetworkPermission \<Rightarrow> tool_scope \<Rightarrow> permission_error + unit"
where
  "validate_scope c sc =
     bail_if (cn_authority c \<noteq> ConsumedByCanonicalStore \<or> trim (cn_permission_id c) = [] \<or>
       trim (cn_proposal_id c) = [] \<or> cn_scope c \<noteq> sc)
       (PermissionBail ''consumed reviewed network permission scope mismatch'')"

section \<open>Reading a proposal\<close>

definition json_get :: "json \<Rightarrow> string \<Rightarrow> json option" where
  "json_get v k = Option.bind (as_object v) (\<lambda>obj. map_of obj k)"

fun or_else :: "'a option \<Rightarrow> 'a option \<Rightarrow> 'a option" where
  "or_else (Some x) y = Some x"
| "or_else None y = y"

fun as_u64 :: "json \<Rightarrow> 64 word option" where
  "as_u64 (JNumber s) =
     (if s \<noteq> [] \<and> list_all is_ascii_digit s \<and> undec s 0 < 2 ^ 64 then Some (of_nat (undec s 0))
      else None)"
| "as_u64 _ = None"

fun find_map_key :: "(json \<Rightarrow> 'a option) \<Rightarrow> json \<Rightarrow> string list \<Rightarrow> 'a option" where
  "find_map_key f v [] = None"
| "find_map_key f v (k # ks) = or_else (Option.bind (json_get v k) f) (find_map_key f v ks)"

definition canonical_scope :: "json \<Rightarrow> json option" where
  "canonical_scope after =
     or_else (json_get after ''canonical_scope'') (json_get after ''canonicalScope'')"

definition scope_field :: "(json \<Rightarrow> 'a option) \<Rightarrow> json \<Rightarrow> json option \<Rightarrow> string list \<Rightarrow> 'a option" where
  "scope_field f v scope aliases =
     or_else (find_map_key f v aliases) (Option.bind scope (\<lambda>sc. find_map_key f sc aliases))"

definition nonblank :: "string option \<Rightarrow> string option" where
  "nonblank s = Option.bind s (\<lambda>v. if trim v = [] then None else Some v)"

section \<open>Permissions bound to an action\<close>

record ActionBoundToolPermissionScope =
  ab_tool_name :: string
  ab_source :: string
  ab_risk_level :: string
  ab_manifest_action_type :: string
  ab_queue_action_type :: string
  ab_requested_target :: string
  ab_resolved_target :: string
  ab_input_hash :: string
  ab_input_length_bytes :: "64 word"

record ActionBoundToolExecutionBinding =
  eb_queue_action_type :: string
  eb_requested_target :: string

definition validate_binding :: "ActionBoundToolExecutionBinding \<Rightarrow> permission_error + unit" where
  "validate_binding b = first_failure
     [bail_if (trim (eb_queue_action_type b) = [])
        (PermissionBail ''action-bound ToolPermission execution binding missing queue_action_type''),
      bail_if (trim (eb_requested_target b) = [])
        (PermissionBail ''action-bound ToolPermission execution binding missing requested_target'')]"

definition is_lower_hex :: "string \<Rightarrow> bool" where
  "is_lower_hex s \<longleftrightarrow> length s = 64 \<and>
     list_all (\<lambda>c. is_ascii_digit c \<or> (97 \<le> byte c \<and> byte c \<le> 102)) s"

definition validate_bound_scope :: "ActionBoundToolPermissionScope \<Rightarrow> permission_error + unit" where
  "validate_bound_scope s =
     res_bind (first_failure (map (\<lambda>(field, v).
         bail_if (trim v = []) (PermissionBail (''action-bound ToolPermission scope missing '' @ field)))
       [(''tool_name'', ab_tool_name s), (''source'', ab_source s), (''risk_level'', ab_risk_level s),
        (''manifest_action_type'', ab_manifest_action_type s),
        (''queue_action_type'', ab_queue_action_type s),
        (''requested_target'', ab_requested_target s), (''resolved_target'', ab_resolved_target s),
        (''input_hash'', ab_input_hash s)])) (\<lambda>_.
     case strip_prefix ''sha256:'' (ab_input_hash s) of
       None \<Rightarrow> Inl (PermissionBail ''action-bound ToolPermission input_hash is not a sha256 digest'')
     | Some h \<Rightarrow> bail_if (\<not> is_lower_hex h)
         (PermissionBail ''action-bound ToolPermission input_hash is not a canonical sha256 digest''))"

definition missing :: "string \<Rightarrow> permission_error" where
  "missing what = PermissionBail (''action-bound ToolPermission missing '' @ what)"

definition from_proposal_after :: "json \<Rightarrow> permission_error + ActionBoundToolPermissionScope" where
  "from_proposal_after after =
     (let scope = canonical_scope after;
          top = (\<lambda>aliases. nonblank (scope_field as_str after scope aliases))
      in
     res_bind (ok_or (missing ''blocked_action'')
       (or_else (json_get after ''blocked_action'') (json_get after ''blockedAction''))) (\<lambda>blocked.
     let blocked_string = (\<lambda>aliases. nonblank (scope_field as_str blocked scope aliases)) in
     res_bind (ok_or (missing ''input_length_bytes'')
       (scope_field as_u64 blocked scope [''input_length_bytes'', ''inputLengthBytes''])) (\<lambda>len.
     res_bind (ok_or (missing ''tool_name'') (top [''tool_name'', ''toolName'', ''name''])) (\<lambda>tool_name.
     res_bind (ok_or (missing ''source'') (top [''source''])) (\<lambda>source.
     res_bind (ok_or (missing ''risk_level'') (top [''risk_level'', ''riskLevel''])) (\<lambda>risk_level.
     res_bind (ok_or (missing ''manifest action_type'') (top [''action_type'', ''actionType''])) (\<lambda>manifest.
     res_bind (ok_or (missing ''queue action_type'')
       (blocked_string [''action_type'', ''actionType''])) (\<lambda>queue.
     res_bind (ok_or (missing ''requested target'') (blocked_string [''target''])) (\<lambda>requested.
     res_bind (ok_or (missing ''resolved target'')
       (or_else (blocked_string [''resolved_target'', ''resolvedTarget''])
         (top [''tool_name'', ''toolName'', ''name'']))) (\<lambda>resolved.
     res_bind (ok_or (missing ''input_hash'') (blocked_string [''input_hash'', ''inputHash''])) (\<lambda>input_hash.
     let s = \<lparr>ab_tool_name = tool_name, ab_source = source, ab_risk_level = risk_level,
              ab_manifest_action_type = manifest, ab_queue_action_type = queue,
              ab_requested_target = requested, ab_resolved_target = resolved,
              ab_input_hash = input_hash, ab_input_length_bytes = len\<rparr>
     in res_bind (validate_bound_scope s) (\<lambda>_. Inr s))))))))))))"

definition metadata_safe_value_digest ::
  "(json \<Rightarrow> string) \<Rightarrow> (string \<Rightarrow> string) \<Rightarrow> json \<Rightarrow> nat \<times> string"
where
  "metadata_safe_value_digest ser sha v = (length (ser v), ''sha256:'' @ sha (ser v))"

definition binding_payload :: "ActionBoundToolPermissionScope \<Rightarrow> json" where
  "binding_payload s = JArray
     (map JString [''action_bound_tool_permission_v1'', ab_tool_name s, ab_source s, ab_risk_level s,
        ab_manifest_action_type s, ab_queue_action_type s, ab_requested_target s,
        ab_resolved_target s, ab_input_hash s] @ [JNumber (dec (unat (ab_input_length_bytes s)))])"

definition binding_digest ::
  "(json \<Rightarrow> string) \<Rightarrow> (string \<Rightarrow> string) \<Rightarrow> ActionBoundToolPermissionScope \<Rightarrow> string"
where
  "binding_digest ser sha s = snd (metadata_safe_value_digest ser sha (binding_payload s))"

definition matches_execution ::
  "(json \<Rightarrow> string) \<Rightarrow> (string \<Rightarrow> string) \<Rightarrow> ActionBoundToolPermissionScope \<Rightarrow>
   ActionBoundToolExecutionBinding \<Rightarrow> tool_scope \<Rightarrow> json \<Rightarrow> bool"
where
  "matches_execution ser sha s b sc input =
     (let (len, hash) = metadata_safe_value_digest ser sha input in
      is_ok (validate_binding b) \<and> ab_queue_action_type s = eb_queue_action_type b \<and>
      ab_requested_target s = eb_requested_target b \<and> ab_tool_name s = sc_tool_name sc \<and>
      ab_source s = sc_source sc \<and> ab_risk_level s = sc_risk_level sc \<and>
      ab_manifest_action_type s = sc_action_type sc \<and> ab_resolved_target s = sc_tool_name sc \<and>
      ab_input_hash s = hash \<and> ab_input_length_bytes s = of_nat len)"

record ActionBoundToolPermissionAuthorization =
  au_permission_id :: string
  au_proposal_id :: string
  au_scope_digest :: string
  au_scope :: ActionBoundToolPermissionScope
  au_execution_binding :: "ActionBoundToolExecutionBinding option"

definition bind_execution ::
  "ActionBoundToolPermissionAuthorization \<Rightarrow> ActionBoundToolExecutionBinding \<Rightarrow>
   permission_error + ActionBoundToolPermissionAuthorization"
where
  "bind_execution a b = res_bind (validate_binding b) (\<lambda>_. Inr (a\<lparr>au_execution_binding := Some b\<rparr>))"

section \<open>Tables\<close>

record reviewed_row =
  rv_permission_id :: string
  rv_proposal_id :: string
  rv_created_at :: int

record bound_row =
  br_id :: string
  br_proposal_id :: string
  br_scope_digest :: string
  br_scope :: ActionBoundToolPermissionScope
  br_created_at :: int
  br_consumed_at :: "int option"

record permissions =
  tool_permissions :: "ToolPermissionRecord list"
  action_bound_tool_permissions :: "bound_row list"
  reviewed_network_permissions :: "reviewed_row list"

definition no_permissions :: permissions where
  "no_permissions = \<lparr>tool_permissions = [], action_bound_tool_permissions = [],
     reviewed_network_permissions = []\<rparr>"

text \<open>
  An INSERT fails on a primary key that is in use. The permission of a consent is inserted just
  before it, so its foreign key is there.
\<close>

definition insert_permission ::
  "ToolPermissionRecord \<Rightarrow> permissions \<Rightarrow> permission_error + permissions"
where
  "insert_permission r s =
     (if exists_where (\<lambda>x. tp_id x = tp_id r) (tool_permissions s) then Inl PermissionConstraint
      else Inr (s\<lparr>tool_permissions := tool_permissions s @ [r]\<rparr>))"

definition insert_reviewed :: "reviewed_row \<Rightarrow> permissions \<Rightarrow> permission_error + permissions" where
  "insert_reviewed r s =
     (if exists_where (\<lambda>x. rv_permission_id x = rv_permission_id r \<or> rv_proposal_id x = rv_proposal_id r)
           (reviewed_network_permissions s)
      then Inl PermissionConstraint
      else Inr (s\<lparr>reviewed_network_permissions := reviewed_network_permissions s @ [r]\<rparr>))"

text \<open>The pairs of an INNER JOIN of the consents with their permissions.\<close>

definition joined :: "permissions \<Rightarrow> (ToolPermissionRecord \<times> string) list" where
  "joined s = concat (map (\<lambda>p. map (\<lambda>r. (p, rv_proposal_id r))
     (filter (\<lambda>r. rv_permission_id r = tp_id p) (reviewed_network_permissions s))) (tool_permissions s))"

definition consume_row :: "string \<Rightarrow> int \<Rightarrow> permissions \<Rightarrow> bool \<times> permissions" where
  "consume_row pid now s =
     (let q = (\<lambda>r. tp_id r = pid \<and> tp_consumed_at r = None) in
      (count_where q (tool_permissions s) = 1,
       s\<lparr>tool_permissions := update_where q (\<lambda>r. r\<lparr>tp_consumed_at := Some now\<rparr>) (tool_permissions s)\<rparr>))"

definition unexpired :: "int \<Rightarrow> ToolPermissionRecord \<Rightarrow> bool" where
  "unexpired now r = (case tp_expires_at r of None \<Rightarrow> True | Some t \<Rightarrow> now \<le> t)"

section \<open>Reviewed network consents\<close>

definition open_consent :: "tool_scope \<Rightarrow> int \<Rightarrow> ToolPermissionRecord \<Rightarrow> bool" where
  "open_consent sc now r \<longleftrightarrow> scope_of r = sc \<and> tp_policy r = PolicyAllowOnce \<and>
     tp_consumed_at r = None \<and> unexpired now r"

definition first_by :: "('a \<Rightarrow> 'k::linorder) \<Rightarrow> 'a list \<Rightarrow> 'a option" where
  "first_by key xs = (case sort_key key xs of [] \<Rightarrow> None | x # _ \<Rightarrow> Some x)"

definition consent :: "string \<Rightarrow> string \<Rightarrow> tool_scope \<Rightarrow> ConsumedReviewedNetworkPermission" where
  "consent permission_id proposal_id sc =
     \<lparr>cn_permission_id = permission_id, cn_proposal_id = proposal_id, cn_scope = sc,
      cn_authority = ConsumedByCanonicalStore\<rparr>"

definition consume_consent ::
  "tool_scope \<Rightarrow> int \<Rightarrow> (ToolPermissionRecord \<times> string) option \<Rightarrow> permissions \<Rightarrow>
   ConsumedReviewedNetworkPermission option \<times> permissions"
where
  "consume_consent sc now candidate s =
     (case candidate of
        None \<Rightarrow> (None, s)
      | Some (p, proposal_id) \<Rightarrow>
          (case consume_row (tp_id p) now s of
             (changed, s') \<Rightarrow> (if changed then Some (consent (tp_id p) proposal_id sc) else None, s')))"

definition consume_reviewed_network_once ::
  "tool_scope \<Rightarrow> int \<Rightarrow> permissions \<Rightarrow> ConsumedReviewedNetworkPermission option \<times> permissions"
where
  "consume_reviewed_network_once sc now s =
     consume_consent sc now
       (first_by (\<lambda>(p, _). - tp_created_at p) (filter (\<lambda>(p, _). open_consent sc now p) (joined s))) s"

definition consume_reviewed_network_once_for_proposal ::
  "string \<Rightarrow> tool_scope \<Rightarrow> int \<Rightarrow> permissions \<Rightarrow>
   permission_error + ConsumedReviewedNetworkPermission option \<times> permissions"
where
  "consume_reviewed_network_once_for_proposal proposal_id sc now s =
     (if trim proposal_id = []
      then Inl (PermissionBail ''reviewed network permission proposal_id is empty'')
      else Inr (consume_consent sc now
        (find (\<lambda>(p, pr). pr = proposal_id \<and> open_consent sc now p) (joined s)) s))"

definition reviewed_network_once_available_for_proposal ::
  "string \<Rightarrow> tool_scope \<Rightarrow> int \<Rightarrow> permissions \<Rightarrow> permission_error + bool"
where
  "reviewed_network_once_available_for_proposal proposal_id sc now s =
     (if trim proposal_id = []
      then Inl (PermissionBail ''reviewed network permission proposal_id is empty'')
      else Inr (count_where (\<lambda>(p, pr). pr = proposal_id \<and> open_consent sc now p) (joined s) = 1))"

text \<open>What the proposal of a network consent must say for the scope that is granted.\<close>

definition first_key :: "json \<Rightarrow> string \<Rightarrow> string \<Rightarrow> string option" where
  "first_key v k k' = Option.bind (or_else (json_get v k) (json_get v k')) as_str"

definition scope_digest_of :: "json \<Rightarrow> string \<Rightarrow> string \<Rightarrow> string option" where
  "scope_digest_of after k k' = Option.bind (canonical_scope after) (\<lambda>sc. first_key sc k k')"

definition canonical_scope_suffix :: "json \<Rightarrow> string option" where
  "canonical_scope_suffix after =
     Option.bind (scope_digest_of after ''network_policy_decision_id'' ''networkPolicyDecisionId'') (\<lambda>decision.
       or_else
         (map_option (\<lambda>d. ''@'' @ decision @ ''#endpoint:'' @ d)
           (scope_digest_of after ''endpoint_digest'' ''endpointDigest''))
         (map_option (\<lambda>d. ''@'' @ decision @ ''#action:'' @ d)
           (scope_digest_of after ''action_digest'' ''actionDigest'')))"

definition expected_proposal_risk :: "string \<Rightarrow> RiskLevel option" where
  "expected_proposal_risk s =
     (if s = ''medium'' then Some RiskMedium else if s = ''high'' then Some RiskHigh else None)"

definition is_sha256_digest :: "string \<Rightarrow> bool" where
  "is_sha256_digest d = (case strip_prefix ''sha256:'' d of None \<Rightarrow> False | Some h \<Rightarrow> is_lower_hex h)"

definition action_scoped_network_consent :: "json \<Rightarrow> tool_scope \<Rightarrow> bool" where
  "action_scoped_network_consent after sc \<longleftrightarrow>
     scope_digest_of after ''action_digest'' ''actionDigest'' \<noteq> None \<and>
     scope_digest_of after ''endpoint_digest'' ''endpointDigest'' = None \<and>
     sc_source sc = ''network_policy'' \<and> sc_risk_level sc = ''medium'' \<and>
     starts_with ''network-consent@'' (sc_tool_name sc)"

definition reviewed_scope_ok :: "AgentProposal \<Rightarrow> tool_scope \<Rightarrow> bool" where
  "reviewed_scope_ok p sc \<longleftrightarrow>
     (let after = ap_after p;
          field = scope_field as_str after (canonical_scope after);
          action_digest = scope_digest_of after ''action_digest'' ''actionDigest'';
          exact_digest = or_else (scope_digest_of after ''endpoint_digest'' ''endpointDigest'') action_digest
      in
      ap_proposal_type p = ToolPermissionProposal \<and>
      expected_proposal_risk (sc_risk_level sc) = Some (ap_risk_level p) \<and>
      first_key after ''permission_scope_kind'' ''permissionScopeKind'' = Some ''network_policy'' \<and>
      first_key after ''permission'' ''policy'' = Some ''allow_once'' \<and>
      field [''tool_name'', ''toolName'', ''name''] = Some (sc_tool_name sc) \<and>
      field [''source''] = Some (sc_source sc) \<and>
      field [''risk_level'', ''riskLevel''] = Some (sc_risk_level sc) \<and>
      field [''action_type'', ''actionType''] = Some (sc_action_type sc) \<and>
      (case canonical_scope_suffix after of None \<Rightarrow> False | Some x \<Rightarrow> ends_with x (sc_tool_name sc)) \<and>
      (case exact_digest of None \<Rightarrow> False | Some d \<Rightarrow> is_sha256_digest d) \<and>
      trim (sc_tool_name sc) \<noteq> [] \<and> trim (sc_source sc) \<noteq> [] \<and> sc_action_type sc = ''network'' \<and>
      (action_digest = None \<or> action_scoped_network_consent after sc))"

fun map_review_error :: "proposal_error \<Rightarrow> permission_error" where
  "map_review_error (ProposalBail s) = PermissionBail s"
| "map_review_error ProposalConstraint = PermissionConstraint"

definition new_permission ::
  "string \<Rightarrow> tool_scope \<Rightarrow> ToolPermissionPolicy \<Rightarrow> int \<Rightarrow> int option \<Rightarrow> ToolPermissionRecord"
where
  "new_permission uuid sc policy now expires =
     \<lparr>tp_id = uuid, tp_tool_name = sc_tool_name sc, tp_source = sc_source sc,
      tp_risk_level = sc_risk_level sc, tp_action_type = sc_action_type sc, tp_policy = policy,
      tp_created_at = now, tp_expires_at = expires, tp_consumed_at = None\<rparr>"

definition grant_reviewed_network_once ::
  "(AgentProposal \<Rightarrow> string) \<Rightarrow> ClaimedReviewAcceptanceSnapshot \<Rightarrow> tool_scope \<Rightarrow> string \<Rightarrow> int \<Rightarrow> permissions \<Rightarrow>
   permission_error + ToolPermissionRecord \<times> permissions"
where
  "grant_reviewed_network_once H snapshot sc uuid now s =
     res_bind (map_err map_review_error (validate_claimed H now snapshot)) (\<lambda>_.
     let p = cs_proposal snapshot in
     if \<not> reviewed_scope_ok p sc
     then Inl (PermissionBail ''reviewed network permission scope is invalid'')
     else case find (\<lambda>(_, pr). pr = ap_id p) (joined s) of
       Some (existing, _) \<Rightarrow>
         if scope_of existing \<noteq> sc \<or> tp_policy existing \<noteq> PolicyAllowOnce
         then Inl (PermissionBail ''reviewed network permission proposal scope conflict'')
         else Inr (existing, s)
     | None \<Rightarrow>
         let r = new_permission uuid sc PolicyAllowOnce now None in
         res_bind (insert_permission r s) (\<lambda>s1.
         res_bind (insert_reviewed \<lparr>rv_permission_id = uuid, rv_proposal_id = ap_id p, rv_created_at = now\<rparr> s1)
           (\<lambda>s2. Inr (r, s2))))"

section \<open>Action-bound permissions\<close>

definition authorization ::
  "string \<Rightarrow> string \<Rightarrow> string \<Rightarrow> ActionBoundToolPermissionScope \<Rightarrow> ActionBoundToolPermissionAuthorization"
where
  "authorization permission_id proposal_id digest sc =
     \<lparr>au_permission_id = permission_id, au_proposal_id = proposal_id, au_scope_digest = digest,
      au_scope = sc, au_execution_binding = None\<rparr>"

definition find_bound :: "string \<Rightarrow> permissions \<Rightarrow> bound_row option" where
  "find_bound proposal_id s =
     find (\<lambda>r. br_proposal_id r = proposal_id) (action_bound_tool_permissions s)"

definition same_grant ::
  "string \<Rightarrow> string \<Rightarrow> string \<Rightarrow> ActionBoundToolPermissionScope \<Rightarrow> bound_row \<Rightarrow> permissions \<Rightarrow>
   permission_error + ActionBoundToolPermissionAuthorization \<times> permissions"
where
  "same_grant msg proposal_id digest sc r s =
     (if br_scope_digest r \<noteq> digest then Inl (PermissionBail msg)
      else Inr (authorization (br_id r) proposal_id digest sc, s))"

text \<open>
  The lookup and the INSERT hold the lock of the only connection, so the row of \<open>ON CONFLICT\<close> can
  only be that of another process; the length of the input has to fit into an \<open>i64\<close>.
\<close>

definition grant_action_bound ::
  "(json \<Rightarrow> string) \<Rightarrow> (string \<Rightarrow> string) \<Rightarrow> string \<Rightarrow> ActionBoundToolPermissionScope \<Rightarrow> string \<Rightarrow> int \<Rightarrow> permissions \<Rightarrow>
   permission_error + ActionBoundToolPermissionAuthorization \<times> permissions"
where
  "grant_action_bound ser sha proposal_id sc uuid now s =
     res_bind (validate_bound_scope sc) (\<lambda>_.
     if trim proposal_id = [] then Inl (PermissionBail ''action-bound ToolPermission proposal_id is empty'')
     else
       let digest = binding_digest ser sha sc in
       case find_bound proposal_id s of
         Some r \<Rightarrow>
           same_grant ''action-bound ToolPermission proposal scope conflicts with existing grant''
             proposal_id digest sc r s
       | None \<Rightarrow>
           if 2 ^ 63 \<le> unat (ab_input_length_bytes sc)
           then Inl (PermissionBail ''action-bound ToolPermission input length exceeds SQLite INTEGER'')
           else if exists_where (\<lambda>r. br_id r = uuid) (action_bound_tool_permissions s)
           then Inl PermissionConstraint
           else
             let r = \<lparr>br_id = uuid, br_proposal_id = proposal_id, br_scope_digest = digest,
                      br_scope = sc, br_created_at = now, br_consumed_at = None\<rparr>
             in Inr (authorization uuid proposal_id digest sc,
                  s\<lparr>action_bound_tool_permissions := action_bound_tool_permissions s @ [r]\<rparr>))"

definition peek_action_bound ::
  "(json \<Rightarrow> string) \<Rightarrow> (string \<Rightarrow> string) \<Rightarrow> string \<Rightarrow> ActionBoundToolPermissionScope \<Rightarrow> permissions \<Rightarrow>
   permission_error + ActionBoundToolPermissionAuthorization option"
where
  "peek_action_bound ser sha proposal_id sc s =
     res_bind (validate_bound_scope sc) (\<lambda>_.
     let digest = binding_digest ser sha sc in
     Inr (case find (\<lambda>r. br_proposal_id r = proposal_id \<and> br_scope_digest r = digest)
                 (action_bound_tool_permissions s) of
            None \<Rightarrow> None
          | Some r \<Rightarrow> if br_consumed_at r = None
                     then Some (authorization (br_id r) proposal_id digest sc) else None))"

definition decision :: "bool \<Rightarrow> bool \<Rightarrow> string \<Rightarrow> string \<Rightarrow> string option \<Rightarrow> ToolPermissionDecision" where
  "decision allowed confirm code reason pid =
     \<lparr>td_allowed = allowed, td_requires_confirmation = confirm, td_decision = code,
      td_reason = reason, td_policy_id = pid\<rparr>"

definition owns_bound :: "ActionBoundToolPermissionAuthorization \<Rightarrow> bound_row \<Rightarrow> bool" where
  "owns_bound a r \<longleftrightarrow> br_id r = au_permission_id a \<and> br_proposal_id r = au_proposal_id a \<and>
     br_scope_digest r = au_scope_digest a \<and> br_consumed_at r = None"

definition consume_action_bound ::
  "(json \<Rightarrow> string) \<Rightarrow> (string \<Rightarrow> string) \<Rightarrow> ActionBoundToolPermissionAuthorization \<Rightarrow>
   ActionBoundToolExecutionBinding \<Rightarrow> tool_scope \<Rightarrow> json \<Rightarrow> int \<Rightarrow> permissions \<Rightarrow>
   ToolPermissionDecision \<times> permissions"
where
  "consume_action_bound ser sha a b sc input now s =
     (if binding_digest ser sha (au_scope a) \<noteq> au_scope_digest a \<or>
         \<not> matches_execution ser sha (au_scope a) b sc input
      then (decision False True ''action_bound_scope_mismatch''
              ''action-bound ToolPermission does not match the exact execution''
              (Some (au_permission_id a)), s)
      else
        (if count_where (owns_bound a) (action_bound_tool_permissions s) = 1
         then decision True False ''action_bound_allow_once''
                ''exact action-bound ToolPermission consumed'' (Some (au_permission_id a))
         else decision False True ''action_bound_allow_once_already_consumed''
                ''exact action-bound ToolPermission was consumed by another execution''
                (Some (au_permission_id a)),
         s\<lparr>action_bound_tool_permissions :=
             update_where (owns_bound a) (\<lambda>r. r\<lparr>br_consumed_at := Some now\<rparr>)
               (action_bound_tool_permissions s)\<rparr>))"

definition action_bound_permission_count :: "permissions \<Rightarrow> nat" where
  "action_bound_permission_count s = length (action_bound_tool_permissions s)"

section \<open>Generic permissions\<close>

definition grant ::
  "tool_scope \<Rightarrow> ToolPermissionPolicy \<Rightarrow> int option \<Rightarrow> string \<Rightarrow> int \<Rightarrow> permissions \<Rightarrow>
   permission_error + ToolPermissionRecord \<times> permissions"
where
  "grant sc policy expires uuid now s =
     (let r = new_permission uuid sc policy now expires in
      res_bind (insert_permission r s) (\<lambda>s'. Inr (r, s')))"

definition list_permissions :: "permissions \<Rightarrow> ToolPermissionRecord list" where
  "list_permissions s = sort_key (\<lambda>r. - tp_created_at r) (tool_permissions s)"

text \<open>
  \<open>fk\<close> says whether SQLite enforces foreign keys, which depends on how it was compiled (as the
  crate bundles it, it does): then the permission of a consent cannot be deleted.
\<close>

definition revoke :: "bool \<Rightarrow> string \<Rightarrow> permissions \<Rightarrow> permission_error + bool \<times> permissions" where
  "revoke fk pid s =
     (let q = (\<lambda>r. tp_id r = pid) in
      if fk \<and> exists_where q (tool_permissions s) \<and>
         exists_where (\<lambda>r. rv_permission_id r = pid) (reviewed_network_permissions s)
      then Inl PermissionConstraint
      else Inr (exists_where q (tool_permissions s),
             s\<lparr>tool_permissions := filter (\<lambda>r. \<not> q r) (tool_permissions s)\<rparr>))"

definition pattern :: "string \<Rightarrow> string \<Rightarrow> bool" where
  "pattern p v \<longleftrightarrow> p = v \<or> p = ''*''"

definition covers :: "tool_scope \<Rightarrow> ToolPermissionRecord \<Rightarrow> bool" where
  "covers sc r \<longleftrightarrow> pattern (tp_tool_name r) (sc_tool_name sc) \<and> pattern (tp_source r) (sc_source sc) \<and>
     pattern (tp_risk_level r) (sc_risk_level sc) \<and> pattern (tp_action_type r) (sc_action_type sc)"

definition rank :: "tool_scope \<Rightarrow> ToolPermissionRecord \<Rightarrow> bool \<times> bool \<times> bool \<times> bool \<times> int" where
  "rank sc r = (tp_tool_name r \<noteq> sc_tool_name sc, tp_source r \<noteq> sc_source sc,
     tp_risk_level r \<noteq> sc_risk_level sc, tp_action_type r \<noteq> sc_action_type sc, - tp_created_at r)"

definition find_best :: "tool_scope \<Rightarrow> permissions \<Rightarrow> ToolPermissionRecord option" where
  "find_best sc s = first_by (rank sc) (filter (covers sc) (tool_permissions s))"

definition asks_by_default :: "tool_scope \<Rightarrow> string list \<Rightarrow> bool" where
  "asks_by_default sc capabilities \<longleftrightarrow>
     sc_risk_level sc = ''high'' \<or>
     list_ex (\<lambda>c. c \<in> {''write'', ''memory'', ''lifemodel'', ''filesystem'', ''external_side_effect''})
       capabilities"

definition default_decision :: "tool_scope \<Rightarrow> string list \<Rightarrow> ToolPermissionDecision" where
  "default_decision sc capabilities =
     (let asks = asks_by_default sc capabilities in
      decision (\<not> asks) asks (if asks then ''ask_every_time'' else ''allow'')
        (if asks then ''no policy for high-risk/write action''
         else ''low-risk read action allowed by default'') None)"

definition allow_decision :: "ToolPermissionRecord \<Rightarrow> ToolPermissionDecision" where
  "allow_decision r =
     decision True False (policy_as_str (tp_policy r)) ''matching allow policy'' (Some (tp_id r))"

definition consumed_decision :: "ToolPermissionRecord \<Rightarrow> ToolPermissionDecision" where
  "consumed_decision r =
     decision False True ''allow_once_already_consumed''
       ''matching allow-once policy was consumed by another request'' (Some (tp_id r))"

definition expired_decision :: "ToolPermissionRecord \<Rightarrow> ToolPermissionDecision" where
  "expired_decision r = decision False True ''expired'' ''matching policy expired'' (Some (tp_id r))"

definition deny_decision :: "ToolPermissionRecord \<Rightarrow> ToolPermissionDecision" where
  "deny_decision r = decision False False ''deny'' ''matching deny policy'' (Some (tp_id r))"

definition ask_decision :: "ToolPermissionRecord \<Rightarrow> ToolPermissionDecision" where
  "ask_decision r =
     decision False True ''ask_every_time'' ''matching ask-every-time policy'' (Some (tp_id r))"

text \<open>
  \<open>check\<close> reads, and for a permission to be used once then consumes it: two uses of the
  connection between which other calls may come. \<open>check_lookup\<close> is the first.
\<close>

datatype lookup = Decided ToolPermissionDecision | TryOnce ToolPermissionRecord

definition check_lookup :: "tool_scope \<Rightarrow> string list \<Rightarrow> int \<Rightarrow> permissions \<Rightarrow> lookup" where
  "check_lookup sc capabilities now s =
     (case find_best sc s of
        None \<Rightarrow> Decided (default_decision sc capabilities)
      | Some r \<Rightarrow>
          if \<not> unexpired now r then Decided (expired_decision r)
          else (case tp_policy r of
                  PolicyAllow \<Rightarrow> Decided (allow_decision r)
                | PolicyAllowUntilRevoked \<Rightarrow> Decided (allow_decision r)
                | PolicyDeny \<Rightarrow> Decided (deny_decision r)
                | PolicyAskEveryTime \<Rightarrow> Decided (ask_decision r)
                | PolicyAllowOnce \<Rightarrow> TryOnce r))"

definition consume_if_available :: "string \<Rightarrow> int \<Rightarrow> permissions \<Rightarrow> bool \<times> permissions" where
  "consume_if_available pid now s = consume_row pid now s"

definition once_decision :: "ToolPermissionRecord \<Rightarrow> bool \<Rightarrow> ToolPermissionDecision" where
  "once_decision r consumed =
     (if consumed
      then decision True False ''allow_once'' ''matching allow-once policy consumed'' (Some (tp_id r))
      else consumed_decision r)"

definition check ::
  "tool_scope \<Rightarrow> string list \<Rightarrow> int \<Rightarrow> permissions \<Rightarrow> ToolPermissionDecision \<times> permissions"
where
  "check sc capabilities now s =
     (case check_lookup sc capabilities now s of
        Decided d \<Rightarrow> (d, s)
      | TryOnce r \<Rightarrow>
          (case consume_if_available (tp_id r) now s of (consumed, s') \<Rightarrow> (once_decision r consumed, s')))"

definition peek :: "tool_scope \<Rightarrow> string list \<Rightarrow> int \<Rightarrow> permissions \<Rightarrow> ToolPermissionDecision" where
  "peek sc capabilities now s =
     (case find_best sc s of
        None \<Rightarrow> default_decision sc capabilities
      | Some r \<Rightarrow>
          if \<not> unexpired now r then expired_decision r
          else if tp_policy r = PolicyAllowOnce \<and> tp_consumed_at r \<noteq> None then consumed_decision r
          else (case tp_policy r of
                  PolicyAllow \<Rightarrow> allow_decision r
                | PolicyAllowUntilRevoked \<Rightarrow> allow_decision r
                | PolicyDeny \<Rightarrow> deny_decision r
                | PolicyAskEveryTime \<Rightarrow> ask_decision r
                | PolicyAllowOnce \<Rightarrow> decision True False ''allow_once''
                    ''matching allow-once policy (not consumed yet)'' (Some (tp_id r))))"

end
