(* ===== verification/Permission_Safety.thy ===== *)
theory Permission_Safety
  imports Tool_Permission
begin

text \<open>
  Every sequence of calls on the permissions. \<open>CallConsume\<close> is the second half of a \<open>check\<close>, so
  that other calls come between its two uses of the store. An event is something that was
  granted, or used. The property is C28.
\<close>

datatype permission_call =
  CallGrant tool_scope ToolPermissionPolicy "int option" string
| CallRevoke string
| CallCheck tool_scope "string list"
| CallConsume string
| CallGrantReviewed ClaimedReviewAcceptanceSnapshot tool_scope string
| CallConsumeReviewed tool_scope
| CallConsumeReviewedFor string tool_scope
| CallGrantBound string ActionBoundToolPermissionScope string
| CallConsumeBound ActionBoundToolPermissionAuthorization ActionBoundToolExecutionBinding tool_scope json

datatype permission_event =
  UsedPermission string
| UsedConsent ConsumedReviewedNetworkPermission
| UsedBound ActionBoundToolPermissionAuthorization ActionBoundToolExecutionBinding tool_scope json

text \<open>A refused call changes nothing.\<close>

definition changed_to :: "'a \<Rightarrow> permission_error + 'b \<times> 'a \<Rightarrow> 'a" where
  "changed_to s r = (case r of Inl _ \<Rightarrow> s | Inr (_, s') \<Rightarrow> s')"

definition used_consent ::
  "ConsumedReviewedNetworkPermission option \<times> permissions \<Rightarrow> permission_event option \<times> permissions"
where
  "used_consent r = (map_option UsedConsent (fst r), snd r)"

definition used_permission :: "string \<Rightarrow> bool \<times> permissions \<Rightarrow> permission_event option \<times> permissions" where
  "used_permission pid r = (if fst r then Some (UsedPermission pid) else None, snd r)"

fun permission_step ::
  "bool \<Rightarrow> (AgentProposal \<Rightarrow> string) \<Rightarrow> (json \<Rightarrow> string) \<Rightarrow> (string \<Rightarrow> string) \<Rightarrow> int \<times> permission_call \<Rightarrow> permissions \<Rightarrow>
   permission_event option \<times> permissions"
where
  "permission_step fk H ser sha (t, CallGrant sc policy expires uuid) s =
     (None, changed_to s (grant sc policy expires uuid t s))"
| "permission_step fk H ser sha (t, CallRevoke pid) s = (None, changed_to s (revoke fk pid s))"
| "permission_step fk H ser sha (t, CallCheck sc capabilities) s =
     (case check sc capabilities t s of
        (d, s') \<Rightarrow>
          (if td_decision d = ''allow_once'' then map_option UsedPermission (td_policy_id d) else None, s'))"
| "permission_step fk H ser sha (t, CallConsume pid) s = used_permission pid (consume_if_available pid t s)"
| "permission_step fk H ser sha (t, CallGrantReviewed snapshot sc uuid) s =
     (None, changed_to s (grant_reviewed_network_once H snapshot sc uuid t s))"
| "permission_step fk H ser sha (t, CallConsumeReviewed sc) s =
     used_consent (consume_reviewed_network_once sc t s)"
| "permission_step fk H ser sha (t, CallConsumeReviewedFor proposal_id sc) s =
     (case consume_reviewed_network_once_for_proposal proposal_id sc t s of
        Inl _ \<Rightarrow> (None, s) | Inr r \<Rightarrow> used_consent r)"
| "permission_step fk H ser sha (t, CallGrantBound proposal_id sc uuid) s =
     (None, changed_to s (grant_action_bound ser sha proposal_id sc uuid t s))"
| "permission_step fk H ser sha (t, CallConsumeBound a b sc input) s =
     (case consume_action_bound ser sha a b sc input t s of
        (d, s') \<Rightarrow> (if td_allowed d then Some (UsedBound a b sc input) else None, s'))"

definition somes :: "'a option list \<Rightarrow> 'a list" where
  "somes xs = concat (map (case_option [] (\<lambda>x. [x])) xs)"

definition permissions_after ::
  "bool \<Rightarrow> (AgentProposal \<Rightarrow> string) \<Rightarrow> (json \<Rightarrow> string) \<Rightarrow> (string \<Rightarrow> string) \<Rightarrow> (int \<times> permission_call) list \<Rightarrow>
   permissions"
where
  "permissions_after fk H ser sha cs = run_state (permission_step fk H ser sha) cs no_permissions"

definition permission_events ::
  "bool \<Rightarrow> (AgentProposal \<Rightarrow> string) \<Rightarrow> (json \<Rightarrow> string) \<Rightarrow> (string \<Rightarrow> string) \<Rightarrow> (int \<times> permission_call) list \<Rightarrow>
   permission_event list"
where
  "permission_events fk H ser sha cs =
     somes (run_outputs (permission_step fk H ser sha) cs no_permissions)"

text \<open>Which calls make an event one that had to be allowed.\<close>

fun justified ::
  "(AgentProposal \<Rightarrow> string) \<Rightarrow> (json \<Rightarrow> string) \<Rightarrow> (string \<Rightarrow> string) \<Rightarrow> (int \<times> permission_call) list \<Rightarrow>
   permission_event \<Rightarrow> bool"
where
  "justified H ser sha cs (UsedPermission pid) \<longleftrightarrow>
     (\<exists>t sc policy expires. (t, CallGrant sc policy expires pid) \<in> set cs) \<or>
     (\<exists>t snapshot sc. (t, CallGrantReviewed snapshot sc pid) \<in> set cs)"
| "justified H ser sha cs (UsedConsent c) \<longleftrightarrow>
     (\<exists>t snapshot. (t, CallGrantReviewed snapshot (cn_scope c) (cn_permission_id c)) \<in> set cs \<and>
        validate_claimed H t snapshot = Inr () \<and>
        reviewed_scope_ok (cs_proposal snapshot) (cn_scope c) \<and>
        ap_id (cs_proposal snapshot) = cn_proposal_id c)"
| "justified H ser sha cs (UsedBound a b sc input) \<longleftrightarrow>
     matches_execution ser sha (au_scope a) b sc input \<and>
     (\<exists>t g. (t, CallGrantBound (au_proposal_id a) g (au_permission_id a)) \<in> set cs \<and>
        validate_bound_scope g = Inr () \<and>
        binding_digest ser sha g = binding_digest ser sha (au_scope a))"

fun uses :: "string \<Rightarrow> permission_event \<Rightarrow> bool" where
  "uses pid (UsedPermission p) = (p = pid)"
| "uses pid (UsedConsent c) = (cn_permission_id c = pid)"
| "uses pid (UsedBound a b sc input) = False"

fun draws :: "string \<Rightarrow> int \<times> permission_call \<Rightarrow> bool" where
  "draws pid (t, CallGrant sc policy expires uuid) = (uuid = pid)"
| "draws pid (t, CallGrantReviewed snapshot sc uuid) = (uuid = pid)"
| "draws pid _ = False"

fun consent_for :: "string \<Rightarrow> permission_event \<Rightarrow> bool" where
  "consent_for proposal (UsedConsent c) = (cn_proposal_id c = proposal)"
| "consent_for proposal _ = False"

fun bound_for :: "string \<Rightarrow> permission_event \<Rightarrow> bool" where
  "bound_for proposal (UsedBound a b sc input) = (au_proposal_id a = proposal)"
| "bound_for proposal _ = False"

section \<open>Sequences\<close>

lemma run_outputs_snoc:
  "run_outputs step (cs @ [c]) s = run_outputs step cs s @ [fst (step c (run_state step cs s))]"
  by (induction cs arbitrary: s) auto

lemma somes_simps [simp]:
  "somes [] = []" "somes (None # xs) = somes xs" "somes (Some x # xs) = x # somes xs"
  "somes (xs @ ys) = somes xs @ somes ys"
  by (simp_all add: somes_def)

lemma count_somes: "count_where p (somes xs) = count_where (case_option False p) xs"
proof (induction xs)
  case (Cons x xs)
  then show ?case by (cases x) (auto simp: count_where_def)
qed (simp add: count_where_def)

lemma events_snoc:
  "permission_events fk H ser sha (cs @ [c]) = permission_events fk H ser sha cs @
     somes [fst (permission_step fk H ser sha c (permissions_after fk H ser sha cs))]"
  by (simp add: permission_events_def permissions_after_def run_outputs_snoc)

lemma after_snoc:
  "permissions_after fk H ser sha (cs @ [c]) =
     snd (permission_step fk H ser sha c (permissions_after fk H ser sha cs))"
  by (simp add: permissions_after_def run_state_append)

lemma justified_mono:
  "justified H ser sha cs ev \<Longrightarrow> set cs \<subseteq> set ds \<Longrightarrow> justified H ser sha ds ev"
  by (cases ev) (auto, blast+)

section \<open>What a call does to the tables\<close>

definition fresh :: "string \<Rightarrow> ToolPermissionRecord \<Rightarrow> bool" where
  "fresh pid r \<longleftrightarrow> tp_id r = pid \<and> tp_consumed_at r = None"

definition used_at :: "string \<Rightarrow> int \<Rightarrow> permissions \<Rightarrow> permissions" where
  "used_at pid t s =
     s\<lparr>tool_permissions := update_where (fresh pid) (\<lambda>r. r\<lparr>tp_consumed_at := Some t\<rparr>) (tool_permissions s)\<rparr>"

definition bound_at :: "ActionBoundToolPermissionAuthorization \<Rightarrow> int \<Rightarrow> permissions \<Rightarrow> permissions" where
  "bound_at a t s =
     s\<lparr>action_bound_tool_permissions :=
         update_where (owns_bound a) (\<lambda>r. r\<lparr>br_consumed_at := Some t\<rparr>) (action_bound_tool_permissions s)\<rparr>"

text \<open>The permission and the link from which a use comes.\<close>

fun backed :: "permissions \<Rightarrow> string \<Rightarrow> permission_event \<Rightarrow> bool" where
  "backed s pid (UsedPermission p) \<longleftrightarrow> p = pid"
| "backed s pid (UsedConsent c) \<longleftrightarrow> cn_permission_id c = pid \<and>
     (\<exists>r \<in> set (tool_permissions s). tp_id r = pid \<and> scope_of r = cn_scope c) \<and>
     (\<exists>l \<in> set (reviewed_network_permissions s).
        rv_permission_id l = pid \<and> rv_proposal_id l = cn_proposal_id c)"
| "backed s pid (UsedBound a b sc input) \<longleftrightarrow> False"

inductive move ::
  "(AgentProposal \<Rightarrow> string) \<Rightarrow> (json \<Rightarrow> string) \<Rightarrow> (string \<Rightarrow> string) \<Rightarrow> (int \<times> permission_call) list \<Rightarrow>
   permissions \<Rightarrow> permission_event option \<Rightarrow> permissions \<Rightarrow> bool"
  for H ser sha cs
where
  stay: "move H ser sha cs s None s"
| granted: "\<forall>x \<in> set (tool_permissions s). tp_id x \<noteq> tp_id r \<Longrightarrow> draws (tp_id r) (last cs) \<Longrightarrow> cs \<noteq> [] \<Longrightarrow>
    move H ser sha cs s None (s\<lparr>tool_permissions := tool_permissions s @ [r]\<rparr>)"
| revoked: "\<forall>l \<in> set (reviewed_network_permissions s). rv_permission_id l \<noteq> pid \<Longrightarrow>
    move H ser sha cs s None (s\<lparr>tool_permissions := filter (\<lambda>r. tp_id r \<noteq> pid) (tool_permissions s)\<rparr>)"
| once: "count_where (fresh pid) (tool_permissions s) = 1 \<Longrightarrow> backed s pid ev \<Longrightarrow>
    move H ser sha cs s (Some ev) (used_at pid t s)"
| late: "move H ser sha cs s None (used_at pid t s)"
| consented: "\<forall>x \<in> set (tool_permissions s). tp_id x \<noteq> tp_id r \<Longrightarrow>
    \<forall>x \<in> set (reviewed_network_permissions s).
      rv_permission_id x \<noteq> tp_id r \<and> rv_proposal_id x \<noteq> rv_proposal_id l \<Longrightarrow>
    rv_permission_id l = tp_id r \<Longrightarrow> draws (tp_id r) (last cs) \<Longrightarrow> cs \<noteq> [] \<Longrightarrow>
    justified H ser sha cs (UsedConsent (consent (tp_id r) (rv_proposal_id l) (scope_of r))) \<Longrightarrow>
    move H ser sha cs s None
      (s\<lparr>tool_permissions := tool_permissions s @ [r],
         reviewed_network_permissions := reviewed_network_permissions s @ [l]\<rparr>)"
| bound: "\<forall>x \<in> set (action_bound_tool_permissions s). br_proposal_id x \<noteq> br_proposal_id r \<Longrightarrow>
    \<exists>t. (t, CallGrantBound (br_proposal_id r) (br_scope r) (br_id r)) \<in> set cs \<Longrightarrow>
    validate_bound_scope (br_scope r) = Inr () \<Longrightarrow>
    br_scope_digest r = binding_digest ser sha (br_scope r) \<Longrightarrow>
    move H ser sha cs s None (s\<lparr>action_bound_tool_permissions := action_bound_tool_permissions s @ [r]\<rparr>)"
| bound_once: "count_where (owns_bound a) (action_bound_tool_permissions s) = 1 \<Longrightarrow>
    matches_execution ser sha (au_scope a) b sc input \<Longrightarrow>
    binding_digest ser sha (au_scope a) = au_scope_digest a \<Longrightarrow>
    move H ser sha cs s (Some (UsedBound a b sc input)) (bound_at a t s)"
| bound_late: "move H ser sha cs s None (bound_at a t s)"

lemma consume_row_used: "consume_row pid t s = (count_where (fresh pid) (tool_permissions s) = 1, used_at pid t s)"
  by (simp add: consume_row_def Let_def used_at_def fresh_def [abs_def])

lemma joined_iff:
  "(r, proposal) \<in> set (joined s) \<longleftrightarrow> r \<in> set (tool_permissions s) \<and>
     (\<exists>l \<in> set (reviewed_network_permissions s). rv_permission_id l = tp_id r \<and> rv_proposal_id l = proposal)"
  by (auto simp: joined_def)

lemma first_by_mem: "first_by key xs = Some x \<Longrightarrow> x \<in> set xs"
  by (simp add: first_by_def split: list.splits) (metis list.set_intros(1) set_sort)

lemma consume_move:
  assumes "\<And>p proposal. candidate = Some (p, proposal) \<Longrightarrow> (p, proposal) \<in> set (joined s) \<and> scope_of p = sc"
  shows "move H ser sha cs s (fst (used_consent (consume_consent sc t candidate s)))
     (snd (used_consent (consume_consent sc t candidate s)))"
proof (cases candidate)
  case None
  then show ?thesis by (simp add: consume_consent_def used_consent_def stay)
next
  case (Some pp)
  obtain p proposal where pp: "pp = (p, proposal)" by (cases pp)
  have "backed s (tp_id p) (UsedConsent (consent (tp_id p) proposal sc))"
    using assms Some pp by (auto simp: joined_iff consent_def)
  then show ?thesis
    using Some pp by (auto simp: consume_consent_def used_consent_def consume_row_used
        simp del: backed.simps One_nat_def intro: once late)
qed

lemma once_permission:
  "count_where (fresh pid) (tool_permissions s) = 1 \<Longrightarrow>
   move H ser sha cs s (Some (UsedPermission pid)) (used_at pid t s)"
  by (rule once) simp_all

lemma new_permission_simps [simp]:
  "tp_id (new_permission uuid sc policy t expires) = uuid"
  "scope_of (new_permission uuid sc policy t expires) = sc"
  "tp_consumed_at (new_permission uuid sc policy t expires) = None"
  by (simp_all add: new_permission_def scope_of_def)

lemma grant_move:
  assumes "draws uuid (last cs)" "cs \<noteq> []"
  shows "move H ser sha cs s None (changed_to s (grant sc policy expires uuid t s))"
  using assms by (auto simp: grant_def insert_permission_def changed_to_def Let_def
      intro!: stay granted)

lemma revoke_move: "fk \<Longrightarrow> move H ser sha cs s None (changed_to s (revoke fk pid s))"
proof (cases "exists_where (\<lambda>r. rv_permission_id r = pid) (reviewed_network_permissions s)")
  case True
  assume fk
  then show ?thesis
  proof (cases "exists_where (\<lambda>r. tp_id r = pid) (tool_permissions s)")
    case False
    then have "filter (\<lambda>r. tp_id r \<noteq> pid) (tool_permissions s) = tool_permissions s"
      by (simp add: filter_id_conv)
    then show ?thesis using False by (simp add: revoke_def changed_to_def stay)
  qed (use True in \<open>simp add: revoke_def changed_to_def stay\<close>)
next
  case False
  then show ?thesis by (auto simp: revoke_def changed_to_def Let_def intro: revoked)
qed

lemma check_move:
  "check sc capabilities t s = (d, s') \<Longrightarrow>
   move H ser sha cs s (if td_decision d = ''allow_once'' then map_option UsedPermission (td_policy_id d) else None) s'"
  unfolding check_def check_lookup_def
  by (auto simp: consume_if_available_def consume_row_used once_decision_def decision_def
      default_decision_def allow_decision_def deny_decision_def ask_decision_def expired_decision_def
      consumed_decision_def Let_def simp del: One_nat_def
      split: option.splits if_splits ToolPermissionPolicy.splits intro: stay once_permission late)

lemma bound_grant_move:
  assumes "last cs = (t, CallGrantBound proposal sc uuid)" "cs \<noteq> []"
  shows "move H ser sha cs s None (changed_to s (grant_action_bound ser sha proposal sc uuid t s))"
proof -
  have "(t, CallGrantBound proposal sc uuid) \<in> set cs" using assms last_in_set by metis
  then show ?thesis
    by (auto simp: grant_action_bound_def changed_to_def same_grant_def find_bound_def find_None_iff Let_def
        split: sum.splits option.splits intro!: stay bound)
qed

lemma bound_consume_move:
  "consume_action_bound ser sha a b sc input t s = (d, s') \<Longrightarrow>
   move H ser sha cs s (if td_allowed d then Some (UsedBound a b sc input) else None) s'"
  by (auto simp: consume_action_bound_def decision_def bound_at_def [symmetric] simp del: One_nat_def
      split: if_splits intro: stay bound_once bound_late)

lemma consent_grant_move:
  assumes "last cs = (t, CallGrantReviewed snapshot sc uuid)" "cs \<noteq> []"
  shows "move H ser sha cs s None (changed_to s (grant_reviewed_network_once H snapshot sc uuid t s))"
proof (cases "grant_reviewed_network_once H snapshot sc uuid t s")
  case (Inr y)
  let ?p = "cs_proposal snapshot" and ?r = "new_permission uuid sc PolicyAllowOnce t None"
  let ?l = "\<lparr>rv_permission_id = uuid, rv_proposal_id = ap_id ?p, rv_created_at = t\<rparr>"
  have mem: "(t, CallGrantReviewed snapshot sc uuid) \<in> set cs" using assms last_in_set by metis
  from Inr have ok: "validate_claimed H t snapshot = Inr ()" "reviewed_scope_ok ?p sc"
    by (auto simp: grant_reviewed_network_once_def Let_def split: if_splits)
  show ?thesis
  proof (cases "snd y = s")
    case True
    with Inr show ?thesis by (simp add: changed_to_def split: prod.splits) (metis stay snd_conv)
  next
    case False
    then have new: "\<forall>x \<in> set (tool_permissions s). tp_id x \<noteq> uuid"
        "\<forall>x \<in> set (reviewed_network_permissions s). rv_permission_id x \<noteq> uuid \<and> rv_proposal_id x \<noteq> ap_id ?p"
        "snd y = s\<lparr>tool_permissions := tool_permissions s @ [?r],
           reviewed_network_permissions := reviewed_network_permissions s @ [?l]\<rparr>"
      using Inr ok by (auto simp: grant_reviewed_network_once_def Let_def insert_permission_def insert_reviewed_def
          split: if_splits option.splits)
    have "move H ser sha cs s None (s\<lparr>tool_permissions := tool_permissions s @ [?r],
        reviewed_network_permissions := reviewed_network_permissions s @ [?l]\<rparr>)"
      using mem ok assms new(1,2)
      by (intro consented) (auto simp: consent_def)
    then show ?thesis using Inr new(3) by (cases y) (simp add: changed_to_def)
  qed
qed (simp add: changed_to_def stay)

lemma step_move:
  assumes "fk"
  shows "move H ser sha (cs @ [c]) s (fst (permission_step fk H ser sha c s)) (snd (permission_step fk H ser sha c s))"
proof -
  obtain t call where c: "c = (t, call)" by (cases c)
  show ?thesis
  proof (cases call)
    case (CallGrant sc policy expires uuid)
    then show ?thesis by (simp add: c grant_move)
  next
    case (CallRevoke pid)
    then show ?thesis using assms by (simp add: c revoke_move)
  next
    case (CallCheck sc capabilities)
    then show ?thesis using check_move by (simp add: c split: prod.splits)
  next
    case (CallConsume pid)
    then show ?thesis
      by (simp add: c used_permission_def consume_if_available_def consume_row_used once_permission late
          del: One_nat_def)
  next
    case (CallGrantReviewed snapshot sc uuid)
    then show ?thesis by (simp add: c consent_grant_move)
  next
    case (CallConsumeReviewed sc)
    then show ?thesis
      by (simp add: c consume_reviewed_network_once_def)
        (rule consume_move, auto dest!: first_by_mem simp: open_consent_def)
  next
    case (CallConsumeReviewedFor proposal sc)
    then show ?thesis
      by (auto simp: c consume_reviewed_network_once_for_proposal_def
          intro!: stay consume_move dest!: find_Some_mem simp: open_consent_def)
  next
    case (CallGrantBound proposal sc uuid)
    then show ?thesis by (simp add: c bound_grant_move)
  next
    case (CallConsumeBound a b sc input)
    then show ?thesis using bound_consume_move by (simp add: c split: prod.splits)
  qed
qed

section \<open>The invariant\<close>

definition perms_ok ::
  "(AgentProposal \<Rightarrow> string) \<Rightarrow> (json \<Rightarrow> string) \<Rightarrow> (string \<Rightarrow> string) \<Rightarrow> (int \<times> permission_call) list \<Rightarrow>
   permissions \<Rightarrow> bool"
where
  "perms_ok H ser sha cs s \<longleftrightarrow>
     (distinct (map tp_id (tool_permissions s)) \<and>
      distinct (map rv_proposal_id (reviewed_network_permissions s)) \<and>
      distinct (map br_proposal_id (action_bound_tool_permissions s))) \<and>
     (\<forall>l \<in> set (reviewed_network_permissions s).
        \<exists>r \<in> set (tool_permissions s). tp_id r = rv_permission_id l) \<and>
     (\<forall>r \<in> set (tool_permissions s). \<exists>c \<in> set cs. draws (tp_id r) c) \<and>
     (\<forall>l \<in> set (reviewed_network_permissions s). \<forall>r \<in> set (tool_permissions s).
        tp_id r = rv_permission_id l \<longrightarrow>
        justified H ser sha cs (UsedConsent (consent (tp_id r) (rv_proposal_id l) (scope_of r)))) \<and>
     (\<forall>r \<in> set (action_bound_tool_permissions s).
        (\<exists>t. (t, CallGrantBound (br_proposal_id r) (br_scope r) (br_id r)) \<in> set cs) \<and>
        validate_bound_scope (br_scope r) = Inr () \<and>
        br_scope_digest r = binding_digest ser sha (br_scope r))"

lemma perms_consent:
  "perms_ok H ser sha cs s \<Longrightarrow> l \<in> set (reviewed_network_permissions s) \<Longrightarrow>
   r \<in> set (tool_permissions s) \<Longrightarrow> tp_id r = rv_permission_id l \<Longrightarrow>
   justified H ser sha cs (UsedConsent (consent (tp_id r) (rv_proposal_id l) (scope_of r)))"
  unfolding perms_ok_def by blast

lemma perms_bound:
  "perms_ok H ser sha cs s \<Longrightarrow> r \<in> set (action_bound_tool_permissions s) \<Longrightarrow>
   (\<exists>t. (t, CallGrantBound (br_proposal_id r) (br_scope r) (br_id r)) \<in> set cs) \<and>
   validate_bound_scope (br_scope r) = Inr () \<and> br_scope_digest r = binding_digest ser sha (br_scope r)"
  unfolding perms_ok_def by blast

lemma perms_ok_mono:
  "perms_ok H ser sha cs s \<Longrightarrow> set cs \<subseteq> set ds \<Longrightarrow> perms_ok H ser sha ds s"
  unfolding perms_ok_def using justified_mono [of H ser sha cs _ ds] by (meson subsetD)

lemma perms_ok_empty: "perms_ok H ser sha cs no_permissions"
  by (simp add: perms_ok_def no_permissions_def)

lemma used_at_rows:
  "map tp_id (update_where (fresh pid) (\<lambda>r. r\<lparr>tp_consumed_at := Some t\<rparr>) rows) = map tp_id rows"
  by (rule map_update_where) simp

lemma used_at_mem:
  assumes "r \<in> set (update_where (fresh pid) (\<lambda>r. r\<lparr>tp_consumed_at := Some t\<rparr>) rows)"
  obtains r0 where "r0 \<in> set rows" "tp_id r = tp_id r0" "scope_of r = scope_of r0"
  using assms by (elim update_whereE) (auto simp: scope_of_def)

lemma used_at_keeps:
  assumes "r \<in> set rows"
  obtains r1 where "r1 \<in> set (update_where (fresh pid) (\<lambda>r. r\<lparr>tp_consumed_at := Some t\<rparr>) rows)"
    "tp_id r1 = tp_id r" "tp_consumed_at r \<noteq> None \<Longrightarrow> tp_consumed_at r1 \<noteq> None"
proof (cases "fresh pid r")
  case True
  with assms that [of "r\<lparr>tp_consumed_at := Some t\<rparr>"] show ?thesis by (force simp: set_update_where)
next
  case False
  with assms that [of r] show ?thesis by (force simp: set_update_where)
qed

lemma perms_okI:
  assumes "perms_ok H ser sha cs s"
    and "map tp_id (tool_permissions s') = map tp_id (tool_permissions s)"
    and "reviewed_network_permissions s' = reviewed_network_permissions s"
    and "action_bound_tool_permissions s' = action_bound_tool_permissions s"
    and "\<And>r. r \<in> set (tool_permissions s') \<Longrightarrow>
      \<exists>r0 \<in> set (tool_permissions s). tp_id r0 = tp_id r \<and> scope_of r0 = scope_of r"
  shows "perms_ok H ser sha cs s'"
proof -
  have ids: "tp_id ` set (tool_permissions s') = tp_id ` set (tool_permissions s)"
    using assms(2) by (metis list.set_map)
  have "\<exists>r \<in> set (tool_permissions s'). tp_id r = rv_permission_id l"
    if "l \<in> set (reviewed_network_permissions s)" for l
  proof -
    have "rv_permission_id l \<in> tp_id ` set (tool_permissions s)"
      using that assms(1) unfolding perms_ok_def by force
    then show ?thesis unfolding ids [symmetric] by force
  qed
  moreover have "\<exists>c \<in> set cs. draws (tp_id r) c" if "r \<in> set (tool_permissions s')" for r
    using assms(1) assms(5) [OF that] unfolding perms_ok_def by metis
  moreover have "justified H ser sha cs (UsedConsent (consent (tp_id r) (rv_proposal_id l) (scope_of r)))"
    if l: "l \<in> set (reviewed_network_permissions s)" and r: "r \<in> set (tool_permissions s')"
      and "tp_id r = rv_permission_id l" for l r
  proof -
    obtain r0 where r0: "r0 \<in> set (tool_permissions s)" "tp_id r0 = tp_id r" "scope_of r0 = scope_of r"
      using assms(5) [OF r] by blast
    have "justified H ser sha cs (UsedConsent (consent (tp_id r0) (rv_proposal_id l) (scope_of r0)))"
      using assms(1) l r0 that(3) unfolding perms_ok_def by metis
    then show ?thesis using r0 by simp
  qed
  ultimately show ?thesis
    using assms(1-4) unfolding perms_ok_def by (simp del: justified.simps)
qed

lemma used_ok: "perms_ok H ser sha cs s \<Longrightarrow> perms_ok H ser sha cs (used_at pid t s)"
  by (rule perms_okI) (auto simp: used_at_def used_at_rows elim!: used_at_mem)

lemma bound_rows:
  "map br_proposal_id (update_where (owns_bound a) (\<lambda>r. r\<lparr>br_consumed_at := Some t\<rparr>) rows) =
     map br_proposal_id rows"
  by (rule map_update_where) simp

lemma bound_ok: "perms_ok H ser sha cs s \<Longrightarrow> perms_ok H ser sha cs (bound_at a t s)"
  unfolding perms_ok_def bound_at_def by (auto simp: bound_rows set_update_where)

lemma move_ok:
  assumes "move H ser sha cs s ev s'" and ok: "perms_ok H ser sha cs s"
  shows "perms_ok H ser sha cs s'"
  using assms(1)
proof cases
  case (granted r)
  have "\<exists>c \<in> set cs. draws (tp_id r) c" using granted last_in_set by metis
  then show ?thesis
    using granted(2,3) ok unfolding perms_ok_def by (auto simp del: justified.simps)
next
  case (revoked pid)
  then show ?thesis
    using ok unfolding perms_ok_def
    by (simp add: distinct_map_filter del: justified.simps) metis
next
  case (consented r l)
  have "\<exists>c \<in> set cs. draws (tp_id r) c" using consented last_in_set by metis
  then show ?thesis
    using consented(2-5,8) ok unfolding perms_ok_def by (auto simp del: justified.simps)
next
  case (bound r)
  then show ?thesis using ok unfolding perms_ok_def by (auto simp del: justified.simps)
qed (use ok used_ok bound_ok in auto)

lemma perms_reached:
  assumes "fk"
  shows "perms_ok H ser sha cs (permissions_after fk H ser sha cs)"
proof (induction cs rule: rev_induct)
  case Nil
  then show ?case by (simp add: permissions_after_def perms_ok_empty)
next
  case (snoc c cs)
  have "perms_ok H ser sha (cs @ [c]) (permissions_after fk H ser sha cs)"
    using snoc by (rule perms_ok_mono) auto
  then show ?case using move_ok step_move [OF assms] unfolding after_snoc by blast
qed

section \<open>Events\<close>

lemma drawn_justified: "\<exists>c \<in> set cs. draws pid c \<Longrightarrow> justified H ser sha cs (UsedPermission pid)"
proof -
  assume "\<exists>c \<in> set cs. draws pid c"
  then obtain t call where c: "(t, call) \<in> set cs" "draws pid (t, call)" by auto
  then show ?thesis by (cases call) auto
qed

lemma count_one_mem: "count_where p xs = 1 \<Longrightarrow> \<exists>x \<in> set xs. p x"
  by (metis count_where_0 zero_neq_one)

lemma event_justified:
  assumes "move H ser sha cs s (Some ev) s'" and ok: "perms_ok H ser sha cs s"
  shows "justified H ser sha cs ev"
  using assms(1)
proof cases
  case (once pid t)
  obtain r where r: "r \<in> set (tool_permissions s)" "tp_id r = pid"
    using count_one_mem [OF once(2)] by (auto simp: fresh_def)
  show ?thesis
  proof (cases ev)
    case (UsedPermission p)
    moreover have "\<exists>c \<in> set cs. draws pid c" using ok r unfolding perms_ok_def by blast
    ultimately show ?thesis using once(3) drawn_justified by simp
  next
    case (UsedConsent c)
    with once(3) obtain r l where rl: "r \<in> set (tool_permissions s)" "tp_id r = pid" "scope_of r = cn_scope c"
        "l \<in> set (reviewed_network_permissions s)" "rv_permission_id l = pid"
        "rv_proposal_id l = cn_proposal_id c" "cn_permission_id c = pid"
      by auto
    then have "justified H ser sha cs (UsedConsent (consent (tp_id r) (rv_proposal_id l) (scope_of r)))"
      using perms_consent [OF ok] by metis
    then show ?thesis using rl UsedConsent by (simp add: consent_def)
  qed (use once(3) in simp)
next
  case (bound_once a b sc input t)
  obtain r where "r \<in> set (action_bound_tool_permissions s)" "owns_bound a r"
    using count_one_mem [OF bound_once(3)] by blast
  then show ?thesis
    using perms_bound [OF ok, of r] bound_once(1,4,5) unfolding owns_bound_def by auto
qed

lemma events_justified:
  assumes "fk"
  shows "list_all (justified H ser sha cs) (permission_events fk H ser sha cs)"
proof (induction cs rule: rev_induct)
  case Nil
  then show ?case by (simp add: permission_events_def)
next
  case (snoc c cs)
  let ?s = "permissions_after fk H ser sha cs"
  have "perms_ok H ser sha (cs @ [c]) ?s"
    using perms_reached [OF assms] by (rule perms_ok_mono) auto
  then have "list_all (justified H ser sha (cs @ [c])) (somes [fst (permission_step fk H ser sha c ?s)])"
    using step_move [OF assms, of H ser sha cs c ?s] event_justified
    by (cases "fst (permission_step fk H ser sha c ?s)") auto
  moreover have "list_all (justified H ser sha (cs @ [c])) (permission_events fk H ser sha cs)"
    using snoc by (rule list.pred_mono_strong) (rule justified_mono, auto)
  ultimately show ?case by (simp add: events_snoc)
qed

text \<open>Each use takes an unused row away.\<close>

definition fresh_rows :: "string \<Rightarrow> permissions \<Rightarrow> nat" where
  "fresh_rows pid s = count_where (fresh pid) (tool_permissions s)"

lemma count_where_Nil [simp]: "count_where p [] = 0"
  by (simp add: count_where_def)

lemma count_where_Cons [simp]: "count_where p (x # xs) = (if p x then 1 else 0) + count_where p xs"
  by (simp add: count_where_def)

lemma fresh_used: "fresh_rows pid (used_at p t s) = (if p = pid then 0 else fresh_rows pid s)"
proof (cases "p = pid")
  case True
  have "\<not> fresh pid r" if "r \<in> set (tool_permissions (used_at pid t s))" for r
    using that unfolding used_at_def
    by simp (elim update_whereE; simp add: fresh_def)
  then show ?thesis using True by (simp add: fresh_rows_def)
next
  case False
  have "map (fresh pid) (update_where (fresh p) (\<lambda>r. r\<lparr>tp_consumed_at := Some t\<rparr>) rows) = map (fresh pid) rows" for rows
    by (rule map_update_where) (use False in \<open>simp add: fresh_def\<close>)
  then have "count_where id (map (fresh pid) (tool_permissions (used_at p t s))) =
      count_where id (map (fresh pid) (tool_permissions s))"
    by (simp add: used_at_def)
  then show ?thesis using False by (simp add: fresh_rows_def count_where_def filter_map o_def)
qed

lemma count_filter_le: "count_where p (filter q rows) \<le> count_where p rows"
  by (induction rows) auto

lemma backed_uses: "backed s p ev \<Longrightarrow> uses pid ev \<Longrightarrow> p = pid"
  by (cases ev) auto

lemma move_takes:
  assumes "move H ser sha (cs @ [c]) s ev s'"
  shows "count_where (uses pid) (somes [ev]) + fresh_rows pid s' \<le>
    fresh_rows pid s + count_where (draws pid) [c]"
  using assms
proof cases
  case (granted r)
  then show ?thesis by (auto simp: fresh_rows_def fresh_def)
next
  case (revoked p)
  then show ?thesis by (simp add: fresh_rows_def count_filter_le trans_le_add1)
next
  case (once p ev' t)
  then have "fresh_rows p s = 1" by (simp add: fresh_rows_def)
  then show ?thesis
    using backed_uses [of s p ev' pid] once by (auto simp: fresh_used)
next
  case (late p t)
  then show ?thesis by (simp add: fresh_used)
next
  case (consented r l)
  then show ?thesis by (auto simp: fresh_rows_def fresh_def)
qed (simp_all add: fresh_rows_def bound_at_def)

lemma uses_drawn:
  assumes "fk"
  shows "count_where (uses pid) (permission_events fk H ser sha cs) +
     fresh_rows pid (permissions_after fk H ser sha cs) \<le> count_where (draws pid) cs"
proof (induction cs rule: rev_induct)
  case Nil
  then show ?case
    by (simp add: permission_events_def permissions_after_def no_permissions_def fresh_rows_def count_where_def)
next
  case (snoc c cs)
  have "count_where (uses pid) (somes [fst (permission_step fk H ser sha c (permissions_after fk H ser sha cs))]) +
      fresh_rows pid (snd (permission_step fk H ser sha c (permissions_after fk H ser sha cs))) \<le>
      fresh_rows pid (permissions_after fk H ser sha cs) + count_where (draws pid) [c]"
    using step_move [OF assms] by (rule move_takes)
  with snoc show ?case unfolding events_snoc after_snoc count_where_append by linarith
qed

section \<open>Consents and bound permissions are used once\<close>

definition tables_ok ::
  "(AgentProposal \<Rightarrow> string) \<Rightarrow> (json \<Rightarrow> string) \<Rightarrow> (string \<Rightarrow> string) \<Rightarrow> permissions \<Rightarrow> bool"
where
  "tables_ok H ser sha s \<longleftrightarrow> (\<exists>cs. perms_ok H ser sha cs s)"

definition consent_spent :: "string \<Rightarrow> permissions \<Rightarrow> bool" where
  "consent_spent proposal s \<longleftrightarrow>
     (\<exists>l \<in> set (reviewed_network_permissions s). rv_proposal_id l = proposal \<and>
        (\<exists>r \<in> set (tool_permissions s). tp_id r = rv_permission_id l \<and> tp_consumed_at r \<noteq> None))"

definition bound_spent :: "string \<Rightarrow> permissions \<Rightarrow> bool" where
  "bound_spent proposal s \<longleftrightarrow>
     (\<exists>r \<in> set (action_bound_tool_permissions s). br_proposal_id r = proposal \<and> br_consumed_at r \<noteq> None)"

lemma step_moves:
  assumes "tables_ok H ser sha s"
  obtains cs where "perms_ok H ser sha (cs @ [c]) s"
    "move H ser sha (cs @ [c]) s (fst (permission_step True H ser sha c s)) (snd (permission_step True H ser sha c s))"
proof -
  obtain cs where "perms_ok H ser sha cs s" using assms unfolding tables_ok_def by blast
  then have "perms_ok H ser sha (cs @ [c]) s" by (rule perms_ok_mono) auto
  then show thesis using that step_move [of True] by blast
qed

lemma step_tables: "tables_ok H ser sha s \<Longrightarrow> tables_ok H ser sha (snd (permission_step True H ser sha c s))"
proof -
  assume "tables_ok H ser sha s"
  then obtain cs where "perms_ok H ser sha (cs @ [c]) s"
    "move H ser sha (cs @ [c]) s (fst (permission_step True H ser sha c s)) (snd (permission_step True H ser sha c s))"
    by (rule step_moves)
  then show ?thesis using move_ok unfolding tables_ok_def by blast
qed

lemma consent_stays:
  assumes "move H ser sha cs s ev s'" "consent_spent proposal s"
  shows "consent_spent proposal s'"
proof -
  obtain l r where lr: "l \<in> set (reviewed_network_permissions s)" "rv_proposal_id l = proposal"
      "r \<in> set (tool_permissions s)" "tp_id r = rv_permission_id l" "tp_consumed_at r \<noteq> None"
    using assms(2) unfolding consent_spent_def by blast
  have used: "consent_spent proposal (used_at pid t s)" for pid t
    unfolding consent_spent_def used_at_def using lr used_at_keeps [OF lr(3)] by simp metis
  from assms(1) show ?thesis
  proof cases
    case stay
    then show ?thesis using assms(2) by simp
  next
    case (revoked pid)
    then have "r \<in> set (tool_permissions s')" "l \<in> set (reviewed_network_permissions s')"
      using lr by auto
    then show ?thesis using lr unfolding consent_spent_def by blast
  qed (use lr used in \<open>auto simp: consent_spent_def bound_at_def\<close>)
qed

lemma used_consumed:
  "r \<in> set (tool_permissions (used_at pid t s)) \<Longrightarrow> tp_id r = pid \<Longrightarrow> tp_consumed_at r \<noteq> None"
  unfolding used_at_def by simp (elim update_whereE; simp add: fresh_def)

lemma consent_fires:
  assumes "move H ser sha cs s (Some ev) s'" and ok: "perms_ok H ser sha cs s"
    and "consent_for proposal ev"
  shows "\<not> consent_spent proposal s \<and> consent_spent proposal s'"
  using assms(1)
proof cases
  case (once pid t)
  obtain c where c: "ev = UsedConsent c" "cn_proposal_id c = proposal" using assms(3) by (cases ev) auto
  obtain l where l: "l \<in> set (reviewed_network_permissions s)" "rv_permission_id l = pid"
      "rv_proposal_id l = proposal"
    using once(3) c by auto
  obtain r where r: "r \<in> set (tool_permissions s)" "tp_id r = pid" "tp_consumed_at r = None"
    using count_one_mem [OF once(2)] by (auto simp: fresh_def)
  have "\<not> consent_spent proposal s"
  proof
    assume "consent_spent proposal s"
    then obtain l' r' where lr: "l' \<in> set (reviewed_network_permissions s)" "rv_proposal_id l' = proposal"
        "r' \<in> set (tool_permissions s)" "tp_id r' = rv_permission_id l'" "tp_consumed_at r' \<noteq> None"
      unfolding consent_spent_def by blast
    have "l' = l" using ok l lr(1,2) unfolding perms_ok_def distinct_map inj_on_def by metis
    then have "r' = r" using ok l r lr(3,4) unfolding perms_ok_def distinct_map inj_on_def by metis
    then show False using r lr by simp
  qed
  moreover have "consent_spent proposal (used_at pid t s)"
  proof -
    obtain r1 where "r1 \<in> set (tool_permissions (used_at pid t s))" "tp_id r1 = pid"
      using used_at_keeps [OF r(1)] r(2) unfolding used_at_def by (metis (no_types, lifting) permissions.select_convs(1) permissions.surjective permissions.update_convs(1))
    moreover have "reviewed_network_permissions (used_at pid t s) = reviewed_network_permissions s"
      by (simp add: used_at_def)
    ultimately show ?thesis using l used_consumed unfolding consent_spent_def by metis
  qed
  ultimately show ?thesis using once(1) by simp
next
  case (bound_once a b sc input t)
  then show ?thesis using assms(3) by simp
qed

lemma updated_mem: "x \<in> set rows \<Longrightarrow> (if p x then f x else x) \<in> set (update_where p f rows)"
  by (simp add: set_update_where)

lemma bound_stays:
  assumes "move H ser sha cs s ev s'" "bound_spent proposal s"
  shows "bound_spent proposal s'"
proof -
  obtain r where r: "r \<in> set (action_bound_tool_permissions s)" "br_proposal_id r = proposal"
      "br_consumed_at r \<noteq> None"
    using assms(2) unfolding bound_spent_def by blast
  have "bound_spent proposal (bound_at a t s)" for a t
  proof -
    have "r \<in> set (action_bound_tool_permissions (bound_at a t s))"
      using updated_mem [OF r(1), of "owns_bound a"] r(3) by (simp add: bound_at_def owns_bound_def)
    then show ?thesis using r unfolding bound_spent_def by blast
  qed
  with assms show ?thesis by cases (auto simp: bound_spent_def used_at_def)
qed

lemma bound_fires:
  assumes "move H ser sha cs s (Some ev) s'" and ok: "perms_ok H ser sha cs s"
    and "bound_for proposal ev"
  shows "\<not> bound_spent proposal s \<and> bound_spent proposal s'"
  using assms(1)
proof cases
  case (once pid t)
  then show ?thesis using assms(3) by (cases ev) auto
next
  case (bound_once a b sc input t)
  have a: "au_proposal_id a = proposal" using assms(3) bound_once(1) by simp
  obtain r where r: "r \<in> set (action_bound_tool_permissions s)" "owns_bound a r"
    using count_one_mem [OF bound_once(3)] by blast
  have pr: "br_proposal_id r = proposal" "br_consumed_at r = None"
    using r(2) a by (simp_all add: owns_bound_def)
  have "x = r" if "x \<in> set (action_bound_tool_permissions s)" "br_proposal_id x = br_proposal_id r" for x
    using ok r(1) that unfolding perms_ok_def distinct_map inj_on_def by metis
  then have "\<not> bound_spent proposal s" using pr unfolding bound_spent_def by metis
  moreover have "r\<lparr>br_consumed_at := Some t\<rparr> \<in> set (action_bound_tool_permissions (bound_at a t s))"
    using updated_mem [OF r(1), of "owns_bound a" "\<lambda>r. r\<lparr>br_consumed_at := Some t\<rparr>"] r(2)
    by (simp add: bound_at_def)
  then have "bound_spent proposal (bound_at a t s)"
    using pr(1) unfolding bound_spent_def by (intro bexI) auto
  ultimately show ?thesis using bound_once(2) by simp
qed

interpretation consent_once: one_shot "permission_step True H ser sha"
  "case_option False (consent_for proposal)" "consent_spent proposal" "tables_ok H ser sha"
  for H ser sha proposal
proof
  fix s c
  assume ok: "tables_ok H ser sha s"
  then show "tables_ok H ser sha (snd (permission_step True H ser sha c s))" by (rule step_tables)
  obtain cs where cs: "perms_ok H ser sha (cs @ [c]) s"
    "move H ser sha (cs @ [c]) s (fst (permission_step True H ser sha c s)) (snd (permission_step True H ser sha c s))"
    using ok by (rule step_moves)
  show "consent_spent proposal (snd (permission_step True H ser sha c s))" if "consent_spent proposal s"
    using cs(2) that by (rule consent_stays)
  show "\<not> consent_spent proposal s \<and> consent_spent proposal (snd (permission_step True H ser sha c s))"
    if "case_option False (consent_for proposal) (fst (permission_step True H ser sha c s))"
    using that cs consent_fires by (cases "fst (permission_step True H ser sha c s)") auto
qed

interpretation bound_once: one_shot "permission_step True H ser sha"
  "case_option False (bound_for proposal)" "bound_spent proposal" "tables_ok H ser sha"
  for H ser sha proposal
proof
  fix s c
  assume ok: "tables_ok H ser sha s"
  then show "tables_ok H ser sha (snd (permission_step True H ser sha c s))" by (rule step_tables)
  obtain cs where cs: "perms_ok H ser sha (cs @ [c]) s"
    "move H ser sha (cs @ [c]) s (fst (permission_step True H ser sha c s)) (snd (permission_step True H ser sha c s))"
    using ok by (rule step_moves)
  show "bound_spent proposal (snd (permission_step True H ser sha c s))" if "bound_spent proposal s"
    using cs(2) that by (rule bound_stays)
  show "\<not> bound_spent proposal s \<and> bound_spent proposal (snd (permission_step True H ser sha c s))"
    if "case_option False (bound_for proposal) (fst (permission_step True H ser sha c s))"
    using that cs bound_fires by (cases "fst (permission_step True H ser sha c s)") auto
qed

lemma once_from_start:
  "count_where (consent_for proposal) (permission_events True H ser sha cs) \<le> 1"
  "count_where (bound_for proposal) (permission_events True H ser sha cs) \<le> 1"
  using consent_once.fires_at_most_once [of H ser sha no_permissions]
    bound_once.fires_at_most_once [of H ser sha no_permissions] perms_ok_empty
  unfolding permission_events_def count_somes tables_ok_def by blast+

end
