(* ===== verification/Permission_Claims.thy ===== *)
theory Permission_Claims
  imports Permission_Safety
begin

text \<open>What a permission allows (C28), and that looking at a decision tells what it will be.\<close>

section \<open>Looking first\<close>

text \<open>
  \<open>peek\<close> and \<open>check\<close> are written separately. With no call in between they agree in all but the
  reason, as long as the rows have distinct ids, which they have in every store that is reached.
\<close>

lemma fresh_count:
  assumes "distinct (map tp_id rows)" "r \<in> set rows"
  shows "count_where (fresh (tp_id r)) rows = (if tp_consumed_at r = None then 1 else 0)"
  using assms
proof (induction rows)
  case (Cons x rows)
  show ?case
  proof (cases "x = r")
    case True
    have "\<forall>y \<in> set rows. tp_id y \<noteq> tp_id r"
      using True Cons.prems by (metis distinct.simps(2) image_eqI list.set_map list.simps(9))
    then have "count_where (fresh (tp_id r)) rows = 0" by (simp add: fresh_def)
    then show ?thesis using True by (simp add: fresh_def)
  next
    case False
    then have "tp_id x \<noteq> tp_id r" "r \<in> set rows" using Cons.prems by auto
    then show ?thesis using Cons by (simp add: fresh_def)
  qed
qed simp

lemma find_best_mem: "find_best sc s = Some r \<Longrightarrow> r \<in> set (tool_permissions s)"
  unfolding find_best_def by (drule first_by_mem) simp

lemma peek_agrees_with_check:
  assumes "distinct (map tp_id (tool_permissions s))"
  shows "(peek sc capabilities now s)\<lparr>td_reason := w\<rparr> = (fst (check sc capabilities now s))\<lparr>td_reason := w\<rparr>"
proof (cases "find_best sc s")
  case None
  then show ?thesis by (simp add: peek_def check_def check_lookup_def)
next
  case (Some r)
  have "fst (consume_if_available (tp_id r) now s) \<longleftrightarrow> tp_consumed_at r = None"
    using fresh_count [OF assms find_best_mem [OF Some]]
    by (simp add: consume_if_available_def consume_row_used)
  then show ?thesis
    using Some by (auto simp: peek_def check_def check_lookup_def once_decision_def decision_def
        split: ToolPermissionPolicy.splits prod.splits)
qed

section \<open>Once\<close>


definition demo_digest :: string where
  "demo_digest = ''sha256:'' @ replicate 64 (CHR ''a'')"

definition demo_tool :: string where
  "demo_tool = ''fetch@d1#endpoint:'' @ demo_digest"

definition demo_consent :: AgentProposal where
  "demo_consent = new_proposal ToolPermissionProposal ''/tools'' (JObject
     [(''permission_scope_kind'', JString ''network_policy''), (''permission'', JString ''allow_once''),
      (''canonical_scope'', JObject
        [(''tool_name'', JString demo_tool), (''source'', JString ''provider''),
         (''risk_level'', JString ''high''), (''action_type'', JString ''network''),
         (''network_policy_decision_id'', JString ''d1''),
         (''endpoint_digest'', JString demo_digest)])])
     ''asked'' 0 RiskHigh SourceNetworkConsent ''p1'' 0"

definition demo_scope :: tool_scope where
  "demo_scope = \<lparr>sc_tool_name = demo_tool, sc_source = ''provider'', sc_risk_level = ''high'',
     sc_action_type = ''network''\<rparr>"

definition demo_snapshot :: ClaimedReviewAcceptanceSnapshot where
  "demo_snapshot = \<lparr>cs_proposal = demo_consent, cs_proposal_snapshot_digest = ''sha256:asked'',
     cs_dispatch_claim_digest = ''sha256:c1'', cs_authority_proof = ClaimedByReviewWorkflow\<rparr>"

definition demo_uses :: "(int \<times> permission_call) list" where
  "demo_uses =
     [(1, CallGrantReviewed demo_snapshot demo_scope ''u1''), (2, CallConsumeReviewedFor ''p1'' demo_scope),
      (3, CallConsumeReviewed demo_scope), (4, CallCheck demo_scope []), (5, CallRevoke ''u1'')]"

lemma demo_used:
  "map (consent_for ''p1'') (permission_events True ap_reason (\<lambda>_. []) (\<lambda>s. s) demo_uses) = [True]"
  by code_simp


end
