(* ===== verification/Memory_Fact.thy ===== *)
theory Memory_Fact
  imports Tool_Permission Outbox
begin

text \<open>
  What a memory is about, before it is stored (\<open>openlife-core/src/agent/memory_lifecycle.rs\<close>): the
  codes of its scope, category, risk and sensitivity, the canonical fact and its identity, the
  single-use proof behind an explicit memory, and the fact a reviewed proposal asks for.

  Parameters: \<open>nfkc\<close> is the compatibility normalisation of the crate \<open>unicode_normalization\<close>, \<open>sha\<close>
  the hexadecimal SHA-256 of a text, \<open>ser\<close> the serialiser of \<open>serde_json\<close> and \<open>num\<close> its number for an
  \<open>f32\<close>, which is kept as its bits; \<open>fmt3\<close> prints one with three decimals.
\<close>

section \<open>Codes\<close>

datatype MemoryLifecycleStatus =
  MemCandidate | MemPendingReview | MemEditedPendingReview | MemAccepted | MemPendingMaterialization
| MemMaterialized | MemMaterializationFailed | MemRejected | MemDeferred | MemSuperseded | MemRolledBack

fun memory_status_as_str :: "MemoryLifecycleStatus \<Rightarrow> string" where
  "memory_status_as_str MemCandidate = ''candidate''"
| "memory_status_as_str MemPendingReview = ''pending_review''"
| "memory_status_as_str MemEditedPendingReview = ''edited_pending_review''"
| "memory_status_as_str MemAccepted = ''accepted''"
| "memory_status_as_str MemPendingMaterialization = ''pending_materialization''"
| "memory_status_as_str MemMaterialized = ''materialized''"
| "memory_status_as_str MemMaterializationFailed = ''materialization_failed''"
| "memory_status_as_str MemRejected = ''rejected''"
| "memory_status_as_str MemDeferred = ''deferred''"
| "memory_status_as_str MemSuperseded = ''superseded''"
| "memory_status_as_str MemRolledBack = ''rolled_back''"

definition memory_status_from_str :: "string \<Rightarrow> MemoryLifecycleStatus" where
  "memory_status_from_str s =
     (if s = ''candidate'' then MemCandidate
      else if s = ''pending_review'' then MemPendingReview
      else if s = ''edited_pending_review'' then MemEditedPendingReview
      else if s = ''accepted'' then MemAccepted
      else if s = ''pending_materialization'' then MemPendingMaterialization
      else if s = ''materialized'' then MemMaterialized
      else if s = ''materialization_failed'' then MemMaterializationFailed
      else if s = ''rejected'' then MemRejected
      else if s = ''deferred'' then MemDeferred
      else if s = ''superseded'' then MemSuperseded
      else if s = ''rolled_back'' then MemRolledBack
      else MemCandidate)"

definition is_runtime_active :: "MemoryLifecycleStatus \<Rightarrow> bool" where
  "is_runtime_active st \<longleftrightarrow> st = MemMaterialized"

definition is_terminal_historical :: "MemoryLifecycleStatus \<Rightarrow> bool" where
  "is_terminal_historical st \<longleftrightarrow> st \<in> {MemRejected, MemDeferred, MemSuperseded, MemRolledBack}"

datatype MemoryMaterializationStatus = MatNotRequired | MatPending | MatMaterialized | MatFailed

fun materialization_as_str :: "MemoryMaterializationStatus \<Rightarrow> string" where
  "materialization_as_str MatNotRequired = ''not_required''"
| "materialization_as_str MatPending = ''pending''"
| "materialization_as_str MatMaterialized = ''materialized''"
| "materialization_as_str MatFailed = ''failed''"

definition materialization_from_str :: "string \<Rightarrow> MemoryMaterializationStatus" where
  "materialization_from_str s =
     (if s = ''not_required'' then MatNotRequired
      else if s = ''pending'' then MatPending
      else if s = ''materialized'' then MatMaterialized
      else if s = ''failed'' then MatFailed
      else MatNotRequired)"

datatype MemoryLifecycleScope = MemGlobal | MemWorkspace | MemConversation | MemProject

fun memory_scope_as_str :: "MemoryLifecycleScope \<Rightarrow> string" where
  "memory_scope_as_str MemGlobal = ''global''"
| "memory_scope_as_str MemWorkspace = ''workspace''"
| "memory_scope_as_str MemConversation = ''conversation''"
| "memory_scope_as_str MemProject = ''project''"

datatype memory_error = MemoryBail string | MemoryConstraint | MemoryConversion | MemoryOutbox outbox_error

definition memory_scope_from_str :: "string \<Rightarrow> memory_error + MemoryLifecycleScope" where
  "memory_scope_from_str s =
     (if s = ''global'' then Inr MemGlobal
      else if s = ''workspace'' then Inr MemWorkspace
      else if s = ''conversation'' then Inr MemConversation
      else if s = ''project'' then Inr MemProject
      else Inl (MemoryBail (''unknown Memory lifecycle scope: '' @ s)))"

datatype MemoryLifecycleCategory =
  CategoryPreference | CategoryFact | CategoryWorkflow | CategoryCorrection | CategoryBoundary

fun memory_category_as_str :: "MemoryLifecycleCategory \<Rightarrow> string" where
  "memory_category_as_str CategoryPreference = ''preference''"
| "memory_category_as_str CategoryFact = ''fact''"
| "memory_category_as_str CategoryWorkflow = ''workflow''"
| "memory_category_as_str CategoryCorrection = ''correction''"
| "memory_category_as_str CategoryBoundary = ''boundary''"

definition memory_category_from_str :: "string \<Rightarrow> memory_error + MemoryLifecycleCategory" where
  "memory_category_from_str s =
     (if s = ''preference'' then Inr CategoryPreference
      else if s = ''fact'' then Inr CategoryFact
      else if s = ''workflow'' then Inr CategoryWorkflow
      else if s = ''correction'' then Inr CategoryCorrection
      else if s = ''boundary'' then Inr CategoryBoundary
      else Inl (MemoryBail (''unknown Memory lifecycle category: '' @ s)))"

datatype MemoryCandidateKind =
  EpisodicLifeEvent | SemanticUserFact | ProceduralRule | PreferenceKind | IdentityOrRole

fun candidate_kind_as_str :: "MemoryCandidateKind \<Rightarrow> string" where
  "candidate_kind_as_str EpisodicLifeEvent = ''episodic_life_event''"
| "candidate_kind_as_str SemanticUserFact = ''semantic_user_fact''"
| "candidate_kind_as_str ProceduralRule = ''procedural_rule''"
| "candidate_kind_as_str PreferenceKind = ''preference''"
| "candidate_kind_as_str IdentityOrRole = ''identity_or_role''"

definition memory_candidate_kind_from_str :: "string \<Rightarrow> MemoryCandidateKind option" where
  "memory_candidate_kind_from_str s =
     (if s = ''episodic_life_event'' then Some EpisodicLifeEvent
      else if s = ''semantic_user_fact'' then Some SemanticUserFact
      else if s = ''procedural_rule'' then Some ProceduralRule
      else if s = ''preference'' then Some PreferenceKind
      else if s = ''identity_or_role'' then Some IdentityOrRole
      else None)"

fun category_for_candidate_kind :: "MemoryCandidateKind \<Rightarrow> MemoryLifecycleCategory" where
  "category_for_candidate_kind EpisodicLifeEvent = CategoryFact"
| "category_for_candidate_kind SemanticUserFact = CategoryFact"
| "category_for_candidate_kind ProceduralRule = CategoryWorkflow"
| "category_for_candidate_kind PreferenceKind = CategoryPreference"
| "category_for_candidate_kind IdentityOrRole = CategoryBoundary"

datatype MemoryLifecycleRiskLevel = MemLow | MemMedium | MemHigh | MemIdentityValue

fun memory_risk_as_str :: "MemoryLifecycleRiskLevel \<Rightarrow> string" where
  "memory_risk_as_str MemLow = ''low''"
| "memory_risk_as_str MemMedium = ''medium''"
| "memory_risk_as_str MemHigh = ''high''"
| "memory_risk_as_str MemIdentityValue = ''identity_value''"

definition memory_risk_from_str :: "string \<Rightarrow> MemoryLifecycleRiskLevel" where
  "memory_risk_from_str s =
     (if s = ''low'' then MemLow
      else if s = ''medium'' then MemMedium
      else if s = ''high'' then MemHigh
      else if s = ''identity_value'' then MemIdentityValue
      else MemHigh)"

definition strict_risk_level :: "string \<Rightarrow> memory_error + MemoryLifecycleRiskLevel" where
  "strict_risk_level s =
     (if s = ''low'' then Inr MemLow
      else if s = ''medium'' then Inr MemMedium
      else if s = ''high'' then Inr MemHigh
      else if s = ''identity_value'' then Inr MemIdentityValue
      else Inl (MemoryBail (''unknown Memory lifecycle risk level: '' @ s)))"

fun memory_risk_rank :: "MemoryLifecycleRiskLevel \<Rightarrow> nat" where
  "memory_risk_rank MemLow = 1"
| "memory_risk_rank MemMedium = 2"
| "memory_risk_rank MemHigh = 3"
| "memory_risk_rank MemIdentityValue = 4"

definition risk_max :: "MemoryLifecycleRiskLevel \<Rightarrow> MemoryLifecycleRiskLevel \<Rightarrow> MemoryLifecycleRiskLevel" where
  "risk_max a b = (if memory_risk_rank b \<le> memory_risk_rank a then a else b)"

datatype MemoryLifecycleSensitivity = MemInternal | MemSensitive

fun memory_sensitivity_as_str :: "MemoryLifecycleSensitivity \<Rightarrow> string" where
  "memory_sensitivity_as_str MemInternal = ''internal''"
| "memory_sensitivity_as_str MemSensitive = ''sensitive''"

definition memory_sensitivity_from_str :: "string \<Rightarrow> MemoryLifecycleSensitivity" where
  "memory_sensitivity_from_str s = (if s = ''internal'' then MemInternal else MemSensitive)"

definition sensitivity_max ::
  "MemoryLifecycleSensitivity \<Rightarrow> MemoryLifecycleSensitivity \<Rightarrow> MemoryLifecycleSensitivity"
where
  "sensitivity_max a b = (if a = MemSensitive \<or> b = MemSensitive then MemSensitive else MemInternal)"

section \<open>The canonical fact\<close>

record CanonicalMemoryFactDescriptor =
  fd_canonical_body :: string
  fd_scope :: MemoryLifecycleScope
  fd_scope_owner_ref :: "string option"
  fd_category :: MemoryLifecycleCategory
  fd_risk_level :: MemoryLifecycleRiskLevel
  fd_sensitivity :: MemoryLifecycleSensitivity

definition descriptor_new ::
  "string \<Rightarrow> MemoryLifecycleScope \<Rightarrow> MemoryLifecycleCategory \<Rightarrow> MemoryLifecycleRiskLevel \<Rightarrow>
   MemoryLifecycleSensitivity \<Rightarrow> memory_error + CanonicalMemoryFactDescriptor"
where
  "descriptor_new body scope category risk sensitivity =
     (if trim body = [] then Inl (MemoryBail ''canonical Memory fact content is empty'')
      else Inr \<lparr>fd_canonical_body = body, fd_scope = scope, fd_scope_owner_ref = None,
        fd_category = category, fd_risk_level = risk, fd_sensitivity = sensitivity\<rparr>)"

definition owner_ref_char :: "char \<Rightarrow> bool" where
  "owner_ref_char c \<longleftrightarrow> is_ascii_alphanumeric c \<or> c \<in> set '':_-.''"

definition validate_scope_owner_ref :: "MemoryLifecycleScope \<Rightarrow> string option \<Rightarrow> memory_error + unit" where
  "validate_scope_owner_ref scope owner =
     (case owner of
        None \<Rightarrow> Inr ()
      | Some v \<Rightarrow>
          if scope = MemGlobal then Inl (MemoryBail ''global Memory must not carry a scope owner'')
          else bail_if (\<not> (trim v = v \<and> 1 \<le> length v \<and> length v \<le> 160 \<and> list_all owner_ref_char v))
            (MemoryBail ''non-global Memory scope owner ref is invalid''))"

definition with_scope_owner_ref ::
  "string \<Rightarrow> CanonicalMemoryFactDescriptor \<Rightarrow> memory_error + CanonicalMemoryFactDescriptor"
where
  "with_scope_owner_ref owner f =
     res_bind (validate_scope_owner_ref (fd_scope f) (Some owner)) (\<lambda>_.
     Inr (f\<lparr>fd_scope_owner_ref := Some owner\<rparr>))"

definition descriptor_from_candidate ::
  "string \<Rightarrow> MemoryCandidateKind \<Rightarrow> MemoryLifecycleScope \<Rightarrow> MemoryLifecycleRiskLevel \<Rightarrow>
   MemoryLifecycleSensitivity \<Rightarrow> memory_error + CanonicalMemoryFactDescriptor"
where
  "descriptor_from_candidate body kind scope risk sensitivity =
     descriptor_new body scope (category_for_candidate_kind kind) risk sensitivity"

section \<open>Its identity\<close>

text \<open>\<open>split_whitespace\<close>: the length of the white space at the front, and the words.\<close>

fun ws_length :: "string \<Rightarrow> nat" where
  "ws_length (a # b # c # _) = (if ws1 a then 1 else if ws2 a b then 2 else if ws3 a b c then 3 else 0)"
| "ws_length [a, b] = (if ws1 a then 1 else if ws2 a b then 2 else 0)"
| "ws_length [a] = (if ws1 a then 1 else 0)"
| "ws_length [] = 0"

function words_from :: "string \<Rightarrow> string \<Rightarrow> string list" where
  "words_from word [] = (if word = [] then [] else [word])"
| "words_from word (c # s) =
     (if ws_length (c # s) = 0 then words_from (word @ [c]) s
      else (if word = [] then [] else [word]) @ words_from [] (drop (ws_length (c # s)) (c # s)))"
  by pat_completeness auto
termination
  by (relation "measure (\<lambda>(_, s). length s)") auto

definition split_whitespace :: "string \<Rightarrow> string list" where
  "split_whitespace s = words_from [] s"

text \<open>\<open>(len as u64).to_be_bytes()\<close> before each value.\<close>

definition be64 :: "nat \<Rightarrow> string" where
  "be64 n = map (\<lambda>i. char_of (n div 256 ^ i mod 256)) (rev [0 ..< 8])"

definition length_delimited :: "string list \<Rightarrow> string" where
  "length_delimited values = concat (map (\<lambda>v. be64 (length v) @ v) values)"

definition digest_length_delimited_values ::
  "(string \<Rightarrow> string) \<Rightarrow> string \<Rightarrow> string list \<Rightarrow> string"
where
  "digest_length_delimited_values sha namespace values =
     ''sha256:'' @ sha (length_delimited (namespace # values))"

definition normalized_content :: "(string \<Rightarrow> string) \<Rightarrow> string \<Rightarrow> string" where
  "normalized_content nfkc content = trim (join_with '' '' (split_whitespace (nfkc content)))"

abbreviation owner_text :: "string option \<Rightarrow> string" where
  "owner_text owner \<equiv> (case owner of None \<Rightarrow> [] | Some v \<Rightarrow> v)"

definition canonical_memory_fact_identity ::
  "(string \<Rightarrow> string) \<Rightarrow> (string \<Rightarrow> string) \<Rightarrow> MemoryLifecycleScope \<Rightarrow> string option \<Rightarrow>
   MemoryLifecycleCategory \<Rightarrow> string \<Rightarrow> memory_error + string \<times> string"
where
  "canonical_memory_fact_identity nfkc sha scope owner category content =
     res_bind (validate_scope_owner_ref scope owner) (\<lambda>_.
     let normalized = normalized_content nfkc content in
     if normalized = [] then Inl (MemoryBail ''canonical Memory fact content is empty'')
     else Inr (normalized, ''memory_fact_v2:sha256:'' @ sha (length_delimited
       [''openlife_memory_fact_v2'', memory_scope_as_str scope, owner_text owner,
        memory_category_as_str category, normalized])))"

definition fact_key ::
  "(string \<Rightarrow> string) \<Rightarrow> (string \<Rightarrow> string) \<Rightarrow> CanonicalMemoryFactDescriptor \<Rightarrow> memory_error + string"
where
  "fact_key nfkc sha f =
     res_bind (canonical_memory_fact_identity nfkc sha (fd_scope f) (fd_scope_owner_ref f)
       (fd_category f) (fd_canonical_body f)) (\<lambda>(_, key). Inr key)"

definition memory_scope_owner_ref ::
  "(string \<Rightarrow> string) \<Rightarrow> MemoryLifecycleScope \<Rightarrow> string \<Rightarrow> memory_error + string"
where
  "memory_scope_owner_ref sha scope raw =
     (if scope = MemGlobal then Inl (MemoryBail ''global Memory has no scope owner'')
      else let identity = trim raw in
        if identity = [] then Inl (MemoryBail ''Memory scope owner identity is empty'')
        else Inr (memory_scope_as_str scope @ '':'' @
          digest_length_delimited_values sha ''openlife_memory_scope_owner_v1''
            [memory_scope_as_str scope, identity]))"

definition bind_memory_fact_scope_owner ::
  "(string \<Rightarrow> string) \<Rightarrow> string option \<Rightarrow> string option \<Rightarrow> string option \<Rightarrow>
   CanonicalMemoryFactDescriptor \<Rightarrow> memory_error + CanonicalMemoryFactDescriptor"
where
  "bind_memory_fact_scope_owner sha conversation workspace project f =
     (if fd_scope f = MemGlobal
      then res_bind (bail_if (fd_scope_owner_ref f \<noteq> None)
          (MemoryBail ''global Memory must not carry a scope owner'')) (\<lambda>_. Inr f)
      else
        res_bind (ok_or (MemoryBail ''selected Memory scope owner is unavailable'')
          (case fd_scope f of MemConversation \<Rightarrow> conversation | MemWorkspace \<Rightarrow> workspace
           | _ \<Rightarrow> project)) (\<lambda>identity.
        res_bind (memory_scope_owner_ref sha (fd_scope f) identity) (\<lambda>expected.
        if fd_scope_owner_ref f \<noteq> None \<and> fd_scope_owner_ref f \<noteq> Some expected
        then Inl (MemoryBail ''Memory proposal scope owner does not match the active selected scope'')
        else Inr (f\<lparr>fd_scope_owner_ref := Some expected\<rparr>))))"

definition memory_fact_admission_digest ::
  "(string \<Rightarrow> string) \<Rightarrow> string \<Rightarrow> CanonicalMemoryFactDescriptor \<Rightarrow> string"
where
  "memory_fact_admission_digest sha key f =
     digest_length_delimited_values sha ''openlife_memory_admission_v1''
       [key, fd_canonical_body f, memory_scope_as_str (fd_scope f), owner_text (fd_scope_owner_ref f),
        memory_category_as_str (fd_category f), memory_risk_as_str (fd_risk_level f),
        memory_sensitivity_as_str (fd_sensitivity f)]"

definition digest_label :: "(string \<Rightarrow> string) \<Rightarrow> string \<Rightarrow> string" where
  "digest_label sha input = ''bytes:'' @ dec (length input) @ '' hash:sha256:'' @ sha input"

section \<open>The proof behind an explicit memory\<close>

datatype MemoryDestination = DestinationMemoryProposal | DestinationLifeModelProposal

fun destination_as_str :: "MemoryDestination \<Rightarrow> string" where
  "destination_as_str DestinationMemoryProposal = ''memory_proposal''"
| "destination_as_str DestinationLifeModelProposal = ''life_model_proposal''"

record MemoryCandidate =
  mc_candidate_id :: string
  mc_source_span_id :: string
  mc_kind :: MemoryCandidateKind
  mc_destination :: MemoryDestination
  mc_evidence_text :: string
  mc_source_preview :: string
  mc_normalized_claim :: string
  mc_sensitivity :: string
  mc_stability :: string
  mc_explicitness :: string
  mc_future_actionability :: string
  mc_confidence :: "32 word"
  mc_reason_codes :: "string list"

text \<open>The field \<open>issuance_id\<close> is a UUID; the nil UUID is 0.\<close>

record ConversationUserMessageProof =
  um_conversation_id :: string
  um_turn_id :: string
  um_item_id :: string
  um_content_digest :: string
  um_content_length_bytes :: nat
  um_issuance_id :: "128 word"

definition item_ref :: "ConversationUserMessageProof \<Rightarrow> string" where
  "item_ref p = ''conversation://'' @ um_conversation_id p @ ''/turn/'' @ um_turn_id p @
     ''/item/'' @ um_item_id p"

definition is_live :: "ConversationUserMessageProof \<Rightarrow> bool" where
  "is_live p \<longleftrightarrow> um_issuance_id p \<noteq> 0"

record ExplicitMemoryAdmissionProof =
  xp_source_message_id :: string
  xp_source_message_digest :: string
  xp_candidate_id :: string
  xp_candidate_digest :: string
  xp_fact_digest :: string
  xp_authority_digest :: string
  xp_binding_digest :: string

record ExplicitMemoryWriteInput =
  xi_source_task_id :: "string option"
  xi_source_run_id :: "string option"
  xi_source_message_id :: string
  xi_source_message_digest :: string
  xi_authorized_candidate_id :: string
  xi_fact :: CanonicalMemoryFactDescriptor

definition candidate_to_json :: "(32 word \<Rightarrow> json) \<Rightarrow> MemoryCandidate \<Rightarrow> json" where
  "candidate_to_json num c = JObject
     [(''candidateId'', JString (mc_candidate_id c)),
      (''sourceSpanId'', JString (mc_source_span_id c)),
      (''kind'', JString (candidate_kind_as_str (mc_kind c))),
      (''destination'', JString (destination_as_str (mc_destination c))),
      (''evidenceText'', JString (mc_evidence_text c)),
      (''sourcePreview'', JString (mc_source_preview c)),
      (''normalizedClaim'', JString (mc_normalized_claim c)),
      (''sensitivity'', JString (mc_sensitivity c)),
      (''stability'', JString (mc_stability c)),
      (''explicitness'', JString (mc_explicitness c)),
      (''futureActionability'', JString (mc_future_actionability c)),
      (''confidence'', num (mc_confidence c)),
      (''reasonCodes'', JArray (map JString (mc_reason_codes c)))]"

definition fact_to_json :: "CanonicalMemoryFactDescriptor \<Rightarrow> json" where
  "fact_to_json f = JObject
     ([(''canonicalBody'', JString (fd_canonical_body f)),
       (''scope'', JString (memory_scope_as_str (fd_scope f)))] @
      (case fd_scope_owner_ref f of None \<Rightarrow> [] | Some v \<Rightarrow> [(''scopeOwnerRef'', JString v)]) @
      [(''category'', JString (memory_category_as_str (fd_category f))),
       (''riskLevel'', JString (memory_risk_as_str (fd_risk_level f))),
       (''sensitivity'', JString (memory_sensitivity_as_str (fd_sensitivity f)))])"

abbreviation value_digest :: "(json \<Rightarrow> string) \<Rightarrow> (string \<Rightarrow> string) \<Rightarrow> json \<Rightarrow> string" where
  "value_digest ser sha v \<equiv> snd (metadata_safe_value_digest ser sha v)"

definition compute_binding_digest ::
  "(json \<Rightarrow> string) \<Rightarrow> (string \<Rightarrow> string) \<Rightarrow> ExplicitMemoryAdmissionProof \<Rightarrow> string"
where
  "compute_binding_digest ser sha p = value_digest ser sha (JObject
     [(''sourceMessageId'', JString (xp_source_message_id p)),
      (''sourceMessageDigest'', JString (xp_source_message_digest p)),
      (''candidateId'', JString (xp_candidate_id p)),
      (''candidateDigest'', JString (xp_candidate_digest p)),
      (''factDigest'', JString (xp_fact_digest p)),
      (''authorityDigest'', JString (xp_authority_digest p))])"

definition check_explicit_candidate ::
  "ConversationUserMessageProof \<Rightarrow> string \<Rightarrow> string \<Rightarrow> MemoryCandidate \<Rightarrow>
   CanonicalMemoryFactDescriptor \<Rightarrow> MemoryLifecycleScope \<Rightarrow> memory_error + unit"
where
  "check_explicit_candidate up message_digest message c f expected_scope = first_failure
     [bail_if (\<not> is_live up \<or> um_content_digest up \<noteq> message_digest \<or>
         um_content_length_bytes up \<noteq> length message)
        (MemoryBail ''explicit Memory admission requires the exact canonical user Item''),
      bail_if (trim (mc_candidate_id c) = [] \<or> mc_destination c \<noteq> DestinationMemoryProposal \<or>
         mc_explicitness c \<noteq> ''explicit'')
        (MemoryBail ''explicit Memory admission candidate is not eligible''),
      bail_if (mc_kind c = IdentityOrRole \<or> fd_category f = CategoryBoundary)
        (MemoryBail ''identity or boundary Memory cannot use the direct lane''),
      bail_if (fd_risk_level f \<notin> {MemLow, MemMedium} \<or> fd_sensitivity f = MemSensitive)
        (MemoryBail ''high-risk or sensitive Memory requires ReviewWorkflow''),
      bail_if (fd_scope f \<noteq> expected_scope)
        (MemoryBail ''explicit Memory admission scope does not match the typed Agent action''),
      bail_if (expected_scope \<noteq> MemGlobal \<and> fd_scope_owner_ref f = None)
        (MemoryBail ''explicit non-global Memory admission requires a bound scope owner'')]"

definition issue_from_agent_action ::
  "(string \<Rightarrow> string) \<Rightarrow> (string \<Rightarrow> string) \<Rightarrow> (json \<Rightarrow> string) \<Rightarrow> (32 word \<Rightarrow> json) \<Rightarrow>
   ConversationUserMessageProof \<Rightarrow> string \<Rightarrow> MemoryCandidate \<Rightarrow> CanonicalMemoryFactDescriptor \<Rightarrow>
   MemoryLifecycleScope \<Rightarrow> memory_error + ExplicitMemoryAdmissionProof"
where
  "issue_from_agent_action nfkc sha ser num up message c f expected_scope =
     (let message_digest = ''sha256:'' @ sha message in
      res_bind (check_explicit_candidate up message_digest message c f expected_scope) (\<lambda>_.
      res_bind (fact_key nfkc sha f) (\<lambda>_.
      res_bind (descriptor_from_candidate (mc_normalized_claim c) (mc_kind c) expected_scope MemLow
        (memory_sensitivity_from_str (mc_sensitivity c))) (\<lambda>expected.
      if expected\<lparr>fd_scope_owner_ref := fd_scope_owner_ref f\<rparr> \<noteq> f
      then Inl (MemoryBail ''explicit Memory admission fact does not match the selected candidate'')
      else
        let p = \<lparr>xp_source_message_id = item_ref up, xp_source_message_digest = message_digest,
                 xp_candidate_id = mc_candidate_id c,
                 xp_candidate_digest = value_digest ser sha (candidate_to_json num c),
                 xp_fact_digest = value_digest ser sha (fact_to_json f),
                 xp_authority_digest = value_digest ser sha (JObject
                   [(''authority'', JString ''canonical_conversation_user_item''),
                    (''messageRef'', JString (item_ref up)),
                    (''candidateId'', JString (mc_candidate_id c))]),
                 xp_binding_digest = []\<rparr>
        in Inr (p\<lparr>xp_binding_digest := compute_binding_digest ser sha p\<rparr>)))))"

definition consume_for_explicit_input ::
  "(json \<Rightarrow> string) \<Rightarrow> (string \<Rightarrow> string) \<Rightarrow> ExplicitMemoryAdmissionProof \<Rightarrow> ExplicitMemoryWriteInput \<Rightarrow>
   memory_error + unit"
where
  "consume_for_explicit_input ser sha p x =
     bail_if (xp_source_message_id p \<noteq> xi_source_message_id x \<or>
         xp_source_message_digest p \<noteq> xi_source_message_digest x \<or>
         xp_candidate_id p \<noteq> xi_authorized_candidate_id x \<or> trim (xp_candidate_digest p) = [] \<or>
         xp_fact_digest p \<noteq> value_digest ser sha (fact_to_json (xi_fact x)) \<or>
         trim (xp_authority_digest p) = [] \<or>
         xp_binding_digest p \<noteq> compute_binding_digest ser sha p)
       (MemoryBail ''explicit Memory admission proof does not match canonical write input'')"

section \<open>The fact a reviewed proposal asks for\<close>

record MemoryLifecycleAcceptanceInput =
  ai_proposal_id :: string
  ai_source_task_id :: "string option"
  ai_source_run_id :: "string option"
  ai_fact :: CanonicalMemoryFactDescriptor
  ai_created_by :: string
  ai_accepted_by :: string
  ai_evidence_ids :: "string list"
  ai_confidence :: string
  ai_conflict_ids :: "string list"
  ai_supersedes_memory_id :: "string option"

text \<open>\<open>value.get(key)\<close>, and \<open>value.get(key).or_else(|| value.get(other))\<close>.\<close>

definition value_get :: "json \<Rightarrow> string \<Rightarrow> json option" where
  "value_get v key = Option.bind (as_object v) (\<lambda>entries. map_of entries key)"

definition value_get_either :: "json \<Rightarrow> string \<Rightarrow> string \<Rightarrow> json option" where
  "value_get_either v key other =
     (case value_get v key of Some x \<Rightarrow> Some x | None \<Rightarrow> value_get v other)"

definition str_of :: "string \<Rightarrow> json \<Rightarrow> memory_error + string" where
  "str_of message v = ok_or (MemoryBail message) (as_str v)"

definition scope_from_proposal :: "AgentProposal \<Rightarrow> memory_error + MemoryLifecycleScope" where
  "scope_from_proposal p =
     (case value_get_either (ap_after p) ''scope'' ''memoryScope'' of
        Some v \<Rightarrow> res_bind (str_of ''Memory lifecycle scope must be a string'' v) memory_scope_from_str
      | None \<Rightarrow>
          let path = to_ascii_lower (ap_affected_path p) in
          Inr (if contains_str ''project'' path then MemProject
               else if contains_str ''workspace'' path then MemWorkspace
               else if contains_str ''conversation'' path then MemConversation
               else MemGlobal))"

definition category_from_proposal :: "AgentProposal \<Rightarrow> memory_error + MemoryLifecycleCategory" where
  "category_from_proposal p =
     (let kind = value_get_either (ap_after p) ''candidateKind'' ''candidate_kind'';
          category = value_get (ap_after p) ''category'';
          not_string = ''Memory lifecycle category must be a string'' in
      if ap_proposal_type p = MemoryWrite \<and> (kind = None \<or> category = None)
      then Inl (MemoryBail ''Memory write proposal requires candidateKind and category'')
      else
        case kind of
          Some kv \<Rightarrow>
            res_bind (str_of ''Memory candidate kind must be a string'' kv) (\<lambda>ks.
            res_bind (ok_or (MemoryBail (''unknown Memory candidate kind: '' @ ks))
              (memory_candidate_kind_from_str ks)) (\<lambda>k.
            res_bind (ok_or (MemoryBail not_string) (Option.bind category as_str)) (\<lambda>cs.
            res_bind (memory_category_from_str cs) (\<lambda>reviewed.
            if reviewed \<noteq> category_for_candidate_kind k
            then Inl (MemoryBail ''Memory candidate kind and reviewed category disagree'')
            else Inr (category_for_candidate_kind k)))))
        | None \<Rightarrow>
            (case category of
               Some cv \<Rightarrow> res_bind (str_of not_string cv) memory_category_from_str
             | None \<Rightarrow>
                 Inr (case ap_proposal_type p of MemoryWrite \<Rightarrow> CategoryPreference
                      | MemoryArchive \<Rightarrow> CategoryCorrection | _ \<Rightarrow> CategoryFact)))"

definition risk_from_proposal :: "AgentProposal \<Rightarrow> MemoryLifecycleRiskLevel" where
  "risk_from_proposal p =
     (let path = to_ascii_lower (ap_affected_path p) in
      if contains_str ''identity'' path \<or> contains_str ''value'' path then MemIdentityValue
      else case ap_risk_level p of RiskLow \<Rightarrow> MemLow | RiskMedium \<Rightarrow> MemMedium | RiskHigh \<Rightarrow> MemHigh
        | RiskCritical \<Rightarrow> MemIdentityValue)"

definition sensitivity_from_proposal :: "AgentProposal \<Rightarrow> memory_error + MemoryLifecycleSensitivity" where
  "sensitivity_from_proposal p =
     res_bind (ok_or (MemoryBail ''Memory proposal reviewed sensitivity is missing'')
       (value_get (ap_after p) ''sensitivity'')) (\<lambda>v.
     res_bind (str_of ''Memory lifecycle sensitivity must be a string'' v) (\<lambda>s.
     if s = ''internal'' then Inr MemInternal
     else if s = ''sensitive'' then Inr MemSensitive
     else Inl (MemoryBail (''unknown Memory lifecycle sensitivity: '' @ s))))"

fun created_by_from_source :: "ProposalSource \<Rightarrow> string" where
  "created_by_from_source SourceManual = ''user''"
| "created_by_from_source _ = ''agent''"

definition conflict_ids_from_proposal :: "AgentProposal \<Rightarrow> string list" where
  "conflict_ids_from_proposal p =
     (case Option.bind (value_get_either (ap_after p) ''conflictIds'' ''conflict_ids'') as_array of
        None \<Rightarrow> []
      | Some items \<Rightarrow> List.map_filter as_str items)"

definition supersedes_from_proposal :: "AgentProposal \<Rightarrow> string option" where
  "supersedes_from_proposal p =
     (case Option.bind (value_get_either (ap_after p) ''supersedesMemoryId'' ''supersedes_memory_id'')
             as_str of
        None \<Rightarrow> None
      | Some v \<Rightarrow> if trim v = [] then None else Some (trim v))"

definition reviewed_fact :: "AgentProposal \<Rightarrow> string \<Rightarrow> memory_error + CanonicalMemoryFactDescriptor" where
  "reviewed_fact p content =
     res_bind (ok_or (MemoryBail ''Memory proposal reviewed content is missing or not a string'')
       (Option.bind (value_get (ap_after p) ''content'') as_str)) (\<lambda>reviewed.
     if reviewed \<noteq> content
     then Inl (MemoryBail ''Memory proposal materialization content differs from reviewed content'')
     else
       let risk = risk_from_proposal p in
       res_bind (ok_or (MemoryBail ''Memory proposal reviewed risk level is missing or not a string'')
         (Option.bind (value_get_either (ap_after p) ''riskLevel'' ''risk_level'') as_str)) (\<lambda>rs.
       res_bind (strict_risk_level rs) (\<lambda>reviewed_risk.
       if reviewed_risk \<noteq> risk
       then Inl (MemoryBail ''Memory proposal reviewed risk disagrees with proposal risk'')
       else
         res_bind (sensitivity_from_proposal p) (\<lambda>sensitivity.
         if risk \<in> {MemHigh, MemIdentityValue} \<and> sensitivity \<noteq> MemSensitive
         then Inl (MemoryBail ''high-risk Memory proposal must be marked sensitive'')
         else
           res_bind (scope_from_proposal p) (\<lambda>scope.
           res_bind (category_from_proposal p) (\<lambda>category.
           res_bind (descriptor_new content scope category risk sensitivity) (\<lambda>f.
           case Option.bind (value_get_either (ap_after p) ''scopeOwnerRef'' ''scope_owner_ref'')
                  as_str of
             Some owner \<Rightarrow> with_scope_owner_ref owner f
           | None \<Rightarrow> Inr f)))))))"

definition from_memory_proposal ::
  "(32 word \<Rightarrow> string) \<Rightarrow> AgentProposal \<Rightarrow> string \<Rightarrow> memory_error + MemoryLifecycleAcceptanceInput"
where
  "from_memory_proposal fmt3 p content =
     res_bind (reviewed_fact p content) (\<lambda>f.
     Inr \<lparr>ai_proposal_id = ap_id p, ai_source_task_id = None, ai_source_run_id = ap_run_id p,
          ai_fact = f, ai_created_by = created_by_from_source (ap_source p),
          ai_accepted_by = ''user'',
          ai_evidence_ids = List.map_filter (\<lambda>x. x) [ap_source_detail p, ap_run_id p, Some (ap_id p)],
          ai_confidence = fmt3 (ap_confidence p), ai_conflict_ids = conflict_ids_from_proposal p,
          ai_supersedes_memory_id = supersedes_from_proposal p\<rparr>)"

definition from_memory_proposal_with_terminal_origin ::
  "(string \<Rightarrow> string) \<Rightarrow> (32 word \<Rightarrow> string) \<Rightarrow> AgentProposal \<Rightarrow> string \<Rightarrow> string \<Rightarrow> string \<Rightarrow> string \<Rightarrow>
   string \<Rightarrow> string \<Rightarrow> memory_error + MemoryLifecycleAcceptanceInput"
where
  "from_memory_proposal_with_terminal_origin sha fmt3 p content task_id conversation_owner run_id
       message_ref message_digest =
     res_bind (from_memory_proposal fmt3 p content) (\<lambda>x.
     if trim task_id = [] \<or> trim conversation_owner = [] \<or> trim run_id = [] \<or>
        trim message_ref = [] \<or> trim message_digest = []
     then Inl (MemoryBail ''terminal owner Memory origin is incomplete'')
     else
       let f = ai_fact x;
           y = x\<lparr>ai_source_task_id := Some task_id, ai_source_run_id := Some run_id,
                 ai_evidence_ids := [ap_id p, message_ref, message_digest]\<rparr>
       in if fd_scope f = MemConversation \<and> fd_scope_owner_ref f = None
          then res_bind (memory_scope_owner_ref sha MemConversation conversation_owner) (\<lambda>owner.
            Inr (y\<lparr>ai_fact := f\<lparr>fd_scope_owner_ref := Some owner\<rparr>\<rparr>))
          else Inr y)"

end
