(* ===== verification/Memory_Store.thy ===== *)
theory Memory_Store
  imports Memory_Fact "HOL-Library.Option_ord"
begin

text \<open>
  The tables of the memory store (\<open>openlife-core/src/agent/memory_lifecycle.rs\<close>) and the helpers that
  run inside its transactions: records with their unique indexes, admission links, rollback events,
  materialised views, retrieval states and the outbox. A transaction is a function to an error, which
  leaves the store as it was, or to a result and a new store.

  A column that holds the text of an enumeration holds its value. The foreign keys always hold: records
  are never deleted, and links and retrieval states are written for a record that was just read. The
  migrations of older databases are left out. \<open>now\<close> is the time of the operation and \<open>uuids\<close> holds the
  fresh UUIDs it may draw.
\<close>

section \<open>Tables\<close>

record MemoryLifecycleRecord =
  mr_memory_id :: string
  mr_proposal_id :: string
  mr_source_task_id :: "string option"
  mr_source_run_id :: "string option"
  mr_content :: string
  mr_scope :: MemoryLifecycleScope
  mr_scope_owner_ref :: "string option"
  mr_category :: MemoryLifecycleCategory
  mr_risk_level :: MemoryLifecycleRiskLevel
  mr_sensitivity :: MemoryLifecycleSensitivity
  mr_audit_digest :: string
  mr_status :: MemoryLifecycleStatus
  mr_materialization_status :: MemoryMaterializationStatus
  mr_materialization_error_code :: "string option"
  mr_created_by :: string
  mr_accepted_by :: "string option"
  mr_accepted_at :: "int option"
  mr_materialized_view_id :: "string option"
  mr_materialized_view_version :: "nat option"
  mr_evidence_ids :: "string list"
  mr_confidence :: "32 word"
  mr_conflict_ids :: "string list"
  mr_supersedes_memory_id :: "string option"
  mr_replacement_memory_id :: "string option"
  mr_rolled_back_by_event_id :: "string option"
  mr_runtime_context_excluded_at :: "int option"

record memory_row =
  mw_record :: MemoryLifecycleRecord
  mw_fact_key :: string
  mw_created_at :: int
  mw_updated_at :: int

abbreviation mw_id :: "memory_row \<Rightarrow> string" where
  "mw_id w \<equiv> mr_memory_id (mw_record w)"

record MemoryAdmissionLink =
  lk_proposal_id :: string
  lk_memory_id :: string
  lk_admitted_memory_id :: string
  lk_fact_key :: string
  lk_admission_digest :: string
  lk_risk_level :: MemoryLifecycleRiskLevel
  lk_sensitivity :: MemoryLifecycleSensitivity
  lk_linked_at :: int

record MemoryRollbackEvent =
  re_rollback_event_id :: string
  re_memory_id :: string
  re_proposal_id :: string
  re_requested_by :: string
  re_reason :: string
  re_previous_status :: MemoryLifecycleStatus
  re_next_status :: MemoryLifecycleStatus
  re_affected_materialized_view_ids :: "string list"
  re_affected_runtime_surface_ids :: "string list"
  re_created_at :: int
  re_audit_digest :: string

record MemoryMaterializedView =
  mv_materialized_view_id :: string
  mv_scope :: "MemoryLifecycleScope option"
  mv_version :: nat
  mv_active_memory_ids :: "string list"
  mv_runtime_surface_ids :: "string list"
  mv_updated_at :: int
  mv_content_digest :: string

datatype MemoryRetrievalDisposition = RetrievalActive | RetrievalPaused | RetrievalArchived

fun disposition_as_str :: "MemoryRetrievalDisposition \<Rightarrow> string" where
  "disposition_as_str RetrievalActive = ''active''"
| "disposition_as_str RetrievalPaused = ''paused''"
| "disposition_as_str RetrievalArchived = ''archived''"

record retrieval_row =
  rs_memory_id :: string
  rs_disposition :: MemoryRetrievalDisposition
  rs_revision :: nat
  rs_last_event_id :: string
  rs_reason_digest :: string
  rs_changed_at :: int

record memory_store =
  ms_records :: "memory_row list"
  ms_links :: "MemoryAdmissionLink list"
  ms_rollbacks :: "MemoryRollbackEvent list"
  ms_views :: "MemoryMaterializedView list"
  ms_retrieval :: "retrieval_row list"
  ms_outbox :: outbox

definition empty_memory_store :: memory_store where
  "empty_memory_store = \<lparr>ms_records = [], ms_links = [], ms_rollbacks = [], ms_views = [],
     ms_retrieval = [], ms_outbox = empty_outbox\<rparr>"

record memory_uuids =
  mu_memory :: string
  mu_nonce :: string
  mu_event :: string
  mu_rollback :: string
  mu_tombstone :: string
  mu_tombstone_event :: string

section \<open>Records\<close>

text \<open>The predicate of the partial unique index over the fact keys.\<close>

definition owns_fact :: "memory_row \<Rightarrow> bool" where
  "owns_fact w \<longleftrightarrow> mr_runtime_context_excluded_at (mw_record w) = None \<and>
     mr_status (mw_record w) \<in>
       {MemAccepted, MemPendingMaterialization, MemMaterialized, MemMaterializationFailed}"

definition memory_rows_unique :: "memory_row list \<Rightarrow> bool" where
  "memory_rows_unique rows \<longleftrightarrow>
     distinct (map mw_id rows) \<and> distinct (map (\<lambda>w. mr_proposal_id (mw_record w)) rows) \<and>
     distinct (map mw_fact_key (filter owns_fact rows))"

definition put_records :: "memory_row list \<Rightarrow> memory_store \<Rightarrow> memory_error + memory_store" where
  "put_records rows s =
     (if memory_rows_unique rows then Inr (s\<lparr>ms_records := rows\<rparr>) else Inl MemoryConstraint)"

definition insert_record ::
  "MemoryLifecycleRecord \<Rightarrow> string \<Rightarrow> int \<Rightarrow> memory_store \<Rightarrow> memory_error + memory_store"
where
  "insert_record r key now s =
     put_records (ms_records s @
       [\<lparr>mw_record = r, mw_fact_key = key, mw_created_at = now, mw_updated_at = now\<rparr>]) s"

definition update_record ::
  "MemoryLifecycleRecord \<Rightarrow> int \<Rightarrow> memory_store \<Rightarrow> memory_error + memory_store"
where
  "update_record r now s =
     put_records (update_where (\<lambda>w. mw_id w = mr_memory_id r)
       (\<lambda>w. w\<lparr>mw_record := r, mw_updated_at := now\<rparr>) (ms_records s)) s"

definition find_memory :: "string \<Rightarrow> memory_store \<Rightarrow> MemoryLifecycleRecord option" where
  "find_memory mid s = map_option mw_record (find (\<lambda>w. mw_id w = mid) (ms_records s))"

definition active_record_by_fact_key :: "string \<Rightarrow> memory_store \<Rightarrow> MemoryLifecycleRecord option" where
  "active_record_by_fact_key key s =
     map_option mw_record (find (\<lambda>w. mw_fact_key w = key \<and> owns_fact w) (ms_records s))"

definition memory_record_audit_digest ::
  "(string \<Rightarrow> string) \<Rightarrow> MemoryLifecycleRecord \<Rightarrow> string \<Rightarrow> string"
where
  "memory_record_audit_digest sha r key =
     digest_length_delimited_values sha ''openlife_memory_record_audit_v1''
       [mr_memory_id r, mr_proposal_id r, key, mr_content r, memory_scope_as_str (mr_scope r),
        owner_text (mr_scope_owner_ref r), memory_category_as_str (mr_category r),
        memory_risk_as_str (mr_risk_level r), memory_sensitivity_as_str (mr_sensitivity r),
        mr_created_by r, owner_text (mr_accepted_by r)]"

section \<open>Admission links\<close>

definition proposal_link :: "string \<Rightarrow> memory_store \<Rightarrow> MemoryAdmissionLink option" where
  "proposal_link pid s = find (\<lambda>l. lk_proposal_id l = pid) (ms_links s)"

definition link_proposal_to_memory ::
  "string \<Rightarrow> string \<Rightarrow> string \<Rightarrow> string \<Rightarrow> MemoryLifecycleRiskLevel \<Rightarrow> MemoryLifecycleSensitivity \<Rightarrow> int \<Rightarrow>
   memory_store \<Rightarrow> memory_error + memory_store"
where
  "link_proposal_to_memory pid mid key digest risk sensitivity now s =
     (if trim pid = [] \<or> trim mid = [] \<or> trim key = [] \<or> trim digest = []
      then Inl (MemoryBail ''Memory proposal link identity is incomplete'')
      else case proposal_link pid s of
        Some l \<Rightarrow>
          if lk_memory_id l = mid \<and> lk_admitted_memory_id l = mid \<and> lk_fact_key l = key \<and>
             lk_admission_digest l = digest \<and> lk_risk_level l = risk \<and> lk_sensitivity l = sensitivity
          then Inr s
          else Inl (MemoryBail ''Memory proposal link conflicts with its canonical owner'')
      | None \<Rightarrow> Inr (s\<lparr>ms_links := ms_links s @
          [\<lparr>lk_proposal_id = pid, lk_memory_id = mid, lk_admitted_memory_id = mid, lk_fact_key = key,
            lk_admission_digest = digest, lk_risk_level = risk, lk_sensitivity = sensitivity,
            lk_linked_at = now\<rparr>]\<rparr>))"

definition ensure_admission_link_matches ::
  "MemoryAdmissionLink \<Rightarrow> string \<Rightarrow> string \<Rightarrow> CanonicalMemoryFactDescriptor \<Rightarrow> memory_error + unit"
where
  "ensure_admission_link_matches l key digest f =
     bail_if (lk_fact_key l \<noteq> key \<or> lk_admission_digest l \<noteq> digest \<or>
         lk_risk_level l \<noteq> fd_risk_level f \<or> lk_sensitivity l \<noteq> fd_sensitivity f)
       (MemoryBail
         ''memory proposal idempotency key was reused with a different canonical admission'')"

section \<open>Views\<close>

definition view_id_for_scope :: "MemoryLifecycleScope option \<Rightarrow> string" where
  "view_id_for_scope scope = ''main_chat_memory_materialized_view:'' @
     (case scope of Some sc \<Rightarrow> memory_scope_as_str sc | None \<Rightarrow> ''all'')"

definition runtime_surface_id_for_scope :: "MemoryLifecycleScope option \<Rightarrow> string" where
  "runtime_surface_id_for_scope scope = ''main_chat_runtime_memory_context:'' @
     (case scope of Some sc \<Rightarrow> memory_scope_as_str sc | None \<Rightarrow> ''all'')"

definition find_view :: "string \<Rightarrow> memory_store \<Rightarrow> MemoryMaterializedView option" where
  "find_view vid s = find (\<lambda>v. mv_materialized_view_id v = vid) (ms_views s)"

text \<open>A record that is current: materialised and not excluded.\<close>

definition in_context :: "MemoryLifecycleRecord \<Rightarrow> bool" where
  "in_context r \<longleftrightarrow> mr_status r = MemMaterialized \<and> mr_materialization_status r = MatMaterialized \<and>
     mr_runtime_context_excluded_at r = None"

definition in_scope :: "MemoryLifecycleScope option \<Rightarrow> MemoryLifecycleRecord \<Rightarrow> bool" where
  "in_scope scope r \<longleftrightarrow> (case scope of None \<Rightarrow> True | Some sc \<Rightarrow> mr_scope r = sc)"

definition accepted_key :: "MemoryLifecycleRecord \<Rightarrow> int option \<times> string" where
  "accepted_key r = (mr_accepted_at r, mr_memory_id r)"

definition active_materialized_ids :: "MemoryLifecycleScope option \<Rightarrow> memory_store \<Rightarrow> string list" where
  "active_materialized_ids scope s =
     map mr_memory_id (sort_key accepted_key
       (filter (\<lambda>r. in_scope scope r \<and> in_context r) (map mw_record (ms_records s))))"

definition upsert_view :: "MemoryMaterializedView \<Rightarrow> memory_store \<Rightarrow> memory_store" where
  "upsert_view v s =
     (let same = (\<lambda>x. mv_materialized_view_id x = mv_materialized_view_id v) in
      s\<lparr>ms_views := (if exists_where same (ms_views s) then update_where same (\<lambda>_. v) (ms_views s)
                     else ms_views s @ [v])\<rparr>)"

definition rebuild_view ::
  "(string \<Rightarrow> string) \<Rightarrow> int \<Rightarrow> MemoryLifecycleScope option \<Rightarrow> string option \<Rightarrow> string option \<Rightarrow>
   memory_store \<Rightarrow> MemoryMaterializedView \<times> memory_store"
where
  "rebuild_view sha now scope pending excluded s =
     (let vid = view_id_for_scope scope;
          previous = (case find_view vid s of None \<Rightarrow> 0 | Some v \<Rightarrow> mv_version v);
          found = active_materialized_ids scope s;
          with_pending = (case pending of None \<Rightarrow> found
            | Some m \<Rightarrow> if m \<in> set found then found else found @ [m]);
          kept = filter (\<lambda>m. Some m \<noteq> excluded) with_pending;
          ids = remdups (sort kept);
          surfaces = [runtime_surface_id_for_scope scope];
          v = \<lparr>mv_materialized_view_id = vid, mv_scope = scope, mv_version = previous + 1,
               mv_active_memory_ids = ids, mv_runtime_surface_ids = surfaces, mv_updated_at = now,
               mv_content_digest = digest_label sha
                 (vid @ '':'' @ join_with ''|'' ids @ '':'' @ join_with ''|'' surfaces)\<rparr>
      in (v, upsert_view v s))"

section \<open>Outbox\<close>

definition MEMORY_LIFECYCLE_AGGREGATE_KIND :: string where
  "MEMORY_LIFECYCLE_AGGREGATE_KIND = ''memory_lifecycle''"

definition MEMORY_LIFECYCLE_PROJECTION_TARGETS :: "string list" where
  "MEMORY_LIFECYCLE_PROJECTION_TARGETS = [''vector_store'']"

definition MEMORY_LIFECYCLE_RETRIEVAL_AGGREGATE_KIND :: string where
  "MEMORY_LIFECYCLE_RETRIEVAL_AGGREGATE_KIND = ''memory_retrieval''"

definition MEMORY_LIFECYCLE_RETRIEVAL_OWNER_KIND :: string where
  "MEMORY_LIFECYCLE_RETRIEVAL_OWNER_KIND = ''memory_lifecycle''"

definition on_outbox ::
  "(outbox \<Rightarrow> outbox_error + 'a \<times> outbox) \<Rightarrow> memory_store \<Rightarrow> memory_error + 'a \<times> memory_store"
where
  "on_outbox f s =
     res_bind (map_err MemoryOutbox (f (ms_outbox s))) (\<lambda>(x, ob). Inr (x, s\<lparr>ms_outbox := ob\<rparr>))"

definition memory_lifecycle_projection_token ::
  "(string \<Rightarrow> string) \<Rightarrow> string \<Rightarrow> MemoryLifecycleRecord \<Rightarrow> string"
where
  "memory_lifecycle_projection_token sha nonce r =
     metadata_digest sha (join_with '':'' [mr_memory_id r, memory_status_as_str (mr_status r),
       materialization_as_str (mr_materialization_status r), memory_scope_as_str (mr_scope r), nonce])"

definition enqueue_materialized ::
  "(string \<Rightarrow> string) \<Rightarrow> memory_uuids \<Rightarrow> int \<Rightarrow> MemoryLifecycleRecord \<Rightarrow> memory_store \<Rightarrow>
   memory_error + CanonicalMutationReceipt \<times> memory_store"
where
  "enqueue_materialized sha uuids now r =
     on_outbox (enqueue_mutation MEMORY_LIFECYCLE_AGGREGATE_KIND (mr_memory_id r) ''materialized''
       (memory_lifecycle_projection_token sha (mu_nonce uuids) r) MEMORY_LIFECYCLE_PROJECTION_TARGETS
       (mu_event uuids) now)"

definition enqueue_memory_tombstone ::
  "(string \<Rightarrow> string) \<Rightarrow> memory_uuids \<Rightarrow> int \<Rightarrow> string \<Rightarrow> string \<Rightarrow> memory_store \<Rightarrow>
   memory_error + CanonicalMutationReceipt \<times> memory_store"
where
  "enqueue_memory_tombstone sha uuids now mid reason =
     on_outbox (enqueue_tombstone sha MEMORY_LIFECYCLE_AGGREGATE_KIND mid (Some reason)
       MEMORY_LIFECYCLE_PROJECTION_TARGETS (mu_tombstone uuids) (mu_tombstone_event uuids) now)"

text \<open>The newest \<open>materialized\<close> event; the index on revisions leaves no ties.\<close>

definition materialized_event :: "string \<Rightarrow> outbox \<Rightarrow> CanonicalMutationReceipt option" where
  "materialized_event mid ob =
     (let p = (\<lambda>ev. in_aggregate MEMORY_LIFECYCLE_AGGREGATE_KIND mid ev \<and>
                 ev_mutation_kind ev = ''materialized'') in
      find (\<lambda>ev. p ev \<and> ev_aggregate_revision ev = max_where p ev_aggregate_revision (ob_events ob))
        (ob_events ob))"

definition ensure_materialized_mutation ::
  "(string \<Rightarrow> string) \<Rightarrow> memory_uuids \<Rightarrow> int \<Rightarrow> MemoryLifecycleRecord \<Rightarrow> memory_store \<Rightarrow>
   memory_error + CanonicalMutationReceipt \<times> memory_store"
where
  "ensure_materialized_mutation sha uuids now r s =
     (case materialized_event (mr_memory_id r) (ms_outbox s) of
        Some ev \<Rightarrow>
          res_bind (map_err MemoryOutbox (mutation_by_event_id (ev_event_id ev) (ms_outbox s))) (\<lambda>found.
          res_bind (ok_or (MemoryBail ''MemoryLifecycle materialized outbox event is missing'') found)
            (\<lambda>receipt. Inr (receipt, s)))
      | None \<Rightarrow> enqueue_materialized sha uuids now r s)"

definition projection_state_of :: "string \<Rightarrow> memory_store \<Rightarrow> memory_error + ProjectionDeliveryState" where
  "projection_state_of event_id s =
     res_bind (map_err MemoryOutbox (projection_summary event_id (ms_outbox s))) (\<lambda>x.
     Inr (summary_state x))"

section \<open>Governance\<close>

text \<open>Risk and sensitivity of a shared record only grow.\<close>

definition merge_effective_governance ::
  "(string \<Rightarrow> string) \<Rightarrow> memory_uuids \<Rightarrow> int \<Rightarrow> MemoryLifecycleRecord \<Rightarrow> string \<Rightarrow>
   MemoryLifecycleRiskLevel \<Rightarrow> MemoryLifecycleSensitivity \<Rightarrow> memory_store \<Rightarrow>
   memory_error + (MemoryLifecycleRecord \<times> bool) \<times> memory_store"
where
  "merge_effective_governance sha uuids now r key risk sensitivity s =
     (let risk' = risk_max (mr_risk_level r) risk;
          sensitivity' = sensitivity_max (mr_sensitivity r) sensitivity in
      if risk' = mr_risk_level r \<and> sensitivity' = mr_sensitivity r then Inr ((r, False), s)
      else
        let r1 = r\<lparr>mr_risk_level := risk', mr_sensitivity := sensitivity'\<rparr>;
            r2 = r1\<lparr>mr_audit_digest := memory_record_audit_digest sha r1 key\<rparr>
        in res_bind (update_record r2 now s) (\<lambda>s1.
           if is_runtime_active (mr_status r2) \<and> mr_materialization_status r2 = MatMaterialized
           then res_bind (enqueue_materialized sha uuids now r2 s1) (\<lambda>(_, s2). Inr ((r2, True), s2))
           else Inr ((r2, True), s1)))"

end
