(* ===== verification/Memory_Lifecycle.thy ===== *)
theory Memory_Lifecycle
  imports Memory_Store
begin

text \<open>
  The operations of the memory store (\<open>openlife-core/src/agent/memory_lifecycle.rs\<close>): accepting a
  reviewed proposal, committing an explicit user memory, rollback, privacy erasure, the retrieval
  disposition of a memory, and the queries. The parameter \<open>parse_f32\<close> is the decimal parser of the
  standard library, with the bits of the rounded number as its result.
\<close>

section \<open>Accepting a proposal\<close>

datatype MemoryAdmissionOutcome =
  ExactReplay | AliasLinked | GovernanceUpgraded | OwnerCreated | TerminalHistorical

record MemoryLifecycleAcceptanceReport =
  ar_record :: MemoryLifecycleRecord
  ar_materialized_view :: "MemoryMaterializedView option"
  ar_preceding_canonical_mutations :: "CanonicalMutationReceipt list"
  ar_canonical_mutation :: "CanonicalMutationReceipt option"
  ar_canonical_committed :: bool
  ar_canonical_fact_key :: string
  ar_newly_committed :: bool
  ar_admission_outcome :: MemoryAdmissionOutcome
  ar_admission_at :: int
  ar_owner_accepted_at :: "int option"
  ar_projection_state :: ProjectionDeliveryState

definition terminal_projection_state :: "MemoryLifecycleStatus \<Rightarrow> ProjectionDeliveryState" where
  "terminal_projection_state st =
     (if st = MemRolledBack then DeliveryCompensated else DeliverySuperseded)"

definition terminal_historical_acceptance_report ::
  "MemoryLifecycleRecord \<Rightarrow> string \<Rightarrow> int \<Rightarrow> MemoryLifecycleAcceptanceReport"
where
  "terminal_historical_acceptance_report r key admission_at =
     \<lparr>ar_record = r, ar_materialized_view = None, ar_preceding_canonical_mutations = [],
      ar_canonical_mutation = None, ar_canonical_committed = False, ar_canonical_fact_key = key,
      ar_newly_committed = False, ar_admission_outcome = TerminalHistorical,
      ar_admission_at = admission_at, ar_owner_accepted_at = mr_accepted_at r,
      ar_projection_state = terminal_projection_state (mr_status r)\<rparr>"

definition ensure_record_view ::
  "(string \<Rightarrow> string) \<Rightarrow> int \<Rightarrow> MemoryLifecycleRecord \<Rightarrow> memory_store \<Rightarrow>
   memory_error + (MemoryLifecycleRecord \<times> MemoryMaterializedView) \<times> memory_store"
where
  "ensure_record_view sha now r s =
     (case Option.bind (mr_materialized_view_id r) (\<lambda>vid. find_view vid s) of
        Some v \<Rightarrow> Inr ((r, v), s)
      | None \<Rightarrow>
          let active = is_runtime_active (mr_status r) in
          case rebuild_view sha now (Some (mr_scope r))
                 (if active then Some (mr_memory_id r) else None)
                 (if active then None else Some (mr_memory_id r)) s of (v, s1) \<Rightarrow>
          let r1 = r\<lparr>mr_materialized_view_id := Some (mv_materialized_view_id v),
                     mr_materialized_view_version := Some (mv_version v)\<rparr>
          in res_bind (update_record r1 now s1) (\<lambda>s2. Inr ((r1, v), s2)))"

definition existing_acceptance_report ::
  "(string \<Rightarrow> string) \<Rightarrow> memory_uuids \<Rightarrow> int \<Rightarrow> MemoryLifecycleRecord \<Rightarrow> string \<Rightarrow>
   MemoryAdmissionOutcome \<Rightarrow> int \<Rightarrow> memory_store \<Rightarrow>
   memory_error + MemoryLifecycleAcceptanceReport \<times> memory_store"
where
  "existing_acceptance_report sha uuids now r key outcome admission_at s =
     res_bind (ensure_record_view sha now r s) (\<lambda>((r1, v), s1).
     res_bind (ensure_materialized_mutation sha uuids now r1 s1) (\<lambda>(receipt, s2).
     res_bind (projection_state_of (ev_event_id receipt) s2) (\<lambda>st.
     Inr (\<lparr>ar_record = r1, ar_materialized_view = Some v, ar_preceding_canonical_mutations = [],
           ar_canonical_mutation = Some receipt, ar_canonical_committed = True,
           ar_canonical_fact_key = key, ar_newly_committed = (outcome = GovernanceUpgraded),
           ar_admission_outcome = outcome, ar_admission_at = admission_at,
           ar_owner_accepted_at = mr_accepted_at r1, ar_projection_state = st\<rparr>, s2))))"

text \<open>A replay finds the link of its proposal.\<close>

definition accept_replay ::
  "(string \<Rightarrow> string) \<Rightarrow> memory_uuids \<Rightarrow> int \<Rightarrow> CanonicalMemoryFactDescriptor \<Rightarrow> string \<Rightarrow> string \<Rightarrow>
   MemoryAdmissionLink \<Rightarrow> memory_store \<Rightarrow> memory_error + MemoryLifecycleAcceptanceReport \<times> memory_store"
where
  "accept_replay sha uuids now f key digest l s =
     res_bind (ensure_admission_link_matches l key digest f) (\<lambda>_.
     res_bind (ok_or (MemoryBail ''memory admission link points to a missing admitted owner'')
       (find_memory (lk_admitted_memory_id l) s)) (\<lambda>admitted.
     if is_terminal_historical (mr_status admitted)
     then Inr (terminal_historical_acceptance_report admitted key (lk_linked_at l), s)
     else
       res_bind (ok_or (MemoryBail ''memory proposal link points to a missing canonical owner'')
         (find_memory (lk_memory_id l) s)) (\<lambda>r.
       if \<not> is_runtime_active (mr_status r)
       then Inl (MemoryBail ''memory proposal owner is not materialized'')
       else
         res_bind (merge_effective_governance sha uuids now r key (fd_risk_level f)
           (fd_sensitivity f) s) (\<lambda>((r1, upgraded), s1).
         existing_acceptance_report sha uuids now r1 key
           (if upgraded then GovernanceUpgraded else ExactReplay) (lk_linked_at l) s1))))"

definition new_memory_record ::
  "string \<Rightarrow> string \<Rightarrow> string option \<Rightarrow> string option \<Rightarrow> CanonicalMemoryFactDescriptor \<Rightarrow> string \<Rightarrow>
   string \<Rightarrow> int \<Rightarrow> string list \<Rightarrow> 32 word \<Rightarrow> string list \<Rightarrow> string option \<Rightarrow> MemoryLifecycleRecord"
where
  "new_memory_record mid pid task_id run_id f created_by accepted_by now evidence confidence conflicts
       supersedes =
     \<lparr>mr_memory_id = mid, mr_proposal_id = pid, mr_source_task_id = task_id,
      mr_source_run_id = run_id, mr_content = fd_canonical_body f, mr_scope = fd_scope f,
      mr_scope_owner_ref = fd_scope_owner_ref f, mr_category = fd_category f,
      mr_risk_level = fd_risk_level f, mr_sensitivity = fd_sensitivity f, mr_audit_digest = [],
      mr_status = MemAccepted, mr_materialization_status = MatPending,
      mr_materialization_error_code = None, mr_created_by = created_by,
      mr_accepted_by = Some accepted_by, mr_accepted_at = Some now, mr_materialized_view_id = None,
      mr_materialized_view_version = None, mr_evidence_ids = evidence, mr_confidence = confidence,
      mr_conflict_ids = conflicts, mr_supersedes_memory_id = supersedes,
      mr_replacement_memory_id = None, mr_rolled_back_by_event_id = None,
      mr_runtime_context_excluded_at = None\<rparr>"

text \<open>A new record with its audit digest, and its link.\<close>

definition admit_record ::
  "(string \<Rightarrow> string) \<Rightarrow> int \<Rightarrow> CanonicalMemoryFactDescriptor \<Rightarrow> string \<Rightarrow> string \<Rightarrow>
   MemoryLifecycleRecord \<Rightarrow> memory_store \<Rightarrow> memory_error + MemoryLifecycleRecord \<times> memory_store"
where
  "admit_record sha now f key digest r s =
     (let r1 = r\<lparr>mr_audit_digest := memory_record_audit_digest sha r key\<rparr> in
      res_bind (insert_record r1 key now s) (\<lambda>s1.
      res_bind (link_proposal_to_memory (mr_proposal_id r1) (mr_memory_id r1) key digest
        (fd_risk_level f) (fd_sensitivity f) now s1) (\<lambda>s2.
      Inr (r1, s2))))"

text \<open>The view is rebuilt with the record in it, then the record is materialised.\<close>

definition materialize_record ::
  "(string \<Rightarrow> string) \<Rightarrow> int \<Rightarrow> string option \<Rightarrow> MemoryLifecycleRecord \<Rightarrow> memory_store \<Rightarrow>
   memory_error + (MemoryLifecycleRecord \<times> MemoryMaterializedView) \<times> memory_store"
where
  "materialize_record sha now excluded r s =
     (case rebuild_view sha now (Some (mr_scope r)) (Some (mr_memory_id r)) excluded s of (v, s1) \<Rightarrow>
      let r1 = r\<lparr>mr_status := MemMaterialized, mr_materialization_status := MatMaterialized,
                 mr_materialized_view_id := Some (mv_materialized_view_id v),
                 mr_materialized_view_version := Some (mv_version v)\<rparr>
      in res_bind (update_record r1 now s1) (\<lambda>s2. Inr ((r1, v), s2)))"

definition created_report ::
  "MemoryLifecycleRecord \<Rightarrow> MemoryMaterializedView \<Rightarrow> CanonicalMutationReceipt list \<Rightarrow>
   CanonicalMutationReceipt \<Rightarrow> string \<Rightarrow> int \<Rightarrow> MemoryLifecycleAcceptanceReport"
where
  "created_report r v preceding receipt key now =
     \<lparr>ar_record = r, ar_materialized_view = Some v, ar_preceding_canonical_mutations = preceding,
      ar_canonical_mutation = Some receipt, ar_canonical_committed = True,
      ar_canonical_fact_key = key, ar_newly_committed = True, ar_admission_outcome = OwnerCreated,
      ar_admission_at = now, ar_owner_accepted_at = Some now, ar_projection_state = DeliveryPending\<rparr>"

text \<open>A reviewed correction replaces exactly the memory it names.\<close>

definition check_correction_target ::
  "CanonicalMemoryFactDescriptor \<Rightarrow> string \<Rightarrow> string \<Rightarrow> memory_store \<Rightarrow> memory_error + MemoryLifecycleRecord"
where
  "check_correction_target f key target s =
     res_bind (bail_if (trim target \<noteq> target \<or> \<not> starts_with ''memory:'' target \<or> 256 < length target)
       (MemoryBail ''reviewed Memory correction target id is invalid'')) (\<lambda>_.
     res_bind (ok_or (MemoryBail ''reviewed Memory correction target is missing'')
       (find_memory target s)) (\<lambda>previous.
     res_bind (first_failure
       [bail_if (\<not> is_runtime_active (mr_status previous) \<or>
           mr_materialization_status previous \<noteq> MatMaterialized \<or>
           mr_runtime_context_excluded_at previous \<noteq> None)
          (MemoryBail ''reviewed Memory correction target is stale or inactive''),
        bail_if (mr_scope previous \<noteq> fd_scope f)
          (MemoryBail ''reviewed Memory correction cannot change scope implicitly''),
        bail_if (mr_scope_owner_ref previous \<noteq> fd_scope_owner_ref f)
          (MemoryBail ''reviewed Memory correction cannot change scope owner implicitly''),
        bail_if (mr_content previous = fd_canonical_body f)
          (MemoryBail ''reviewed Memory correction must change the canonical content'')]) (\<lambda>_.
     case active_record_by_fact_key key s of
       Some c \<Rightarrow> Inl (MemoryBail (''reviewed Memory correction collides with active owner '' @
                      mr_memory_id c))
     | None \<Rightarrow> Inr previous)))"

definition superseded_record ::
  "(string \<Rightarrow> string) \<Rightarrow> int \<Rightarrow> string \<Rightarrow> string \<Rightarrow> MemoryLifecycleRecord \<Rightarrow> MemoryLifecycleRecord"
where
  "superseded_record sha now replacement key previous =
     (let r = previous\<lparr>mr_status := MemSuperseded, mr_materialization_status := MatNotRequired,
                       mr_replacement_memory_id := Some replacement,
                       mr_runtime_context_excluded_at := Some now\<rparr>
      in r\<lparr>mr_audit_digest := memory_record_audit_digest sha r key\<rparr>)"

definition accept_correction ::
  "(string \<Rightarrow> string) \<Rightarrow> (string \<Rightarrow> string) \<Rightarrow> memory_uuids \<Rightarrow> int \<Rightarrow> MemoryLifecycleAcceptanceInput \<Rightarrow>
   string \<Rightarrow> string \<Rightarrow> 32 word \<Rightarrow> string \<Rightarrow> memory_store \<Rightarrow>
   memory_error + MemoryLifecycleAcceptanceReport \<times> memory_store"
where
  "accept_correction nfkc sha uuids now x key digest confidence target s =
     (let f = ai_fact x in
      res_bind (check_correction_target f key target s) (\<lambda>previous.
      res_bind (admit_record sha now f key digest
        (new_memory_record (''memory:'' @ mu_memory uuids) (ai_proposal_id x) (ai_source_task_id x)
          (ai_source_run_id x) f (ai_created_by x) (ai_accepted_by x) now (ai_evidence_ids x)
          confidence (ai_conflict_ids x) (Some (mr_memory_id previous))) s) (\<lambda>(r, s1).
      res_bind (canonical_memory_fact_identity nfkc sha (mr_scope previous)
        (mr_scope_owner_ref previous) (mr_category previous) (mr_content previous))
        (\<lambda>(_, previous_key).
      res_bind (update_record (superseded_record sha now (mr_memory_id r) previous_key previous) now s1)
        (\<lambda>s2.
      res_bind (materialize_record sha now (Some (mr_memory_id previous)) r s2) (\<lambda>((r1, v), s3).
      res_bind (enqueue_memory_tombstone sha uuids now (mr_memory_id previous)
        ''reviewed_memory_correction_superseded'' s3) (\<lambda>(gone, s4).
      res_bind (enqueue_materialized sha uuids now r1 s4) (\<lambda>(receipt, s5).
      Inr (created_report r1 v [gone] receipt key now, s5)))))))))"

text \<open>The fact has a memory already: the proposal is linked to it.\<close>

definition accept_alias ::
  "(string \<Rightarrow> string) \<Rightarrow> memory_uuids \<Rightarrow> int \<Rightarrow> string \<Rightarrow> CanonicalMemoryFactDescriptor \<Rightarrow> string \<Rightarrow>
   string \<Rightarrow> MemoryLifecycleRecord \<Rightarrow> memory_store \<Rightarrow>
   memory_error + MemoryLifecycleAcceptanceReport \<times> memory_store"
where
  "accept_alias sha uuids now pid f key digest r s =
     (if \<not> is_runtime_active (mr_status r)
      then Inl (MemoryBail ''existing Memory fact owner is not materialized'')
      else
        res_bind (link_proposal_to_memory pid (mr_memory_id r) key digest (fd_risk_level f)
          (fd_sensitivity f) now s) (\<lambda>s1.
        res_bind (merge_effective_governance sha uuids now r key (fd_risk_level f)
          (fd_sensitivity f) s1) (\<lambda>((r1, upgraded), s2).
        existing_acceptance_report sha uuids now r1 key
          (if upgraded then GovernanceUpgraded else AliasLinked) now s2)))"

definition accept_new ::
  "(string \<Rightarrow> string) \<Rightarrow> memory_uuids \<Rightarrow> int \<Rightarrow> CanonicalMemoryFactDescriptor \<Rightarrow> string \<Rightarrow> string \<Rightarrow>
   MemoryLifecycleRecord \<Rightarrow> memory_store \<Rightarrow>
   memory_error + (MemoryLifecycleRecord \<times> MemoryMaterializedView \<times> CanonicalMutationReceipt) \<times> memory_store"
where
  "accept_new sha uuids now f key digest r s =
     res_bind (admit_record sha now f key digest r s) (\<lambda>(r1, s1).
     res_bind (materialize_record sha now None r1 s1) (\<lambda>((r2, v), s2).
     res_bind (enqueue_materialized sha uuids now r2 s2) (\<lambda>(receipt, s3).
     Inr ((r2, v, receipt), s3))))"

text \<open>\<open>is_finite\<close> and \<open>(0.0..=1.0).contains\<close> on the bits; \<open>0x80000000\<close> is \<open>-0.0\<close>.\<close>

definition f32_is_finite :: "32 word \<Rightarrow> bool" where
  "f32_is_finite b \<longleftrightarrow> unat b div 2 ^ 23 mod 256 \<noteq> 255"

definition f32_in_unit :: "32 word \<Rightarrow> bool" where
  "f32_in_unit b \<longleftrightarrow> b \<le> 0x3F800000 \<or> b = 0x80000000"

definition accept_memory_proposal ::
  "(string \<Rightarrow> string) \<Rightarrow> (string \<Rightarrow> string) \<Rightarrow> (string \<Rightarrow> 32 word option) \<Rightarrow> memory_uuids \<Rightarrow> int \<Rightarrow>
   MemoryLifecycleAcceptanceInput \<Rightarrow> memory_store \<Rightarrow>
   memory_error + MemoryLifecycleAcceptanceReport \<times> memory_store"
where
  "accept_memory_proposal nfkc sha parse_f32 uuids now x s =
     (if trim (ai_proposal_id x) = [] then Inl (MemoryBail ''memory proposal id is empty'')
      else let f = ai_fact x in
        res_bind (canonical_memory_fact_identity nfkc sha (fd_scope f) (fd_scope_owner_ref f)
          (fd_category f) (fd_canonical_body f)) (\<lambda>(_, key).
        let digest = memory_fact_admission_digest sha key f in
        res_bind (ok_or (MemoryBail ''memory proposal confidence is not numeric'')
          (parse_f32 (ai_confidence x))) (\<lambda>confidence.
        if \<not> f32_is_finite confidence \<or> \<not> f32_in_unit confidence
        then Inl (MemoryBail ''memory proposal confidence must be finite and within 0..=1'')
        else case proposal_link (ai_proposal_id x) s of
          Some l \<Rightarrow> accept_replay sha uuids now f key digest l s
        | None \<Rightarrow>
            (case ai_supersedes_memory_id x of
               Some target \<Rightarrow> accept_correction nfkc sha uuids now x key digest confidence target s
             | None \<Rightarrow>
                 (case active_record_by_fact_key key s of
                    Some r \<Rightarrow> accept_alias sha uuids now (ai_proposal_id x) f key digest r s
                  | None \<Rightarrow>
                      res_bind (accept_new sha uuids now f key digest
                        (new_memory_record (''memory:'' @ mu_memory uuids) (ai_proposal_id x)
                          (ai_source_task_id x) (ai_source_run_id x) f (ai_created_by x)
                          (ai_accepted_by x) now (ai_evidence_ids x) confidence (ai_conflict_ids x)
                          None) s) (\<lambda>((r, v, receipt), s1).
                      Inr (created_report r v [] receipt key now, s1)))))))"

section \<open>Explicit user memories\<close>

record ExplicitMemoryWriteReceipt =
  xr_receipt_id :: string
  xr_memory_id :: string
  xr_fact_key :: string
  xr_source_message_id :: string
  xr_content_digest :: string
  xr_sensitivity :: MemoryLifecycleSensitivity
  xr_audit_digest :: string
  xr_admission_outcome :: MemoryAdmissionOutcome
  xr_admission_at :: int
  xr_owner_accepted_at :: "int option"
  xr_created_at :: int
  xr_newly_committed :: bool
  xr_undo_available :: bool
  xr_canonical_committed :: bool
  xr_outbox_event_id :: "string option"
  xr_projection_state :: ProjectionDeliveryState
  xr_projection_error_digest :: "string option"

definition explicit_receipt ::
  "MemoryLifecycleRecord \<Rightarrow> string \<Rightarrow> ExplicitMemoryWriteInput \<Rightarrow> string \<Rightarrow> MemoryAdmissionOutcome \<Rightarrow> int \<Rightarrow>
   bool \<Rightarrow> bool \<Rightarrow> string option \<Rightarrow> ProjectionDeliveryState \<Rightarrow> ExplicitMemoryWriteReceipt"
where
  "explicit_receipt r key x content_digest outcome at newly live event_id st =
     \<lparr>xr_receipt_id = mr_memory_id r, xr_memory_id = mr_memory_id r, xr_fact_key = key,
      xr_source_message_id = xi_source_message_id x, xr_content_digest = content_digest,
      xr_sensitivity = mr_sensitivity r, xr_audit_digest = mr_audit_digest r,
      xr_admission_outcome = outcome, xr_admission_at = at, xr_owner_accepted_at = mr_accepted_at r,
      xr_created_at = at, xr_newly_committed = newly, xr_undo_available = live,
      xr_canonical_committed = live, xr_outbox_event_id = event_id, xr_projection_state = st,
      xr_projection_error_digest = None\<rparr>"

definition check_explicit_lane ::
  "(json \<Rightarrow> string) \<Rightarrow> (string \<Rightarrow> string) \<Rightarrow> ExplicitMemoryAdmissionProof \<Rightarrow> ExplicitMemoryWriteInput \<Rightarrow>
   memory_error + unit"
where
  "check_explicit_lane ser sha p x = first_failure
     [consume_for_explicit_input ser sha p x,
      bail_if (fd_risk_level (xi_fact x) \<notin> {MemLow, MemMedium})
        (MemoryBail ''explicit Memory lane rejects high-risk or identity/value content''),
      bail_if (fd_sensitivity (xi_fact x) = MemSensitive)
        (MemoryBail ''explicit Memory lane rejects sensitive content''),
      bail_if (fd_category (xi_fact x) = CategoryBoundary)
        (MemoryBail ''explicit Memory lane rejects identity or boundary content''),
      bail_if (trim (xi_source_message_id x) = [])
        (MemoryBail ''explicit Memory source message id is empty'')]"

text \<open>What a replayed and an aliased write share.\<close>

definition explicit_existing ::
  "(string \<Rightarrow> string) \<Rightarrow> memory_uuids \<Rightarrow> int \<Rightarrow> ExplicitMemoryWriteInput \<Rightarrow> string \<Rightarrow> string \<Rightarrow>
   MemoryAdmissionOutcome \<Rightarrow> int \<Rightarrow> MemoryLifecycleRecord \<Rightarrow> memory_store \<Rightarrow>
   memory_error + ExplicitMemoryWriteReceipt \<times> memory_store"
where
  "explicit_existing sha uuids now x key content_digest unchanged at r s =
     res_bind (merge_effective_governance sha uuids now r key (fd_risk_level (xi_fact x))
       (fd_sensitivity (xi_fact x)) s) (\<lambda>((r1, upgraded), s1).
     res_bind (ensure_materialized_mutation sha uuids now r1 s1) (\<lambda>(receipt, s2).
     res_bind (projection_state_of (ev_event_id receipt) s2) (\<lambda>st.
     Inr (explicit_receipt r1 key x content_digest
       (if upgraded then GovernanceUpgraded else unchanged) at upgraded True
       (Some (ev_event_id receipt)) st, s2))))"

definition explicit_replay ::
  "(string \<Rightarrow> string) \<Rightarrow> memory_uuids \<Rightarrow> int \<Rightarrow> ExplicitMemoryWriteInput \<Rightarrow> string \<Rightarrow> string \<Rightarrow> string \<Rightarrow>
   MemoryAdmissionLink \<Rightarrow> memory_store \<Rightarrow> memory_error + ExplicitMemoryWriteReceipt \<times> memory_store"
where
  "explicit_replay sha uuids now x key digest content_digest l s =
     res_bind (ensure_admission_link_matches l key digest (xi_fact x)) (\<lambda>_.
     res_bind (ok_or (MemoryBail ''explicit Memory admission link lost its admitted owner'')
       (find_memory (lk_admitted_memory_id l) s)) (\<lambda>admitted.
     if is_terminal_historical (mr_status admitted)
     then Inr (explicit_receipt admitted key x content_digest TerminalHistorical (lk_linked_at l)
            False False None (terminal_projection_state (mr_status admitted)), s)
     else
       res_bind (ok_or (MemoryBail ''explicit Memory admission link lost its canonical owner'')
         (find_memory (lk_memory_id l) s)) (\<lambda>r.
       if \<not> is_runtime_active (mr_status r)
       then Inl (MemoryBail ''explicit Memory canonical owner is not materialized'')
       else explicit_existing sha uuids now x key content_digest ExactReplay (lk_linked_at l) r s)))"

definition commit_explicit_user_memory ::
  "(string \<Rightarrow> string) \<Rightarrow> (json \<Rightarrow> string) \<Rightarrow> (string \<Rightarrow> string) \<Rightarrow> memory_uuids \<Rightarrow> int \<Rightarrow>
   ExplicitMemoryAdmissionProof \<Rightarrow> ExplicitMemoryWriteInput \<Rightarrow> memory_store \<Rightarrow>
   memory_error + ExplicitMemoryWriteReceipt \<times> memory_store"
where
  "commit_explicit_user_memory nfkc ser sha uuids now p x s =
     (let f = xi_fact x in
      res_bind (check_explicit_lane ser sha p x) (\<lambda>_.
      res_bind (canonical_memory_fact_identity nfkc sha (fd_scope f) (fd_scope_owner_ref f)
        (fd_category f) (fd_canonical_body f)) (\<lambda>(_, key).
      let content_digest = digest_label sha (fd_canonical_body f);
          digest = memory_fact_admission_digest sha key f;
          pid = ''explicit_memory:'' @ digest_length_delimited_values sha
            ''openlife_explicit_memory_admission_id_v1'' [xi_source_message_id x, key]
      in case proposal_link pid s of
           Some l \<Rightarrow> explicit_replay sha uuids now x key digest content_digest l s
         | None \<Rightarrow>
             (case active_record_by_fact_key key s of
                Some r \<Rightarrow>
                  if \<not> is_runtime_active (mr_status r)
                  then Inl (MemoryBail ''existing explicit Memory owner is not materialized'')
                  else
                    res_bind (link_proposal_to_memory pid (mr_memory_id r) key digest
                      (fd_risk_level f) (fd_sensitivity f) now s) (\<lambda>s1.
                    explicit_existing sha uuids now x key content_digest AliasLinked now r s1)
              | None \<Rightarrow>
                  res_bind (accept_new sha uuids now f key digest
                    (new_memory_record (''memory:'' @ mu_memory uuids) pid (xi_source_task_id x)
                      (xi_source_run_id x) f ''current_authenticated_user_message''
                      ''user_explicit_instruction'' now [xi_source_message_id x] 0x3F800000 [] None) s)
                    (\<lambda>((r, v, receipt), s1).
                  Inr (explicit_receipt r key x content_digest OwnerCreated now True True
                    (Some (ev_event_id receipt)) DeliveryPending, s1))))))"

section \<open>Rollback and erasure\<close>

record MemoryRollbackReport =
  rr_record :: MemoryLifecycleRecord
  rr_rollback_event :: MemoryRollbackEvent
  rr_materialized_view :: MemoryMaterializedView
  rr_canonical_mutation :: CanonicalMutationReceipt
  rr_canonical_committed :: bool
  rr_projection_state :: ProjectionDeliveryState
  rr_projection_error_digest :: "string option"

definition check_rollback :: "MemoryLifecycleRecord \<Rightarrow> memory_error + unit" where
  "check_rollback r = first_failure
     [bail_if (mr_status r \<in> {MemRolledBack, MemSuperseded})
        (MemoryBail (''memory asset is already terminal: '' @ memory_status_as_str (mr_status r))),
      bail_if (mr_status r \<notin>
          {MemAccepted, MemPendingMaterialization, MemMaterialized, MemMaterializationFailed})
        (MemoryBail (''memory asset is not an accepted memory lifecycle record: '' @
          memory_status_as_str (mr_status r))),
      bail_if (mr_risk_level r \<in> {MemHigh, MemIdentityValue})
        (MemoryBail ''memory rollback requires explicit confirmation for high-risk or identity/value memory'')]"

definition insert_rollback_event :: "MemoryRollbackEvent \<Rightarrow> memory_store \<Rightarrow> memory_error + memory_store" where
  "insert_rollback_event e s =
     (if exists_where (\<lambda>x. re_rollback_event_id x = re_rollback_event_id e) (ms_rollbacks s)
      then Inl MemoryConstraint else Inr (s\<lparr>ms_rollbacks := ms_rollbacks s @ [e]\<rparr>))"

definition rollback_event ::
  "(string \<Rightarrow> string) \<Rightarrow> memory_uuids \<Rightarrow> int \<Rightarrow> string \<Rightarrow> string \<Rightarrow> MemoryLifecycleStatus \<Rightarrow>
   MemoryLifecycleRecord \<Rightarrow> MemoryMaterializedView \<Rightarrow> MemoryRollbackEvent"
where
  "rollback_event sha uuids now requested_by reason previous r v =
     (let eid = ''memory_rollback:'' @ mu_rollback uuids in
      \<lparr>re_rollback_event_id = eid, re_memory_id = mr_memory_id r, re_proposal_id = mr_proposal_id r,
       re_requested_by = requested_by, re_reason = reason, re_previous_status = previous,
       re_next_status = MemRolledBack,
       re_affected_materialized_view_ids = [mv_materialized_view_id v],
       re_affected_runtime_surface_ids = mv_runtime_surface_ids v, re_created_at = now,
       re_audit_digest = digest_label sha (join_with '':'' [eid, mr_memory_id r, mr_proposal_id r,
         memory_status_as_str previous, dec (mv_version v)])\<rparr>)"

definition rollback_memory_asset ::
  "(string \<Rightarrow> string) \<Rightarrow> memory_uuids \<Rightarrow> int \<Rightarrow> string \<Rightarrow> string \<Rightarrow> string \<Rightarrow> memory_store \<Rightarrow>
   memory_error + MemoryRollbackReport \<times> memory_store"
where
  "rollback_memory_asset sha uuids now mid requested_by reason s =
     res_bind (ok_or (MemoryBail (''accepted memory id not found: '' @ mid)) (find_memory mid s)) (\<lambda>r.
     res_bind (check_rollback r) (\<lambda>_.
     let r1 = r\<lparr>mr_status := MemRolledBack, mr_materialization_status := MatNotRequired,
                mr_runtime_context_excluded_at := Some now\<rparr>
     in res_bind (update_record r1 now s) (\<lambda>s1.
        case rebuild_view sha now (Some (mr_scope r1)) None (Some (mr_memory_id r1)) s1 of (v, s2) \<Rightarrow>
        let e = rollback_event sha uuids now requested_by reason (mr_status r) r1 v;
            r2 = r1\<lparr>mr_rolled_back_by_event_id := Some (re_rollback_event_id e),
                    mr_materialized_view_id := Some (mv_materialized_view_id v),
                    mr_materialized_view_version := Some (mv_version v)\<rparr>
        in res_bind (insert_rollback_event e s2) (\<lambda>s3.
           res_bind (update_record r2 now s3) (\<lambda>s4.
           res_bind (enqueue_memory_tombstone sha uuids now (mr_memory_id r2) reason s4)
             (\<lambda>(receipt, s5).
           Inr (\<lparr>rr_record = r2, rr_rollback_event = e, rr_materialized_view = v,
                 rr_canonical_mutation = receipt, rr_canonical_committed = True,
                 rr_projection_state = DeliveryPending, rr_projection_error_digest = None\<rparr>, s5)))))))"

record MemoryPrivacyEraseReport =
  pe_memory_id :: string
  pe_erased_at :: int
  pe_materialized_view :: MemoryMaterializedView
  pe_canonical_mutation :: CanonicalMutationReceipt
  pe_canonical_committed :: bool
  pe_projection_state :: ProjectionDeliveryState
  pe_projection_error_digest :: "string option"

definition erased_record :: "(string \<Rightarrow> string) \<Rightarrow> int \<Rightarrow> MemoryLifecycleRecord \<Rightarrow> MemoryLifecycleRecord" where
  "erased_record sha now r =
     (let r1 = r\<lparr>mr_content := [], mr_status := MemRolledBack,
                 mr_materialization_status := MatNotRequired, mr_materialization_error_code := None,
                 mr_source_task_id := None, mr_source_run_id := None,
                 mr_created_by := ''privacy_erasure_tombstone'', mr_accepted_by := None,
                 mr_accepted_at := None, mr_materialized_view_id := None,
                 mr_materialized_view_version := None, mr_evidence_ids := [], mr_conflict_ids := [],
                 mr_supersedes_memory_id := None, mr_replacement_memory_id := None,
                 mr_rolled_back_by_event_id := None, mr_runtime_context_excluded_at := Some now\<rparr>
      in r1\<lparr>mr_audit_digest :=
           memory_record_audit_digest sha r1 (''privacy_erased:'' @ mr_memory_id r1)\<rparr>)"

definition delete_content_rows :: "string \<Rightarrow> memory_store \<Rightarrow> memory_store" where
  "delete_content_rows mid s =
     s\<lparr>ms_retrieval := filter (\<lambda>x. rs_memory_id x \<noteq> mid) (ms_retrieval s),
       ms_rollbacks := filter (\<lambda>e. re_memory_id e \<noteq> mid) (ms_rollbacks s),
       ms_links := filter (\<lambda>l. \<not> (lk_memory_id l = mid \<or> lk_admitted_memory_id l = mid)) (ms_links s)\<rparr>"

definition privacy_erase_memory_asset ::
  "(string \<Rightarrow> string) \<Rightarrow> memory_uuids \<Rightarrow> int \<Rightarrow> string \<Rightarrow> memory_store \<Rightarrow>
   memory_error + MemoryPrivacyEraseReport \<times> memory_store"
where
  "privacy_erase_memory_asset sha uuids now mid s =
     res_bind (ok_or (MemoryBail ''Memory privacy erase target not found'') (find_memory mid s)) (\<lambda>r.
     if mr_content r = [] then Inl (MemoryBail ''Memory privacy erase target is already erased'')
     else
       res_bind (update_record (erased_record sha now r) now (delete_content_rows mid s)) (\<lambda>s1.
       case rebuild_view sha now (Some (mr_scope r)) None (Some mid) s1 of (v, s2) \<Rightarrow>
       res_bind (enqueue_memory_tombstone sha uuids now mid ''user_confirmed_privacy_erase'' s2)
         (\<lambda>(receipt, s3).
       Inr (\<lparr>pe_memory_id = mid, pe_erased_at = now, pe_materialized_view = v,
             pe_canonical_mutation = receipt, pe_canonical_committed = True,
             pe_projection_state = DeliveryPending, pe_projection_error_digest = None\<rparr>, s3))))"

end
