(* ===== verification/Memory_Retrieval.thy ===== *)
theory Memory_Retrieval
  imports Memory_Lifecycle
begin

text \<open>
  The retrieval side of the memory store (\<open>openlife-core/src/agent/memory_lifecycle.rs\<close>): whether a
  memory may be retrieved, the dispositions active, paused and archived with their outbox events, the
  reports of the projection, and the queries. A \<open>LIMIT\<close> and an \<open>OFFSET\<close> are SQLite's: a negative offset
  is none. A stored disposition and a stored revision are always valid, so the conversion errors of
  reading one do not occur.
\<close>

section \<open>Dispositions\<close>

record CanonicalMemoryRetrievalState =
  cs_owner_kind :: string
  cs_owner_id :: string
  cs_disposition :: MemoryRetrievalDisposition
  cs_revision :: nat
  cs_last_event_id :: string
  cs_changed_at :: int

record CanonicalMemoryRetrievalMutation =
  cm_changed :: bool
  cm_state :: "CanonicalMemoryRetrievalState option"
  cm_canonical_mutation :: "CanonicalMutationReceipt option"

definition retrieval_state_from_row :: "retrieval_row \<Rightarrow> CanonicalMemoryRetrievalState" where
  "retrieval_state_from_row x =
     \<lparr>cs_owner_kind = MEMORY_LIFECYCLE_RETRIEVAL_OWNER_KIND, cs_owner_id = rs_memory_id x,
      cs_disposition = rs_disposition x, cs_revision = rs_revision x,
      cs_last_event_id = rs_last_event_id x, cs_changed_at = rs_changed_at x\<rparr>"

definition find_retrieval :: "string \<Rightarrow> memory_store \<Rightarrow> retrieval_row option" where
  "find_retrieval mid s = find (\<lambda>x. rs_memory_id x = mid) (ms_retrieval s)"

definition memory_retrieval_state :: "string \<Rightarrow> memory_store \<Rightarrow> CanonicalMemoryRetrievalState option" where
  "memory_retrieval_state mid s = map_option retrieval_state_from_row (find_retrieval mid s)"

definition lifecycle_retrieval_aggregate_id :: "(string \<Rightarrow> string) \<Rightarrow> string \<Rightarrow> string" where
  "lifecycle_retrieval_aggregate_id sha mid =
     metadata_digest sha (''memory_retrieval_owner:'' @ MEMORY_LIFECYCLE_RETRIEVAL_OWNER_KIND @ '':'' @ mid)"

definition reason_code_char :: "char \<Rightarrow> bool" where
  "reason_code_char c \<longleftrightarrow> is_ascii_lowercase c \<or> is_ascii_digit c \<or> c \<in> set ''_-.''"

definition ensure_lifecycle_retrieval_reason_code :: "string \<Rightarrow> memory_error + unit" where
  "ensure_lifecycle_retrieval_reason_code reason =
     bail_if (reason = [] \<or> 96 < length reason \<or> \<not> list_all reason_code_char reason)
       (MemoryBail ''invalid canonical lifecycle Memory retrieval reason code'')"

definition upsert_retrieval :: "retrieval_row \<Rightarrow> memory_store \<Rightarrow> memory_store" where
  "upsert_retrieval x s =
     (let same = (\<lambda>y. rs_memory_id y = rs_memory_id x) in
      s\<lparr>ms_retrieval := (if exists_where same (ms_retrieval s)
          then update_where same (\<lambda>_. x) (ms_retrieval s) else ms_retrieval s @ [x])\<rparr>)"

text \<open>A changed disposition is an event of the aggregate of the owner, with the next revision.\<close>

definition write_disposition ::
  "(string \<Rightarrow> string) \<Rightarrow> string \<Rightarrow> string \<Rightarrow> int \<Rightarrow> MemoryRetrievalDisposition \<Rightarrow> string \<Rightarrow> string \<Rightarrow>
   memory_store \<Rightarrow> memory_error + CanonicalMemoryRetrievalMutation \<times> memory_store"
where
  "write_disposition sha nonce event_uuid now disposition reason mid s =
     res_bind (on_outbox (enqueue_mutation MEMORY_LIFECYCLE_RETRIEVAL_AGGREGATE_KIND
       (lifecycle_retrieval_aggregate_id sha mid) (disposition_as_str disposition)
       (metadata_digest sha (join_with '':'' [''memory_lifecycle_retrieval'', mid,
          disposition_as_str disposition, nonce]))
       [''vector_store''] event_uuid now) s) (\<lambda>(receipt, s1).
     if I64_LIMIT \<le> ev_aggregate_revision receipt then Inl MemoryConversion
     else
       let x = \<lparr>rs_memory_id = mid, rs_disposition = disposition,
                rs_revision = ev_aggregate_revision receipt, rs_last_event_id = ev_event_id receipt,
                rs_reason_digest = metadata_digest sha reason, rs_changed_at = ev_created_at receipt\<rparr>
       in Inr (\<lparr>cm_changed = True, cm_state = Some (retrieval_state_from_row x),
                cm_canonical_mutation = Some receipt\<rparr>, upsert_retrieval x s1))"

definition set_disposition_in_transaction ::
  "(string \<Rightarrow> string) \<Rightarrow> string \<Rightarrow> string \<Rightarrow> int \<Rightarrow> MemoryRetrievalDisposition \<Rightarrow> string \<Rightarrow> string \<Rightarrow>
   memory_store \<Rightarrow> memory_error + CanonicalMemoryRetrievalMutation \<times> memory_store"
where
  "set_disposition_in_transaction sha nonce event_uuid now disposition reason mid s =
     (case find_retrieval mid s of
        Some x \<Rightarrow>
          if rs_disposition x = disposition
          then
            res_bind (map_err MemoryOutbox (mutation_by_event_id (rs_last_event_id x) (ms_outbox s)))
              (\<lambda>found.
            res_bind (ok_or (MemoryBail
                ''canonical lifecycle Memory retrieval state lost its outbox event'') found) (\<lambda>receipt.
            Inr (\<lparr>cm_changed = False, cm_state = Some (retrieval_state_from_row x),
                  cm_canonical_mutation = Some receipt\<rparr>, s)))
          else write_disposition sha nonce event_uuid now disposition reason mid s
      | None \<Rightarrow>
          if disposition = RetrievalActive
          then Inr (\<lparr>cm_changed = False, cm_state = None, cm_canonical_mutation = None\<rparr>, s)
          else write_disposition sha nonce event_uuid now disposition reason mid s)"

definition is_current :: "string \<Rightarrow> memory_store \<Rightarrow> bool" where
  "is_current mid s \<longleftrightarrow> exists_where (\<lambda>w. mw_id w = mid \<and> in_context (mw_record w)) (ms_records s)"

definition check_disposition_batch :: "string list \<Rightarrow> string \<Rightarrow> memory_store \<Rightarrow> memory_error + unit" where
  "check_disposition_batch mids reason s = first_failure
     [ensure_lifecycle_retrieval_reason_code reason,
      bail_if (mids = [] \<or> 200 < length mids)
        (MemoryBail ''canonical lifecycle Memory retrieval batch must contain 1..=200 owners''),
      bail_if (\<not> distinct mids)
        (MemoryBail ''canonical lifecycle Memory retrieval batch contains duplicate owners''),
      bail_if (list_ex (\<lambda>m. trim m \<noteq> m \<or> m = [] \<or> 256 < length m) mids)
        (MemoryBail ''canonical lifecycle Memory owner id is invalid''),
      bail_if (\<not> list_all (\<lambda>m. is_current m s) mids)
        (MemoryBail ''canonical lifecycle Memory owner proof is missing, stale, or inactive'')]"

text \<open>The fresh UUIDs of a batch are indexed by the memory, which occurs in it once.\<close>

definition set_memory_retrieval_dispositions ::
  "(string \<Rightarrow> string) \<Rightarrow> (string \<Rightarrow> string \<times> string) \<Rightarrow> int \<Rightarrow> string list \<Rightarrow>
   MemoryRetrievalDisposition \<Rightarrow> string \<Rightarrow> memory_store \<Rightarrow>
   memory_error + CanonicalMemoryRetrievalMutation list \<times> memory_store"
where
  "set_memory_retrieval_dispositions sha uuids now mids disposition reason s =
     res_bind (check_disposition_batch mids reason s) (\<lambda>_.
     res_fold (\<lambda>(done, s1) mid.
       res_bind (set_disposition_in_transaction sha (fst (uuids mid)) (snd (uuids mid)) now
         disposition reason mid s1) (\<lambda>(x, s2). Inr (done @ [x], s2))) ([], s) mids)"

definition set_memory_retrieval_disposition ::
  "(string \<Rightarrow> string) \<Rightarrow> (string \<Rightarrow> string \<times> string) \<Rightarrow> int \<Rightarrow> string \<Rightarrow> MemoryRetrievalDisposition \<Rightarrow>
   string \<Rightarrow> memory_store \<Rightarrow> memory_error + CanonicalMemoryRetrievalMutation \<times> memory_store"
where
  "set_memory_retrieval_disposition sha uuids now mid disposition reason s =
     res_bind (set_memory_retrieval_dispositions sha uuids now [mid] disposition reason s) (\<lambda>(xs, s1).
     case xs of
       [] \<Rightarrow> Inl (MemoryBail ''canonical lifecycle Memory retrieval single mutation is missing'')
     | x # _ \<Rightarrow> Inr (x, s1))"

section \<open>Retrieval\<close>

definition not_silenced :: "string \<Rightarrow> memory_store \<Rightarrow> bool" where
  "not_silenced mid s \<longleftrightarrow>
     \<not> exists_where (\<lambda>x. rs_memory_id x = mid \<and> rs_disposition x \<noteq> RetrievalActive) (ms_retrieval s)"

definition retrievable :: "memory_store \<Rightarrow> MemoryLifecycleRecord \<Rightarrow> bool" where
  "retrievable s r \<longleftrightarrow> in_context r \<and> not_silenced (mr_memory_id r) s"

definition is_memory_retrievable :: "string \<Rightarrow> memory_store \<Rightarrow> bool" where
  "is_memory_retrievable mid s \<longleftrightarrow>
     exists_where (\<lambda>w. mw_id w = mid \<and> retrievable s (mw_record w)) (ms_records s)"

definition is_memory_active :: "string \<Rightarrow> memory_store \<Rightarrow> bool" where
  "is_memory_active mid s \<longleftrightarrow> (case find_memory mid s of None \<Rightarrow> False | Some r \<Rightarrow> in_context r)"

text \<open>\<open>ORDER BY accepted_at DESC, memory_id DESC LIMIT ... OFFSET ...\<close>\<close>

definition clamp_limit :: "int \<Rightarrow> nat" where
  "clamp_limit limit = nat (min 200 (max 1 limit))"

definition newest_memories :: "MemoryLifecycleRecord list \<Rightarrow> MemoryLifecycleRecord list" where
  "newest_memories rs = rev (sort_key accepted_key rs)"

definition memory_records :: "memory_store \<Rightarrow> MemoryLifecycleRecord list" where
  "memory_records s = map mw_record (ms_records s)"

definition list_memory_records ::
  "MemoryLifecycleScope option \<Rightarrow> MemoryLifecycleStatus option \<Rightarrow> int \<Rightarrow> int \<Rightarrow> memory_store \<Rightarrow>
   MemoryLifecycleRecord list"
where
  "list_memory_records scope status limit offset s =
     take (clamp_limit limit) (drop (nat offset) (newest_memories
       (filter (\<lambda>r. in_scope scope r \<and> (case status of None \<Rightarrow> True | Some st \<Rightarrow> mr_status r = st))
         (memory_records s))))"

definition list_retrievable_records ::
  "MemoryLifecycleScope option \<Rightarrow> int \<Rightarrow> memory_store \<Rightarrow> MemoryLifecycleRecord list"
where
  "list_retrievable_records scope limit s =
     take (clamp_limit limit)
       (newest_memories (filter (\<lambda>r. in_scope scope r \<and> retrievable s r) (memory_records s)))"

definition list_active_records ::
  "MemoryLifecycleScope option \<Rightarrow> int \<Rightarrow> memory_store \<Rightarrow> MemoryLifecycleRecord list"
where
  "list_active_records = list_retrievable_records"

definition get_record_by_proposal_id :: "string \<Rightarrow> memory_store \<Rightarrow> MemoryLifecycleRecord option" where
  "get_record_by_proposal_id pid s =
     Option.bind (proposal_link pid s) (\<lambda>l. find_memory (lk_admitted_memory_id l) s)"

definition get_active_record_for_fact ::
  "(string \<Rightarrow> string) \<Rightarrow> (string \<Rightarrow> string) \<Rightarrow> CanonicalMemoryFactDescriptor \<Rightarrow> memory_store \<Rightarrow>
   memory_error + MemoryLifecycleRecord option"
where
  "get_active_record_for_fact nfkc sha f s =
     res_bind (fact_key nfkc sha f) (\<lambda>key. Inr (active_record_by_fact_key key s))"

definition archived_rows :: "memory_store \<Rightarrow> retrieval_row list" where
  "archived_rows s =
     filter (\<lambda>x. rs_disposition x = RetrievalArchived \<and> is_current (rs_memory_id x) s) (ms_retrieval s)"

text \<open>\<open>ORDER BY changed_at DESC, memory_id\<close>\<close>

definition list_archived_page ::
  "nat \<Rightarrow> nat \<Rightarrow> memory_store \<Rightarrow> memory_error + CanonicalMemoryRetrievalState list"
where
  "list_archived_page limit offset s =
     (if I64_LIMIT \<le> limit \<or> I64_LIMIT \<le> offset then Inl MemoryConversion
      else Inr (map retrieval_state_from_row (take limit (drop offset
        (sort_key (\<lambda>x. (- rs_changed_at x, rs_memory_id x)) (archived_rows s))))))"

definition list_archived_memory_retrieval_states ::
  "nat \<Rightarrow> memory_store \<Rightarrow> memory_error + CanonicalMemoryRetrievalState list"
where
  "list_archived_memory_retrieval_states limit = list_archived_page limit 0"

definition count_archived_memory_retrieval_states :: "memory_store \<Rightarrow> nat" where
  "count_archived_memory_retrieval_states s = length (archived_rows s)"

section \<open>Projection of a disposition\<close>

definition load_memory_retrieval_state_for_projection ::
  "(string \<Rightarrow> string) \<Rightarrow> string \<Rightarrow> memory_store \<Rightarrow> memory_error + CanonicalMemoryRetrievalState"
where
  "load_memory_retrieval_state_for_projection sha event_id s =
     res_bind (ok_or
       (MemoryBail ''canonical lifecycle Memory retrieval projection is stale or missing'')
       (Option.bind (find (\<lambda>x. rs_last_event_id x = event_id) (ms_retrieval s)) (\<lambda>x.
        Option.bind (find_event (ms_outbox s) event_id) (\<lambda>ev.
        if ev_aggregate_kind ev = MEMORY_LIFECYCLE_RETRIEVAL_AGGREGATE_KIND
        then Some (retrieval_state_from_row x, ev) else None)))) (\<lambda>(state, ev).
     if ev_aggregate_id ev \<noteq> lifecycle_retrieval_aggregate_id sha (cs_owner_id state) \<or>
        ev_mutation_kind ev \<noteq> disposition_as_str (cs_disposition state) \<or>
        ev_aggregate_revision ev \<noteq> cs_revision state
     then Inl (MemoryBail ''canonical lifecycle Memory retrieval projection identity is inconsistent'')
     else Inr state)"

text \<open>The two reads of the head see one database, so the state cannot change between them.\<close>

definition load_memory_retrieval_head_for_event ::
  "string \<Rightarrow> memory_store \<Rightarrow> memory_error + CanonicalMemoryRetrievalState"
where
  "load_memory_retrieval_head_for_event event_id s =
     res_bind (ok_or (MemoryBail ''canonical lifecycle Memory retrieval event has no current head'')
       (Option.bind (find_event (ms_outbox s) event_id) (\<lambda>stale.
        if ev_aggregate_kind stale \<noteq> MEMORY_LIFECYCLE_RETRIEVAL_AGGREGATE_KIND then None
        else map_option retrieval_state_from_row (find (\<lambda>x.
          exists_where (\<lambda>ev. ev_event_id ev = rs_last_event_id x \<and>
            in_aggregate (ev_aggregate_kind stale) (ev_aggregate_id stale) ev)
            (ob_events (ms_outbox s))) (ms_retrieval s))))) (\<lambda>state.
     res_bind (ok_or (MemoryBail ''canonical lifecycle Memory retrieval head is missing'')
       (memory_retrieval_state (cs_owner_id state) s)) (\<lambda>head.
     if head \<noteq> state
     then Inl (MemoryBail ''canonical lifecycle Memory retrieval head changed while loading'')
     else Inr state))"

section \<open>Deliveries and events\<close>

definition list_replayable_projection_deliveries ::
  "nat \<Rightarrow> memory_store \<Rightarrow> memory_error + ProjectionDelivery list"
where
  "list_replayable_projection_deliveries limit s =
     map_err MemoryOutbox (list_replayable_deliveries limit (ms_outbox s))"

definition list_replayable_projection_deliveries_for_event ::
  "string \<Rightarrow> memory_store \<Rightarrow> memory_error + ProjectionDelivery list"
where
  "list_replayable_projection_deliveries_for_event event_id s =
     map_err MemoryOutbox (list_replayable_deliveries_for_event event_id (ms_outbox s))"

definition mark_memory_projection_applied ::
  "string \<Rightarrow> string \<Rightarrow> int \<Rightarrow> memory_store \<Rightarrow> memory_error + unit \<times> memory_store"
where
  "mark_memory_projection_applied event_id target now = on_outbox (mark_delivery_applied event_id target now)"

definition mark_memory_projection_degraded ::
  "(string \<Rightarrow> string) \<Rightarrow> string \<Rightarrow> string \<Rightarrow> string \<Rightarrow> int \<Rightarrow> memory_store \<Rightarrow>
   memory_error + unit \<times> memory_store"
where
  "mark_memory_projection_degraded sha event_id target err now =
     on_outbox (mark_delivery_degraded sha event_id target err now)"

definition mark_retrieval_applied_if_head ::
  "string \<Rightarrow> nat \<Rightarrow> string \<Rightarrow> int \<Rightarrow> memory_store \<Rightarrow> memory_error + unit \<times> memory_store"
where
  "mark_retrieval_applied_if_head event_id revision target now =
     on_outbox (mark_delivery_applied_if_canonical_head event_id revision target now)"

definition mark_retrieval_compensated_to_head ::
  "string \<Rightarrow> string \<Rightarrow> nat \<Rightarrow> string \<Rightarrow> int \<Rightarrow> memory_store \<Rightarrow> memory_error + unit \<times> memory_store"
where
  "mark_retrieval_compensated_to_head stale head revision target now =
     on_outbox (mark_delivery_compensated_to_head stale head revision target now)"

definition memory_projection_summary :: "string \<Rightarrow> memory_store \<Rightarrow> memory_error + ProjectionSummary" where
  "memory_projection_summary event_id s =
     map_err MemoryOutbox (projection_summary event_id (ms_outbox s))"

text \<open>\<open>ORDER BY created_at DESC, event_id DESC LIMIT 1\<close>\<close>

definition latest_projection_event_id :: "string \<Rightarrow> memory_store \<Rightarrow> string option" where
  "latest_projection_event_id mid s =
     (case rev (sort_key (\<lambda>ev. (ev_created_at ev, ev_event_id ev))
             (filter (in_aggregate MEMORY_LIFECYCLE_AGGREGATE_KIND mid) (ob_events (ms_outbox s)))) of
        [] \<Rightarrow> None
      | ev # _ \<Rightarrow> Some (ev_event_id ev))"

record MemoryLifecycleEvent =
  le_event_id :: string
  le_memory_id :: string
  le_event_type :: string
  le_status :: MemoryLifecycleStatus
  le_materialization_status :: MemoryMaterializationStatus
  le_created_at :: int
  le_rollback_event :: "MemoryRollbackEvent option"

definition rolled_back_event :: "MemoryRollbackEvent \<Rightarrow> MemoryLifecycleEvent" where
  "rolled_back_event e =
     \<lparr>le_event_id = re_rollback_event_id e, le_memory_id = re_memory_id e,
      le_event_type = ''memory.rolled_back'', le_status = re_next_status e,
      le_materialization_status = MatNotRequired, le_created_at = re_created_at e,
      le_rollback_event = Some e\<rparr>"

definition lifecycle_events :: "int \<Rightarrow> string \<Rightarrow> memory_store \<Rightarrow> MemoryLifecycleEvent list" where
  "lifecycle_events now mid s =
     (case find_memory mid s of
        None \<Rightarrow> []
      | Some r \<Rightarrow>
          \<lparr>le_event_id = ''memory_lifecycle:'' @ mr_memory_id r @ '':'' @ memory_status_as_str (mr_status r),
           le_memory_id = mr_memory_id r, le_event_type = ''memory.lifecycle_status'',
           le_status = mr_status r, le_materialization_status = mr_materialization_status r,
           le_created_at = (case mr_accepted_at r of Some t \<Rightarrow> t | None \<Rightarrow> now),
           le_rollback_event = None\<rparr> #
          map rolled_back_event (sort_key re_created_at
            (filter (\<lambda>e. re_memory_id e = mid) (ms_rollbacks s))))"

definition rebuild_materialized_view ::
  "(string \<Rightarrow> string) \<Rightarrow> int \<Rightarrow> MemoryLifecycleScope option \<Rightarrow> memory_store \<Rightarrow>
   MemoryMaterializedView \<times> memory_store"
where
  "rebuild_materialized_view sha now scope s = rebuild_view sha now scope None None s"

end
