(* ===== verification/Memory_Safety.thy ===== *)
theory Memory_Safety
  imports Memory_Retrieval Outbox_Safety
begin

text \<open>
  The memory store as a guarded machine over the outbox: \<open>memory_step\<close> has a call per operation that
  writes, \<open>memory_ok\<close> is the invariant of every reachable store. The store is a fenced writer of its
  outbox without reading the fence: a memory has an active tombstone exactly when it has left the
  context, and only memories in the context get further events.
\<close>

section \<open>What the outbox promises a fenced writer\<close>

definition fenced :: "outbox \<Rightarrow> (string \<times> string) set" where
  "fenced ob = {(kind, aid). exists_where (active_tombstone kind aid) (ob_tombstones ob)}"

text \<open>Events are only added.\<close>

definition more_events :: "outbox \<Rightarrow> outbox \<Rightarrow> bool" where
  "more_events o1 o2 \<longleftrightarrow> (\<forall>x ev. find_event o1 x = Some ev \<longrightarrow> find_event o2 x = Some ev)"

lemma more_events_refl [simp]: "more_events ob ob"
  by (simp add: more_events_def)

lemma more_events_trans: "more_events o1 o2 \<Longrightarrow> more_events o2 o3 \<Longrightarrow> more_events o1 o3"
  by (simp add: more_events_def)

lemma more_events_add: "ob_events o2 = ob_events (add_event r o1) \<Longrightarrow> more_events o1 o2"
  using same_tables(2) [of o2 "add_event r o1"] by (simp add: more_events_def find_event_add)

lemma write_ok:
  assumes cur: "current o1" and free: "(kind, aid) \<notin> fenced o1"
    and call: "enqueue_mutation kind aid mutation payload targets uuid now o1 = Inr (r, o2)"
  shows "current o2 \<and> fenced o2 = fenced o1 \<and> more_events o1 o2 \<and> find_event o2 (ev_event_id r) = Some r \<and>
    in_aggregate kind aid r \<and> ev_mutation_kind r = mutation"
proof -
  have inv: "outbox_inv o1" using cur by (simp add: current_def)
  from enqueue_event_ok [OF inv call [unfolded enqueue_mutation_def]]
  have r: "next_event o1 r" "in_aggregate kind aid r" "ob_tombstones o2 = ob_tombstones o1"
    "ob_events o2 = ob_events (add_event r o1)" by blast+
  have "current o2"
    using free by (intro enqueue_mutation_current [OF cur _ call]) (simp add: fenced_def)
  moreover have "find_event o2 (ev_event_id r) = Some r"
    using r(1) same_tables(2) [OF r(4)] by (simp add: next_event_def find_event_add)
  moreover have "ev_mutation_kind r = mutation"
    using call by (auto simp: enqueue_mutation_def enqueue_event_def insert_event_def Let_def split: if_splits)
  ultimately show ?thesis using r more_events_add [OF r(4)] by (simp add: fenced_def)
qed

lemma delete_ok:
  assumes cur: "current o1"
    and call: "enqueue_tombstone sha kind aid reason targets uuid event_uuid now o1 = Inr (r, o2)"
  shows "current o2 \<and> fenced o2 = insert (kind, aid) (fenced o1) \<and> more_events o1 o2"
proof -
  have inv: "outbox_inv o1" using cur by (simp add: current_def)
  have "fenced o2 = insert (kind, aid) (fenced o1) \<and> more_events o1 o2"
  proof (cases "active_tombstone_event o1 kind aid")
    case (Some existing)
    with call have o2: "o2 = ensure_delivery_targets (ev_event_id existing) targets now o1"
      by (auto simp: enqueue_tombstone_def)
    from Some obtain tb where "tb \<in> set (ob_tombstones o1)" "active_tombstone kind aid tb"
      by (rule active_tombstone_event_Some)
    then show ?thesis
      using same_tables(2) [OF ensure_frame(1)] by (auto simp: o2 fenced_def ensure_frame more_events_def)
  next
    case None
    let ?tid = "''tombstone:'' @ uuid"
    define tb where "tb = new_tombstone sha ?tid kind aid reason now"
    define o1' where "o1' = o1\<lparr>ob_tombstones := ob_tombstones o1 @ [tb]\<rparr>"
    from call None obtain payload where ins:
      "insert_event (''outbox:'' @ event_uuid) kind aid ''deleted'' payload (Some ?tid) now targets o1' =
        Inr (r, o2)"
      by (auto simp: enqueue_tombstone_def Let_def insert_tombstone_def tb_def o1'_def)
    have same: "ob_events o1' = ob_events o1" "ob_deliveries o1' = ob_deliveries o1" by (simp_all add: o1'_def)
    have ok': "events_ok o1'" "deliveries_ok o1'"
      using inv same_tables(1,5) [OF same(1)] by (simp_all add: outbox_inv_def deliveries_ok_def same(2))
    from insert_event_ok [OF ok' ins] have t: "ob_tombstones o2 = ob_tombstones o1 @ [tb]"
      "ob_events o2 = ob_events (add_event r o1')" by (auto simp: o1'_def)
    have "active_tombstone k a tb \<longleftrightarrow> k = kind \<and> a = aid" for k a
      by (auto simp: tb_def new_tombstone_def active_tombstone_def)
    moreover have "ob_events o2 = ob_events (add_event r o1)" by (simp add: t(2) add_event_def same)
    ultimately show ?thesis using more_events_add by (auto simp: fenced_def t(1))
  qed
  with cur enqueue_tombstone_ok [OF inv call] show ?thesis by blast
qed

definition marked :: "outbox \<Rightarrow> outbox \<Rightarrow> bool" where
  "marked o1 o2 \<longleftrightarrow>
     (current o1 \<longrightarrow> current o2) \<and> ob_tombstones o2 = ob_tombstones o1 \<and> ob_events o2 = ob_events o1"

lemma mark_ok: "marked o1 o2 \<Longrightarrow> current o1 \<Longrightarrow> current o2 \<and> fenced o2 = fenced o1 \<and> more_events o1 o2"
  using same_tables(2) [of o2 o1] by (auto simp: marked_def fenced_def more_events_def)

lemma apply_open_tables:
  "ob_tombstones (snd (apply_open e t now ob)) = ob_tombstones ob"
  "ob_events (snd (apply_open e t now ob)) = ob_events ob"
  by (simp_all add: apply_open_def)

lemma marks_marked:
  "mark_delivery_applied e t now o1 = Inr ((), o2) \<Longrightarrow> marked o1 o2"
  "mark_delivery_degraded sha e t err now o1 = Inr ((), o2) \<Longrightarrow> marked o1 o2"
  "mark_delivery_applied_if_canonical_head e n t now o1 = Inr ((), o2) \<Longrightarrow> marked o1 o2"
  "mark_delivery_compensated_to_head stale head n t now o1 = Inr ((), o2) \<Longrightarrow> marked o1 o2"
proof -
  assume a: "mark_delivery_applied e t now o1 = Inr ((), o2)"
  then have "o2 = snd (apply_open e t now o1)"
    by (auto simp: mark_delivery_applied_def case_prod_beta split: if_splits)
  with mark_delivery_applied_marks [OF a] show "marked o1 o2" by (simp add: marked_def marks_def apply_open_tables)
next
  assume a: "mark_delivery_degraded sha e t err now o1 = Inr ((), o2)"
  then have "ob_tombstones o2 = ob_tombstones o1 \<and> ob_events o2 = ob_events o1"
    by (auto simp: mark_delivery_degraded_def Let_def split: if_splits)
  with mark_degraded_marks [OF a] show "marked o1 o2" by (simp add: marked_def marks_def)
next
  assume a: "mark_delivery_applied_if_canonical_head e n t now o1 = Inr ((), o2)"
  then have "o2 = snd (apply_open e t now o1)"
    by (auto simp: mark_delivery_applied_if_canonical_head_def case_prod_beta split: if_splits)
  with mark_head_applied_marks [OF a] show "marked o1 o2" by (simp add: marked_def marks_def apply_open_tables)
next
  assume a: "mark_delivery_compensated_to_head stale head n t now o1 = Inr ((), o2)"
  then have "\<exists>om. o2 = snd (apply_open head t now om) \<and> ob_tombstones om = ob_tombstones o1 \<and>
      ob_events om = ob_events o1"
    unfolding mark_delivery_compensated_to_head_def Let_def
    by (auto simp: case_prod_beta split: if_splits)
  with mark_compensated_marks [OF a] show "marked o1 o2" by (auto simp: marked_def marks_def apply_open_tables)
qed

section \<open>Tables\<close>

definition row_ids :: "memory_row list \<Rightarrow> string set" where
  "row_ids rows = mw_id ` set rows"

definition context_ids :: "MemoryLifecycleScope \<Rightarrow> memory_row list \<Rightarrow> string set" where
  "context_ids sc rows = mw_id ` {w \<in> set rows. in_context (mw_record w) \<and> mr_scope (mw_record w) = sc}"

definition gone_ids :: "memory_row list \<Rightarrow> string set" where
  "gone_ids rows = mw_id ` {w \<in> set rows. \<not> in_context (mw_record w)}"

abbreviation replaced :: "MemoryLifecycleRecord \<Rightarrow> int \<Rightarrow> memory_row list \<Rightarrow> memory_row list" where
  "replaced r now rows \<equiv> update_where (\<lambda>w. mw_id w = mr_memory_id r)
     (\<lambda>w. w\<lparr>mw_record := r, mw_updated_at := now\<rparr>) rows"

lemma finite_context [simp]: "finite (context_ids sc rows)"
  by (simp add: context_ids_def)

lemma ids_append [simp]:
  "row_ids (rows @ [w]) = insert (mw_id w) (row_ids rows)"
  "context_ids sc (rows @ [w]) = context_ids sc rows \<union>
     (if in_context (mw_record w) \<and> mr_scope (mw_record w) = sc then {mw_id w} else {})"
  "gone_ids (rows @ [w]) = gone_ids rows \<union> (if in_context (mw_record w) then {} else {mw_id w})"
  by (auto simp: row_ids_def context_ids_def gone_ids_def)

lemma context_sub: "context_ids sc rows \<subseteq> row_ids rows"
  by (auto simp: row_ids_def context_ids_def)

lemma image_replaced:
  assumes "mr_memory_id r \<in> row_ids rows"
  shows "mw_id ` {w \<in> set (replaced r now rows). P (mw_record w)} =
    (mw_id ` {w \<in> set rows. P (mw_record w)} - {mr_memory_id r}) \<union> (if P r then {mr_memory_id r} else {})"
    (is "?new = ?old")
proof
  show "?new \<subseteq> ?old" by (auto elim!: update_whereE)
  obtain z where z: "z \<in> set rows" "mw_id z = mr_memory_id r" using assms by (auto simp: row_ids_def)
  have keep: "w \<in> set (replaced r now rows)" if "w \<in> set rows" "mw_id w \<noteq> mr_memory_id r" for w
    using that by (force simp: set_update_where)
  have "z\<lparr>mw_record := r, mw_updated_at := now\<rparr> \<in> set (replaced r now rows)"
    using z by (force simp: set_update_where)
  then have "mr_memory_id r \<in> ?new" if "P r" using that by (force simp: image_iff)
  with keep show "?old \<subseteq> ?new" by (auto split: if_splits)
qed

lemma ids_replaced:
  assumes "mr_memory_id r \<in> row_ids rows"
  shows "row_ids (replaced r now rows) = row_ids rows"
    and "context_ids sc (replaced r now rows) = (context_ids sc rows - {mr_memory_id r}) \<union>
       (if in_context r \<and> mr_scope r = sc then {mr_memory_id r} else {})"
    and "gone_ids (replaced r now rows) = (gone_ids rows - {mr_memory_id r}) \<union>
       (if in_context r then {} else {mr_memory_id r})"
  using image_replaced [OF assms, of now "\<lambda>_. True"] assms
    image_replaced [OF assms, of now "\<lambda>r. in_context r \<and> mr_scope r = sc"]
    image_replaced [OF assms, of now "\<lambda>r. \<not> in_context r"]
  by (auto simp: row_ids_def context_ids_def gone_ids_def)

lemma put_records_ok [simp]:
  "put_records rows s = Inr s' \<longleftrightarrow> memory_rows_unique rows \<and> s' = s\<lparr>ms_records := rows\<rparr>"
  by (auto simp: put_records_def)

lemma update_record_ok:
  "update_record r now s = Inr s' \<longleftrightarrow>
     memory_rows_unique (replaced r now (ms_records s)) \<and>
     s' = s\<lparr>ms_records := replaced r now (ms_records s)\<rparr>"
  by (simp add: update_record_def)

lemma find_memory_row:
  assumes "find_memory mid s = Some r"
  obtains w where "w \<in> set (ms_records s)" "mw_record w = r" "mr_memory_id r = mid"
  using assms unfolding find_memory_def by (auto dest!: find_Some_mem)

lemma active_record_row:
  assumes "active_record_by_fact_key key s = Some r"
  obtains w where "w \<in> set (ms_records s)" "mw_record w = r" "mw_fact_key w = key" "owns_fact w"
  using assms unfolding active_record_by_fact_key_def by (auto dest!: find_Some_mem)

lemma row_unique:
  assumes "memory_rows_unique rows" "w \<in> set rows" "w' \<in> set rows" "mw_id w = mw_id w'"
  shows "w = w'"
  using assms by (auto simp: memory_rows_unique_def distinct_map inj_on_def)

lemma gone_iff:
  assumes "memory_rows_unique rows" "w \<in> set rows"
  shows "mw_id w \<in> gone_ids rows \<longleftrightarrow> \<not> in_context (mw_record w)"
  using row_unique [OF assms(1)] assms(2) by (auto simp: gone_ids_def)

section \<open>The invariant\<close>

definition left :: "MemoryLifecycleRecord \<Rightarrow> bool" where
  "left r \<longleftrightarrow> mr_status r \<in> {MemSuperseded, MemRolledBack} \<and>
     mr_materialization_status r = MatNotRequired \<and> mr_runtime_context_excluded_at r \<noteq> None"

definition stored :: "memory_store \<Rightarrow> MemoryLifecycleRecord \<Rightarrow> bool" where
  "stored s r \<longleftrightarrow> (\<exists>w \<in> set (ms_records s). mw_record w = r)"

lemma stored_frame [simp]:
  "stored (s\<lparr>ms_outbox := ob\<rparr>) r = stored s r" "stored (s\<lparr>ms_links := ls\<rparr>) r = stored s r"
  "stored (s\<lparr>ms_views := vs\<rparr>) r = stored s r" "stored (s\<lparr>ms_rollbacks := es\<rparr>) r = stored s r"
  "stored (s\<lparr>ms_retrieval := xs\<rparr>) r = stored s r"
  by (simp_all add: stored_def)

lemma left_out: "left r \<Longrightarrow> \<not> in_context r"
  by (auto simp: left_def in_context_def)

text \<open>
  Between two transactions a memory is in the context, under the key of its content, or it is
  superseded or rolled back. \<open>G\<close> is a set of records that left the context and are still stored: it
  carries what is known of the past through a call.
\<close>

definition row_ok :: "(string \<Rightarrow> string) \<Rightarrow> (string \<Rightarrow> string) \<Rightarrow> memory_row \<Rightarrow> bool" where
  "row_ok nfkc sha w \<longleftrightarrow> (let r = mw_record w in
     in_context r \<and> (\<exists>n. canonical_memory_fact_identity nfkc sha (mr_scope r) (mr_scope_owner_ref r)
        (mr_category r) (mr_content r) = Inr (n, mw_fact_key w)) \<or>
     left r)"

definition memory_rows_ok ::
  "(string \<Rightarrow> string) \<Rightarrow> (string \<Rightarrow> string) \<Rightarrow> MemoryLifecycleRecord set \<Rightarrow>
   memory_store \<Rightarrow> bool"
where
  "memory_rows_ok nfkc sha G s \<longleftrightarrow>
     memory_rows_unique (ms_records s) \<and> (\<forall>w \<in> set (ms_records s). row_ok nfkc sha w) \<and>
     (\<forall>g \<in> G. left g \<and> stored s g)"

definition view_lists :: "string set \<Rightarrow> MemoryMaterializedView option \<Rightarrow> bool" where
  "view_lists ids view \<longleftrightarrow> (case view of None \<Rightarrow> ids = {}
     | Some v \<Rightarrow> mv_active_memory_ids v = sorted_list_of_set ids)"

definition views_ok :: "memory_store \<Rightarrow> bool" where
  "views_ok s \<longleftrightarrow> (\<forall>sc.
     view_lists (context_ids sc (ms_records s)) (find_view (view_id_for_scope (Some sc)) s))"

definition links_ok :: "memory_store \<Rightarrow> bool" where
  "links_ok s \<longleftrightarrow> (\<forall>l \<in> set (ms_links s).
     lk_admitted_memory_id l = lk_memory_id l \<and> lk_memory_id l \<in> row_ids (ms_records s))"

definition retrieval_row_ok :: "(string \<Rightarrow> string) \<Rightarrow> memory_store \<Rightarrow> retrieval_row \<Rightarrow> bool" where
  "retrieval_row_ok sha s x \<longleftrightarrow> rs_memory_id x \<in> row_ids (ms_records s) \<and>
     (\<exists>ev. find_event (ms_outbox s) (rs_last_event_id x) = Some ev \<and>
        in_aggregate MEMORY_LIFECYCLE_RETRIEVAL_AGGREGATE_KIND
          (lifecycle_retrieval_aggregate_id sha (rs_memory_id x)) ev \<and>
        ev_mutation_kind ev = disposition_as_str (rs_disposition x) \<and>
        ev_aggregate_revision ev = rs_revision x)"

definition retrieval_ok :: "(string \<Rightarrow> string) \<Rightarrow> memory_store \<Rightarrow> bool" where
  "retrieval_ok sha s \<longleftrightarrow> distinct (map rs_memory_id (ms_retrieval s)) \<and>
     (\<forall>x \<in> set (ms_retrieval s). retrieval_row_ok sha s x)"

definition fence_ok :: "memory_store \<Rightarrow> bool" where
  "fence_ok s \<longleftrightarrow> current (ms_outbox s) \<and>
     fenced (ms_outbox s) = Pair MEMORY_LIFECYCLE_AGGREGATE_KIND ` gone_ids (ms_records s)"

definition memory_ok ::
  "(string \<Rightarrow> string) \<Rightarrow> (string \<Rightarrow> string) \<Rightarrow> MemoryLifecycleRecord set \<Rightarrow>
   memory_store \<Rightarrow> bool"
where
  "memory_ok nfkc sha G s \<longleftrightarrow>
     memory_rows_ok nfkc sha G s \<and> views_ok s \<and> links_ok s \<and> retrieval_ok sha s \<and> fence_ok s"

lemma memory_ok_empty: "memory_ok nfkc sha {} empty_memory_store"
proof -
  have "fenced empty_outbox = {}" by (auto simp: fenced_def empty_outbox_def)
  then show ?thesis
    by (simp add: memory_ok_def memory_rows_ok_def memory_rows_unique_def views_ok_def view_lists_def find_view_def links_ok_def
        retrieval_ok_def fence_ok_def empty_memory_store_def context_ids_def gone_ids_def current_empty)
qed

lemma row_ok_context: "row_ok nfkc sha w \<Longrightarrow> owns_fact w \<Longrightarrow> in_context (mw_record w)"
  by (auto simp: row_ok_def owns_fact_def left_def Let_def)

lemma row_ok_active: "row_ok nfkc sha w \<Longrightarrow> mr_status (mw_record w) = MemMaterialized \<Longrightarrow> in_context (mw_record w)"
  by (auto simp: row_ok_def left_def Let_def)

lemma ghost_id:
  assumes "memory_rows_ok nfkc sha G s" "stored s r" "in_context r"
  shows "\<forall>g \<in> G. mr_memory_id g \<noteq> mr_memory_id r"
proof
  fix g assume "g \<in> G"
  then obtain w where w: "w \<in> set (ms_records s)" "mw_record w = g" "left g"
    using assms(1) by (auto simp: memory_rows_ok_def stored_def)
  from assms(2) obtain w' where "w' \<in> set (ms_records s)" "mw_record w' = r" by (auto simp: stored_def)
  with w left_out assms(1,3) row_unique [of "ms_records s" w w'] show "mr_memory_id g \<noteq> mr_memory_id r"
    by (auto simp: memory_rows_ok_def)
qed

section \<open>Views\<close>

lemma view_id_inject [simp]: "view_id_for_scope (Some a) = view_id_for_scope (Some b) \<longleftrightarrow> a = b"
  "view_id_for_scope None \<noteq> view_id_for_scope (Some a)"
  by (cases a; cases b; simp add: view_id_for_scope_def) (cases a; simp add: view_id_for_scope_def)

lemma find_upsert:
  "find (\<lambda>x. key x = k) (if exists_where (\<lambda>x. key x = key v) xs
     then update_where (\<lambda>x. key x = key v) (\<lambda>_. v) xs else xs @ [v]) =
   (if k = key v then Some v else find (\<lambda>x. key x = k) xs)"
proof (cases "exists_where (\<lambda>x. key x = key v) xs")
  case True
  have upd: "find (\<lambda>x. key x = k) (update_where (\<lambda>x. key x = key v) (\<lambda>_. v) xs) =
      map_option (\<lambda>x. if key x = key v then v else x) (find (\<lambda>x. key x = k) xs)"
    by (rule find_update_where) simp
  have "map_option (\<lambda>x. if key x = key v then v else x) (find (\<lambda>x. key x = k) xs) =
      (if k = key v then Some v else find (\<lambda>x. key x = k) xs)"
  proof (cases "find (\<lambda>x. key x = k) xs")
    case None
    then have "k \<noteq> key v" using True by (auto simp: find_None_iff)
    with None show ?thesis by simp
  next
    case (Some z)
    then have "key z = k" by (auto dest: find_Some_mem)
    with Some show ?thesis by simp
  qed
  with upd True show ?thesis by simp
next
  case False
  have eq: "find (\<lambda>x. key x = k) (xs @ [v]) = (if k = key v then Some v else find (\<lambda>x. key x = k) xs)"
  proof (cases "find (\<lambda>x. key x = k) xs")
    case None
    then show ?thesis by (simp add: find_append)
  next
    case (Some z)
    then have "z \<in> set xs \<and> key z = k" by (auto dest: find_Some_mem)
    with False have "k \<noteq> key v" by auto
    with Some show ?thesis by (simp add: find_append)
  qed
  show ?thesis using False by (simp only: if_False eq)
qed

lemma find_upsert_view:
  "find_view vid (upsert_view v s) = (if vid = mv_materialized_view_id v then Some v else find_view vid s)"
  using find_upsert [of mv_materialized_view_id vid v "ms_views s"]
  by (simp add: find_view_def upsert_view_def Let_def)

lemma upsert_view_frame [simp]:
  "ms_records (upsert_view v s) = ms_records s" "ms_links (upsert_view v s) = ms_links s"
  "ms_retrieval (upsert_view v s) = ms_retrieval s" "ms_outbox (upsert_view v s) = ms_outbox s"
  "ms_rollbacks (upsert_view v s) = ms_rollbacks s" "stored (upsert_view v s) = stored s"
  by (simp_all add: upsert_view_def Let_def fun_eq_iff)

lemma active_ids_set: "set (active_materialized_ids (Some sc) s) = context_ids sc (ms_records s)"
  by (auto simp: active_materialized_ids_def context_ids_def in_scope_def)

lemma rebuild_viewE:
  assumes "rebuild_view sha now (Some sc) pending excluded s = (v, s')"
  shows "s' = upsert_view v s" "mv_materialized_view_id v = view_id_for_scope (Some sc)"
    "mv_active_memory_ids v = sorted_list_of_set
       (context_ids sc (ms_records s) \<union> set_option pending - set_option excluded)"
proof -
  let ?found = "active_materialized_ids (Some sc) s"
  let ?with = "case pending of None \<Rightarrow> ?found | Some m \<Rightarrow> if m \<in> set ?found then ?found else ?found @ [m]"
  let ?kept = "filter (\<lambda>m. Some m \<noteq> excluded) ?with"
  have "set ?kept = context_ids sc (ms_records s) \<union> set_option pending - set_option excluded"
    by (cases pending; cases excluded) (auto simp: active_ids_set)
  moreover have "sorted_list_of_set (set (remdups (sort ?kept))) = remdups (sort ?kept)"
    by (rule sorted_list_of_set.idem_if_sorted_distinct) (simp_all add: sorted_remdups)
  ultimately have "remdups (sort ?kept) = sorted_list_of_set
      (context_ids sc (ms_records s) \<union> set_option pending - set_option excluded)"
    by simp
  with assms show "s' = upsert_view v s" "mv_materialized_view_id v = view_id_for_scope (Some sc)"
    "mv_active_memory_ids v = sorted_list_of_set
       (context_ids sc (ms_records s) \<union> set_option pending - set_option excluded)"
    by (auto simp: rebuild_view_def Let_def)
qed

text \<open>The view of one scope is rebuilt, and only that scope changed.\<close>

lemma views_ok_rebuilt:
  assumes "views_ok s" and "\<And>vid. find_view vid s' = (if vid = view_id_for_scope (Some sc) then Some v
      else find_view vid s)"
    and "mv_active_memory_ids v = sorted_list_of_set (context_ids sc (ms_records s'))"
    and "\<And>b. b \<noteq> sc \<Longrightarrow> context_ids b (ms_records s') = context_ids b (ms_records s)"
  shows "views_ok s'"
  unfolding views_ok_def
proof
  fix b
  show "view_lists (context_ids b (ms_records s')) (find_view (view_id_for_scope (Some b)) s')"
    using assms(3) assms(4) [of b] assms(1) by (cases "b = sc") (simp_all add: assms(2) views_ok_def view_lists_def)
qed

lemma views_ok_same:
  assumes "views_ok s" "ms_views s' = ms_views s"
    and "\<And>b. context_ids b (ms_records s') = context_ids b (ms_records s)"
  shows "views_ok s'"
  using assms by (simp add: views_ok_def find_view_def)

lemma find_view_records [simp]:
  "find_view vid (s\<lparr>ms_records := rows\<rparr>) = find_view vid s"
  "find_view vid (s\<lparr>ms_outbox := ob\<rparr>) = find_view vid s"
  "find_view vid (s\<lparr>ms_links := ls\<rparr>) = find_view vid s"
  "find_view vid (s\<lparr>ms_rollbacks := es\<rparr>) = find_view vid s"
  "find_view vid (s\<lparr>ms_retrieval := xs\<rparr>) = find_view vid s"
  by (simp_all add: find_view_def)

end
