(* ===== verification/Memory_Steps.thy ===== *)
theory Memory_Steps
  imports Memory_Safety
begin

text \<open>
  Every operation of the memory store keeps \<open>memory_ok\<close>. The operations are built from a few moves: a
  record of the context is touched, a memory joins the context, one leaves it, a view is rebuilt, and
  the outbox gets an event or a tombstone.
\<close>

section \<open>Moves\<close>

definition tables_ok ::
  "(string \<Rightarrow> string) \<Rightarrow> (string \<Rightarrow> string) \<Rightarrow> MemoryLifecycleRecord set \<Rightarrow>
   memory_store \<Rightarrow> bool"
where
  "tables_ok nfkc sha G s \<longleftrightarrow> memory_rows_ok nfkc sha G s \<and> views_ok s \<and> links_ok s \<and> retrieval_ok sha s"

lemma memory_ok_tables: "memory_ok nfkc sha G s \<longleftrightarrow> tables_ok nfkc sha G s \<and> fence_ok s"
  by (auto simp: memory_ok_def tables_ok_def)

lemma on_outbox_ok [simp]:
  "on_outbox f s = Inr (x, s') \<longleftrightarrow> (\<exists>ob. f (ms_outbox s) = Inr (x, ob) \<and> s' = s\<lparr>ms_outbox := ob\<rparr>)"
  by (auto simp: on_outbox_def)

lemma tables_outbox:
  assumes "tables_ok nfkc sha G s" "more_events (ms_outbox s) ob"
  shows "tables_ok nfkc sha G (s\<lparr>ms_outbox := ob\<rparr>)"
proof -
  have "retrieval_row_ok sha (s\<lparr>ms_outbox := ob\<rparr>) x" if "retrieval_row_ok sha s x" for x
    using that assms(2) by (auto simp: retrieval_row_ok_def more_events_def)
  with assms(1) show ?thesis
    by (auto simp: tables_ok_def memory_rows_ok_def views_ok_def links_ok_def retrieval_ok_def)
qed

lemma enqueue_materialized_ok:
  assumes ok: "memory_ok nfkc sha G s" and alive: "mr_memory_id r \<notin> gone_ids (ms_records s)"
    and call: "enqueue_materialized sha uuids now r s = Inr (receipt, s')"
  shows "memory_ok nfkc sha G s' \<and> ms_records s' = ms_records s"
proof -
  from call obtain ob where s': "s' = s\<lparr>ms_outbox := ob\<rparr>"
    and enq: "enqueue_mutation MEMORY_LIFECYCLE_AGGREGATE_KIND (mr_memory_id r) ''materialized''
      (memory_lifecycle_projection_token sha (mu_nonce uuids) r) MEMORY_LIFECYCLE_PROJECTION_TARGETS
      (mu_event uuids) now (ms_outbox s) = Inr (receipt, ob)"
    by (auto simp: enqueue_materialized_def)
  have cur: "current (ms_outbox s)" and free: "(MEMORY_LIFECYCLE_AGGREGATE_KIND, mr_memory_id r) \<notin> fenced (ms_outbox s)"
    using ok alive by (auto simp: memory_ok_def fence_ok_def)
  from write_ok [OF cur free enq] ok show ?thesis
    by (simp add: s' memory_ok_tables tables_outbox fence_ok_def)
qed

lemma enqueue_tombstone_moves:
  assumes ok: "tables_ok nfkc sha G s" and cur: "current (ms_outbox s)"
    and fence: "insert (MEMORY_LIFECYCLE_AGGREGATE_KIND, mid) (fenced (ms_outbox s)) =
      Pair MEMORY_LIFECYCLE_AGGREGATE_KIND ` gone_ids (ms_records s)"
    and call: "enqueue_memory_tombstone sha uuids now mid reason s = Inr (receipt, s')"
  shows "memory_ok nfkc sha G s' \<and> ms_records s' = ms_records s"
proof -
  from call obtain ob where s': "s' = s\<lparr>ms_outbox := ob\<rparr>"
    and enq: "enqueue_tombstone sha MEMORY_LIFECYCLE_AGGREGATE_KIND mid (Some reason)
      MEMORY_LIFECYCLE_PROJECTION_TARGETS (mu_tombstone uuids) (mu_tombstone_event uuids) now
      (ms_outbox s) = Inr (receipt, ob)"
    by (auto simp: enqueue_memory_tombstone_def)
  from delete_ok [OF cur enq] ok fence show ?thesis
    by (simp add: s' memory_ok_tables tables_outbox fence_ok_def)
qed

text \<open>What an operation on a record of the context does not change of it.\<close>

definition same_life :: "MemoryLifecycleRecord \<Rightarrow> MemoryLifecycleRecord \<Rightarrow> bool" where
  "same_life r r' \<longleftrightarrow> mr_memory_id r' = mr_memory_id r \<and> mr_content r' = mr_content r \<and>
     mr_scope r' = mr_scope r \<and> mr_scope_owner_ref r' = mr_scope_owner_ref r \<and>
     mr_category r' = mr_category r \<and> mr_status r' = mr_status r \<and>
     mr_materialization_status r' = mr_materialization_status r \<and>
     mr_runtime_context_excluded_at r' = mr_runtime_context_excluded_at r"

lemma stored_id: "stored s r \<Longrightarrow> mr_memory_id r \<in> row_ids (ms_records s)"
  by (auto simp: stored_def row_ids_def)

lemma stored_alive:
  assumes "memory_ok nfkc sha G s" "stored s r" "in_context r"
  shows "mr_memory_id r \<notin> gone_ids (ms_records s)" "mr_memory_id r \<in> context_ids (mr_scope r) (ms_records s)"
proof -
  from assms(2) obtain w where "w \<in> set (ms_records s)" "mw_record w = r" by (auto simp: stored_def)
  then show "mr_memory_id r \<notin> gone_ids (ms_records s)"
    using gone_iff [of "ms_records s" w] assms(1,3) by (auto simp: memory_ok_def memory_rows_ok_def)
  show "mr_memory_id r \<in> context_ids (mr_scope r) (ms_records s)"
    using assms(2,3) by (auto simp: stored_def context_ids_def)
qed

lemma context_other:
  assumes "memory_ok nfkc sha G s" "stored s r" "b \<noteq> mr_scope r"
  shows "mr_memory_id r \<notin> context_ids b (ms_records s)"
proof
  assume "mr_memory_id r \<in> context_ids b (ms_records s)"
  then obtain w where w: "w \<in> set (ms_records s)" "mw_id w = mr_memory_id r" "mr_scope (mw_record w) = b"
    by (auto simp: context_ids_def)
  from assms(2) obtain w' where "w' \<in> set (ms_records s)" "mw_record w' = r" by (auto simp: stored_def)
  with w row_unique [of "ms_records s" w w'] assms(1) have "mw_record w = r"
    by (auto simp: memory_ok_def memory_rows_ok_def)
  with w assms(3) show False by simp
qed

lemma update_effect:
  assumes "update_record r' now s = Inr s'" "mr_memory_id r' \<in> row_ids (ms_records s)"
  shows "row_ids (ms_records s') = row_ids (ms_records s)"
    and "context_ids sc (ms_records s') = (context_ids sc (ms_records s) - {mr_memory_id r'}) \<union>
       (if in_context r' \<and> mr_scope r' = sc then {mr_memory_id r'} else {})"
    and "gone_ids (ms_records s') = (gone_ids (ms_records s) - {mr_memory_id r'}) \<union>
       (if in_context r' then {} else {mr_memory_id r'})"
    and "ms_links s' = ms_links s" "ms_views s' = ms_views s" "ms_retrieval s' = ms_retrieval s"
    and "ms_outbox s' = ms_outbox s"
  using assms(1) ids_replaced [OF assms(2)] by (simp_all add: update_record_ok)

lemma update_stored:
  assumes "mr_memory_id r' \<in> row_ids (ms_records s)" "update_record r' now s = Inr s'"
  shows "stored s' r'"
proof -
  obtain w where w: "w \<in> set (ms_records s)" "mw_id w = mr_memory_id r'"
    using assms(1) by (auto simp: row_ids_def)
  then have "w\<lparr>mw_record := r', mw_updated_at := now\<rparr> \<in> set (replaced r' now (ms_records s))"
    by (force simp: set_update_where)
  then have "\<exists>w \<in> set (replaced r' now (ms_records s)). mw_record w = r'" by force
  with assms(2) show ?thesis by (simp add: stored_def update_record_ok)
qed

lemma stored_other:
  assumes "update_record r' now s = Inr s'" "stored s g" "mr_memory_id g \<noteq> mr_memory_id r'"
  shows "stored s' g"
proof -
  from assms(2) obtain w where w: "w \<in> set (ms_records s)" "mw_record w = g" by (auto simp: stored_def)
  then have "w \<in> set (replaced r' now (ms_records s))"
    using assms(3) by (force simp: set_update_where)
  with assms(1) w(2) show ?thesis by (auto simp: stored_def update_record_ok)
qed

lemma memory_rows_ok_update:
  assumes ok: "memory_rows_ok nfkc sha G s" and upd: "update_record r' now s = Inr s'"
    and other: "\<forall>g \<in> G. mr_memory_id g \<noteq> mr_memory_id r'"
    and row: "\<And>w. w \<in> set (ms_records s) \<Longrightarrow> mw_id w = mr_memory_id r' \<Longrightarrow> row_ok nfkc sha w \<Longrightarrow>
      row_ok nfkc sha (w\<lparr>mw_record := r', mw_updated_at := now\<rparr>)"
  shows "memory_rows_ok nfkc sha G s'"
proof -
  have "memory_rows_unique (ms_records s')" using upd by (simp add: update_record_ok)
  moreover have "row_ok nfkc sha w" if "w \<in> set (ms_records s')" for w
    using that ok upd row unfolding memory_rows_ok_def update_record_ok by (auto elim!: update_whereE)
  moreover have "left g \<and> stored s' g" if "g \<in> G" for g
    using that ok other stored_other [OF upd] by (simp add: memory_rows_ok_def)
  ultimately show ?thesis by (simp add: memory_rows_ok_def)
qed

lemma links_ok_ids:
  assumes "links_ok s" "ms_links s' = ms_links s" "row_ids (ms_records s) \<subseteq> row_ids (ms_records s')"
  shows "links_ok s'"
  using assms by (auto simp: links_ok_def)

lemma retrieval_ok_ids:
  assumes "retrieval_ok sha s" "ms_retrieval s' = ms_retrieval s" "ms_outbox s' = ms_outbox s"
    and "row_ids (ms_records s) \<subseteq> row_ids (ms_records s')"
  shows "retrieval_ok sha s'"
  using assms by (auto simp: retrieval_ok_def retrieval_row_ok_def)

lemma ghost_ok:
  "memory_ok nfkc sha G s \<Longrightarrow> stored s r \<Longrightarrow> in_context r \<Longrightarrow> \<forall>g \<in> G. mr_memory_id g \<noteq> mr_memory_id r"
  by (rule ghost_id [of nfkc sha]) (simp_all add: memory_ok_def)

lemma row_ok_ident:
  "row_ok nfkc sha w \<Longrightarrow> in_context (mw_record w) \<Longrightarrow>
     \<exists>n. canonical_memory_fact_identity nfkc sha (mr_scope (mw_record w)) (mr_scope_owner_ref (mw_record w))
       (mr_category (mw_record w)) (mr_content (mw_record w)) = Inr (n, mw_fact_key w)"
  using left_out by (auto simp: row_ok_def Let_def)

text \<open>Touching a record.\<close>

lemma touch_ok:
  assumes ok: "memory_ok nfkc sha G s" and r: "stored s r" "in_context r" and same: "same_life r r'"
    and upd: "update_record r' now s = Inr s'"
  shows "memory_ok nfkc sha G s' \<and> stored s' r' \<and> in_context r'"
proof -
  have ctx: "in_context r'" using r(2) same by (simp add: in_context_def same_life_def)
  have mid: "mr_memory_id r' = mr_memory_id r" and sc: "mr_scope r' = mr_scope r"
    using same by (simp_all add: same_life_def)
  have known: "mr_memory_id r' \<in> row_ids (ms_records s)" using stored_id [OF r(1)] mid by simp
  note eff = update_effect [OF upd known]
  have "memory_rows_ok nfkc sha G s'"
  proof (rule memory_rows_ok_update [OF _ upd])
    fix w assume w: "w \<in> set (ms_records s)" "mw_id w = mr_memory_id r'" "row_ok nfkc sha w"
    from r(1) obtain w' where w': "w' \<in> set (ms_records s)" "mw_record w' = r" by (auto simp: stored_def)
    have "w = w'"
      using ok w(1,2) w' mid by (intro row_unique [of "ms_records s"]) (auto simp: memory_ok_def memory_rows_ok_def)
    then have "mw_record w = r" using w'(2) by simp
    with row_ok_ident [OF w(3)] ctx r(2) same show "row_ok nfkc sha (w\<lparr>mw_record := r', mw_updated_at := now\<rparr>)"
      by (simp add: row_ok_def same_life_def)
  qed (use ok ghost_ok [OF ok r] mid in \<open>simp_all add: memory_ok_def\<close>)
  moreover have ids: "context_ids b (ms_records s') = context_ids b (ms_records s)" for b
    using stored_alive [OF ok r] context_other [OF ok r(1)] ctx mid sc
    by (cases "b = mr_scope r") (auto simp: eff(2))
  moreover have "gone_ids (ms_records s') = gone_ids (ms_records s)"
    using stored_alive [OF ok r] ctx mid by (simp add: eff(3))
  ultimately have "memory_ok nfkc sha G s'"
    using ok views_ok_same [of s s'] links_ok_ids [of s s'] retrieval_ok_ids [of sha s s']
    by (simp add: memory_ok_def fence_ok_def eff(1,4-7))
  with update_stored [OF known upd] ctx show ?thesis by blast
qed

text \<open>Rebuilding a view without a change.\<close>

lemma rebuild_ok:
  assumes ok: "memory_ok nfkc sha G s"
    and pend: "set_option pending \<subseteq> context_ids sc (ms_records s)"
    and call: "rebuild_view sha now (Some sc) pending None s = (v, s')"
  shows "memory_ok nfkc sha G s' \<and> ms_records s' = ms_records s"
proof -
  note v = rebuild_viewE [OF call]
  have "views_ok s'"
  proof (rule views_ok_rebuilt)
    show "views_ok s" using ok by (simp add: memory_ok_def)
    show "find_view vid s' = (if vid = view_id_for_scope (Some sc) then Some v else find_view vid s)" for vid
      by (simp add: v(1) find_upsert_view v(2))
    show "mv_active_memory_ids v = sorted_list_of_set (context_ids sc (ms_records s'))"
      using pend by (simp add: v(1,3) Un_absorb2)
  qed (simp add: v(1))
  then show ?thesis
    using ok links_ok_ids [of s s'] retrieval_ok_ids [of sha s s']
    by (simp add: memory_ok_def memory_rows_ok_def fence_ok_def v(1))
qed

lemma rebuild_all_ok:
  assumes ok: "memory_ok nfkc sha G s" and call: "rebuild_view sha now None None None s = (v, s')"
  shows "memory_ok nfkc sha G s'"
proof -
  have s': "s' = upsert_view v s" and vid: "mv_materialized_view_id v = view_id_for_scope None"
    using call by (auto simp: rebuild_view_def Let_def)
  have "view_id_for_scope (Some b) \<noteq> view_id_for_scope None" for b using view_id_inject(2) [of b] by metis
  then have "views_ok s'"
    using ok by (simp add: memory_ok_def views_ok_def s' find_upsert_view vid)
  then show ?thesis
    using ok links_ok_ids [of s s'] retrieval_ok_ids [of sha s s']
    by (simp add: memory_ok_def memory_rows_ok_def fence_ok_def s')
qed

text \<open>Linking a proposal.\<close>

lemma link_effect:
  assumes "link_proposal_to_memory pid mid key digest risk sensitivity now s = Inr s'"
  obtains ls where "s' = s\<lparr>ms_links := ms_links s @ ls\<rparr>"
    "\<forall>l \<in> set ls. lk_memory_id l = mid \<and> lk_admitted_memory_id l = mid"
proof (cases "proposal_link pid s")
  case None
  with assms that show thesis by (auto simp: link_proposal_to_memory_def)
next
  case (Some l)
  with assms have "s' = s" by (auto simp: link_proposal_to_memory_def split: if_splits)
  with that [of "[]"] show thesis by simp
qed

lemma link_ok:
  assumes ok: "memory_ok nfkc sha G s" and known: "mid \<in> row_ids (ms_records s)"
    and call: "link_proposal_to_memory pid mid key digest risk sensitivity now s = Inr s'"
  shows "memory_ok nfkc sha G s' \<and> ms_records s' = ms_records s"
  using link_effect [OF call]
proof cases
  case (1 ls)
  then have "links_ok s'" using ok known by (auto simp: memory_ok_def links_ok_def)
  with 1 ok show ?thesis
    using views_ok_same [of s s'] retrieval_ok_ids [of sha s s']
    by (simp add: memory_ok_def memory_rows_ok_def fence_ok_def)
qed

section \<open>Existing memories\<close>

text \<open>What an operation on a stored memory of the context gives back.\<close>

definition kept ::
  "(string \<Rightarrow> string) \<Rightarrow> (string \<Rightarrow> string) \<Rightarrow> MemoryLifecycleRecord set \<Rightarrow>
   MemoryLifecycleRecord \<Rightarrow> memory_store \<Rightarrow> bool" where
  "kept nfkc sha G r s \<longleftrightarrow> memory_ok nfkc sha G s \<and> stored s r \<and> in_context r"

lemma kept_records:
  "kept nfkc sha G r s \<Longrightarrow> memory_ok nfkc sha G s' \<and> ms_records s' = ms_records s \<Longrightarrow> kept nfkc sha G r s'"
  by (simp add: kept_def stored_def)

lemma enqueue_kept:
  assumes "kept nfkc sha G r s" "enqueue_materialized sha uuids now r s = Inr (receipt, s')"
  shows "kept nfkc sha G r s'"
  using kept_records [OF assms(1)] enqueue_materialized_ok [OF _ _ assms(2)] stored_alive(1) assms(1)
  unfolding kept_def by blast

lemma merge_kept:
  assumes k: "kept nfkc sha G r s"
    and call: "merge_effective_governance sha uuids now r key risk sens s = Inr ((r', upgraded), s')"
  shows "kept nfkc sha G r' s'"
proof (cases "risk_max (mr_risk_level r) risk = mr_risk_level r \<and>
    sensitivity_max (mr_sensitivity r) sens = mr_sensitivity r")
  case True
  with call k show ?thesis by (simp add: merge_effective_governance_def)
next
  case False
  define r2 where "r2 = (let r1 = r\<lparr>mr_risk_level := risk_max (mr_risk_level r) risk,
      mr_sensitivity := sensitivity_max (mr_sensitivity r) sens\<rparr>
    in r1\<lparr>mr_audit_digest := memory_record_audit_digest sha r1 key\<rparr>)"
  have same: "same_life r r2" by (simp add: same_life_def r2_def Let_def)
  from call False obtain s1 where upd: "update_record r2 now s = Inr s1" and r': "r' = r2"
    and rest: "s' = s1 \<or> (\<exists>receipt. enqueue_materialized sha uuids now r2 s1 = Inr (receipt, s'))"
    unfolding merge_effective_governance_def Let_def r2_def
    by (auto split: if_splits)
  have "kept nfkc sha G r2 s1" using touch_ok [of nfkc sha G s r, OF _ _ _ same upd] k by (simp add: kept_def)
  with rest enqueue_kept show ?thesis unfolding r' by blast
qed

lemma ensure_view_kept:
  assumes k: "kept nfkc sha G r s" and call: "ensure_record_view sha now r s = Inr ((r', v), s')"
  shows "kept nfkc sha G r' s'"
proof (cases "Option.bind (mr_materialized_view_id r) (\<lambda>vid. find_view vid s)")
  case (Some v)
  with call k show ?thesis by (simp add: ensure_record_view_def)
next
  case None
  have active: "is_runtime_active (mr_status r)" using k by (simp add: kept_def in_context_def is_runtime_active_def)
  obtain v1 s1 where re: "rebuild_view sha now (Some (mr_scope r)) (Some (mr_memory_id r)) None s = (v1, s1)"
    by fastforce
  define r1 where "r1 = r\<lparr>mr_materialized_view_id := Some (mv_materialized_view_id v1),
      mr_materialized_view_version := Some (mv_version v1)\<rparr>"
  from call None active re have upd: "update_record r1 now s1 = Inr s'" and r': "r' = r1"
    by (auto simp: ensure_record_view_def r1_def Let_def)
  have "memory_ok nfkc sha G s1 \<and> ms_records s1 = ms_records s"
    using rebuild_ok [OF _ _ re] stored_alive(2) k unfolding kept_def by (metis empty_subsetI insert_subset option.set(2))
  then have "kept nfkc sha G r s1" by (rule kept_records [OF k])
  then show ?thesis
    using touch_ok [OF _ _ _ _ upd, of nfkc sha G r] unfolding kept_def r' by (simp add: same_life_def r1_def)
qed

lemma ensure_mutation_kept:
  assumes k: "kept nfkc sha G r s" and call: "ensure_materialized_mutation sha uuids now r s = Inr (receipt, s')"
  shows "kept nfkc sha G r s'"
  using call k enqueue_kept [OF k] by (auto simp: ensure_materialized_mutation_def split: option.splits)

lemma existing_report_ok:
  assumes k: "kept nfkc sha G r s"
    and call: "existing_acceptance_report sha uuids now r key outcome at s = Inr (report, s')"
  shows "memory_ok nfkc sha G s'"
  using call ensure_view_kept [OF k] ensure_mutation_kept
  unfolding existing_acceptance_report_def
  by (auto simp: case_prod_beta) (metis kept_def prod.collapse)

lemma explicit_existing_ok:
  assumes k: "kept nfkc sha G r s"
    and call: "explicit_existing sha uuids now x key cd unchanged at r s = Inr (report, s')"
  shows "memory_ok nfkc sha G s'"
  using call merge_kept [OF k] ensure_mutation_kept
  unfolding explicit_existing_def
  by (auto simp: case_prod_beta) (metis kept_def prod.collapse)

text \<open>How an operation finds the memory it works on.\<close>

lemma find_active_kept:
  assumes ok: "memory_ok nfkc sha G s" and "find_memory mid s = Some r" "is_runtime_active (mr_status r)"
  shows "kept nfkc sha G r s"
proof -
  from assms(2) obtain w where "w \<in> set (ms_records s)" "mw_record w = r" by (rule find_memory_row)
  with ok assms(3) row_ok_active show ?thesis
    by (auto simp: kept_def stored_def memory_ok_def memory_rows_ok_def is_runtime_active_def)
qed

lemma active_fact_kept:
  assumes ok: "memory_ok nfkc sha G s" and "active_record_by_fact_key key s = Some r"
  shows "kept nfkc sha G r s"
proof -
  from assms(2) obtain w where "w \<in> set (ms_records s)" "mw_record w = r" "owns_fact w"
    by (rule active_record_row)
  with ok row_ok_context show ?thesis by (auto simp: kept_def stored_def memory_ok_def memory_rows_ok_def)
qed

lemma accept_replay_ok:
  assumes ok: "memory_ok nfkc sha G s"
    and call: "accept_replay sha uuids now f key digest l s = Inr (report, s')"
  shows "memory_ok nfkc sha G s'"
proof -
  from call consider (past) "s' = s"
    | (live) r r1 u s1 where "find_memory (lk_memory_id l) s = Some r" "is_runtime_active (mr_status r)"
        "merge_effective_governance sha uuids now r key (fd_risk_level f) (fd_sensitivity f) s = Inr ((r1, u), s1)"
        "existing_acceptance_report sha uuids now r1 key (if u then GovernanceUpgraded else ExactReplay)
           (lk_linked_at l) s1 = Inr (report, s')"
    unfolding accept_replay_def by (auto split: if_splits)
  then show ?thesis
  proof cases
    case past
    with ok show ?thesis by simp
  next
    case live
    have "kept nfkc sha G r s" by (rule find_active_kept [OF ok live(1,2)])
    then show ?thesis using merge_kept [OF _ live(3)] existing_report_ok [OF _ live(4)] by blast
  qed
qed

lemma explicit_replay_ok:
  assumes ok: "memory_ok nfkc sha G s"
    and call: "explicit_replay sha uuids now x key digest cd l s = Inr (report, s')"
  shows "memory_ok nfkc sha G s'"
proof -
  from call consider (past) "s' = s"
    | (live) r where "find_memory (lk_memory_id l) s = Some r" "is_runtime_active (mr_status r)"
        "explicit_existing sha uuids now x key cd ExactReplay (lk_linked_at l) r s = Inr (report, s')"
    unfolding explicit_replay_def by (auto split: if_splits)
  then show ?thesis
  proof cases
    case past
    with ok show ?thesis by simp
  next
    case live
    have "kept nfkc sha G r s" by (rule find_active_kept [OF ok live(1,2)])
    then show ?thesis by (rule explicit_existing_ok [OF _ live(3)])
  qed
qed

lemma linked_kept:
  assumes k: "kept nfkc sha G r s"
    and call: "link_proposal_to_memory pid (mr_memory_id r) key digest risk sens now s = Inr s'"
  shows "kept nfkc sha G r s'"
  using link_ok [OF _ stored_id call] k kept_records [OF k] unfolding kept_def by blast

lemma accept_alias_ok:
  assumes ok: "memory_ok nfkc sha G s" and r: "active_record_by_fact_key key s = Some r"
    and call: "accept_alias sha uuids now pid f key digest r s = Inr (report, s')"
  shows "memory_ok nfkc sha G s'"
proof -
  from call obtain s1 r1 u s2 where
    1: "link_proposal_to_memory pid (mr_memory_id r) key digest (fd_risk_level f) (fd_sensitivity f) now s = Inr s1"
    and 2: "merge_effective_governance sha uuids now r key (fd_risk_level f) (fd_sensitivity f) s1 = Inr ((r1, u), s2)"
    and 3: "existing_acceptance_report sha uuids now r1 key (if u then GovernanceUpgraded else AliasLinked) now s2 =
       Inr (report, s')"
    unfolding accept_alias_def by (auto split: if_splits)
  have "kept nfkc sha G r s1" by (rule linked_kept [OF active_fact_kept [OF ok r] 1])
  then show ?thesis using merge_kept [OF _ 2] existing_report_ok [OF _ 3] by blast
qed

section \<open>A memory joins the context\<close>

text \<open>In between, its row is there but not in the context, and the view of its scope is stale.\<close>

definition joining ::
  "(string \<Rightarrow> string) \<Rightarrow> (string \<Rightarrow> string) \<Rightarrow> MemoryLifecycleRecord set \<Rightarrow> string \<Rightarrow>
   MemoryLifecycleScope \<Rightarrow> string \<Rightarrow> memory_store \<Rightarrow> bool"
where
  "joining nfkc sha G mid sc key s \<longleftrightarrow>
     memory_rows_unique (ms_records s) \<and> mid \<in> row_ids (ms_records s) \<and>
     (\<forall>g \<in> G. left g \<and> stored s g \<and> mr_memory_id g \<noteq> mid) \<and>
     (\<forall>w \<in> set (ms_records s). if mw_id w = mid then mw_fact_key w = key else row_ok nfkc sha w) \<and>
     (\<forall>b. b \<noteq> sc \<longrightarrow> view_lists (context_ids b (ms_records s)) (find_view (view_id_for_scope (Some b)) s)) \<and>
     links_ok s \<and> retrieval_ok sha s"

lemma admit_joining:
  assumes ok: "memory_ok nfkc sha G s" and fresh: "\<not> in_context r"
    and call: "admit_record sha now f key digest r s = Inr (r', s')"
  shows "joining nfkc sha G (mr_memory_id r) (mr_scope r) key s'"
    and "r' = r\<lparr>mr_audit_digest := memory_record_audit_digest sha r key\<rparr>"
    and "mr_memory_id r \<notin> row_ids (ms_records s)" "ms_outbox s' = ms_outbox s" "ms_views s' = ms_views s"
    and "\<exists>w. ms_records s' = ms_records s @ [w] \<and> mw_record w = r'"
proof -
  define w where "w = \<lparr>mw_record = r', mw_fact_key = key, mw_created_at = now, mw_updated_at = now\<rparr>"
  from call obtain s1 where r': "r' = r\<lparr>mr_audit_digest := memory_record_audit_digest sha r key\<rparr>"
    and ins: "insert_record r' key now s = Inr s1"
    and link: "link_proposal_to_memory (mr_proposal_id r') (mr_memory_id r') key digest (fd_risk_level f)
      (fd_sensitivity f) now s1 = Inr s'"
    by (auto simp: admit_record_def Let_def)
  from ins have s1: "s1 = s\<lparr>ms_records := ms_records s @ [w]\<rparr>" and uniq: "memory_rows_unique (ms_records s @ [w])"
    by (auto simp: insert_record_def w_def)
  from link obtain ls where s': "s' = s1\<lparr>ms_links := ms_links s1 @ ls\<rparr>"
    and ls: "\<forall>l \<in> set ls. lk_memory_id l = mr_memory_id r' \<and> lk_admitted_memory_id l = mr_memory_id r'"
    by (rule link_effect)
  have w: "mw_record w = r'" "mw_id w = mr_memory_id r" "mw_fact_key w = key" "\<not> in_context (mw_record w)"
    using fresh by (simp_all add: w_def r' in_context_def)
  show new: "mr_memory_id r \<notin> row_ids (ms_records s)"
    using uniq w(2) by (auto simp: memory_rows_unique_def row_ids_def)
  then have other: "mw_id x \<noteq> mr_memory_id r" if "x \<in> set (ms_records s)" for x
    using that unfolding row_ids_def by (metis image_eqI)
  have recs: "ms_records s' = ms_records s @ [w]" by (simp add: s' s1)
  have "left g \<and> stored s' g \<and> mr_memory_id g \<noteq> mr_memory_id r" if "g \<in> G" for g
    using that ok other by (auto simp: memory_ok_def memory_rows_ok_def stored_def recs)
  moreover have "links_ok s'" using ok ls w(2) by (auto simp: memory_ok_def links_ok_def s' s1 r')
  moreover have "retrieval_ok sha s'"
    using ok retrieval_ok_ids [of sha s s'] by (auto simp: memory_ok_def s' s1)
  ultimately show "joining nfkc sha G (mr_memory_id r) (mr_scope r) key s'"
    using ok uniq w other
    by (auto simp: joining_def recs memory_ok_def memory_rows_ok_def views_ok_def) (simp_all add: s' s1)
  show "ms_outbox s' = ms_outbox s" "ms_views s' = ms_views s" by (simp_all add: s' s1)
  show "\<exists>w. ms_records s' = ms_records s @ [w] \<and> mw_record w = r'" using recs w(1) by blast
  show "r' = r\<lparr>mr_audit_digest := memory_record_audit_digest sha r key\<rparr>" by (rule r')
qed

lemma materialize_joins:
  assumes j: "joining nfkc sha G (mr_memory_id r) (mr_scope r) key s"
    and ident: "canonical_memory_fact_identity nfkc sha (mr_scope r) (mr_scope_owner_ref r) (mr_category r)
      (mr_content r) = Inr (n, key)"
    and incl: "mr_runtime_context_excluded_at r = None"
    and out: "mr_memory_id r \<notin> set_option excluded" "set_option excluded \<inter> context_ids (mr_scope r) (ms_records s) = {}"
    and other: "\<forall>b. b \<noteq> mr_scope r \<longrightarrow> mr_memory_id r \<notin> context_ids b (ms_records s)"
    and call: "materialize_record sha now excluded r s = Inr ((r', v), s')"
  shows "tables_ok nfkc sha G s'" "kept nfkc sha G r' s' \<longleftrightarrow> fence_ok s'" "ms_outbox s' = ms_outbox s"
    "gone_ids (ms_records s') = gone_ids (ms_records s) - {mr_memory_id r}"
    "mr_memory_id r' = mr_memory_id r" "in_context r'"
proof -
  obtain v1 s1 where re: "rebuild_view sha now (Some (mr_scope r)) (Some (mr_memory_id r)) excluded s = (v1, s1)"
    by fastforce
  define r1 where "r1 = r\<lparr>mr_status := MemMaterialized, mr_materialization_status := MatMaterialized,
      mr_materialized_view_id := Some (mv_materialized_view_id v1),
      mr_materialized_view_version := Some (mv_version v1)\<rparr>"
  from call re have upd: "update_record r1 now s1 = Inr s'" and r': "r' = r1"
    by (auto simp: materialize_record_def r1_def Let_def)
  note view = rebuild_viewE [OF re]
  have r1: "mr_memory_id r1 = mr_memory_id r" "in_context r1" "mr_scope r1 = mr_scope r"
    using incl by (simp_all add: r1_def in_context_def)
  have s1: "ms_records s1 = ms_records s" "ms_links s1 = ms_links s" "ms_retrieval s1 = ms_retrieval s"
    "ms_outbox s1 = ms_outbox s" by (simp_all add: view(1))
  have known: "mr_memory_id r1 \<in> row_ids (ms_records s1)" using j by (simp add: joining_def s1 r1)
  note eff = update_effect [OF upd known]
  have row: "row_ok nfkc sha (w\<lparr>mw_record := r1, mw_updated_at := now\<rparr>)"
    if "w \<in> set (ms_records s)" "mw_id w = mr_memory_id r" for w
    using j that ident r1(2) by (auto simp: joining_def row_ok_def r1_def Let_def)
  have rows: "memory_rows_ok nfkc sha G s'"
  proof -
    have "left g \<and> stored s' g" if "g \<in> G" for g
      using that j r1(1) stored_other [OF upd] by (simp add: joining_def stored_def s1)
    moreover have "row_ok nfkc sha w" if "w \<in> set (ms_records s')" for w
      using that upd row j r1(1) unfolding update_record_ok s1 joining_def
      by (auto elim!: update_whereE split: if_splits)
    ultimately show ?thesis using upd by (simp add: memory_rows_ok_def update_record_ok)
  qed
  have fv: "find_view vid s' = (if vid = view_id_for_scope (Some (mr_scope r)) then Some v1 else find_view vid s)" for vid
    using find_upsert_view [of vid v1 s] by (simp add: find_view_def eff(5) view(1,2))
  have here: "context_ids (mr_scope r) (ms_records s') = insert (mr_memory_id r) (context_ids (mr_scope r) (ms_records s))"
    using r1 by (auto simp: eff(2) s1)
  have there: "context_ids b (ms_records s') = context_ids b (ms_records s)" if "b \<noteq> mr_scope r" for b
    using other that r1 by (simp add: eff(2) s1)
  have ids: "context_ids (mr_scope r) (ms_records s) \<union> {mr_memory_id r} - set_option excluded =
      insert (mr_memory_id r) (context_ids (mr_scope r) (ms_records s))"
    using out by auto
  have lists: "view_lists (context_ids b (ms_records s')) (find_view (view_id_for_scope (Some b)) s')" for b
  proof (cases "b = mr_scope r")
    case True
    then show ?thesis using view(3) ids by (simp add: fv here view_lists_def)
  next
    case False
    then show ?thesis using j there by (simp add: fv joining_def)
  qed
  then have "views_ok s'" by (simp add: views_ok_def)
  moreover have "links_ok s'" using j links_ok_ids [of s s'] by (simp add: joining_def eff(1,4) s1)
  moreover have "retrieval_ok sha s'" using j retrieval_ok_ids [of sha s s'] by (simp add: joining_def eff(1,6,7) s1)
  ultimately show t: "tables_ok nfkc sha G s'" using rows by (simp add: tables_ok_def)
  show "mr_memory_id r' = mr_memory_id r" "in_context r'" "ms_outbox s' = ms_outbox s"
    using r1 by (simp_all add: r' eff(7) s1)
  show "gone_ids (ms_records s') = gone_ids (ms_records s) - {mr_memory_id r}"
    using r1 by (simp add: eff(3) s1)
  show "kept nfkc sha G r' s' \<longleftrightarrow> fence_ok s'"
    using t r1(2) update_stored [OF known upd] by (simp add: kept_def memory_ok_tables r')
qed

lemma not_in_context:
  "mid \<notin> row_ids rows \<Longrightarrow> mid \<notin> context_ids b rows" "mid \<notin> row_ids rows \<Longrightarrow> mid \<notin> gone_ids rows"
  by (auto simp: row_ids_def context_ids_def gone_ids_def)

lemma accept_new_ok:
  assumes ok: "memory_ok nfkc sha G s"
    and r: "mr_status r = MemAccepted" "mr_runtime_context_excluded_at r = None"
    and ident: "canonical_memory_fact_identity nfkc sha (mr_scope r) (mr_scope_owner_ref r) (mr_category r)
      (mr_content r) = Inr (n, key)"
    and call: "accept_new sha uuids now f key digest r s = Inr (result, s')"
  shows "memory_ok nfkc sha G s'"
proof -
  from call obtain r1 s1 r2 v s2 receipt where 1: "admit_record sha now f key digest r s = Inr (r1, s1)"
    and 2: "materialize_record sha now None r1 s1 = Inr ((r2, v), s2)"
    and 3: "enqueue_materialized sha uuids now r2 s2 = Inr (receipt, s')"
    unfolding accept_new_def by (auto simp: case_prod_beta)
  have "\<not> in_context r" using r by (simp add: in_context_def)
  note a = admit_joining [OF ok this 1]
  from a(6) obtain w where recs: "ms_records s1 = ms_records s @ [w]" and w: "mw_record w = r1" by blast
  have r1: "mr_memory_id r1 = mr_memory_id r" "mr_scope r1 = mr_scope r" "\<not> in_context r1"
    using r by (simp_all add: a(2) in_context_def)
  have ctx: "mr_memory_id r \<notin> context_ids b (ms_records s1)" for b
    using not_in_context(1) [OF a(3)] r1(3) by (simp add: recs w)
  have j: "joining nfkc sha G (mr_memory_id r1) (mr_scope r1) key s1" using a(1) r1 by simp
  have ident1: "canonical_memory_fact_identity nfkc sha (mr_scope r1) (mr_scope_owner_ref r1) (mr_category r1)
      (mr_content r1) = Inr (n, key)" using ident by (simp add: a(2))
  have incl: "mr_runtime_context_excluded_at r1 = None" using r by (simp add: a(2))
  have no: "mr_memory_id r1 \<notin> set_option None" "set_option None \<inter> context_ids (mr_scope r1) (ms_records s1) = {}"
    by simp_all
  have oth: "\<forall>b. b \<noteq> mr_scope r1 \<longrightarrow> mr_memory_id r1 \<notin> context_ids b (ms_records s1)" using ctx r1(1) by simp
  note m = materialize_joins [OF j ident1 incl no oth 2]
  have "gone_ids (ms_records s2) = gone_ids (ms_records s)"
    unfolding m(4) recs using not_in_context(2) [OF a(3)] r1 by (auto simp: w)
  then have "fence_ok s2" using ok by (simp add: memory_ok_def fence_ok_def m(3) a(4))
  with m(2) have "kept nfkc sha G r2 s2" by simp
  then show ?thesis using enqueue_kept [OF _ 3] by (simp add: kept_def)
qed

section \<open>A memory leaves the context\<close>

lemma left_row: "left r \<Longrightarrow> row_ok nfkc sha (w\<lparr>mw_record := r, mw_updated_at := now\<rparr>)"
  by (simp add: row_ok_def)

lemma row_ok_left: "row_ok nfkc sha w \<Longrightarrow> \<not> in_context (mw_record w) \<Longrightarrow> left (mw_record w)"
  by (auto simp: row_ok_def Let_def)

lemma retire_ok:
  assumes ok: "memory_ok nfkc sha G s" and r: "stored s r"
    and r1: "left r1" "mr_memory_id r1 = mr_memory_id r"
    and ghost: "\<forall>g \<in> G. mr_memory_id g \<noteq> mr_memory_id r"
    and upd: "update_record r1 now s = Inr s1"
    and re: "rebuild_view sha now (Some (mr_scope r)) None (Some (mr_memory_id r)) s1 = (v, s2)"
  shows "tables_ok nfkc sha G s2" "ms_outbox s2 = ms_outbox s" "stored s2 r1"
    "gone_ids (ms_records s2) = insert (mr_memory_id r) (gone_ids (ms_records s))"
    "row_ids (ms_records s2) = row_ids (ms_records s)"
proof -
  have known: "mr_memory_id r1 \<in> row_ids (ms_records s)" using stored_id [OF r] r1(2) by simp
  note eff = update_effect [OF upd known] and view = rebuild_viewE [OF re]
  have s2: "ms_records s2 = ms_records s1" "ms_links s2 = ms_links s" "ms_retrieval s2 = ms_retrieval s"
    "ms_outbox s2 = ms_outbox s" using eff by (simp_all add: view(1))
  have st2: "stored s2 = stored s1" by (simp add: view(1))
  have rows: "memory_rows_ok nfkc sha G s1"
    using ok left_row [OF r1(1)] ghost r1(2)
    by (intro memory_rows_ok_update [OF _ upd]) (simp_all add: memory_ok_def)
  have ctx: "context_ids b (ms_records s1) = context_ids b (ms_records s) - {mr_memory_id r}" for b
    using left_out [OF r1(1)] by (simp add: eff(2) r1(2))
  have lists: "view_lists (context_ids b (ms_records s2)) (find_view (view_id_for_scope (Some b)) s2)" for b
  proof (cases "b = mr_scope r")
    case True
    then show ?thesis
      using view(2,3) by (simp add: s2 view(1) find_upsert_view view_lists_def ctx)
  next
    case False
    have "find_view (view_id_for_scope (Some b)) s2 = find_view (view_id_for_scope (Some b)) s"
      using False by (simp add: view(1) find_upsert_view view(2)) (simp add: find_view_def eff(5))
    moreover have "context_ids b (ms_records s2) = context_ids b (ms_records s)"
      using context_other [OF ok r False] by (simp add: s2 ctx)
    ultimately show ?thesis using ok by (simp add: memory_ok_def views_ok_def)
  qed
  then show "tables_ok nfkc sha G s2"
    using ok rows links_ok_ids [of s s2] retrieval_ok_ids [of sha s s2]
    by (simp add: tables_ok_def memory_ok_def memory_rows_ok_def views_ok_def s2 st2 eff(1))
  show "ms_outbox s2 = ms_outbox s" "row_ids (ms_records s2) = row_ids (ms_records s)" by (simp_all add: s2 eff(1))
  show "stored s2 r1" using update_stored [OF known upd] by (simp add: stored_def s2)
  show "gone_ids (ms_records s2) = insert (mr_memory_id r) (gone_ids (ms_records s))"
    using left_out [OF r1(1)] by (auto simp: s2 eff(3) r1(2))
qed

text \<open>A record that has left can be written again.\<close>

lemma rewrite_left_ok:
  assumes ok: "tables_ok nfkc sha G s" and r: "stored s r" "left r"
    and r1: "left r1" "mr_memory_id r1 = mr_memory_id r"
    and ghost: "\<forall>g \<in> G. mr_memory_id g \<noteq> mr_memory_id r"
    and upd: "update_record r1 now s = Inr s'"
  shows "tables_ok nfkc sha G s'" "gone_ids (ms_records s') = gone_ids (ms_records s)" "ms_outbox s' = ms_outbox s"
proof -
  have known: "mr_memory_id r1 \<in> row_ids (ms_records s)" using stored_id [OF r(1)] r1(2) by simp
  note eff = update_effect [OF upd known]
  from r obtain w where w: "w \<in> set (ms_records s)" "mw_record w = r" by (auto simp: stored_def)
  have uniq: "memory_rows_unique (ms_records s)" using ok by (simp add: tables_ok_def memory_rows_ok_def)
  have gone: "mr_memory_id r \<in> gone_ids (ms_records s)"
    using gone_iff [OF uniq w(1)] left_out [OF r(2)] w(2) by simp
  have "mr_memory_id r \<notin> context_ids b (ms_records s)" for b
    using row_unique [OF uniq w(1)] left_out [OF r(2)] w(2) by (auto simp: context_ids_def)
  then have ctx: "context_ids b (ms_records s') = context_ids b (ms_records s)" for b
    using left_out [OF r1(1)] by (simp add: eff(2) r1(2))
  have "memory_rows_ok nfkc sha G s'"
    using ok left_row [OF r1(1)] ghost r1(2)
    by (intro memory_rows_ok_update [OF _ upd]) (simp_all add: tables_ok_def)
  moreover have "views_ok s'" using ok ctx by (simp add: tables_ok_def views_ok_def find_view_def eff(5))
  ultimately show "tables_ok nfkc sha G s'"
    using ok links_ok_ids [of s s'] retrieval_ok_ids [of sha s s'] by (simp add: tables_ok_def eff)
  show "gone_ids (ms_records s') = gone_ids (ms_records s)"
    using left_out [OF r1(1)] gone by (auto simp: eff(3) r1(2))
  show "ms_outbox s' = ms_outbox s" by (rule eff(7))
qed

lemma rollback_tables:
  assumes "tables_ok nfkc sha G s"
  shows "tables_ok nfkc sha G (s\<lparr>ms_rollbacks := es\<rparr>)"
  using assms by (simp add: tables_ok_def memory_rows_ok_def views_ok_def links_ok_def retrieval_ok_def retrieval_row_ok_def)

lemma rollback_ok:
  assumes ok: "memory_ok nfkc sha G s"
    and call: "rollback_memory_asset sha uuids now mid requested_by reason s = Inr (report, s')"
  shows "memory_ok nfkc sha G s'"
proof -
  from call obtain r where find: "find_memory mid s = Some r"
    unfolding rollback_memory_asset_def by auto
  define r1 where r1: "r1 = r\<lparr>mr_status := MemRolledBack, mr_materialization_status := MatNotRequired,
      mr_runtime_context_excluded_at := Some now\<rparr>"
  from call find obtain s1 where 1: "update_record r1 now s = Inr s1"
    unfolding rollback_memory_asset_def Let_def r1 by (auto simp: case_prod_beta)
  obtain v s2 where 2: "rebuild_view sha now (Some (mr_scope r1)) None (Some (mr_memory_id r1)) s1 = (v, s2)"
    by fastforce
  define e where "e = rollback_event sha uuids now requested_by reason (mr_status r) r1 v"
  define r2 where r2: "r2 = r1\<lparr>mr_rolled_back_by_event_id := Some (re_rollback_event_id e),
      mr_materialized_view_id := Some (mv_materialized_view_id v),
      mr_materialized_view_version := Some (mv_version v)\<rparr>"
  from call find 1 2 obtain s3 s4 receipt where 3: "insert_rollback_event e s2 = Inr s3"
    and 4: "update_record r2 now s3 = Inr s4"
    and 5: "enqueue_memory_tombstone sha uuids now (mr_memory_id r2) reason s4 = Inr (receipt, s')"
    unfolding rollback_memory_asset_def Let_def e_def r2 r1 by auto
  have st: "stored s r" using find by (auto simp: stored_def elim: find_memory_row)
  have l: "left r1" "left r2" "mr_memory_id r1 = mr_memory_id r" "mr_memory_id r2 = mr_memory_id r1" "mr_scope r1 = mr_scope r"
    by (simp_all add: left_def r1 r2)
  from find obtain w where w: "w \<in> set (ms_records s)" "mw_record w = r" by (rule find_memory_row)
  have "\<not> left r" using call find by (auto simp: rollback_memory_asset_def check_rollback_def left_def)
  then have "in_context r"
    using ok w row_ok_left [of nfkc sha w] by (auto simp: memory_ok_def memory_rows_ok_def)
  then have ghost: "\<forall>g \<in> G. mr_memory_id g \<noteq> mr_memory_id r" by (rule ghost_ok [OF ok st])
  note t = retire_ok [OF ok st l(1,3) ghost 1 2 [unfolded l(3,5)]]
  from 3 obtain es where s3: "s3 = s2\<lparr>ms_rollbacks := es\<rparr>" by (auto simp: insert_rollback_event_def split: if_splits)
  have t3: "tables_ok nfkc sha G s3" "stored s3 r1" using rollback_tables [OF t(1)] t(3) by (simp_all add: s3 stored_def)
  note t4 = rewrite_left_ok [OF t3 l(1,2,4) ghost [folded l(3)] 4]
  have "current (ms_outbox s4)" using ok t(2) t4(3) by (simp add: memory_ok_def fence_ok_def s3)
  moreover have "insert (MEMORY_LIFECYCLE_AGGREGATE_KIND, mr_memory_id r2) (fenced (ms_outbox s4)) =
      Pair MEMORY_LIFECYCLE_AGGREGATE_KIND ` gone_ids (ms_records s4)"
    using ok t(2,4) t4(2,3) l(3,4) by (simp add: memory_ok_def fence_ok_def s3)
  ultimately show ?thesis using enqueue_tombstone_moves [OF t4(1) _ _ 5] by blast
qed

lemma delete_content_ok: "memory_ok nfkc sha G s \<Longrightarrow> memory_ok nfkc sha G (delete_content_rows mid s)"
  by (auto simp: memory_ok_def memory_rows_ok_def views_ok_def find_view_def links_ok_def retrieval_ok_def
      retrieval_row_ok_def fence_ok_def delete_content_rows_def distinct_map_filter)

lemma erased_left: "left (erased_record sha now r)" "mr_memory_id (erased_record sha now r) = mr_memory_id r"
  by (simp_all add: left_def erased_record_def Let_def)

lemma erase_ok:
  assumes ok: "memory_ok nfkc sha G s" and ghost: "\<forall>g \<in> G. mr_memory_id g \<noteq> mid"
    and call: "privacy_erase_memory_asset sha uuids now mid s = Inr (report, s')"
  shows "memory_ok nfkc sha G s' \<and> (\<exists>r. mr_memory_id r = mid \<and> stored s' (erased_record sha now r))"
proof -
  let ?s0 = "delete_content_rows mid s"
  from call obtain r s1 where find: "find_memory mid s = Some r"
    and 1: "update_record (erased_record sha now r) now ?s0 = Inr s1"
    and rest: "\<exists>v s2 receipt. rebuild_view sha now (Some (mr_scope r)) None (Some mid) s1 = (v, s2) \<and>
      enqueue_memory_tombstone sha uuids now mid ''user_confirmed_privacy_erase'' s2 = Inr (receipt, s')"
    unfolding privacy_erase_memory_asset_def by (auto simp: case_prod_beta split: if_splits) (metis prod.collapse)
  from rest obtain v s2 receipt where
    2: "rebuild_view sha now (Some (mr_scope r)) None (Some mid) s1 = (v, s2)"
    and 3: "enqueue_memory_tombstone sha uuids now mid ''user_confirmed_privacy_erase'' s2 = Inr (receipt, s')"
    by blast
  from find have mid: "mid = mr_memory_id r" and "stored s r" by (auto simp: stored_def elim: find_memory_row)
  then have st: "stored ?s0 r" by (simp add: stored_def delete_content_rows_def)
  note t = retire_ok [OF delete_content_ok [OF ok] st erased_left ghost [unfolded mid] 1 2 [unfolded mid]]
  have "current (ms_outbox s2)" using ok t(2) by (simp add: memory_ok_def fence_ok_def delete_content_rows_def)
  moreover have "insert (MEMORY_LIFECYCLE_AGGREGATE_KIND, mid) (fenced (ms_outbox s2)) =
      Pair MEMORY_LIFECYCLE_AGGREGATE_KIND ` gone_ids (ms_records s2)"
    using ok t(2,4) by (simp add: memory_ok_def fence_ok_def delete_content_rows_def mid)
  ultimately have "memory_ok nfkc sha G s' \<and> ms_records s' = ms_records s2"
    using enqueue_tombstone_moves [OF t(1) _ _ 3] by blast
  moreover from this t(3) have "stored s' (erased_record sha now r)" by (simp add: stored_def)
  ultimately show ?thesis using mid by blast
qed

section \<open>A correction\<close>

lemma joining_retire:
  assumes j: "joining nfkc sha G mid sc key s" and r1: "left r1" "mr_memory_id r1 \<noteq> mid"
    and ghost: "\<forall>g \<in> G. mr_memory_id g \<noteq> mr_memory_id r1"
    and known: "mr_memory_id r1 \<in> row_ids (ms_records s)"
    and only: "\<forall>b. b \<noteq> sc \<longrightarrow> mr_memory_id r1 \<notin> context_ids b (ms_records s)"
    and upd: "update_record r1 now s = Inr s'"
  shows "joining nfkc sha G mid sc key s'"
proof -
  note eff = update_effect [OF upd known]
  have "memory_rows_unique (ms_records s')" using upd by (simp add: update_record_ok)
  moreover have "left g \<and> stored s' g \<and> mr_memory_id g \<noteq> mid" if "g \<in> G" for g
    using that j ghost stored_other [OF upd] by (simp add: joining_def)
  moreover have "if mw_id w = mid then mw_fact_key w = key else row_ok nfkc sha w" if "w \<in> set (ms_records s')" for w
    using that upd j left_row [OF r1(1)] r1(2) unfolding update_record_ok joining_def
    by (auto elim!: update_whereE)
  moreover have "context_ids b (ms_records s') = context_ids b (ms_records s)" if "b \<noteq> sc" for b
    using only that left_out [OF r1(1)] by (simp add: eff(2))
  ultimately show ?thesis
    using j links_ok_ids [of s s'] retrieval_ok_ids [of sha s s']
    by (auto simp: joining_def eff(1,4-7) find_view_def)
qed

lemma check_correctionD:
  assumes "check_correction_target f key target s = Inr previous"
  shows "find_memory target s = Some previous \<and> in_context previous \<and> mr_scope previous = fd_scope f \<and>
    mr_content previous \<noteq> fd_canonical_body f"
  using assms unfolding check_correction_target_def
  by (auto simp: in_context_def is_runtime_active_def split: option.splits)

lemma superseded_left:
  "left (superseded_record sha now new key r)" "mr_memory_id (superseded_record sha now new key r) = mr_memory_id r"
  by (simp_all add: left_def superseded_record_def Let_def)

lemma new_record_fields:
  "mr_memory_id (new_memory_record mid pid t rn f cb ab now ev cf cs su) = mid"
  "mr_status (new_memory_record mid pid t rn f cb ab now ev cf cs su) = MemAccepted"
  "mr_runtime_context_excluded_at (new_memory_record mid pid t rn f cb ab now ev cf cs su) = None"
  "mr_scope (new_memory_record mid pid t rn f cb ab now ev cf cs su) = fd_scope f"
  "mr_scope_owner_ref (new_memory_record mid pid t rn f cb ab now ev cf cs su) = fd_scope_owner_ref f"
  "mr_category (new_memory_record mid pid t rn f cb ab now ev cf cs su) = fd_category f"
  "mr_content (new_memory_record mid pid t rn f cb ab now ev cf cs su) = fd_canonical_body f"
  by (simp_all add: new_memory_record_def)

lemma accept_correction_ok:
  assumes ok: "memory_ok nfkc sha G s" and f: "f = ai_fact x"
    and ident: "canonical_memory_fact_identity nfkc sha (fd_scope f) (fd_scope_owner_ref f) (fd_category f)
      (fd_canonical_body f) = Inr (n, key)"
    and call: "accept_correction nfkc sha uuids now x key digest confidence target s = Inr (report, s')"
  shows "memory_ok nfkc sha G s'"
proof -
  from call obtain prev r0 r s1 pk s2 r1 v s3 gone s4 receipt where 0: "check_correction_target f key target s = Inr prev"
    and r0: "r0 = new_memory_record (''memory:'' @ mu_memory uuids) (ai_proposal_id x) (ai_source_task_id x)
      (ai_source_run_id x) f (ai_created_by x) (ai_accepted_by x) now (ai_evidence_ids x)
      confidence (ai_conflict_ids x) (Some (mr_memory_id prev))"
    and 1: "admit_record sha now f key digest r0 s = Inr (r, s1)"
    and 2: "update_record (superseded_record sha now (mr_memory_id r) pk prev) now s1 = Inr s2"
    and 3: "materialize_record sha now (Some (mr_memory_id prev)) r s2 = Inr ((r1, v), s3)"
    and 4: "enqueue_memory_tombstone sha uuids now (mr_memory_id prev) ''reviewed_memory_correction_superseded'' s3 =
      Inr (gone, s4)"
    and 5: "enqueue_materialized sha uuids now r1 s4 = Inr (receipt, s')"
    unfolding accept_correction_def f Let_def by (auto simp: case_prod_beta)
  have prev: "find_memory target s = Some prev" "in_context prev" "mr_scope prev = fd_scope f"
    using check_correctionD [OF 0] by simp_all
  have st: "stored s prev" using prev(1) by (auto simp: stored_def elim: find_memory_row)
  have ghost: "\<forall>g \<in> G. mr_memory_id g \<noteq> mr_memory_id prev" by (rule ghost_ok [OF ok st prev(2)])
  have r0f: "\<not> in_context r0" "mr_scope r0 = fd_scope f" by (simp_all add: r0 new_record_fields in_context_def)
  note a = admit_joining [OF ok r0f(1) 1]
  from a(6) obtain w where recs: "ms_records s1 = ms_records s @ [w]" and w: "mw_record w = r" by blast
  have rf: "mr_memory_id r = mr_memory_id r0" "mr_scope r = fd_scope f" "\<not> in_context r"
    "mr_runtime_context_excluded_at r = None"
    using r0f by (simp_all add: a(2) in_context_def r0 new_record_fields)
  have prev_id: "mr_memory_id prev \<in> row_ids (ms_records s)" "mr_memory_id prev \<noteq> mr_memory_id r"
    using stored_id [OF st] a(3) rf(1) by auto
  have ctx1: "context_ids b (ms_records s1) = context_ids b (ms_records s)" for b using rf(3) by (simp add: recs w)
  have j1: "joining nfkc sha G (mr_memory_id r) (mr_scope r) key s1" using a(1) rf r0f by simp
  have only: "\<forall>b. b \<noteq> mr_scope r \<longrightarrow> mr_memory_id prev \<notin> context_ids b (ms_records s1)"
    using context_other [OF ok st] prev(3) rf(2) by (simp add: ctx1)
  have known: "mr_memory_id prev \<in> row_ids (ms_records s1)" using prev_id(1) by (simp add: recs)
  have j2: "joining nfkc sha G (mr_memory_id r) (mr_scope r) key s2"
    by (rule joining_retire [OF j1 superseded_left(1) _ _ _ _ 2])
      (use prev_id known only ghost in \<open>simp_all add: superseded_left(2)\<close>)
  note eff = update_effect [OF 2 known [folded superseded_left(2) [of sha now "mr_memory_id r" pk prev]],
      unfolded superseded_left(2)]
  have gone2: "gone_ids (ms_records s2) = insert (mr_memory_id prev) (insert (mr_memory_id r) (gone_ids (ms_records s)))"
    using left_out [OF superseded_left(1)] rf(3) by (auto simp: eff(3) recs w)
  have ctx2: "context_ids b (ms_records s2) = context_ids b (ms_records s) - {mr_memory_id prev}" for b
    using left_out [OF superseded_left(1)] by (simp add: eff(2) ctx1)
  have new_out: "mr_memory_id r \<notin> context_ids b (ms_records s2)" for b
    using not_in_context(1) [OF a(3)] rf(1) by (simp add: ctx2)
  have ident1: "canonical_memory_fact_identity nfkc sha (mr_scope r) (mr_scope_owner_ref r) (mr_category r)
      (mr_content r) = Inr (n, key)" using ident by (simp add: a(2) r0 new_record_fields)
  have m: "tables_ok nfkc sha G s3" "ms_outbox s3 = ms_outbox s2"
    "gone_ids (ms_records s3) = gone_ids (ms_records s2) - {mr_memory_id r}"
    "mr_memory_id r1 = mr_memory_id r"
    using materialize_joins [OF j2 ident1 rf(4) _ _ _ 3] new_out prev_id(2) by (auto simp: ctx2)
  have gone3: "gone_ids (ms_records s3) = insert (mr_memory_id prev) (gone_ids (ms_records s))"
    using not_in_context(2) [OF a(3)] rf(1) prev_id(2) by (auto simp: m(3) gone2)
  have ob: "ms_outbox s3 = ms_outbox s" by (simp add: m(2) eff(7) a(4))
  have "memory_ok nfkc sha G s4 \<and> ms_records s4 = ms_records s3"
    by (rule enqueue_tombstone_moves [OF m(1) _ _ 4]) (use ok in \<open>simp_all add: memory_ok_def fence_ok_def ob gone3\<close>)
  moreover have "mr_memory_id r1 \<notin> gone_ids (ms_records s3)"
    by (simp add: m(3,4))
  ultimately show ?thesis using enqueue_materialized_ok [OF _ _ 5] by auto
qed

section \<open>Accepting and committing\<close>

lemma accept_ok:
  assumes ok: "memory_ok nfkc sha G s"
    and call: "accept_memory_proposal nfkc sha parse_f32 uuids now x s = Inr (report, s')"
  shows "memory_ok nfkc sha G s'"
proof -
  define f where "f = ai_fact x"
  from call obtain n key where ident: "canonical_memory_fact_identity nfkc sha (fd_scope f) (fd_scope_owner_ref f)
      (fd_category f) (fd_canonical_body f) = Inr (n, key)"
    by (auto simp: accept_memory_proposal_def f_def Let_def case_prod_beta)
  let ?digest = "memory_fact_admission_digest sha key f"
  from call ident consider
      (replay) l where "accept_replay sha uuids now f key ?digest l s = Inr (report, s')"
    | (correction) c target where "accept_correction nfkc sha uuids now x key ?digest c target s = Inr (report, s')"
    | (shared) r where "active_record_by_fact_key key s = Some r"
        "accept_alias sha uuids now (ai_proposal_id x) f key ?digest r s = Inr (report, s')"
    | (new) c result where "accept_new sha uuids now f key ?digest
          (new_memory_record (''memory:'' @ mu_memory uuids) (ai_proposal_id x) (ai_source_task_id x)
            (ai_source_run_id x) f (ai_created_by x) (ai_accepted_by x) now (ai_evidence_ids x) c
            (ai_conflict_ids x) None) s = Inr (result, s')"
    unfolding accept_memory_proposal_def f_def [symmetric]
    by (auto simp: Let_def case_prod_beta split: option.splits if_splits)
  then show ?thesis
  proof cases
    case replay
    then show ?thesis by (rule accept_replay_ok [OF ok])
  next
    case correction
    then show ?thesis by (rule accept_correction_ok [OF ok f_def ident])
  next
    case shared
    then show ?thesis by (rule accept_alias_ok [OF ok])
  next
    case new
    then show ?thesis by (rule accept_new_ok [OF ok, rotated 3]) (use ident in \<open>simp_all add: new_record_fields\<close>)
  qed
qed

lemma explicit_ok:
  assumes ok: "memory_ok nfkc sha G s"
    and call: "commit_explicit_user_memory nfkc ser sha uuids now p x s = Inr (report, s')"
  shows "memory_ok nfkc sha G s'"
proof -
  define f where "f = xi_fact x"
  from call obtain n key where ident: "canonical_memory_fact_identity nfkc sha (fd_scope f) (fd_scope_owner_ref f)
      (fd_category f) (fd_canonical_body f) = Inr (n, key)"
    by (auto simp: commit_explicit_user_memory_def f_def Let_def case_prod_beta)
  let ?digest = "memory_fact_admission_digest sha key f"
  define pid where "pid = ''explicit_memory:'' @ digest_length_delimited_values sha
    ''openlife_explicit_memory_admission_id_v1'' [xi_source_message_id x, key]"
  from call ident consider
      (replay) l where "explicit_replay sha uuids now x key ?digest (digest_label sha (fd_canonical_body f)) l s =
        Inr (report, s')"
    | (shared) r s1 where "active_record_by_fact_key key s = Some r"
        "link_proposal_to_memory pid (mr_memory_id r) key ?digest (fd_risk_level f) (fd_sensitivity f) now s = Inr s1"
        "explicit_existing sha uuids now x key (digest_label sha (fd_canonical_body f)) AliasLinked now r s1 =
          Inr (report, s')"
    | (new) result where "accept_new sha uuids now f key ?digest
          (new_memory_record (''memory:'' @ mu_memory uuids) pid (xi_source_task_id x)
            (xi_source_run_id x) f ''current_authenticated_user_message''
            ''user_explicit_instruction'' now [xi_source_message_id x] 0x3F800000 [] None) s = Inr (result, s')"
    unfolding commit_explicit_user_memory_def f_def [symmetric]
    by (auto simp: Let_def case_prod_beta pid_def split: option.splits if_splits)
  then show ?thesis
  proof cases
    case replay
    then show ?thesis by (rule explicit_replay_ok [OF ok])
  next
    case shared
    then show ?thesis using linked_kept [OF active_fact_kept [OF ok shared(1)] shared(2)] explicit_existing_ok by blast
  next
    case new
    then show ?thesis by (rule accept_new_ok [OF ok, rotated 3]) (use ident in \<open>simp_all add: new_record_fields\<close>)
  qed
qed

section \<open>Dispositions\<close>

lemma upsert_retrieval_mem:
  "x \<in> set (ms_retrieval (upsert_retrieval y s)) \<Longrightarrow> x = y \<or> x \<in> set (ms_retrieval s)"
  by (auto simp: upsert_retrieval_def Let_def elim!: update_whereE split: if_splits)

lemma upsert_retrieval_distinct:
  "distinct (map rs_memory_id (ms_retrieval s)) \<Longrightarrow> distinct (map rs_memory_id (ms_retrieval (upsert_retrieval y s)))"
  using map_update_where [of "\<lambda>z. rs_memory_id z = rs_memory_id y" rs_memory_id "\<lambda>_. y" "ms_retrieval s"]
  by (auto simp: upsert_retrieval_def Let_def)

lemma upsert_retrieval_frame [simp]:
  "ms_records (upsert_retrieval y s) = ms_records s" "ms_links (upsert_retrieval y s) = ms_links s"
  "ms_views (upsert_retrieval y s) = ms_views s" "ms_outbox (upsert_retrieval y s) = ms_outbox s"
  "ms_rollbacks (upsert_retrieval y s) = ms_rollbacks s" "stored (upsert_retrieval y s) = stored s"
  by (simp_all add: upsert_retrieval_def Let_def fun_eq_iff)

lemma write_disposition_ok:
  assumes ok: "memory_ok nfkc sha G s" and known: "mid \<in> row_ids (ms_records s)"
    and call: "write_disposition sha nonce event_uuid now disposition reason mid s = Inr (result, s')"
  shows "memory_ok nfkc sha G s' \<and> ms_records s' = ms_records s"
proof -
  from call obtain r ob where enq: "enqueue_mutation MEMORY_LIFECYCLE_RETRIEVAL_AGGREGATE_KIND
      (lifecycle_retrieval_aggregate_id sha mid) (disposition_as_str disposition)
      (metadata_digest sha (join_with '':'' [''memory_lifecycle_retrieval'', mid,
        disposition_as_str disposition, nonce])) [''vector_store''] event_uuid now (ms_outbox s) = Inr (r, ob)"
    and s': "s' = upsert_retrieval \<lparr>rs_memory_id = mid, rs_disposition = disposition,
        rs_revision = ev_aggregate_revision r, rs_last_event_id = ev_event_id r,
        rs_reason_digest = metadata_digest sha reason, rs_changed_at = ev_created_at r\<rparr> (s\<lparr>ms_outbox := ob\<rparr>)"
    unfolding write_disposition_def Let_def by (auto split: if_splits)
  have cur: "current (ms_outbox s)" and fence: "fenced (ms_outbox s) = Pair MEMORY_LIFECYCLE_AGGREGATE_KIND ` gone_ids (ms_records s)"
    and tables: "tables_ok nfkc sha G s"
    using ok by (auto simp: memory_ok_tables fence_ok_def)
  have free: "(MEMORY_LIFECYCLE_RETRIEVAL_AGGREGATE_KIND, lifecycle_retrieval_aggregate_id sha mid) \<notin> fenced (ms_outbox s)"
    by (auto simp: fence MEMORY_LIFECYCLE_RETRIEVAL_AGGREGATE_KIND_def MEMORY_LIFECYCLE_AGGREGATE_KIND_def)
  note w = write_ok [OF cur free enq]
  have t1: "tables_ok nfkc sha G (s\<lparr>ms_outbox := ob\<rparr>)" using tables_outbox [OF tables] w by blast
  have same: "retrieval_row_ok sha s' x = retrieval_row_ok sha (s\<lparr>ms_outbox := ob\<rparr>) x" for x
    by (simp add: retrieval_row_ok_def s')
  have new: "retrieval_row_ok sha s' x" if "rs_memory_id x = mid" "rs_disposition x = disposition"
    "rs_revision x = ev_aggregate_revision r" "rs_last_event_id x = ev_event_id r" for x
    using w known that by (simp add: retrieval_row_ok_def s')
  have "retrieval_ok sha s'"
    unfolding retrieval_ok_def
  proof
    show "distinct (map rs_memory_id (ms_retrieval s'))"
      unfolding s' by (rule upsert_retrieval_distinct) (use t1 in \<open>simp add: tables_ok_def retrieval_ok_def\<close>)
    show "\<forall>x \<in> set (ms_retrieval s'). retrieval_row_ok sha s' x"
    proof
      fix x assume "x \<in> set (ms_retrieval s')"
      then consider "rs_memory_id x = mid" "rs_disposition x = disposition"
          "rs_revision x = ev_aggregate_revision r" "rs_last_event_id x = ev_event_id r"
        | "x \<in> set (ms_retrieval (s\<lparr>ms_outbox := ob\<rparr>))"
        unfolding s' by (auto dest: upsert_retrieval_mem)
      then show "retrieval_row_ok sha s' x"
      proof cases
        case 1
        then show ?thesis by (rule new)
      next
        case 2
        with t1 show ?thesis unfolding same by (simp add: tables_ok_def retrieval_ok_def)
      qed
    qed
  qed
  with t1 w fence show ?thesis
    by (simp add: memory_ok_def tables_ok_def memory_rows_ok_def views_ok_def links_ok_def fence_ok_def find_view_def s')
qed

lemma set_disposition_ok:
  assumes "memory_ok nfkc sha G s" "mid \<in> row_ids (ms_records s)"
    and "set_disposition_in_transaction sha nonce event_uuid now disposition reason mid s = Inr (result, s')"
  shows "memory_ok nfkc sha G s' \<and> ms_records s' = ms_records s"
  using assms(3) assms(1) write_disposition_ok [OF assms(1,2)]
  unfolding set_disposition_in_transaction_def
  by (auto split: option.splits if_splits)

lemma dispositions_fold_ok:
  assumes "memory_ok nfkc sha G s" "set mids \<subseteq> row_ids (ms_records s)"
    and "res_fold (\<lambda>(done, s1) mid.
       res_bind (set_disposition_in_transaction sha (fst (uuids mid)) (snd (uuids mid)) now
         disposition reason mid s1) (\<lambda>(x, s2). Inr (done @ [x], s2))) (acc, s) mids = Inr (result, s')"
  shows "memory_ok nfkc sha G s' \<and> ms_records s' = ms_records s"
  using assms
proof (induction mids arbitrary: acc s)
  case Nil
  then show ?case by simp
next
  case (Cons mid mids)
  from Cons.prems(3) obtain x s1 where
    1: "set_disposition_in_transaction sha (fst (uuids mid)) (snd (uuids mid)) now disposition reason mid s = Inr (x, s1)"
    and 2: "res_fold (\<lambda>(done, s1) mid.
       res_bind (set_disposition_in_transaction sha (fst (uuids mid)) (snd (uuids mid)) now
         disposition reason mid s1) (\<lambda>(x, s2). Inr (done @ [x], s2))) (acc @ [x], s1) mids = Inr (result, s')"
    by auto
  have "memory_ok nfkc sha G s1 \<and> ms_records s1 = ms_records s"
    using set_disposition_ok [OF Cons.prems(1) _ 1] Cons.prems(2) by simp
  with Cons.IH [OF _ _ 2] Cons.prems(2) show ?case by simp
qed

lemma dispositions_ok:
  assumes ok: "memory_ok nfkc sha G s"
    and call: "set_memory_retrieval_dispositions sha uuids now mids disposition reason s = Inr (result, s')"
  shows "memory_ok nfkc sha G s' \<and> ms_records s' = ms_records s"
proof -
  from call have "check_disposition_batch mids reason s = Inr ()" and
    fold: "res_fold (\<lambda>(done, s1) mid.
       res_bind (set_disposition_in_transaction sha (fst (uuids mid)) (snd (uuids mid)) now
         disposition reason mid s1) (\<lambda>(x, s2). Inr (done @ [x], s2))) ([], s) mids = Inr (result, s')"
    by (auto simp: set_memory_retrieval_dispositions_def)
  then have "list_all (\<lambda>m. is_current m s) mids" by (simp add: check_disposition_batch_def)
  then have "set mids \<subseteq> row_ids (ms_records s)" by (force simp: list_all_iff is_current_def row_ids_def)
  then show ?thesis by (rule dispositions_fold_ok [OF ok _ fold])
qed

section \<open>The machine\<close>

datatype memory_call =
  MemoryAccept MemoryLifecycleAcceptanceInput
| MemoryExplicit ExplicitMemoryAdmissionProof ExplicitMemoryWriteInput
| MemoryRollback string string string
| MemoryErase string
| MemoryDispositions "string \<Rightarrow> string \<times> string" "string list" MemoryRetrievalDisposition string
| MemoryRebuild "MemoryLifecycleScope option"
| MemoryApplied string string
| MemoryDegraded string string string
| MemoryAppliedIfHead string nat string
| MemoryCompensated string string nat string

text \<open>The parameters of the model in one record.\<close>

record memory_env =
  en_nfkc :: "string \<Rightarrow> string"
  en_sha :: "string \<Rightarrow> string"
  en_ser :: "json \<Rightarrow> string"
  en_parse_f32 :: "string \<Rightarrow> 32 word option"

fun memory_step ::
  "memory_env \<Rightarrow> int \<times> memory_uuids \<times> memory_call \<Rightarrow> memory_store \<Rightarrow> memory_error + memory_store"
where
  "memory_step en (now, uuids, MemoryAccept x) s =
     after (accept_memory_proposal (en_nfkc en) (en_sha en) (en_parse_f32 en) uuids now x s)"
| "memory_step en (now, uuids, MemoryExplicit p x) s =
     after (commit_explicit_user_memory (en_nfkc en) (en_ser en) (en_sha en) uuids now p x s)"
| "memory_step en (now, uuids, MemoryRollback mid requested_by reason) s =
     after (rollback_memory_asset (en_sha en) uuids now mid requested_by reason s)"
| "memory_step en (now, uuids, MemoryErase mid) s =
     after (privacy_erase_memory_asset (en_sha en) uuids now mid s)"
| "memory_step en (now, uuids, MemoryDispositions pairs mids disposition reason) s =
     after (set_memory_retrieval_dispositions (en_sha en) pairs now mids disposition reason s)"
| "memory_step en (now, uuids, MemoryRebuild scope) s =
     Inr (snd (rebuild_materialized_view (en_sha en) now scope s))"
| "memory_step en (now, uuids, MemoryApplied event_id target) s =
     after (mark_memory_projection_applied event_id target now s)"
| "memory_step en (now, uuids, MemoryDegraded event_id target err) s =
     after (mark_memory_projection_degraded (en_sha en) event_id target err now s)"
| "memory_step en (now, uuids, MemoryAppliedIfHead event_id revision target) s =
     after (mark_retrieval_applied_if_head event_id revision target now s)"
| "memory_step en (now, uuids, MemoryCompensated stale head revision target) s =
     after (mark_retrieval_compensated_to_head stale head revision target now s)"

lemma marked_ok:
  assumes "memory_ok nfkc sha G s" "marked (ms_outbox s) ob"
  shows "memory_ok nfkc sha G (s\<lparr>ms_outbox := ob\<rparr>)"
  using assms mark_ok [OF assms(2)] tables_outbox [of nfkc sha G s ob]
  by (simp add: memory_ok_tables fence_ok_def)

lemma erase_kept_ghost:
  assumes ok: "memory_ok nfkc sha G s" and g: "g \<in> G" "mr_content g = []" "mid = mr_memory_id g"
  shows "privacy_erase_memory_asset sha uuids now mid s \<noteq> Inr x"
proof -
  from ok g(1) obtain w where w: "w \<in> set (ms_records s)" "mw_record w = g"
    by (auto simp: memory_ok_def memory_rows_ok_def stored_def)
  have "find_memory mid s = Some g"
    using find_key_distinct [of mw_id "ms_records s" w] ok w g(3)
    by (simp add: find_memory_def memory_ok_def memory_rows_ok_def memory_rows_unique_def)
  with g(2) show ?thesis by (simp add: privacy_erase_memory_asset_def)
qed

text \<open>A record in \<open>G\<close> stays, unless it is erased now.\<close>

lemma memory_step_ok:
  assumes ok: "memory_ok (en_nfkc en) (en_sha en) G s" and step: "memory_step en (now, uuids, call) s = Inr s'"
    and G: "\<forall>g \<in> G. mr_content g = [] \<or> call \<noteq> MemoryErase (mr_memory_id g)"
  shows "memory_ok (en_nfkc en) (en_sha en) G s'"
proof (cases call)
  case (MemoryErase mid)
  with step obtain x where x: "privacy_erase_memory_asset (en_sha en) uuids now mid s = Inr (x, s')" by auto
  have "\<forall>g \<in> G. mr_memory_id g \<noteq> mid" using G MemoryErase erase_kept_ghost [OF ok] x by blast
  then show ?thesis using erase_ok [OF ok _ x] by blast
next
  case (MemoryRebuild scope)
  obtain v s1 where re: "rebuild_view (en_sha en) now scope None None s = (v, s1)" by fastforce
  then have "s' = s1" using step by (simp add: MemoryRebuild rebuild_materialized_view_def)
  with re show ?thesis using rebuild_all_ok [OF ok] rebuild_ok [OF ok, of None] by (cases scope) auto
qed (use step ok in \<open>auto simp: mark_memory_projection_applied_def mark_memory_projection_degraded_def
    mark_retrieval_applied_if_head_def mark_retrieval_compensated_to_head_def
    intro: accept_ok explicit_ok rollback_ok marked_ok marks_marked dest: dispositions_ok\<close>)

interpretation memory_machine: guarded_machine "memory_step en" "memory_ok (en_nfkc en) (en_sha en) {}" for en
proof
  fix s c s'
  assume "memory_ok (en_nfkc en) (en_sha en) {} s" "memory_step en c s = Inr s'"
  then show "memory_ok (en_nfkc en) (en_sha en) {} s'" by (cases c) (auto intro: memory_step_ok)
qed

end
