(* ===== verification/Memory_Claims.thy ===== *)
theory Memory_Claims
  imports Memory_Steps Outbox_Claims
begin

text \<open>
  What the memory store promises its users. In every store that any calls reach, the context and its
  views are what the records say; a memory that left the context is gone for retrieval, for the views
  and for the projections, whatever is called later. A run of four calls shows what the erasure of a
  memory does not promise.
\<close>

section \<open>Reached stores\<close>

lemma memory_reached: "memory_ok (en_nfkc en) (en_sha en) {} (attempts (memory_step en) cs empty_memory_store)"
  by (rule memory_machine.attempts_inv [OF memory_ok_empty])

lemma find_memory_iff:
  assumes "memory_ok nfkc sha G s"
  shows "find_memory mid s = Some r \<longleftrightarrow> stored s r \<and> mr_memory_id r = mid"
proof
  assume "find_memory mid s = Some r"
  then show "stored s r \<and> mr_memory_id r = mid"
    by (elim find_memory_row) (auto simp: stored_def)
next
  assume r: "stored s r \<and> mr_memory_id r = mid"
  then obtain w where w: "w \<in> set (ms_records s)" "mw_record w = r" by (auto simp: stored_def)
  with assms r find_key_distinct [of mw_id "ms_records s" w] show "find_memory mid s = Some r"
    by (simp add: find_memory_def memory_ok_def memory_rows_ok_def memory_rows_unique_def)
qed

lemma stored_records: "stored s r \<longleftrightarrow> r \<in> set (memory_records s)"
  by (auto simp: stored_def memory_records_def)

lemma stored_life:
  assumes "memory_ok nfkc sha G s" "stored s r"
  shows "in_context r \<or> left r"
proof -
  from assms obtain w where "mw_record w = r" "row_ok nfkc sha w"
    by (auto simp: stored_def memory_ok_def memory_rows_ok_def)
  then show ?thesis by (auto simp: row_ok_def Let_def)
qed

lemma gone_stored:
  assumes "memory_ok nfkc sha G s"
  shows "mid \<in> gone_ids (ms_records s) \<longleftrightarrow> (\<exists>r. find_memory mid s = Some r \<and> left r)"
  using stored_life [OF assms] left_out
  by (auto simp: find_memory_iff [OF assms] gone_ids_def stored_def)

lemma fence_gone:
  assumes "memory_ok nfkc sha G s"
  shows "exists_where (active_tombstone MEMORY_LIFECYCLE_AGGREGATE_KIND mid) (ob_tombstones (ms_outbox s)) \<longleftrightarrow>
    mid \<in> gone_ids (ms_records s)"
proof -
  have "exists_where (active_tombstone MEMORY_LIFECYCLE_AGGREGATE_KIND mid) (ob_tombstones (ms_outbox s)) \<longleftrightarrow>
      (MEMORY_LIFECYCLE_AGGREGATE_KIND, mid) \<in> fenced (ms_outbox s)"
    by (simp add: fenced_def)
  also have "\<dots> \<longleftrightarrow> mid \<in> gone_ids (ms_records s)" using assms by (auto simp: memory_ok_def fence_ok_def)
  finally show ?thesis .
qed

text \<open>A memory that left: it stays out of the context, also when its record is erased.\<close>

lemma with_ghost:
  "memory_ok nfkc sha {} s \<Longrightarrow> stored s g \<Longrightarrow> left g \<Longrightarrow> memory_ok nfkc sha {g} s"
  by (simp add: memory_ok_def memory_rows_ok_def)

lemma without_ghost: "memory_ok nfkc sha G s \<Longrightarrow> memory_ok nfkc sha {} s"
  by (simp add: memory_ok_def memory_rows_ok_def)

lemma ghost_found:
  "memory_ok nfkc sha {g} s \<Longrightarrow> find_memory (mr_memory_id g) s = Some g \<and> left g"
  using find_memory_iff [of nfkc sha "{g}" s "mr_memory_id g" g] by (simp add: memory_ok_def memory_rows_ok_def)

interpretation departed_memory: frozen_machine "memory_step en"
  "\<lambda>s. memory_ok (en_nfkc en) (en_sha en) {} s \<and> (\<exists>r. find_memory mid s = Some r \<and> left r)" "\<lambda>s. ()"
  for en mid
proof
  fix s s' c
  assume s: "memory_ok (en_nfkc en) (en_sha en) {} s \<and> (\<exists>r. find_memory mid s = Some r \<and> left r)"
    and step: "memory_step en c s = Inr s'"
  obtain now uuids call where c: "c = (now, uuids, call)" by (cases c)
  from s obtain r where r: "stored s r" "mr_memory_id r = mid" "left r" using find_memory_iff by blast
  have ok': "memory_ok (en_nfkc en) (en_sha en) {} s'" using memory_machine.preserve step s by blast
  have "\<exists>r. find_memory mid s' = Some r \<and> left r"
  proof (cases "call = MemoryErase mid")
    case True
    with step obtain report where "privacy_erase_memory_asset (en_sha en) uuids now mid s = Inr (report, s')"
      by (auto simp: c)
    with s erase_ok obtain r' where r': "mr_memory_id r' = mid" "stored s' (erased_record (en_sha en) now r')" by blast
    then have "find_memory mid s' = Some (erased_record (en_sha en) now r')"
      using find_memory_iff [OF ok'] by (simp add: erased_record_def Let_def)
    then show ?thesis by (auto simp: erased_left)
  next
    case False
    have "memory_ok (en_nfkc en) (en_sha en) {r} s'"
      using memory_step_ok [OF with_ghost [OF _ r(1,3)] step [unfolded c]] s False r(2) by blast
    with r(2) show ?thesis using ghost_found by metis
  qed
  with ok' show "(memory_ok (en_nfkc en) (en_sha en) {} s' \<and> (\<exists>r. find_memory mid s' = Some r \<and> left r)) \<and> () = ()"
    by simp
qed

text \<open>An erased record is final.\<close>

interpretation erased_memory: frozen_machine "memory_step en"
  "\<lambda>s. \<exists>g. mr_memory_id g = mid \<and> mr_content g = [] \<and> memory_ok (en_nfkc en) (en_sha en) {g} s" "find_memory mid"
  for en mid
proof
  fix s s' c
  assume "\<exists>g. mr_memory_id g = mid \<and> mr_content g = [] \<and> memory_ok (en_nfkc en) (en_sha en) {g} s"
    and step: "memory_step en c s = Inr s'"
  then obtain g where g: "mr_memory_id g = mid" "mr_content g = []" "memory_ok (en_nfkc en) (en_sha en) {g} s" by blast
  obtain now uuids call where c: "c = (now, uuids, call)" by (cases c)
  have "memory_ok (en_nfkc en) (en_sha en) {g} s'"
    using memory_step_ok [OF g(3) step [unfolded c]] g(2) by simp
  with g ghost_found [OF g(3)] ghost_found [of "en_nfkc en" "en_sha en" g s']
  show "(\<exists>g. mr_memory_id g = mid \<and> mr_content g = [] \<and> memory_ok (en_nfkc en) (en_sha en) {g} s') \<and>
      find_memory mid s' = find_memory mid s" by auto
qed

section \<open>Projections of a memory that left\<close>

lemma heads_agree:
  assumes "events_ok o1" "ev \<in> set (ob_events o1)" "ev' \<in> set (ob_events o1)" "is_head o1 ev" "is_head o1 ev'"
    and "in_aggregate kind aid ev" "in_aggregate kind aid ev'"
  shows "ev = ev'"
  using head_eventI [OF assms(1,2,4)] head_eventI [OF assms(1,3,5)] assms(6,7)
  by (simp add: in_aggregate_def)

text \<open>While an aggregate has an active tombstone, its deliveries carry that tombstone.\<close>

lemma fenced_deliveries:
  assumes cur: "current o1" and fence: "exists_where (active_tombstone kind aid) (ob_tombstones o1)"
    and listed: "list_replayable_deliveries limit o1 = Inr xs" "x \<in> set xs" and x: "in_aggregate kind aid (pd_event x)"
  shows "ev_tombstone_id (pd_event x) \<noteq> None"
proof -
  from cur have ok: "events_ok o1" "tombstones_ok o1" "open_current o1" "fence_current o1"
    by (simp_all add: current_def outbox_inv_def)
  from listed obtain d where d: "d \<in> set (ob_deliveries o1)" "replayable o1 d" "row_to_delivery o1 d = Inr x"
    by (rule list_replayable_mem)
  from d(3) have ev: "find_event o1 (dl_event_id d) = Some (pd_event x)" by (auto simp: row_to_delivery_def)
  have head: "is_head o1 (pd_event x)" using ok(3) d(1,2) ev by (auto simp: open_current_def replayable_def)
  from fence obtain tb where tb: "tb \<in> set (ob_tombstones o1)" "active_tombstone kind aid tb" by auto
  from tombstones_okD(4) [OF ok(2) tb(1)] obtain ev where gone: "ev \<in> set (ob_events o1)"
    "ev_tombstone_id ev = Some (tb_tombstone_id tb)" "in_aggregate kind aid ev"
    using tb(2) by (auto simp: active_tombstone_def)
  moreover have "is_head o1 ev" using ok(4) tb gone(1,2) by (auto simp: fence_current_def active_tombstone_def)
  ultimately have "pd_event x = ev"
    using find_event_mem [OF ev] head x by (intro heads_agree [OF ok(1)]) simp_all
  with gone(2) show ?thesis by simp
qed

section \<open>Properties\<close>

text \<open>What the view of a scope lists; a view that was never built lists nothing.\<close>

definition listed_ids :: "MemoryLifecycleScope \<Rightarrow> memory_store \<Rightarrow> string list" where
  "listed_ids sc s = (case find_view (view_id_for_scope (Some sc)) s of None \<Rightarrow> [] | Some v \<Rightarrow> mv_active_memory_ids v)"

lemma listed_context:
  assumes "memory_ok nfkc sha G s"
  shows "listed_ids sc s = sorted_list_of_set (context_ids sc (ms_records s))"
proof -
  have "view_lists (context_ids sc (ms_records s)) (find_view (view_id_for_scope (Some sc)) s)"
    using assms by (simp add: memory_ok_def views_ok_def)
  then show ?thesis
    by (cases "find_view (view_id_for_scope (Some sc)) s") (simp_all add: view_lists_def listed_ids_def)
qed

definition identity_of :: "memory_env \<Rightarrow> MemoryLifecycleRecord \<Rightarrow> memory_error + string \<times> string" where
  "identity_of en r = canonical_memory_fact_identity (en_nfkc en) (en_sha en) (mr_scope r) (mr_scope_owner_ref r)
     (mr_category r) (mr_content r)"

lemma identity_owner:
  assumes ok: "memory_ok (en_nfkc en) (en_sha en) G s" and r: "stored s r1" "in_context r1" "stored s r2" "in_context r2"
    and same: "identity_of en r1 = identity_of en r2"
  shows "r1 = r2"
proof -
  from r obtain w1 w2 where w: "w1 \<in> set (ms_records s)" "mw_record w1 = r1" "w2 \<in> set (ms_records s)" "mw_record w2 = r2"
    by (auto simp: stored_def)
  have rows: "distinct (map mw_fact_key (filter owns_fact (ms_records s)))" "\<forall>w \<in> set (ms_records s). row_ok (en_nfkc en) (en_sha en) w"
    using ok by (simp_all add: memory_ok_def memory_rows_ok_def memory_rows_unique_def)
  have "mw_fact_key w1 = mw_fact_key w2"
    using row_ok_ident [of "en_nfkc en" "en_sha en" w1] row_ok_ident [of "en_nfkc en" "en_sha en" w2] rows(2) w r(2,4) same
    by (fastforce simp: identity_of_def)
  moreover have "w1 \<in> set (filter owns_fact (ms_records s))" "w2 \<in> set (filter owns_fact (ms_records s))"
    using w r(2,4) by (auto simp: owns_fact_def in_context_def)
  ultimately have "w1 = w2" using rows(1) unfolding distinct_map inj_on_def by blast
  with w show ?thesis by simp
qed

text \<open>
  C36. The memory store stays sound. In every store that any calls reach, each record is in the context
  or has left it for good (superseded or rolled back, nothing to materialise, excluded). The view of a
  scope lists exactly the records of the context in that scope, in order and once. Two records of the
  context never hold the same fact, so one call cannot remember what another call remembers already.
  The outbox has an active deletion fence for exactly the memories that left, and each admission link
  leads to a record.
\<close>

theorem memory_store_stays_sound:
  fixes en cs
  defines "s \<equiv> attempts (memory_step en) cs empty_memory_store"
  shows "(\<forall>r \<in> set (memory_records s). in_context r \<noteq> left r) \<and>
    (\<forall>sc. listed_ids sc s = sorted_list_of_set
       {mr_memory_id r | r. r \<in> set (memory_records s) \<and> in_context r \<and> mr_scope r = sc}) \<and>
    (\<forall>r1 \<in> set (memory_records s). \<forall>r2 \<in> set (memory_records s).
       in_context r1 \<and> in_context r2 \<and> identity_of en r1 = identity_of en r2 \<longrightarrow> r1 = r2) \<and>
    (\<forall>r \<in> set (memory_records s).
       exists_where (active_tombstone MEMORY_LIFECYCLE_AGGREGATE_KIND (mr_memory_id r)) (ob_tombstones (ms_outbox s)) \<longleftrightarrow> left r) \<and>
    (\<forall>l \<in> set (ms_links s). find_memory (lk_memory_id l) s \<noteq> None) \<and> outbox_inv (ms_outbox s)"
proof -
  have ok: "memory_ok (en_nfkc en) (en_sha en) {} s" unfolding s_def by (rule memory_reached)
  have "context_ids sc (ms_records s) = {mr_memory_id r | r. r \<in> set (memory_records s) \<and> in_context r \<and> mr_scope r = sc}" for sc
    by (auto simp: context_ids_def memory_records_def)
  then have views: "listed_ids sc s = sorted_list_of_set
      {mr_memory_id r | r. r \<in> set (memory_records s) \<and> in_context r \<and> mr_scope r = sc}" for sc
    using listed_context [OF ok] by simp
  have fence: "exists_where (active_tombstone MEMORY_LIFECYCLE_AGGREGATE_KIND (mr_memory_id r)) (ob_tombstones (ms_outbox s)) \<longleftrightarrow> left r"
    if "stored s r" for r
    using that fence_gone [OF ok] gone_stored [OF ok] find_memory_iff [OF ok] by (metis option.inject)
  have links: "find_memory (lk_memory_id l) s \<noteq> None" if "l \<in> set (ms_links s)" for l
    using that ok find_memory_iff [OF ok] by (fastforce simp: memory_ok_def links_ok_def row_ids_def stored_def)
  have "outbox_inv (ms_outbox s)" using ok by (simp add: memory_ok_def fence_ok_def current_def)
  with views fence links show ?thesis
    using stored_life [OF ok] left_out identity_owner [OF ok] unfolding stored_records by blast
qed


section \<open>A run\<close>

text \<open>
  Two proposals ask for the same fact, the second becomes an alias of the first; the memory is erased; the
  second proposal is accepted again. The hash of the run is constant. Each call is evaluated on the store
  before it, which is written out.
\<close>

definition tea_hash :: "string \<Rightarrow> string" where
  "tea_hash s = replicate 64 (CHR ''0'')"

definition tea_env :: memory_env where
  "tea_env = \<lparr>en_nfkc = (\<lambda>s. s), en_sha = tea_hash, en_ser = (\<lambda>_. []), en_parse_f32 = (\<lambda>_. Some 0)\<rparr>"

definition tea_key :: string where
  "tea_key = ''memory_fact_v2:sha256:'' @ tea_hash []"

definition tea_uuids :: "string \<Rightarrow> memory_uuids" where
  "tea_uuids x = \<lparr>mu_memory = x, mu_nonce = x, mu_event = ''e'' @ x, mu_rollback = x,
     mu_tombstone = x, mu_tombstone_event = ''t'' @ x\<rparr>"

definition tea_fact :: CanonicalMemoryFactDescriptor where
  "tea_fact = \<lparr>fd_canonical_body = ''tea'', fd_scope = MemGlobal, fd_scope_owner_ref = None,
     fd_category = CategoryFact, fd_risk_level = MemLow, fd_sensitivity = MemInternal\<rparr>"

definition tea_input :: "string \<Rightarrow> MemoryLifecycleAcceptanceInput" where
  "tea_input pid =
     \<lparr>ai_proposal_id = pid, ai_source_task_id = None, ai_source_run_id = None,
      ai_fact = tea_fact, ai_created_by = ''agent'', ai_accepted_by = ''user'', ai_evidence_ids = [],
      ai_confidence = ''0.000'', ai_conflict_ids = [], ai_supersedes_memory_id = None\<rparr>"

definition tea_calls :: "(int \<times> memory_uuids \<times> memory_call) list" where
  "tea_calls =
     [(1, tea_uuids ''1'', MemoryAccept (tea_input ''p'')), (2, tea_uuids ''2'', MemoryAccept (tea_input ''q'')),
      (3, tea_uuids ''3'', MemoryErase ''memory:1'')]"

definition tea_replay :: "(int \<times> memory_uuids \<times> memory_call) list" where
  "tea_replay = [(4, tea_uuids ''4'', MemoryAccept (tea_input ''q''))]"

definition tea_new :: MemoryLifecycleRecord where
  "tea_new = new_memory_record ''memory:1'' ''p'' None None tea_fact ''agent'' ''user'' 1 [] 0 [] None"

definition tea_memory :: MemoryLifecycleRecord where
  "tea_memory = tea_new\<lparr>mr_audit_digest := memory_record_audit_digest tea_hash tea_new tea_key,
     mr_status := MemMaterialized, mr_materialization_status := MatMaterialized,
     mr_materialized_view_id := Some (view_id_for_scope (Some MemGlobal)),
     mr_materialized_view_version := Some 1\<rparr>"

definition tea_row :: "MemoryLifecycleRecord \<Rightarrow> int \<Rightarrow> memory_row" where
  "tea_row r now = \<lparr>mw_record = r, mw_fact_key = tea_key, mw_created_at = 1, mw_updated_at = now\<rparr>"

definition tea_link :: "string \<Rightarrow> int \<Rightarrow> MemoryAdmissionLink" where
  "tea_link pid now = \<lparr>lk_proposal_id = pid, lk_memory_id = ''memory:1'', lk_admitted_memory_id = ''memory:1'',
     lk_fact_key = tea_key, lk_admission_digest = memory_fact_admission_digest tea_hash tea_key tea_fact,
     lk_risk_level = MemLow, lk_sensitivity = MemInternal, lk_linked_at = now\<rparr>"

definition tea_view :: "int \<Rightarrow> nat \<Rightarrow> string list \<Rightarrow> MemoryMaterializedView" where
  "tea_view now version ids =
     \<lparr>mv_materialized_view_id = view_id_for_scope (Some MemGlobal), mv_scope = Some MemGlobal,
      mv_version = version, mv_active_memory_ids = ids,
      mv_runtime_surface_ids = [runtime_surface_id_for_scope (Some MemGlobal)], mv_updated_at = now,
      mv_content_digest = digest_label tea_hash (view_id_for_scope (Some MemGlobal) @ '':'' @
        join_with ''|'' ids @ '':'' @ runtime_surface_id_for_scope (Some MemGlobal))\<rparr>"

definition tea_event :: "string \<Rightarrow> string \<Rightarrow> nat \<Rightarrow> string option \<Rightarrow> int \<Rightarrow> CanonicalMutationReceipt" where
  "tea_event event_id mutation revision tid now =
     \<lparr>ev_event_id = event_id, ev_aggregate_kind = ''memory_lifecycle'', ev_aggregate_id = ''memory:1'',
      ev_mutation_kind = mutation, ev_aggregate_revision = revision,
      ev_payload_digest = ''sha256:'' @ tea_hash [], ev_tombstone_id = tid, ev_created_at = now\<rparr>"

abbreviation tea_accepted :: CanonicalMutationReceipt where
  "tea_accepted \<equiv> tea_event ''outbox:e1'' ''materialized'' 1 None 1"

definition tea_store :: "MemoryAdmissionLink list \<Rightarrow> memory_store" where
  "tea_store links =
     \<lparr>ms_records = [tea_row tea_memory 1], ms_links = links, ms_rollbacks = [],
      ms_views = [tea_view 1 1 [''memory:1'']], ms_retrieval = [],
      ms_outbox = \<lparr>ob_tombstones = [], ob_events = [tea_accepted],
        ob_deliveries = [new_delivery ''outbox:e1'' ''vector_store'' 1]\<rparr>\<rparr>"

definition tea_erased :: memory_store where
  "tea_erased =
     \<lparr>ms_records = [tea_row (erased_record tea_hash 3 tea_memory) 3], ms_links = [], ms_rollbacks = [],
      ms_views = [tea_view 3 2 []], ms_retrieval = [],
      ms_outbox =
        \<lparr>ob_tombstones = [new_tombstone tea_hash ''tombstone:3'' ''memory_lifecycle'' ''memory:1''
           (Some ''user_confirmed_privacy_erase'') 3],
         ob_events = [tea_accepted, tea_event ''outbox:t3'' ''deleted'' 2 (Some ''tombstone:3'') 3],
         ob_deliveries =
           [(new_delivery ''outbox:e1'' ''vector_store'' 1)
              \<lparr>dl_terminal_disposition := Some TerminalSuperseded,
               dl_superseded_by_event_id := Some ''outbox:t3'', dl_updated_at := 3\<rparr>,
            new_delivery ''outbox:t3'' ''vector_store'' 3]\<rparr>\<rparr>"

text \<open>What the calls compute on texts.\<close>

lemma tea_identity: "canonical_memory_fact_identity (\<lambda>s. s) tea_hash MemGlobal None CategoryFact ''tea'' = Inr (''tea'', tea_key)"
  by code_simp

lemma tea_hash_Cons: "tea_hash (c # x) = tea_hash []"
  by (simp add: tea_hash_def)

lemma tea_digest_trim: "trim (memory_fact_admission_digest tea_hash key f) \<noteq> []"
  unfolding memory_fact_admission_digest_def digest_length_delimited_values_def tea_hash_def by code_simp

lemma tea_payload: "validate_payload_digest (''sha256:'' @ tea_hash x) = Inr ()"
  unfolding tea_hash_def by code_simp

lemma tea_ids:
  "validate_identifier ''aggregate_kind'' ''memory_lifecycle'' = Inr ()"
  "validate_identifier ''aggregate_id'' ''memory:1'' = Inr ()"
  "validate_identifier ''aggregate_id'' ''memory:4'' = Inr ()"
  "validate_identifier ''mutation_kind'' ''materialized'' = Inr ()"
  "validate_identifier ''event_id'' ''outbox:e1'' = Inr ()"
  "validate_targets [''vector_store''] = Inr ()"
  "trim ''p'' \<noteq> []" "trim ''q'' \<noteq> []" "trim ''memory:1'' \<noteq> []" "trim ''memory:4'' \<noteq> []"
  "trim tea_key \<noteq> []"
  by code_simp+

lemmas tea_texts = tea_identity tea_hash_Cons tea_digest_trim tea_payload [simplified] tea_ids

lemmas tea_values = tea_env_def tea_uuids_def tea_fact_def tea_input_def tea_new_def tea_memory_def tea_row_def
  tea_link_def tea_view_def tea_event_def tea_store_def tea_erased_def new_memory_record_def
  empty_memory_store_def new_delivery_def new_tombstone_def erased_record_def

lemmas table_ops = update_where_def Let_def put_records_def memory_rows_unique_def insert_record_def
  update_record_def find_memory_def proposal_link_def find_view_def link_proposal_to_memory_def rebuild_view_def
  active_materialized_ids_def in_context_def upsert_view_def in_scope_def owns_fact_def
  active_record_by_fact_key_def

lemmas outbox_ops = on_outbox_def enqueue_mutation_def enqueue_event_def enqueue_tombstone_def
  enqueue_materialized_def enqueue_memory_tombstone_def memory_lifecycle_projection_token_def metadata_digest_def
  insert_event_def empty_outbox_def find_event_def ensure_delivery_targets_def supersede_deliveries_def
  head_revision_def max_where_def settled_def find_delivery_def in_aggregate_def
  MEMORY_LIFECYCLE_AGGREGATE_KIND_def MEMORY_LIFECYCLE_PROJECTION_TARGETS_def

lemmas accept_ops = accept_memory_proposal_def f32_is_finite_def f32_in_unit_def accept_new_def admit_record_def
  materialize_record_def created_report_def after_def table_ops outbox_ops tea_values tea_texts

lemmas alias_ops = accept_alias_def merge_effective_governance_def risk_max_def sensitivity_max_def
  existing_acceptance_report_def ensure_record_view_def is_runtime_active_def ensure_materialized_mutation_def
  materialized_event_def mutation_by_event_id_def projection_state_of_def projection_summary_def
  to_u32_count_def count_event_def count_where_def

lemmas erase_ops = privacy_erase_memory_asset_def delete_content_rows_def active_tombstone_event_def
  insert_tombstone_def active_tombstone_def after_def table_ops outbox_ops tea_values tea_texts

lemma tea_accept:
  "memory_step tea_env (1, tea_uuids ''1'', MemoryAccept (tea_input ''p'')) empty_memory_store =
     Inr (tea_store [tea_link ''p'' 1])"
  by (simp add: accept_ops)

lemma tea_alias:
  "memory_step tea_env (2, tea_uuids ''2'', MemoryAccept (tea_input ''q'')) (tea_store [tea_link ''p'' 1]) =
     Inr (tea_store [tea_link ''p'' 1, tea_link ''q'' 2])"
  by (simp add: accept_ops alias_ops)

lemma tea_erase:
  "memory_step tea_env (3, tea_uuids ''3'', MemoryErase ''memory:1'') (tea_store [tea_link ''p'' 1, tea_link ''q'' 2]) =
     Inr tea_erased"
  by (simp add: erase_ops)

lemma tea_again:
  "\<exists>s. memory_step tea_env (4, tea_uuids ''4'', MemoryAccept (tea_input ''q'')) tea_erased = Inr s \<and>
     map (\<lambda>r. (mr_memory_id r, mr_content r, mr_scope r, mr_status r = MemMaterialized \<and>
       mr_materialization_status r = MatMaterialized \<and> mr_runtime_context_excluded_at r = None)) (memory_records s) =
       [(''memory:1'', [], MemGlobal, False), (''memory:4'', ''tea'', MemGlobal, True)]"
  by (simp add: accept_ops memory_records_def)

lemma tea_run:
  "attempts (memory_step tea_env) (take 2 tea_calls) empty_memory_store = tea_store [tea_link ''p'' 1, tea_link ''q'' 2]"
  "attempts (memory_step tea_env) tea_calls empty_memory_store = tea_erased"
  "map (\<lambda>r. (mr_memory_id r, mr_content r, mr_scope r, in_context r))
     (memory_records (attempts (memory_step tea_env) (tea_calls @ tea_replay) empty_memory_store)) =
     [(''memory:1'', [], MemGlobal, False), (''memory:4'', ''tea'', MemGlobal, True)]"
  using tea_again unfolding in_context_def
  by (auto simp: tea_calls_def tea_replay_def advance_def tea_accept tea_alias tea_erase simp del: memory_step.simps)

lemma tea_memories:
  "{mr_memory_id r | r. r \<in> set (memory_records (attempts (memory_step tea_env) (tea_calls @ tea_replay) empty_memory_store)) \<and>
     in_context r \<and> mr_scope r = MemGlobal} = {''memory:4''}"
proof -
  let ?rs = "memory_records (attempts (memory_step tea_env) (tea_calls @ tea_replay) empty_memory_store)"
  have "{mr_memory_id r | r. r \<in> set ?rs \<and> in_context r \<and> mr_scope r = MemGlobal} =
      {mid | mid content. (mid, content, MemGlobal, True) \<in> set (map (\<lambda>r. (mr_memory_id r, mr_content r, mr_scope r, in_context r)) ?rs)}"
    by (auto simp: image_iff) metis
  also have "\<dots> = {''memory:4''}" unfolding tea_run(3) by auto
  finally show ?thesis .
qed

theorem memory_store_stays_sound_witness:
  "listed_ids MemGlobal (attempts (memory_step tea_env) (tea_calls @ tea_replay) empty_memory_store) = [''memory:4'']"
  using memory_store_stays_sound [where en = tea_env and cs = "tea_calls @ tea_replay"] tea_memories by simp


text \<open>
  The comment of \<open>privacy_erase_memory_asset\<close> promises that a later replay cannot silently resurrect the
  erased memory. That holds for the proposal the memory was created for, whose id the record keeps. But the
  admission links of its aliases are deleted, so a replay of an alias is a new proposal: the erased content
  is in the context again.
\<close>

lemma erased_fact_is_remembered_again:
  "proposal_link ''q'' (attempts (memory_step tea_env) (take 2 tea_calls) empty_memory_store) = Some (tea_link ''q'' 2) \<and>
   map mr_content (memory_records (attempts (memory_step tea_env) tea_calls empty_memory_store)) = [[]] \<and>
   (\<exists>r \<in> set (memory_records (attempts (memory_step tea_env) (tea_calls @ tea_replay) empty_memory_store)).
      mr_content r = ''tea'' \<and> in_context r)"
proof -
  have "(''memory:4'', ''tea'', MemGlobal, True) \<in> set (map (\<lambda>r. (mr_memory_id r, mr_content r, mr_scope r, in_context r))
      (memory_records (attempts (memory_step tea_env) (tea_calls @ tea_replay) empty_memory_store)))"
    unfolding tea_run(3) by simp
  then show ?thesis
    by (auto simp: tea_run(1,2) tea_store_def tea_link_def tea_erased_def tea_row_def proposal_link_def memory_records_def
        erased_record_def Let_def)
qed

end
