(* ===== verification/Conversation_Store.thy ===== *)
theory Conversation_Store
  imports Memory_Fact Task_Store
begin

text \<open>
  The conversation store (\<open>openlife-core/src/conversation.rs\<close>): its codes, the rows of its tables,
  the validators, and the operations on projects, provider connections and the workspace selection.
  The turns of a conversation are in Conversation_Turns.

  A column with a \<open>CHECK\<close> on a list of codes has the enumeration as its type, a time stamp is an
  \<open>int\<close>, and a revision (an \<open>INTEGER\<close> that only grows by one) a \<open>nat\<close>. The table
  \<open>workspace_context_state\<close> has the one row that \<open>initialize\<close> inserts and nothing deletes, so it is a
  record and the errors for its absence do not arise. Most operations check, run one transaction, and
  read the result back after the commit: the value of such an operation is its answer and the store it
  leaves, because an error of the last read would not undo the commit.
\<close>

section \<open>Codes\<close>

datatype ProjectStatus = ProjectActive | ProjectArchived

fun project_status_as_str :: "ProjectStatus \<Rightarrow> string" where
  "project_status_as_str ProjectActive = ''active''"
| "project_status_as_str ProjectArchived = ''archived''"

definition project_status_from_db :: "string \<Rightarrow> store_error + ProjectStatus" where
  "project_status_from_db =
     from_db [(''active'', ProjectActive), (''archived'', ProjectArchived)] ''project_status_invalid''"

datatype ConversationStatus = ConversationActive | ConversationArchived

definition conversation_status_from_db :: "string \<Rightarrow> store_error + ConversationStatus" where
  "conversation_status_from_db =
     from_db [(''active'', ConversationActive), (''archived'', ConversationArchived)]
       ''conversation_status_invalid''"

datatype ConversationMemoryMode = UseAndLearn | UseOnly | MemoryOff

fun memory_mode_as_str :: "ConversationMemoryMode \<Rightarrow> string" where
  "memory_mode_as_str UseAndLearn = ''use_and_learn''"
| "memory_mode_as_str UseOnly = ''use_only''"
| "memory_mode_as_str MemoryOff = ''off''"

definition memory_mode_from_db :: "string \<Rightarrow> store_error + ConversationMemoryMode" where
  "memory_mode_from_db =
     from_db [(''use_and_learn'', UseAndLearn), (''use_only'', UseOnly), (''off'', MemoryOff)]
       ''conversation_memory_mode_invalid''"

definition uses_memory :: "ConversationMemoryMode \<Rightarrow> bool" where
  "uses_memory m \<longleftrightarrow> m \<noteq> MemoryOff"

definition learns_memory :: "ConversationMemoryMode \<Rightarrow> bool" where
  "learns_memory m \<longleftrightarrow> m = UseAndLearn"

datatype TurnStatus = TurnRunning | TurnCompleted | TurnFailed | TurnCancelled | TurnInterrupted

fun turn_status_as_str :: "TurnStatus \<Rightarrow> string" where
  "turn_status_as_str TurnRunning = ''running''"
| "turn_status_as_str TurnCompleted = ''completed''"
| "turn_status_as_str TurnFailed = ''failed''"
| "turn_status_as_str TurnCancelled = ''cancelled''"
| "turn_status_as_str TurnInterrupted = ''interrupted''"

definition turn_status_from_db :: "string \<Rightarrow> store_error + TurnStatus" where
  "turn_status_from_db =
     from_db [(''running'', TurnRunning), (''completed'', TurnCompleted), (''failed'', TurnFailed),
       (''cancelled'', TurnCancelled), (''interrupted'', TurnInterrupted)]
       ''conversation_turn_status_invalid''"

datatype ConversationItemKind = UserMessage | UserSteering | AssistantMessage | SystemNotice

definition conversation_item_kind_from_db :: "string \<Rightarrow> store_error + ConversationItemKind" where
  "conversation_item_kind_from_db =
     from_db [(''user_message'', UserMessage), (''user_steering'', UserSteering),
       (''assistant_message'', AssistantMessage), (''system_notice'', SystemNotice)]
       ''conversation_item_kind_invalid''"

fun effort_as_str :: "ReasoningEffort \<Rightarrow> string" where
  "effort_as_str EffortNone = ''none''"
| "effort_as_str EffortMinimal = ''minimal''"
| "effort_as_str EffortLow = ''low''"
| "effort_as_str EffortMedium = ''medium''"
| "effort_as_str EffortHigh = ''high''"
| "effort_as_str EffortXhigh = ''xhigh''"
| "effort_as_str EffortMax = ''max''"

definition effort_from_wire :: "string \<Rightarrow> store_error + ReasoningEffort" where
  "effort_from_wire value =
     ok_or (Bail ''reasoning_effort_invalid'')
       (map_of [(''none'', EffortNone), (''minimal'', EffortMinimal), (''low'', EffortLow),
          (''medium'', EffortMedium), (''high'', EffortHigh), (''xhigh'', EffortXhigh),
          (''max'', EffortMax)] value)"

section \<open>Rows\<close>

record project_row =
  pj_id :: string
  pj_name :: string
  pj_workspace_root :: "string option"
  pj_revision :: nat
  pj_status :: ProjectStatus
  pj_created_at :: int
  pj_updated_at :: int

record ProjectReadRoot =
  rr_id :: string
  rr_name :: string
  rr_path :: string

record read_root_row = ProjectReadRoot +
  rr_project_id :: string
  rr_created_at :: int

record ProjectRecord = project_row +
  pj_additional_read_roots :: "ProjectReadRoot list"

record ProviderConnectionRecord =
  pc_id :: string
  pc_provider_id :: string
  pc_display_name :: string
  pc_endpoint :: string
  pc_endpoint_class :: string
  pc_credential_reference :: "string option"
  pc_credential_version :: nat
  pc_protocol :: string
  pc_privacy_boundary :: string
  pc_validation_state :: string
  pc_created_at :: int
  pc_updated_at :: int

record ProviderModelProfileRecord =
  pp_profile_id :: string
  pp_connection_id :: string
  pp_model_id :: string
  pp_display_name :: string
  pp_capability_snapshot_json :: string
  pp_capability_source :: string
  pp_validation_state :: string
  pp_created_at :: int
  pp_updated_at :: int

record ProjectLifecycleFacts =
  lf_project :: ProjectRecord
  lf_active_conversation_count :: nat
  lf_total_conversation_count :: nat
  lf_selected_for_new_conversation :: bool

record ConversationRecord =
  cv_id :: string
  cv_title :: string
  cv_project_id :: "string option"
  cv_selected_skill_id :: "string option"
  cv_memory_mode :: ConversationMemoryMode
  cv_status :: ConversationStatus
  cv_created_at :: int
  cv_updated_at :: int

text \<open>The row has one column that \<open>conversation_from_row\<close> does not read.\<close>

record conversation_row = ConversationRecord +
  cv_selected_provider_profile_id :: "string option"

record CreateConversationAdmission =
  cca_id :: string
  cca_title :: string
  cca_project_id :: "string option"
  cca_selected_skill_id :: "string option"
  cca_memory_mode :: ConversationMemoryMode

record workspace_context_state =
  ws_new_conversation_project_id :: "string option"
  ws_selected_conversation_id :: "string option"
  ws_selected_provider_profile_id :: "string option"
  ws_updated_at :: int

record ProviderBinding =
  pb_profile_id :: string
  pb_provider_id :: string
  pb_model_id :: string
  pb_endpoint_class :: string
  pb_config_generation :: string
  pb_reasoning_effort :: "ReasoningEffort option"

record TurnRecord =
  tn_id :: string
  tn_conversation_id :: string
  tn_status :: TurnStatus
  tn_request_digest :: string
  tn_provider :: ProviderBinding
  tn_error_code :: "string option"
  tn_created_at :: int
  tn_updated_at :: int
  tn_finished_at :: "int option"

record ConversationItemRecord =
  ci_id :: string
  ci_conversation_id :: string
  ci_turn_id :: string
  ci_sequence :: nat
  ci_kind :: ConversationItemKind
  ci_content :: string
  ci_content_digest :: string
  ci_created_at :: int

record conversation_store =
  cs_projects :: "project_row list"
  cs_read_roots :: "read_root_row list"
  cs_conversations :: "conversation_row list"
  cs_connections :: "ProviderConnectionRecord list"
  cs_profiles :: "ProviderModelProfileRecord list"
  cs_workspace :: workspace_context_state
  cs_turns :: "TurnRecord list"
  cs_items :: "ConversationItemRecord list"

definition initial_conversations :: conversation_store where
  "initial_conversations =
     \<lparr>cs_projects = [], cs_read_roots = [], cs_conversations = [], cs_connections = [],
      cs_profiles = [],
      cs_workspace =
        \<lparr>ws_new_conversation_project_id = None, ws_selected_conversation_id = None,
         ws_selected_provider_profile_id = None, ws_updated_at = 0\<rparr>,
      cs_turns = [], cs_items = []\<rparr>"

text \<open>
  What the operations call outside: \<open>uuid_ok\<close> (the text is the hyphenated form of a version 4 UUID),
  SHA-256 in hexadecimal, and whether \<open>serde_json\<close> reads a text as an object.
\<close>

record chat_env =
  ce_uuid_ok :: "string \<Rightarrow> bool"
  ce_sha256_hex :: "string \<Rightarrow> string"
  ce_json_object :: "string \<Rightarrow> bool"

type_synonym 'a chat_result = "(store_error + 'a) \<times> conversation_store"

section \<open>Validators\<close>

definition invalid_input :: "string \<Rightarrow> store_error" where
  "invalid_input field = Bail (field @ ''_invalid'')"

definition check_uuid :: "chat_env \<Rightarrow> string \<Rightarrow> string \<Rightarrow> store_error + unit" where
  "check_uuid e field value = bail_if (\<not> ce_uuid_ok e value) (invalid_input field)"

definition check_label :: "string \<Rightarrow> string \<Rightarrow> nat \<Rightarrow> store_error + unit" where
  "check_label field value max_bytes =
     (let trimmed = trim value
      in bail_if (trimmed = [] \<or> length trimmed > max_bytes \<or> has_control trimmed)
           (invalid_input field))"

definition check_content :: "string \<Rightarrow> string \<Rightarrow> store_error + unit" where
  "check_content field value =
     bail_if (trim value = [] \<or> length value > 2000000) (invalid_input field)"

definition check_content_digest :: "string \<Rightarrow> string \<Rightarrow> store_error + unit" where
  "check_content_digest field value =
     (case strip_prefix ''sha256:'' value of
        None \<Rightarrow> Inl (invalid_input field)
      | Some hex \<Rightarrow>
          bail_if (length hex \<noteq> 64 \<or> \<not> list_all is_ascii_hexdigit hex) (invalid_input field))"

definition content_digest :: "chat_env \<Rightarrow> string \<Rightarrow> string" where
  "content_digest e value = ''sha256:'' @ ce_sha256_hex e value"

text \<open>The hashed material: the kind, then every part behind a NUL.\<close>

fun nul_parts :: "string list \<Rightarrow> string" where
  "nul_parts [] = []"
| "nul_parts (p # ps) = CHR 0x00 # p @ nul_parts ps"

definition chat_stable_id :: "chat_env \<Rightarrow> string \<Rightarrow> string list \<Rightarrow> string" where
  "chat_stable_id e kind parts = kind @ '':'' @ ce_sha256_hex e (kind @ nul_parts parts)"

definition require_one :: "nat \<Rightarrow> string \<Rightarrow> store_error + unit" where
  "require_one changed code = bail_if (changed \<noteq> 1) (Bail code)"

definition check_expected_revision :: "nat \<Rightarrow> store_error + unit" where
  "check_expected_revision expected = bail_if (expected = 0) (Bail ''project_revision_invalid'')"

text \<open>\<open>limit.clamp(1, n)\<close>.\<close>

definition clamp_rows :: "nat \<Rightarrow> nat \<Rightarrow> nat" where
  "clamp_rows n limit = min n (max 1 limit)"

section \<open>Statements\<close>

text \<open>
  An \<open>UPDATE\<close> that must change one row, on the table of the projects and on the table of the
  conversations; and an operation that reads its answer after the commit.
\<close>

definition update_project ::
  "string \<Rightarrow> (project_row \<Rightarrow> bool) \<Rightarrow> (project_row \<Rightarrow> project_row) \<Rightarrow> conversation_store \<Rightarrow>
   store_error + conversation_store"
where
  "update_project code p f s =
     res_bind (require_one (count_where p (cs_projects s)) code) (\<lambda>_.
     Inr (s\<lparr>cs_projects := update_where p f (cs_projects s)\<rparr>))"

definition update_conversation ::
  "string \<Rightarrow> (conversation_row \<Rightarrow> bool) \<Rightarrow> (conversation_row \<Rightarrow> conversation_row) \<Rightarrow>
   conversation_store \<Rightarrow> store_error + conversation_store"
where
  "update_conversation code p f s =
     res_bind (require_one (count_where p (cs_conversations s)) code) (\<lambda>_.
     Inr (s\<lparr>cs_conversations := update_where p f (cs_conversations s)\<rparr>))"

definition update_workspace ::
  "(workspace_context_state \<Rightarrow> workspace_context_state) \<Rightarrow> conversation_store \<Rightarrow> conversation_store"
where
  "update_workspace f s = s\<lparr>cs_workspace := f (cs_workspace s)\<rparr>"

definition then_read ::
  "store_error + conversation_store \<Rightarrow> (conversation_store \<Rightarrow> store_error + 'a) \<Rightarrow>
   conversation_store \<Rightarrow> 'a chat_result"
where
  "then_read r f s = (case r of Inl err \<Rightarrow> (Inl err, s) | Inr s' \<Rightarrow> (f s', s'))"

definition active_project :: "conversation_store \<Rightarrow> string \<Rightarrow> bool" where
  "active_project s pid \<longleftrightarrow>
     exists_where (\<lambda>p. pj_id p = pid \<and> pj_status p = ProjectActive) (cs_projects s)"

definition has_running_turn :: "conversation_store \<Rightarrow> string \<Rightarrow> bool" where
  "has_running_turn s cid \<longleftrightarrow>
     exists_where (\<lambda>t. tn_conversation_id t = cid \<and> tn_status t = TurnRunning) (cs_turns s)"

definition has_profile :: "conversation_store \<Rightarrow> string \<Rightarrow> bool" where
  "has_profile s profile_id \<longleftrightarrow> exists_where (\<lambda>p. pp_profile_id p = profile_id) (cs_profiles s)"

section \<open>Projects\<close>

definition project_read_roots :: "conversation_store \<Rightarrow> string \<Rightarrow> ProjectReadRoot list" where
  "project_read_roots s pid =
     map ProjectReadRoot.truncate (sort_key (\<lambda>r. (rr_created_at r, rr_id r))
       (filter (\<lambda>r. rr_project_id r = pid) (cs_read_roots s)))"

definition with_read_roots :: "conversation_store \<Rightarrow> project_row \<Rightarrow> ProjectRecord" where
  "with_read_roots s p = project_row.extend p (ProjectRecord.fields (project_read_roots s (pj_id p)))"

definition get_project :: "conversation_store \<Rightarrow> string \<Rightarrow> ProjectRecord option" where
  "get_project s pid = map_option (with_read_roots s) (find (\<lambda>p. pj_id p = pid) (cs_projects s))"

definition read_project :: "string \<Rightarrow> string \<Rightarrow> conversation_store \<Rightarrow> store_error + ProjectRecord" where
  "read_project pid code s = ok_or (Bail code) (get_project s pid)"

definition insert_project :: "project_row \<Rightarrow> conversation_store \<Rightarrow> store_error + conversation_store" where
  "insert_project p s =
     (if exists_where (\<lambda>x. pj_id x = pj_id p) (cs_projects s) then Inl Constraint
      else Inr (s\<lparr>cs_projects := cs_projects s @ [p]\<rparr>))"

definition new_project :: "string \<Rightarrow> string \<Rightarrow> string option \<Rightarrow> int \<Rightarrow> project_row" where
  "new_project pid name root now =
     \<lparr>pj_id = pid, pj_name = trim name, pj_workspace_root = root, pj_revision = 1,
      pj_status = ProjectActive, pj_created_at = now, pj_updated_at = now\<rparr>"

definition check_project_scope ::
  "chat_env \<Rightarrow> string \<Rightarrow> string \<Rightarrow> string option \<Rightarrow> store_error + unit"
where
  "check_project_scope e pid name root =
     first_failure
       [check_uuid e ''project_id'' pid,
        check_label ''project_name'' name 512,
        when_some root (\<lambda>r. check_label ''project_workspace_root'' r 4096)]"

definition create_project ::
  "chat_env \<Rightarrow> int \<Rightarrow> string \<Rightarrow> string \<Rightarrow> string option \<Rightarrow> conversation_store \<Rightarrow> ProjectRecord chat_result"
where
  "create_project e now pid name root s =
     then_read
       (res_bind (check_project_scope e pid name root) (\<lambda>_.
        insert_project (new_project pid name root now) s))
       (read_project pid ''project_create_missing'') s"

definition create_project_as_new_conversation_scope ::
  "chat_env \<Rightarrow> int \<Rightarrow> string \<Rightarrow> string \<Rightarrow> string \<Rightarrow> conversation_store \<Rightarrow> ProjectRecord chat_result"
where
  "create_project_as_new_conversation_scope e now pid name root s =
     then_read
       (res_bind (check_project_scope e pid name (Some root)) (\<lambda>_.
        res_bind (insert_project (new_project pid name (Some root) now) s) (\<lambda>s1.
        Inr (update_workspace
          (\<lambda>w. w\<lparr>ws_new_conversation_project_id := Some pid, ws_updated_at := now\<rparr>) s1))))
       (read_project pid ''project_create_missing'') s"

definition set_new_conversation_project ::
  "chat_env \<Rightarrow> int \<Rightarrow> string option \<Rightarrow> conversation_store \<Rightarrow> store_error + conversation_store"
where
  "set_new_conversation_project e now pid s =
     res_bind (when_some pid (check_uuid e ''project_id'')) (\<lambda>_.
     if pid = None \<or> active_project s (the pid)
     then Inr (update_workspace
            (\<lambda>w. w\<lparr>ws_new_conversation_project_id := pid, ws_updated_at := now\<rparr>) s)
     else Inl (Bail ''workspace_project_selection_unavailable''))"

definition new_conversation_project_id :: "conversation_store \<Rightarrow> string option" where
  "new_conversation_project_id s = ws_new_conversation_project_id (cs_workspace s)"

text \<open>
  \<open>project_scope_digest\<close>: the read roots are joined by a NUL each, and the six fields by a NUL.
\<close>

definition NUL :: string where
  "NUL = [CHR 0x00]"

definition scope_material :: "ProjectRecord \<Rightarrow> string" where
  "scope_material p =
     join_with NUL
       [pj_id p, pj_name p, (case pj_workspace_root p of None \<Rightarrow> [] | Some r \<Rightarrow> r),
        join_with NUL
          (map (\<lambda>r. join_with NUL [rr_id r, rr_name r, rr_path r]) (pj_additional_read_roots p)),
        dec (pj_revision p), project_status_as_str (pj_status p)]"

definition project_scope_digest :: "chat_env \<Rightarrow> ProjectRecord \<Rightarrow> string" where
  "project_scope_digest e p = content_digest e (scope_material p)"

text \<open>\<open>ORDER BY updated_at DESC, id DESC LIMIT\<close>.\<close>

definition list_projects_with :: "ProjectStatus \<Rightarrow> nat \<Rightarrow> conversation_store \<Rightarrow> ProjectRecord list" where
  "list_projects_with status limit s =
     map (with_read_roots s) (take (clamp_rows 500 limit)
       (rev (sort_key (\<lambda>p. (pj_updated_at p, pj_id p))
          (filter (\<lambda>p. pj_status p = status) (cs_projects s)))))"

definition list_projects :: "nat \<Rightarrow> conversation_store \<Rightarrow> ProjectRecord list" where
  "list_projects = list_projects_with ProjectActive"

definition list_archived_projects :: "nat \<Rightarrow> conversation_store \<Rightarrow> ProjectRecord list" where
  "list_archived_projects = list_projects_with ProjectArchived"

definition in_project :: "string \<Rightarrow> conversation_row \<Rightarrow> bool" where
  "in_project pid c \<longleftrightarrow> cv_project_id c = Some pid"

definition project_lifecycle_facts ::
  "chat_env \<Rightarrow> string \<Rightarrow> conversation_store \<Rightarrow> store_error + ProjectLifecycleFacts"
where
  "project_lifecycle_facts e pid s =
     res_bind (check_uuid e ''project_id'' pid) (\<lambda>_.
     res_bind (ok_or (Bail ''project_not_found'') (get_project s pid)) (\<lambda>p.
     Inr \<lparr>lf_project = p,
          lf_active_conversation_count =
            count_where (\<lambda>c. in_project pid c \<and> cv_status c = ConversationActive) (cs_conversations s),
          lf_total_conversation_count = count_where (in_project pid) (cs_conversations s),
          lf_selected_for_new_conversation =
            (ws_new_conversation_project_id (cs_workspace s) = Some pid)\<rparr>))"

text \<open>\<open>WHERE id=?1 AND revision=?2 AND status=?\<close>, the guard of every change of a project.\<close>

definition at_revision :: "string \<Rightarrow> nat \<Rightarrow> ProjectStatus \<Rightarrow> project_row \<Rightarrow> bool" where
  "at_revision pid expected status p \<longleftrightarrow>
     pj_id p = pid \<and> pj_revision p = expected \<and> pj_status p = status"

definition bump_project :: "int \<Rightarrow> project_row \<Rightarrow> project_row" where
  "bump_project now p = p\<lparr>pj_revision := pj_revision p + 1, pj_updated_at := now\<rparr>"

definition update_project_scope ::
  "chat_env \<Rightarrow> int \<Rightarrow> string \<Rightarrow> string \<Rightarrow> string option \<Rightarrow> nat \<Rightarrow> conversation_store \<Rightarrow>
   ProjectRecord chat_result"
where
  "update_project_scope e now pid name root expected s =
     then_read
       (res_bind (check_project_scope e pid name root) (\<lambda>_.
        res_bind (check_expected_revision expected) (\<lambda>_.
        res_bind (to_i64 expected) (\<lambda>_.
        update_project ''project_scope_revision_conflict'' (at_revision pid expected ProjectActive)
          (\<lambda>p. (bump_project now p)\<lparr>pj_name := trim name, pj_workspace_root := root\<rparr>) s))))
       (read_project pid ''project_update_missing'') s"

definition MAX_PROJECT_ADDITIONAL_READ_ROOTS :: nat where
  "MAX_PROJECT_ADDITIONAL_READ_ROOTS = 8"

definition insert_read_root ::
  "read_root_row \<Rightarrow> conversation_store \<Rightarrow> store_error + conversation_store"
where
  "insert_read_root r s =
     (if exists_where (\<lambda>x. rr_id x = rr_id r) (cs_read_roots s) \<or>
         exists_where (\<lambda>x. rr_project_id x = rr_project_id r \<and> rr_path x = rr_path r)
           (cs_read_roots s) \<or>
         \<not> exists_where (\<lambda>p. pj_id p = rr_project_id r) (cs_projects s)
      then Inl Constraint
      else Inr (s\<lparr>cs_read_roots := cs_read_roots s @ [r]\<rparr>))"

definition add_project_read_root ::
  "chat_env \<Rightarrow> int \<Rightarrow> string \<Rightarrow> string \<Rightarrow> string \<Rightarrow> string \<Rightarrow> nat \<Rightarrow> conversation_store \<Rightarrow>
   ProjectRecord chat_result"
where
  "add_project_read_root e now pid root_id name path expected s =
     then_read
       (res_bind (first_failure
          [check_uuid e ''project_id'' pid,
           check_uuid e ''project_read_root_id'' root_id,
           check_label ''project_read_root_name'' name 512,
           check_label ''project_read_root_path'' path 4096,
           check_expected_revision expected,
           bail_if (count_where (\<lambda>r. rr_project_id r = pid) (cs_read_roots s) \<ge>
               MAX_PROJECT_ADDITIONAL_READ_ROOTS)
             (Bail ''project_read_root_limit_reached''),
           to_i64 expected]) (\<lambda>_.
        res_bind (update_project ''project_scope_revision_conflict''
          (at_revision pid expected ProjectActive) (bump_project now) s) (\<lambda>s1.
        insert_read_root
          \<lparr>rr_id = root_id, rr_name = trim name, rr_path = path, rr_project_id = pid,
           rr_created_at = now\<rparr> s1)))
       (read_project pid ''project_read_root_add_missing'') s"

definition own_read_root :: "string \<Rightarrow> string \<Rightarrow> read_root_row \<Rightarrow> bool" where
  "own_read_root pid root_id r \<longleftrightarrow> rr_id r = root_id \<and> rr_project_id r = pid"

definition remove_project_read_root ::
  "chat_env \<Rightarrow> int \<Rightarrow> string \<Rightarrow> string \<Rightarrow> nat \<Rightarrow> conversation_store \<Rightarrow> ProjectRecord chat_result"
where
  "remove_project_read_root e now pid root_id expected s =
     then_read
       (res_bind (first_failure
          [check_uuid e ''project_id'' pid,
           check_uuid e ''project_read_root_id'' root_id,
           check_expected_revision expected,
           to_i64 expected]) (\<lambda>_.
        res_bind (update_project ''project_read_root_remove_unavailable''
          (\<lambda>p. at_revision pid expected ProjectActive p \<and>
               exists_where (own_read_root pid root_id) (cs_read_roots s))
          (bump_project now) s) (\<lambda>s1.
        res_bind (require_one (count_where (own_read_root pid root_id) (cs_read_roots s1))
          ''project_read_root_remove_unavailable'') (\<lambda>_.
        Inr (s1\<lparr>cs_read_roots :=
          filter (\<lambda>r. \<not> own_read_root pid root_id r) (cs_read_roots s1)\<rparr>)))))
       (read_project pid ''project_read_root_remove_missing'') s"

definition archive_project ::
  "chat_env \<Rightarrow> int \<Rightarrow> string \<Rightarrow> nat \<Rightarrow> conversation_store \<Rightarrow> ProjectRecord chat_result"
where
  "archive_project e now pid expected s =
     then_read
       (res_bind (first_failure
          [check_uuid e ''project_id'' pid,
           check_expected_revision expected,
           bail_if (count_where (\<lambda>c. in_project pid c \<and> cv_status c = ConversationActive)
               (cs_conversations s) > 0)
             (Bail ''project_archive_active_conversations_present''),
           to_i64 expected]) (\<lambda>_.
        res_bind (update_project ''project_archive_revision_conflict''
          (at_revision pid expected ProjectActive)
          (\<lambda>p. (bump_project now p)\<lparr>pj_status := ProjectArchived\<rparr>) s) (\<lambda>s1.
        Inr (update_workspace
          (\<lambda>w. if ws_new_conversation_project_id w = Some pid
               then w\<lparr>ws_new_conversation_project_id := None, ws_updated_at := now\<rparr> else w) s1))))
       (read_project pid ''project_archive_missing'') s"

definition restore_project ::
  "chat_env \<Rightarrow> int \<Rightarrow> string \<Rightarrow> nat \<Rightarrow> conversation_store \<Rightarrow> ProjectRecord chat_result"
where
  "restore_project e now pid expected s =
     then_read
       (res_bind (first_failure
          [check_uuid e ''project_id'' pid, check_expected_revision expected, to_i64 expected]) (\<lambda>_.
        update_project ''project_restore_revision_conflict''
          (at_revision pid expected ProjectArchived)
          (\<lambda>p. (bump_project now p)\<lparr>pj_status := ProjectActive\<rparr>) s))
       (read_project pid ''project_restore_missing'') s"

text \<open>A \<open>DELETE\<close> takes the read roots of the project with it (\<open>ON DELETE CASCADE\<close>).\<close>

definition delete_archived_project ::
  "chat_env \<Rightarrow> string \<Rightarrow> nat \<Rightarrow> conversation_store \<Rightarrow> store_error + conversation_store"
where
  "delete_archived_project e pid expected s =
     res_bind (first_failure
       [check_uuid e ''project_id'' pid, check_expected_revision expected, to_i64 expected]) (\<lambda>_.
     let p = (\<lambda>x. at_revision pid expected ProjectArchived x \<and>
                \<not> exists_where (in_project pid) (cs_conversations s) \<and>
                ws_new_conversation_project_id (cs_workspace s) \<noteq> Some pid)
     in res_bind (require_one (count_where p (cs_projects s)) ''project_delete_not_eligible'') (\<lambda>_.
        Inr (s\<lparr>cs_projects := filter (\<lambda>x. \<not> p x) (cs_projects s),
               cs_read_roots := filter (\<lambda>r. rr_project_id r \<noteq> pid) (cs_read_roots s)\<rparr>)))"

section \<open>Provider connections and model profiles\<close>

text \<open>\<open>ON CONFLICT(key) DO UPDATE\<close>: the row keeps its key and its \<open>created_at\<close>.\<close>

definition upsert_connection ::
  "int \<Rightarrow> ProviderConnectionRecord \<Rightarrow> conversation_store \<Rightarrow> conversation_store"
where
  "upsert_connection now c s =
     (if exists_where (\<lambda>x. pc_id x = pc_id c) (cs_connections s)
      then s\<lparr>cs_connections := update_where (\<lambda>x. pc_id x = pc_id c)
             (\<lambda>x. c\<lparr>pc_created_at := pc_created_at x, pc_updated_at := now\<rparr>) (cs_connections s)\<rparr>
      else s\<lparr>cs_connections := cs_connections s @ [c\<lparr>pc_created_at := now, pc_updated_at := now\<rparr>]\<rparr>)"

definition upsert_profile ::
  "int \<Rightarrow> ProviderModelProfileRecord \<Rightarrow> conversation_store \<Rightarrow> store_error + conversation_store"
where
  "upsert_profile now p s =
     (if exists_where (\<lambda>x. pp_profile_id x \<noteq> pp_profile_id p \<and>
           pp_connection_id x = pp_connection_id p \<and> pp_model_id x = pp_model_id p) (cs_profiles s) \<or>
         \<not> exists_where (\<lambda>c. pc_id c = pp_connection_id p) (cs_connections s)
      then Inl Constraint
      else if has_profile s (pp_profile_id p)
      then Inr (s\<lparr>cs_profiles := update_where (\<lambda>x. pp_profile_id x = pp_profile_id p)
             (\<lambda>x. p\<lparr>pp_created_at := pp_created_at x, pp_updated_at := now\<rparr>) (cs_profiles s)\<rparr>)
      else Inr (s\<lparr>cs_profiles := cs_profiles s @ [p\<lparr>pp_created_at := now, pp_updated_at := now\<rparr>]\<rparr>))"

definition check_connection :: "ProviderConnectionRecord \<Rightarrow> store_error + unit" where
  "check_connection c =
     first_failure
       [check_label ''provider_connection_id'' (pc_id c) 256,
        check_label ''provider_id'' (pc_provider_id c) 128,
        check_label ''provider_display_name'' (pc_display_name c) 256,
        check_label ''provider_endpoint'' (pc_endpoint c) 2048,
        bail_if (pc_endpoint_class c \<notin> {''local'', ''cloud''})
          (Bail ''provider_endpoint_class_invalid''),
        when_some (pc_credential_reference c)
          (\<lambda>r. check_label ''provider_credential_reference'' r 512),
        check_label ''provider_protocol'' (pc_protocol c) 128,
        check_label ''provider_privacy_boundary'' (pc_privacy_boundary c) 128,
        check_label ''provider_validation_state'' (pc_validation_state c) 128]"

definition check_profile ::
  "chat_env \<Rightarrow> ProviderConnectionRecord \<Rightarrow> ProviderModelProfileRecord \<Rightarrow> store_error + unit"
where
  "check_profile e c p =
     first_failure
       [check_label ''provider_profile_id'' (pp_profile_id p) 256,
        check_label ''provider_model_id'' (pp_model_id p) 512,
        check_label ''provider_model_display_name'' (pp_display_name p) 512,
        check_label ''provider_capability_source'' (pp_capability_source p) 128,
        check_label ''provider_profile_validation_state'' (pp_validation_state p) 128,
        bail_if (pp_connection_id p \<noteq> pc_id c) (Bail ''provider_profile_connection_mismatch''),
        bail_if (length (pp_capability_snapshot_json p) > 32 * 1024 \<or>
            \<not> ce_json_object e (pp_capability_snapshot_json p))
          (Bail ''provider_capability_snapshot_invalid'')]"

definition upsert_provider_model_profile ::
  "chat_env \<Rightarrow> int \<Rightarrow> ProviderConnectionRecord \<Rightarrow> ProviderModelProfileRecord \<Rightarrow>
   conversation_store \<Rightarrow> store_error + conversation_store"
where
  "upsert_provider_model_profile e now c p s =
     res_bind (check_connection c) (\<lambda>_.
     res_bind (check_profile e c p) (\<lambda>_.
     res_bind (to_i64 (pc_credential_version c)) (\<lambda>_.
     upsert_profile now p (upsert_connection now c s))))"

definition list_provider_connections :: "conversation_store \<Rightarrow> ProviderConnectionRecord list" where
  "list_provider_connections s = sort_key (\<lambda>c. (- pc_updated_at c, pc_id c)) (cs_connections s)"

definition get_provider_connection ::
  "string \<Rightarrow> conversation_store \<Rightarrow> store_error + ProviderConnectionRecord option"
where
  "get_provider_connection cid s =
     res_bind (check_label ''provider_connection_id'' cid 256) (\<lambda>_.
     Inr (find (\<lambda>c. pc_id c = cid) (cs_connections s)))"

definition list_provider_model_profiles :: "conversation_store \<Rightarrow> ProviderModelProfileRecord list" where
  "list_provider_model_profiles s =
     sort_key (\<lambda>p. (- pp_updated_at p, pp_profile_id p)) (cs_profiles s)"

definition update_provider_connection_validation_state ::
  "int \<Rightarrow> string \<Rightarrow> string \<Rightarrow> conversation_store \<Rightarrow> store_error + conversation_store"
where
  "update_provider_connection_validation_state now cid state s =
     res_bind (first_failure
       [check_label ''provider_connection_id'' cid 256,
        check_label ''provider_validation_state'' state 128]) (\<lambda>_.
     res_bind (require_one (count_where (\<lambda>c. pc_id c = cid) (cs_connections s))
       ''provider_connection_not_found'') (\<lambda>_.
     Inr (s\<lparr>cs_connections := update_where (\<lambda>c. pc_id c = cid)
       (\<lambda>c. c\<lparr>pc_validation_state := state, pc_updated_at := now\<rparr>) (cs_connections s)\<rparr>)))"

definition update_provider_model_profile_validation_state ::
  "int \<Rightarrow> string \<Rightarrow> string \<Rightarrow> conversation_store \<Rightarrow> store_error + conversation_store"
where
  "update_provider_model_profile_validation_state now profile_id state s =
     res_bind (first_failure
       [check_label ''provider_profile_id'' profile_id 256,
        check_label ''provider_profile_validation_state'' state 128]) (\<lambda>_.
     res_bind (require_one (count_where (\<lambda>p. pp_profile_id p = profile_id) (cs_profiles s))
       ''provider_profile_not_found'') (\<lambda>_.
     Inr (s\<lparr>cs_profiles := update_where (\<lambda>p. pp_profile_id p = profile_id)
       (\<lambda>p. p\<lparr>pp_validation_state := state, pp_updated_at := now\<rparr>) (cs_profiles s)\<rparr>)))"

text \<open>
  Deleting a connection deletes its profiles (\<open>ON DELETE CASCADE\<close>); the two updates before it
  take the selections of these profiles back.
\<close>

definition selects_from :: "conversation_store \<Rightarrow> string \<Rightarrow> string option \<Rightarrow> bool" where
  "selects_from s cid selected \<longleftrightarrow>
     (case selected of
        None \<Rightarrow> False
      | Some profile_id \<Rightarrow>
          exists_where (\<lambda>p. pp_profile_id p = profile_id \<and> pp_connection_id p = cid) (cs_profiles s))"

definition delete_provider_connection ::
  "int \<Rightarrow> string \<Rightarrow> conversation_store \<Rightarrow> store_error + conversation_store"
where
  "delete_provider_connection now cid s =
     res_bind (check_label ''provider_connection_id'' cid 256) (\<lambda>_.
     res_bind (require_one (count_where (\<lambda>c. pc_id c = cid) (cs_connections s))
       ''provider_connection_not_found'') (\<lambda>_.
     Inr (s\<lparr>cs_workspace :=
         (if selects_from s cid (ws_selected_provider_profile_id (cs_workspace s))
          then (cs_workspace s)\<lparr>ws_selected_provider_profile_id := None, ws_updated_at := now\<rparr>
          else cs_workspace s),
       cs_conversations :=
         update_where (\<lambda>c. selects_from s cid (cv_selected_provider_profile_id c))
           (\<lambda>c. c\<lparr>cv_selected_provider_profile_id := None, cv_updated_at := now\<rparr>)
           (cs_conversations s),
       cs_connections := filter (\<lambda>c. pc_id c \<noteq> cid) (cs_connections s),
       cs_profiles := filter (\<lambda>p. pp_connection_id p \<noteq> cid) (cs_profiles s)\<rparr>)))"

definition selected_provider_profile_id ::
  "chat_env \<Rightarrow> string option \<Rightarrow> conversation_store \<Rightarrow> store_error + string option"
where
  "selected_provider_profile_id e cid s =
     (case cid of
        Some c \<Rightarrow>
          res_bind (check_uuid e ''conversation_id'' c) (\<lambda>_.
          res_bind (ok_or (Bail ''conversation_not_found'')
            (find (\<lambda>x. cv_id x = c) (cs_conversations s))) (\<lambda>x.
          Inr (cv_selected_provider_profile_id x)))
      | None \<Rightarrow> Inr (ws_selected_provider_profile_id (cs_workspace s)))"

definition set_selected_provider_profile ::
  "chat_env \<Rightarrow> int \<Rightarrow> string option \<Rightarrow> string \<Rightarrow> conversation_store \<Rightarrow>
   store_error + conversation_store"
where
  "set_selected_provider_profile e now cid profile_id s =
     res_bind (first_failure
       [check_label ''provider_profile_id'' profile_id 256,
        when_some cid (check_uuid e ''conversation_id'')]) (\<lambda>_.
     case cid of
       Some c \<Rightarrow>
         update_conversation ''provider_profile_selection_unavailable''
           (\<lambda>x. cv_id x = c \<and> cv_status x = ConversationActive \<and> has_profile s profile_id \<and>
                \<not> has_running_turn s c)
           (\<lambda>x. x\<lparr>cv_selected_provider_profile_id := Some profile_id, cv_updated_at := now\<rparr>) s
     | None \<Rightarrow>
         if has_profile s profile_id
         then Inr (update_workspace
                (\<lambda>w. w\<lparr>ws_selected_provider_profile_id := Some profile_id, ws_updated_at := now\<rparr>) s)
         else Inl (Bail ''provider_profile_selection_unavailable''))"

end
