(* ===== verification/Conversation_Turns.thy ===== *)
theory Conversation_Turns
  imports Conversation_Store
begin

text \<open>
  Conversations and their turns (\<open>openlife-core/src/conversation.rs\<close>): creating, renaming, archiving
  and deleting a conversation; beginning a turn with the user's message, steering it, completing it
  with the assistant's, or ending it without; and the queries on the transcript. The last section puts
  the operations that change the store into one machine.
\<close>

section \<open>Conversations\<close>

definition find_conversation :: "conversation_store \<Rightarrow> string \<Rightarrow> conversation_row option" where
  "find_conversation s cid = find (\<lambda>c. cv_id c = cid) (cs_conversations s)"

definition get_conversation :: "string \<Rightarrow> conversation_store \<Rightarrow> ConversationRecord option" where
  "get_conversation cid s = map_option ConversationRecord.truncate (find_conversation s cid)"

definition insert_conversation ::
  "conversation_row \<Rightarrow> conversation_store \<Rightarrow> store_error + conversation_store"
where
  "insert_conversation c s =
     (if exists_where (\<lambda>x. cv_id x = cv_id c) (cs_conversations s) then Inl Constraint
      else Inr (s\<lparr>cs_conversations := cs_conversations s @ [c]\<rparr>))"

definition new_conversation ::
  "int \<Rightarrow> CreateConversationAdmission \<Rightarrow> string option \<Rightarrow> conversation_row"
where
  "new_conversation now input profile =
     \<lparr>cv_id = cca_id input, cv_title = trim (cca_title input), cv_project_id = cca_project_id input,
      cv_selected_skill_id = cca_selected_skill_id input, cv_memory_mode = cca_memory_mode input,
      cv_status = ConversationActive, cv_created_at = now, cv_updated_at = now,
      cv_selected_provider_profile_id = profile\<rparr>"

text \<open>The insert selects nothing when the project is not an active one.\<close>

definition create_conversation_with_admission ::
  "chat_env \<Rightarrow> int \<Rightarrow> CreateConversationAdmission \<Rightarrow> conversation_store \<Rightarrow>
   ConversationRecord chat_result"
where
  "create_conversation_with_admission e now input s =
     then_read
       (res_bind (first_failure
          [check_uuid e ''conversation_id'' (cca_id input),
           check_label ''conversation_title'' (cca_title input) 512,
           when_some (cca_project_id input) (check_uuid e ''project_id''),
           when_some (cca_selected_skill_id input)
             (\<lambda>skill. check_label ''selected_skill_id'' skill 256),
           when_some (cca_project_id input)
             (\<lambda>pid. bail_if (\<not> active_project s pid)
                (Bail ''conversation_admission_project_unavailable''))]) (\<lambda>_.
        res_bind (insert_conversation
          (new_conversation now input (ws_selected_provider_profile_id (cs_workspace s))) s) (\<lambda>s1.
        Inr (update_workspace
          (\<lambda>w. w\<lparr>ws_selected_conversation_id := Some (cca_id input), ws_updated_at := now\<rparr>) s1))))
       (\<lambda>s1. ok_or (Bail ''conversation_create_missing'') (get_conversation (cca_id input) s1)) s"

definition create_conversation ::
  "chat_env \<Rightarrow> int \<Rightarrow> string \<Rightarrow> string \<Rightarrow> conversation_store \<Rightarrow> ConversationRecord chat_result"
where
  "create_conversation e now cid title =
     create_conversation_with_admission e now
       \<lparr>cca_id = cid, cca_title = title, cca_project_id = None, cca_selected_skill_id = None,
        cca_memory_mode = UseAndLearn\<rparr>"

definition active_conversation :: "string \<Rightarrow> conversation_row \<Rightarrow> bool" where
  "active_conversation cid c \<longleftrightarrow> cv_id c = cid \<and> cv_status c = ConversationActive"

definition set_selected_conversation ::
  "chat_env \<Rightarrow> int \<Rightarrow> string \<Rightarrow> conversation_store \<Rightarrow> store_error + conversation_store"
where
  "set_selected_conversation e now cid s =
     res_bind (check_uuid e ''conversation_id'' cid) (\<lambda>_.
     if exists_where (active_conversation cid) (cs_conversations s)
     then Inr (update_workspace
            (\<lambda>w. w\<lparr>ws_selected_conversation_id := Some cid, ws_updated_at := now\<rparr>) s)
     else Inl (Bail ''conversation_selection_unavailable''))"

definition selected_conversation_id :: "conversation_store \<Rightarrow> string option" where
  "selected_conversation_id s = ws_selected_conversation_id (cs_workspace s)"

definition assign_conversation_project ::
  "chat_env \<Rightarrow> int \<Rightarrow> string \<Rightarrow> string option \<Rightarrow> conversation_store \<Rightarrow>
   store_error + conversation_store"
where
  "assign_conversation_project e now cid pid s =
     res_bind (first_failure
       [check_uuid e ''conversation_id'' cid, when_some pid (check_uuid e ''project_id'')]) (\<lambda>_.
     update_conversation ''conversation_project_assignment_unavailable''
       (\<lambda>c. active_conversation cid c \<and> (pid = None \<or> active_project s (the pid)) \<and>
            \<not> has_running_turn s cid)
       (\<lambda>c. c\<lparr>cv_project_id := pid, cv_updated_at := now\<rparr>) s)"

definition list_conversations ::
  "bool \<Rightarrow> nat \<Rightarrow> conversation_store \<Rightarrow> ConversationRecord list"
where
  "list_conversations include_archived limit s =
     map ConversationRecord.truncate (take (clamp_rows 500 limit)
       (rev (sort_key (\<lambda>c. (cv_updated_at c, cv_id c))
          (filter (\<lambda>c. include_archived \<or> cv_status c = ConversationActive) (cs_conversations s)))))"

definition rename_conversation ::
  "int \<Rightarrow> string \<Rightarrow> string \<Rightarrow> conversation_store \<Rightarrow> store_error + conversation_store"
where
  "rename_conversation now cid title s =
     res_bind (check_label ''conversation_title'' title 512) (\<lambda>_.
     update_conversation ''conversation_not_found'' (active_conversation cid)
       (\<lambda>c. c\<lparr>cv_title := trim title, cv_updated_at := now\<rparr>) s)"

definition set_selected_skill ::
  "int \<Rightarrow> string \<Rightarrow> string option \<Rightarrow> conversation_store \<Rightarrow> store_error + conversation_store"
where
  "set_selected_skill now cid skill s =
     res_bind (when_some skill (\<lambda>x. check_label ''selected_skill_id'' x 256)) (\<lambda>_.
     update_conversation ''conversation_not_found'' (active_conversation cid)
       (\<lambda>c. c\<lparr>cv_selected_skill_id := skill, cv_updated_at := now\<rparr>) s)"

definition set_memory_mode ::
  "chat_env \<Rightarrow> int \<Rightarrow> string \<Rightarrow> ConversationMemoryMode \<Rightarrow> conversation_store \<Rightarrow>
   store_error + conversation_store"
where
  "set_memory_mode e now cid mode s =
     res_bind (check_uuid e ''conversation_id'' cid) (\<lambda>_.
     update_conversation ''conversation_not_found'' (active_conversation cid)
       (\<lambda>c. c\<lparr>cv_memory_mode := mode, cv_updated_at := now\<rparr>) s)"

definition archive_conversation ::
  "chat_env \<Rightarrow> int \<Rightarrow> string \<Rightarrow> conversation_store \<Rightarrow> store_error + conversation_store"
where
  "archive_conversation e now cid s =
     res_bind (check_uuid e ''conversation_id'' cid) (\<lambda>_.
     res_bind (update_conversation ''conversation_archive_not_eligible''
       (\<lambda>c. active_conversation cid c \<and> \<not> has_running_turn s cid)
       (\<lambda>c. c\<lparr>cv_status := ConversationArchived, cv_updated_at := now\<rparr>) s) (\<lambda>s1.
     Inr (update_workspace
       (\<lambda>w. if ws_selected_conversation_id w = Some cid
            then w\<lparr>ws_selected_conversation_id := None, ws_updated_at := now\<rparr> else w) s1)))"

definition restore_conversation ::
  "chat_env \<Rightarrow> int \<Rightarrow> string \<Rightarrow> conversation_store \<Rightarrow> store_error + conversation_store"
where
  "restore_conversation e now cid s =
     res_bind (check_uuid e ''conversation_id'' cid) (\<lambda>_.
     update_conversation ''conversation_restore_not_eligible''
       (\<lambda>c. cv_id c = cid \<and> cv_status c = ConversationArchived)
       (\<lambda>c. c\<lparr>cv_status := ConversationActive, cv_updated_at := now\<rparr>) s)"

definition conversation_history_counts ::
  "chat_env \<Rightarrow> string \<Rightarrow> conversation_store \<Rightarrow> store_error + nat \<times> nat"
where
  "conversation_history_counts e cid s =
     res_bind (check_uuid e ''conversation_id'' cid) (\<lambda>_.
     res_bind (bail_if (find_conversation s cid = None) (Bail ''conversation_not_found'')) (\<lambda>_.
     Inr (count_where (\<lambda>t. tn_conversation_id t = cid) (cs_turns s),
          count_where (\<lambda>i. ci_conversation_id i = cid) (cs_items s))))"

text \<open>
  A deleted conversation has no turns and no items, so the cascades delete nothing; the selection
  of the workspace is set to \<open>NULL\<close> by its foreign key.
\<close>

definition delete_conversation ::
  "chat_env \<Rightarrow> string \<Rightarrow> conversation_store \<Rightarrow> store_error + conversation_store"
where
  "delete_conversation e cid s =
     res_bind (check_uuid e ''conversation_id'' cid) (\<lambda>_.
     let p = (\<lambda>c. cv_id c = cid \<and> cv_status c = ConversationArchived \<and>
                \<not> exists_where (\<lambda>t. tn_conversation_id t = cid) (cs_turns s) \<and>
                \<not> exists_where (\<lambda>i. ci_conversation_id i = cid) (cs_items s))
     in res_bind (require_one (count_where p (cs_conversations s))
          ''conversation_delete_not_eligible'') (\<lambda>_.
        Inr (update_workspace
          (\<lambda>w. if ws_selected_conversation_id w = Some cid
               then w\<lparr>ws_selected_conversation_id := None\<rparr> else w)
          (s\<lparr>cs_conversations := filter (\<lambda>c. \<not> p c) (cs_conversations s)\<rparr>))))"

section \<open>Turns and items\<close>

record TurnSnapshot =
  sn_turn :: TurnRecord
  sn_items :: "ConversationItemRecord list"

record BegunChatTurn =
  bg_snapshot :: TurnSnapshot
  bg_user_message_proof :: ConversationUserMessageProof

record BeginChatTurn =
  bt_turn_id :: string
  bt_conversation_id :: string
  bt_user_message :: string
  bt_provider :: ProviderBinding

record AppendedWorkSteering =
  aw_item :: ConversationItemRecord
  aw_replayed :: bool

definition check_binding :: "ProviderBinding \<Rightarrow> store_error + unit" where
  "check_binding b =
     first_failure
       [check_label ''provider_profile_id'' (pb_profile_id b) 256,
        check_label ''provider_id'' (pb_provider_id b) 128,
        check_label ''model_id'' (pb_model_id b) 256,
        check_label ''endpoint_class'' (pb_endpoint_class b) 128,
        check_label ''config_generation'' (pb_config_generation b) 256]"

definition load_turn :: "string \<Rightarrow> conversation_store \<Rightarrow> TurnRecord option" where
  "load_turn tid s = find (\<lambda>t. tn_id t = tid) (cs_turns s)"

definition load_turn_items :: "string \<Rightarrow> conversation_store \<Rightarrow> ConversationItemRecord list" where
  "load_turn_items tid s = sort_key ci_sequence (filter (\<lambda>i. ci_turn_id i = tid) (cs_items s))"

definition load_item :: "string \<Rightarrow> conversation_store \<Rightarrow> ConversationItemRecord option" where
  "load_item item_id s = find (\<lambda>i. ci_id i = item_id) (cs_items s)"

definition load_snapshot :: "string \<Rightarrow> string \<Rightarrow> conversation_store \<Rightarrow> store_error + TurnSnapshot" where
  "load_snapshot code tid s =
     res_bind (ok_or (Bail code) (load_turn tid s)) (\<lambda>t.
     Inr \<lparr>sn_turn = t, sn_items = load_turn_items tid s\<rparr>)"

text \<open>\<open>SELECT COALESCE(MAX(sequence),0)+1\<close>.\<close>

definition next_item_sequence :: "conversation_store \<Rightarrow> string \<Rightarrow> nat" where
  "next_item_sequence s cid = max_where (\<lambda>i. ci_conversation_id i = cid) ci_sequence (cs_items s) + 1"

definition insert_turn :: "TurnRecord \<Rightarrow> conversation_store \<Rightarrow> store_error + conversation_store" where
  "insert_turn t s =
     (if exists_where (\<lambda>x. tn_id x = tn_id t) (cs_turns s) \<or>
         (tn_status t = TurnRunning \<and> has_running_turn s (tn_conversation_id t)) \<or>
         find_conversation s (tn_conversation_id t) = None
      then Inl Constraint
      else Inr (s\<lparr>cs_turns := cs_turns s @ [t]\<rparr>))"

text \<open>The two partial unique indexes: one message of the user and one of the assistant in a turn.\<close>

definition single_kinds :: "ConversationItemKind set" where
  "single_kinds = {UserMessage, AssistantMessage}"

definition insert_chat_item ::
  "ConversationItemRecord \<Rightarrow> conversation_store \<Rightarrow> store_error + conversation_store"
where
  "insert_chat_item i s =
     (if exists_where (\<lambda>x. ci_id x = ci_id i) (cs_items s) \<or>
         exists_where (\<lambda>x. ci_conversation_id x = ci_conversation_id i \<and>
           ci_sequence x = ci_sequence i) (cs_items s) \<or>
         (ci_kind i \<in> single_kinds \<and>
          exists_where (\<lambda>x. ci_turn_id x = ci_turn_id i \<and> ci_kind x = ci_kind i) (cs_items s)) \<or>
         ci_sequence i = 0 \<or>
         find_conversation s (ci_conversation_id i) = None \<or> load_turn (ci_turn_id i) s = None
      then Inl Constraint
      else Inr (s\<lparr>cs_items := cs_items s @ [i]\<rparr>))"

text \<open>
  The item a turn gets next. Every insert is followed by \<open>UPDATE conversations SET updated_at\<close>.
\<close>

definition next_item ::
  "chat_env \<Rightarrow> int \<Rightarrow> string list \<Rightarrow> string \<Rightarrow> string \<Rightarrow> ConversationItemKind \<Rightarrow> string \<Rightarrow>
   conversation_store \<Rightarrow> ConversationItemRecord"
where
  "next_item e now parts cid tid kind content s =
     \<lparr>ci_id = chat_stable_id e ''item'' parts, ci_conversation_id = cid, ci_turn_id = tid,
      ci_sequence = next_item_sequence s cid, ci_kind = kind, ci_content = content,
      ci_content_digest = content_digest e content, ci_created_at = now\<rparr>"

definition touch_conversation :: "int \<Rightarrow> string \<Rightarrow> conversation_store \<Rightarrow> conversation_store" where
  "touch_conversation now cid s =
     s\<lparr>cs_conversations := update_where (\<lambda>c. cv_id c = cid)
       (\<lambda>c. c\<lparr>cv_updated_at := now\<rparr>) (cs_conversations s)\<rparr>"

definition user_proof_from_snapshot ::
  "128 word \<Rightarrow> TurnSnapshot \<Rightarrow> store_error + ConversationUserMessageProof"
where
  "user_proof_from_snapshot issuance sn =
     res_bind (ok_or (Bail ''conversation_turn_user_item_missing'')
       (find (\<lambda>i. ci_kind i = UserMessage) (sn_items sn))) (\<lambda>user.
     if ci_conversation_id user \<noteq> tn_conversation_id (sn_turn sn) \<or>
        ci_turn_id user \<noteq> tn_id (sn_turn sn) \<or>
        ci_content_digest user \<noteq> tn_request_digest (sn_turn sn)
     then Inl (Bail ''conversation_turn_user_item_owner_mismatch'')
     else Inr
       \<lparr>um_conversation_id = ci_conversation_id user, um_turn_id = ci_turn_id user,
        um_item_id = ci_id user, um_content_digest = ci_content_digest user,
        um_content_length_bytes = length (ci_content user), um_issuance_id = issuance\<rparr>)"

definition new_turn :: "chat_env \<Rightarrow> int \<Rightarrow> BeginChatTurn \<Rightarrow> TurnRecord" where
  "new_turn e now input =
     \<lparr>tn_id = bt_turn_id input, tn_conversation_id = bt_conversation_id input,
      tn_status = TurnRunning, tn_request_digest = content_digest e (bt_user_message input),
      tn_provider = bt_provider input, tn_error_code = None, tn_created_at = now,
      tn_updated_at = now, tn_finished_at = None\<rparr>"

definition check_begin :: "chat_env \<Rightarrow> BeginChatTurn \<Rightarrow> store_error + unit" where
  "check_begin e input =
     first_failure
       [check_uuid e ''turn_id'' (bt_turn_id input),
        check_uuid e ''conversation_id'' (bt_conversation_id input),
        check_content ''user_message'' (bt_user_message input),
        check_binding (bt_provider input)]"

text \<open>The transaction of \<open>begin_chat_turn_with_proof\<close>: a replay, or the turn and its first item.\<close>

definition begin_turn_tx ::
  "chat_env \<Rightarrow> int \<Rightarrow> BeginChatTurn \<Rightarrow> conversation_store \<Rightarrow>
   store_error + TurnSnapshot \<times> conversation_store"
where
  "begin_turn_tx e now input s =
     (case load_turn (bt_turn_id input) s of
        Some t \<Rightarrow>
          if tn_conversation_id t \<noteq> bt_conversation_id input \<or>
             tn_request_digest t \<noteq> content_digest e (bt_user_message input) \<or>
             tn_provider t \<noteq> bt_provider input
          then Inl (Bail ''conversation_turn_idempotency_payload_drift'')
          else Inr (\<lparr>sn_turn = t, sn_items = load_turn_items (bt_turn_id input) s\<rparr>, s)
      | None \<Rightarrow>
          if has_running_turn s (bt_conversation_id input)
          then Inl (Bail ''conversation_already_has_running_turn'')
          else if map_option cv_status (find_conversation s (bt_conversation_id input)) \<noteq>
             Some ConversationActive
          then Inl (Bail ''conversation_missing_or_inactive'')
          else
            res_bind (insert_turn (new_turn e now input) s) (\<lambda>s1.
            res_bind (insert_chat_item
              (next_item e now [bt_turn_id input, ''user''] (bt_conversation_id input)
                (bt_turn_id input) UserMessage (bt_user_message input) s) s1) (\<lambda>s2.
            let s3 = touch_conversation now (bt_conversation_id input) s2
            in res_bind (load_snapshot ''begun_turn_missing'' (bt_turn_id input) s3) (\<lambda>sn.
               Inr (sn, s3)))))"

definition begin_chat_turn_with_proof ::
  "chat_env \<Rightarrow> int \<Rightarrow> 128 word \<Rightarrow> BeginChatTurn \<Rightarrow> conversation_store \<Rightarrow> BegunChatTurn chat_result"
where
  "begin_chat_turn_with_proof e now issuance input s =
     (case res_bind (check_begin e input) (\<lambda>_. begin_turn_tx e now input s) of
        Inl err \<Rightarrow> (Inl err, s)
      | Inr (sn, s') \<Rightarrow>
          (res_bind (user_proof_from_snapshot issuance sn) (\<lambda>p.
             Inr \<lparr>bg_snapshot = sn, bg_user_message_proof = p\<rparr>), s'))"

definition begin_chat_turn ::
  "chat_env \<Rightarrow> int \<Rightarrow> 128 word \<Rightarrow> BeginChatTurn \<Rightarrow> conversation_store \<Rightarrow> TurnSnapshot chat_result"
where
  "begin_chat_turn e now issuance input s =
     (case begin_chat_turn_with_proof e now issuance input s of
        (r, s') \<Rightarrow> (res_bind r (\<lambda>b. Inr (bg_snapshot b)), s'))"

definition turn_running_in :: "string \<Rightarrow> string \<Rightarrow> conversation_store \<Rightarrow> bool" where
  "turn_running_in cid tid s \<longleftrightarrow>
     map_option (\<lambda>t. (tn_conversation_id t, tn_status t)) (load_turn tid s) = Some (cid, TurnRunning)"

definition append_work_steering ::
  "chat_env \<Rightarrow> int \<Rightarrow> string \<Rightarrow> string \<Rightarrow> string \<Rightarrow> string \<Rightarrow> conversation_store \<Rightarrow>
   store_error + AppendedWorkSteering \<times> conversation_store"
where
  "append_work_steering e now steering_id cid tid content s =
     res_bind (first_failure
       [check_uuid e ''steering_id'' steering_id,
        check_uuid e ''conversation_id'' cid,
        check_uuid e ''turn_id'' tid,
        check_content ''steering_content'' content]) (\<lambda>_.
     let parts = [tid, ''steering'', steering_id]
     in case load_item (chat_stable_id e ''item'' parts) s of
          Some i \<Rightarrow>
            if ci_conversation_id i \<noteq> cid \<or> ci_turn_id i \<noteq> tid \<or> ci_kind i \<noteq> UserSteering \<or>
               ci_content i \<noteq> content \<or> ci_content_digest i \<noteq> content_digest e content
            then Inl (Bail ''conversation_steering_idempotency_payload_drift'')
            else Inr (\<lparr>aw_item = i, aw_replayed = True\<rparr>, s)
        | None \<Rightarrow>
            if \<not> turn_running_in cid tid s
            then Inl (Bail ''conversation_steering_target_not_running'')
            else
              res_bind (insert_chat_item (next_item e now parts cid tid UserSteering content s) s) (\<lambda>s1.
              res_bind (ok_or NoRows (load_item (chat_stable_id e ''item'' parts) s1)) (\<lambda>i.
              Inr (\<lparr>aw_item = i, aw_replayed = False\<rparr>, touch_conversation now cid s1))))"

definition end_turn ::
  "int \<Rightarrow> string \<Rightarrow> TurnStatus \<Rightarrow> string option \<Rightarrow> conversation_store \<Rightarrow> conversation_store"
where
  "end_turn now tid status error_code s =
     s\<lparr>cs_turns := update_where (\<lambda>t. tn_id t = tid \<and> tn_status t = TurnRunning)
       (\<lambda>t. t\<lparr>tn_status := status, tn_error_code := error_code, tn_updated_at := now,
              tn_finished_at := Some now\<rparr>) (cs_turns s)\<rparr>"

text \<open>The update of a completion leaves \<open>error_code\<close> as it is.\<close>

definition finish_turn :: "int \<Rightarrow> string \<Rightarrow> conversation_store \<Rightarrow> conversation_store" where
  "finish_turn now tid s =
     s\<lparr>cs_turns := update_where (\<lambda>t. tn_id t = tid \<and> tn_status t = TurnRunning)
       (\<lambda>t. t\<lparr>tn_status := TurnCompleted, tn_updated_at := now, tn_finished_at := Some now\<rparr>)
       (cs_turns s)\<rparr>"

definition complete_chat_turn ::
  "chat_env \<Rightarrow> int \<Rightarrow> string \<Rightarrow> string \<Rightarrow> conversation_store \<Rightarrow>
   store_error + TurnSnapshot \<times> conversation_store"
where
  "complete_chat_turn e now tid message s =
     res_bind (check_content ''assistant_message'' message) (\<lambda>_.
     res_bind (ok_or (Bail ''conversation_turn_missing'') (load_turn tid s)) (\<lambda>t.
     if tn_status t = TurnCompleted
     then
       if list_ex (\<lambda>i. ci_kind i = AssistantMessage \<and>
            ci_content_digest i = content_digest e message \<and> ci_content i = message)
            (load_turn_items tid s)
       then Inr (\<lparr>sn_turn = t, sn_items = load_turn_items tid s\<rparr>, s)
       else Inl (Bail ''conversation_turn_terminal_payload_drift'')
     else if tn_status t \<noteq> TurnRunning
     then Inl (Bail ''conversation_turn_not_running'')
     else
       res_bind (insert_chat_item
         (next_item e now [tid, ''assistant''] (tn_conversation_id t) tid AssistantMessage message s)
         s) (\<lambda>s1.
       let s2 = touch_conversation now (tn_conversation_id t) (finish_turn now tid s1)
       in res_bind (load_snapshot ''completed_turn_missing'' tid s2) (\<lambda>sn. Inr (sn, s2)))))"

definition complete_work_turn ::
  "chat_env \<Rightarrow> int \<Rightarrow> string \<Rightarrow> string \<Rightarrow> conversation_store \<Rightarrow>
   store_error + TurnSnapshot \<times> conversation_store"
where
  "complete_work_turn = complete_chat_turn"

definition terminalize_without_assistant ::
  "int \<Rightarrow> string \<Rightarrow> TurnStatus \<Rightarrow> string option \<Rightarrow> conversation_store \<Rightarrow>
   store_error + TurnRecord \<times> conversation_store"
where
  "terminalize_without_assistant now tid status error_code s =
     res_bind (ok_or (Bail ''conversation_turn_missing'') (load_turn tid s)) (\<lambda>t.
     if tn_status t = status \<and> tn_error_code t = error_code then Inr (t, s)
     else if tn_status t \<noteq> TurnRunning then Inl (Bail ''conversation_turn_not_running'')
     else
       let s1 = end_turn now tid status error_code s
       in res_bind (ok_or (Bail ''terminal_turn_missing'') (load_turn tid s1)) (\<lambda>t1. Inr (t1, s1)))"

definition fail_chat_turn ::
  "int \<Rightarrow> string \<Rightarrow> string \<Rightarrow> conversation_store \<Rightarrow> store_error + TurnRecord \<times> conversation_store"
where
  "fail_chat_turn now tid error_code s =
     res_bind (check_label ''turn_error_code'' error_code 256) (\<lambda>_.
     terminalize_without_assistant now tid TurnFailed (Some error_code) s)"

definition cancel_chat_turn ::
  "int \<Rightarrow> string \<Rightarrow> conversation_store \<Rightarrow> store_error + TurnRecord \<times> conversation_store"
where
  "cancel_chat_turn now tid = terminalize_without_assistant now tid TurnCancelled None"

definition interrupt_incomplete_turns :: "int \<Rightarrow> conversation_store \<Rightarrow> nat \<times> conversation_store" where
  "interrupt_incomplete_turns now s =
     (count_where (\<lambda>t. tn_status t = TurnRunning) (cs_turns s),
      s\<lparr>cs_turns := update_where (\<lambda>t. tn_status t = TurnRunning)
        (\<lambda>t. t\<lparr>tn_status := TurnInterrupted, tn_error_code := Some ''process_restarted'',
               tn_updated_at := now, tn_finished_at := Some now\<rparr>) (cs_turns s)\<rparr>)"

section \<open>Queries\<close>

definition get_turn :: "string \<Rightarrow> conversation_store \<Rightarrow> TurnSnapshot option" where
  "get_turn tid s =
     map_option (\<lambda>t. \<lparr>sn_turn = t, sn_items = load_turn_items tid s\<rparr>) (load_turn tid s)"

definition get_item ::
  "string \<Rightarrow> conversation_store \<Rightarrow> store_error + ConversationItemRecord option"
where
  "get_item item_id s =
     res_bind (check_label ''conversation_item_id'' item_id 512) (\<lambda>_. Inr (load_item item_id s))"

text \<open>\<open>ORDER BY created_at DESC, id DESC\<close>.\<close>

definition newest_turns :: "TurnRecord list \<Rightarrow> TurnRecord list" where
  "newest_turns ts = rev (sort_key (\<lambda>t. (tn_created_at t, tn_id t)) ts)"

definition first_row :: "'r list \<Rightarrow> 'r option" where
  "first_row rs = (case rs of [] \<Rightarrow> None | r # _ \<Rightarrow> Some r)"

definition latest_turn :: "string \<Rightarrow> conversation_store \<Rightarrow> TurnRecord option" where
  "latest_turn cid s =
     first_row (newest_turns (filter (\<lambda>t. tn_conversation_id t = cid) (cs_turns s)))"

definition list_recent_turns :: "nat \<Rightarrow> conversation_store \<Rightarrow> TurnRecord list" where
  "list_recent_turns limit s = take (clamp_rows 500 limit) (newest_turns (cs_turns s))"

definition find_turn_for_work_binding ::
  "chat_env \<Rightarrow> string \<Rightarrow> string \<Rightarrow> string \<Rightarrow> string \<Rightarrow> ReasoningEffort option \<Rightarrow>
   conversation_store \<Rightarrow> store_error + TurnRecord option"
where
  "find_turn_for_work_binding e cid request_digest profile_id model_id effort s =
     res_bind (first_failure
       [check_uuid e ''conversation_id'' cid,
        check_content_digest ''request_digest'' request_digest,
        check_label ''provider_profile_id'' profile_id 256,
        check_label ''model_id'' model_id 256]) (\<lambda>_.
     Inr (first_row (newest_turns (filter
       (\<lambda>t. tn_conversation_id t = cid \<and> tn_request_digest t = request_digest \<and>
            pb_profile_id (tn_provider t) = profile_id \<and> pb_model_id (tn_provider t) = model_id \<and>
            pb_reasoning_effort (tn_provider t) = effort) (cs_turns s)))))"

text \<open>\<open>ORDER BY sequence DESC LIMIT\<close>, then \<open>items.reverse()\<close>: the last items, oldest first.\<close>

definition last_items :: "nat \<Rightarrow> ConversationItemRecord list \<Rightarrow> ConversationItemRecord list" where
  "last_items limit is = rev (take (clamp_rows 1000 limit) (rev (sort_key ci_sequence is)))"

definition chat_list_items :: "string \<Rightarrow> nat \<Rightarrow> conversation_store \<Rightarrow> ConversationItemRecord list" where
  "chat_list_items cid limit s =
     last_items limit (filter (\<lambda>i. ci_conversation_id i = cid) (cs_items s))"

text \<open>The join keeps an item whose turn is completed or is the current one.\<close>

definition in_model_context ::
  "string \<Rightarrow> string \<Rightarrow> conversation_store \<Rightarrow> ConversationItemRecord \<Rightarrow> bool"
where
  "in_model_context cid tid s i \<longleftrightarrow>
     ci_conversation_id i = cid \<and>
     exists_where (\<lambda>t. tn_id t = ci_turn_id i \<and> (tn_status t = TurnCompleted \<or> tn_id t = tid))
       (cs_turns s)"

definition list_model_context_items ::
  "chat_env \<Rightarrow> string \<Rightarrow> string \<Rightarrow> nat \<Rightarrow> conversation_store \<Rightarrow>
   store_error + ConversationItemRecord list"
where
  "list_model_context_items e cid tid limit s =
     res_bind (first_failure
       [check_uuid e ''conversation_id'' cid, check_uuid e ''current_turn_id'' tid]) (\<lambda>_.
     if \<not> turn_running_in cid tid s
     then Inl (Bail ''conversation_model_context_turn_not_running'')
     else Inr (last_items limit (filter (in_model_context cid tid s) (cs_items s))))"

section \<open>The store as a machine\<close>

text \<open>One call of an operation that may change the store, with its arguments.\<close>

datatype chat_call =
  CreateProject string string "string option"
| CreateScopeProject string string string
| SelectProject "string option"
| UpdateProject string string "string option" nat
| AddReadRoot string string string string nat
| RemoveReadRoot string string nat
| ArchiveProject string nat
| RestoreProject string nat
| DeleteProject string nat
| UpsertProfile ProviderConnectionRecord ProviderModelProfileRecord
| SetConnectionState string string
| SetProfileState string string
| DeleteConnection string
| SelectProfile "string option" string
| CreateConversation CreateConversationAdmission
| SelectConversation string
| AssignProject string "string option"
| RenameConversation string string
| SelectSkill string "string option"
| SetMemoryMode string ConversationMemoryMode
| ArchiveConversation string
| RestoreConversation string
| DeleteConversation string
| BeginTurn BeginChatTurn "128 word"
| AppendSteering string string string string
| CompleteTurn string string
| FailTurn string string
| CancelTurn string
| InterruptTurns

datatype chat_answer =
  Done
| AnswerProject ProjectRecord
| AnswerConversation ConversationRecord
| AnswerBegun BegunChatTurn
| AnswerSteering AppendedWorkSteering
| AnswerSnapshot TurnSnapshot
| AnswerTurn TurnRecord
| AnswerCount nat

definition answer :: "('a \<Rightarrow> chat_answer) \<Rightarrow> 'a chat_result \<Rightarrow> chat_answer chat_result" where
  "answer f r = (case r of (x, s) \<Rightarrow> (map_sum (\<lambda>err. err) f x, s))"

definition settle_unit ::
  "store_error + conversation_store \<Rightarrow> conversation_store \<Rightarrow> chat_answer chat_result"
where
  "settle_unit r s = (case r of Inl err \<Rightarrow> (Inl err, s) | Inr s' \<Rightarrow> (Inr Done, s'))"

definition settle ::
  "('a \<Rightarrow> chat_answer) \<Rightarrow> store_error + 'a \<times> conversation_store \<Rightarrow> conversation_store \<Rightarrow>
   chat_answer chat_result"
where
  "settle f r s = (case r of Inl err \<Rightarrow> (Inl err, s) | Inr (x, s') \<Rightarrow> (Inr (f x), s'))"

fun chat_step :: "chat_env \<Rightarrow> int \<times> chat_call \<Rightarrow> conversation_store \<Rightarrow> chat_answer chat_result" where
  "chat_step e (now, CreateProject pid name root) s =
     answer AnswerProject (create_project e now pid name root s)"
| "chat_step e (now, CreateScopeProject pid name root) s =
     answer AnswerProject (create_project_as_new_conversation_scope e now pid name root s)"
| "chat_step e (now, SelectProject pid) s = settle_unit (set_new_conversation_project e now pid s) s"
| "chat_step e (now, UpdateProject pid name root rv) s =
     answer AnswerProject (update_project_scope e now pid name root rv s)"
| "chat_step e (now, AddReadRoot pid rid name path rv) s =
     answer AnswerProject (add_project_read_root e now pid rid name path rv s)"
| "chat_step e (now, RemoveReadRoot pid rid rv) s =
     answer AnswerProject (remove_project_read_root e now pid rid rv s)"
| "chat_step e (now, ArchiveProject pid rv) s = answer AnswerProject (archive_project e now pid rv s)"
| "chat_step e (now, RestoreProject pid rv) s = answer AnswerProject (restore_project e now pid rv s)"
| "chat_step e (now, DeleteProject pid rv) s = settle_unit (delete_archived_project e pid rv s) s"
| "chat_step e (now, UpsertProfile c p) s =
     settle_unit (upsert_provider_model_profile e now c p s) s"
| "chat_step e (now, SetConnectionState cid state) s =
     settle_unit (update_provider_connection_validation_state now cid state s) s"
| "chat_step e (now, SetProfileState pid state) s =
     settle_unit (update_provider_model_profile_validation_state now pid state s) s"
| "chat_step e (now, DeleteConnection cid) s = settle_unit (delete_provider_connection now cid s) s"
| "chat_step e (now, SelectProfile cid pid) s =
     settle_unit (set_selected_provider_profile e now cid pid s) s"
| "chat_step e (now, CreateConversation input) s =
     answer AnswerConversation (create_conversation_with_admission e now input s)"
| "chat_step e (now, SelectConversation cid) s = settle_unit (set_selected_conversation e now cid s) s"
| "chat_step e (now, AssignProject cid pid) s =
     settle_unit (assign_conversation_project e now cid pid s) s"
| "chat_step e (now, RenameConversation cid title) s =
     settle_unit (rename_conversation now cid title s) s"
| "chat_step e (now, SelectSkill cid skill) s = settle_unit (set_selected_skill now cid skill s) s"
| "chat_step e (now, SetMemoryMode cid mode) s = settle_unit (set_memory_mode e now cid mode s) s"
| "chat_step e (now, ArchiveConversation cid) s = settle_unit (archive_conversation e now cid s) s"
| "chat_step e (now, RestoreConversation cid) s = settle_unit (restore_conversation e now cid s) s"
| "chat_step e (now, DeleteConversation cid) s = settle_unit (delete_conversation e cid s) s"
| "chat_step e (now, BeginTurn input issuance) s =
     answer AnswerBegun (begin_chat_turn_with_proof e now issuance input s)"
| "chat_step e (now, AppendSteering sid cid tid content) s =
     settle AnswerSteering (append_work_steering e now sid cid tid content s) s"
| "chat_step e (now, CompleteTurn tid message) s =
     settle AnswerSnapshot (complete_chat_turn e now tid message s) s"
| "chat_step e (now, FailTurn tid code) s = settle AnswerTurn (fail_chat_turn now tid code s) s"
| "chat_step e (now, CancelTurn tid) s = settle AnswerTurn (cancel_chat_turn now tid s) s"
| "chat_step e (now, InterruptTurns) s =
     settle AnswerCount (Inr (interrupt_incomplete_turns now s)) s"

definition chats_after :: "chat_env \<Rightarrow> (int \<times> chat_call) list \<Rightarrow> conversation_store" where
  "chats_after e cs = run_state (chat_step e) cs initial_conversations"

end
