(* ===== verification/Conversation_Safety.thy ===== *)
theory Conversation_Safety
  imports Conversation_Turns Outbox_Safety
begin

text \<open>
  What every sequence of calls keeps of the conversations: the transcript of each turn has the shape
  of an exchange, the items of a conversation are numbered without a gap, a running turn is the only
  one of an active conversation, and every selection and reference is to a row that exists. Each
  operation is reduced to the tables it changes before the invariant is shown.
\<close>

section \<open>Transcripts\<close>

definition own_items :: "string \<Rightarrow> ConversationItemRecord list \<Rightarrow> ConversationItemRecord list" where
  "own_items tid is = filter (\<lambda>i. ci_turn_id i = tid) is"

definition conversation_items ::
  "string \<Rightarrow> ConversationItemRecord list \<Rightarrow> ConversationItemRecord list"
where
  "conversation_items cid is = filter (\<lambda>i. ci_conversation_id i = cid) is"

text \<open>One message of the user, then steering, then an answer exactly when the turn is completed.\<close>

definition turn_kinds :: "TurnStatus \<Rightarrow> ConversationItemKind list \<Rightarrow> bool" where
  "turn_kinds status ks \<longleftrightarrow>
     (\<exists>n. ks = UserMessage # replicate n UserSteering @
       (if status = TurnCompleted then [AssistantMessage] else []))"

definition turn_ok :: "ConversationItemRecord list \<Rightarrow> TurnRecord \<Rightarrow> bool" where
  "turn_ok is t \<longleftrightarrow>
     turn_kinds (tn_status t) (map ci_kind (own_items (tn_id t) is)) \<and>
     ci_content_digest (hd (own_items (tn_id t) is)) = tn_request_digest t \<and>
     (tn_finished_at t = None) = (tn_status t = TurnRunning) \<and>
     (tn_error_code t \<noteq> None) = (tn_status t \<in> {TurnFailed, TurnInterrupted})"

definition numbered :: "ConversationItemRecord list \<Rightarrow> bool" where
  "numbered is \<longleftrightarrow>
     (\<forall>c. map ci_sequence (conversation_items c is) = [1 ..< Suc (length (conversation_items c is))])"

definition running :: "TurnRecord \<Rightarrow> bool" where
  "running t \<longleftrightarrow> tn_status t = TurnRunning"

text \<open>The last item of a conversation with a running turn is an item of that turn.\<close>

definition latest_ok :: "ConversationItemRecord list \<Rightarrow> TurnRecord \<Rightarrow> bool" where
  "latest_ok is t \<longleftrightarrow>
     (running t \<longrightarrow> ci_turn_id (last (conversation_items (tn_conversation_id t) is)) = tn_id t)"

text \<open>What the turns depend on of the conversations.\<close>

definition conversation_states :: "conversation_store \<Rightarrow> (string \<times> ConversationStatus) list" where
  "conversation_states s = map (\<lambda>c. (cv_id c, cv_status c)) (cs_conversations s)"

definition turns_ok :: "(string \<times> ConversationStatus) list \<Rightarrow> TurnRecord list \<Rightarrow> bool" where
  "turns_ok states ts \<longleftrightarrow>
     distinct (map tn_id ts) \<and> tn_conversation_id ` set ts \<subseteq> fst ` set states \<and>
     (\<forall>t \<in> set ts. running t \<longrightarrow> (tn_conversation_id t, ConversationActive) \<in> set states) \<and>
     distinct (map tn_conversation_id (filter running ts))"

definition items_ok ::
  "chat_env \<Rightarrow> TurnRecord list \<Rightarrow> ConversationItemRecord list \<Rightarrow> bool"
where
  "items_ok e ts is \<longleftrightarrow>
     distinct (map ci_id is) \<and>
     (\<lambda>i. (ci_turn_id i, ci_conversation_id i)) ` set is \<subseteq>
       (\<lambda>t. (tn_id t, tn_conversation_id t)) ` set ts \<and>
     (\<forall>i \<in> set is. ci_content_digest i = content_digest e (ci_content i)) \<and>
     numbered is \<and> (\<forall>t \<in> set ts. turn_ok is t \<and> latest_ok is t)"

definition transcripts_ok :: "chat_env \<Rightarrow> conversation_store \<Rightarrow> bool" where
  "transcripts_ok e s \<longleftrightarrow>
     turns_ok (conversation_states s) (cs_turns s) \<and> items_ok e (cs_turns s) (cs_items s)"

subsection \<open>Items\<close>

lemma own_items_append [simp]:
  "own_items tid (is @ [i]) = own_items tid is @ (if ci_turn_id i = tid then [i] else [])"
  by (simp add: own_items_def)

lemma conversation_items_append [simp]:
  "conversation_items cid (is @ [i]) =
     conversation_items cid is @ (if ci_conversation_id i = cid then [i] else [])"
  by (simp add: conversation_items_def)

lemma next_item_sequence_length:
  assumes "numbered (cs_items s)"
  shows "next_item_sequence s cid = Suc (length (conversation_items cid (cs_items s)))"
  using assms
  unfolding next_item_sequence_def max_where_filter numbered_def conversation_items_def [symmetric]
  by (metis foldr_max_upt Suc_eq_plus1)

lemma numbered_append:
  assumes "numbered is" "ci_sequence i = Suc (length (conversation_items (ci_conversation_id i) is))"
  shows "numbered (is @ [i])"
  using assms by (simp add: numbered_def)

lemma turn_kinds_running: "turn_kinds TurnRunning [UserMessage]"
  by (auto simp: turn_kinds_def)

lemma turn_kinds_steering:
  "turn_kinds status ks \<Longrightarrow> status \<noteq> TurnCompleted \<Longrightarrow> turn_kinds status (ks @ [UserSteering])"
  unfolding turn_kinds_def by (elim exE, rule_tac x = "Suc n" in exI) (simp add: replicate_append_same)

lemma turn_kinds_completed:
  "turn_kinds TurnRunning ks \<Longrightarrow> turn_kinds TurnCompleted (ks @ [AssistantMessage])"
  by (auto simp: turn_kinds_def)

lemma turn_kinds_ended:
  "turn_kinds TurnRunning ks \<Longrightarrow> status \<noteq> TurnCompleted \<Longrightarrow> turn_kinds status ks"
  by (auto simp: turn_kinds_def)

lemma turn_kinds_hd: "turn_kinds status ks \<Longrightarrow> \<exists>ks'. ks = UserMessage # ks'"
  by (auto simp: turn_kinds_def)

lemma turn_ok_items: "turn_ok is t \<Longrightarrow> own_items (tn_id t) is \<noteq> []"
  by (auto simp: turn_ok_def dest!: turn_kinds_hd)

lemma turn_ok_other: "ci_turn_id i \<noteq> tn_id t \<Longrightarrow> turn_ok (is @ [i]) t = turn_ok is t"
  by (simp add: turn_ok_def)

text \<open>The sequence orders the items of a turn as they were inserted.\<close>

lemma conversation_sorted: "numbered is \<Longrightarrow> sorted (map ci_sequence (conversation_items c is))"
  unfolding numbered_def by (metis sorted_upt)

lemma filtered_sorted:
  assumes "numbered is" "\<And>i. i \<in> set is \<Longrightarrow> P i \<Longrightarrow> ci_conversation_id i = c"
  shows "sort_key ci_sequence (filter P is) = filter P is"
proof -
  have "filter P is = filter P (conversation_items c is)"
    using assms(2) by (auto simp: conversation_items_def intro: filter_cong)
  then have "sorted (map ci_sequence (filter P is))"
    using conversation_sorted [OF assms(1)] by (simp add: sorted_filter)
  then show ?thesis by (rule sort_key_id_if_sorted)
qed

lemma item_turn:
  assumes "items_ok e ts is" "i \<in> set is"
  shows "\<exists>t \<in> set ts. tn_id t = ci_turn_id i \<and> tn_conversation_id t = ci_conversation_id i"
proof -
  have "(ci_turn_id i, ci_conversation_id i) \<in> (\<lambda>t. (tn_id t, tn_conversation_id t)) ` set ts"
    using assms unfolding items_ok_def by blast
  then show ?thesis by auto
qed

lemma turn_unique: "turns_ok states ts \<Longrightarrow> t \<in> set ts \<Longrightarrow> t' \<in> set ts \<Longrightarrow> tn_id t = tn_id t' \<Longrightarrow> t = t'"
  unfolding turns_ok_def by (metis distinct_map inj_on_def)

text \<open>A conversation has one running turn.\<close>

lemma one_running:
  assumes "turns_ok states ts" "t \<in> set ts" "running t" "u \<in> set ts" "running u"
    "tn_conversation_id t = tn_conversation_id u"
  shows "t = u"
proof -
  have "distinct (map tn_conversation_id (filter running ts))" using assms(1) by (simp add: turns_ok_def)
  then have "inj_on tn_conversation_id (set (filter running ts))" by (simp only: distinct_map)
  then show ?thesis using assms by (simp add: inj_on_def)
qed

lemma load_turn_iff:
  assumes "turns_ok states (cs_turns s)"
  shows "load_turn tid s = Some t \<longleftrightarrow> t \<in> set (cs_turns s) \<and> tn_id t = tid"
  using assms find_key_distinct [of tn_id "cs_turns s"] find_Some_mem [of _ "cs_turns s"]
  unfolding load_turn_def turns_ok_def by fastforce

lemma load_turn_None: "load_turn tid s = None \<longleftrightarrow> tid \<notin> tn_id ` set (cs_turns s)"
  unfolding load_turn_def by (auto simp: find_None_iff)

lemma load_turn_items_own:
  assumes ok: "transcripts_ok e s"
  shows "load_turn_items tid s = own_items tid (cs_items s)"
proof (cases "own_items tid (cs_items s) = []")
  case True
  then show ?thesis by (simp add: load_turn_items_def own_items_def)
next
  case False
  have io: "items_ok e (cs_turns s) (cs_items s)" and to: "turns_ok (conversation_states s) (cs_turns s)"
    using ok by (auto simp: transcripts_ok_def)
  from False obtain i where i: "i \<in> set (cs_items s)" "ci_turn_id i = tid"
    by (auto simp: own_items_def filter_empty_conv)
  have "ci_conversation_id j = ci_conversation_id i" if "j \<in> set (cs_items s)" "ci_turn_id j = tid" for j
    using item_turn [OF io i(1)] item_turn [OF io that(1)] i(2) that(2) turn_unique [OF to] by metis
  moreover have "numbered (cs_items s)" using io by (simp add: items_ok_def)
  ultimately show ?thesis
    unfolding load_turn_items_def own_items_def by (rule filtered_sorted [rotated])
qed

subsection \<open>Turns\<close>

lemma turns_ok_same:
  "turns_ok states ts \<Longrightarrow> set states = set states' \<Longrightarrow> turns_ok states' ts"
  by (simp add: turns_ok_def)

lemma turns_ok_add:
  assumes "turns_ok states ts" "tn_id t \<notin> tn_id ` set ts"
    "(tn_conversation_id t, ConversationActive) \<in> set states"
    "\<forall>x \<in> set ts. running x \<longrightarrow> tn_conversation_id x \<noteq> tn_conversation_id t"
  shows "turns_ok states (ts @ [t])"
  using assms unfolding turns_ok_def by (auto simp: rev_image_eqI)

text \<open>A running turn that ends.\<close>

lemma running_ended:
  assumes "\<And>t. running t \<Longrightarrow> p t \<Longrightarrow> \<not> running (f t)" "\<And>t. tn_conversation_id (f t) = tn_conversation_id t"
  shows "map tn_conversation_id (filter running (update_where (\<lambda>t. p t \<and> running t) f ts)) =
    map tn_conversation_id (filter (\<lambda>t. running t \<and> \<not> p t) ts)"
  using assms by (induction ts) (auto simp: update_where_def)

lemma turns_ok_ended:
  assumes ok: "turns_ok states ts" and f: "\<And>t. running t \<Longrightarrow> p t \<Longrightarrow> \<not> running (f t)"
    and keep: "\<And>t. tn_conversation_id (f t) = tn_conversation_id t" "\<And>t. tn_id (f t) = tn_id t"
  shows "turns_ok states (update_where (\<lambda>t. p t \<and> running t) f ts)" (is "turns_ok states ?ts")
proof -
  have ids: "map tn_id ?ts = map tn_id ts" by (rule map_update_where) (rule keep)
  have convs: "map tn_conversation_id ?ts = map tn_conversation_id ts"
    by (rule map_update_where) (rule keep)
  have "running t \<Longrightarrow> t \<in> set ts" if "t \<in> set ?ts" for t
    using that by (rule update_whereE) (auto dest: f)
  moreover have "distinct (map tn_conversation_id (filter running ?ts))"
  proof -
    have "distinct (map tn_conversation_id (filter (\<lambda>t. \<not> p t) (filter running ts)))"
      using ok unfolding turns_ok_def by (blast intro: distinct_map_filter)
    moreover have "map tn_conversation_id (filter running ?ts) =
        map tn_conversation_id (filter (\<lambda>t. running t \<and> \<not> p t) ts)"
      by (rule running_ended) (simp_all add: f keep)
    ultimately show ?thesis by (simp only: filter_filter)
  qed
  ultimately show ?thesis
    using ok unfolding turns_ok_def ids
    by (metis convs image_set)
qed

lemma items_ok_ended:
  assumes "items_ok e ts is" "\<And>t. tn_conversation_id (f t) = tn_conversation_id t"
    "\<And>t. tn_id (f t) = tn_id t" "\<And>t. p t \<Longrightarrow> t \<in> set ts \<Longrightarrow> turn_ok is t \<Longrightarrow> turn_ok is (f t)"
    "\<And>t. p t \<Longrightarrow> \<not> running (f t)"
  shows "items_ok e (update_where p f ts) is"
proof -
  have "map (\<lambda>t. (tn_id t, tn_conversation_id t)) (update_where p f ts) =
      map (\<lambda>t. (tn_id t, tn_conversation_id t)) ts"
    by (rule map_update_where) (simp add: assms)
  then have "(\<lambda>t. (tn_id t, tn_conversation_id t)) ` set (update_where p f ts) =
      (\<lambda>t. (tn_id t, tn_conversation_id t)) ` set ts"
    by (metis image_set)
  moreover have "\<forall>t \<in> set (update_where p f ts). turn_ok is t \<and> latest_ok is t"
    using assms(1,4,5) unfolding items_ok_def set_update_where latest_ok_def by auto
  ultimately show ?thesis using assms(1) unfolding items_ok_def by simp
qed

subsection \<open>What the turn operations do to the tables\<close>

lemma insert_chat_itemD:
  assumes "insert_chat_item i s = Inr s'"
  shows "s' = s\<lparr>cs_items := cs_items s @ [i]\<rparr> \<and> ci_id i \<notin> ci_id ` set (cs_items s)"
  using assms by (auto simp: insert_chat_item_def split: if_splits)

lemma insert_turnD:
  assumes "insert_turn t s = Inr s'"
  shows "s' = s\<lparr>cs_turns := cs_turns s @ [t]\<rparr> \<and> tn_id t \<notin> tn_id ` set (cs_turns s)"
  using assms by (auto simp: insert_turn_def split: if_splits)

lemma touch_tables [simp]:
  "cs_turns (touch_conversation now cid s) = cs_turns s"
  "cs_items (touch_conversation now cid s) = cs_items s"
  "load_turn tid (touch_conversation now cid s) = load_turn tid s"
  "load_turn_items tid (touch_conversation now cid s) = load_turn_items tid s"
  by (simp_all add: touch_conversation_def load_turn_def load_turn_items_def)

lemma touch_states [simp]:
  "conversation_states (touch_conversation now cid s) = conversation_states s"
  unfolding conversation_states_def touch_conversation_def by (simp add: map_update_where)

lemma items_ok_add:
  assumes ok: "items_ok e ts is" and fresh: "ci_id i \<notin> ci_id ` set is"
    and seq: "ci_sequence i = Suc (length (conversation_items (ci_conversation_id i) is))"
    and dig: "ci_content_digest i = content_digest e (ci_content i)"
    and t: "t \<in> set ts'" "tn_id t = ci_turn_id i" "tn_conversation_id t = ci_conversation_id i"
    and sub: "(\<lambda>t. (tn_id t, tn_conversation_id t)) ` set ts \<subseteq> (\<lambda>t. (tn_id t, tn_conversation_id t)) ` set ts'"
    and turns: "\<And>u. u \<in> set ts' \<Longrightarrow> tn_id u = ci_turn_id i \<Longrightarrow> turn_ok (is @ [i]) u"
      "\<And>u. u \<in> set ts' \<Longrightarrow> tn_id u \<noteq> ci_turn_id i \<Longrightarrow> u \<in> set ts"
    and last: "\<And>u. u \<in> set ts' \<Longrightarrow> running u \<Longrightarrow>
      tn_conversation_id u = ci_conversation_id i \<longleftrightarrow> tn_id u = ci_turn_id i"
  shows "items_ok e ts' (is @ [i])"
proof -
  have num: "numbered (is @ [i])"
    using ok seq by (auto simp: items_ok_def intro: numbered_append)
  have refs: "(\<lambda>i. (ci_turn_id i, ci_conversation_id i)) ` set (is @ [i]) \<subseteq>
      (\<lambda>t. (tn_id t, tn_conversation_id t)) ` set ts'"
  proof -
    have "(ci_turn_id i, ci_conversation_id i) \<in> (\<lambda>t. (tn_id t, tn_conversation_id t)) ` set ts'"
      using t(1) by (rule rev_image_eqI) (simp add: t(2,3))
    moreover have "(\<lambda>i. (ci_turn_id i, ci_conversation_id i)) ` set is \<subseteq>
        (\<lambda>t. (tn_id t, tn_conversation_id t)) ` set ts'"
      using ok sub unfolding items_ok_def by (meson order_trans)
    ultimately show ?thesis by simp
  qed
  have "turn_ok (is @ [i]) u" if "u \<in> set ts'" for u
  proof (cases "tn_id u = ci_turn_id i")
    case False
    with turns(2) [OF that] ok have "turn_ok is u" by (simp add: items_ok_def)
    with False show ?thesis by (simp add: turn_ok_other)
  qed (rule turns(1) [OF that])
  moreover have "latest_ok (is @ [i]) u" if "u \<in> set ts'" for u
  proof (cases "tn_id u = ci_turn_id i")
    case True
    then show ?thesis using last [OF that] by (auto simp: latest_ok_def)
  next
    case False
    with turns(2) [OF that] ok have "latest_ok is u" by (simp add: items_ok_def)
    with False show ?thesis using last [OF that] by (auto simp: latest_ok_def)
  qed
  ultimately have "\<forall>u \<in> set ts'. turn_ok (is @ [i]) u \<and> latest_ok (is @ [i]) u" by blast
  with num refs ok fresh dig show ?thesis unfolding items_ok_def by auto
qed

lemma turn_ok_begun:
  assumes "own_items (tn_id t) is = []" "ci_turn_id i = tn_id t" "ci_kind i = UserMessage"
    "ci_content_digest i = tn_request_digest t" "tn_status t = TurnRunning"
    "tn_finished_at t = None" "tn_error_code t = None"
  shows "turn_ok (is @ [i]) t"
  using assms by (simp add: turn_ok_def turn_kinds_running)

lemma turn_ok_steered:
  assumes "turn_ok is t" "tn_status t = TurnRunning" "ci_turn_id i = tn_id t" "ci_kind i = UserSteering"
  shows "turn_ok (is @ [i]) t"
  using assms turn_ok_items [OF assms(1)] by (simp add: turn_ok_def turn_kinds_steering)

lemma turn_ok_completed:
  assumes "turn_ok is t" "tn_status t = TurnRunning" "ci_turn_id i = tn_id t"
    "ci_kind i = AssistantMessage"
  shows "turn_ok (is @ [i]) (t\<lparr>tn_status := TurnCompleted, tn_updated_at := now, tn_finished_at := Some now\<rparr>)"
  using assms turn_ok_items [OF assms(1)] by (simp add: turn_ok_def turn_kinds_completed)

lemma turn_ok_ended:
  assumes "turn_ok is t" "tn_status t = TurnRunning" "status \<notin> {TurnRunning, TurnCompleted}"
    "(code \<noteq> None) = (status \<in> {TurnFailed, TurnInterrupted})"
  shows "turn_ok is (t\<lparr>tn_status := status, tn_error_code := code, tn_updated_at := now,
    tn_finished_at := Some now\<rparr>)"
  using assms by (simp add: turn_ok_def turn_kinds_ended)

lemma fresh_turn_items:
  assumes "items_ok e ts is" "tid \<notin> tn_id ` set ts"
  shows "own_items tid is = []"
  unfolding own_items_def filter_empty_conv using item_turn [OF assms(1)] assms(2) by (metis image_eqI)

lemma running_in:
  assumes "transcripts_ok e s"
  shows "turn_running_in cid tid s \<longleftrightarrow>
    (\<exists>t \<in> set (cs_turns s). tn_id t = tid \<and> tn_conversation_id t = cid \<and> running t)"
proof -
  have "turn_running_in cid tid s \<longleftrightarrow>
      (\<exists>t. load_turn tid s = Some t \<and> tn_conversation_id t = cid \<and> running t)"
    unfolding turn_running_in_def running_def by (auto simp: map_option_case split: option.splits)
  then show ?thesis
    using assms unfolding transcripts_ok_def by (auto simp: load_turn_iff)
qed

lemma no_running_turn:
  "\<not> has_running_turn s cid \<longleftrightarrow> (\<forall>x \<in> set (cs_turns s). running x \<longrightarrow> tn_conversation_id x \<noteq> cid)"
  unfolding has_running_turn_def running_def by auto

lemma active_state:
  assumes "map_option cv_status (find_conversation s cid) = Some ConversationActive"
  shows "(cid, ConversationActive) \<in> set (conversation_states s)"
proof -
  obtain c where "find_conversation s cid = Some c" "cv_status c = ConversationActive"
    using assms by auto
  then have "c \<in> set (cs_conversations s)" "cv_id c = cid" "cv_status c = ConversationActive"
    unfolding find_conversation_def by (auto dest: find_Some_mem)
  then show ?thesis unfolding conversation_states_def by force
qed

section \<open>The turn operations\<close>

text \<open>
  Each of them leaves the projects, providers, selections and the columns of a conversation other
  than \<open>updated_at\<close> as they are.
\<close>

definition conversation_links ::
  "conversation_row \<Rightarrow> string \<times> ConversationStatus \<times> string option \<times> string option"
where
  "conversation_links c = (cv_id c, cv_status c, cv_project_id c, cv_selected_provider_profile_id c)"

definition same_directory :: "conversation_store \<Rightarrow> conversation_store \<Rightarrow> bool" where
  "same_directory s s' \<longleftrightarrow>
     cs_projects s' = cs_projects s \<and> cs_read_roots s' = cs_read_roots s \<and>
     cs_connections s' = cs_connections s \<and> cs_profiles s' = cs_profiles s \<and>
     cs_workspace s' = cs_workspace s \<and>
     map conversation_links (cs_conversations s') = map conversation_links (cs_conversations s)"

lemma same_directory_refl [simp]: "same_directory s s"
  by (simp add: same_directory_def)

lemma touch_directory [simp]:
  "same_directory s (touch_conversation now cid s') = same_directory s s'"
  by (simp add: same_directory_def touch_conversation_def map_update_where conversation_links_def)

lemma same_directory_turns [simp]:
  "same_directory s (s'\<lparr>cs_turns := ts\<rparr>) = same_directory s s'"
  "same_directory s (s'\<lparr>cs_items := is\<rparr>) = same_directory s s'"
  by (simp_all add: same_directory_def)

lemma states_tables [simp]:
  "conversation_states (s\<lparr>cs_turns := ts\<rparr>) = conversation_states s"
  "conversation_states (s\<lparr>cs_items := is\<rparr>) = conversation_states s"
  by (simp_all add: conversation_states_def)

subsection \<open>Beginning\<close>

definition begun_item :: "chat_env \<Rightarrow> int \<Rightarrow> BeginChatTurn \<Rightarrow> conversation_store \<Rightarrow> ConversationItemRecord" where
  "begun_item e now input s =
     next_item e now [bt_turn_id input, ''user''] (bt_conversation_id input) (bt_turn_id input)
       UserMessage (bt_user_message input) s"

lemma begin_turn_txD:
  assumes "begin_turn_tx e now input s = Inr (sn, s')"
  shows "(load_turn (bt_turn_id input) s = Some (sn_turn sn) \<and> s' = s \<and>
      sn_items sn = load_turn_items (bt_turn_id input) s \<and>
      tn_conversation_id (sn_turn sn) = bt_conversation_id input \<and>
      tn_request_digest (sn_turn sn) = content_digest e (bt_user_message input) \<and>
      tn_provider (sn_turn sn) = bt_provider input) \<or>
    (load_turn (bt_turn_id input) s = None \<and> \<not> has_running_turn s (bt_conversation_id input) \<and>
      map_option cv_status (find_conversation s (bt_conversation_id input)) = Some ConversationActive \<and>
      ci_id (begun_item e now input s) \<notin> ci_id ` set (cs_items s) \<and>
      s' = touch_conversation now (bt_conversation_id input)
        (s\<lparr>cs_turns := cs_turns s @ [new_turn e now input],
           cs_items := cs_items s @ [begun_item e now input s]\<rparr>) \<and>
      load_turn (bt_turn_id input) s' = Some (sn_turn sn) \<and>
      sn_items sn = load_turn_items (bt_turn_id input) s')"
  using assms unfolding begin_turn_tx_def begun_item_def [symmetric]
  by (auto split: option.splits if_splits simp: Let_def load_snapshot_def
        dest!: insert_turnD insert_chat_itemD)

lemma begun_ok:
  assumes ok: "transcripts_ok e s" and none: "load_turn (bt_turn_id input) s = None"
    and idle: "\<not> has_running_turn s (bt_conversation_id input)"
    and active: "map_option cv_status (find_conversation s (bt_conversation_id input)) =
      Some ConversationActive"
    and fresh: "ci_id (begun_item e now input s) \<notin> ci_id ` set (cs_items s)"
  shows "transcripts_ok e (s\<lparr>cs_turns := cs_turns s @ [new_turn e now input],
    cs_items := cs_items s @ [begun_item e now input s]\<rparr>)"
proof -
  have to: "turns_ok (conversation_states s) (cs_turns s)" and io: "items_ok e (cs_turns s) (cs_items s)"
    using ok by (auto simp: transcripts_ok_def)
  have new: "bt_turn_id input \<notin> tn_id ` set (cs_turns s)" using none by (simp add: load_turn_None)
  have turns: "turns_ok (conversation_states s) (cs_turns s @ [new_turn e now input])"
    using to new active_state [OF active] idle
    by (intro turns_ok_add) (simp_all add: new_turn_def no_running_turn)
  have num: "numbered (cs_items s)" using io by (simp add: items_ok_def)
  have old: "turn_ok (cs_items s @ [begun_item e now input s]) (new_turn e now input)"
    using fresh_turn_items [OF io new]
    by (intro turn_ok_begun) (simp_all add: begun_item_def next_item_def new_turn_def)
  have "items_ok e (cs_turns s @ [new_turn e now input]) (cs_items s @ [begun_item e now input s])"
  proof (rule items_ok_add [OF io fresh])
    show "ci_sequence (begun_item e now input s) =
        Suc (length (conversation_items (ci_conversation_id (begun_item e now input s)) (cs_items s)))"
      by (simp add: begun_item_def next_item_def next_item_sequence_length [OF num])
    show "ci_content_digest (begun_item e now input s) =
        content_digest e (ci_content (begun_item e now input s))"
      by (simp add: begun_item_def next_item_def)
    show "new_turn e now input \<in> set (cs_turns s @ [new_turn e now input])" by simp
    show "tn_id (new_turn e now input) = ci_turn_id (begun_item e now input s)"
      "tn_conversation_id (new_turn e now input) = ci_conversation_id (begun_item e now input s)"
      by (simp_all add: begun_item_def next_item_def new_turn_def)
    show "(\<lambda>t. (tn_id t, tn_conversation_id t)) ` set (cs_turns s) \<subseteq>
        (\<lambda>t. (tn_id t, tn_conversation_id t)) ` set (cs_turns s @ [new_turn e now input])" by auto
  next
    fix u
    assume u: "u \<in> set (cs_turns s @ [new_turn e now input])"
    show "turn_ok (cs_items s @ [begun_item e now input s]) u"
      if "tn_id u = ci_turn_id (begun_item e now input s)"
    proof -
      have "tn_id u = bt_turn_id input" using that by (simp add: begun_item_def next_item_def)
      then have "u = new_turn e now input" using u new by force
      then show ?thesis using old by simp
    qed
    show "u \<in> set (cs_turns s)" if "tn_id u \<noteq> ci_turn_id (begun_item e now input s)"
      using u that by (auto simp: begun_item_def next_item_def new_turn_def)
    show "tn_conversation_id u = ci_conversation_id (begun_item e now input s) \<longleftrightarrow>
        tn_id u = ci_turn_id (begun_item e now input s)" if "running u"
    proof (cases "u = new_turn e now input")
      case False
      then have "u \<in> set (cs_turns s)" using u by simp
      then have "tn_id u \<noteq> bt_turn_id input" "tn_conversation_id u \<noteq> bt_conversation_id input"
        using new idle that unfolding no_running_turn by (metis image_eqI, metis)
      then show ?thesis by (simp add: begun_item_def next_item_def)
    qed (simp add: begun_item_def next_item_def new_turn_def)
  qed
  with turns show ?thesis by (simp add: transcripts_ok_def)
qed

lemma transcripts_ok_touch [simp]:
  "transcripts_ok e (touch_conversation now cid s) = transcripts_ok e s"
  by (simp add: transcripts_ok_def)

lemma begin_turn_tx_ok:
  assumes "transcripts_ok e s" "begin_turn_tx e now input s = Inr (sn, s')"
  shows "transcripts_ok e s' \<and> same_directory s s'"
  using begin_turn_txD [OF assms(2)] begun_ok [OF assms(1)] assms(1)
  by (elim disjE conjE) simp_all

text \<open>The proof after the commit cannot fail.\<close>

lemma snapshot_proof:
  assumes ok: "transcripts_ok e s" and t: "load_turn tid s = Some (sn_turn sn)"
    and items: "sn_items sn = load_turn_items tid s"
  shows "\<exists>p. user_proof_from_snapshot issuance sn = Inr p"
proof -
  let ?t = "sn_turn sn"
  have to: "turns_ok (conversation_states s) (cs_turns s)" and io: "items_ok e (cs_turns s) (cs_items s)"
    using ok by (auto simp: transcripts_ok_def)
  have mem: "?t \<in> set (cs_turns s)" "tn_id ?t = tid" using t load_turn_iff [OF to] by auto
  then have tok: "turn_ok (cs_items s) ?t" using io by (simp add: items_ok_def)
  obtain i rest where own: "own_items tid (cs_items s) = i # rest"
    using turn_ok_items [OF tok] mem(2) by (cases "own_items tid (cs_items s)") auto
  have "i \<in> set (cs_items s)" "ci_turn_id i = tid"
    using own by (auto simp: own_items_def filter_eq_Cons_iff)
  moreover have "ci_kind i = UserMessage" "ci_content_digest i = tn_request_digest ?t"
    using tok own mem(2) by (auto simp: turn_ok_def dest!: turn_kinds_hd)
  moreover have "ci_conversation_id i = tn_conversation_id ?t"
    using item_turn [OF io] turn_unique [OF to] mem calculation(1,2) by metis
  ultimately show ?thesis
    unfolding user_proof_from_snapshot_def items load_turn_items_own [OF ok] own
    by (simp add: mem(2))
qed

subsection \<open>Steering\<close>

lemma append_work_steeringD:
  assumes "append_work_steering e now sid cid tid content s = Inr (a, s')"
  shows "(s' = s \<and> aw_replayed a \<and> aw_item a \<in> set (cs_items s)) \<or>
    (\<exists>i. i = next_item e now [tid, ''steering'', sid] cid tid UserSteering content s \<and>
      turn_running_in cid tid s \<and> ci_id i \<notin> ci_id ` set (cs_items s) \<and>
      s' = touch_conversation now cid (s\<lparr>cs_items := cs_items s @ [i]\<rparr>))"
  using assms unfolding append_work_steering_def
  by (auto split: option.splits if_splits simp: Let_def load_item_def
        dest!: insert_chat_itemD dest: find_Some_mem)

lemma steered_ok:
  assumes ok: "transcripts_ok e s" and run: "turn_running_in cid tid s"
    and i: "i = next_item e now parts cid tid UserSteering content s"
    and fresh: "ci_id i \<notin> ci_id ` set (cs_items s)"
  shows "transcripts_ok e (s\<lparr>cs_items := cs_items s @ [i]\<rparr>)"
proof -
  have to: "turns_ok (conversation_states s) (cs_turns s)" and io: "items_ok e (cs_turns s) (cs_items s)"
    using ok by (auto simp: transcripts_ok_def)
  obtain t where t: "t \<in> set (cs_turns s)" "tn_id t = tid" "tn_conversation_id t = cid" "running t"
    using run running_in [OF ok] by blast
  have num: "numbered (cs_items s)" using io by (simp add: items_ok_def)
  have "items_ok e (cs_turns s) (cs_items s @ [i])"
  proof (rule items_ok_add [OF io fresh])
    show "ci_sequence i = Suc (length (conversation_items (ci_conversation_id i) (cs_items s)))"
      by (simp add: i next_item_def next_item_sequence_length [OF num])
    show "ci_content_digest i = content_digest e (ci_content i)" by (simp add: i next_item_def)
    show "t \<in> set (cs_turns s)" by (rule t)
    show "tn_id t = ci_turn_id i" "tn_conversation_id t = ci_conversation_id i"
      using t by (simp_all add: i next_item_def)
  next
    fix u
    assume u: "u \<in> set (cs_turns s)"
    show "turn_ok (cs_items s @ [i]) u" if "tn_id u = ci_turn_id i"
    proof -
      have "u = t" using that u t turn_unique [OF to] by (simp add: i next_item_def)
      then show ?thesis
        using io t by (intro turn_ok_steered) (simp_all add: items_ok_def running_def i next_item_def)
    qed
    show "tn_conversation_id u = ci_conversation_id i \<longleftrightarrow> tn_id u = ci_turn_id i" if "running u"
      using u t that one_running [OF to] turn_unique [OF to] by (auto simp: i next_item_def)
  qed auto
  with to show ?thesis by (simp add: transcripts_ok_def)
qed

lemma append_work_steering_ok:
  assumes "transcripts_ok e s" "append_work_steering e now sid cid tid content s = Inr (a, s')"
  shows "transcripts_ok e s' \<and> same_directory s s'"
  using append_work_steeringD [OF assms(2)] steered_ok [OF assms(1)] assms(1)
  by (elim disjE conjE exE) simp_all

subsection \<open>Completing\<close>

lemma load_turn_tables [simp]:
  "load_turn tid (s\<lparr>cs_items := is\<rparr>) = load_turn tid s"
  "load_turn_items tid (s\<lparr>cs_turns := ts\<rparr>) = load_turn_items tid s"
  by (simp_all add: load_turn_def load_turn_items_def)

definition completed_turns :: "int \<Rightarrow> string \<Rightarrow> TurnRecord list \<Rightarrow> TurnRecord list" where
  "completed_turns now tid ts =
     update_where (\<lambda>t. tn_id t = tid \<and> running t)
       (\<lambda>t. t\<lparr>tn_status := TurnCompleted, tn_updated_at := now, tn_finished_at := Some now\<rparr>) ts"

lemma complete_chat_turnD:
  assumes "complete_chat_turn e now tid message s = Inr (sn, s')"
  shows "(s' = s \<and> load_turn tid s = Some (sn_turn sn) \<and> sn_items sn = load_turn_items tid s) \<or>
    (\<exists>t i. load_turn tid s = Some t \<and> running t \<and>
      i = next_item e now [tid, ''assistant''] (tn_conversation_id t) tid AssistantMessage message s \<and>
      ci_id i \<notin> ci_id ` set (cs_items s) \<and>
      s' = touch_conversation now (tn_conversation_id t)
        (s\<lparr>cs_items := cs_items s @ [i], cs_turns := completed_turns now tid (cs_turns s)\<rparr>))"
  using assms unfolding complete_chat_turn_def finish_turn_def running_def completed_turns_def
  by (auto split: option.splits if_splits simp: Let_def load_snapshot_def dest!: insert_chat_itemD)

lemma completed_ok:
  assumes ok: "transcripts_ok e s" and t: "load_turn tid s = Some t" "running t"
    and i: "i = next_item e now parts (tn_conversation_id t) tid AssistantMessage content s"
    and fresh: "ci_id i \<notin> ci_id ` set (cs_items s)"
  shows "transcripts_ok e
    (s\<lparr>cs_items := cs_items s @ [i], cs_turns := completed_turns now tid (cs_turns s)\<rparr>)"
proof -
  let ?f = "\<lambda>t. t\<lparr>tn_status := TurnCompleted, tn_updated_at := now, tn_finished_at := Some now\<rparr>"
  let ?ts = "completed_turns now tid (cs_turns s)"
  have to: "turns_ok (conversation_states s) (cs_turns s)" and io: "items_ok e (cs_turns s) (cs_items s)"
    using ok by (auto simp: transcripts_ok_def)
  have mem: "t \<in> set (cs_turns s)" "tn_id t = tid" using t load_turn_iff [OF to] by auto
  have num: "numbered (cs_items s)" using io by (simp add: items_ok_def)
  have turns: "turns_ok (conversation_states s) ?ts"
    unfolding completed_turns_def by (rule turns_ok_ended [OF to]) (simp_all add: running_def)
  have views: "map (\<lambda>t. (tn_id t, tn_conversation_id t)) ?ts =
      map (\<lambda>t. (tn_id t, tn_conversation_id t)) (cs_turns s)"
    unfolding completed_turns_def by (rule map_update_where) simp
  have new: "?f t \<in> set ?ts"
    unfolding completed_turns_def set_update_where
    by (rule image_eqI [OF _ mem(1)]) (simp add: mem t(2))
  have ids: "distinct (map tn_id ?ts)" using turns by (simp add: turns_ok_def)
  have "items_ok e ?ts (cs_items s @ [i])"
  proof (rule items_ok_add [OF io fresh])
    show "ci_sequence i = Suc (length (conversation_items (ci_conversation_id i) (cs_items s)))"
      by (simp add: i next_item_def next_item_sequence_length [OF num])
    show "ci_content_digest i = content_digest e (ci_content i)" by (simp add: i next_item_def)
    show "?f t \<in> set ?ts" by (rule new)
    show "tn_id (?f t) = ci_turn_id i" "tn_conversation_id (?f t) = ci_conversation_id i"
      using mem by (simp_all add: i next_item_def)
    show "(\<lambda>t. (tn_id t, tn_conversation_id t)) ` set (cs_turns s) \<subseteq>
        (\<lambda>t. (tn_id t, tn_conversation_id t)) ` set ?ts"
      using arg_cong [OF views, of set] by simp
  next
    fix u
    assume u: "u \<in> set ?ts"
    show "turn_ok (cs_items s @ [i]) u" if "tn_id u = ci_turn_id i"
    proof -
      have "u = ?f t"
        using that u new turn_unique [OF turns] mem(2) by (simp add: i next_item_def)
      moreover have "turn_ok (cs_items s @ [i]) (?f t)"
        using io mem t(2)
        by (intro turn_ok_completed) (simp_all add: items_ok_def running_def i next_item_def)
      ultimately show ?thesis by simp
    qed
    show "u \<in> set (cs_turns s)" if "tn_id u \<noteq> ci_turn_id i"
      using u that unfolding completed_turns_def
      by (auto elim!: update_whereE simp: i next_item_def)
    show "tn_conversation_id u = ci_conversation_id i \<longleftrightarrow> tn_id u = ci_turn_id i" if r: "running u"
    proof -
      have "u \<in> set (cs_turns s) \<and> tn_id u \<noteq> tid"
        using u [unfolded completed_turns_def]
        by (rule update_whereE) (use r in \<open>auto simp: running_def\<close>)
      then have "tn_id u \<noteq> tid" "tn_conversation_id u \<noteq> tn_conversation_id t"
        using r mem t(2) one_running [OF to, of u t] by auto
      then show ?thesis by (simp add: i next_item_def)
    qed
  qed
  with turns show ?thesis by (simp add: transcripts_ok_def)
qed

lemma complete_chat_turn_ok:
  assumes "transcripts_ok e s" "complete_chat_turn e now tid message s = Inr (sn, s')"
  shows "transcripts_ok e s' \<and> same_directory s s'"
  using complete_chat_turnD [OF assms(2)] completed_ok [OF assms(1)] assms(1)
  by (elim disjE conjE exE) simp_all

subsection \<open>Ending without an answer\<close>

lemma ended_turns_ok:
  assumes ok: "transcripts_ok e s" and st: "status \<notin> {TurnRunning, TurnCompleted}"
    and code: "(code \<noteq> None) = (status \<in> {TurnFailed, TurnInterrupted})"
  shows "transcripts_ok e (s\<lparr>cs_turns := update_where (\<lambda>t. p t \<and> running t)
    (\<lambda>t. t\<lparr>tn_status := status, tn_error_code := code, tn_updated_at := now,
           tn_finished_at := Some now\<rparr>) (cs_turns s)\<rparr>)"
proof -
  have to: "turns_ok (conversation_states s) (cs_turns s)" and io: "items_ok e (cs_turns s) (cs_items s)"
    using ok by (auto simp: transcripts_ok_def)
  have "turns_ok (conversation_states s) (update_where (\<lambda>t. p t \<and> running t)
    (\<lambda>t. t\<lparr>tn_status := status, tn_error_code := code, tn_updated_at := now,
           tn_finished_at := Some now\<rparr>) (cs_turns s))"
    using st by (intro turns_ok_ended [OF to]) (simp_all add: running_def)
  moreover have "items_ok e (update_where (\<lambda>t. p t \<and> running t)
    (\<lambda>t. t\<lparr>tn_status := status, tn_error_code := code, tn_updated_at := now,
           tn_finished_at := Some now\<rparr>) (cs_turns s)) (cs_items s)"
  proof (rule items_ok_ended [OF io])
    fix t
    assume "p t \<and> running t" "turn_ok (cs_items s) t"
    then show "turn_ok (cs_items s) (t\<lparr>tn_status := status, tn_error_code := code,
        tn_updated_at := now, tn_finished_at := Some now\<rparr>)"
      using st code by (intro turn_ok_ended) (simp_all add: running_def)
  qed (use st in \<open>simp_all add: running_def\<close>)
  ultimately show ?thesis by (simp add: transcripts_ok_def)
qed

lemma terminalizeD:
  assumes "terminalize_without_assistant now tid status code s = Inr (t, s')"
  shows "s' = s \<or> s' = end_turn now tid status code s"
  using assms by (auto simp: terminalize_without_assistant_def Let_def split: if_splits)

lemma terminalize_ok:
  assumes "transcripts_ok e s" "terminalize_without_assistant now tid status code s = Inr (t, s')"
    "status \<notin> {TurnRunning, TurnCompleted}" "(code \<noteq> None) = (status \<in> {TurnFailed, TurnInterrupted})"
  shows "transcripts_ok e s' \<and> same_directory s s'"
  using terminalizeD [OF assms(2)]
    ended_turns_ok [OF assms(1,3,4), of "\<lambda>t. tn_id t = tid" now] assms(1)
  unfolding end_turn_def running_def by (elim disjE) simp_all

lemma interrupt_ok:
  assumes "transcripts_ok e s"
  shows "transcripts_ok e (snd (interrupt_incomplete_turns now s)) \<and>
    same_directory s (snd (interrupt_incomplete_turns now s))"
  using ended_turns_ok [OF assms, of TurnInterrupted "Some ''process_restarted''" "\<lambda>_. True" now]
  by (simp add: interrupt_incomplete_turns_def running_def)

end
