(* ===== verification/Conversation_Directory.thy ===== *)
theory Conversation_Directory
  imports Conversation_Safety
begin

text \<open>
  The invariant of the tables around the transcripts: projects with their read roots, provider
  connections with their profiles, the references of the conversations, and the selections of the
  workspace; then the invariant of the whole store over every call.
\<close>

section \<open>The invariant\<close>

definition clean :: "string \<Rightarrow> bool" where
  "clean x \<longleftrightarrow> CHR 0x00 \<notin> set x"

definition project_ok :: "chat_env \<Rightarrow> project_row \<Rightarrow> bool" where
  "project_ok e p \<longleftrightarrow>
     0 < pj_revision p \<and> ce_uuid_ok e (pj_id p) \<and> clean (pj_name p) \<and>
     (\<forall>r. pj_workspace_root p = Some r \<longrightarrow> r \<noteq> [] \<and> clean r)"

definition projects_ok :: "chat_env \<Rightarrow> project_row list \<Rightarrow> bool" where
  "projects_ok e ps \<longleftrightarrow> distinct (map pj_id ps) \<and> (\<forall>p \<in> set ps. project_ok e p)"

definition read_root_ok :: "chat_env \<Rightarrow> read_root_row \<Rightarrow> bool" where
  "read_root_ok e r \<longleftrightarrow> ce_uuid_ok e (rr_id r) \<and> clean (rr_name r) \<and> clean (rr_path r)"

definition roots_ok :: "chat_env \<Rightarrow> string set \<Rightarrow> read_root_row list \<Rightarrow> bool" where
  "roots_ok e pids rs \<longleftrightarrow>
     distinct (map rr_id rs) \<and> distinct (map (\<lambda>r. (rr_project_id r, rr_path r)) rs) \<and>
     rr_project_id ` set rs \<subseteq> pids \<and> (\<forall>r \<in> set rs. read_root_ok e r) \<and>
     (\<forall>pid. count_where (\<lambda>r. rr_project_id r = pid) rs \<le> MAX_PROJECT_ADDITIONAL_READ_ROOTS)"

definition providers_ok ::
  "ProviderConnectionRecord list \<Rightarrow> ProviderModelProfileRecord list \<Rightarrow> bool"
where
  "providers_ok cs ps \<longleftrightarrow>
     distinct (map pc_id cs) \<and> distinct (map pp_profile_id ps) \<and>
     distinct (map (\<lambda>p. (pp_connection_id p, pp_model_id p)) ps) \<and>
     pp_connection_id ` set ps \<subseteq> pc_id ` set cs"

type_synonym conversation_link =
  "string \<times> ConversationStatus \<times> string option \<times> string option"

fun link_ok :: "string set \<Rightarrow> string set \<Rightarrow> conversation_link \<Rightarrow> bool" where
  "link_ok pids fids (_, _, p, f) \<longleftrightarrow> set_option p \<subseteq> pids \<and> set_option f \<subseteq> fids"

definition conversations_ok :: "string set \<Rightarrow> string set \<Rightarrow> conversation_link list \<Rightarrow> bool" where
  "conversations_ok pids fids ls \<longleftrightarrow> distinct (map fst ls) \<and> (\<forall>l \<in> set ls. link_ok pids fids l)"

definition workspace_ok ::
  "string set \<Rightarrow> string set \<Rightarrow> string set \<Rightarrow> workspace_context_state \<Rightarrow> bool"
where
  "workspace_ok apids acids fids w \<longleftrightarrow>
     set_option (ws_new_conversation_project_id w) \<subseteq> apids \<and>
     set_option (ws_selected_conversation_id w) \<subseteq> acids \<and>
     set_option (ws_selected_provider_profile_id w) \<subseteq> fids"

definition project_ids :: "conversation_store \<Rightarrow> string set" where
  "project_ids s = pj_id ` set (cs_projects s)"

definition active_projects :: "conversation_store \<Rightarrow> string set" where
  "active_projects s = pj_id ` {p \<in> set (cs_projects s). pj_status p = ProjectActive}"

definition profile_ids :: "conversation_store \<Rightarrow> string set" where
  "profile_ids s = pp_profile_id ` set (cs_profiles s)"

definition links :: "conversation_store \<Rightarrow> conversation_link list" where
  "links s = map conversation_links (cs_conversations s)"

definition active_conversations :: "conversation_store \<Rightarrow> string set" where
  "active_conversations s = fst ` {l \<in> set (links s). fst (snd l) = ConversationActive}"

definition directory_ok :: "chat_env \<Rightarrow> conversation_store \<Rightarrow> bool" where
  "directory_ok e s \<longleftrightarrow>
     projects_ok e (cs_projects s) \<and> roots_ok e (project_ids s) (cs_read_roots s) \<and>
     providers_ok (cs_connections s) (cs_profiles s) \<and>
     conversations_ok (project_ids s) (profile_ids s) (links s) \<and>
     workspace_ok (active_projects s) (active_conversations s) (profile_ids s) (cs_workspace s)"

definition chat_ok :: "chat_env \<Rightarrow> conversation_store \<Rightarrow> bool" where
  "chat_ok e s \<longleftrightarrow> transcripts_ok e s \<and> directory_ok e s"

lemmas directory_sets = project_ids_def active_projects_def profile_ids_def links_def
  active_conversations_def

lemma chat_ok_initial: "chat_ok e initial_conversations"
  by (simp add: chat_ok_def transcripts_ok_def directory_ok_def directory_sets turns_ok_def items_ok_def
      projects_ok_def roots_ok_def providers_ok_def conversations_ok_def workspace_ok_def numbered_def
      conversation_items_def initial_conversations_def count_where_def)

lemma directory_ok_same: "same_directory s s' \<Longrightarrow> directory_ok e s' = directory_ok e s"
  by (simp add: same_directory_def directory_ok_def directory_sets)

lemma turn_operation_ok:
  "chat_ok e s \<Longrightarrow> transcripts_ok e s' \<and> same_directory s s' \<Longrightarrow> chat_ok e s'"
  unfolding chat_ok_def using directory_ok_same by blast

section \<open>Frames\<close>

text \<open>
  The operations of this theory do not touch the turns: what they need of the transcripts is that
  the states of the conversations allow the same turns.
\<close>

definition same_turns :: "conversation_store \<Rightarrow> conversation_store \<Rightarrow> bool" where
  "same_turns s s' \<longleftrightarrow> cs_turns s' = cs_turns s \<and> cs_items s' = cs_items s"

lemma transcripts_frame:
  "transcripts_ok e s \<Longrightarrow> same_turns s s' \<Longrightarrow> cs_conversations s' = cs_conversations s \<Longrightarrow>
   transcripts_ok e s'"
  by (simp add: transcripts_ok_def same_turns_def conversation_states_def)

lemma transcripts_states:
  assumes "transcripts_ok e s" "same_turns s s'"
    "tn_conversation_id ` set (cs_turns s) \<subseteq> fst ` set (conversation_states s')"
    "\<And>t. t \<in> set (cs_turns s) \<Longrightarrow> running t \<Longrightarrow>
      (tn_conversation_id t, ConversationActive) \<in> set (conversation_states s')"
  shows "transcripts_ok e s'"
  using assms by (simp add: transcripts_ok_def same_turns_def turns_ok_def)

lemma links_states: "conversation_states s = map (\<lambda>l. (fst l, fst (snd l))) (links s)"
  by (simp add: conversation_states_def links_def conversation_links_def)

lemma transcripts_links:
  "transcripts_ok e s \<Longrightarrow> same_turns s s' \<Longrightarrow>
   map (\<lambda>l. (fst l, fst (snd l))) (links s') = map (\<lambda>l. (fst l, fst (snd l))) (links s) \<Longrightarrow>
   transcripts_ok e s'"
  by (simp add: transcripts_ok_def same_turns_def links_states)

section \<open>Texts\<close>

lemma byte_nul: "byte (CHR 0x00) = 0"
  by (simp add: byte_def)

lemma nul_not_space:
  "\<not> ws1 (CHR 0x00)" "\<not> ws2 (CHR 0x00) b" "\<not> ws2 a (CHR 0x00)"
  "\<not> ws3 (CHR 0x00) b c" "\<not> ws3 a (CHR 0x00) c" "\<not> ws3 a b (CHR 0x00)"
  by (simp_all add: ws1_def ws2_def ws3_def byte_nul)

lemma trim_start_clean: "clean (trim_start s) = clean s"
  unfolding clean_def
  by (induction s rule: trim_start.induct) (auto simp: nul_not_space)

lemma trim_start_rev_clean: "clean (trim_start_rev s) = clean s"
  unfolding clean_def
  by (induction s rule: trim_start_rev.induct) (auto simp: nul_not_space)

lemma clean_rev [simp]: "clean (rev s) = clean s"
  by (simp add: clean_def)

lemma trim_clean [simp]: "clean (trim s) = clean s"
  by (simp add: trim_def trim_start_clean trim_start_rev_clean)

lemma control_clean: "\<not> has_control s \<Longrightarrow> clean s"
  unfolding clean_def by (induction s) (auto simp: byte_nul)

lemma check_labelD: "check_label field value n = Inr () \<Longrightarrow> clean value \<and> value \<noteq> []"
  using control_clean [of "trim value"] by (auto simp: check_label_def Let_def)

section \<open>Projects\<close>

lemma update_projectD:
  "update_project code p f s = Inr s' \<Longrightarrow>
   s' = s\<lparr>cs_projects := update_where p f (cs_projects s)\<rparr> \<and> count_where p (cs_projects s) = 1"
  by (auto simp: update_project_def require_one_def)

lemma update_conversationD:
  "update_conversation code p f s = Inr s' \<Longrightarrow>
   s' = s\<lparr>cs_conversations := update_where p f (cs_conversations s)\<rparr> \<and>
   count_where p (cs_conversations s) = 1"
  by (auto simp: update_conversation_def require_one_def)

lemma then_readD:
  assumes "then_read r f s = (Inr x, s')"
  shows "r = Inr s' \<and> f s' = Inr x"
  using assms by (auto simp: then_read_def split: sum.splits)

lemma then_read_snd: "snd (then_read r f s) = (case r of Inl _ \<Rightarrow> s | Inr s' \<Rightarrow> s')"
  by (simp add: then_read_def split: sum.splits)

lemma workspace_ok_mono:
  "workspace_ok A C F w \<Longrightarrow> A \<subseteq> A' \<Longrightarrow> C \<subseteq> C' \<Longrightarrow> F \<subseteq> F' \<Longrightarrow> workspace_ok A' C' F' w"
  by (auto simp: workspace_ok_def)

lemma directory_okI:
  assumes "projects_ok e (cs_projects s)" "roots_ok e (project_ids s) (cs_read_roots s)"
    "providers_ok (cs_connections s) (cs_profiles s)"
    "conversations_ok (project_ids s) (profile_ids s) (links s)"
    "workspace_ok (active_projects s) (active_conversations s) (profile_ids s) (cs_workspace s)"
  shows "directory_ok e s"
  using assms by (simp add: directory_ok_def)

lemma chat_okD:
  assumes "chat_ok e s"
  shows "transcripts_ok e s" "projects_ok e (cs_projects s)"
    "roots_ok e (project_ids s) (cs_read_roots s)" "providers_ok (cs_connections s) (cs_profiles s)"
    "conversations_ok (project_ids s) (profile_ids s) (links s)"
    "workspace_ok (active_projects s) (active_conversations s) (profile_ids s) (cs_workspace s)"
  using assms by (simp_all add: chat_ok_def directory_ok_def)

lemma conversations_ok_mono:
  assumes "conversations_ok P F ls" "P \<subseteq> P'" "F \<subseteq> F'"
  shows "conversations_ok P' F' ls"
proof -
  have "link_ok P' F' l" if "link_ok P F l" for l
    using that assms(2,3) by (cases l) auto
  then show ?thesis using assms(1) by (simp add: conversations_ok_def)
qed

lemma roots_ok_mono: "roots_ok e P rs \<Longrightarrow> P \<subseteq> P' \<Longrightarrow> roots_ok e P' rs"
  by (auto simp: roots_ok_def)

lemma check_project_scopeD:
  assumes "check_project_scope e pid name root = Inr ()"
  shows "ce_uuid_ok e pid \<and> clean name \<and> (\<forall>r. root = Some r \<longrightarrow> r \<noteq> [] \<and> clean r)"
  using assms by (auto simp: check_project_scope_def check_uuid_def when_some_def dest!: check_labelD)

lemma projects_ok_add:
  "projects_ok e ps \<Longrightarrow> pj_id p \<notin> pj_id ` set ps \<Longrightarrow> project_ok e p \<Longrightarrow> projects_ok e (ps @ [p])"
  by (auto simp: projects_ok_def)

lemma projects_ok_update:
  assumes "projects_ok e ps" "\<And>x. pj_id (f x) = pj_id x"
    "\<And>x. p x \<Longrightarrow> project_ok e x \<Longrightarrow> project_ok e (f x)"
  shows "projects_ok e (update_where p f ps)"
  using assms map_update_where [of p pj_id f ps] unfolding projects_ok_def set_update_where by auto

lemma project_ids_update:
  "(\<And>x. pj_id (f x) = pj_id x) \<Longrightarrow>
   project_ids (s\<lparr>cs_projects := update_where p f (cs_projects s)\<rparr>) = project_ids s"
  using map_update_where [of p pj_id f "cs_projects s"] unfolding project_ids_def
  by (metis image_set conversation_store.select_convs(1) conversation_store.surjective
      conversation_store.update_convs(1))

text \<open>The tables of a store whose projects change.\<close>

lemma project_frame [simp]:
  "profile_ids (s\<lparr>cs_projects := ps\<rparr>) = profile_ids s" "links (s\<lparr>cs_projects := ps\<rparr>) = links s"
  "active_conversations (s\<lparr>cs_projects := ps\<rparr>) = active_conversations s"
  "same_turns s (s'\<lparr>cs_projects := ps\<rparr>) = same_turns s s'"
  "same_turns s (s'\<lparr>cs_read_roots := rs\<rparr>) = same_turns s s'"
  "same_turns s (s'\<lparr>cs_workspace := w\<rparr>) = same_turns s s'"
  "same_turns s (s'\<lparr>cs_connections := cs\<rparr>) = same_turns s s'"
  "same_turns s (s'\<lparr>cs_profiles := fs\<rparr>) = same_turns s s'"
  "same_turns s (s'\<lparr>cs_conversations := vs\<rparr>) = same_turns s s'"
  "same_turns s s"
  by (simp_all add: directory_sets same_turns_def)

lemma project_updated_ok:
  assumes ok: "chat_ok e s" and ids: "\<And>x. pj_id (f x) = pj_id x"
    and each: "\<And>x. p x \<Longrightarrow> project_ok e x \<Longrightarrow> project_ok e (f x)"
    and keep: "\<And>x. p x \<Longrightarrow> pj_status x = ProjectActive \<Longrightarrow> pj_status (f x) = ProjectActive"
  shows "chat_ok e (s\<lparr>cs_projects := update_where p f (cs_projects s)\<rparr>)" (is "chat_ok e ?s")
proof -
  have "active_projects s \<subseteq> active_projects ?s"
    unfolding active_projects_def
  proof
    fix pid
    assume "pid \<in> pj_id ` {x \<in> set (cs_projects s). pj_status x = ProjectActive}"
    then obtain x where x: "x \<in> set (cs_projects s)" "pj_status x = ProjectActive" "pj_id x = pid" by auto
    obtain y where y: "y = (if p x then f x else x)" by simp
    have "y \<in> set (cs_projects ?s)" using x(1) y by (auto simp: set_update_where)
    moreover have "pj_status y = ProjectActive" "pid = pj_id y" using x keep ids y by auto
    ultimately show "pid \<in> pj_id ` {x \<in> set (cs_projects ?s). pj_status x = ProjectActive}" by blast
  qed
  then have "workspace_ok (active_projects ?s) (active_conversations s) (profile_ids s) (cs_workspace s)"
    by (rule workspace_ok_mono [OF chat_okD(6) [OF ok]]) simp_all
  then have "directory_ok e ?s"
    using chat_okD [OF ok] projects_ok_update [OF chat_okD(2) [OF ok] ids each]
    by (intro directory_okI) (simp_all add: project_ids_update ids)
  moreover have "transcripts_ok e ?s"
    using ok by (rule_tac transcripts_frame [of e s]) (simp_all add: chat_ok_def)
  ultimately show ?thesis by (simp add: chat_ok_def)
qed

lemma at_revision_ok:
  "project_ok e x \<Longrightarrow> project_ok e (bump_project now x)"
  "project_ok e x \<Longrightarrow> project_ok e (x\<lparr>pj_status := st\<rparr>)"
  by (simp_all add: project_ok_def bump_project_def)

lemma project_added_ok:
  assumes ok: "chat_ok e s" and ins: "insert_project p s = Inr s'" and p: "project_ok e p"
  shows "chat_ok e s'"
proof -
  have s': "s' = s\<lparr>cs_projects := cs_projects s @ [p]\<rparr>" and new: "pj_id p \<notin> pj_id ` set (cs_projects s)"
    using ins by (auto simp: insert_project_def split: if_splits)
  have sub: "project_ids s \<subseteq> project_ids s'" "active_projects s \<subseteq> active_projects s'"
    by (auto simp: s' project_ids_def active_projects_def)
  have same: "cs_projects s' = cs_projects s @ [p]" "cs_read_roots s' = cs_read_roots s"
    "cs_connections s' = cs_connections s" "cs_profiles s' = cs_profiles s"
    "links s' = links s" "profile_ids s' = profile_ids s" "cs_workspace s' = cs_workspace s"
    "active_conversations s' = active_conversations s"
    by (simp_all add: s')
  have "directory_ok e s'"
    by (rule directory_okI; unfold same)
      (rule projects_ok_add [OF chat_okD(2) [OF ok] new p] roots_ok_mono [OF chat_okD(3) [OF ok] sub(1)]
        chat_okD(4) [OF ok] conversations_ok_mono [OF chat_okD(5) [OF ok] sub(1) order_refl]
        workspace_ok_mono [OF chat_okD(6) [OF ok] sub(2) order_refl order_refl])+
  moreover have "transcripts_ok e s'"
    using ok by (rule_tac transcripts_frame [of e s]) (simp_all add: s' chat_ok_def)
  ultimately show ?thesis by (simp add: chat_ok_def)
qed

lemma workspace_changed_ok:
  assumes "chat_ok e s" "workspace_ok (active_projects s) (active_conversations s) (profile_ids s) w"
  shows "chat_ok e (s\<lparr>cs_workspace := w\<rparr>)"
proof -
  have "transcripts_ok e (s\<lparr>cs_workspace := w\<rparr>)"
    using assms(1) by (rule_tac transcripts_frame [of e s]) (simp_all add: chat_ok_def)
  then show ?thesis using assms by (simp add: chat_ok_def directory_ok_def directory_sets)
qed

lemma chat_workspace_ok:
  "chat_ok e s \<Longrightarrow> workspace_ok (active_projects s) (active_conversations s) (profile_ids s) (cs_workspace s)"
  by (simp add: chat_ok_def directory_ok_def)

subsection \<open>The operations on projects\<close>

lemma new_project_ok:
  assumes "check_project_scope e pid name root = Inr ()"
  shows "project_ok e (new_project pid name root now)"
  using check_project_scopeD [OF assms] by (simp add: project_ok_def new_project_def)

lemma insert_projectD:
  assumes "insert_project p s = Inr s'"
  shows "s' = s\<lparr>cs_projects := cs_projects s @ [p]\<rparr>"
  using assms by (auto simp: insert_project_def split: if_splits)

lemma select_project_ok:
  assumes ok: "chat_ok e s" and pid: "set_option pid \<subseteq> active_projects s"
  shows "chat_ok e (update_workspace
    (\<lambda>w. w\<lparr>ws_new_conversation_project_id := pid, ws_updated_at := now\<rparr>) s)"
  unfolding update_workspace_def
  by (rule workspace_changed_ok [OF ok]) (use chat_okD(6) [OF ok] pid in \<open>simp add: workspace_ok_def\<close>)

lemma create_project_ok:
  assumes ok: "chat_ok e s"
  shows "chat_ok e (snd (create_project e now pid name root s))"
  unfolding create_project_def then_read_snd
  by (auto split: sum.splits intro: ok project_added_ok [OF ok] new_project_ok)

lemma create_scope_project_ok:
  assumes ok: "chat_ok e s"
  shows "chat_ok e (snd (create_project_as_new_conversation_scope e now pid name root s))"
proof -
  have "chat_ok e (update_workspace
      (\<lambda>w. w\<lparr>ws_new_conversation_project_id := Some pid, ws_updated_at := now\<rparr>) s1)"
    if "check_project_scope e pid name (Some root) = Inr ()"
      "insert_project (new_project pid name (Some root) now) s = Inr s1" for s1
  proof (rule select_project_ok)
    show "chat_ok e s1" by (rule project_added_ok [OF ok that(2) new_project_ok [OF that(1)]])
    show "set_option (Some pid) \<subseteq> active_projects s1"
      unfolding insert_projectD [OF that(2)] active_projects_def
      by (auto simp: new_project_def intro!: image_eqI [where x = "new_project pid name (Some root) now"])
  qed
  then show ?thesis
    unfolding create_project_as_new_conversation_scope_def then_read_snd
    by (auto split: sum.splits intro: ok)
qed

lemma set_new_conversation_project_ok:
  assumes ok: "chat_ok e s" and op: "set_new_conversation_project e now pid s = Inr s'"
  shows "chat_ok e s'"
proof -
  have s': "s' = update_workspace
      (\<lambda>w. w\<lparr>ws_new_conversation_project_id := pid, ws_updated_at := now\<rparr>) s"
    and pid: "pid = None \<or> active_project s (the pid)"
    using op by (auto simp: set_new_conversation_project_def split: if_splits)
  show ?thesis unfolding s'
    by (rule select_project_ok [OF ok]) (use pid in \<open>cases pid; auto simp: active_project_def active_projects_def\<close>)
qed

lemma update_project_scope_ok:
  assumes ok: "chat_ok e s"
  shows "chat_ok e (snd (update_project_scope e now pid name root expected s))"
proof -
  have "chat_ok e s'"
    if c: "check_project_scope e pid name root = Inr ()"
      and u: "update_project code (at_revision pid expected ProjectActive)
        (\<lambda>p. (bump_project now p)\<lparr>pj_name := trim name, pj_workspace_root := root\<rparr>) s = Inr s'"
    for s' code
    unfolding conjunct1 [OF update_projectD [OF u]]
    using check_project_scopeD [OF c]
    by (rule_tac project_updated_ok [OF ok]) (simp_all add: project_ok_def bump_project_def)
  then show ?thesis
    unfolding update_project_scope_def then_read_snd by (auto split: sum.splits intro: ok)
qed

lemma restore_project_ok:
  assumes ok: "chat_ok e s"
  shows "chat_ok e (snd (restore_project e now pid expected s))"
proof -
  have "chat_ok e s'"
    if u: "update_project code (at_revision pid expected ProjectArchived)
        (\<lambda>p. (bump_project now p)\<lparr>pj_status := ProjectActive\<rparr>) s = Inr s'" for s' code
    unfolding conjunct1 [OF update_projectD [OF u]]
    by (rule project_updated_ok [OF ok]) (simp_all add: project_ok_def bump_project_def)
  then show ?thesis
    unfolding restore_project_def then_read_snd by (auto split: sum.splits intro: ok)
qed

lemma roots_ok_add:
  assumes "roots_ok e P rs" "rr_id r \<notin> rr_id ` set rs"
    "\<not> exists_where (\<lambda>x. rr_project_id x = rr_project_id r \<and> rr_path x = rr_path r) rs"
    "rr_project_id r \<in> P" "read_root_ok e r"
    "count_where (\<lambda>x. rr_project_id x = rr_project_id r) rs < MAX_PROJECT_ADDITIONAL_READ_ROOTS"
  shows "roots_ok e P (rs @ [r])"
proof -
  have "count_where (\<lambda>x. rr_project_id x = pid) (rs @ [r]) \<le> MAX_PROJECT_ADDITIONAL_READ_ROOTS" for pid
    using assms(1,6) by (cases "rr_project_id r = pid") (auto simp: roots_ok_def count_where_def)
  then show ?thesis using assms by (auto simp: roots_ok_def)
qed

lemma roots_ok_filter:
  assumes "roots_ok e P rs" "rr_project_id ` set (filter q rs) \<subseteq> P'"
  shows "roots_ok e P' (filter q rs)"
proof -
  have "count_where (\<lambda>x. rr_project_id x = pid) (filter q rs) \<le> MAX_PROJECT_ADDITIONAL_READ_ROOTS" for pid
  proof -
    have "count_where (\<lambda>x. rr_project_id x = pid) (filter q rs) \<le>
        count_where (\<lambda>x. rr_project_id x = pid) rs" by (induction rs) (auto simp: count_where_def)
    then show ?thesis using assms(1) unfolding roots_ok_def by (meson le_trans)
  qed
  then show ?thesis using assms unfolding roots_ok_def by (auto intro: distinct_map_filter)
qed

lemma read_roots_changed_ok:
  assumes "chat_ok e s" "roots_ok e (project_ids s) rs"
  shows "chat_ok e (s\<lparr>cs_read_roots := rs\<rparr>)"
proof -
  have "transcripts_ok e (s\<lparr>cs_read_roots := rs\<rparr>)"
    using assms(1) by (rule_tac transcripts_frame [of e s]) (simp_all add: chat_ok_def)
  then show ?thesis using assms by (simp add: chat_ok_def directory_ok_def directory_sets)
qed

lemma bump_project_ok:
  assumes ok: "chat_ok e s" and u: "update_project code p (bump_project now) s = Inr s'"
  shows "chat_ok e s' \<and> cs_read_roots s' = cs_read_roots s \<and> project_ids s' = project_ids s"
proof -
  have s': "s' = s\<lparr>cs_projects := update_where p (bump_project now) (cs_projects s)\<rparr>"
    by (rule conjunct1 [OF update_projectD [OF u]])
  have "chat_ok e s'" unfolding s'
    by (rule project_updated_ok [OF ok]) (simp_all add: project_ok_def bump_project_def)
  moreover have "project_ids s' = project_ids s" unfolding s'
    by (rule project_ids_update) (simp add: bump_project_def)
  ultimately show ?thesis by (simp add: s')
qed

lemma insert_read_root_ok:
  assumes ok: "chat_ok e s" and ins: "insert_read_root r s = Inr s'" and r: "read_root_ok e r"
    and few: "count_where (\<lambda>x. rr_project_id x = rr_project_id r) (cs_read_roots s) <
      MAX_PROJECT_ADDITIONAL_READ_ROOTS"
  shows "chat_ok e s'"
proof -
  have s': "s' = s\<lparr>cs_read_roots := cs_read_roots s @ [r]\<rparr>"
    and new: "rr_id r \<notin> rr_id ` set (cs_read_roots s)"
      "\<not> exists_where (\<lambda>x. rr_project_id x = rr_project_id r \<and> rr_path x = rr_path r) (cs_read_roots s)"
      "rr_project_id r \<in> project_ids s"
    using ins by (auto simp: insert_read_root_def project_ids_def split: if_splits intro: rev_image_eqI)
  show ?thesis unfolding s'
    by (rule read_roots_changed_ok [OF ok roots_ok_add [OF chat_okD(3) [OF ok] new r few]])
qed

lemma add_project_read_root_ok:
  assumes ok: "chat_ok e s"
  shows "chat_ok e (snd (add_project_read_root e now pid root_id name path expected s))"
proof -
  have "chat_ok e s2"
    if u: "update_project code p (bump_project now) s = Inr s1"
      and ins: "insert_read_root \<lparr>rr_id = root_id, rr_name = trim name, rr_path = path,
        rr_project_id = pid, rr_created_at = now\<rparr> s1 = Inr s2"
      and few: "\<not> count_where (\<lambda>r. rr_project_id r = pid) (cs_read_roots s) \<ge>
        MAX_PROJECT_ADDITIONAL_READ_ROOTS"
      and texts: "check_uuid e f0 root_id = Inr ()" "check_label f1 name n1 = Inr ()"
        "check_label f2 path n2 = Inr ()"
    for s1 s2 code p f0 f1 f2 n1 n2
  proof (rule insert_read_root_ok [OF _ ins])
    show "chat_ok e s1" using bump_project_ok [OF ok u] by simp
    show "read_root_ok e \<lparr>rr_id = root_id, rr_name = trim name, rr_path = path, rr_project_id = pid,
        rr_created_at = now\<rparr>"
      using texts by (auto simp: read_root_ok_def check_uuid_def dest!: check_labelD)
  qed (use bump_project_ok [OF ok u] few in simp)
  then show ?thesis
    unfolding add_project_read_root_def then_read_snd by (auto split: sum.splits intro: ok)
qed

lemma remove_project_read_root_ok:
  assumes ok: "chat_ok e s"
  shows "chat_ok e (snd (remove_project_read_root e now pid root_id expected s))"
proof -
  have "chat_ok e (s1\<lparr>cs_read_roots := filter q (cs_read_roots s1)\<rparr>)"
    if u: "update_project code p (bump_project now) s = Inr s1" for s1 code p q
  proof (rule read_roots_changed_ok)
    show "chat_ok e s1" using bump_project_ok [OF ok u] by simp
    then show "roots_ok e (project_ids s1) (filter q (cs_read_roots s1))"
      by (intro roots_ok_filter [OF chat_okD(3)]) (auto dest!: chat_okD(3) simp: roots_ok_def image_subset_iff)
  qed
  then show ?thesis
    unfolding remove_project_read_root_def then_read_snd by (auto split: sum.splits intro: ok)
qed

text \<open>Archiving clears the selection of the project in the same transaction.\<close>

lemma archived_ok:
  assumes ok: "chat_ok e s" and p: "\<And>x. p x \<Longrightarrow> pj_id x = pid"
    and w: "w' = cs_workspace s \<or> w' = (cs_workspace s)\<lparr>ws_new_conversation_project_id := None,
      ws_updated_at := now\<rparr>" "ws_new_conversation_project_id w' \<noteq> Some pid"
  shows "chat_ok e (s\<lparr>cs_projects := update_where p
    (\<lambda>p. (bump_project now p)\<lparr>pj_status := ProjectArchived\<rparr>) (cs_projects s), cs_workspace := w'\<rparr>)"
    (is "chat_ok e ?s")
proof -
  let ?f = "\<lambda>p. (bump_project now p)\<lparr>pj_status := ProjectArchived\<rparr>"
  have ids: "project_ids ?s = project_ids s"
    using project_ids_update [where p = p and f = ?f and s = s] by (simp add: project_ids_def bump_project_def)
  have sub: "active_projects s - {pid} \<subseteq> active_projects ?s"
    unfolding active_projects_def using p by (auto simp: set_update_where)
  have same: "links ?s = links s" "profile_ids ?s = profile_ids s"
    "active_conversations ?s = active_conversations s" by (simp_all add: directory_sets)
  have "workspace_ok (active_projects ?s) (active_conversations s) (profile_ids s) w'"
    using chat_okD(6) [OF ok] w sub by (auto simp: workspace_ok_def)
  moreover have "projects_ok e (update_where p ?f (cs_projects s))"
    by (rule projects_ok_update [OF chat_okD(2) [OF ok]]) (simp_all add: project_ok_def bump_project_def)
  ultimately have "directory_ok e ?s"
    using chat_okD [OF ok] by (intro directory_okI) (simp_all add: ids same)
  moreover have "transcripts_ok e ?s"
    using ok by (rule_tac transcripts_frame [of e s]) (simp_all add: chat_ok_def)
  ultimately show ?thesis by (simp add: chat_ok_def)
qed

lemma archive_project_ok:
  assumes ok: "chat_ok e s"
  shows "chat_ok e (snd (archive_project e now pid expected s))"
proof -
  have "chat_ok e (update_workspace
      (\<lambda>w. if ws_new_conversation_project_id w = Some pid
           then w\<lparr>ws_new_conversation_project_id := None, ws_updated_at := now\<rparr> else w) s1)"
    if u: "update_project code (at_revision pid expected ProjectActive)
      (\<lambda>p. (bump_project now p)\<lparr>pj_status := ProjectArchived\<rparr>) s = Inr s1" for s1 code
    unfolding conjunct1 [OF update_projectD [OF u]] update_workspace_def
    using archived_ok [OF ok, of "at_revision pid expected ProjectActive" pid _ now]
    by (simp add: at_revision_def)
  then show ?thesis
    unfolding archive_project_def then_read_snd by (auto split: sum.splits intro: ok)
qed

lemma delete_archived_project_ok:
  assumes ok: "chat_ok e s" and op: "delete_archived_project e pid expected s = Inr s'"
  shows "chat_ok e s'"
proof -
  let ?p = "\<lambda>x. at_revision pid expected ProjectArchived x \<and>
      \<not> exists_where (in_project pid) (cs_conversations s) \<and>
      ws_new_conversation_project_id (cs_workspace s) \<noteq> Some pid"
  have one: "count_where ?p (cs_projects s) = 1"
    and s': "s' = s\<lparr>cs_projects := filter (\<lambda>x. \<not> ?p x) (cs_projects s),
      cs_read_roots := filter (\<lambda>r. rr_project_id r \<noteq> pid) (cs_read_roots s)\<rparr>"
    using op unfolding delete_archived_project_def Let_def require_one_def res_bind_ok bail_if_ok
    by blast+
  have free: "\<not> exists_where (in_project pid) (cs_conversations s)"
    "ws_new_conversation_project_id (cs_workspace s) \<noteq> Some pid"
    using one count_where_0 [of ?p "cs_projects s"] by auto
  have ids: "project_ids s - {pid} \<subseteq> project_ids s'" "active_projects s \<subseteq> active_projects s'"
    by (auto simp: s' project_ids_def active_projects_def at_revision_def)
  have same: "links s' = links s" "profile_ids s' = profile_ids s" "cs_workspace s' = cs_workspace s"
    "active_conversations s' = active_conversations s" by (simp_all add: s' directory_sets)
  have "directory_ok e s'"
  proof (rule directory_okI, unfold same)
    show "projects_ok e (cs_projects s')"
      using chat_okD(2) [OF ok] by (auto simp: s' projects_ok_def intro: distinct_map_filter)
    have "rr_project_id ` set (cs_read_roots s) \<subseteq> project_ids s"
      using chat_okD(3) [OF ok] by (simp add: roots_ok_def)
    then have "rr_project_id ` set (filter (\<lambda>r. rr_project_id r \<noteq> pid) (cs_read_roots s)) \<subseteq> project_ids s'"
      using ids(1) by auto
    from roots_ok_filter [OF chat_okD(3) [OF ok] this]
    show "roots_ok e (project_ids s') (cs_read_roots s')" by (simp add: s')
    show "providers_ok (cs_connections s') (cs_profiles s')"
      using chat_okD(4) [OF ok] by (simp add: s')
    have "link_ok (project_ids s') (profile_ids s) l"
      if l: "l \<in> set (links s)" "link_ok (project_ids s) (profile_ids s) l" for l
    proof -
      obtain c where "c \<in> set (cs_conversations s)" "l = conversation_links c"
        using l(1) by (auto simp: links_def)
      then show ?thesis
        using l(2) free(1) ids(1) by (auto simp: conversation_links_def in_project_def)
    qed
    then show "conversations_ok (project_ids s') (profile_ids s) (links s)"
      using chat_okD(5) [OF ok] by (simp add: conversations_ok_def)
    show "workspace_ok (active_projects s') (active_conversations s) (profile_ids s) (cs_workspace s)"
      by (rule workspace_ok_mono [OF chat_okD(6) [OF ok] ids(2)]) simp_all
  qed
  moreover have "transcripts_ok e s'"
    using ok by (rule_tac transcripts_frame [of e s]) (simp_all add: chat_ok_def s')
  ultimately show ?thesis by (simp add: chat_ok_def)
qed

section \<open>Providers\<close>

lemma distinct_update_one:
  assumes "distinct (map key xs)" "distinct (map g xs)" "\<And>x. x \<in> set xs \<Longrightarrow> key x \<noteq> k \<Longrightarrow> g x \<noteq> v"
    "\<And>x. key x = k \<Longrightarrow> g (f x) = v"
  shows "distinct (map g (update_where (\<lambda>x. key x = k) f xs))"
  using assms
proof (induction xs)
  case Nil
  then show ?case by (simp add: update_where_def)
next
  case (Cons x xs)
  show ?case
  proof (cases "key x = k")
    case True
    have ne: "key y \<noteq> k" if "y \<in> set xs" for y
      using Cons.prems(1) True that by (metis distinct.simps(2) image_eqI list.simps(9) list.set_map)
    then have "update_where (\<lambda>x. key x = k) f xs = xs"
      unfolding update_where_def by (intro map_idI) simp
    moreover have "v \<notin> g ` set xs"
      using Cons.prems(3) ne by (metis imageE list.set_intros(2))
    ultimately show ?thesis using Cons.prems True by (simp add: update_where_def)
  next
    case False
    have "g x \<notin> g ` set (update_where (\<lambda>x. key x = k) f xs)"
      using Cons.prems False by (auto simp: set_update_where)
    moreover have "distinct (map g (update_where (\<lambda>x. key x = k) f xs))"
      using Cons by simp
    moreover have "update_where (\<lambda>x. key x = k) f (x # xs) = x # update_where (\<lambda>x. key x = k) f xs"
      using False by (simp add: update_where_def)
    ultimately show ?thesis by simp
  qed
qed

lemma providers_changed_ok:
  assumes ok: "chat_ok e s" and pr: "providers_ok cs fs"
    and grow: "pp_profile_id ` set (cs_profiles s) \<subseteq> pp_profile_id ` set fs"
  shows "chat_ok e (s\<lparr>cs_connections := cs, cs_profiles := fs\<rparr>)" (is "chat_ok e ?s")
proof -
  have same: "project_ids ?s = project_ids s" "links ?s = links s"
    "active_projects ?s = active_projects s" "active_conversations ?s = active_conversations s"
    by (simp_all add: directory_sets)
  have ids: "profile_ids s \<subseteq> profile_ids ?s" using grow by (simp add: profile_ids_def)
  have "directory_ok e ?s"
    using chat_okD [OF ok] pr conversations_ok_mono [OF chat_okD(5) [OF ok] order_refl ids]
      workspace_ok_mono [OF chat_okD(6) [OF ok] order_refl order_refl ids]
    by (intro directory_okI) (simp_all add: same)
  moreover have "transcripts_ok e ?s"
    using ok by (rule_tac transcripts_frame [of e s]) (simp_all add: chat_ok_def)
  ultimately show ?thesis by (simp add: chat_ok_def)
qed

text \<open>The tables after an upsert.\<close>

definition put_connection ::
  "int \<Rightarrow> ProviderConnectionRecord \<Rightarrow> ProviderConnectionRecord list \<Rightarrow> ProviderConnectionRecord list"
where
  "put_connection now c cs =
     (if pc_id c \<in> pc_id ` set cs
      then update_where (\<lambda>x. pc_id x = pc_id c)
             (\<lambda>x. c\<lparr>pc_created_at := pc_created_at x, pc_updated_at := now\<rparr>) cs
      else cs @ [c\<lparr>pc_created_at := now, pc_updated_at := now\<rparr>])"

definition put_profile ::
  "int \<Rightarrow> ProviderModelProfileRecord \<Rightarrow> ProviderModelProfileRecord list \<Rightarrow>
   ProviderModelProfileRecord list"
where
  "put_profile now p ps =
     (if pp_profile_id p \<in> pp_profile_id ` set ps
      then update_where (\<lambda>x. pp_profile_id x = pp_profile_id p)
             (\<lambda>x. p\<lparr>pp_created_at := pp_created_at x, pp_updated_at := now\<rparr>) ps
      else ps @ [p\<lparr>pp_created_at := now, pp_updated_at := now\<rparr>])"

lemma put_ids:
  assumes "distinct (map key xs)" "\<And>x. key (f x) = k" "key new = k"
    "ys = (if k \<in> key ` set xs then update_where (\<lambda>x. key x = k) f xs else xs @ [new])"
  shows "distinct (map key ys) \<and> key ` set ys = insert k (key ` set xs)"
proof (cases "k \<in> key ` set xs")
  case True
  then have "map key ys = map key xs" using assms(2,4) map_update_where [of "\<lambda>x. key x = k" key f xs] by simp
  moreover from this have "key ` set ys = key ` set xs" by (metis image_set)
  ultimately show ?thesis using assms(1) True by (simp add: insert_absorb)
qed (use assms in auto)

lemma put_connection_ids:
  "distinct (map pc_id cs) \<Longrightarrow>
   distinct (map pc_id (put_connection now c cs)) \<and>
   pc_id ` set (put_connection now c cs) = insert (pc_id c) (pc_id ` set cs)"
  by (rule put_ids [OF _ _ _ put_connection_def]) simp_all

lemma put_profile_ids:
  "distinct (map pp_profile_id ps) \<Longrightarrow>
   distinct (map pp_profile_id (put_profile now p ps)) \<and>
   pp_profile_id ` set (put_profile now p ps) = insert (pp_profile_id p) (pp_profile_id ` set ps)"
  by (rule put_ids [OF _ _ _ put_profile_def]) simp_all

lemma put_profile_ok:
  assumes pr: "providers_ok cs ps" and c: "pp_connection_id p \<in> C" "pc_id ` set cs \<subseteq> C"
    and free: "\<And>x. x \<in> set ps \<Longrightarrow> pp_profile_id x \<noteq> pp_profile_id p \<Longrightarrow>
      (pp_connection_id x, pp_model_id x) \<noteq> (pp_connection_id p, pp_model_id p)"
  shows "distinct (map (\<lambda>x. (pp_connection_id x, pp_model_id x)) (put_profile now p ps)) \<and>
    pp_connection_id ` set (put_profile now p ps) \<subseteq> C"
proof (cases "pp_profile_id p \<in> pp_profile_id ` set ps")
  case True
  have "distinct (map (\<lambda>x. (pp_connection_id x, pp_model_id x)) (put_profile now p ps))"
    unfolding put_profile_def if_P [OF True]
    by (rule distinct_update_one [where v = "(pp_connection_id p, pp_model_id p)"])
      (use pr free in \<open>auto simp: providers_ok_def\<close>)
  then show ?thesis
    using True pr c by (auto simp: put_profile_def set_update_where providers_ok_def image_subset_iff)
next
  case False
  have "(pp_connection_id p, pp_model_id p) \<notin> (\<lambda>x. (pp_connection_id x, pp_model_id x)) ` set ps"
  proof
    assume "(pp_connection_id p, pp_model_id p) \<in> (\<lambda>x. (pp_connection_id x, pp_model_id x)) ` set ps"
    then obtain x where x: "x \<in> set ps"
      "(pp_connection_id x, pp_model_id x) = (pp_connection_id p, pp_model_id p)" by auto
    with False have "pp_profile_id x \<noteq> pp_profile_id p" by (metis image_eqI)
    with free x show False by blast
  qed
  then show ?thesis
    using False pr c by (auto simp: put_profile_def providers_ok_def image_subset_iff)
qed

lemma upsert_tables:
  assumes "upsert_profile now p (upsert_connection now c s) = Inr s'"
  shows "s' = s\<lparr>cs_connections := put_connection now c (cs_connections s),
      cs_profiles := put_profile now p (cs_profiles s)\<rparr> \<and>
    pp_connection_id p \<in> pc_id ` set (put_connection now c (cs_connections s)) \<and>
    (\<forall>x \<in> set (cs_profiles s). pp_profile_id x \<noteq> pp_profile_id p \<longrightarrow>
      (pp_connection_id x, pp_model_id x) \<noteq> (pp_connection_id p, pp_model_id p))"
proof -
  have m: "exists_where (\<lambda>x. f x = k) xs = (k \<in> f ` set xs)" for f :: "'a \<Rightarrow> string" and k xs
    by auto
  have s1: "upsert_connection now c s = s\<lparr>cs_connections := put_connection now c (cs_connections s)\<rparr>"
    by (simp add: upsert_connection_def put_connection_def m del: exists_where_iff)
  show ?thesis
    using assms unfolding s1 upsert_profile_def has_profile_def
    by (auto simp: put_profile_def m simp del: exists_where_iff split: if_splits) auto
qed

lemma upsert_provider_model_profile_ok:
  assumes ok: "chat_ok e s" and op: "upsert_provider_model_profile e now c p s = Inr s'"
  shows "chat_ok e s'"
proof -
  have up: "upsert_profile now p (upsert_connection now c s) = Inr s'"
    using op by (auto simp: upsert_provider_model_profile_def)
  let ?cs = "put_connection now c (cs_connections s)" and ?ps = "put_profile now p (cs_profiles s)"
  have pr: "providers_ok (cs_connections s) (cs_profiles s)" by (rule chat_okD(4) [OF ok])
  have cs: "distinct (map pc_id ?cs)" "pc_id ` set ?cs = insert (pc_id c) (pc_id ` set (cs_connections s))"
    and ps: "distinct (map pp_profile_id ?ps)"
      "pp_profile_id ` set ?ps = insert (pp_profile_id p) (pp_profile_id ` set (cs_profiles s))"
    using put_connection_ids put_profile_ids pr by (simp_all add: providers_ok_def)
  have "providers_ok ?cs ?ps"
    using put_profile_ok [OF pr, of p "pc_id ` set ?cs" now] upsert_tables [OF up] cs ps
    unfolding providers_ok_def by blast
  then show ?thesis
    using upsert_tables [OF up] providers_changed_ok [OF ok, of ?cs ?ps] ps(2) by auto
qed

lemma update_connection_state_ok:
  assumes ok: "chat_ok e s" and op: "update_provider_connection_validation_state now cid st s = Inr s'"
  shows "chat_ok e s'"
proof -
  let ?cs = "update_where (\<lambda>c. pc_id c = cid)
    (\<lambda>c. c\<lparr>pc_validation_state := st, pc_updated_at := now\<rparr>) (cs_connections s)"
  have s': "s' = s\<lparr>cs_connections := ?cs\<rparr>"
    using op by (auto simp: update_provider_connection_validation_state_def)
  have ids: "map pc_id ?cs = map pc_id (cs_connections s)" by (rule map_update_where) simp
  then have "pc_id ` set ?cs = pc_id ` set (cs_connections s)" by (metis image_set)
  with ids have "providers_ok ?cs (cs_profiles s)"
    using chat_okD(4) [OF ok] by (simp add: providers_ok_def)
  then show ?thesis using providers_changed_ok [OF ok, of ?cs "cs_profiles s"] by (simp add: s')
qed

lemma update_profile_state_ok:
  assumes ok: "chat_ok e s" and op: "update_provider_model_profile_validation_state now fid st s = Inr s'"
  shows "chat_ok e s'"
proof -
  let ?f = "\<lambda>p. p\<lparr>pp_validation_state := st, pp_updated_at := now\<rparr>"
  let ?ps = "update_where (\<lambda>p. pp_profile_id p = fid) ?f (cs_profiles s)"
  have s': "s' = s\<lparr>cs_profiles := ?ps\<rparr>"
    using op by (auto simp: update_provider_model_profile_validation_state_def)
  have ids: "map pp_profile_id ?ps = map pp_profile_id (cs_profiles s)"
    "map pp_connection_id ?ps = map pp_connection_id (cs_profiles s)"
    "map (\<lambda>p. (pp_connection_id p, pp_model_id p)) ?ps =
      map (\<lambda>p. (pp_connection_id p, pp_model_id p)) (cs_profiles s)"
    by (rule map_update_where, simp)+
  then have sets: "pp_profile_id ` set ?ps = pp_profile_id ` set (cs_profiles s)"
    "pp_connection_id ` set ?ps = pp_connection_id ` set (cs_profiles s)" by (metis image_set)+
  have "providers_ok (cs_connections s) ?ps"
    using chat_okD(4) [OF ok] by (simp add: providers_ok_def ids sets)
  then show ?thesis
    using providers_changed_ok [OF ok, of "cs_connections s" ?ps] sets(1) by (simp add: s')
qed

text \<open>The columns of a deleted connection's profiles are cleared before its profiles go.\<close>

lemma selects_from_iff:
  "providers_ok (cs_connections s) (cs_profiles s) \<Longrightarrow> set_option f \<subseteq> profile_ids s \<Longrightarrow>
   \<not> selects_from s cid f \<Longrightarrow>
   set_option f \<subseteq> pp_profile_id ` {p \<in> set (cs_profiles s). pp_connection_id p \<noteq> cid}"
  by (cases f) (auto simp: selects_from_def profile_ids_def)

lemma delete_provider_connection_ok:
  assumes ok: "chat_ok e s" and op: "delete_provider_connection now cid s = Inr s'"
  shows "chat_ok e s'"
proof -
  let ?p = "\<lambda>c. selects_from s cid (cv_selected_provider_profile_id c)"
  let ?f = "\<lambda>c. c\<lparr>cv_selected_provider_profile_id := None, cv_updated_at := now\<rparr>"
  have s': "s' = s\<lparr>cs_workspace :=
      (if selects_from s cid (ws_selected_provider_profile_id (cs_workspace s))
       then (cs_workspace s)\<lparr>ws_selected_provider_profile_id := None, ws_updated_at := now\<rparr>
       else cs_workspace s),
     cs_conversations := update_where ?p ?f (cs_conversations s),
     cs_connections := filter (\<lambda>c. pc_id c \<noteq> cid) (cs_connections s),
     cs_profiles := filter (\<lambda>p. pp_connection_id p \<noteq> cid) (cs_profiles s)\<rparr>"
    using op unfolding delete_provider_connection_def by auto
  note pr = chat_okD(4) [OF ok]
  have fids: "profile_ids s' = pp_profile_id ` {p \<in> set (cs_profiles s). pp_connection_id p \<noteq> cid}"
    by (simp add: s' profile_ids_def)
  have states: "map (\<lambda>l. (fst l, fst (snd l))) (links s') = map (\<lambda>l. (fst l, fst (snd l))) (links s)"
    unfolding links_def s' map_map o_def conversation_links_def
    by (simp add: map_update_where)
  have ids: "map fst (links s') = map fst (links s)" using arg_cong [OF states, of "map fst"] by (simp add: o_def)
  have A: "active_conversations x = fst ` {l \<in> set (map (\<lambda>l. (fst l, fst (snd l))) (links x)). snd l = ConversationActive}"
    for x by (force simp: active_conversations_def)
  have act: "active_conversations s' = active_conversations s" by (simp only: A states)
  have link: "link_ok (project_ids s) (profile_ids s') l" if mem: "l \<in> set (links s')" for l
  proof -
    obtain c where c: "c \<in> set (cs_conversations s)" "l = conversation_links (if ?p c then ?f c else c)"
      using mem by (auto simp: links_def s' set_update_where)
    have "link_ok (project_ids s) (profile_ids s) (conversation_links c)"
      using chat_okD(5) [OF ok] c(1) by (simp add: conversations_ok_def links_def)
    then show ?thesis
      using c(2) selects_from_iff [OF pr, of "cv_selected_provider_profile_id c" cid]
      by (cases "?p c") (simp_all add: conversation_links_def fids)
  qed
  have same: "cs_projects s' = cs_projects s" "cs_read_roots s' = cs_read_roots s"
    "project_ids s' = project_ids s" "active_projects s' = active_projects s"
    by (simp_all add: s' directory_sets)
  have "directory_ok e s'"
  proof (rule directory_okI, unfold same act)
    show "projects_ok e (cs_projects s)" "roots_ok e (project_ids s) (cs_read_roots s)"
      by (rule chat_okD [OF ok])+
    show "providers_ok (cs_connections s') (cs_profiles s')"
      using pr by (auto simp: s' providers_ok_def intro: distinct_map_filter)
    show "conversations_ok (project_ids s) (profile_ids s') (links s')"
      using link chat_okD(5) [OF ok] by (simp add: conversations_ok_def ids)
    have "workspace_ok (active_projects s) (active_conversations s) (profile_ids s') (cs_workspace s)"
      if "\<not> selects_from s cid (ws_selected_provider_profile_id (cs_workspace s))"
      using chat_okD(6) [OF ok] selects_from_iff [OF pr _ that] by (simp add: workspace_ok_def fids)
    then show "workspace_ok (active_projects s) (active_conversations s) (profile_ids s') (cs_workspace s')"
      using chat_okD(6) [OF ok] by (simp add: s' workspace_ok_def)
  qed
  moreover have "transcripts_ok e s'"
    by (rule transcripts_links [OF chat_okD(1) [OF ok] _ states]) (simp add: s')
  ultimately show ?thesis by (simp add: chat_ok_def)
qed

lemma set_selected_provider_profile_workspace:
  assumes ok: "chat_ok e s" and f: "has_profile s fid"
  shows "chat_ok e (update_workspace
    (\<lambda>w. w\<lparr>ws_selected_provider_profile_id := Some fid, ws_updated_at := now\<rparr>) s)"
  unfolding update_workspace_def
  by (rule workspace_changed_ok [OF ok])
    (use chat_okD(6) [OF ok] f in \<open>auto simp: workspace_ok_def has_profile_def profile_ids_def\<close>)

section \<open>Conversations\<close>

lemma active_conversations_iff:
  "cid \<in> active_conversations s \<longleftrightarrow> (cid, ConversationActive) \<in> set (conversation_states s)"
  by (force simp: active_conversations_def links_def conversation_states_def conversation_links_def)

lemma active_states_iff:
  "(cid, ConversationActive) \<in> set (conversation_states s) \<longleftrightarrow>
   (\<exists>c \<in> set (cs_conversations s). active_conversation cid c)"
  by (auto simp: conversation_states_def active_conversation_def)

lemma conversation_frame [simp]:
  "project_ids (s\<lparr>cs_conversations := cs\<rparr>) = project_ids s"
  "active_projects (s\<lparr>cs_conversations := cs\<rparr>) = active_projects s"
  "profile_ids (s\<lparr>cs_conversations := cs\<rparr>) = profile_ids s"
  "project_ids (s\<lparr>cs_workspace := w\<rparr>) = project_ids s"
  "active_projects (s\<lparr>cs_workspace := w\<rparr>) = active_projects s"
  "profile_ids (s\<lparr>cs_workspace := w\<rparr>) = profile_ids s"
  "links (s\<lparr>cs_workspace := w\<rparr>) = links s"
  "conversation_states (s\<lparr>cs_workspace := w\<rparr>) = conversation_states s"
  "active_conversations (s\<lparr>cs_workspace := w\<rparr>) = active_conversations s"
  by (simp_all add: directory_sets conversation_states_def)

lemma conversations_changed_ok:
  assumes ok: "chat_ok e s" and ids: "distinct (map cv_id cs)"
    and link: "\<And>c. c \<in> set cs \<Longrightarrow> set_option (cv_project_id c) \<subseteq> project_ids s \<and>
      set_option (cv_selected_provider_profile_id c) \<subseteq> profile_ids s"
    and refs: "tn_conversation_id ` set (cs_turns s) \<subseteq> cv_id ` set cs"
    and run: "\<And>t. t \<in> set (cs_turns s) \<Longrightarrow> running t \<Longrightarrow>
      \<exists>c \<in> set cs. active_conversation (tn_conversation_id t) c"
    and w: "workspace_ok (active_projects s) {cid. \<exists>c \<in> set cs. active_conversation cid c}
      (profile_ids s) w"
  shows "chat_ok e (s\<lparr>cs_conversations := cs, cs_workspace := w\<rparr>)" (is "chat_ok e ?s")
proof -
  have act: "active_conversations (s\<lparr>cs_conversations := cs\<rparr>) = {cid. \<exists>c \<in> set cs. active_conversation cid c}"
    by (auto simp: active_conversations_iff active_states_iff)
  have "conversations_ok (project_ids s) (profile_ids s) (links ?s)"
    using ids link by (auto simp: conversations_ok_def links_def conversation_links_def o_def)
  then have "directory_ok e ?s"
    using chat_okD [OF ok] w by (intro directory_okI) (simp_all add: act)
  moreover have "transcripts_ok e ?s"
  proof (rule transcripts_states [OF chat_okD(1) [OF ok]])
    show "tn_conversation_id ` set (cs_turns s) \<subseteq> fst ` set (conversation_states ?s)"
      using refs by (auto simp: conversation_states_def image_image)
    show "(tn_conversation_id t, ConversationActive) \<in> set (conversation_states ?s)"
      if "t \<in> set (cs_turns s)" "running t" for t
      using run [OF that] by (auto simp: active_states_iff)
  qed simp
  ultimately show ?thesis by (simp add: chat_ok_def)
qed

lemma chat_links:
  assumes "chat_ok e s"
  shows "distinct (map cv_id (cs_conversations s))"
    "c \<in> set (cs_conversations s) \<Longrightarrow> set_option (cv_project_id c) \<subseteq> project_ids s \<and>
      set_option (cv_selected_provider_profile_id c) \<subseteq> profile_ids s"
    "tn_conversation_id ` set (cs_turns s) \<subseteq> cv_id ` set (cs_conversations s)"
    "t \<in> set (cs_turns s) \<Longrightarrow> running t \<Longrightarrow>
      \<exists>c \<in> set (cs_conversations s). active_conversation (tn_conversation_id t) c"
    "workspace_ok (active_projects s) {cid. \<exists>c \<in> set (cs_conversations s). active_conversation cid c}
      (profile_ids s) (cs_workspace s)"
proof -
  note d = chat_okD [OF assms]
  show "distinct (map cv_id (cs_conversations s))"
    using d(5) by (simp add: conversations_ok_def links_def conversation_links_def o_def)
  show "set_option (cv_project_id c) \<subseteq> project_ids s \<and>
      set_option (cv_selected_provider_profile_id c) \<subseteq> profile_ids s"
    if "c \<in> set (cs_conversations s)"
    using d(5) that by (auto simp: conversations_ok_def links_def conversation_links_def)
  show "tn_conversation_id ` set (cs_turns s) \<subseteq> cv_id ` set (cs_conversations s)"
    using d(1) by (auto simp: transcripts_ok_def turns_ok_def conversation_states_def image_image)
  show "\<exists>c \<in> set (cs_conversations s). active_conversation (tn_conversation_id t) c"
    if "t \<in> set (cs_turns s)" "running t"
    using d(1) that by (simp add: transcripts_ok_def turns_ok_def active_states_iff)
  have "active_conversations s = {cid. \<exists>c \<in> set (cs_conversations s). active_conversation cid c}"
    by (auto simp: active_conversations_iff active_states_iff)
  with d(6) show "workspace_ok (active_projects s)
      {cid. \<exists>c \<in> set (cs_conversations s). active_conversation cid c} (profile_ids s) (cs_workspace s)"
    by simp
qed

text \<open>An update that keeps the conversation and does not take its activity away.\<close>

lemma conversation_updated_ok:
  assumes ok: "chat_ok e s" and u: "update_conversation code p f s = Inr s'"
    and keep: "\<And>c. cv_id (f c) = cv_id c" "\<And>c. cv_status c = ConversationActive \<Longrightarrow> cv_status (f c) = ConversationActive"
    and link: "\<And>c. p c \<Longrightarrow> set_option (cv_project_id (f c)) \<subseteq> set_option (cv_project_id c) \<union> project_ids s"
      "\<And>c. p c \<Longrightarrow> set_option (cv_selected_provider_profile_id (f c)) \<subseteq>
        set_option (cv_selected_provider_profile_id c) \<union> profile_ids s"
  shows "chat_ok e s'"
proof -
  let ?cs = "update_where p f (cs_conversations s)"
  note l = chat_links [OF ok]
  have ids: "map cv_id ?cs = map cv_id (cs_conversations s)" by (rule map_update_where) (rule keep)
  have act: "\<exists>c \<in> set ?cs. active_conversation cid c"
    if ex: "\<exists>c \<in> set (cs_conversations s). active_conversation cid c" for cid
  proof -
    obtain c where c: "c \<in> set (cs_conversations s)" "active_conversation cid c" using ex by blast
    have "active_conversation cid (if p c then f c else c)"
      using c(2) keep by (simp add: active_conversation_def)
    then show ?thesis using c(1) unfolding set_update_where by blast
  qed
  have "chat_ok e (s\<lparr>cs_conversations := ?cs, cs_workspace := cs_workspace s\<rparr>)"
  proof (rule conversations_changed_ok [OF ok])
    show "distinct (map cv_id ?cs)" using l(1) by (simp add: ids)
    show "tn_conversation_id ` set (cs_turns s) \<subseteq> cv_id ` set ?cs"
      using l(3) ids by (metis image_set)
    show "set_option (cv_project_id c) \<subseteq> project_ids s \<and>
        set_option (cv_selected_provider_profile_id c) \<subseteq> profile_ids s" if "c \<in> set ?cs" for c
      using that
    proof (rule update_whereE)
      fix z
      assume "z \<in> set (cs_conversations s)" "p z" "c = f z"
      then show ?thesis using l(2) link by blast
    qed (rule l(2))
    show "\<exists>c \<in> set ?cs. active_conversation (tn_conversation_id t) c"
      if "t \<in> set (cs_turns s)" "running t" for t by (rule act [OF l(4) [OF that]])
    show "workspace_ok (active_projects s) {cid. \<exists>c \<in> set ?cs. active_conversation cid c}
        (profile_ids s) (cs_workspace s)"
      by (rule workspace_ok_mono [OF l(5)]) (use act in auto)
  qed
  then show ?thesis using update_conversationD [OF u] by simp
qed

text \<open>The operations that change one conversation.\<close>

lemma conversation_columns_ok:
  assumes ok: "chat_ok e s"
  shows
    "set_selected_provider_profile e now cid fid s = Inr s1 \<Longrightarrow> chat_ok e s1"
    "assign_conversation_project e now cid' pid s = Inr s2 \<Longrightarrow> chat_ok e s2"
    "rename_conversation now cid' title s = Inr s3 \<Longrightarrow> chat_ok e s3"
    "set_selected_skill now cid' skill s = Inr s4 \<Longrightarrow> chat_ok e s4"
    "set_memory_mode e now cid' mode s = Inr s5 \<Longrightarrow> chat_ok e s5"
    "restore_conversation e now cid' s = Inr s6 \<Longrightarrow> chat_ok e s6"
proof -
  note up = conversation_updated_ok [OF ok]
  show "chat_ok e s1" if "set_selected_provider_profile e now cid fid s = Inr s1"
  proof (cases cid)
    case None
    then show ?thesis
      using that set_selected_provider_profile_workspace [OF ok, of fid now]
      by (auto simp: set_selected_provider_profile_def split: if_splits)
  next
    case (Some c)
    then have "update_conversation ''provider_profile_selection_unavailable''
        (\<lambda>x. cv_id x = c \<and> cv_status x = ConversationActive \<and> has_profile s fid \<and> \<not> has_running_turn s c)
        (\<lambda>x. x\<lparr>cv_selected_provider_profile_id := Some fid, cv_updated_at := now\<rparr>) s = Inr s1"
      using that by (simp add: set_selected_provider_profile_def)
    then show ?thesis by (rule up) (auto simp: has_profile_def profile_ids_def)
  qed
  show "chat_ok e s2" if "assign_conversation_project e now cid' pid s = Inr s2"
  proof -
    have u: "update_conversation ''conversation_project_assignment_unavailable''
        (\<lambda>c. active_conversation cid' c \<and> (pid = None \<or> active_project s (the pid)) \<and>
             \<not> has_running_turn s cid')
        (\<lambda>c. c\<lparr>cv_project_id := pid, cv_updated_at := now\<rparr>) s = Inr s2"
      using that by (simp add: assign_conversation_project_def)
    have "set_option pid \<subseteq> project_ids s" if "pid = None \<or> active_project s (the pid)"
      using that by (cases pid) (auto simp: active_project_def project_ids_def)
    then show ?thesis by (intro up [OF u]) auto
  qed
  show "chat_ok e s3" if "rename_conversation now cid' title s = Inr s3"
    using that unfolding rename_conversation_def by clarsimp (erule up; auto)
  show "chat_ok e s4" if "set_selected_skill now cid' skill s = Inr s4"
    using that unfolding set_selected_skill_def by clarsimp (erule up; auto)
  show "chat_ok e s5" if "set_memory_mode e now cid' mode s = Inr s5"
    using that unfolding set_memory_mode_def by clarsimp (erule up; auto)
  show "chat_ok e s6" if "restore_conversation e now cid' s = Inr s6"
    using that unfolding restore_conversation_def by clarsimp (erule up; auto)
qed

lemma create_conversation_ok:
  assumes ok: "chat_ok e s"
  shows "chat_ok e (snd (create_conversation_with_admission e now input s))"
proof -
  let ?c = "new_conversation now input (ws_selected_provider_profile_id (cs_workspace s))"
  have "chat_ok e (update_workspace
      (\<lambda>w. w\<lparr>ws_selected_conversation_id := Some (cca_id input), ws_updated_at := now\<rparr>) s1)"
    if pid: "when_some (cca_project_id input) (\<lambda>pid. bail_if (\<not> active_project s pid) err) = Inr ()"
      and ins: "insert_conversation ?c s = Inr s1" for s1 err
  proof -
    note l = chat_links [OF ok]
    let ?cs = "cs_conversations s @ [?c]"
    let ?w = "(cs_workspace s)\<lparr>ws_selected_conversation_id := Some (cca_id input), ws_updated_at := now\<rparr>"
    have s1: "s1 = s\<lparr>cs_conversations := ?cs\<rparr>" and new: "cv_id ?c \<notin> cv_id ` set (cs_conversations s)"
      using ins by (auto simp: insert_conversation_def split: if_splits)
    have act: "active_conversation (cca_id input) ?c"
      by (simp add: active_conversation_def new_conversation_def)
    have prj: "set_option (cca_project_id input) \<subseteq> project_ids s"
      using pid by (auto simp: when_some_def active_project_def project_ids_def split: option.splits)
    have "chat_ok e (s\<lparr>cs_conversations := ?cs, cs_workspace := ?w\<rparr>)"
    proof (rule conversations_changed_ok [OF ok])
      show "distinct (map cv_id ?cs)" using l(1) new by simp
      show "set_option (cv_project_id c) \<subseteq> project_ids s \<and>
          set_option (cv_selected_provider_profile_id c) \<subseteq> profile_ids s" if "c \<in> set ?cs" for c
        using that l(2,5) prj by (auto simp: new_conversation_def workspace_ok_def)
      show "tn_conversation_id ` set (cs_turns s) \<subseteq> cv_id ` set ?cs" using l(3) by auto
      show "\<exists>c \<in> set ?cs. active_conversation (tn_conversation_id t) c"
        if "t \<in> set (cs_turns s)" "running t" for t using l(4) [OF that] by auto
      show "workspace_ok (active_projects s) {cid. \<exists>c \<in> set ?cs. active_conversation cid c}
          (profile_ids s) ?w"
        using l(5) act by (auto simp: workspace_ok_def)
    qed
    then show ?thesis by (simp add: s1 update_workspace_def)
  qed
  then show ?thesis
    unfolding create_conversation_with_admission_def then_read_snd
    by (auto split: sum.splits intro: ok)
qed

lemma set_selected_conversation_ok:
  assumes ok: "chat_ok e s" and op: "set_selected_conversation e now cid s = Inr s'"
  shows "chat_ok e s'"
proof -
  have s': "s' = s\<lparr>cs_workspace := (cs_workspace s)\<lparr>ws_selected_conversation_id := Some cid, ws_updated_at := now\<rparr>\<rparr>"
    and act: "\<exists>c \<in> set (cs_conversations s). active_conversation cid c"
    using op by (auto simp: set_selected_conversation_def update_workspace_def split: if_splits)
  show ?thesis unfolding s'
    by (rule workspace_changed_ok [OF ok])
      (use chat_okD(6) [OF ok] act in \<open>auto simp: workspace_ok_def active_conversations_iff active_states_iff\<close>)
qed

lemma archive_conversation_ok:
  assumes ok: "chat_ok e s" and op: "archive_conversation e now cid s = Inr s'"
  shows "chat_ok e s'"
proof -
  let ?p = "\<lambda>c. active_conversation cid c \<and> \<not> has_running_turn s cid"
  let ?f = "\<lambda>c. c\<lparr>cv_status := ConversationArchived, cv_updated_at := now\<rparr>"
  let ?cs = "update_where ?p ?f (cs_conversations s)"
  let ?w = "if ws_selected_conversation_id (cs_workspace s) = Some cid
    then (cs_workspace s)\<lparr>ws_selected_conversation_id := None, ws_updated_at := now\<rparr> else cs_workspace s"
  note l = chat_links [OF ok]
  have s': "s' = s\<lparr>cs_conversations := ?cs, cs_workspace := ?w\<rparr>"
    and one: "count_where ?p (cs_conversations s) = 1"
    using op unfolding archive_conversation_def
    by (auto simp: update_workspace_def dest!: update_conversationD)
  have idle: "\<not> has_running_turn s cid"
    using one count_where_0 [of ?p "cs_conversations s"] by auto
  have keep: "\<exists>c \<in> set ?cs. active_conversation cid' c"
    if ex: "\<exists>c \<in> set (cs_conversations s). active_conversation cid' c" and "cid' \<noteq> cid" for cid'
  proof -
    obtain c where "c \<in> set (cs_conversations s)" "active_conversation cid' c" using ex by blast
    then show ?thesis
      using that(2) unfolding set_update_where
      by (intro bexI [where x = c] image_eqI [where x = c]) (auto simp: active_conversation_def)
  qed
  have ids: "map cv_id ?cs = map cv_id (cs_conversations s)" by (rule map_update_where) simp
  show ?thesis unfolding s'
  proof (rule conversations_changed_ok [OF ok])
    show "distinct (map cv_id ?cs)" using l(1) by (simp add: ids)
    show "tn_conversation_id ` set (cs_turns s) \<subseteq> cv_id ` set ?cs" using l(3) ids by (metis image_set)
    show "set_option (cv_project_id c) \<subseteq> project_ids s \<and>
        set_option (cv_selected_provider_profile_id c) \<subseteq> profile_ids s" if "c \<in> set ?cs" for c
      using that by (rule update_whereE) (use l(2) in auto)
    show "\<exists>c \<in> set ?cs. active_conversation (tn_conversation_id t) c"
      if "t \<in> set (cs_turns s)" "running t" for t
      using keep [OF l(4) [OF that]] idle that no_running_turn by blast
    show "workspace_ok (active_projects s) {cid. \<exists>c \<in> set ?cs. active_conversation cid c}
        (profile_ids s) ?w"
      using l(5) keep by (auto simp: workspace_ok_def)
  qed
qed

lemma delete_conversation_ok:
  assumes ok: "chat_ok e s" and op: "delete_conversation e cid s = Inr s'"
  shows "chat_ok e s'"
proof -
  let ?p = "\<lambda>c. cv_id c = cid \<and> cv_status c = ConversationArchived \<and>
    \<not> exists_where (\<lambda>t. tn_conversation_id t = cid) (cs_turns s) \<and>
    \<not> exists_where (\<lambda>i. ci_conversation_id i = cid) (cs_items s)"
  let ?cs = "filter (\<lambda>c. \<not> ?p c) (cs_conversations s)"
  let ?w = "if ws_selected_conversation_id (cs_workspace s) = Some cid
    then (cs_workspace s)\<lparr>ws_selected_conversation_id := None\<rparr> else cs_workspace s"
  note l = chat_links [OF ok]
  have s': "s' = s\<lparr>cs_conversations := ?cs, cs_workspace := ?w\<rparr>"
    and one: "count_where ?p (cs_conversations s) = 1"
    using op unfolding delete_conversation_def Let_def require_one_def update_workspace_def
      res_bind_ok bail_if_ok by auto
  have free: "\<forall>t \<in> set (cs_turns s). tn_conversation_id t \<noteq> cid"
    using one count_where_0 [of ?p "cs_conversations s"] by auto
  have keep: "\<exists>c \<in> set ?cs. active_conversation cid' c"
    if "\<exists>c \<in> set (cs_conversations s). active_conversation cid' c" for cid'
    using that by (auto simp: active_conversation_def)
  show ?thesis unfolding s'
  proof (rule conversations_changed_ok [OF ok])
    show "distinct (map cv_id ?cs)" using l(1) by (rule distinct_map_filter)
    show "tn_conversation_id ` set (cs_turns s) \<subseteq> cv_id ` set ?cs"
    proof
      fix x
      assume "x \<in> tn_conversation_id ` set (cs_turns s)"
      then have "x \<in> cv_id ` set (cs_conversations s)" "x \<noteq> cid" using l(3) free by auto
      then show "x \<in> cv_id ` set ?cs" by auto
    qed
    show "set_option (cv_project_id c) \<subseteq> project_ids s \<and>
        set_option (cv_selected_provider_profile_id c) \<subseteq> profile_ids s" if "c \<in> set ?cs" for c
      using that l(2) by simp
    show "\<exists>c \<in> set ?cs. active_conversation (tn_conversation_id t) c"
      if "t \<in> set (cs_turns s)" "running t" for t by (rule keep [OF l(4) [OF that]])
    show "workspace_ok (active_projects s) {cid. \<exists>c \<in> set ?cs. active_conversation cid c}
        (profile_ids s) ?w"
      using l(5) keep by (auto simp: workspace_ok_def)
  qed
qed

section \<open>Every call\<close>

lemma begin_ok:
  assumes ok: "chat_ok e s"
  shows "chat_ok e (snd (begin_chat_turn_with_proof e now issuance input s))"
proof -
  have "chat_ok e s'" if "begin_turn_tx e now input s = Inr (sn, s')" for sn s'
    by (rule turn_operation_ok [OF ok begin_turn_tx_ok [OF chat_okD(1) [OF ok] that]])
  then show ?thesis
    unfolding begin_chat_turn_with_proof_def by (auto split: sum.splits intro: ok)
qed

lemma settle_unit_ok: "chat_ok e s \<Longrightarrow> (\<And>s'. r = Inr s' \<Longrightarrow> chat_ok e s') \<Longrightarrow> chat_ok e (snd (settle_unit r s))"
  by (simp add: settle_unit_def split: sum.splits)

lemma settle_ok: "chat_ok e s \<Longrightarrow> (\<And>x s'. r = Inr (x, s') \<Longrightarrow> chat_ok e s') \<Longrightarrow> chat_ok e (snd (settle f r s))"
  by (auto simp: settle_def split: sum.splits)

lemma answer_snd [simp]: "snd (answer f r) = snd r"
  by (simp add: answer_def split: prod.splits)

lemma turn_ends_ok:
  assumes ok: "chat_ok e s"
  shows "append_work_steering e now sid cid tid content s = Inr (a, s1) \<Longrightarrow> chat_ok e s1"
    "complete_chat_turn e now tid message s = Inr (sn, s2) \<Longrightarrow> chat_ok e s2"
    "fail_chat_turn now tid code s = Inr (t, s3) \<Longrightarrow> chat_ok e s3"
    "cancel_chat_turn now tid s = Inr (t', s4) \<Longrightarrow> chat_ok e s4"
    "chat_ok e (snd (interrupt_incomplete_turns now s))"
proof -
  note tr = chat_okD(1) [OF ok] and op = turn_operation_ok [OF ok]
  show "chat_ok e s1" if "append_work_steering e now sid cid tid content s = Inr (a, s1)"
    by (rule op [OF append_work_steering_ok [OF tr that]])
  show "chat_ok e s2" if "complete_chat_turn e now tid message s = Inr (sn, s2)"
    by (rule op [OF complete_chat_turn_ok [OF tr that]])
  show "chat_ok e s3" if "fail_chat_turn now tid code s = Inr (t, s3)"
  proof -
    have "terminalize_without_assistant now tid TurnFailed (Some code) s = Inr (t, s3)"
      using that by (simp add: fail_chat_turn_def)
    from op [OF terminalize_ok [OF tr this]] show ?thesis by simp
  qed
  show "chat_ok e s4" if "cancel_chat_turn now tid s = Inr (t', s4)"
    using op [OF terminalize_ok [OF tr that [unfolded cancel_chat_turn_def]]] by simp
  show "chat_ok e (snd (interrupt_incomplete_turns now s))" by (rule op [OF interrupt_ok [OF tr]])
qed

text \<open>A machine whose calls answer, and keep an invariant whatever the answer.\<close>

locale answering_machine =
  fixes step :: "'c \<Rightarrow> 's \<Rightarrow> 'o \<times> 's" and inv :: "'s \<Rightarrow> bool"
  assumes keeps: "inv s \<Longrightarrow> inv (snd (step c s))"
begin

lemma run_inv: "inv s \<Longrightarrow> inv (run_state step cs s)"
  by (induction cs arbitrary: s) (simp_all add: keeps)

end

lemma chat_step_ok:
  assumes ok: "chat_ok e s"
  shows "chat_ok e (snd (chat_step e c s))"
proof -
  obtain now call where c: "c = (now, call)" by (cases c)
  note unit = settle_unit_ok [OF ok] and val = settle_ok [OF ok]
  show ?thesis
    unfolding c
  proof (cases call)
    case (InterruptTurns)
    then show "chat_ok e (snd (chat_step e (now, call) s))"
      using turn_ends_ok(5) [OF ok] by (simp add: settle_def case_prod_beta)
  qed (simp_all add: create_project_ok [OF ok] create_scope_project_ok [OF ok]
      update_project_scope_ok [OF ok] add_project_read_root_ok [OF ok]
      remove_project_read_root_ok [OF ok] archive_project_ok [OF ok] restore_project_ok [OF ok]
      create_conversation_ok [OF ok] begin_ok [OF ok],
     (rule unit, erule set_new_conversation_project_ok [OF ok] delete_archived_project_ok [OF ok]
      upsert_provider_model_profile_ok [OF ok] update_connection_state_ok [OF ok]
      update_profile_state_ok [OF ok] delete_provider_connection_ok [OF ok]
      conversation_columns_ok [OF ok] set_selected_conversation_ok [OF ok]
      archive_conversation_ok [OF ok] delete_conversation_ok [OF ok]
     | rule val, erule turn_ends_ok [OF ok])+)
qed

interpretation chat: answering_machine "chat_step e" "chat_ok e"
  by unfold_locales (rule chat_step_ok)

lemma chats_ok: "chat_ok e (chats_after e cs)"
  unfolding chats_after_def by (rule chat.run_inv) (rule chat_ok_initial)

end
