(* ===== verification/Conversation_Claims.thy ===== *)
theory Conversation_Claims
  imports Conversation_Directory
begin

text \<open>
  What the conversation store promises of every sequence of calls: C5, C29, C31, C32 and C16. The
  first section follows a turn and its items through later calls.
\<close>

section \<open>Later stores\<close>

text \<open>A turn keeps what it was begun with, an ended turn stays as it is, and items are only added.\<close>

definition same_request :: "TurnRecord \<Rightarrow> TurnRecord \<Rightarrow> bool" where
  "same_request t u \<longleftrightarrow>
     tn_id u = tn_id t \<and> tn_conversation_id u = tn_conversation_id t \<and>
     tn_request_digest u = tn_request_digest t \<and> tn_provider u = tn_provider t \<and>
     (\<not> running t \<longrightarrow> u = t)"

definition later :: "conversation_store \<Rightarrow> conversation_store \<Rightarrow> bool" where
  "later s s' \<longleftrightarrow>
     (\<forall>t \<in> set (cs_turns s). \<exists>u \<in> set (cs_turns s'). same_request t u) \<and>
     (\<exists>new. cs_items s' = cs_items s @ new)"

lemma same_request_refl [simp]: "same_request t t"
  by (simp add: same_request_def)

lemma same_request_trans: "same_request t u \<Longrightarrow> same_request u v \<Longrightarrow> same_request t v"
  unfolding same_request_def by metis

lemma later_grown:
  assumes "set (cs_turns s) \<subseteq> set (cs_turns s')" "cs_items s' = cs_items s @ new"
  shows "later s s'"
  unfolding later_def using assms same_request_refl by blast

lemma later_refl [simp]: "later s s"
  by (rule later_grown [of _ _ "[]"]) simp_all

lemma later_trans: "later s s' \<Longrightarrow> later s' s'' \<Longrightarrow> later s s''"
  unfolding later_def by (metis append.assoc same_request_trans)

lemma later_same_turns: "same_turns s s' \<Longrightarrow> later s s'"
  by (rule later_grown [of _ _ "[]"]) (simp_all add: same_turns_def)

lemma later_touch [simp]: "later s (touch_conversation now cid s') = later s s'"
  by (simp add: later_def)

lemma later_update:
  assumes "\<And>t. p t \<Longrightarrow> same_request t (f t)" "cs_items s' = cs_items s @ new"
    "cs_turns s' = update_where p f (cs_turns s)"
  shows "later s s'"
proof -
  have "\<exists>u \<in> set (update_where p f (cs_turns s)). same_request t u" if "t \<in> set (cs_turns s)" for t
    using that assms(1) unfolding set_update_where
    by (intro bexI [where x = "if p t then f t else t"]) auto
  then show ?thesis using assms(2,3) by (auto simp: later_def)
qed

lemma begin_later: "begin_turn_tx e now input s = Inr (sn, s') \<Longrightarrow> later s s'"
  by (drule begin_turn_txD) (auto intro: later_grown)

lemma steering_later: "append_work_steering e now sid cid tid content s = Inr (a, s') \<Longrightarrow> later s s'"
  by (drule append_work_steeringD) (auto intro: later_grown)

lemma complete_later:
  assumes "complete_chat_turn e now tid message s = Inr (sn, s')"
  shows "later s s'"
  using complete_chat_turnD [OF assms]
proof (elim disjE conjE exE)
  fix t i
  assume s': "s' = touch_conversation now (tn_conversation_id t)
    (s\<lparr>cs_items := cs_items s @ [i], cs_turns := completed_turns now tid (cs_turns s)\<rparr>)"
  show ?thesis
    unfolding s' later_touch
    by (rule later_update [of "\<lambda>t. tn_id t = tid \<and> running t"
          "\<lambda>t. t\<lparr>tn_status := TurnCompleted, tn_updated_at := now, tn_finished_at := Some now\<rparr>"])
      (simp_all add: same_request_def completed_turns_def)
qed simp

lemma end_turn_later: "later s (end_turn now tid status code s)"
  unfolding end_turn_def
  by (rule later_update [of "\<lambda>t. tn_id t = tid \<and> tn_status t = TurnRunning"
        "\<lambda>t. t\<lparr>tn_status := status, tn_error_code := code, tn_updated_at := now,
               tn_finished_at := Some now\<rparr>"]) (simp_all add: same_request_def running_def)

lemma interrupt_later: "later s (snd (interrupt_incomplete_turns now s))"
  unfolding interrupt_incomplete_turns_def snd_conv
  by (rule later_update [of "\<lambda>t. tn_status t = TurnRunning"
        "\<lambda>t. t\<lparr>tn_status := TurnInterrupted, tn_error_code := Some ''process_restarted'',
               tn_updated_at := now, tn_finished_at := Some now\<rparr>"])
     (simp_all add: same_request_def running_def)

text \<open>The other operations do not touch the turns.\<close>

lemma workspace_turns [simp]: "same_turns s (update_workspace f s') = same_turns s s'"
  by (simp add: update_workspace_def)

lemma project_same_turns:
  "update_project code p f s = Inr s' \<Longrightarrow> same_turns s s'"
  "insert_project x s = Inr s' \<Longrightarrow> same_turns s s'"
  by (auto simp: update_project_def insert_project_def split: if_splits)

lemma conversation_same_turns:
  "update_conversation code q g s = Inr s' \<Longrightarrow> same_turns s s'"
  "insert_conversation c s = Inr s' \<Longrightarrow> same_turns s s'"
  by (auto simp: update_conversation_def insert_conversation_def split: if_splits)

lemma root_same_turns: "insert_read_root r s1 = Inr s2 \<Longrightarrow> same_turns s s1 \<Longrightarrow> same_turns s s2"
  by (auto simp: insert_read_root_def split: if_splits)

lemma then_read_turns:
  assumes "\<And>s'. r = Inr s' \<Longrightarrow> same_turns s s'"
  shows "same_turns s (snd (then_read r f s))"
  using assms by (simp add: then_read_snd split: sum.splits)

lemma answered_same_turns:
  "same_turns s (snd (create_project e now pid name root s))"
  "same_turns s (snd (create_project_as_new_conversation_scope e now pid name wroot s))"
  "same_turns s (snd (update_project_scope e now pid name root rv s))"
  "same_turns s (snd (add_project_read_root e now pid rid name path rv s))"
  "same_turns s (snd (remove_project_read_root e now pid rid rv s))"
  "same_turns s (snd (archive_project e now pid rv s))"
  "same_turns s (snd (restore_project e now pid rv s))"
  "same_turns s (snd (create_conversation_with_admission e now input s))"
  unfolding create_project_def create_project_as_new_conversation_scope_def update_project_scope_def
    add_project_read_root_def remove_project_read_root_def archive_project_def restore_project_def
    create_conversation_with_admission_def
  by (rule then_read_turns, auto dest: project_same_turns conversation_same_turns root_same_turns)+

lemma settled_same_turns:
  "set_new_conversation_project e now pid s = Inr s' \<Longrightarrow> same_turns s s'"
  "delete_archived_project e p rv s = Inr s' \<Longrightarrow> same_turns s s'"
  "upsert_provider_model_profile e now c f s = Inr s' \<Longrightarrow> same_turns s s'"
  "update_provider_connection_validation_state now cid st s = Inr s' \<Longrightarrow> same_turns s s'"
  "update_provider_model_profile_validation_state now cid st s = Inr s' \<Longrightarrow> same_turns s s'"
  "delete_provider_connection now cid s = Inr s' \<Longrightarrow> same_turns s s'"
  "set_selected_provider_profile e now ocid fid s = Inr s' \<Longrightarrow> same_turns s s'"
  "set_selected_conversation e now cid s = Inr s' \<Longrightarrow> same_turns s s'"
  "assign_conversation_project e now cid pid s = Inr s' \<Longrightarrow> same_turns s s'"
  "rename_conversation now cid st s = Inr s' \<Longrightarrow> same_turns s s'"
  "set_selected_skill now cid pid s = Inr s' \<Longrightarrow> same_turns s s'"
  "set_memory_mode e now cid mode s = Inr s' \<Longrightarrow> same_turns s s'"
  "archive_conversation e now cid s = Inr s' \<Longrightarrow> same_turns s s'"
  "restore_conversation e now cid s = Inr s' \<Longrightarrow> same_turns s s'"
  "delete_conversation e cid s = Inr s' \<Longrightarrow> same_turns s s'"
  unfolding set_new_conversation_project_def delete_archived_project_def
    upsert_provider_model_profile_def update_provider_connection_validation_state_def
    update_provider_model_profile_validation_state_def delete_provider_connection_def
    set_selected_provider_profile_def set_selected_conversation_def assign_conversation_project_def
    rename_conversation_def set_selected_skill_def set_memory_mode_def archive_conversation_def
    restore_conversation_def delete_conversation_def
  by (auto split: if_splits option.splits dest: conversation_same_turns upsert_tables
      simp: Let_def)

lemma settle_unit_later: "(\<And>s'. r = Inr s' \<Longrightarrow> same_turns s s') \<Longrightarrow> later s (snd (settle_unit r s))"
  by (auto simp: settle_unit_def intro: later_same_turns split: sum.splits)

lemma settle_later: "(\<And>x s'. r = Inr (x, s') \<Longrightarrow> later s s') \<Longrightarrow> later s (snd (settle f r s))"
  by (auto simp: settle_def split: sum.splits)

lemma terminalize_later:
  "terminalize_without_assistant now tid status code s = Inr (t, s') \<Longrightarrow> later s s'"
  by (drule terminalizeD) (auto simp: end_turn_later)

lemma turn_ends_later:
  "fail_chat_turn now tid code s = Inr (t, s') \<Longrightarrow> later s s'"
  "cancel_chat_turn now tid s = Inr (t, s') \<Longrightarrow> later s s'"
  by (auto simp: fail_chat_turn_def cancel_chat_turn_def dest: terminalize_later)

lemma begun_later: "later s (snd (begin_chat_turn_with_proof e now issuance input s))"
  by (auto simp: begin_chat_turn_with_proof_def dest: begin_later split: sum.splits)

lemma chat_step_later: "later s (snd (chat_step e c s))"
proof -
  obtain now call where c: "c = (now, call)" by (cases c)
  show ?thesis
    unfolding c
  proof (cases call)
    case (InterruptTurns)
    then show "later s (snd (chat_step e (now, call) s))"
      using interrupt_later by (simp add: settle_def case_prod_beta)
  qed (simp_all add: later_same_turns [OF answered_same_turns(1)]
      later_same_turns [OF answered_same_turns(2)] later_same_turns [OF answered_same_turns(3)]
      later_same_turns [OF answered_same_turns(4)] later_same_turns [OF answered_same_turns(5)]
      later_same_turns [OF answered_same_turns(6)] later_same_turns [OF answered_same_turns(7)]
      later_same_turns [OF answered_same_turns(8)] begun_later,
     (rule settle_unit_later, erule settled_same_turns
     | rule settle_later, erule steering_later complete_later turn_ends_later)+)
qed

lemma run_later: "later s (run_state (chat_step e) cs s)"
  by (induction cs arbitrary: s) (auto intro: later_trans chat_step_later)

section \<open>Refused calls\<close>

lemma then_read_refused:
  assumes "fst (then_read r f s) = Inl err" "\<And>s'. r = Inr s' \<Longrightarrow> \<exists>x. f s' = Inr x"
  shows "snd (then_read r f s) = s"
proof (cases r)
  case (Inr s')
  then show ?thesis using assms by (force simp: then_read_def)
qed (simp add: then_read_def)

lemma read_project_ok: "pid \<in> project_ids s \<Longrightarrow> \<exists>x. read_project pid code s = Inr x"
  by (cases "get_project s pid")
    (auto simp: read_project_def get_project_def project_ids_def find_None_iff)

lemma update_project_reads:
  assumes "update_project code p f s = Inr s'" "\<And>x. pj_id (f x) = pj_id x" "\<And>x. p x \<Longrightarrow> pj_id x = pid"
  shows "pid \<in> project_ids s'"
proof -
  have s': "s' = s\<lparr>cs_projects := update_where p f (cs_projects s)\<rparr>"
    and one: "count_where p (cs_projects s) = 1"
    using update_projectD [OF assms(1)] by auto
  from one obtain x where "x \<in> set (cs_projects s)" "p x"
    by (metis count_where_0 zero_neq_one)
  then have "pid \<in> project_ids s" using assms(3) by (auto simp: project_ids_def)
  then show ?thesis using project_ids_update [where f = f and p = p and s = s] assms(2) s' by simp
qed

lemma insert_project_reads: "insert_project p s = Inr s' \<Longrightarrow> pj_id p \<in> project_ids s'"
  by (auto simp: insert_project_def project_ids_def split: if_splits)

lemma project_ids_frame [simp]:
  "project_ids (update_workspace f s) = project_ids s"
  "project_ids (s\<lparr>cs_read_roots := rs\<rparr>) = project_ids s"
  by (simp_all add: project_ids_def update_workspace_def)

lemma insert_root_reads: "insert_read_root r s = Inr s' \<Longrightarrow> rr_project_id r \<in> project_ids s'"
  by (auto simp: insert_read_root_def project_ids_def rev_image_eqI split: if_splits)

lemma bumped_id [simp]: "pj_id (bump_project now p) = pj_id p"
  by (simp add: bump_project_def)

lemma answered_refused:
  "fst (create_project e now pid name root s) = Inl err \<Longrightarrow> snd (create_project e now pid name root s) = s"
  "fst (create_project_as_new_conversation_scope e now pid name wroot s) = Inl err \<Longrightarrow>
   snd (create_project_as_new_conversation_scope e now pid name wroot s) = s"
  "fst (update_project_scope e now pid name root rv s) = Inl err \<Longrightarrow>
   snd (update_project_scope e now pid name root rv s) = s"
  "fst (add_project_read_root e now pid rid name path rv s) = Inl err \<Longrightarrow>
   snd (add_project_read_root e now pid rid name path rv s) = s"
  "fst (remove_project_read_root e now pid rid rv s) = Inl err \<Longrightarrow>
   snd (remove_project_read_root e now pid rid rv s) = s"
  "fst (archive_project e now pid rv s) = Inl err \<Longrightarrow> snd (archive_project e now pid rv s) = s"
  "fst (restore_project e now pid rv s) = Inl err \<Longrightarrow> snd (restore_project e now pid rv s) = s"
  unfolding create_project_def create_project_as_new_conversation_scope_def update_project_scope_def
    add_project_read_root_def remove_project_read_root_def archive_project_def restore_project_def
  by (erule then_read_refused, rule read_project_ok,
      auto simp: at_revision_def new_project_def dest: insert_root_reads insert_project_reads
        update_project_reads [where pid = pid])+

lemma create_conversation_refused:
  assumes "fst (create_conversation_with_admission e now input s) = Inl err"
  shows "snd (create_conversation_with_admission e now input s) = s"
proof -
  have "\<exists>x. ok_or code (get_conversation (cca_id input) (update_workspace f s1)) = Inr x"
    if "insert_conversation (new_conversation now input profile) s = Inr s1" for s1 f code profile
  proof -
    have "find_conversation (update_workspace f s1) (cca_id input) \<noteq> None"
      using that by (auto simp: insert_conversation_def find_conversation_def update_workspace_def
          find_None_iff new_conversation_def split: if_splits)
    then show ?thesis by (auto simp: get_conversation_def)
  qed
  then show ?thesis
    using assms unfolding create_conversation_with_admission_def
    by (elim then_read_refused) auto
qed

lemma begin_refused:
  assumes ok: "transcripts_ok e s"
    and err: "fst (begin_chat_turn_with_proof e now issuance input s) = Inl err"
  shows "snd (begin_chat_turn_with_proof e now issuance input s) = s"
proof (cases "res_bind (check_begin e input) (\<lambda>_. begin_turn_tx e now input s)")
  case (Inr r)
  obtain sn s' where r: "r = (sn, s')" by (cases r)
  have tx: "begin_turn_tx e now input s = Inr (sn, s')" using Inr r by auto
  have "load_turn (bt_turn_id input) s' = Some (sn_turn sn)"
    "sn_items sn = load_turn_items (bt_turn_id input) s'"
    using begin_turn_txD [OF tx] by (elim disjE conjE; simp)+
  then obtain p where "user_proof_from_snapshot issuance sn = Inr p"
    using snapshot_proof [OF conjunct1 [OF begin_turn_tx_ok [OF ok tx]]] by blast
  with err show ?thesis by (simp add: begin_chat_turn_with_proof_def Inr r)
qed (simp add: begin_chat_turn_with_proof_def)

lemma answer_refused: "fst (answer f r) = Inl err \<Longrightarrow> fst r = Inl err"
  by (cases r; cases "fst r") (auto simp: answer_def)

lemma settle_refused:
  "fst (settle_unit u s) = Inl err \<Longrightarrow> snd (settle_unit u s) = s"
  "fst (settle f r s) = Inl err \<Longrightarrow> snd (settle f r s) = s"
  by (auto simp: settle_unit_def settle_def split: sum.splits)

lemma step_refused:
  assumes "transcripts_ok e s" "fst (chat_step e c s) = Inl err"
  shows "snd (chat_step e c s) = s"
proof -
  obtain now call where c: "c = (now, call)" by (cases c)
  from assms(2) show ?thesis
    unfolding c
    by (cases call)
      (simp_all add: settle_refused answered_refused [OF answer_refused]
        create_conversation_refused [OF answer_refused] begin_refused [OF assms(1) answer_refused])
qed

section \<open>The claims on turns\<close>

lemmas reached = chats_ok [THEN chat_okD(1)]

lemma reached_turns: "turns_ok (conversation_states (chats_after e cs)) (cs_turns (chats_after e cs))"
  and reached_items: "items_ok e (cs_turns (chats_after e cs)) (cs_items (chats_after e cs))"
  using reached [of e cs] by (simp_all add: transcripts_ok_def)

lemma snapshot_iff:
  assumes ok: "transcripts_ok e s"
  shows "get_turn tid s = Some sn \<longleftrightarrow>
    (\<exists>t \<in> set (cs_turns s). tn_id t = tid \<and> sn = \<lparr>sn_turn = t, sn_items = own_items tid (cs_items s)\<rparr>)"
proof -
  have to: "turns_ok (conversation_states s) (cs_turns s)" using ok by (simp add: transcripts_ok_def)
  show ?thesis
    unfolding get_turn_def load_turn_items_own [OF ok] map_option_eq_Some load_turn_iff [OF to] by auto
qed

lemma own_item:
  assumes "transcripts_ok e s" "t \<in> set (cs_turns s)" "i \<in> set (own_items (tn_id t) (cs_items s))"
  shows "ci_turn_id i = tn_id t \<and> ci_conversation_id i = tn_conversation_id t \<and>
    ci_content_digest i = content_digest e (ci_content i)"
proof -
  have to: "turns_ok (conversation_states s) (cs_turns s)" and io: "items_ok e (cs_turns s) (cs_items s)"
    using assms(1) by (simp_all add: transcripts_ok_def)
  have i: "i \<in> set (cs_items s)" "ci_turn_id i = tn_id t" using assms(3) by (auto simp: own_items_def)
  obtain u where "u \<in> set (cs_turns s)" "tn_id u = ci_turn_id i" "tn_conversation_id u = ci_conversation_id i"
    using item_turn [OF io i(1)] by blast
  then show ?thesis
    using turn_unique [OF to _ assms(2), of u] i io by (simp add: items_ok_def)
qed

text \<open>The rows a listing keeps are the last ones of the transcript.\<close>

lemma last_items_suffix:
  assumes "sort_key ci_sequence is = is"
  shows "\<exists>older. is = older @ last_items limit is \<and>
    (older \<noteq> [] \<longrightarrow> length (last_items limit is) = clamp_rows 1000 limit)"
proof -
  let ?n = "clamp_rows 1000 limit"
  have "last_items limit is = drop (length is - ?n) is"
    unfolding last_items_def assms by (simp add: take_rev)
  moreover have "take (length is - ?n) is \<noteq> [] \<Longrightarrow> length is - ?n > 0" by (cases "length is - ?n") auto
  ultimately show ?thesis
    by (intro exI [where x = "take (length is - ?n) is"]) auto
qed

lemma clamp_positive: "0 < clamp_rows 1000 limit"
  by (simp add: clamp_rows_def)

lemma conversation_numbers:
  assumes "items_ok e ts is"
  shows "map ci_sequence (conversation_items c is) = [1 ..< Suc (length (conversation_items c is))]"
  using assms by (simp add: items_ok_def numbered_def)

lemma listed_numbers:
  assumes io: "items_ok e (cs_turns s) (cs_items s)"
  shows "map ci_sequence (chat_list_items cid limit s) =
    (let n = count_where (\<lambda>i. ci_conversation_id i = cid) (cs_items s)
     in [n + 1 - min n (clamp_rows 1000 limit) ..< n + 1])"
proof -
  let ?conv = "conversation_items cid (cs_items s)" and ?k = "clamp_rows 1000 limit"
  have num: "numbered (cs_items s)" using io by (simp add: items_ok_def)
  have sort: "sort_key ci_sequence ?conv = ?conv"
    unfolding conversation_items_def by (rule filtered_sorted [OF num])
  have "chat_list_items cid limit s = drop (length ?conv - ?k) ?conv"
    unfolding chat_list_items_def conversation_items_def [symmetric] last_items_def sort
    by (simp add: take_rev)
  then have "map ci_sequence (chat_list_items cid limit s) =
      drop (length ?conv - ?k) [1 ..< Suc (length ?conv)]"
    by (metis conversation_numbers [OF io] drop_map)
  then show ?thesis
    by (simp add: Let_def count_where_def conversation_items_def drop_upt min_def del: upt_Suc)
      (metis Suc_diff_le diff_diff_cancel diff_is_0_eq nat_le_linear)
qed

lemma only_running:
  assumes "turns_ok states ts" "t \<in> set ts" "tn_status t = TurnRunning"
  shows "filter (\<lambda>u. tn_conversation_id u = tn_conversation_id t \<and> tn_status u = TurnRunning) ts = [t]"
proof -
  have "filter (\<lambda>u. tn_conversation_id u = tn_conversation_id t \<and> tn_status u = TurnRunning) ts =
      filter (\<lambda>u. u = t) ts"
    using one_running [OF assms(1) _ _ assms(2)] assms(2,3)
    by (intro filter_cong) (auto simp: running_def)
  moreover have "distinct ts" using assms(1) by (auto simp: turns_ok_def distinct_map)
  moreover have "filter (\<lambda>u. u = t) ts = [t]" if "distinct ts" "t \<in> set ts" for ts :: "TurnRecord list"
    using that by (induction ts) (auto simp: filter_empty_conv)
  ultimately show ?thesis using assms(2) by simp
qed

text \<open>
  C5. A turn that can be read is a well-formed exchange: its items are, in the order of their
  sequence, one message of the user whose digest is the digest of the request, any number of
  steering messages, and the assistant's message exactly when the turn is completed; every item
  carries the digest of its content and belongs to the turn and to its conversation. The turn has an
  end time exactly when it is not running and an error code exactly when it failed or was
  interrupted. A running turn is the only one of its conversation, which is active. The items of the
  conversation, all turns together, are numbered 1, 2, 3 and so on without a gap.
\<close>

theorem turns_are_well_formed:
  assumes "s = chats_after e cs" "get_turn tid s = Some sn"
  shows "turn_kinds (tn_status (sn_turn sn)) (map ci_kind (sn_items sn)) \<and>
    ci_content_digest (hd (sn_items sn)) = tn_request_digest (sn_turn sn) \<and>
    (\<forall>i \<in> set (sn_items sn). ci_turn_id i = tid \<and>
       ci_conversation_id i = tn_conversation_id (sn_turn sn) \<and>
       ci_content_digest i = content_digest e (ci_content i)) \<and>
    (tn_finished_at (sn_turn sn) = None) = (tn_status (sn_turn sn) = TurnRunning) \<and>
    (tn_error_code (sn_turn sn) \<noteq> None) = (tn_status (sn_turn sn) \<in> {TurnFailed, TurnInterrupted}) \<and>
    (tn_status (sn_turn sn) = TurnRunning \<longrightarrow>
       map_option cv_status (find_conversation s (tn_conversation_id (sn_turn sn))) =
         Some ConversationActive \<and>
       filter (\<lambda>t. tn_conversation_id t = tn_conversation_id (sn_turn sn) \<and> tn_status t = TurnRunning)
         (cs_turns s) = [sn_turn sn]) \<and>
    map ci_sequence (chat_list_items (tn_conversation_id (sn_turn sn)) limit s) =
      (let n = count_where (\<lambda>i. ci_conversation_id i = tn_conversation_id (sn_turn sn)) (cs_items s)
       in [n + 1 - min n (clamp_rows 1000 limit) ..< n + 1])"
proof -
  have ok: "transcripts_ok e s" unfolding assms(1) by (rule reached)
  have to: "turns_ok (conversation_states s) (cs_turns s)" and io: "items_ok e (cs_turns s) (cs_items s)"
    using ok by (simp_all add: transcripts_ok_def)
  obtain t where t: "t \<in> set (cs_turns s)" "tn_id t = tid"
    and sn: "sn = \<lparr>sn_turn = t, sn_items = own_items tid (cs_items s)\<rparr>"
    using assms(2) snapshot_iff [OF ok] by blast
  have "turn_ok (cs_items s) t" using io t(1) by (simp add: items_ok_def)
  moreover have "map_option cv_status (find_conversation s (tn_conversation_id t)) = Some ConversationActive \<and>
      filter (\<lambda>u. tn_conversation_id u = tn_conversation_id t \<and> tn_status u = TurnRunning)
        (cs_turns s) = [t]" if run: "tn_status t = TurnRunning"
  proof -
    have d: "distinct (map cv_id (cs_conversations s))"
      unfolding assms(1) by (rule chat_links(1) [OF chats_ok])
    obtain c where c: "c \<in> set (cs_conversations s)" "active_conversation (tn_conversation_id t) c"
      using chat_links(4) [OF chats_ok] t(1) run unfolding assms(1) running_def by blast
    then show ?thesis
      using find_key_distinct [OF d c(1)] only_running [OF to t(1) run]
      by (simp add: find_conversation_def active_conversation_def)
  qed
  ultimately show ?thesis
    using own_item [OF ok t(1)] t(2) listed_numbers [OF io] unfolding turn_ok_def sn by simp
qed

text \<open>The context of a running turn: the last qualifying items, the newest of the turn itself.\<close>

lemma running_context:
  assumes ok: "transcripts_ok e s" and t: "t \<in> set (cs_turns s)" "tn_id t = tid"
      "tn_conversation_id t = cid" "running t"
  shows "sorted_wrt (<) (map ci_sequence (filter (in_model_context cid tid s) (cs_items s))) \<and>
    filter (in_model_context cid tid s) (cs_items s) \<noteq> [] \<and>
    ci_turn_id (last (filter (in_model_context cid tid s) (cs_items s))) = tid"
proof -
  have io: "items_ok e (cs_turns s) (cs_items s)" using ok by (simp add: transcripts_ok_def)
  let ?P = "in_model_context cid tid s" and ?conv = "conversation_items cid (cs_items s)"
  have all: "filter ?P (cs_items s) = filter ?P ?conv"
    unfolding conversation_items_def filter_filter by (rule filter_cong) (auto simp: in_model_context_def)
  have "sorted_wrt (<) (map ci_sequence ?conv)"
    unfolding conversation_numbers [OF io] by (rule sorted_wrt_upt)
  then have strict: "sorted_wrt (<) (map ci_sequence (filter ?P ?conv))"
    by (simp add: sorted_wrt_map sorted_wrt_filter)
  obtain i where "i \<in> set (own_items tid (cs_items s))"
    using turn_ok_items [of "cs_items s" t] io t(1,2) by (fastforce simp: items_ok_def neq_Nil_conv)
  then have ne: "?conv \<noteq> []"
    using own_item [OF ok t(1), of i] t by (auto simp: conversation_items_def own_items_def filter_empty_conv)
  have latest: "ci_turn_id (last ?conv) = tid" using io t by (auto simp: items_ok_def latest_ok_def)
  then have "?P (last ?conv)"
    using last_in_set [OF ne] t(1,2) unfolding in_model_context_def by (auto simp: conversation_items_def)
  then have "filter ?P ?conv \<noteq> [] \<and> last (filter ?P ?conv) = last ?conv"
    using append_butlast_last_id [OF ne]
    by (metis filter_append filter.simps(1,2) last_snoc snoc_eq_iff_butlast)
  with strict latest show ?thesis unfolding all by simp
qed

lemma ended_not_in_context:
  assumes to: "turns_ok states (cs_turns s)" and t: "t \<in> set (cs_turns s)" "tn_id t = tid" "running t"
    and u: "u \<in> set (cs_turns s)" "tn_status u \<in> {TurnFailed, TurnCancelled, TurnInterrupted}"
    and i: "in_model_context cid tid s i"
  shows "ci_turn_id i \<noteq> tn_id u"
proof
  assume "ci_turn_id i = tn_id u"
  then obtain v where "v \<in> set (cs_turns s)" "tn_id v = tn_id u" "tn_status v = TurnCompleted \<or> tn_id v = tid"
    using i by (auto simp: in_model_context_def)
  with turn_unique [OF to _ u(1), of v] turn_unique [OF to _ t(1), of v] t(2,3) u(2)
  show False by (auto simp: running_def)
qed

lemma ended_stays:
  "u \<in> set (cs_turns (chats_after e cs)) \<Longrightarrow> \<not> running u \<Longrightarrow> u \<in> set (cs_turns (chats_after e (cs @ ds)))"
  using run_later [of "chats_after e cs" e ds]
  unfolding chats_after_def run_state_append later_def same_request_def by auto


text \<open>
  C32. A call that is refused, for whatever reason, changes nothing, even where the operation reads
  its answer only after the commit: after a successful transaction the row it reads is there, and
  the proof of the user's message that a new or repeated turn needs can always be issued.
\<close>

theorem refused_calls_change_nothing:
  assumes "s = chats_after e cs" "fst (chat_step e c s) = Inl err"
  shows "snd (chat_step e c s) = s"
  using step_refused [OF reached] assms by blast

section \<open>Repeated requests\<close>

lemma find_user_message:
  assumes "turn_kinds status (map ci_kind is)"
  shows "find (\<lambda>i. ci_kind i = UserMessage) (is @ added) = Some (hd is)"
  using turn_kinds_hd [OF assms] by (cases "is") auto

lemma begun_proof:
  assumes ok: "transcripts_ok e s" and t: "t \<in> set (cs_turns s)"
    and "sn_turn sn = t" "sn_items sn = own_items (tn_id t) (cs_items s)"
  shows "user_proof_from_snapshot issuance sn = Inr
    (let user = hd (own_items (tn_id t) (cs_items s)) in
       \<lparr>um_conversation_id = tn_conversation_id t, um_turn_id = tn_id t, um_item_id = ci_id user,
        um_content_digest = tn_request_digest t, um_content_length_bytes = length (ci_content user),
        um_issuance_id = issuance\<rparr>)"
proof -
  let ?own = "own_items (tn_id t) (cs_items s)"
  have tok: "turn_ok (cs_items s) t" using ok t by (simp add: transcripts_ok_def items_ok_def)
  then have "find (\<lambda>i. ci_kind i = UserMessage) ?own = Some (hd ?own)"
    using find_user_message [of "tn_status t" ?own "[]"] by (simp add: turn_ok_def)
  moreover have "hd ?own \<in> set ?own" using turn_ok_items [OF tok] by simp
  then have "ci_turn_id (hd ?own) = tn_id t" "ci_conversation_id (hd ?own) = tn_conversation_id t"
    using own_item [OF ok t] by auto
  moreover have "ci_content_digest (hd ?own) = tn_request_digest t" using tok by (simp add: turn_ok_def)
  ultimately show ?thesis unfolding user_proof_from_snapshot_def assms(3,4) by (simp add: Let_def)
qed

text \<open>What a successful begin leaves in the store.\<close>

lemma begunD:
  assumes ok: "transcripts_ok e s" and "begin_chat_turn_with_proof e now n input s = (Inr b, s1)"
  shows "check_begin e input = Inr () \<and> transcripts_ok e s1 \<and>
    (\<exists>t \<in> set (cs_turns s1). sn_turn (bg_snapshot b) = t \<and> tn_id t = bt_turn_id input \<and>
      tn_conversation_id t = bt_conversation_id input \<and>
      tn_request_digest t = content_digest e (bt_user_message input) \<and> tn_provider t = bt_provider input \<and>
      sn_items (bg_snapshot b) = own_items (tn_id t) (cs_items s1) \<and>
      user_proof_from_snapshot n (bg_snapshot b) = Inr (bg_user_message_proof b))"
proof -
  obtain sn where c: "check_begin e input = Inr ()" and tx: "begin_turn_tx e now input s = Inr (sn, s1)"
    and b: "bg_snapshot b = sn" "user_proof_from_snapshot n sn = Inr (bg_user_message_proof b)"
    using assms(2) by (auto simp: begin_chat_turn_with_proof_def split: sum.splits)
  have ok1: "transcripts_ok e s1" using begin_turn_tx_ok [OF ok tx] by simp
  then have to: "turns_ok (conversation_states s1) (cs_turns s1)" by (simp add: transcripts_ok_def)
  have l: "load_turn (bt_turn_id input) s1 = Some (sn_turn sn)" "sn_items sn = load_turn_items (bt_turn_id input) s1"
    using begin_turn_txD [OF tx] by (elim disjE conjE; simp)+
  then have mem: "sn_turn sn \<in> set (cs_turns s1)" "tn_id (sn_turn sn) = bt_turn_id input"
    using load_turn_iff [OF to] by auto
  have "sn_turn sn = new_turn e now input" if "bt_turn_id input \<notin> tn_id ` set (cs_turns s)"
    "cs_turns s1 = cs_turns s @ [new_turn e now input]"
    using mem that by force
  then have "tn_conversation_id (sn_turn sn) = bt_conversation_id input \<and>
      tn_request_digest (sn_turn sn) = content_digest e (bt_user_message input) \<and>
      tn_provider (sn_turn sn) = bt_provider input"
    using begin_turn_txD [OF tx] by (auto simp: load_turn_None new_turn_def)
  then show ?thesis
    using c ok1 mem b l(2) load_turn_items_own [OF ok1] by auto
qed

text \<open>
  C16. Beginning a turn is idempotent: once a begin has succeeded, the same begin (same turn,
  conversation, message and provider) made again after any other calls succeeds, leaves the store as
  it is, returns the same turn, and issues a proof for the same user item with the same digest and
  length; only the issuance is new. The turn still carries the request it was begun with.
\<close>

theorem repeated_begin_returns_the_first:
  assumes "begin_chat_turn_with_proof e now n input (chats_after e cs) = (Inr b, s1)"
    and "s' = run_state (chat_step e) ds s1"
  shows "\<exists>b'. begin_chat_turn_with_proof e now' n' input s' = (Inr b', s') \<and>
    bg_user_message_proof b' = (bg_user_message_proof b)\<lparr>um_issuance_id := n'\<rparr> \<and>
    same_request (sn_turn (bg_snapshot b)) (sn_turn (bg_snapshot b')) \<and>
    (\<exists>added. sn_items (bg_snapshot b') = sn_items (bg_snapshot b) @ added)"
proof -
  note first = begunD [OF reached assms(1)]
  then obtain t where t: "t \<in> set (cs_turns s1)" "sn_turn (bg_snapshot b) = t" "tn_id t = bt_turn_id input"
      "tn_conversation_id t = bt_conversation_id input"
      "tn_request_digest t = content_digest e (bt_user_message input)" "tn_provider t = bt_provider input"
    and items: "sn_items (bg_snapshot b) = own_items (tn_id t) (cs_items s1)"
    and p: "user_proof_from_snapshot n (bg_snapshot b) = Inr (bg_user_message_proof b)"
    by blast
  have s1: "s1 = chats_after e (cs @ [(now, BeginTurn input n)])"
    using assms(1) by (simp add: chats_after_def run_state_append)
  have s': "s' = chats_after e ((cs @ [(now, BeginTurn input n)]) @ ds)"
    unfolding assms(2) s1 by (simp add: chats_after_def run_state_append)
  have ok1: "transcripts_ok e s1" and ok: "transcripts_ok e s'" unfolding s1 s' by (rule reached)+
  have "later s1 s'" unfolding assms(2) by (rule run_later)
  then obtain u new where u: "u \<in> set (cs_turns s')" "same_request t u" "cs_items s' = cs_items s1 @ new"
    using t(1) unfolding later_def by blast
  have own: "own_items (tn_id t) (cs_items s') = own_items (tn_id t) (cs_items s1) @ own_items (tn_id t) new"
    by (simp add: u(3) own_items_def)
  have "own_items (tn_id t) (cs_items s1) \<noteq> []"
    using ok1 t(1) by (intro turn_ok_items) (simp add: transcripts_ok_def items_ok_def)
  then have user: "hd (own_items (tn_id t) (cs_items s')) = hd (own_items (tn_id t) (cs_items s1))"
    by (simp add: own)
  let ?sn = "\<lparr>sn_turn = u, sn_items = own_items (tn_id t) (cs_items s')\<rparr>"
  have load: "load_turn (bt_turn_id input) s' = Some u"
    using u(1,2) t(3) ok by (simp add: load_turn_iff [of "conversation_states s'"] transcripts_ok_def same_request_def)
  have id: "tn_id u = tn_id t" using u(2) by (simp add: same_request_def)
  have "begin_turn_tx e now' input s' = Inr (?sn, s')"
    using load u(2) t load_turn_items_own [OF ok, of "bt_turn_id input"]
    by (simp add: begin_turn_tx_def same_request_def)
  moreover have "user_proof_from_snapshot n' ?sn = Inr ((bg_user_message_proof b)\<lparr>um_issuance_id := n'\<rparr>)"
    using begun_proof [OF ok u(1), of ?sn n'] begun_proof [OF ok1 t(1) t(2) items, of n] p u(2) user
    by (simp add: id Let_def same_request_def)
  ultimately show ?thesis
    using first u(2) own items t(2) by (simp add: begin_chat_turn_with_proof_def)
qed

section \<open>The digest of a project's scope\<close>

lemma join_append:
  "xs \<noteq> [] \<Longrightarrow> ys \<noteq> [] \<Longrightarrow> join_with d (xs @ ys) = join_with d xs @ d @ join_with d ys"
  by (induction xs rule: list_nonempty_induct) (auto simp: join_with_Cons)

lemma split_on_part: "d \<notin> set p \<Longrightarrow> split_on d (p @ d # s) = p # split_on d s"
  by (induction p) auto

lemma split_on_last: "d \<notin> set p \<Longrightarrow> split_on d p = [p]"
  by (induction p) auto

lemma split_join:
  "ps \<noteq> [] \<Longrightarrow> \<forall>p \<in> set ps. d \<notin> set p \<Longrightarrow> split_on d (join_with [d] ps) = ps"
  by (induction ps rule: list_nonempty_induct) (auto simp: join_with_Cons split_on_part split_on_last)

definition root_fields :: "ProjectReadRoot list \<Rightarrow> string list" where
  "root_fields rs = (if rs = [] then [[]] else concat (map (\<lambda>r. [rr_id r, rr_name r, rr_path r]) rs))"

definition scope_fields :: "ProjectRecord \<Rightarrow> string list" where
  "scope_fields p =
     [pj_id p, pj_name p, (case pj_workspace_root p of None \<Rightarrow> [] | Some r \<Rightarrow> r)] @
     root_fields (pj_additional_read_roots p) @ [dec (pj_revision p), project_status_as_str (pj_status p)]"

lemma root_fields_nonempty [simp]: "root_fields rs \<noteq> []"
  by (auto simp: root_fields_def)

lemma join_root_fields:
  "join_with NUL (map (\<lambda>r. join_with NUL [rr_id r, rr_name r, rr_path r]) rs) = join_with NUL (root_fields rs)"
proof (cases "rs = []")
  case False
  then show ?thesis
  proof (induction rs rule: list_nonempty_induct)
    case (cons r rs)
    have "root_fields (r # rs) = [rr_id r, rr_name r, rr_path r] @ root_fields rs"
      using cons.hyps by (simp add: root_fields_def)
    then show ?case
      using cons join_append [of "[rr_id r, rr_name r, rr_path r]" "root_fields rs" NUL]
      by (simp add: join_with_Cons)
  qed (simp add: root_fields_def)
qed (simp add: root_fields_def)

lemma scope_material_fields: "scope_material p = join_with NUL (scope_fields p)"
proof -
  have j: "join_with NUL (xs @ [join_with NUL ys] @ zs) = join_with NUL (xs @ ys @ zs)"
    if "xs \<noteq> []" "ys \<noteq> []" "zs \<noteq> []" for xs ys zs
    using that by (simp add: join_append join_with_Cons)
  show ?thesis
    unfolding scope_material_def scope_fields_def join_root_fields
    using j [of "[pj_id p, pj_name p, (case pj_workspace_root p of None \<Rightarrow> [] | Some r \<Rightarrow> r)]"
      "root_fields (pj_additional_read_roots p)" "[dec (pj_revision p), project_status_as_str (pj_status p)]"]
    by simp
qed

lemma concat_triples:
  fixes rs rs' :: "ProjectReadRoot list"
  assumes "concat (map (\<lambda>r. [rr_id r, rr_name r, rr_path r]) rs) =
    concat (map (\<lambda>r. [rr_id r, rr_name r, rr_path r]) rs')"
  shows "rs = rs'"
  using assms
proof (induction rs arbitrary: rs')
  case Nil
  then show ?case by (cases rs') auto
next
  case (Cons r rs)
  then obtain r' rest where rs': "rs' = r' # rest" by (cases rs') auto
  with Cons show ?case by (cases r; cases r') auto
qed

lemma root_fields_inject:
  fixes rs rs' :: "ProjectReadRoot list"
  assumes "root_fields rs = root_fields rs'"
  shows "rs = rs'"
proof -
  have len: "length (concat (map (\<lambda>r. [rr_id r, rr_name r, rr_path r]) xs)) = 3 * length xs"
    for xs :: "ProjectReadRoot list" by (induction xs) auto
  have "length (root_fields rs) = length (root_fields rs')" using assms by simp
  then have "(rs = []) = (rs' = [])"
    by (cases rs; cases rs') (auto simp: root_fields_def len)
  then show ?thesis using assms concat_triples [of rs rs'] by (auto simp: root_fields_def split: if_splits)
qed

definition scope_ok :: "ProjectRecord \<Rightarrow> bool" where
  "scope_ok p \<longleftrightarrow>
     clean (pj_id p) \<and> clean (pj_name p) \<and> (\<forall>r. pj_workspace_root p = Some r \<longrightarrow> r \<noteq> [] \<and> clean r) \<and>
     (\<forall>r \<in> set (pj_additional_read_roots p). clean (rr_id r) \<and> clean (rr_name r) \<and> clean (rr_path r))"

lemma dec_clean: "clean (dec n)"
  using dec_digits [of "CHR 0x00" n] by (auto simp: clean_def is_ascii_digit_def byte_nul)

lemma scope_fields_clean: "scope_ok p \<Longrightarrow> f \<in> set (scope_fields p) \<Longrightarrow> CHR 0x00 \<notin> set f"
  using dec_clean [of "pj_revision p"]
  by (cases "pj_status p")
    (auto simp: scope_ok_def scope_fields_def root_fields_def clean_def split: option.splits if_splits)

lemma scope_fields_inject:
  assumes "scope_fields p = scope_fields q" "scope_ok p" "scope_ok q"
  shows "pj_id p = pj_id q \<and> pj_name p = pj_name q \<and> pj_workspace_root p = pj_workspace_root q \<and>
    pj_additional_read_roots p = pj_additional_read_roots q \<and> pj_revision p = pj_revision q \<and>
    pj_status p = pj_status q"
proof -
  let ?r = "\<lambda>p :: ProjectRecord. case pj_workspace_root p of None \<Rightarrow> [] | Some r \<Rightarrow> r"
  have "root_fields (pj_additional_read_roots p) @ [dec (pj_revision p), project_status_as_str (pj_status p)] =
      root_fields (pj_additional_read_roots q) @ [dec (pj_revision q), project_status_as_str (pj_status q)]"
    and ids: "pj_id p = pj_id q" "pj_name p = pj_name q" "?r p = ?r q"
    using assms(1) by (simp_all add: scope_fields_def)
  then have "root_fields (pj_additional_read_roots p) = root_fields (pj_additional_read_roots q)"
    "dec (pj_revision p) = dec (pj_revision q)"
    "project_status_as_str (pj_status p) = project_status_as_str (pj_status q)"
    by (simp_all add: append_eq_append_conv)
  moreover have "pj_workspace_root p = pj_workspace_root q"
    using ids(3) assms(2,3) by (auto simp: scope_ok_def split: option.splits)
  moreover have "pj_status p = pj_status q"
    if "project_status_as_str (pj_status p) = project_status_as_str (pj_status q)"
    using that by (cases "pj_status p"; cases "pj_status q") auto
  ultimately show ?thesis using ids root_fields_inject by auto
qed

lemma read_scope_ok:
  assumes ok: "chat_ok e s" and p: "get_project s pid = Some p"
    and uuid: "\<forall>u. ce_uuid_ok e u \<longrightarrow> CHR 0x00 \<notin> set u"
  shows "scope_ok p"
proof -
  obtain x where x: "x \<in> set (cs_projects s)" and px: "p = with_read_roots s x"
    using p by (auto simp: get_project_def dest: find_Some_mem)
  have cols: "pj_id p = pj_id x" "pj_name p = pj_name x" "pj_workspace_root p = pj_workspace_root x"
    "pj_additional_read_roots p = project_read_roots s (pj_id x)"
    by (simp_all add: px with_read_roots_def project_row.defs ProjectRecord.defs)
  have "project_ok e x" using chat_okD(2) [OF ok] x by (simp add: projects_ok_def)
  moreover have "clean (rr_id r) \<and> clean (rr_name r) \<and> clean (rr_path r)"
    if "r \<in> set (project_read_roots s (pj_id x))" for r
    using that chat_okD(3) [OF ok] uuid
    by (auto simp: project_read_roots_def roots_ok_def read_root_ok_def clean_def ProjectReadRoot.defs)
  ultimately show ?thesis
    using uuid by (auto simp: scope_ok_def project_ok_def cols clean_def)
qed

text \<open>
  C29. The digest of a project's scope stands for that scope: when two projects, read at any time
  from stores with any history, have the same digest, they agree in identity, name, workspace root,
  the additional read roots in their order, revision and status, unless SHA-256 collides on two
  different texts. The parts are joined by NUL bytes only, without lengths, and the number of read
  roots varies; the validators keep NUL out of every part.
\<close>

theorem scope_digest_stands_for_the_scope:
  assumes "get_project (chats_after e cs) pid = Some p" "get_project (chats_after e ds) qid = Some q"
    and "project_scope_digest e p = project_scope_digest e q"
    and "\<forall>u. ce_uuid_ok e u \<longrightarrow> CHR 0x00 \<notin> set u"
  shows "(pj_id p = pj_id q \<and> pj_name p = pj_name q \<and> pj_workspace_root p = pj_workspace_root q \<and>
      pj_additional_read_roots p = pj_additional_read_roots q \<and> pj_revision p = pj_revision q \<and>
      pj_status p = pj_status q) \<or>
    (scope_material p \<noteq> scope_material q \<and>
      ce_sha256_hex e (scope_material p) = ce_sha256_hex e (scope_material q))"
proof (cases "scope_material p = scope_material q")
  case True
  have p: "scope_ok p" and q: "scope_ok q"
    using assms(1,2,4) read_scope_ok [OF chats_ok] by blast+
  have "scope_fields p \<noteq> []" "scope_fields q \<noteq> []" by (simp_all add: scope_fields_def)
  then have "scope_fields p = scope_fields q"
    using True split_join [of "scope_fields p" "CHR 0x00"] split_join [of "scope_fields q" "CHR 0x00"]
      scope_fields_clean [OF p] scope_fields_clean [OF q]
    unfolding scope_material_fields NUL_def by metis
  then show ?thesis using scope_fields_inject p q by blast
qed (use assms(3) in \<open>simp add: project_scope_digest_def content_digest_def\<close>)

section \<open>Examples\<close>

text \<open>
  A conversation whose first turn is steered and answered, whose second is cancelled, and which begins
  a third: the claims applied to it.
\<close>

definition talk_chat_env :: chat_env where
  "talk_chat_env = \<lparr>ce_uuid_ok = (\<lambda>u. CHR 0x00 \<notin> set u), ce_sha256_hex = (\<lambda>x. x), ce_json_object = (\<lambda>_. True)\<rparr>"

definition talk_binding :: ProviderBinding where
  "talk_binding = \<lparr>pb_profile_id = ''f'', pb_provider_id = ''p'', pb_model_id = ''m'',
     pb_endpoint_class = ''c'', pb_config_generation = ''g'', pb_reasoning_effort = None\<rparr>"

definition talk_begin :: "string \<Rightarrow> string \<Rightarrow> BeginChatTurn" where
  "talk_begin tid message = \<lparr>bt_turn_id = tid, bt_conversation_id = ''k'', bt_user_message = message,
     bt_provider = talk_binding\<rparr>"

definition talk_admission :: CreateConversationAdmission where
  "talk_admission = \<lparr>cca_id = ''k'', cca_title = ''k'', cca_project_id = None,
        cca_selected_skill_id = None, cca_memory_mode = UseOnly\<rparr>"

definition talk_conversation :: "int \<Rightarrow> conversation_row" where
  "talk_conversation now = (new_conversation 1 talk_admission None)\<lparr>cv_updated_at := now\<rparr>"

definition talk_turn :: "string \<Rightarrow> string \<Rightarrow> int \<Rightarrow> TurnRecord" where
  "talk_turn tid message now = new_turn talk_chat_env now (talk_begin tid message)"

definition talk_ended :: "TurnStatus \<Rightarrow> int \<Rightarrow> TurnRecord \<Rightarrow> TurnRecord" where
  "talk_ended st now t = t\<lparr>tn_status := st, tn_updated_at := now, tn_finished_at := Some now\<rparr>"

definition talk_item :: "string list \<Rightarrow> string \<Rightarrow> nat \<Rightarrow> ConversationItemKind \<Rightarrow> string \<Rightarrow> int \<Rightarrow> ConversationItemRecord" where
  "talk_item parts tid n kind content now =
     \<lparr>ci_id = chat_stable_id talk_chat_env ''item'' parts, ci_conversation_id = ''k'', ci_turn_id = tid,
      ci_sequence = n, ci_kind = kind, ci_content = content,
      ci_content_digest = content_digest talk_chat_env content, ci_created_at = now\<rparr>"

definition talk_chat :: "int \<Rightarrow> TurnRecord list \<Rightarrow> ConversationItemRecord list \<Rightarrow> conversation_store" where
  "talk_chat now ts is = initial_conversations\<lparr>cs_conversations := [talk_conversation now],
     cs_workspace := \<lparr>ws_new_conversation_project_id = None, ws_selected_conversation_id = Some ''k'',
         ws_selected_provider_profile_id = None, ws_updated_at = 1\<rparr>,
     cs_turns := ts, cs_items := is\<rparr>"

lemmas text_defs = check_label_def check_content_def trim_def ws1_def ws2_def ws3_def byte_def Let_def

lemma letter_labels:
  "check_label f ''k'' 512 = Inr ()" "check_label f ''f'' 256 = Inr ()" "check_label f ''p'' 128 = Inr ()"
  "check_label f ''m'' 256 = Inr ()" "check_label f ''c'' 128 = Inr ()" "check_label f ''g'' 256 = Inr ()"
  by (simp_all add: text_defs)

lemma letter_contents:
  "check_content f ''q'' = Inr ()" "check_content f ''w'' = Inr ()" "check_content f ''a'' = Inr ()"
  "check_content f ''x'' = Inr ()" "check_content f ''y'' = Inr ()"
  by (simp_all add: text_defs)

lemma talk_uuid: "check_uuid talk_chat_env f v = bail_if (CHR 0x00 \<in> set v) (invalid_input f)"
  by (simp add: check_uuid_def talk_chat_env_def)

lemma talk_created:
  "snd (chat_step talk_chat_env (1, CreateConversation talk_admission) initial_conversations) = talk_chat 1 [] []"
  by (simp add: create_conversation_with_admission_def then_read_snd talk_uuid letter_labels
      talk_admission_def bail_if_def when_some_def insert_conversation_def initial_conversations_def
      update_workspace_def talk_chat_def talk_conversation_def new_conversation_def)

lemma talk_checked: "check_begin talk_chat_env (talk_begin ''t'' ''q'') = Inr ()"
  "check_begin talk_chat_env (talk_begin ''u'' ''x'') = Inr ()"
  "check_begin talk_chat_env (talk_begin ''v'' ''y'') = Inr ()"
  by (simp_all add: check_begin_def talk_uuid talk_begin_def letter_contents check_binding_def talk_binding_def letter_labels)

lemmas talk_rows = talk_chat_def initial_conversations_def talk_turn_def talk_ended_def talk_item_def
  new_turn_def talk_begin_def talk_conversation_def new_conversation_def talk_admission_def

lemmas talk_tables = load_turn_def load_turn_items_def load_item_def load_snapshot_def has_running_turn_def
  find_conversation_def insert_turn_def insert_chat_item_def next_item_def next_item_sequence_def
  max_where_def touch_conversation_def update_where_def single_kinds_def exists_where_def

lemma talk_begun:
  "begin_turn_tx talk_chat_env 2 (talk_begin ''t'' ''q'') (talk_chat 1 [] []) =
     Inr (\<lparr>sn_turn = talk_turn ''t'' ''q'' 2, sn_items = [talk_item [''t'', ''user''] ''t'' 1 UserMessage ''q'' 2]\<rparr>,
       talk_chat 2 [talk_turn ''t'' ''q'' 2] [talk_item [''t'', ''user''] ''t'' 1 UserMessage ''q'' 2])"
  by (simp add: begin_turn_tx_def talk_tables talk_rows Let_def ok_or_def)

lemma talk_id: "chat_stable_id talk_chat_env ''item'' parts = ''item:item'' @ nul_parts parts"
  by (simp add: chat_stable_id_def talk_chat_env_def)

abbreviation talk_asked :: ConversationItemRecord where
  "talk_asked \<equiv> talk_item [''t'', ''user''] ''t'' 1 UserMessage ''q'' 2"

abbreviation talk_added :: ConversationItemRecord where
  "talk_added \<equiv> talk_item [''t'', ''steering'', ''s''] ''t'' 2 UserSteering ''w'' 3"

abbreviation talk_answered :: ConversationItemRecord where
  "talk_answered \<equiv> talk_item [''t'', ''assistant''] ''t'' 3 AssistantMessage ''a'' 4"

abbreviation talk_dropped :: ConversationItemRecord where
  "talk_dropped \<equiv> talk_item [''u'', ''user''] ''u'' 4 UserMessage ''x'' 5"

abbreviation talk_asked_again :: ConversationItemRecord where
  "talk_asked_again \<equiv> talk_item [''v'', ''user''] ''v'' 5 UserMessage ''y'' 7"

abbreviation talk_first :: TurnRecord where
  "talk_first \<equiv> talk_turn ''t'' ''q'' 2"

abbreviation talk_done :: TurnRecord where
  "talk_done \<equiv> talk_ended TurnCompleted 4 talk_first"

abbreviation talk_second :: TurnRecord where
  "talk_second \<equiv> talk_turn ''u'' ''x'' 5"

abbreviation talk_cancelled :: TurnRecord where
  "talk_cancelled \<equiv> talk_ended TurnCancelled 6 talk_second"

lemma talk_steered:
  "append_work_steering talk_chat_env 3 ''s'' ''k'' ''t'' ''w'' (talk_chat 2 [talk_first] [talk_asked]) =
   Inr (\<lparr>aw_item = talk_added, aw_replayed = False\<rparr>, talk_chat 3 [talk_first] [talk_asked, talk_added])"
  by (simp add: append_work_steering_def talk_uuid bail_if_def letter_contents turn_running_in_def
      talk_tables talk_rows Let_def ok_or_def talk_id)

lemma talk_completed:
  "complete_chat_turn talk_chat_env 4 ''t'' ''a'' (talk_chat 3 [talk_first] [talk_asked, talk_added]) =
   Inr (\<lparr>sn_turn = talk_done, sn_items = [talk_asked, talk_added, talk_answered]\<rparr>,
     talk_chat 4 [talk_done] [talk_asked, talk_added, talk_answered])"
  by (simp add: complete_chat_turn_def finish_turn_def letter_contents talk_tables talk_rows Let_def
      ok_or_def talk_id)

lemma talk_begun_second:
  "begin_turn_tx talk_chat_env 5 (talk_begin ''u'' ''x'')
     (talk_chat 4 [talk_done] [talk_asked, talk_added, talk_answered]) =
   Inr (\<lparr>sn_turn = talk_second, sn_items = [talk_dropped]\<rparr>,
     talk_chat 5 [talk_done, talk_second] [talk_asked, talk_added, talk_answered, talk_dropped])"
  by (simp add: begin_turn_tx_def talk_tables talk_rows Let_def ok_or_def talk_id)

lemma talk_stopped:
  "cancel_chat_turn 6 ''u''
     (talk_chat 5 [talk_done, talk_second] [talk_asked, talk_added, talk_answered, talk_dropped]) =
   Inr (talk_cancelled,
     talk_chat 5 [talk_done, talk_cancelled] [talk_asked, talk_added, talk_answered, talk_dropped])"
  by (simp add: cancel_chat_turn_def terminalize_without_assistant_def end_turn_def talk_tables
      talk_rows Let_def ok_or_def)

lemma talk_begun_third:
  "begin_turn_tx talk_chat_env 7 (talk_begin ''v'' ''y'')
     (talk_chat 5 [talk_done, talk_cancelled] [talk_asked, talk_added, talk_answered, talk_dropped]) =
   Inr (\<lparr>sn_turn = talk_turn ''v'' ''y'' 7, sn_items = [talk_asked_again]\<rparr>,
     talk_chat 7 [talk_done, talk_cancelled, talk_turn ''v'' ''y'' 7]
       [talk_asked, talk_added, talk_answered, talk_dropped, talk_asked_again])"
  by (simp add: begin_turn_tx_def talk_tables talk_rows Let_def ok_or_def talk_id)

definition talk_calls :: "(int \<times> chat_call) list" where
  "talk_calls =
     [(1, CreateConversation talk_admission), (2, BeginTurn (talk_begin ''t'' ''q'') 1),
      (3, AppendSteering ''s'' ''k'' ''t'' ''w''), (4, CompleteTurn ''t'' ''a''),
      (5, BeginTurn (talk_begin ''u'' ''x'') 1), (6, CancelTurn ''u'')]"

lemma begun_store:
  "check_begin e input = Inr () \<Longrightarrow> begin_turn_tx e now input s = Inr (sn, s') \<Longrightarrow>
   snd (begin_chat_turn_with_proof e now n input s) = s'"
  by (simp add: begin_chat_turn_with_proof_def)

lemma talk_talked:
  "chats_after talk_chat_env talk_calls =
     talk_chat 5 [talk_done, talk_cancelled] [talk_asked, talk_added, talk_answered, talk_dropped]"
  by (simp add: chats_after_def talk_calls_def begun_store [OF talk_checked(1) talk_begun]
      begun_store [OF talk_checked(2) talk_begun_second] talk_created [simplified] settle_def talk_steered
      talk_completed talk_stopped del: One_nat_def)

lemma talk_talked_again:
  "chats_after talk_chat_env (talk_calls @ [(7, BeginTurn (talk_begin ''v'' ''y'') 1)]) =
     talk_chat 7 [talk_done, talk_cancelled, talk_turn ''v'' ''y'' 7]
       [talk_asked, talk_added, talk_answered, talk_dropped, talk_asked_again]"
  using talk_talked begun_store [OF talk_checked(3) talk_begun_third]
  by (simp add: chats_after_def run_state_append)


lemma talk_read:
  "get_turn ''t'' (chats_after talk_chat_env talk_calls) =
     Some \<lparr>sn_turn = talk_done, sn_items = [talk_asked, talk_added, talk_answered]\<rparr>"
  by (simp add: talk_talked get_turn_def talk_tables talk_rows)

lemma turns_are_well_formed_witness:
  "turn_kinds TurnCompleted [UserMessage, UserSteering, AssistantMessage] \<and>
   map ci_sequence (chat_list_items ''k'' 2 (chats_after talk_chat_env talk_calls)) = [3, 4]"
  using turns_are_well_formed [OF refl talk_read, of 2]
  by (simp add: talk_rows Let_def count_where_def talk_talked clamp_rows_def upt_rec)

lemma talk_context:
  "list_model_context_items talk_chat_env ''k'' ''v'' 2
     (chats_after talk_chat_env (talk_calls @ [(7, BeginTurn (talk_begin ''v'' ''y'') 1)])) =
   Inr [talk_answered, talk_asked_again]"
  unfolding talk_talked_again
  by (simp add: list_model_context_items_def talk_uuid bail_if_def turn_running_in_def
      talk_tables talk_rows last_items_def in_model_context_def clamp_rows_def)


lemma talk_refused:
  "fst (chat_step talk_chat_env (7, CompleteTurn ''u'' ''a'') (chats_after talk_chat_env talk_calls)) =
     Inl (Bail ''conversation_turn_not_running'')"
  by (simp add: talk_talked settle_def complete_chat_turn_def letter_contents talk_tables talk_rows ok_or_def)

lemma refused_calls_change_nothing_witness:
  "snd (chat_step talk_chat_env (7, CompleteTurn ''u'' ''a'') (chats_after talk_chat_env talk_calls)) =
     chats_after talk_chat_env talk_calls"
  by (rule refused_calls_change_nothing [OF refl talk_refused])

definition talk_proof :: ConversationUserMessageProof where
  "talk_proof =
     \<lparr>um_conversation_id = ''k'', um_turn_id = ''t'', um_item_id = ci_id talk_asked,
      um_content_digest = tn_request_digest talk_first, um_content_length_bytes = 1, um_issuance_id = 1\<rparr>"

lemma talk_issued:
  "user_proof_from_snapshot 1 \<lparr>sn_turn = talk_first, sn_items = [talk_asked]\<rparr> = Inr talk_proof"
  by (simp add: user_proof_from_snapshot_def talk_proof_def talk_rows ok_or_def)

lemma talk_first_begin:
  "begin_chat_turn_with_proof talk_chat_env 2 1 (talk_begin ''t'' ''q'')
     (chats_after talk_chat_env [(1, CreateConversation talk_admission)]) =
   (Inr \<lparr>bg_snapshot = \<lparr>sn_turn = talk_first, sn_items = [talk_asked]\<rparr>,
         bg_user_message_proof = talk_proof\<rparr>, talk_chat 2 [talk_first] [talk_asked])"
proof -
  have "chats_after talk_chat_env [(1, CreateConversation talk_admission)] = talk_chat 1 [] []"
    by (simp add: chats_after_def talk_created [simplified])
  then show ?thesis
    by (simp add: begin_chat_turn_with_proof_def talk_checked talk_begun talk_issued del: One_nat_def)
qed

lemma repeated_begin_returns_the_first_witness:
  "\<exists>b. begin_chat_turn_with_proof talk_chat_env 9 2 (talk_begin ''t'' ''q'')
      (run_state (chat_step talk_chat_env) [(3, CancelTurn ''t'')] (talk_chat 2 [talk_first] [talk_asked])) =
      (Inr b, run_state (chat_step talk_chat_env) [(3, CancelTurn ''t'')] (talk_chat 2 [talk_first] [talk_asked])) \<and>
    bg_user_message_proof b = talk_proof\<lparr>um_issuance_id := 2\<rparr>"
  using repeated_begin_returns_the_first [OF talk_first_begin refl, of 9 2 "[(3, CancelTurn ''t'')]"] by force

definition talk_project :: "int \<Rightarrow> project_row" where
  "talk_project now = new_project ''p'' ''n'' (Some ''r'') now"

lemma talk_project_read:
  "get_project (chats_after talk_chat_env [(now, CreateProject ''p'' ''n'' (Some ''r''))]) ''p'' =
     Some (project_row.extend (talk_project now) (ProjectRecord.fields []))"
  by (simp add: chats_after_def create_project_def then_read_snd check_project_scope_def talk_uuid bail_if_def
      when_some_def text_defs insert_project_def initial_conversations_def new_project_def talk_project_def
      get_project_def with_read_roots_def project_read_roots_def)

lemma scope_digest_stands_for_the_scope_witness:
  "let p = project_row.extend (talk_project 1) (ProjectRecord.fields []);
       q = project_row.extend (talk_project 2) (ProjectRecord.fields [])
   in pj_workspace_root p = pj_workspace_root q \<or> scope_material p \<noteq> scope_material q"
proof -
  have "project_scope_digest talk_chat_env (project_row.extend (talk_project 1) (ProjectRecord.fields [])) =
      project_scope_digest talk_chat_env (project_row.extend (talk_project 2) (ProjectRecord.fields []))"
    by (simp add: project_scope_digest_def scope_material_def talk_project_def new_project_def
        project_row.defs ProjectRecord.defs)
  from scope_digest_stands_for_the_scope [OF talk_project_read talk_project_read this]
  show ?thesis by (auto simp: talk_chat_env_def Let_def)
qed

text \<open>
  An active conversation in an archived project: archiving a project asks that it has no active
  conversation, but restoring a conversation does not ask for its project.
\<close>

definition talk_restore :: "(int \<times> chat_call) list" where
  "talk_restore =
     [(1, CreateProject ''p'' ''n'' (Some ''r'')),
      (2, CreateConversation (talk_admission\<lparr>cca_project_id := Some ''p''\<rparr>)),
      (3, ArchiveConversation ''k''), (4, ArchiveProject ''p'' 1), (5, RestoreConversation ''k'')]"

lemma restored_conversation_in_archived_project:
  "let s = chats_after talk_chat_env talk_restore
   in map (\<lambda>c. (cv_project_id c, cv_status c)) (cs_conversations s) = [(Some ''p'', ConversationActive)] \<and>
      map pj_status (cs_projects s) = [ProjectArchived]"
  by (simp add: chats_after_def talk_restore_def create_project_def then_read_snd check_project_scope_def talk_uuid
      bail_if_def when_some_def text_defs insert_project_def initial_conversations_def new_project_def
      create_conversation_with_admission_def insert_conversation_def new_conversation_def talk_admission_def
      active_project_def update_workspace_def settle_unit_def archive_conversation_def update_conversation_def
      require_one_def count_where_def active_conversation_def has_running_turn_def update_where_def
      archive_project_def check_expected_revision_def to_i64_def I64_MAX_def at_revision_def in_project_def
      update_project_def bump_project_def restore_conversation_def)

end
