(* ===== verification/Spec2Isabelle.thy ===== *)
theory Spec2Isabelle
  imports
    Prelude Machines
    Work_Plan Work_Budget Provider_Json Agent_Step Tool_Receipt
    Task_Store Task_Run Task_Plan Task_Steps Task_Invariant Task_Safety Task_Usage
    Task_Completion Task_Claims
    Danger_Action Danger_Safety Outbox Outbox_Safety Outbox_Claims File_Journal File_Safety
    Proposal_Store Proposal_Safety Review_Workflow Review_Claims
    Tool_Permission Permission_Safety Permission_Claims
    Memory_Fact Memory_Store Memory_Lifecycle Memory_Retrieval Memory_Safety Memory_Steps
    Memory_Claims
    Conversation_Store Conversation_Turns Conversation_Safety Conversation_Directory
    Conversation_Claims
begin

text \<open>
  OpenLife, a desktop assistant: the code that decides what an agent run may do, what it
  has done and when it is finished. The Rust sources are \<open>openlife-core\<close> (the library) and
  \<open>src-tauri\<close> (the application around it).

  A task is worked on in runs. A run gets a plan from a language model
  (\<open>work_orchestration.rs\<close>), which is decoded, checked and scheduled; every provider or tool
  call is admitted against the budget of the run and leaves a receipt
  (\<open>tool_execution_receipt.rs\<close>); tasks, runs, items, attempts, plans, steering and results are
  the tables of the canonical task store (\<open>task_runtime.rs\<close>), from which the budget is
  counted and a restart recovers. What the user and the assistant said to each other, the projects
  this belongs to and the model it is answered by are the conversation store (\<open>conversation.rs\<close>),
  and what the assistant remembers is the memory store (\<open>memory_lifecycle.rs\<close>). What a committed change must still cause elsewhere is written
  to a transactional outbox, or for a file to a recovery journal (\<open>persistence_outbox.rs\<close>), and
  what could do harm has to be confirmed by the user in a native dialog
  (\<open>danger_action_confirmation.rs\<close>).

  \<^bold>\<open>The theories.\<close>

  \<^item> Prelude: the sum type of results (\<open>res_bind\<close>, \<open>first_failure\<close>, \<open>bail_if\<close>), Rust's text
    functions (\<open>trim\<close>, character classes, decimal numbers), tables as lists (\<open>update_where\<close>,
    \<open>count_where\<close>, \<open>find\<close>), saturating counters, and the named collections the proofs use.
  \<^item> Machines: the interfaces, as locales: a machine with a guard per call
    (\<open>guarded_machine\<close>), a machine with a view that freezes (\<open>frozen_machine\<close>), an event
    that happens at most once (\<open>one_shot\<close>) and a keyed table under updates
    (\<open>keyed_update\<close>). Each is interpreted on definitions of the model: the budget, the
    receipt tracker and the task store.
  \<^item> Work_Plan: \<open>StructuredWorkPlan\<close>, its identifiers, the relabelling of model-authored
    labels, \<open>validate\<close>, \<open>validate_required_kinds\<close>, the scheduler and the projection of
    completed steps (C1 to C4, C6).
  \<^item> Work_Budget: \<open>WorkRunBudgetPolicy\<close> and its admissions on 32-bit counters, the completion
    evaluator, and the admission of a provider call (\<open>CanonicalWorkProviderLifecycle::begin\<close>
    in \<open>canonical_chat_runtime.rs\<close>) (C8).
  \<^item> Provider_Json: how the text of a provider becomes a plan: fences, projection to the
    fields of the contract, shape errors, error codes (C10 to C12).
  \<^item> Agent_Step: the next action a model proposes (\<open>AgentStepEnvelope\<close>), the projection of provider
    values to it, and its validation against what the runtime has issued (C7).
  \<^item> Tool_Receipt: \<open>ToolExecutionReceiptTracker\<close> with every production operation, and the
    predicates that read a receipt as a proof (C13 to C15, C17, C18).
  \<^item> Task_Store: the tables of the task store with the constraints of its schema, status
    codes, validators and derived identifiers; Task_Run: the operations on runs, items,
    attempts and results; Task_Plan: the operations on plans and steering.
  \<^item> Task_Steps, Task_Invariant, Task_Safety: the store as a state machine. \<open>store_call\<close> has one
    constructor per operation, \<open>store_step\<close> runs it, \<open>reached\<close> is the store after a list of
    timed calls from the empty store. \<open>row_step\<close> is the abstract specification: what a single
    row may do. Each operation refines a sequence of row steps (one lemma per operation,
    \<open>*_steps\<close>), and the invariant \<open>store_inv\<close> (unique keys, resolved references, results of
    completed runs, contiguous plan history, applied steering) is kept by row steps where it
    can be, by operations where it cannot.
  \<^item> Task_Usage, Task_Completion: the counters of the budget only grow; what completion and
    recovery do to every table. Task_Claims: the properties of the store (C19 to C27, C30), with a
    concrete environment in which the witnesses run.
  \<^item> Danger_Action: the challenges and grants of \<open>danger_action_confirmation.rs\<close> and the command
    around them. The command waits for the dialog, so it is two events, \<open>Request\<close> and \<open>Answer\<close>,
    that interleave with those of other commands; \<open>danger_run\<close> is a process. The two locks that
    creating a challenge and first using it take are one event. Danger_Safety: the history of a
    challenge as an automaton, and C33.
  \<^item> Outbox: events with revisions per aggregate, their deliveries, tombstones, and every
    operation on them. Outbox_Safety: \<open>outbox_step\<close> runs any call, \<open>fenced_step\<close> the same calls under
    the discipline the documentation asks of writers: they look at the deletion fence first.
    Outbox_Claims: the invariant, replay and summaries (C34, C35).
  \<^item> File_Journal: \<open>FileMutationJournal\<close>; File_Safety: its invariant and how a write is decided
    after a crash (C37, C38).
  \<^item> Proposal_Store: \<open>AgentProposal\<close> (\<open>agent/types.rs\<close>) and \<open>ProposalStore\<close>
    (\<open>agent/proposal_store.rs\<close>): review, the dispatch of an effect, and the queries.
    Proposal_Safety: every call as \<open>proposal_call\<close>, the events of a dispatch, and the protocol
    they follow (C39).
  \<^item> Review_Workflow: \<open>agent/review_workflow.rs\<close>, how a durable write is submitted for review, and
    the snapshots that prove an acceptance. Review_Claims: what they prove (C40).
  \<^item> Tool_Permission: \<open>tool_permissions.rs\<close>, the permissions by pattern, the network consents that
    an accepted review grants, and the permissions bound to one action. Permission_Safety: every
    call as \<open>permission_call\<close>; \<open>move\<close> says what a call may do to the tables, and one lemma per
    operation shows that it does that. Permission_Claims: C28, and that \<open>peek\<close> and \<open>check\<close> agree.
  \<^item> Memory_Fact, Memory_Store, Memory_Lifecycle, Memory_Retrieval:
    \<open>agent/memory_lifecycle.rs\<close>, what the assistant remembers. Memory_Fact: the fact descriptor with
    its canonical identity, the proof behind a memory the user asked for in a message, and the fact a
    reviewed proposal asks for. Memory_Store: the tables, admission links, views and outbox events.
    Memory_Lifecycle: \<open>accept_memory_proposal\<close> (replay, correction, alias, new memory),
    \<open>commit_explicit_user_memory\<close>, \<open>rollback_memory_asset\<close> and \<open>privacy_erase_memory_asset\<close>.
    Memory_Retrieval: dispositions, queries and the reports of the projection.
  \<^item> Memory_Safety, Memory_Steps: the store as the machine \<open>memory_step\<close> over the outbox.
    \<open>memory_ok G\<close> is its invariant, with a set \<open>G\<close> of records that left the context and are still
    stored; an operation is a few moves (a record is touched, joins the context or leaves it, a view is
    rebuilt, an event is enqueued), each with its lemma. The store writes to its outbox without reading
    the deletion fence: what C35 asks of writers is a consequence of \<open>memory_ok\<close>.
    Memory_Claims: the store is sound (C36), what is forgotten stays forgotten (C9), and a run that
    remembers an erased fact again.
  \<^item> Conversation_Store, Conversation_Turns: \<open>conversation.rs\<close>. Conversation_Store: the rows and codes,
    projects with their read roots and scope digests, provider connections, profiles and the selections
    of the workspace. Conversation_Turns: conversations, the turns of a conversation (begun with the
    message of the user, steered, completed with an answer or ended without one), recovery after a
    restart, the queries, and every call as \<open>chat_call\<close>.
  \<^item> Conversation_Safety, Conversation_Directory: \<open>chat_ok\<close>, the invariant of the store, which is
    \<open>transcripts_ok\<close> (turns and items) and \<open>directory_ok\<close> (projects, providers, references and
    selections). An operation on turns keeps the directory and the other way round, so a lemma per
    operation is about one of the two. Conversation_Directory has the locale \<open>answering_machine\<close>, for operations
    that read their answer after the commit, and its interpretation on the store. Conversation_Claims: a turn
    is a well-formed exchange (C5), beginning it is idempotent (C16), the digest of a scope stands for
    it (C29), what a model is given (C31), and that a refused call changes nothing (C32).

  \<^bold>\<open>How code becomes a definition.\<close> A struct is a record and an enumeration a datatype, with
  the names of the source, fields prefixed where two structs share a name. A function that
  returns \<open>Result\<close> returns a sum, \<open>Inl\<close> the error code. A method that changes \<open>self\<close> returns the
  new record. A method of the store runs in one immediate transaction, so it is a function
  to an error, and then nothing has changed, or to a value and a new store; the two
  operations that use two transactions (\<open>append_completed_observation\<close>,
  \<open>append_completed_plan_item\<close>) return the store in both cases. \<open>u32\<close> counters are \<open>32 word\<close>;
  columns of type \<open>INTEGER\<close> are \<open>nat\<close> with the conversion to \<open>i64\<close> written out where a caller
  supplies the number. \<open>Utc::now\<close> is an argument. A SELECT by key is \<open>find\<close>, an UPDATE with its
  condition \<open>update_where\<close>, and the number of changed rows \<open>count_where\<close>. Every loop of the
  modelled code runs over a finite list, so the recursions are structural and no fuel is
  needed.

  \<^bold>\<open>What is a parameter.\<close> SHA-256 (\<open>ring\<close>), \<open>uuid\<close> parsing and the JSON codecs (\<open>serde_json\<close>) are
  fields of the record \<open>env\<close> of the store, or arguments (\<open>serde\<close> in Provider_Json, the digest
  functions in Tool_Receipt, \<open>h\<close> in Danger_Action, \<open>sha\<close> in Outbox and File_Journal, \<open>H\<close>, the
  hash of a serialised proposal, and \<open>hex\<close>, that of a claim id, in Proposal_Store and Review_Workflow). UUIDs are
  arguments of the calls that draw them. No law is assumed of them, except where a property names one
  as a hypothesis: the codec that reads back what it wrote (C25), UUIDs that differ (C33), no NUL in the
  text of a UUID (C29). Whether
  SQLite enforces foreign keys is a parameter of \<open>revoke\<close>; the library is compiled so that it does,
  and C28 assumes it.

  \<^bold>\<open>What the properties show.\<close> Plans: the validation is equivalent to a declarative contract,
  and the schedule and the completion rules deliver what the contract promises. Budget: the
  ceilings hold for every sequence of calls, and the stored usage never falls. Provider
  boundary: no provider-authored digest and no provider text gets through. Receipts: a proof
  of success or of no dispatch is only issued for histories in which it is true. Store: the
  invariant, the life cycle of runs, and the exact effect of completion and recovery.
  Danger actions: what is authorised was shown and confirmed. Outbox: revisions without gaps,
  deliveries settled once, replays of the latest state only. Journal: the digest that is found
  decides a prepared write.
  Proposals: no effect is dispatched twice, and an acceptance is for the proposal that was claimed. Permissions: no grant is used twice, and a network consent comes from
  the accepted review of exactly its scope. Memory: the context is what the records say, no fact is
  remembered twice, and a memory that left the context never comes back. Conversations: every
  transcript is well formed and numbered without gaps, and nothing of a failed, cancelled or interrupted turn is
  given to a model.
  C17 and C38 record where the code does not do what its comments say; so do the lemmas
  \<open>dangling_dependency_captured\<close> (Work_Plan), \<open>plan_ceiling_is_not_enforced\<close> (Work_Budget),
  \<open>attempts_items_and_runs_disagree\<close> and \<open>replayed_end_stops_the_new_run\<close> (Task_Claims),
  \<open>erased_fact_is_remembered_again\<close> (Memory_Claims) and
  \<open>restored_conversation_in_archived_project\<close> (Conversation_Claims).

  \<^bold>\<open>Not modelled.\<close> The rest of the task store (artifact drafts, materialisation and undo, tool
  reviews, attention items, memory uses, snapshots for the user interface, schema migration)
  and its SQLite engine: tables are lists, transactions are total functions, and a poisoned
  lock or an input/output error of the database is outside. The migrations of the
  memory and the conversation databases, the assembly of prompts (\<open>agent/conversation_context.rs\<close>), the notes and the learning of life model candidates. The asynchronous orchestration
  (\<open>canonical_work_runtime.rs\<close>, \<open>persistence_coordinator.rs\<close>), the text of the native dialog, language model and network protocols, key stores, files,
  vectors and the user interface are input and output or glue around the parts above.
\<close>

end
